(* ===== verification/Prelude.thy ===== *)
theory Prelude
  imports Complex_Main "HOL-Library.Product_Lexorder"
begin

text \<open>
  Shared vocabulary of the development: the parts of the Python language and its standard
  library the modelled modules use (text operations, ordered de-duplication, first-maximum
  selection, dictionaries that keep insertion order), the exception-and-state computations in
  which the services are written, and the generic lemmas the component theories rest on.

  Text is \<^typ>\<open>string\<close>, a list of characters with code points 0 to 255 (the Latin-1 range);
  white space and case mappings are those Python uses on that range. Instants
  (timezone-aware \<open>datetime\<close> values) are \<^typ>\<open>int\<close>, microseconds on one time line. Like every
  \<open>datetime\<close>, an instant is truthy, so Python's \<open>a or b\<close> on optional instants is
  \<open>or_else\<close>.
\<close>

section \<open>Collections of rewrite rules\<close>

named_theorems prog_simps \<open>unfolding rules for exception-and-state computations\<close>
named_theorems text_simps \<open>characteristic equations of the text operations\<close>

section \<open>Types shared by the components\<close>

type_synonym instant = int
type_synonym str = string

text \<open>\<open>a or b\<close> on optional values whose payload is always truthy.\<close>

definition or_else :: "'a option \<Rightarrow> 'a option \<Rightarrow> 'a option" where
  "or_else a b = (case a of Some x \<Rightarrow> Some x | None \<Rightarrow> b)"

lemma or_else_simps [simp]:
  "or_else (Some x) b = Some x" "or_else None b = b"
  by (simp_all add: or_else_def)

lemma or_else_None_iff [simp]: "or_else a b = None \<longleftrightarrow> a = None \<and> b = None"
  by (cases a) simp_all

section \<open>Text\<close>

text \<open>\<open>str.isspace\<close> on one character of the Latin-1 range.\<close>

definition is_space :: "char \<Rightarrow> bool" where
  "is_space c = (let n = (of_char c :: nat) in
     (9 \<le> n \<and> n \<le> 13) \<or> (28 \<le> n \<and> n \<le> 32) \<or> n = 133 \<or> n = 160)"

definition strip :: "str \<Rightarrow> str" where
  "strip s = rev (dropWhile is_space (rev (dropWhile is_space s)))"

text \<open>\<open>str.split()\<close> with no separator: maximal runs of non-space characters.\<close>

fun split_acc :: "str \<Rightarrow> str \<Rightarrow> str list" where
  "split_acc cur [] = (if cur = [] then [] else [rev cur])"
| "split_acc cur (c # cs) =
     (if is_space c then (if cur = [] then [] else [rev cur]) @ split_acc [] cs
      else split_acc (c # cur) cs)"

definition split_words :: "str \<Rightarrow> str list" where
  "split_words s = split_acc [] s"

fun join :: "str \<Rightarrow> str list \<Rightarrow> str" where
  "join sep [] = []"
| "join sep [w] = w"
| "join sep (w # ws) = w @ sep @ join sep ws"

definition upper_latin1 :: "char \<Rightarrow> bool" where
  "upper_latin1 c = (let n = (of_char c :: nat) in
     (65 \<le> n \<and> n \<le> 90) \<or> (192 \<le> n \<and> n \<le> 222 \<and> n \<noteq> 215))"

definition lower_char :: "char \<Rightarrow> char" where
  "lower_char c = (if upper_latin1 c then char_of (of_char c + 32 :: nat) else c)"

definition lower :: "str \<Rightarrow> str" where
  "lower s = map lower_char s"

text \<open>
  \<open>str.casefold\<close>: lower case, and the sharp s (223) becomes two letters. (The micro sign folds
  to a code point outside the range and is left alone, which keeps equality of folded texts.)
\<close>

definition casefold :: "str \<Rightarrow> str" where
  "casefold s = concat (map (\<lambda>c. if (of_char c :: nat) = 223 then ''ss'' else [lower_char c]) s)"

fun starts_with :: "str \<Rightarrow> str \<Rightarrow> bool" where
  "starts_with s [] = True"
| "starts_with [] (p # ps) = False"
| "starts_with (c # cs) (p # ps) = (c = p \<and> starts_with cs ps)"

definition ends_with :: "str \<Rightarrow> str \<Rightarrow> bool" where
  "ends_with s suffix = starts_with (rev s) (rev suffix)"

lemma split_acc_word: "\<forall>c\<in>set s. \<not> is_space c \<Longrightarrow> cur \<noteq> [] \<or> s \<noteq> [] \<Longrightarrow> split_acc cur s = [rev cur @ s]"
  by (induction s arbitrary: cur) simp_all

lemma split_words_word: "\<forall>c\<in>set s. \<not> is_space c \<Longrightarrow> s \<noteq> [] \<Longrightarrow> split_words s = [s]"
  by (simp add: split_words_def split_acc_word)

lemma casefold_lower_id:
  "\<forall>c\<in>set s. \<not> upper_latin1 c \<and> (of_char c :: nat) \<noteq> 223 \<Longrightarrow> casefold s = s"
  unfolding casefold_def by (induction s) (simp_all add: lower_char_def)

lemma starts_with_append [simp]: "starts_with (p @ s) p"
  by (induction p) simp_all

lemma starts_with_iff: "starts_with s p \<longleftrightarrow> (\<exists>r. s = p @ r)"
  by (induction s p rule: starts_with.induct) auto

lemma strip_Nil [simp]: "strip [] = []"
  by (simp add: strip_def)

lemma dropWhile_hd: "dropWhile P xs \<noteq> [] \<Longrightarrow> \<not> P (hd (dropWhile P xs))"
  by (rule hd_dropWhile)

lemma strip_last: "strip s \<noteq> [] \<Longrightarrow> \<not> is_space (last (strip s))"
  by (metis strip_def hd_dropWhile last_rev rev_is_Nil_conv)

lemma dropWhile_id: "xs = [] \<or> \<not> P (hd xs) \<Longrightarrow> dropWhile P xs = xs"
  by (cases xs) auto

text \<open>Stripping twice is stripping once: the normal form the services rely on.\<close>

lemma strip_shape: "strip s = [] \<or> (\<not> is_space (hd (strip s)) \<and> \<not> is_space (last (strip s)))"
proof (cases "strip s = []")
  case False
  let ?d = "dropWhile is_space s"
  obtain w where w: "?d = strip s @ w"
    by (metis strip_def rev_append rev_rev_ident takeWhile_dropWhile_id)
  with False have "hd ?d = hd (strip s)" "?d \<noteq> []"
    by (metis hd_append2, auto)
  then show ?thesis using hd_dropWhile [of is_space s] strip_last [OF False] by simp
qed simp

lemma strip_id: "s = [] \<or> (\<not> is_space (hd s) \<and> \<not> is_space (last s)) \<Longrightarrow> strip s = s"
  by (auto simp: strip_def dropWhile_id hd_rev)

lemma strip_strip [simp]: "strip (strip s) = strip s"
  by (rule strip_id) (rule strip_shape)

section \<open>Integers as text\<close>

text \<open>\<open>str(i)\<close> of an integer.\<close>

fun nat_digits :: "nat \<Rightarrow> str" where
  "nat_digits n = (if n < 10 then [char_of (48 + n)] else nat_digits (n div 10) @ [char_of (48 + n mod 10)])"

declare nat_digits.simps [simp del]

definition int_text :: "int \<Rightarrow> str" where
  "int_text i = (if i < 0 then ''-'' @ nat_digits (nat (- i)) else nat_digits (nat i))"

text \<open>
  \<open>int(text)\<close>: surrounding white space and a sign are accepted, single underscores may stand
  between digits, and more than 4300 digits are refused. The only decimal digits of the Latin-1
  range are the ASCII ones. None is the \<open>ValueError\<close>.
\<close>

definition is_digit :: "char \<Rightarrow> bool" where
  "is_digit c = (48 \<le> (of_char c :: nat) \<and> (of_char c :: nat) \<le> 57)"

fun digits_value :: "nat \<Rightarrow> str \<Rightarrow> nat option" where
  "digits_value acc [] = Some acc"
| "digits_value acc (c # cs) =
     (if is_digit c then digits_value (10 * acc + (of_char c - 48)) cs
      else if c = CHR ''_'' \<and> cs \<noteq> [] \<and> is_digit (hd cs) then digits_value acc cs
      else None)"

definition int_max_str_digits :: nat where
  "int_max_str_digits = 4300"

definition nat_of_text :: "str \<Rightarrow> nat option" where
  "nat_of_text s = (if s = [] \<or> \<not> is_digit (hd s) \<or> int_max_str_digits < length (filter is_digit s) then None
                    else digits_value 0 s)"

definition py_int :: "str \<Rightarrow> int option" where
  "py_int s = (case strip s of
       [] \<Rightarrow> None
     | c # cs \<Rightarrow> if c = CHR ''-'' then map_option (\<lambda>n. - int n) (nat_of_text cs)
                 else if c = CHR ''+'' then map_option int (nat_of_text cs)
                 else map_option int (nat_of_text (c # cs)))"

lemma of_char_digit [simp]: "d < 10 \<Longrightarrow> of_char (char_of (48 + d) :: char) = (48 + d :: nat)"
  by simp

lemma is_digit_char_of [simp]: "d < 10 \<Longrightarrow> is_digit (char_of (48 + d :: nat))"
  by (simp add: is_digit_def)

lemma nat_digits_digits: "c \<in> set (nat_digits n) \<Longrightarrow> is_digit c"
proof (induction n rule: nat_digits.induct)
  case (1 n)
  then show ?case by (subst (asm) (2) nat_digits.simps) (auto split: if_splits)
qed

lemma nat_digits_nonempty [simp]: "nat_digits n \<noteq> []"
  by (subst nat_digits.simps) simp

lemma digits_value_append:
  "\<forall>c\<in>set s. is_digit c \<Longrightarrow> digits_value acc (s @ t) = digits_value (the (digits_value acc s)) t"
  by (induction s arbitrary: acc) simp_all

lemma digits_value_nat_digits: "digits_value 0 (nat_digits n) = Some n"
proof (induction n rule: nat_digits.induct)
  case (1 n)
  have "digits_value n' [char_of (48 + n mod 10)] = Some (10 * n' + n mod 10)" for n'
    by simp
  with 1 show ?case
    by (subst nat_digits.simps)
       (auto simp: digits_value_append nat_digits_digits)
qed

lemma nat_of_text_digits:
  "length (nat_digits n) \<le> int_max_str_digits \<Longrightarrow> nat_of_text (nat_digits n) = Some n"
  using nat_digits_digits [of _ n] hd_in_set [of "nat_digits n"]
  by (auto simp: nat_of_text_def digits_value_nat_digits filter_id_conv)

lemma digit_not_space: "is_digit c \<Longrightarrow> \<not> is_space c \<and> c \<noteq> CHR ''-'' \<and> c \<noteq> CHR ''+''"
  by (auto simp: is_digit_def is_space_def Let_def)

lemma strip_int_text [simp]: "strip (int_text i) = int_text i"
proof (rule strip_id)
  have "is_digit (hd (nat_digits n)) \<and> is_digit (last (nat_digits n))" for n
    by (intro conjI nat_digits_digits [of _ n] hd_in_set last_in_set) simp_all
  moreover have "\<not> is_space (CHR ''-'')" by (simp add: is_space_def)
  ultimately show "int_text i = [] \<or> (\<not> is_space (hd (int_text i)) \<and> \<not> is_space (last (int_text i)))"
    by (auto simp: int_text_def dest: digit_not_space)
qed

lemma int_text_nonempty [simp]: "int_text i \<noteq> []"
  by (simp add: int_text_def)

lemma nat_digits_inject [simp]: "nat_digits m = nat_digits n \<longleftrightarrow> m = n"
  by (metis digits_value_nat_digits option.inject)

lemma minus_not_digits [simp]: "CHR ''-'' # s \<noteq> nat_digits n" "nat_digits n \<noteq> CHR ''-'' # s"
  by (metis digit_not_space nat_digits_digits list.set_intros(1))+

lemma int_text_inject [simp]: "int_text i = int_text j \<longleftrightarrow> i = j"
  by (auto simp: int_text_def)

text \<open>Integers whose text stays within the conversion limit read back as themselves.\<close>

definition short_int :: "int \<Rightarrow> bool" where
  "short_int i \<longleftrightarrow> length (int_text i) \<le> int_max_str_digits"

definition int64 :: "int \<Rightarrow> bool" where
  "int64 i \<longleftrightarrow> - (2 ^ 63) \<le> i \<and> i < 2 ^ 63"

lemma nat_digits_length: "n < 10 ^ Suc k \<Longrightarrow> length (nat_digits n) \<le> Suc k"
proof (induction k arbitrary: n)
  case 0
  then show ?case by (subst nat_digits.simps) simp
next
  case (Suc k)
  have "length (nat_digits (n div 10)) \<le> Suc k"
    by (rule Suc.IH) (use Suc.prems in \<open>simp add: less_mult_imp_div_less mult.commute\<close>)
  then show ?case by (subst nat_digits.simps) simp
qed

lemma int64_short: "int64 i \<Longrightarrow> short_int i"
proof -
  assume "int64 i"
  then have "nat \<bar>i\<bar> < 10 ^ Suc 19" by (simp add: int64_def) linarith
  then have "length (nat_digits (nat \<bar>i\<bar>)) \<le> Suc 19" by (rule nat_digits_length)
  moreover have "length (int_text i) \<le> Suc (length (nat_digits (nat \<bar>i\<bar>)))"
    by (auto simp: int_text_def abs_if)
  ultimately show ?thesis by (simp add: short_int_def int_max_str_digits_def)
qed

lemma py_int_int_text:
  assumes "short_int i"
  shows "py_int (int_text i) = Some i"
proof (cases "i < 0")
  case True
  with assms have "nat_of_text (nat_digits (nat (- i))) = Some (nat (- i))"
    by (intro nat_of_text_digits) (simp add: short_int_def int_text_def)
  moreover have "strip (int_text i) = CHR ''-'' # nat_digits (nat (- i))"
    using True by (simp only: strip_int_text) (simp add: int_text_def)
  ultimately show ?thesis using True by (simp add: py_int_def del: strip_int_text)
next
  case False
  obtain c cs where d: "nat_digits (nat i) = c # cs" by (cases "nat_digits (nat i)") simp_all
  then have "is_digit c" using nat_digits_digits [of c "nat i"] by simp
  moreover have "nat_of_text (nat_digits (nat i)) = Some (nat i)"
    using assms False by (intro nat_of_text_digits) (simp add: short_int_def int_text_def)
  ultimately show ?thesis using False d strip_int_text [of i]
    by (auto simp: py_int_def int_text_def dest: digit_not_space)
qed

section \<open>Ordered de-duplication\<close>

text \<open>\<open>tuple(dict.fromkeys(xs))\<close>: the first occurrence of each element, in order.\<close>

definition fromkeys :: "'a list \<Rightarrow> 'a list" where
  "fromkeys xs = fold (\<lambda>x acc. if x \<in> set acc then acc else acc @ [x]) xs []"

lemma fold_fromkeys_set:
  "set (fold (\<lambda>x acc. if x \<in> set acc then acc else acc @ [x]) xs acc) = set acc \<union> set xs"
  by (induction xs arbitrary: acc) auto

lemma fold_fromkeys_distinct:
  "distinct acc \<Longrightarrow> distinct (fold (\<lambda>x acc. if x \<in> set acc then acc else acc @ [x]) xs acc)"
  by (induction xs arbitrary: acc) auto

lemma fold_fromkeys_id:
  "distinct (acc @ xs) \<Longrightarrow>
   fold (\<lambda>x acc. if x \<in> set acc then acc else acc @ [x]) xs acc = acc @ xs"
  by (induction xs arbitrary: acc) auto

lemma set_fromkeys [simp]: "set (fromkeys xs) = set xs"
  by (simp add: fromkeys_def fold_fromkeys_set)

lemma distinct_fromkeys [simp]: "distinct (fromkeys xs)"
  by (simp add: fromkeys_def fold_fromkeys_distinct)

lemma fromkeys_distinct_id: "distinct xs \<Longrightarrow> fromkeys xs = xs"
  using fold_fromkeys_id [of "[]" xs] by (simp add: fromkeys_def)

lemma fromkeys_idem [simp]: "fromkeys (fromkeys xs) = fromkeys xs"
  by (rule fromkeys_distinct_id) simp

lemma fromkeys_Nil [simp]: "fromkeys [] = []"
  by (simp add: fromkeys_def)

lemma fromkeys_single [simp]: "fromkeys [x] = [x]"
  by (simp add: fromkeys_def)

lemma fromkeys_eq_Nil_iff [simp]: "fromkeys xs = [] \<longleftrightarrow> xs = []"
  using set_fromkeys [of xs] by (metis set_empty)

section \<open>First maximum\<close>

text \<open>\<open>max(xs, key=f, default=None)\<close>: the first element whose key no other exceeds.\<close>

fun max_from :: "('a \<Rightarrow> 'k::linorder) \<Rightarrow> 'a \<Rightarrow> 'a list \<Rightarrow> 'a" where
  "max_from f best [] = best"
| "max_from f best (x # xs) = max_from f (if f best < f x then x else best) xs"

definition max_by :: "('a \<Rightarrow> 'k::linorder) \<Rightarrow> 'a list \<Rightarrow> 'a option" where
  "max_by f xs = (case xs of [] \<Rightarrow> None | x # ys \<Rightarrow> Some (max_from f x ys))"

lemma max_from_in: "max_from f b xs \<in> insert b (set xs)"
proof (induction xs arbitrary: b)
  case (Cons x xs)
  then show ?case using Cons.IH [of x] Cons.IH [of b] by auto
qed simp

lemma max_from_ge_start: "f b \<le> f (max_from f b xs)"
proof (induction xs arbitrary: b)
  case (Cons x xs)
  have "f b \<le> f (if f b < f x then x else b)" by (simp add: less_imp_le)
  also have "\<dots> \<le> f (max_from f (if f b < f x then x else b) xs)" by (rule Cons.IH)
  finally show ?case by simp
qed simp

lemma max_from_ge_mem: "y \<in> set xs \<Longrightarrow> f y \<le> f (max_from f b xs)"
proof (induction xs arbitrary: b)
  case (Cons x xs)
  let ?m = "if f b < f x then x else b"
  show ?case
  proof (cases "y = x")
    case True
    have "f x \<le> f ?m" by (simp add: not_less)
    also have "\<dots> \<le> f (max_from f ?m xs)" by (rule max_from_ge_start)
    finally show ?thesis using True by simp
  next
    case False
    then show ?thesis using Cons.IH [of ?m] Cons.prems by simp
  qed
qed simp

lemma max_by_None [simp]: "max_by f xs = None \<longleftrightarrow> xs = []"
  by (cases xs) (simp_all add: max_by_def)

lemma max_by_in: "max_by f xs = Some m \<Longrightarrow> m \<in> set xs"
  using max_from_in [of f] by (cases xs) (auto simp: max_by_def)

lemma max_by_ge:
  assumes "max_by f xs = Some m" and "y \<in> set xs"
  shows "f y \<le> f m"
proof (cases xs)
  case (Cons x ys)
  with assms show ?thesis
    using max_from_ge_start [of f x ys] max_from_ge_mem [of y ys f x] by (auto simp: max_by_def)
qed (use assms in simp)

lemma max_by_Nil [simp]: "max_by f [] = None"
  by simp

lemma max_by_single [simp]: "max_by f [x] = Some x"
  by (simp add: max_by_def)

section \<open>Dictionaries that keep insertion order\<close>

fun dict_set :: "'k \<Rightarrow> 'v \<Rightarrow> ('k \<times> 'v) list \<Rightarrow> ('k \<times> 'v) list" where
  "dict_set k v [] = [(k, v)]"
| "dict_set k v ((k', v') # d) = (if k = k' then (k, v) # d else (k', v') # dict_set k v d)"

lemma map_of_dict_set [simp]: "map_of (dict_set k v d) = (map_of d)(k \<mapsto> v)"
  by (induction d) auto

lemma keys_dict_set [simp]: "set (map fst (dict_set k v d)) = insert k (set (map fst d))"
  by (induction k v d rule: dict_set.induct) (auto simp del: set_map)

lemma distinct_dict_set: "distinct (map fst d) \<Longrightarrow> distinct (map fst (dict_set k v d))"
  by (induction k v d rule: dict_set.induct) (auto simp del: set_map simp: keys_dict_set)

section \<open>JSON values\<close>

text \<open>\<open>JSONValue\<close>: what payloads and metadata hold; an object keeps its insertion order.\<close>

datatype json =
  JNull | JBool bool | JInt int | JFloat rat | JStr str | JTime instant
| JList "json list" | JObj "(str \<times> json) list"

type_synonym json_object = "(str \<times> json) list"

text \<open>\<open>value.get(key)\<close>: absent keys give None, which JSON null gives as well.\<close>

definition json_get :: "str \<Rightarrow> json_object \<Rightarrow> json" where
  "json_get k d = (case map_of d k of None \<Rightarrow> JNull | Some v \<Rightarrow> v)"

section \<open>Checked decoding\<close>

text \<open>Pure code that may raise returns a sum; the left value is the exception.\<close>

definition and_then :: "'e + 'a \<Rightarrow> ('a \<Rightarrow> 'e + 'b) \<Rightarrow> 'e + 'b" where
  "and_then m f = (case m of Inl e \<Rightarrow> Inl e | Inr x \<Rightarrow> f x)"

lemma and_then_simps [simp]: "and_then (Inl e) f = Inl e" "and_then (Inr x) f = f x"
  by (simp_all add: and_then_def)

lemma and_then_Inr: "and_then m f = Inr y \<longleftrightarrow> (\<exists>x. m = Inr x \<and> f x = Inr y)"
  by (cases m) simp_all

fun traverse :: "('a \<Rightarrow> 'e + 'b) \<Rightarrow> 'a list \<Rightarrow> 'e + 'b list" where
  "traverse f [] = Inr []"
| "traverse f (x # xs) = and_then (f x) (\<lambda>y. and_then (traverse f xs) (\<lambda>ys. Inr (y # ys)))"

lemma traverse_map_id: "(\<And>x. x \<in> set xs \<Longrightarrow> f (g x) = Inr x) \<Longrightarrow> traverse f (map g xs) = Inr xs"
  by (induction xs) simp_all

lemma traverse_length: "traverse f xs = Inr ys \<Longrightarrow> length ys = length xs"
  by (induction xs arbitrary: ys) (auto simp: and_then_Inr)

section \<open>Exceptions and state\<close>

text \<open>
  A service method reads and writes the state of the world and either returns or raises.
  An exception keeps the effects made before it: the state comes back in both cases.
\<close>

type_synonym ('s, 'e, 'a) prog = "'s \<Rightarrow> ('e + 'a) \<times> 's"

definition ret :: "'a \<Rightarrow> ('s, 'e, 'a) prog" where
  "ret x s = (Inr x, s)"

definition raise :: "'e \<Rightarrow> ('s, 'e, 'a) prog" where
  "raise e s = (Inl e, s)"

definition bind :: "('s, 'e, 'a) prog \<Rightarrow> ('a \<Rightarrow> ('s, 'e, 'b) prog) \<Rightarrow> ('s, 'e, 'b) prog" where
  "bind m f s = (case m s of (Inl e, s') \<Rightarrow> (Inl e, s') | (Inr x, s') \<Rightarrow> f x s')"

definition seq :: "('s, 'e, 'a) prog \<Rightarrow> ('s, 'e, 'b) prog \<Rightarrow> ('s, 'e, 'b) prog" where
  "seq m n = bind m (\<lambda>_. n)"

definition gets :: "('s \<Rightarrow> 'a) \<Rightarrow> ('s, 'e, 'a) prog" where
  "gets f s = (Inr (f s), s)"

definition modify :: "('s \<Rightarrow> 's) \<Rightarrow> ('s, 'e, unit) prog" where
  "modify f s = (Inr (), f s)"

definition whenE :: "bool \<Rightarrow> ('s, 'e, unit) prog \<Rightarrow> ('s, 'e, unit) prog" where
  "whenE b m = (if b then m else ret ())"

text \<open>\<open>try: m except Exception as e: h e\<close>.\<close>

definition try_catch :: "('s, 'e, 'a) prog \<Rightarrow> ('e \<Rightarrow> ('s, 'e, 'a) prog) \<Rightarrow> ('s, 'e, 'a) prog" where
  "try_catch m h s = (case m s of (Inl e, s') \<Rightarrow> h e s' | (Inr x, s') \<Rightarrow> (Inr x, s'))"

declare ret_def [prog_simps] raise_def [prog_simps] bind_def [prog_simps] seq_def [prog_simps]
  gets_def [prog_simps] modify_def [prog_simps] whenE_def [prog_simps] try_catch_def [prog_simps]

text \<open>Inversion of computations that return.\<close>

lemma bind_Inr:
  "bind m f s = (Inr y, s') \<longleftrightarrow> (\<exists>x t. m s = (Inr x, t) \<and> f x t = (Inr y, s'))"
  by (auto simp: bind_def split: prod.splits sum.splits)

lemma seq_Inr:
  "seq m n s = (Inr y, s') \<longleftrightarrow> (\<exists>x t. m s = (Inr x, t) \<and> n t = (Inr y, s'))"
  by (simp add: seq_def bind_Inr)

lemma ret_Inr: "ret x s = (Inr y, s') \<longleftrightarrow> y = x \<and> s' = s"
  by (auto simp: ret_def)

lemma raise_Inr: "raise e s \<noteq> (Inr y, s')"
  by (simp add: raise_def)

lemma gets_Inr: "gets f s = (Inr y, s') \<longleftrightarrow> y = f s \<and> s' = s"
  by (auto simp: gets_def)

lemma modify_Inr: "modify f s = (Inr y, s') \<longleftrightarrow> s' = f s"
  by (auto simp: modify_def)

lemmas returns_simps = bind_Inr seq_Inr ret_Inr raise_Inr gets_Inr modify_Inr

text \<open>
  An invariant kept by a computation, whether it returns or raises; the rules are collected, so
  that a component shows it for its own operations and composes the rest.
\<close>

definition keeps :: "('s \<Rightarrow> bool) \<Rightarrow> ('s, 'e, 'a) prog \<Rightarrow> bool" where
  "keeps I m \<longleftrightarrow> (\<forall>s. I s \<longrightarrow> I (snd (m s)))"

named_theorems keeps_rules \<open>composition rules for kept invariants\<close>

lemma keeps_snd: "keeps I m \<Longrightarrow> I s \<Longrightarrow> I (snd (m s))"
  by (simp add: keeps_def)

lemma keepsD: "keeps I m \<Longrightarrow> I s \<Longrightarrow> m s = (r, s') \<Longrightarrow> I s'"
  unfolding keeps_def by (metis snd_conv)

lemma keeps_ret [keeps_rules]: "keeps I (ret x)"
  by (simp add: keeps_def ret_def)

lemma keeps_raise [keeps_rules]: "keeps I (raise e)"
  by (simp add: keeps_def raise_def)

lemma keeps_gets [keeps_rules]: "keeps I (gets f)"
  by (simp add: keeps_def gets_def)

lemma keeps_modify: "(\<And>s. I s \<Longrightarrow> I (f s)) \<Longrightarrow> keeps I (modify f)"
  by (simp add: keeps_def modify_def)

lemma keeps_bind [keeps_rules]: "keeps I m \<Longrightarrow> (\<And>x. keeps I (f x)) \<Longrightarrow> keeps I (bind m f)"
  by (auto simp: keeps_def bind_def split: prod.split sum.split)

lemma keeps_bind_where:
  assumes "keeps I m" and "\<And>s x s'. m s = (Inr x, s') \<Longrightarrow> Q x" and "\<And>x. Q x \<Longrightarrow> keeps I (f x)"
  shows "keeps I (bind m f)"
  unfolding keeps_def
proof (intro allI impI)
  fix s assume "I s"
  with assms show "I (snd (bind m f s))"
    by (cases "m s"; cases "fst (m s)") (auto simp: bind_def keeps_def dest: keepsD)
qed

lemma keeps_seq [keeps_rules]: "keeps I m \<Longrightarrow> keeps I n \<Longrightarrow> keeps I (seq m n)"
  unfolding seq_def by (rule keeps_bind)

lemma keeps_whenE [keeps_rules]: "keeps I m \<Longrightarrow> keeps I (whenE b m)"
  by (simp add: whenE_def keeps_ret)

lemma keeps_try_catch [keeps_rules]:
  "keeps I m \<Longrightarrow> (\<And>e. keeps I (h e)) \<Longrightarrow> keeps I (try_catch m h)"
  by (auto simp: keeps_def try_catch_def split: prod.split sum.split)

lemma keeps_if [keeps_rules]:
  "(b \<Longrightarrow> keeps I m) \<Longrightarrow> (\<not> b \<Longrightarrow> keeps I n) \<Longrightarrow> keeps I (if b then m else n)"
  by simp

lemma keeps_option [keeps_rules]:
  "keeps I m \<Longrightarrow> (\<And>x. keeps I (f x)) \<Longrightarrow> keeps I (case v of None \<Rightarrow> m | Some x \<Rightarrow> f x)"
  by (simp split: option.split)

text \<open>
  Hoare-style reasoning on computations: \<open>runs_to P m Q E\<close> says that from a state satisfying
  \<open>P\<close> the computation ends in \<open>Q x\<close> when it returns \<open>x\<close> and in \<open>E e\<close> when it raises \<open>e\<close>.
\<close>

definition runs_to ::
  "('s \<Rightarrow> bool) \<Rightarrow> ('s, 'e, 'a) prog \<Rightarrow> ('a \<Rightarrow> 's \<Rightarrow> bool) \<Rightarrow> ('e \<Rightarrow> 's \<Rightarrow> bool) \<Rightarrow> bool" where
  "runs_to P m Q E \<longleftrightarrow>
     (\<forall>s. P s \<longrightarrow> (case m s of (Inl e, s') \<Rightarrow> E e s' | (Inr x, s') \<Rightarrow> Q x s'))"

lemma runs_to_bind:
  assumes "runs_to P m R E" and "\<And>x. runs_to (R x) (f x) Q E"
  shows "runs_to P (bind m f) Q E"
  unfolding runs_to_def
proof (intro allI impI)
  fix s assume "P s"
  with assms(1) have "case m s of (Inl e, s') \<Rightarrow> E e s' | (Inr x, s') \<Rightarrow> R x s'"
    by (simp add: runs_to_def)
  with assms(2) show "case bind m f s of (Inl e, s') \<Rightarrow> E e s' | (Inr x, s') \<Rightarrow> Q x s'"
    unfolding bind_def runs_to_def by (fastforce split: prod.splits sum.splits)
qed

lemma runs_to_try_catch:
  assumes "runs_to P m Q H" and "\<And>e. runs_to (H e) (h e) Q E"
  shows "runs_to P (try_catch m h) Q E"
  unfolding runs_to_def
proof (intro allI impI)
  fix s assume "P s"
  with assms(1) have "case m s of (Inl e, s') \<Rightarrow> H e s' | (Inr x, s') \<Rightarrow> Q x s'"
    by (simp add: runs_to_def)
  with assms(2) show "case try_catch m h s of (Inl e, s') \<Rightarrow> E e s' | (Inr x, s') \<Rightarrow> Q x s'"
    unfolding try_catch_def runs_to_def by (fastforce split: prod.splits sum.splits)
qed

lemma runs_to_seq:
  assumes "runs_to P m (\<lambda>_. R) E" and "runs_to R n Q E"
  shows "runs_to P (seq m n) Q E"
  unfolding seq_def by (rule runs_to_bind [OF assms(1)]) (rule assms(2))

lemma runs_to_ret: "(\<And>s. P s \<Longrightarrow> Q x s) \<Longrightarrow> runs_to P (ret x) Q E"
  by (simp add: runs_to_def ret_def)

lemma runs_to_raise: "(\<And>s. P s \<Longrightarrow> E e s) \<Longrightarrow> runs_to P (raise e) Q E"
  by (simp add: runs_to_def raise_def)

lemma runs_to_modify: "(\<And>s. P s \<Longrightarrow> Q () (f s)) \<Longrightarrow> runs_to P (modify f) Q E"
  by (simp add: runs_to_def modify_def)

lemma runs_to_gets: "(\<And>s. P s \<Longrightarrow> Q (f s) s) \<Longrightarrow> runs_to P (gets f) Q E"
  by (simp add: runs_to_def gets_def)

lemma runs_to_whenE:
  assumes "b \<Longrightarrow> runs_to P m Q E" and "\<And>s. \<not> b \<Longrightarrow> P s \<Longrightarrow> Q () s"
  shows "runs_to P (whenE b m) Q E"
  using assms by (auto simp: whenE_def runs_to_def ret_def)

lemma runs_to_weaken:
  assumes "runs_to P m Q E" and "\<And>s. P' s \<Longrightarrow> P s"
    and "\<And>x s. Q x s \<Longrightarrow> Q' x s" and "\<And>e s. E e s \<Longrightarrow> E' e s"
  shows "runs_to P' m Q' E'"
  using assms unfolding runs_to_def by (fastforce split: prod.splits sum.splits)

lemma runs_to_outcome:
  assumes "runs_to P m Q E" and "P s"
  shows "case m s of (Inl e, s') \<Rightarrow> E e s' | (Inr x, s') \<Rightarrow> Q x s'"
  using assms by (simp add: runs_to_def)

lemma runs_to_at:
  "runs_to (\<lambda>s. s = s0) m Q E \<longleftrightarrow> (case m s0 of (Inl e, s') \<Rightarrow> E e s' | (Inr x, s') \<Rightarrow> Q x s')"
  by (simp add: runs_to_def)

lemma seq_ret_unit: "seq m (ret ()) = m" for m :: "('s, 'e, unit) prog"
  by (auto simp: fun_eq_iff seq_def bind_def ret_def split: prod.split sum.split)

lemma runs_to_pure: "(\<phi> \<Longrightarrow> runs_to P m Q E) \<Longrightarrow> runs_to (\<lambda>s. \<phi> \<and> P s) m Q E"
  by (auto simp: runs_to_def)

lemma runs_to_ex:
  assumes "\<And>x. runs_to (P x) m Q E"
  shows "runs_to (\<lambda>s. \<exists>x. P x s) m Q E"
  unfolding runs_to_def
proof (intro allI impI, elim exE)
  fix s x assume "P x s"
  then show "case m s of (Inl e, s') \<Rightarrow> E e s' | (Inr x, s') \<Rightarrow> Q x s'"
    by (rule runs_to_outcome [OF assms])
qed

end
