(* ===== verification/Py_Float.thy ===== *)
theory Py_Float
  imports Prelude
begin

text \<open>
  Python floats. A finite float is the rational number it denotes; \<open>fl\<close> rounds a rational to
  the nearest IEEE double (53 significant bits, ties to even), and every float operation is the
  exact operation followed by \<open>fl\<close>. The exponent range is not bounded: the modelled values are
  scores between 0 and 1 and counts, far from overflow and from the subnormal range.
\<close>

type_synonym pyfloat = rat

fun bit_length :: "nat \<Rightarrow> nat" where
  "bit_length n = (if n = 0 then 0 else Suc (bit_length (n div 2)))"

declare bit_length.simps [simp del]

definition pow2 :: "int \<Rightarrow> rat" where
  "pow2 e = (if 0 \<le> e then 2 ^ nat e else 1 / 2 ^ nat (- e))"

text \<open>The exponent of a positive rational: \<open>pow2 (exponent x) \<le> x < pow2 (exponent x + 1)\<close>.\<close>

definition exponent :: "rat \<Rightarrow> int" where
  "exponent x = (let (p, q) = quotient_of x;
                     e = int (bit_length (nat p)) - int (bit_length (nat q))
                 in if pow2 e \<le> x then e else e - 1)"

definition round_half_even :: "rat \<Rightarrow> int" where
  "round_half_even y = (let f = \<lfloor>y\<rfloor>; d = y - of_int f in
     if d < 1 / 2 then f else if d > 1 / 2 then f + 1 else if even f then f else f + 1)"

definition fl :: "rat \<Rightarrow> pyfloat" where
  "fl x = (if x = 0 then 0
           else let u = pow2 (exponent \<bar>x\<bar> - 52) in of_int (round_half_even (x / u)) * u)"

definition fadd :: "pyfloat \<Rightarrow> pyfloat \<Rightarrow> pyfloat" where "fadd a b = fl (a + b)"
definition fmul :: "pyfloat \<Rightarrow> pyfloat \<Rightarrow> pyfloat" where "fmul a b = fl (a * b)"
definition fdiv :: "pyfloat \<Rightarrow> pyfloat \<Rightarrow> pyfloat" where "fdiv a b = fl (a / b)"

section \<open>Exponents\<close>

lemma pow2_pos [simp]: "0 < pow2 e"
  by (simp add: pow2_def)

lemma pow2_nonneg [simp]: "0 \<le> pow2 e"
  by (simp add: less_imp_le)

lemma pow2_neq0 [simp]: "pow2 e \<noteq> 0"
  using pow2_pos [of e] by linarith

lemma pow2_0 [simp]: "pow2 0 = 1"
  by (simp add: pow2_def)

lemma pow2_powi: "pow2 e = 2 powi e"
  by (auto simp: pow2_def power_int_def field_simps)

lemma pow2_add: "pow2 (a + b) = pow2 a * pow2 b"
  by (simp add: pow2_powi power_int_add)

lemma pow2_mono: "a \<le> b \<Longrightarrow> pow2 a \<le> pow2 b"
  by (simp add: pow2_powi power_int_increasing)

lemma pow2_of_nat: "pow2 (int n) = 2 ^ n"
  by (simp add: pow2_def)

lemma bit_length_bounds:
  "n > 0 \<Longrightarrow> 2 ^ (bit_length n - 1) \<le> n \<and> n < 2 ^ bit_length n \<and> 0 < bit_length n"
proof (induction n rule: bit_length.induct)
  case (1 n)
  show ?case
  proof (cases "n = 1")
    case True
    then show ?thesis by (simp add: bit_length.simps)
  next
    case False
    with "1.prems" have "n div 2 > 0" by simp
    with "1.IH" "1.prems" have ih: "2 ^ (bit_length (n div 2) - 1) \<le> n div 2"
      "n div 2 < 2 ^ bit_length (n div 2)" "0 < bit_length (n div 2)" by auto
    have eq: "bit_length n = Suc (bit_length (n div 2))"
      using "1.prems" by (simp add: bit_length.simps [of n])
    obtain m where m: "bit_length (n div 2) = Suc m" using ih(3) by (cases "bit_length (n div 2)") auto
    have "2 ^ m \<le> n div 2" "n div 2 < 2 * 2 ^ m" using ih m by simp_all
    then have "2 * 2 ^ m \<le> n" "n < 4 * 2 ^ m" by linarith+
    then show ?thesis using eq m by simp
  qed
qed

lemma bit_length_int:
  assumes "0 < p"
  shows "pow2 (int (bit_length (nat p)) - 1) \<le> of_int p" and "of_int p < pow2 (int (bit_length (nat p)))"
proof -
  let ?b = "bit_length (nat p)"
  have b: "2 ^ (?b - 1) \<le> nat p" "nat p < 2 ^ ?b" "0 < ?b"
    using bit_length_bounds [of "nat p"] assms by simp_all
  have p: "(of_int p :: rat) = of_nat (nat p)" using assms of_nat_nat [of p, where 'a = rat] by simp
  have "int ?b - 1 = int (?b - 1)" using b(3) by simp
  then have "pow2 (int ?b - 1) = of_nat (2 ^ (?b - 1))"
    by (simp only: pow2_of_nat of_nat_power of_nat_numeral)
  also have "\<dots> \<le> of_nat (nat p)" using b(1) by (simp only: of_nat_le_iff)
  finally show "pow2 (int ?b - 1) \<le> of_int p" by (simp only: p)
  have "(of_nat (nat p) :: rat) < of_nat (2 ^ ?b)" using b(2) by (simp only: of_nat_less_iff)
  then show "of_int p < pow2 (int ?b)" by (simp only: p pow2_of_nat of_nat_power of_nat_numeral)
qed

lemma exponent_bounds:
  assumes "0 < x"
  shows "pow2 (exponent x) \<le> x" and "x < pow2 (exponent x + 1)"
proof -
  obtain p q where pq: "quotient_of x = (p, q)" by (cases "quotient_of x")
  have q0: "0 < q" using pq by (rule quotient_of_denom_pos)
  have x_eq: "x = of_int p / of_int q" using pq by (rule quotient_of_div)
  have p0: "0 < p" using assms q0 x_eq by (simp add: zero_less_divide_iff)
  let ?b = "bit_length (nat p)" and ?c = "bit_length (nat q)"
  note P = bit_length_int [OF p0] and Q = bit_length_int [OF q0]
  let ?e = "int ?b - int ?c"
  have qpos: "(0 :: rat) < of_int q" using q0 by simp
  have up: "x < pow2 (?e + 1)"
  proof -
    have "of_int p < pow2 (?e + 1) * pow2 (int ?c - 1)"
      using P(2) by (simp flip: pow2_add)
    also have "\<dots> \<le> pow2 (?e + 1) * of_int q" using Q(1) by (simp add: mult_left_mono)
    finally show ?thesis using qpos x_eq by (simp add: pos_divide_less_eq)
  qed
  have lo: "pow2 (?e - 1) \<le> x"
  proof -
    have "pow2 (?e - 1) * of_int q \<le> pow2 (?e - 1) * pow2 (int ?c)"
      using Q(2) by (simp add: mult_left_mono less_imp_le)
    also have "\<dots> \<le> of_int p" using P(1) by (simp flip: pow2_add)
    finally show ?thesis using qpos x_eq by (simp add: pos_le_divide_eq)
  qed
  have ex: "exponent x = (if pow2 ?e \<le> x then ?e else ?e - 1)"
    by (simp add: exponent_def pq)
  show "pow2 (exponent x) \<le> x" using ex lo by simp
  show "x < pow2 (exponent x + 1)" using ex up by (auto simp: not_le)
qed

section \<open>Rounding keeps the unit interval\<close>

lemma round_half_even_le: "y \<le> of_int n \<Longrightarrow> round_half_even y \<le> n"
proof -
  assume le: "y \<le> of_int n"
  then have f: "\<lfloor>y\<rfloor> \<le> n" by (simp add: floor_le_iff)
  show ?thesis
  proof (cases "\<lfloor>y\<rfloor> = n")
    case True
    then have "y - of_int \<lfloor>y\<rfloor> = 0" using le of_int_floor_le [of y] by linarith
    then show ?thesis using True by (simp add: round_half_even_def Let_def)
  next
    case False
    then show ?thesis using f by (simp add: round_half_even_def Let_def)
  qed
qed

lemma round_half_even_nonneg: "0 \<le> y \<Longrightarrow> 0 \<le> round_half_even y"
  by (auto simp: round_half_even_def Let_def)

lemma fl_0 [simp]: "fl 0 = 0"
  by (simp add: fl_def)

lemma fl_1 [simp]: "fl 1 = 1"
  by code_simp

lemma fl_nonneg: "0 \<le> x \<Longrightarrow> 0 \<le> fl x"
  by (auto simp: fl_def Let_def intro!: mult_nonneg_nonneg round_half_even_nonneg)

lemma round_half_even_ge: "of_int n \<le> y \<Longrightarrow> n \<le> round_half_even y"
  by (auto simp: round_half_even_def Let_def le_floor_iff intro: order_trans [of _ "\<lfloor>y\<rfloor>"])

lemma fl_pos:
  assumes "0 < x"
  shows "0 < fl x"
proof -
  let ?u = "pow2 (exponent x - 52)"
  have "pow2 (exponent x) = 2 ^ 52 * ?u"
    using pow2_add [of 52 "exponent x - 52"] by (simp add: pow2_def [of 52])
  then have "of_int 1 \<le> x / ?u"
    using exponent_bounds(1) [OF assms] by (simp add: pos_le_divide_eq) (use pow2_pos [of "exponent x - 52"] in linarith)
  then have "1 \<le> round_half_even (x / ?u)" by (rule round_half_even_ge)
  then show ?thesis using assms by (simp add: fl_def Let_def)
qed

lemma fl_le_1:
  assumes "0 \<le> x" and "x \<le> 1"
  shows "fl x \<le> 1"
proof (cases "x = 0 \<or> x = 1")
  case False
  with assms have x: "0 < x" "x < 1" by auto
  let ?e = "exponent x"
  have e: "?e < 0"
  proof (rule ccontr)
    assume "\<not> ?e < 0"
    then have "pow2 0 \<le> pow2 ?e" by (intro pow2_mono) simp
    then show False using exponent_bounds(1) [OF x(1)] x(2) by simp
  qed
  let ?u = "pow2 (?e - 52)"
  have u: "pow2 (?e + 1) = of_int (2 ^ 53) * ?u"
    using pow2_add [of 53 "?e - 52"] by (simp add: pow2_def [of 53] add.commute)
  have "x / ?u \<le> of_int (2 ^ 53)"
    using exponent_bounds(2) [OF x(1)] u by (simp add: pos_divide_le_eq less_imp_le)
  then have "round_half_even (x / ?u) \<le> 2 ^ 53" by (rule round_half_even_le)
  then have "(of_int (round_half_even (x / ?u)) :: rat) \<le> of_int (2 ^ 53)"
    by (simp only: of_int_le_iff)
  then have "of_int (round_half_even (x / ?u)) * ?u \<le> of_int (2 ^ 53) * ?u"
    by (rule mult_right_mono) simp
  also have "\<dots> = pow2 (?e + 1)" by (simp add: u)
  also have "\<dots> \<le> pow2 0" using e by (intro pow2_mono) simp
  finally show ?thesis using x by (simp add: fl_def Let_def)
qed auto

end
