(* ===== verification/Reconciliation_Model.thy ===== *)
theory Reconciliation_Model
  imports Py_Float
begin

text \<open>
  The vocabulary of durable memory reconciliation: the symbolic values of
  \<open>reconciliation_enums.py\<close> and the entities of \<open>memory_reconciliation.py\<close>, one datatype or
  record each, in the order of the sources. A field keeps the source's name behind a short
  prefix of its record. Tuples are lists, optional fields are options, instants are
  \<^typ>\<open>instant\<close> and floats \<^typ>\<open>pyfloat\<close>.
\<close>

section \<open>Symbolic values\<close>

datatype MemoryRelationType =
  DUPLICATE | SUPPORTS | EXTENDS | CONTRADICTS | SUPERSEDES | UNRELATED | UNKNOWN

datatype MemoryDecisionSource = DETERMINISTIC | SEMANTIC | LLM | HUMAN

datatype MemoryClaimPolarity = POSITIVE | NEGATIVE

datatype MemoryConflictStatus =
  OPEN | REVIEWING | RESOLVED_KEEP_BOTH | RESOLVED_SUPERSEDED | RESOLVED_MERGED
| RESOLVED_INVALID_SOURCE

datatype MemoryReconciliationStatus =
  PLANNED | REVIEW_REQUIRED | APPLYING | APPLIED | PARTIAL_APPLY | FAILED

datatype MemoryReconciliationActionType =
  CREATE_CONTEXT | MERGE_EVIDENCE | CREATE_RELATION | MARK_SUPERSEDED | CREATE_CONFLICT_SET
| QUEUE_REVIEW | PRESERVE_CANDIDATE | NOOP

datatype MemoryReconciliationFailureCode =
  CANDIDATE_VALIDATION_FAILED | CLAIM_EXTRACTION_FAILED | RECALL_FAILED | CLASSIFICATION_FAILED
| POLICY_BLOCKED | CONTEXT_WRITE_FAILED | GRAPH_WRITE_FAILED | LIFECYCLE_UPDATE_FAILED
| CONFLICT_WRITE_FAILED | READ_BACK_VERIFICATION_FAILED | FC_PARTIAL_APPLY

datatype MemoryTemporalRecallMode = CURRENT_MODE | HISTORICAL_MODE | ALL_MODE

datatype MemoryCompactFactCategory =
  CURRENT | HISTORICAL | OPEN_CONFLICT | UNCERTAIN | SUPERSEDED

datatype MemoryCompactSafetyIssue =
  UNRESOLVED_CONTRADICTION_LEAKAGE | TEMPORAL_STATE_COLLAPSE
| SUPERSEDED_FACT_PRESENTED_AS_CURRENT | UNSUPPORTED_MERGE | DUPLICATE_CLAIM_INFLATION

datatype ContextScope = GLOBAL | PROJECT | AGENT | SESSION | USER

text \<open>The \<open>.value\<close> of the string enumerations that the modelled code writes into texts.\<close>

fun relation_value :: "MemoryRelationType \<Rightarrow> str" where
  "relation_value DUPLICATE = ''DUPLICATE''"
| "relation_value SUPPORTS = ''SUPPORTS''"
| "relation_value EXTENDS = ''EXTENDS''"
| "relation_value CONTRADICTS = ''CONTRADICTS''"
| "relation_value SUPERSEDES = ''SUPERSEDES''"
| "relation_value UNRELATED = ''UNRELATED''"
| "relation_value UNKNOWN = ''UNKNOWN''"

fun failure_code_value :: "MemoryReconciliationFailureCode \<Rightarrow> str" where
  "failure_code_value CANDIDATE_VALIDATION_FAILED = ''CANDIDATE_VALIDATION_FAILED''"
| "failure_code_value CLAIM_EXTRACTION_FAILED = ''CLAIM_EXTRACTION_FAILED''"
| "failure_code_value RECALL_FAILED = ''RECALL_FAILED''"
| "failure_code_value CLASSIFICATION_FAILED = ''CLASSIFICATION_FAILED''"
| "failure_code_value POLICY_BLOCKED = ''POLICY_BLOCKED''"
| "failure_code_value CONTEXT_WRITE_FAILED = ''CONTEXT_WRITE_FAILED''"
| "failure_code_value GRAPH_WRITE_FAILED = ''GRAPH_WRITE_FAILED''"
| "failure_code_value LIFECYCLE_UPDATE_FAILED = ''LIFECYCLE_UPDATE_FAILED''"
| "failure_code_value CONFLICT_WRITE_FAILED = ''CONFLICT_WRITE_FAILED''"
| "failure_code_value READ_BACK_VERIFICATION_FAILED = ''READ_BACK_VERIFICATION_FAILED''"
| "failure_code_value FC_PARTIAL_APPLY = ''PARTIAL_APPLY''"

fun scope_value :: "ContextScope \<Rightarrow> str" where
  "scope_value GLOBAL = ''GLOBAL''"
| "scope_value PROJECT = ''PROJECT''"
| "scope_value AGENT = ''AGENT''"
| "scope_value SESSION = ''SESSION''"
| "scope_value USER = ''USER''"

lemma relation_value_inject [simp]: "relation_value a = relation_value b \<longleftrightarrow> a = b"
  by (cases a; cases b) simp_all

section \<open>Claims, sources and candidates\<close>

record CanonicalClaimQualifier =
  q_name :: str
  q_value :: str

record CanonicalClaim =
  cc_subject :: str
  cc_predicate :: str
  cc_object :: str
  cc_qualifiers :: "CanonicalClaimQualifier list"
  cc_scope :: ContextScope
  cc_project :: "str option"
  cc_valid_from :: "instant option"
  cc_valid_to :: "instant option"
  cc_polarity :: MemoryClaimPolarity

record MemorySourceReference =
  sr_source_type :: str
  sr_source_id :: str
  sr_title :: str
  sr_detail_path :: str
  sr_source_hash :: "str option"
  sr_observed_at :: "instant option"

record MemoryCandidate =
  mc_candidate_id :: str
  mc_title :: str
  mc_body :: str
  mc_canonical_claims :: "CanonicalClaim list"
  mc_scope :: ContextScope
  mc_project :: "str option"
  mc_tags :: "str list"
  mc_source_refs :: "MemorySourceReference list"
  mc_recorded_at :: instant
  mc_observed_at :: "instant option"
  mc_valid_from :: "instant option"
  mc_valid_to :: "instant option"
  mc_requested_lifecycle :: str
  mc_content_hash :: str
  mc_workspace_id :: "str option"
  mc_agent_id :: "str option"
  mc_user_id :: "str option"
  mc_session_id :: "str option"
  mc_source_identity :: "str option"
  mc_graph_neighbors :: "str list"
  mc_lineage_ancestors :: "str list"

record MemoryTemporalState =
  ts_context_id :: str
  ts_recorded_at :: instant
  ts_observed_at :: "instant option"
  ts_valid_from :: "instant option"
  ts_valid_to :: "instant option"
  ts_is_current :: bool
  ts_conflict_set_ids :: "str list"
  ts_superseded_by :: "str list"
  ts_supersedes :: "str list"
  ts_relation_summary :: "str list"

section \<open>Decisions and plans\<close>

record MemoryRelationScores =
  sc_semantic_similarity :: pyfloat
  sc_claim_overlap :: pyfloat
  sc_scope_compatibility :: pyfloat
  sc_temporal_compatibility :: pyfloat
  sc_source_independence :: pyfloat
  sc_polarity_conflict :: pyfloat
  sc_specificity_change :: pyfloat
  sc_freshness :: pyfloat

record MemoryRelationDecision =
  rd_candidate_id :: str
  rd_existing_context_id :: str
  rd_relation :: MemoryRelationType
  rd_confidence :: pyfloat
  rd_reason :: str
  rd_evidence_refs :: "MemorySourceReference list"
  rd_claim_matches :: "str list"
  rd_scores :: MemoryRelationScores
  rd_decision_source :: MemoryDecisionSource
  rd_policy_version :: str
  rd_created_at :: instant

record MemoryReconciliationAction =
  ra_action_type :: MemoryReconciliationActionType
  ra_target_context_id :: "str option"
  ra_relation :: "MemoryRelationType option"
  ra_reason :: str

record ReconciliationCandidateEvidence =
  ce_left_id :: str
  ce_right_id :: str
  ce_exact_content_hash :: bool
  ce_vector_similarity :: "pyfloat option"
  ce_temporal_overlap :: bool
  ce_graph_similarity :: pyfloat
  ce_lineage :: str
  ce_candidate_score :: pyfloat
  ce_reasons :: "str list"

record ReconciliationCandidateComputeMetrics =
  cm_input_items :: int
  cm_comparison_pairs :: int
  cm_qualifying_pairs :: int
  cm_retained_pairs :: int
  cm_exact_duplicate_groups :: int

record MemoryEvolutionCandidateEvidence =
  ev_compute_authority :: str
  ev_candidate_item_id :: str
  ev_compared_context_ids :: "str list"
  ev_candidate_pairs :: "ReconciliationCandidateEvidence list"
  ev_metrics :: ReconciliationCandidateComputeMetrics

record MemoryReconciliationPlan =
  rp_plan_id :: str
  rp_candidate :: MemoryCandidate
  rp_decisions :: "MemoryRelationDecision list"
  rp_primary_decision :: MemoryRelationType
  rp_actions :: "MemoryReconciliationAction list"
  rp_warnings :: "str list"
  rp_conflicting_context_ids :: "str list"
  rp_requires_review :: bool
  rp_idempotency_key :: str
  rp_status :: MemoryReconciliationStatus
  rp_created_at :: instant
  rp_candidate_evidence :: "MemoryEvolutionCandidateEvidence option"

record MemoryConflictSet =
  cs_conflict_set_id :: str
  cs_context_ids :: "str list"
  cs_candidate_id :: str
  cs_subject_key :: str
  cs_claim_key :: str
  cs_scope :: ContextScope
  cs_validity_overlap :: bool
  cs_reason :: str
  cs_status :: MemoryConflictStatus
  cs_resolution :: "str option"
  cs_created_at :: instant
  cs_resolved_at :: "instant option"

record MemoryReconciliationResult =
  rr_reconciliation_id :: str
  rr_plan_id :: str
  rr_status :: MemoryReconciliationStatus
  rr_created_context_ids :: "str list"
  rr_updated_context_ids :: "str list"
  rr_superseded_context_ids :: "str list"
  rr_created_relation_ids :: "str list"
  rr_created_conflict_set_ids :: "str list"
  rr_merged_evidence :: "MemorySourceReference list"
  rr_review_queue_item_ids :: "str list"
  rr_warnings :: "str list"
  rr_hard_delete_performed :: bool
  rr_failure_code :: "MemoryReconciliationFailureCode option"
  rr_reviewed_by :: "str option"
  rr_reviewed_at :: "instant option"
  rr_completed_at :: "instant option"

record MemoryRecallCandidate =
  rc_context_id :: str
  rc_title :: str
  rc_body :: str
  rc_canonical_claims :: "CanonicalClaim list"
  rc_scope :: ContextScope
  rc_project :: "str option"
  rc_source_identity :: "str option"
  rc_content_hash :: str
  rc_recorded_at :: instant
  rc_observed_at :: "instant option"
  rc_valid_from :: "instant option"
  rc_valid_to :: "instant option"
  rc_workspace_id :: "str option"
  rc_agent_id :: "str option"
  rc_user_id :: "str option"
  rc_session_id :: "str option"
  rc_source_refs :: "MemorySourceReference list"
  rc_recall_reasons :: "str list"
  rc_graph_neighbors :: "str list"
  rc_lineage_ancestors :: "str list"

record MemoryRelationRecord =
  rel_relation_id :: str
  rel_source_context_id :: str
  rel_target_context_id :: str
  rel_candidate_id :: str
  rel_relation :: MemoryRelationType
  rel_confidence :: pyfloat
  rel_reason :: str
  rel_decision_source :: MemoryDecisionSource
  rel_policy_version :: str
  rel_evidence_refs :: "MemorySourceReference list"
  rel_claim_matches :: "str list"
  rel_scores :: MemoryRelationScores
  rel_created_at :: instant

record MemoryRelationModelProposal =
  mp_relation :: MemoryRelationType
  mp_confidence :: pyfloat
  mp_reason :: str

section \<open>Domain errors\<close>

text \<open>
  \<open>MemoryContextNotFoundError\<close>, \<open>MemoryContextValidationError\<close>, \<open>RuntimeError\<close>, and any other
  exception a dependency may raise (its class name and its text).
\<close>

datatype py_exn =
  MemoryContextNotFoundError str
| MemoryContextValidationError str
| RuntimeError str
| OtherError str str

fun exn_text :: "py_exn \<Rightarrow> str" where
  "exn_text (MemoryContextNotFoundError m) = m"
| "exn_text (MemoryContextValidationError m) = m"
| "exn_text (RuntimeError m) = m"
| "exn_text (OtherError c m) = m"

end
