(* ===== verification/Context_Model.thy ===== *)
theory Context_Model
  imports Reconciliation_Model
begin

text \<open>
  The Context Vault read models (\<open>context_read_models.py\<close>) and the enumerations they use
  (\<open>context_enums.py\<close>). Constructors of enumerations that share member names carry a prefix.
  Scores are binary64 values, metadata is a JSON object.
\<close>

section \<open>Enumerations\<close>

datatype ContextKind =
  KIND_HANDOFF | KIND_DECISION | KIND_BUG_ROOT_CAUSE | KIND_PLAN | KIND_COMPACT | KIND_RESEARCH
| KIND_USAGE | KIND_MEMORY

datatype MemoryFunction = FACTUAL | EXPERIENTIAL | PROCEDURAL

datatype ContextSourceType = SOURCE_AGENT | SOURCE_USER | SOURCE_SYSTEM | SOURCE_IMPORTED

datatype ContextImportance = IMPORTANCE_LOW | IMPORTANCE_MEDIUM | IMPORTANCE_HIGH | IMPORTANCE_CRITICAL

datatype ContextStorageStatus =
  SAVED | SAVED_WITH_WARNINGS | REDACTED_AND_SAVED | BLOCKED_SECRET_RISK | PENDING_REVIEW

datatype ContextRecallLifecycleStatus =
  LC_CURRENT | LC_ACTIVE | LC_DRAFT | LC_PENDING_REVIEW | LC_REVIEWED | LC_SUPERSEDED | LC_ARCHIVED
| LC_ERROR | LC_SAVED | LC_SAVED_WITH_WARNINGS | LC_REDACTED_AND_SAVED

datatype ContextContentFormat = MARKDOWN | TEXT

datatype RagStrategy = RAG_AUTO | RAG_FTS_ONLY | RAG_VECTOR_ONLY | RAG_HYBRID

datatype RagHealthState = RAG_HEALTHY | RAG_REINDEX_REQUIRED | RAG_DEGRADED | RAG_DISABLED

datatype ContextGraphSignalType =
  GRAPH_PROXIMITY | IMPACT_ANALYSIS | DUPLICATE_CANDIDATE | SUPERSEDES_CANDIDATE | LINEAGE | RESUME_PATH

datatype ContextGraphDirection = OUTGOING | INCOMING | BOTH

section \<open>Records\<close>

record ContextRecord =
  cr_id :: str
  cr_kind :: ContextKind
  cr_title :: str
  cr_summary :: str
  cr_content :: str
  cr_content_format :: ContextContentFormat
  cr_project :: "str option"
  cr_scope :: ContextScope
  cr_workspace_id :: "str option"
  cr_agent_id :: "str option"
  cr_user_id :: "str option"
  cr_session_id :: "str option"
  cr_visibility :: ContextScope
  cr_source_agent :: str
  cr_source_type :: ContextSourceType
  cr_importance :: ContextImportance
  cr_tags :: "str list"
  cr_status :: ContextStorageStatus
  cr_quality_score :: int
  cr_warnings :: "str list"
  cr_restore_prompt :: "str option"
  cr_context_metadata :: json_object
  cr_created_at :: instant
  cr_updated_at :: instant
  cr_last_accessed_at :: "instant option"
  cr_expires_at :: "instant option"
  cr_archived_at :: "instant option"
  cr_access_count :: int
  cr_is_archived :: bool
  cr_memory_function :: "MemoryFunction option"

record ContextChunkRecord =
  ck_id :: str
  ck_context_id :: str
  ck_chunk_index :: int
  ck_heading :: "str option"
  ck_content :: str
  ck_token_count :: int
  ck_content_hash :: str
  ck_chunk_metadata :: json_object
  ck_created_at :: instant

record ContextGraphEvidence =
  ge_signal :: ContextGraphSignalType
  ge_relation :: str
  ge_direction :: ContextGraphDirection
  ge_source_context_id :: str
  ge_target_context_id :: str
  ge_target_title :: str
  ge_distance :: int
  ge_evidence_ref :: str

record ContextSearchMatch =
  sm_context :: ContextRecord
  sm_chunk :: ContextChunkRecord
  sm_score :: pyfloat
  sm_fts_score :: "pyfloat option"
  sm_vector_score :: "pyfloat option"
  sm_why_retrieved :: str
  sm_graph_score :: "pyfloat option"
  sm_graph_evidence :: "ContextGraphEvidence list"

record ContextPack =
  cp_query :: str
  cp_strategy :: RagStrategy
  cp_effective_strategy :: RagStrategy
  cp_warnings :: "str list"
  cp_recall_scopes :: "ContextScope list"
  cp_matches :: "ContextSearchMatch list"
  cp_context_pack :: str

record ContextEmbeddingSourceStatus =
  es_source_name :: str
  es_status :: RagHealthState
  es_total_rows :: int
  es_current_rows :: int
  es_stale_rows :: int
  es_missing_rows :: int
  es_current_fingerprint :: json_object
  es_stored_fingerprints :: "json_object list"

record RagDependencyHealth =
  rh_fts :: RagHealthState
  rh_vector :: RagHealthState
  rh_embedding :: RagHealthState
  rh_default_strategy :: RagStrategy
  rh_model_name :: str
  rh_dimensions :: int
  rh_fingerprint :: "json_object option"
  rh_warnings :: "str list"
  rh_source_statuses :: "ContextEmbeddingSourceStatus list"

end
