(* ===== verification/Temporal_Policy.thy ===== *)
theory Temporal_Policy
  imports Context_Model
begin

text \<open>
  Temporal reasoning of the reconciliation component: the interval tests of
  \<open>memory_temporal_policy.py\<close>, which the classifiers use, and the recall filter of
  \<open>memory_temporal_recall_policy.py\<close>, which decides whether a stored Context is shown as
  current, as valid at a past instant, or always.
\<close>

section \<open>Interval policies\<close>

definition intervals_overlap ::
  "instant option \<Rightarrow> instant option \<Rightarrow> instant option \<Rightarrow> instant option \<Rightarrow> bool" where
  "intervals_overlap left_from left_to right_from right_to =
     (case (left_to, right_from) of
        (Some lt, Some rf) \<Rightarrow>
          (if lt < rf then False
           else \<not> (case (right_to, left_from) of (Some rt, Some lf) \<Rightarrow> rt < lf | _ \<Rightarrow> False))
      | _ \<Rightarrow> \<not> (case (right_to, left_from) of (Some rt, Some lf) \<Rightarrow> rt < lf | _ \<Rightarrow> False))"

definition is_temporally_newer ::
  "instant option \<Rightarrow> instant option \<Rightarrow> instant option \<Rightarrow> instant option \<Rightarrow> bool" where
  "is_temporally_newer candidate_valid_from candidate_observed_at
       existing_valid_from existing_observed_at =
     (case (or_else candidate_valid_from candidate_observed_at,
            or_else existing_valid_from existing_observed_at) of
        (Some c, Some e) \<Rightarrow> c > e
      | _ \<Rightarrow> False)"

text \<open>The instants an open-ended validity interval covers.\<close>

definition valid_instants :: "instant option \<Rightarrow> instant option \<Rightarrow> instant set" where
  "valid_instants vfrom vto =
     {t. (case vfrom of None \<Rightarrow> True | Some f \<Rightarrow> f \<le> t) \<and> (case vto of None \<Rightarrow> True | Some u \<Rightarrow> t \<le> u)}"

definition proper_interval :: "instant option \<Rightarrow> instant option \<Rightarrow> bool" where
  "proper_interval vfrom vto = (case (vfrom, vto) of (Some f, Some u) \<Rightarrow> f \<le> u | _ \<Rightarrow> True)"

lemma intervals_overlap_iff_meet:
  assumes "proper_interval lf lt" and "proper_interval rf rt"
  shows "intervals_overlap lf lt rf rt \<longleftrightarrow> valid_instants lf lt \<inter> valid_instants rf rt \<noteq> {}"
proof -
  have wit: "\<And>t. t \<in> valid_instants lf lt \<Longrightarrow> t \<in> valid_instants rf rt \<Longrightarrow>
      valid_instants lf lt \<inter> valid_instants rf rt \<noteq> {}" by blast
  show ?thesis
  proof
    assume ov: "intervals_overlap lf lt rf rt"
    let ?t = "case (lf, rf) of (Some a, Some b) \<Rightarrow> max a b | (Some a, None) \<Rightarrow> a
        | (None, Some b) \<Rightarrow> b
        | (None, None) \<Rightarrow> (case (lt, rt) of (Some a, Some b) \<Rightarrow> min a b | (Some a, None) \<Rightarrow> a
            | (None, Some b) \<Rightarrow> b | (None, None) \<Rightarrow> 0)"
    have "?t \<in> valid_instants lf lt" "?t \<in> valid_instants rf rt"
      using ov assms
      by (auto simp: intervals_overlap_def valid_instants_def proper_interval_def
          split: option.splits if_splits)
    then show "valid_instants lf lt \<inter> valid_instants rf rt \<noteq> {}" by (rule wit)
  next
    assume "valid_instants lf lt \<inter> valid_instants rf rt \<noteq> {}"
    then show "intervals_overlap lf lt rf rt"
      by (auto simp: intervals_overlap_def valid_instants_def split: option.splits)
  qed
qed

lemma intervals_overlap_sym: "intervals_overlap a b c d = intervals_overlap c d a b"
  by (auto simp: intervals_overlap_def split: option.splits)

lemma is_temporally_newer_irrefl [simp]: "\<not> is_temporally_newer a b a b"
  by (auto simp: is_temporally_newer_def split: option.splits)

lemma is_temporally_newer_asym:
  "is_temporally_newer a b c d \<Longrightarrow> \<not> is_temporally_newer c d a b"
  by (auto simp: is_temporally_newer_def split: option.splits)

section \<open>Recall through a temporal lens\<close>

definition state_is_valid_at :: "MemoryTemporalState option \<Rightarrow> ContextRecord \<Rightarrow> instant \<Rightarrow> bool" where
  "state_is_valid_at state context as_of =
     (case state of
        None \<Rightarrow> cr_created_at context \<le> as_of
      | Some st \<Rightarrow>
          (if (case ts_valid_from st of Some f \<Rightarrow> f > as_of | None \<Rightarrow> False) then False
           else (case ts_valid_to st of None \<Rightarrow> True | Some u \<Rightarrow> as_of \<le> u)))"

definition state_is_current :: "MemoryTemporalState option \<Rightarrow> ContextRecord \<Rightarrow> instant \<Rightarrow> bool" where
  "state_is_current state context now =
     (if cr_is_archived context then False
      else (case state of
              None \<Rightarrow> cr_created_at context \<le> now
            | Some st \<Rightarrow> ts_is_current st \<and> state_is_valid_at state context now))"

definition include_temporal_match ::
  "MemoryTemporalRecallMode \<Rightarrow> MemoryTemporalState option \<Rightarrow> ContextRecord \<Rightarrow> instant \<Rightarrow> instant \<Rightarrow> bool"
where
  "include_temporal_match mode state context as_of now =
     (if mode = ALL_MODE then True
      else if mode = HISTORICAL_MODE then state_is_valid_at state context as_of
      else state_is_current state context now)"

lemma state_is_valid_at_Some:
  "state_is_valid_at (Some st) c t \<longleftrightarrow> t \<in> valid_instants (ts_valid_from st) (ts_valid_to st)"
  by (auto simp: state_is_valid_at_def valid_instants_def split: option.splits)

lemma state_is_current_valid: "state_is_current st c now \<Longrightarrow> state_is_valid_at st c now"
  by (auto simp: state_is_current_def state_is_valid_at_def split: if_splits option.splits)

lemma not_current_if_flag_cleared: "\<not> ts_is_current st \<Longrightarrow> \<not> state_is_current (Some st) c now"
  by (simp add: state_is_current_def)

end
