(* ===== verification/Difflib.thy ===== *)
theory Difflib
  imports Py_Float
begin

text \<open>
  \<open>difflib.SequenceMatcher(None, a, b).ratio()\<close> of the Python standard library, which the
  relation classifier uses as its semantic similarity: the longest-match search with the default
  \<open>autojunk\<close> heuristic, the recursive matching blocks, and the ratio. The library keeps index
  windows into \<open>a\<close> and \<open>b\<close>; here a window is the sublist itself and the indices are relative to
  it. The set of popular elements is that of the whole second text throughout, as in the library.
\<close>

text \<open>\<open>__chain_b\<close>: with 200 or more elements, one that makes up over 1\% of the text is popular.\<close>

definition popular :: "str \<Rightarrow> char \<Rightarrow> bool" where
  "popular b c = (200 \<le> length b \<and> length b div 100 + 1 < count_list b c)"

text \<open>\<open>b2j.get(elt, nothing)\<close> restricted to the window.\<close>

definition positions :: "(char \<Rightarrow> bool) \<Rightarrow> str \<Rightarrow> char \<Rightarrow> nat list" where
  "positions pop b c = (if pop c then [] else filter (\<lambda>j. b ! j = c) [0..<length b])"

type_synonym block = "nat \<times> nat \<times> nat"

definition row_step ::
  "nat \<Rightarrow> (nat \<Rightarrow> nat) \<Rightarrow> nat \<Rightarrow> (nat \<Rightarrow> nat) \<times> block \<Rightarrow> (nat \<Rightarrow> nat) \<times> block" where
  "row_step i j2len j st =
     (case st of (newj2len, besti, bestj, bestsize) \<Rightarrow>
        let k = (case j of 0 \<Rightarrow> 0 | Suc j' \<Rightarrow> j2len j') + 1
        in (newj2len(j := k),
            if bestsize < k then (i + 1 - k, j + 1 - k, k) else (besti, bestj, bestsize)))"

fun find_rows ::
  "(char \<Rightarrow> bool) \<Rightarrow> str \<Rightarrow> nat \<Rightarrow> (nat \<Rightarrow> nat) \<Rightarrow> block \<Rightarrow> str \<Rightarrow> block" where
  "find_rows pop b i j2len best [] = best"
| "find_rows pop b i j2len best (c # cs) =
     (case fold (row_step i j2len) (positions pop b c) (\<lambda>_. 0, best) of
        (newj2len, best') \<Rightarrow> find_rows pop b (Suc i) newj2len best' cs)"

function extend_back :: "str \<Rightarrow> str \<Rightarrow> nat \<Rightarrow> nat \<Rightarrow> nat \<Rightarrow> block" where
  "extend_back a b i j k =
     (if 0 < i \<and> 0 < j \<and> a ! (i - 1) = b ! (j - 1) then extend_back a b (i - 1) (j - 1) (k + 1)
      else (i, j, k))"
  by pat_completeness auto
termination
  by (relation "measure (\<lambda>(a, b, i, j, k). i)") auto

function extend_fwd :: "str \<Rightarrow> str \<Rightarrow> nat \<Rightarrow> nat \<Rightarrow> nat \<Rightarrow> block" where
  "extend_fwd a b i j k =
     (if i + k < length a \<and> j + k < length b \<and> a ! (i + k) = b ! (j + k)
      then extend_fwd a b i j (k + 1) else (i, j, k))"
  by pat_completeness auto
termination
  by (relation "measure (\<lambda>(a, b, i, j, k). length a - (i + k))") auto

declare extend_back.simps [simp del] extend_fwd.simps [simp del]

definition find_longest_match :: "(char \<Rightarrow> bool) \<Rightarrow> str \<Rightarrow> str \<Rightarrow> block" where
  "find_longest_match pop a b =
     (case find_rows pop b 0 (\<lambda>_. 0) (0, 0, 0) a of (i, j, k) \<Rightarrow>
      (case extend_back a b i j k of (i', j', k') \<Rightarrow> extend_fwd a b i' j' k'))"

section \<open>A match lies inside both windows\<close>

definition block_in :: "nat \<Rightarrow> nat \<Rightarrow> block \<Rightarrow> bool" where
  "block_in m n blk = (case blk of (i, j, k) \<Rightarrow> i + k \<le> m \<and> j + k \<le> n)"

lemma block_in_mono: "block_in m n blk \<Longrightarrow> m \<le> m' \<Longrightarrow> block_in m' n blk"
  by (auto simp: block_in_def split: prod.splits)

lemma row_step_inv:
  assumes "\<And>j. j2len j \<le> j + 1 \<and> j2len j \<le> i" and "j < n"
    and "\<And>j. fst st j \<le> j + 1 \<and> fst st j \<le> Suc i" and "block_in (Suc i) n (snd st)"
  shows "(\<forall>j'. fst (row_step i j2len j st) j' \<le> j' + 1 \<and> fst (row_step i j2len j st) j' \<le> Suc i) \<and>
         block_in (Suc i) n (snd (row_step i j2len j st))"
proof -
  obtain new bi bj bk where st: "st = (new, bi, bj, bk)" by (metis prod_cases4)
  define k where "k = (case j of 0 \<Rightarrow> 0 | Suc j' \<Rightarrow> j2len j') + 1"
  have k: "k \<le> j + 1" "k \<le> Suc i" "0 < k"
    using assms(1) by (auto simp: k_def split: nat.splits)
  have "row_step i j2len j st =
      (new(j := k), if bk < k then (i + 1 - k, j + 1 - k, k) else (bi, bj, bk))"
    by (simp add: row_step_def st k_def Let_def)
  then show ?thesis using assms(2-4) k by (auto simp: st block_in_def)
qed

lemma row_fold_inv:
  assumes "\<And>j. j2len j \<le> j + 1 \<and> j2len j \<le> i" and "\<forall>j\<in>set js. j < n"
    and "\<And>j. fst st j \<le> j + 1 \<and> fst st j \<le> Suc i" and "block_in (Suc i) n (snd st)"
  shows "(\<forall>j. fst (fold (row_step i j2len) js st) j \<le> j + 1 \<and>
              fst (fold (row_step i j2len) js st) j \<le> Suc i) \<and>
         block_in (Suc i) n (snd (fold (row_step i j2len) js st))"
  using assms(2-4)
proof (induction js arbitrary: st)
  case (Cons j js)
  have "(\<forall>j'. fst (row_step i j2len j st) j' \<le> j' + 1 \<and> fst (row_step i j2len j st) j' \<le> Suc i) \<and>
      block_in (Suc i) n (snd (row_step i j2len j st))"
    using Cons.prems by (intro row_step_inv assms(1)) auto
  then show ?case using Cons.IH [of "row_step i j2len j st"] Cons.prems(1) by simp
qed simp

lemma find_rows_in:
  assumes "\<And>j. j2len j \<le> j + 1 \<and> j2len j \<le> i" and "block_in i (length b) best"
  shows "block_in (i + length cs) (length b) (find_rows pop b i j2len best cs)"
  using assms
proof (induction cs arbitrary: i j2len best)
  case (Cons c cs)
  obtain new best' where f: "fold (row_step i j2len) (positions pop b c) (\<lambda>_. 0, best) = (new, best')"
    by (metis surj_pair)
  have "(\<forall>j. new j \<le> j + 1 \<and> new j \<le> Suc i) \<and> block_in (Suc i) (length b) best'"
    using row_fold_inv [OF Cons.prems(1), of "positions pop b c" "length b" "(\<lambda>_. 0, best)"] f
      Cons.prems(2) block_in_mono [of i "length b" best "Suc i"]
    by (auto simp: positions_def)
  then show ?case using Cons.IH [of new "Suc i" best'] f by simp
qed simp

lemma extend_back_in:
  "block_in m n (i, j, k) \<Longrightarrow> block_in m n (extend_back a b i j k)"
proof (induction a b i j k rule: extend_back.induct)
  case (1 a b i j k)
  then show ?case by (subst extend_back.simps) (auto simp: block_in_def)
qed

lemma extend_fwd_in:
  "block_in (length a) (length b) (i, j, k) \<Longrightarrow>
   block_in (length a) (length b) (extend_fwd a b i j k)"
proof (induction a b i j k rule: extend_fwd.induct)
  case (1 a b i j k)
  then show ?case by (subst extend_fwd.simps) (auto simp: block_in_def)
qed

lemma find_longest_match_in: "block_in (length a) (length b) (find_longest_match pop a b)"
proof -
  obtain i j k where r: "find_rows pop b 0 (\<lambda>_. 0) (0, 0, 0) a = (i, j, k)" by (metis prod_cases3)
  have "block_in (0 + length a) (length b) (find_rows pop b 0 (\<lambda>_. 0) (0, 0, 0) a)"
    by (rule find_rows_in) (simp_all add: block_in_def)
  then have b0: "block_in (length a) (length b) (i, j, k)" using r by simp
  obtain i' j' k' where e: "extend_back a b i j k = (i', j', k')" by (metis prod_cases3)
  have "block_in (length a) (length b) (i', j', k')" using extend_back_in [OF b0] e by metis
  then show ?thesis using extend_fwd_in r e by (simp add: find_longest_match_def)
qed

section \<open>Matching blocks and ratio\<close>

text \<open>
  \<open>get_matching_blocks\<close>: the sizes of the longest match and of the blocks found left and right of
  it, added up. (The library's work list visits the same windows; only the sum is used.)
\<close>

function matched_size :: "(char \<Rightarrow> bool) \<Rightarrow> str \<Rightarrow> str \<Rightarrow> nat" where
  "matched_size pop a b =
     (case find_longest_match pop a b of (i, j, k) \<Rightarrow>
        if k = 0 then 0
        else k + (if 0 < i \<and> 0 < j then matched_size pop (take i a) (take j b) else 0)
               + (if i + k < length a \<and> j + k < length b
                  then matched_size pop (drop (i + k) a) (drop (j + k) b) else 0))"
  by pat_completeness auto
termination
proof (relation "measure (\<lambda>(pop, a, b). length a + length b)", goal_cases)
  case (2 pop a b i y j k)
  then have "find_longest_match pop a b = (i, j, k)" by simp
  then have "i + k \<le> length a" "j + k \<le> length b"
    using find_longest_match_in [of a b pop] by (simp_all add: block_in_def)
  with 2(3) show ?case by (simp add: min_def)
next
  case (3 pop a b i y j k)
  from 3(3,4) show ?case by simp linarith
qed simp

declare matched_size.simps [simp del]

definition ratio :: "str \<Rightarrow> str \<Rightarrow> pyfloat" where
  "ratio a b =
     (let len = length a + length b
      in if len = 0 then 1
         else fdiv (2 * of_nat (matched_size (popular b) a b)) (of_nat len))"

lemma matched_size_le: "matched_size pop a b \<le> length a \<and> matched_size pop a b \<le> length b"
proof (induction pop a b rule: matched_size.induct)
  case (1 pop a b)
  obtain i j k where m: "find_longest_match pop a b = (i, j, k)" by (metis prod_cases3)
  have bnd: "i + k \<le> length a" "j + k \<le> length b"
    using find_longest_match_in [of a b pop] m by (simp_all add: block_in_def)
  let ?l = "if 0 < i \<and> 0 < j then matched_size pop (take i a) (take j b) else 0"
  let ?r = "if i + k < length a \<and> j + k < length b
    then matched_size pop (drop (i + k) a) (drop (j + k) b) else 0"
  show ?case
  proof (cases "k = 0")
    case True
    then show ?thesis by (simp add: matched_size.simps [of pop a b] m)
  next
    case False
    have l: "?l \<le> i" "?l \<le> j" using "1.IH"(1) [OF m [symmetric] refl False] bnd by auto
    have r: "?r \<le> length a - (i + k)" "?r \<le> length b - (j + k)"
      using "1.IH"(2) [OF m [symmetric] refl False] by auto
    have "matched_size pop a b = k + ?l + ?r"
      using False by (simp add: matched_size.simps [of pop a b] m)
    then show ?thesis using l r bnd by linarith
  qed
qed

lemma ratio_bounds: "0 \<le> ratio a b \<and> ratio a b \<le> 1"
proof (cases "length a + length b = 0")
  case True
  then show ?thesis by (simp add: ratio_def)
next
  case False
  let ?m = "matched_size (popular b) a b" and ?n = "length a + length b"
  have "2 * ?m \<le> ?n" using matched_size_le [of "popular b" a b] by linarith
  then have "(of_nat (2 * ?m) :: rat) \<le> of_nat ?n" by (simp only: of_nat_le_iff)
  then have le: "2 * of_nat ?m / of_nat ?n \<le> (1 :: rat)"
    using False by (simp add: divide_le_eq_1 flip: of_nat_add)
  have ge: "(0 :: rat) \<le> 2 * of_nat ?m / of_nat ?n" by simp
  have "ratio a b = fl (2 * of_nat ?m / of_nat ?n)"
    using False by (simp add: ratio_def fdiv_def Let_def)
  then show ?thesis using fl_nonneg [OF ge] fl_le_1 [OF ge le] by simp
qed

section \<open>The popularity heuristic can hide all similarity\<close>

lemma find_rows_all_popular:
  "\<forall>c\<in>set cs. positions pop b c = [] \<Longrightarrow> find_rows pop b i j2len best cs = best"
  by (induction cs arbitrary: i j2len) simp_all

lemma ratio_all_popular:
  assumes pop: "\<forall>c\<in>set b. popular b c" and ne: "a \<noteq> []" "b \<noteq> []" and hd: "hd a \<noteq> hd b"
  shows "ratio a b = 0"
proof -
  have "positions (popular b) b c = []" for c
    using pop by (auto simp: positions_def filter_empty_conv)
  then have "find_rows (popular b) b 0 (\<lambda>_. 0) (0, 0, 0) a = (0, 0, 0)"
    by (intro find_rows_all_popular) simp
  moreover have "a ! 0 \<noteq> b ! 0" using ne hd by (simp add: hd_conv_nth)
  ultimately have "find_longest_match (popular b) a b = (0, 0, 0)"
    by (simp add: find_longest_match_def extend_back.simps extend_fwd.simps)
  then have "matched_size (popular b) a b = 0" by (simp add: matched_size.simps)
  then show ?thesis using ne by (simp add: ratio_def fdiv_def)
qed

end
