(* ===== verification/Relation_Classifier.thy ===== *)
theory Relation_Classifier
  imports Temporal_Policy Difflib
begin

text \<open>
  Relation classification: \<open>memory_relation_classifier.py\<close> (deterministic and semantic policy)
  and \<open>memory_model_relation_policy.py\<close> (the gate an untrusted model proposal has to pass). The
  proposal provider is an external reasoning model and the clock is the environment's: both are
  arguments.
\<close>

section \<open>Comparing claims\<close>

definition POLICY_VERSION :: str where
  "POLICY_VERSION = ''memory-reconciliation-v1''"

record ClaimComparison =
  cmp_exact :: bool
  cmp_same_proposition :: bool
  cmp_same_subject_predicate :: bool
  cmp_polarity_conflict :: bool
  cmp_object_conflict :: bool
  cmp_candidate_more_specific :: bool
  cmp_overlap :: pyfloat
  cmp_summary :: str

definition normalized_text :: "str \<Rightarrow> str" where
  "normalized_text value = join '' '' (split_words (casefold value))"

definition qualifier_pairs :: "CanonicalClaim \<Rightarrow> (str \<times> str) set" where
  "qualifier_pairs claim = set (map (\<lambda>item. (q_name item, q_value item)) (cc_qualifiers claim))"

definition compare_claims :: "CanonicalClaim \<Rightarrow> CanonicalClaim \<Rightarrow> ClaimComparison" where
  "compare_claims candidate existing =
     (let subject_equal = normalized_text (cc_subject candidate) = normalized_text (cc_subject existing);
          predicate_equal = normalized_text (cc_predicate candidate) = normalized_text (cc_predicate existing);
          object_equal = normalized_text (cc_object candidate) = normalized_text (cc_object existing);
          pairs = qualifier_pairs candidate;
          existing_pairs = qualifier_pairs existing;
          same_subject_predicate = (subject_equal \<and> predicate_equal);
          same_proposition = (same_subject_predicate \<and> object_equal);
          same_polarity = (cc_polarity candidate = cc_polarity existing);
          matched_parts = of_bool subject_equal + of_bool predicate_equal + of_bool object_equal;
          qualifier_union = pairs \<union> existing_pairs;
          qualifier_overlap =
            (if qualifier_union = {} then 1
             else fdiv (of_nat (card (pairs \<inter> existing_pairs))) (of_nat (card qualifier_union)))
      in \<lparr> cmp_exact = same_proposition \<and> same_polarity \<and> pairs = existing_pairs,
           cmp_same_proposition = same_proposition,
           cmp_same_subject_predicate = same_subject_predicate,
           cmp_polarity_conflict = same_proposition \<and> \<not> same_polarity,
           cmp_object_conflict = same_subject_predicate \<and> \<not> object_equal,
           cmp_candidate_more_specific =
             same_proposition \<and> existing_pairs \<subset> pairs \<and> same_polarity,
           cmp_overlap = fadd (fmul (fdiv matched_parts 3) (fl (8 / 10)))
                              (fmul qualifier_overlap (fl (2 / 10))),
           cmp_summary = cc_subject candidate @ ''|'' @ cc_predicate candidate @ ''|'' @
                         cc_object candidate \<rparr>)"

lemma compare_claims_simps:
  "cmp_same_subject_predicate (compare_claims c e) \<longleftrightarrow>
     normalized_text (cc_subject c) = normalized_text (cc_subject e) \<and>
     normalized_text (cc_predicate c) = normalized_text (cc_predicate e)"
  "cmp_same_proposition (compare_claims c e) \<longleftrightarrow>
     cmp_same_subject_predicate (compare_claims c e) \<and>
     normalized_text (cc_object c) = normalized_text (cc_object e)"
  "cmp_exact (compare_claims c e) \<longleftrightarrow>
     cmp_same_proposition (compare_claims c e) \<and> cc_polarity c = cc_polarity e \<and>
     qualifier_pairs c = qualifier_pairs e"
  "cmp_polarity_conflict (compare_claims c e) \<longleftrightarrow>
     cmp_same_proposition (compare_claims c e) \<and> cc_polarity c \<noteq> cc_polarity e"
  "cmp_object_conflict (compare_claims c e) \<longleftrightarrow>
     cmp_same_subject_predicate (compare_claims c e) \<and>
     normalized_text (cc_object c) \<noteq> normalized_text (cc_object e)"
  "cmp_candidate_more_specific (compare_claims c e) \<longleftrightarrow>
     cmp_same_proposition (compare_claims c e) \<and> qualifier_pairs e \<subset> qualifier_pairs c \<and>
     cc_polarity c = cc_polarity e"
  by (simp_all add: compare_claims_def Let_def)

text \<open>A single lower-case word is its own normal form.\<close>

lemma normalized_word:
  assumes "s \<noteq> []"
    and "\<forall>c\<in>set s. \<not> is_space c \<and> \<not> upper_latin1 c \<and> (of_char c :: nat) \<noteq> 223"
  shows "normalized_text s = s"
proof -
  have "casefold s = s" using assms(2) by (simp add: casefold_lower_id)
  then show ?thesis using assms by (simp add: normalized_text_def split_words_word)
qed

section \<open>Scope, sources and scores\<close>

text \<open>The identity pair the scope selects; the dictionary of the source also has an entry for a
  WORKSPACE scope, which the enumeration does not.\<close>

definition scope_identities ::
  "MemoryCandidate \<Rightarrow> MemoryRecallCandidate \<Rightarrow> str option \<times> str option" where
  "scope_identities candidate existing =
     (case mc_scope candidate of
        GLOBAL \<Rightarrow> (None, None)
      | PROJECT \<Rightarrow> (mc_project candidate, rc_project existing)
      | AGENT \<Rightarrow> (mc_agent_id candidate, rc_agent_id existing)
      | USER \<Rightarrow> (mc_user_id candidate, rc_user_id existing)
      | SESSION \<Rightarrow> (mc_session_id candidate, rc_session_id existing))"

definition scope_compatibility :: "MemoryCandidate \<Rightarrow> MemoryRecallCandidate \<Rightarrow> pyfloat" where
  "scope_compatibility candidate existing =
     (if mc_scope candidate \<noteq> rc_scope existing then 0
      else (case scope_identities candidate existing of
              (candidate_identity, existing_identity) \<Rightarrow>
                if candidate_identity = existing_identity then 1 else 0))"

definition source_ids :: "MemorySourceReference list \<Rightarrow> (str \<times> str) set" where
  "source_ids refs = set (map (\<lambda>item. (sr_source_type item, sr_source_id item)) refs)"

definition source_independence :: "MemoryCandidate \<Rightarrow> MemoryRecallCandidate \<Rightarrow> pyfloat" where
  "source_independence candidate existing =
     (let candidate_ids = source_ids (mc_source_refs candidate);
          existing_ids = source_ids (rc_source_refs existing)
      in if candidate_ids = {} \<or> existing_ids = {} then 0
         else if candidate_ids \<inter> existing_ids = {} then 1 else 0)"

definition candidate_overlaps :: "MemoryCandidate \<Rightarrow> MemoryRecallCandidate \<Rightarrow> bool" where
  "candidate_overlaps candidate existing =
     intervals_overlap (mc_valid_from candidate) (mc_valid_to candidate)
                       (rc_valid_from existing) (rc_valid_to existing)"

definition candidate_newer :: "MemoryCandidate \<Rightarrow> MemoryRecallCandidate \<Rightarrow> bool" where
  "candidate_newer candidate existing =
     is_temporally_newer (mc_valid_from candidate) (mc_observed_at candidate)
                         (rc_valid_from existing) (rc_observed_at existing)"

definition best_comparison :: "MemoryCandidate \<Rightarrow> MemoryRecallCandidate \<Rightarrow> ClaimComparison option" where
  "best_comparison candidate existing =
     max_by cmp_overlap
       (concat (map (\<lambda>c. map (compare_claims c) (rc_canonical_claims existing))
                    (mc_canonical_claims candidate)))"

section \<open>Selecting the relation\<close>

definition select_relation ::
  "MemoryCandidate \<Rightarrow> MemoryRecallCandidate \<Rightarrow> ClaimComparison option \<Rightarrow> MemoryRelationScores \<Rightarrow> bool
   \<Rightarrow> MemoryRelationType \<times> pyfloat \<times> str \<times> MemoryDecisionSource" where
  "select_relation candidate existing best scores temporal_overlap =
     (if mc_content_hash candidate = rc_content_hash existing then
        (DUPLICATE, 1, ''Exact content hash match'', DETERMINISTIC)
      else if mc_source_identity candidate \<noteq> None
           \<and> mc_source_identity candidate = rc_source_identity existing
           \<and> fl (98 / 100) \<le> sc_semantic_similarity scores then
        (DUPLICATE, fl (99 / 100), ''Same source identity with equivalent content'', DETERMINISTIC)
      else if sc_scope_compatibility scores = 0 then
        (UNRELATED, fl (98 / 100), ''Project or scope identities are incompatible'', DETERMINISTIC)
      else (case best of
        None \<Rightarrow>
          (let relation = (if sc_semantic_similarity scores < fl (35 / 100) then UNRELATED else UNKNOWN)
           in (relation, if relation = UNRELATED then fl (75 / 100) else fl (4 / 10),
               ''No comparable canonical claims were available'', SEMANTIC))
      | Some b \<Rightarrow>
          if cmp_exact b then
            (let relation = (if 0 < sc_source_independence scores then SUPPORTS else DUPLICATE)
             in (relation, fl (98 / 100),
                 if relation = SUPPORTS
                 then ''Independent evidence supports the same canonical claim''
                 else ''Canonical claim is identical'', DETERMINISTIC))
          else if cmp_same_subject_predicate b
               \<and> (cmp_polarity_conflict b \<or> cmp_object_conflict b) \<and> temporal_overlap then
            (CONTRADICTS, fl (96 / 100),
             ''Claims conflict within overlapping validity intervals'', DETERMINISTIC)
          else if cmp_same_subject_predicate b \<and> sc_freshness scores = 1 \<and> \<not> temporal_overlap then
            (SUPERSEDES, fl (95 / 100),
             ''Candidate describes a newer non-overlapping state'', DETERMINISTIC)
          else if cmp_same_proposition b \<and> cmp_candidate_more_specific b then
            (EXTENDS, fl (9 / 10),
             ''Candidate adds qualifiers to the existing proposition'', DETERMINISTIC)
          else if fl (75 / 100) \<le> sc_claim_overlap scores
               \<and> fl (7 / 10) \<le> sc_semantic_similarity scores then
            (EXTENDS, fl (78 / 100),
             ''Candidate substantially overlaps and adds new detail'', SEMANTIC)
          else if sc_claim_overlap scores < fl (25 / 100)
               \<and> sc_semantic_similarity scores < fl (35 / 100) then
            (UNRELATED, fl (9 / 10), ''Claims and content have low overlap'', SEMANTIC)
          else
            (UNKNOWN, fl (45 / 100),
             ''Available evidence does not support a safe relation decision'', SEMANTIC)))"

definition relation_scores :: "MemoryCandidate \<Rightarrow> MemoryRecallCandidate \<Rightarrow> MemoryRelationScores" where
  "relation_scores candidate existing =
     (let best = best_comparison candidate existing in
      \<lparr> sc_semantic_similarity =
          ratio (normalized_text (mc_body candidate)) (normalized_text (rc_body existing)),
        sc_claim_overlap = (case best of None \<Rightarrow> 0 | Some b \<Rightarrow> cmp_overlap b),
        sc_scope_compatibility = scope_compatibility candidate existing,
        sc_temporal_compatibility = (if candidate_overlaps candidate existing then 1 else 0),
        sc_source_independence = source_independence candidate existing,
        sc_polarity_conflict =
          (case best of None \<Rightarrow> 0 | Some b \<Rightarrow> if cmp_polarity_conflict b then 1 else 0),
        sc_specificity_change =
          (case best of None \<Rightarrow> 0 | Some b \<Rightarrow> if cmp_candidate_more_specific b then 1 else 0),
        sc_freshness = (if candidate_newer candidate existing then 1 else 0) \<rparr>)"

definition classify :: "instant \<Rightarrow> MemoryCandidate \<Rightarrow> MemoryRecallCandidate \<Rightarrow> MemoryRelationDecision" where
  "classify now candidate existing =
     (let best = best_comparison candidate existing;
          scores = relation_scores candidate existing
      in case select_relation candidate existing best scores (candidate_overlaps candidate existing) of
           (relation, confidence, reason, source) \<Rightarrow>
             \<lparr> rd_candidate_id = mc_candidate_id candidate,
               rd_existing_context_id = rc_context_id existing,
               rd_relation = relation,
               rd_confidence = confidence,
               rd_reason = reason,
               rd_evidence_refs = mc_source_refs candidate,
               rd_claim_matches = (case best of None \<Rightarrow> [] | Some b \<Rightarrow> [cmp_summary b]),
               rd_scores = scores,
               rd_decision_source = source,
               rd_policy_version = POLICY_VERSION,
               rd_created_at = now \<rparr>)"

section \<open>Model-assisted proposals\<close>

definition MODEL_POLICY_VERSION :: str where
  "MODEL_POLICY_VERSION = ''memory-reconciliation-v2-model-policy''"

definition MIN_MODEL_CONFIDENCE :: pyfloat where
  "MIN_MODEL_CONFIDENCE = fl (65 / 100)"

definition proposal_is_supported ::
  "MemoryRelationModelProposal \<Rightarrow> MemoryRelationDecision \<Rightarrow> MemoryCandidate \<Rightarrow> MemoryRecallCandidate \<Rightarrow> bool"
where
  "proposal_is_supported proposal base candidate existing =
     (let relation = mp_relation proposal; scores = rd_scores base in
      if relation = UNRELATED then
        fl (85 / 100) \<le> mp_confidence proposal \<and> sc_semantic_similarity scores < fl (5 / 10)
      else if sc_scope_compatibility scores = 0 then False
      else if relation = DUPLICATE then
        fl (85 / 100) \<le> max (sc_semantic_similarity scores) (sc_claim_overlap scores)
      else if relation = SUPPORTS then
        fl (65 / 100) \<le> sc_claim_overlap scores \<and> sc_polarity_conflict scores = 0
      else if relation = EXTENDS then
        fl (5 / 10) \<le> sc_claim_overlap scores \<and> sc_polarity_conflict scores = 0
      else if relation = CONTRADICTS then
        sc_temporal_compatibility scores = 1 \<and> sc_polarity_conflict scores = 1
      else if relation = SUPERSEDES then
        \<not> candidate_overlaps candidate existing \<and> candidate_newer candidate existing
      else False)"

definition model_proposal_decision ::
  "instant \<Rightarrow> MemoryRelationDecision \<Rightarrow> MemoryRelationModelProposal \<Rightarrow> MemoryCandidate
   \<Rightarrow> MemoryRecallCandidate \<Rightarrow> MemoryRelationDecision" where
  "model_proposal_decision now base proposal candidate existing =
     (if rd_relation base \<noteq> UNKNOWN then base
      else if mp_relation proposal = UNKNOWN then base
      else if mp_confidence proposal < MIN_MODEL_CONFIDENCE then base
      else if \<not> proposal_is_supported proposal base candidate existing then base
      else \<lparr> rd_candidate_id = rd_candidate_id base,
             rd_existing_context_id = rd_existing_context_id base,
             rd_relation = mp_relation proposal,
             rd_confidence = mp_confidence proposal,
             rd_reason = ''Model proposal accepted by policy: '' @ mp_reason proposal,
             rd_evidence_refs = rd_evidence_refs base,
             rd_claim_matches = rd_claim_matches base,
             rd_scores = rd_scores base,
             rd_decision_source = LLM,
             rd_policy_version = MODEL_POLICY_VERSION,
             rd_created_at = now \<rparr>)"

text \<open>\<open>propose\<close> either raises or answers with an optional proposal.\<close>

type_synonym proposal_provider =
  "MemoryCandidate \<Rightarrow> MemoryRecallCandidate \<Rightarrow> py_exn + MemoryRelationModelProposal option"

definition classify_with_model ::
  "proposal_provider option \<Rightarrow> instant \<Rightarrow> MemoryCandidate \<Rightarrow> MemoryRecallCandidate
   \<Rightarrow> py_exn + MemoryRelationDecision" where
  "classify_with_model provider now candidate existing =
     (let base = classify now candidate existing in
      case provider of
        None \<Rightarrow> Inr base
      | Some propose \<Rightarrow>
          if rd_relation base \<noteq> UNKNOWN then Inr base
          else (case propose candidate existing of
                  Inl e \<Rightarrow> Inl e
                | Inr None \<Rightarrow> Inr base
                | Inr (Some proposal) \<Rightarrow>
                    Inr (model_proposal_decision now base proposal candidate existing)))"

section \<open>What a decision implies\<close>

lemma relation_scores_simps [simp]:
  "sc_scope_compatibility (relation_scores c e) = scope_compatibility c e"
  "sc_temporal_compatibility (relation_scores c e) = (if candidate_overlaps c e then 1 else 0)"
  "sc_freshness (relation_scores c e) = (if candidate_newer c e then 1 else 0)"
  "sc_semantic_similarity (relation_scores c e) =
     ratio (normalized_text (mc_body c)) (normalized_text (rc_body e))"
  "sc_polarity_conflict (relation_scores c e) =
     (case best_comparison c e of None \<Rightarrow> 0 | Some b \<Rightarrow> if cmp_polarity_conflict b then 1 else 0)"
  by (simp_all add: relation_scores_def Let_def)

lemma scope_compatibility_cases: "scope_compatibility c e = 0 \<or> scope_compatibility c e = 1"
  by (simp add: scope_compatibility_def split: prod.split)

lemma classify_eq:
  "classify now c e =
     (let r = select_relation c e (best_comparison c e) (relation_scores c e) (candidate_overlaps c e) in
      \<lparr> rd_candidate_id = mc_candidate_id c, rd_existing_context_id = rc_context_id e,
        rd_relation = fst r, rd_confidence = fst (snd r), rd_reason = fst (snd (snd r)),
        rd_evidence_refs = mc_source_refs c,
        rd_claim_matches = (case best_comparison c e of None \<Rightarrow> [] | Some b \<Rightarrow> [cmp_summary b]),
        rd_scores = relation_scores c e, rd_decision_source = snd (snd (snd r)),
        rd_policy_version = POLICY_VERSION, rd_created_at = now \<rparr>)"
  by (simp add: classify_def Let_def split: prod.split)

lemma classify_simps [simp]:
  "rd_scores (classify now c e) = relation_scores c e"
  "rd_candidate_id (classify now c e) = mc_candidate_id c"
  "rd_existing_context_id (classify now c e) = rc_context_id e"
  "rd_evidence_refs (classify now c e) = mc_source_refs c"
  "rd_relation (classify now c e) = fst (select_relation c e (best_comparison c e)
      (relation_scores c e) (candidate_overlaps c e))"
  "rd_confidence (classify now c e) = fst (snd (select_relation c e (best_comparison c e)
      (relation_scores c e) (candidate_overlaps c e)))"
  "rd_decision_source (classify now c e) = snd (snd (snd (select_relation c e (best_comparison c e)
      (relation_scores c e) (candidate_overlaps c e))))"
  by (simp_all add: classify_eq Let_def)

text \<open>
  Two claims conflict when they speak of the same subject and predicate (up to case and spacing)
  and disagree on the object or on the polarity.
\<close>

definition claims_conflict :: "CanonicalClaim \<Rightarrow> CanonicalClaim \<Rightarrow> bool" where
  "claims_conflict c e \<longleftrightarrow>
     normalized_text (cc_subject c) = normalized_text (cc_subject e) \<and>
     normalized_text (cc_predicate c) = normalized_text (cc_predicate e) \<and>
     (normalized_text (cc_object c) \<noteq> normalized_text (cc_object e) \<or> cc_polarity c \<noteq> cc_polarity e)"

definition conflicting_claims :: "MemoryCandidate \<Rightarrow> MemoryRecallCandidate \<Rightarrow> bool" where
  "conflicting_claims c e \<longleftrightarrow>
     (\<exists>x\<in>set (mc_canonical_claims c). \<exists>y\<in>set (rc_canonical_claims e). claims_conflict x y)"

lemma best_comparison_from:
  assumes "best_comparison c e = Some b"
  obtains x y where "x \<in> set (mc_canonical_claims c)" "y \<in> set (rc_canonical_claims e)"
    "b = compare_claims x y"
  using max_by_in [OF assms [unfolded best_comparison_def]] by auto

lemma compare_claims_conflict:
  "cmp_polarity_conflict (compare_claims x y) \<Longrightarrow> claims_conflict x y"
  "cmp_object_conflict (compare_claims x y) \<Longrightarrow> claims_conflict x y"
  by (simp_all add: compare_claims_def claims_conflict_def Let_def)

lemma best_conflict:
  assumes "best_comparison c e = Some b" and "cmp_polarity_conflict b \<or> cmp_object_conflict b"
  shows "conflicting_claims c e"
proof -
  obtain x y where xy: "x \<in> set (mc_canonical_claims c)" "y \<in> set (rc_canonical_claims e)"
    "b = compare_claims x y" using assms(1) by (rule best_comparison_from)
  then have "claims_conflict x y" using assms(2) compare_claims_conflict by blast
  with xy show ?thesis by (auto simp: conflicting_claims_def)
qed

lemma select_relation_supersedes:
  assumes "fst (select_relation c e best scores ov) = SUPERSEDES"
  shows "sc_scope_compatibility scores \<noteq> 0 \<and> sc_freshness scores = 1 \<and> \<not> ov"
  using assms unfolding select_relation_def Let_def
  by (auto split: if_splits option.splits)

lemma select_relation_contradicts:
  assumes "fst (select_relation c e best scores ov) = CONTRADICTS"
  shows "sc_scope_compatibility scores \<noteq> 0 \<and> ov \<and>
    (\<exists>b. best = Some b \<and> (cmp_polarity_conflict b \<or> cmp_object_conflict b))"
  using assms unfolding select_relation_def Let_def
  by (auto split: if_splits option.splits)

lemma classify_supersedes:
  assumes "rd_relation (classify now c e) = SUPERSEDES"
  shows "scope_compatibility c e = 1 \<and> candidate_newer c e \<and> \<not> candidate_overlaps c e"
  using select_relation_supersedes [OF assms [unfolded classify_simps]] scope_compatibility_cases [of c e]
  by (auto split: if_splits)

lemma classify_contradicts:
  assumes "rd_relation (classify now c e) = CONTRADICTS"
  shows "scope_compatibility c e = 1 \<and> candidate_overlaps c e \<and> conflicting_claims c e"
  using select_relation_contradicts [OF assms [unfolded classify_simps]]
    scope_compatibility_cases [of c e] best_conflict [of c e] by auto

lemma select_relation_source: "snd (snd (snd (select_relation c e best scores ov))) \<noteq> LLM"
  by (simp add: select_relation_def Let_def split: option.split)

lemma select_relation_confidence:
  "0 < fst (snd (select_relation c e best scores ov)) \<and>
   fst (snd (select_relation c e best scores ov)) \<le> 1"
  unfolding select_relation_def Let_def
  by (simp add: fl_pos fl_le_1 split: option.split)

lemmas model_gate_defs = classify_with_model_def model_proposal_decision_def Let_def

section \<open>Properties\<close>

text \<open>A candidate and a recalled Context on which the properties are exercised.\<close>

definition sample_claim :: "str \<Rightarrow> CanonicalClaim" where
  "sample_claim value =
     \<lparr> cc_subject = ''Service'', cc_predicate = ''port'', cc_object = value, cc_qualifiers = [],
       cc_scope = PROJECT, cc_project = Some ''p'', cc_valid_from = None, cc_valid_to = None,
       cc_polarity = POSITIVE \<rparr>"

definition sample_candidate :: "str \<Rightarrow> str \<Rightarrow> instant option \<Rightarrow> MemoryCandidate" where
  "sample_candidate value body vfrom =
     \<lparr> mc_candidate_id = ''c1'', mc_title = ''t'', mc_body = body,
       mc_canonical_claims = [sample_claim value], mc_scope = PROJECT, mc_project = Some ''p'',
       mc_tags = [], mc_source_refs = [], mc_recorded_at = 50, mc_observed_at = None,
       mc_valid_from = vfrom, mc_valid_to = None, mc_requested_lifecycle = ''active'',
       mc_content_hash = ''h1'', mc_workspace_id = None, mc_agent_id = None, mc_user_id = None,
       mc_session_id = None, mc_source_identity = None, mc_graph_neighbors = [],
       mc_lineage_ancestors = [] \<rparr>"

definition sample_recall :: "str \<Rightarrow> str \<Rightarrow> instant option \<Rightarrow> instant option \<Rightarrow> MemoryRecallCandidate" where
  "sample_recall value body vfrom vto =
     \<lparr> rc_context_id = ''obsidian:old'', rc_title = ''t'', rc_body = body,
       rc_canonical_claims = [sample_claim value], rc_scope = PROJECT, rc_project = Some ''p'',
       rc_source_identity = None, rc_content_hash = ''h0'', rc_recorded_at = 10,
       rc_observed_at = None, rc_valid_from = vfrom, rc_valid_to = vto, rc_workspace_id = None,
       rc_agent_id = None, rc_user_id = None, rc_session_id = None, rc_source_refs = [],
       rc_recall_reasons = [], rc_graph_neighbors = [], rc_lineage_ancestors = [] \<rparr>"

lemmas sample_defs = sample_candidate_def sample_recall_def sample_claim_def best_comparison_def
  compare_claims_simps scope_compatibility_def scope_identities_def candidate_overlaps_def
  candidate_newer_def intervals_overlap_def is_temporally_newer_def qualifier_pairs_def

text \<open>
  C8: the two relations that lead to lifecycle changes of existing memory are only ever decided
  on hard evidence, whether by policy or by an accepted model proposal: SUPERSEDES only for a
  candidate of the same scope identity that is strictly newer and whose validity does not overlap
  the old one; CONTRADICTS only within the same scope identity, for overlapping validity and an
  actual pair of conflicting canonical claims.
\<close>

theorem destructive_relations_sound:
  assumes "classify_with_model provider now c e = Inr d"
  shows "(rd_relation d = SUPERSEDES \<longrightarrow>
            scope_compatibility c e = 1 \<and> candidate_newer c e \<and> \<not> candidate_overlaps c e) \<and>
         (rd_relation d = CONTRADICTS \<longrightarrow>
            scope_compatibility c e = 1 \<and> candidate_overlaps c e \<and> conflicting_claims c e)"
proof -
  let ?base = "classify now c e"
  have sc: "scope_compatibility c e \<noteq> 0 \<Longrightarrow> scope_compatibility c e = 1"
    using scope_compatibility_cases by blast
  have model: "d = ?base \<or> (\<exists>pr. rd_relation d = mp_relation pr \<and> proposal_is_supported pr ?base c e)"
    using assms by (auto simp: model_gate_defs split: option.splits if_splits sum.splits)
  show ?thesis
  proof (cases "d = ?base")
    case False
    with model obtain pr where d: "rd_relation d = mp_relation pr"
      and ok: "proposal_is_supported pr ?base c e" by blast
    show ?thesis using ok sc best_conflict [of c e]
      by (auto simp: d proposal_is_supported_def Let_def split: option.splits if_splits)
  qed (use classify_supersedes classify_contradicts in blast)
qed

theorem destructive_relations_sound_witness:
  "rd_relation (classify 60 (sample_candidate ''81'' ''b'' (Some 40)) (sample_recall ''80'' ''a'' (Some 10) (Some 20)))
     = SUPERSEDES \<and>
   candidate_newer (sample_candidate ''81'' ''b'' (Some 40)) (sample_recall ''80'' ''a'' (Some 10) (Some 20)) \<and>
   rd_relation (classify 60 (sample_candidate ''81'' ''b'' (Some 15)) (sample_recall ''80'' ''a'' (Some 10) (Some 20)))
     = CONTRADICTS \<and>
   conflicting_claims (sample_candidate ''81'' ''b'' (Some 15)) (sample_recall ''80'' ''a'' (Some 10) (Some 20))"
proof -
  let ?e = "sample_recall ''80'' ''a'' (Some 10) (Some 20)"
  let ?s = "sample_candidate ''81'' ''b'' (Some 40)" and ?k = "sample_candidate ''81'' ''b'' (Some 15)"
  have t: "normalized_text ''81'' \<noteq> normalized_text ''80''" by code_simp
  have s: "rd_relation (classify 60 ?s ?e) = SUPERSEDES"
    and k: "rd_relation (classify 60 ?k ?e) = CONTRADICTS"
    using t by (simp_all add: select_relation_def sample_defs)
  have "classify_with_model None 60 x ?e = Inr (classify 60 x ?e)" for x
    by (simp add: classify_with_model_def)
  from s k destructive_relations_sound [OF this [of ?s]] destructive_relations_sound [OF this [of ?k]]
  show ?thesis by blast
qed

text \<open>
  a model proposal can only fill a gap. The decision returned is the policy's own unless the
  policy answered UNKNOWN, a provider proposed another relation with at least the minimum
  confidence and the proposal is supported by the computed scores; the accepted decision is marked
  as coming from the model and keeps the policy's identities, evidence, claim matches and scores.
\<close>

theorem model_proposal_gate:
  assumes "classify_with_model provider now c e = Inr d" and "d \<noteq> classify now c e"
  shows "rd_relation (classify now c e) = UNKNOWN \<and> rd_relation d \<noteq> UNKNOWN \<and>
         MIN_MODEL_CONFIDENCE \<le> rd_confidence d \<and> rd_decision_source d = LLM \<and>
         (\<exists>propose pr. provider = Some propose \<and> propose c e = Inr (Some pr) \<and>
            rd_relation d = mp_relation pr \<and> proposal_is_supported pr (classify now c e) c e) \<and>
         rd_candidate_id d = mc_candidate_id c \<and> rd_existing_context_id d = rc_context_id e \<and>
         rd_evidence_refs d = mc_source_refs c \<and> rd_scores d = relation_scores c e \<and>
         rd_claim_matches d = rd_claim_matches (classify now c e)"
proof -
  define base where "base = classify now c e"
  obtain propose pr where p: "provider = Some propose" "propose c e = Inr (Some pr)"
    "rd_relation base = UNKNOWN" "d = model_proposal_decision now base pr c e"
    using assms by (auto simp: classify_with_model_def Let_def base_def simp del: classify_simps
        split: option.splits if_splits sum.splits)
  have acc: "mp_relation pr \<noteq> UNKNOWN" "MIN_MODEL_CONFIDENCE \<le> mp_confidence pr"
    "proposal_is_supported pr base c e"
    using assms(2) p(4) by (auto simp: model_proposal_decision_def base_def split: if_splits)
  show ?thesis using acc p
    by (simp add: model_proposal_decision_def not_less flip: base_def) (simp add: base_def)
qed

definition sample_proposal :: MemoryRelationModelProposal where
  "sample_proposal = \<lparr> mp_relation = SUPERSEDES, mp_confidence = 1, mp_reason = ''newer'' \<rparr>"

theorem model_proposal_gate_witness:
  "\<exists>d. classify_with_model (Some (\<lambda>_ _. Inr (Some sample_proposal))) 60
         ((sample_candidate [] ''ab'' (Some 40))\<lparr>mc_canonical_claims := []\<rparr>)
         (sample_recall [] ''ac'' (Some 10) (Some 20)) = Inr d \<and>
       rd_decision_source d = LLM \<and> rd_relation d = SUPERSEDES"
proof -
  let ?c = "(sample_candidate [] ''ab'' (Some 40))\<lparr>mc_canonical_claims := []\<rparr>"
  let ?e = "sample_recall [] ''ac'' (Some 10) (Some 20)"
  have r: "ratio (normalized_text ''ab'') (normalized_text ''ac'') = 1 / 2" by code_simp
  have f: "fl (35 / 100) \<le> 1 / 2" by code_simp
  have f2: "fl (98 / 100) > 1 / 2" by code_simp
  have u: "rd_relation (classify 60 ?c ?e) = UNKNOWN"
    using r f f2 by (simp add: select_relation_def sample_defs Let_def)
  define d where "d = model_proposal_decision 60 (classify 60 ?c ?e) sample_proposal ?c ?e"
  have e: "classify_with_model (Some (\<lambda>_ _. Inr (Some sample_proposal))) 60 ?c ?e = Inr d"
    using u by (simp add: classify_with_model_def Let_def d_def)
  have rel: "rd_relation d = SUPERSEDES"
    using u fl_le_1 [of "65 / 100"]
    by (simp add: d_def model_proposal_decision_def sample_proposal_def proposal_is_supported_def
        MIN_MODEL_CONFIDENCE_def not_less Let_def) (simp add: sample_defs)
  with u have "d \<noteq> classify 60 ?c ?e" by auto
  from model_proposal_gate [OF e this] e rel show ?thesis by auto
qed

text \<open>
  every decision is a bounded score: its confidence is positive and at most 1, and the
  semantic similarity that the thresholds compare lies between 0 and 1 for all texts.
\<close>

theorem classify_scores_bounded:
  "0 < rd_confidence (classify now c e) \<and> rd_confidence (classify now c e) \<le> 1 \<and>
   0 \<le> sc_semantic_similarity (rd_scores (classify now c e)) \<and>
   sc_semantic_similarity (rd_scores (classify now c e)) \<le> 1"
  using select_relation_confidence ratio_bounds by simp

text \<open>
  the similarity is blind on long texts of few letters. When every character of the stored
  body is popular (200 or more characters, each over one percent of the text) and the first
  characters of the normalized bodies differ, the similarity is 0, so without canonical claims the
  candidate is classified as UNRELATED, however much of the two bodies is equal.
\<close>

theorem long_text_similarity_blind:
  assumes "\<forall>ch\<in>set (normalized_text (rc_body e)). popular (normalized_text (rc_body e)) ch"
    and "normalized_text (mc_body c) \<noteq> []" and "normalized_text (rc_body e) \<noteq> []"
    and "hd (normalized_text (mc_body c)) \<noteq> hd (normalized_text (rc_body e))"
    and "mc_content_hash c \<noteq> rc_content_hash e" and "mc_canonical_claims c = []"
  shows "sc_semantic_similarity (rd_scores (classify now c e)) = 0 \<and>
         rd_relation (classify now c e) = UNRELATED"
proof -
  have r: "ratio (normalized_text (mc_body c)) (normalized_text (rc_body e)) = 0"
    using assms by (intro ratio_all_popular) auto
  have "best_comparison c e = None" using assms(6) by (simp add: best_comparison_def)
  then show ?thesis using r assms(5) fl_pos [of "98 / 100"] fl_pos [of "35 / 100"]
    by (simp add: select_relation_def Let_def)
qed

theorem long_text_similarity_blind_witness:
  "rd_relation (classify 0
     ((sample_candidate [] (CHR ''x'' # replicate 200 CHR ''a'') None)\<lparr>mc_canonical_claims := []\<rparr>)
     (sample_recall [] (replicate 200 CHR ''a'') None None)) = UNRELATED"
proof -
  let ?c = "(sample_candidate [] (CHR ''x'' # replicate 200 CHR ''a'') None)\<lparr>mc_canonical_claims := []\<rparr>"
  let ?e = "sample_recall [] (replicate 200 CHR ''a'') None None"
  have n1: "normalized_text (mc_body ?c) = CHR ''x'' # replicate 200 CHR ''a''"
    by (simp add: sample_candidate_def normalized_word is_space_def upper_latin1_def)
  have n2: "normalized_text (rc_body ?e) = replicate 200 CHR ''a''"
    by (simp add: sample_recall_def normalized_word is_space_def upper_latin1_def)
  have pop: "\<forall>ch\<in>set (replicate 200 CHR ''a''). popular (replicate 200 CHR ''a'') ch"
    by (simp add: popular_def count_list_eq_length_filter)
  have "rd_relation (classify 0 ?c ?e) = UNRELATED"
    using long_text_similarity_blind [of ?e ?c 0] n1 n2 pop
    by (simp add: sample_candidate_def sample_recall_def)
  then show ?thesis .
qed

end
