(* ===== verification/Reconciliation_Plan.thy ===== *)
theory Reconciliation_Plan
  imports Relation_Classifier
begin

text \<open>
  From decisions to a plan: the priority and action policy of \<open>memory_reconciliation_policy.py\<close>
  and the plan builder of \<open>memory_reconciliation_plan_service.py\<close>. New identifiers
  (\<open>new_uuid\<close>), the clock and the native text hash are arguments.
\<close>

section \<open>Action policy\<close>

fun RELATION_PRIORITY :: "MemoryRelationType \<Rightarrow> int" where
  "RELATION_PRIORITY DUPLICATE = 70"
| "RELATION_PRIORITY CONTRADICTS = 60"
| "RELATION_PRIORITY SUPERSEDES = 50"
| "RELATION_PRIORITY SUPPORTS = 40"
| "RELATION_PRIORITY EXTENDS = 30"
| "RELATION_PRIORITY UNKNOWN = 20"
| "RELATION_PRIORITY UNRELATED = 10"

definition decision_key :: "MemoryRelationDecision \<Rightarrow> int \<times> pyfloat" where
  "decision_key item = (RELATION_PRIORITY (rd_relation item), rd_confidence item)"

definition select_primary_decision :: "MemoryRelationDecision list \<Rightarrow> MemoryRelationDecision option" where
  "select_primary_decision decisions = max_by decision_key decisions"

definition action ::
  "MemoryReconciliationActionType \<Rightarrow> str option \<Rightarrow> MemoryRelationType option \<Rightarrow> str
   \<Rightarrow> MemoryReconciliationAction" where
  "action action_type target_context_id relation reason =
     \<lparr> ra_action_type = action_type, ra_target_context_id = target_context_id,
       ra_relation = relation, ra_reason = reason \<rparr>"

definition actions_for_decision ::
  "MemoryRelationDecision option \<Rightarrow> MemoryReconciliationAction list" where
  "actions_for_decision decision =
     (case decision of
        None \<Rightarrow> [\<lparr> ra_action_type = CREATE_CONTEXT, ra_target_context_id = None, ra_relation = None,
                   ra_reason = ''No related Context was recalled'' \<rparr>]
      | Some d \<Rightarrow>
          (let target = Some (rd_existing_context_id d); relation = Some (rd_relation d) in
           if rd_relation d = DUPLICATE then
             [action MERGE_EVIDENCE target relation
                ''Merge new provenance into the canonical duplicate'',
              action NOOP target relation ''Do not create a duplicate Context'']
           else if rd_relation d = SUPPORTS then
             [action MERGE_EVIDENCE target relation ''Attach independent supporting evidence'',
              action CREATE_RELATION target relation ''Persist the supports relation'']
           else if rd_relation d = EXTENDS then
             [action CREATE_CONTEXT target relation ''Create the more specific Context'',
              action CREATE_RELATION target relation ''Persist the extends relation'']
           else if rd_relation d = CONTRADICTS then
             [action CREATE_CONTEXT target relation
                ''Preserve the conflicting candidate as a separate Context'',
              action CREATE_RELATION target relation ''Persist the contradiction relation'',
              action CREATE_CONFLICT_SET target relation
                ''Preserve both claims in a first-class conflict set'',
              action QUEUE_REVIEW target relation ''Require an explicit conflict resolution'']
           else if rd_relation d = SUPERSEDES then
             [action CREATE_CONTEXT target relation ''Create the newer current Context'',
              action CREATE_RELATION target relation ''Persist the supersedes relation'',
              action MARK_SUPERSEDED target relation
                ''Close the previous Context validity interval without deleting it'',
              action QUEUE_REVIEW target relation
                ''Require explicit Memory Steward approval before supersession'']
           else if rd_relation d = UNKNOWN then
             [action CREATE_CONTEXT target relation ''Preserve the candidate as a draft Context'',
              action PRESERVE_CANDIDATE target relation
                ''Retain the candidate and classification evidence'',
              action QUEUE_REVIEW target relation
                ''Require review because the relation is unknown'']
           else
             [action CREATE_CONTEXT target relation ''Create an unrelated new Context'']))"

section \<open>Building a plan\<close>

definition generated_idempotency_key :: "(str \<Rightarrow> str) \<Rightarrow> MemoryCandidate \<Rightarrow> str" where
  "generated_idempotency_key hash_text candidate =
     (let opt = (\<lambda>v. case v of None \<Rightarrow> [] | Some s \<Rightarrow> s) in
      hash_text (join ''|''
        [scope_value (mc_scope candidate), opt (mc_project candidate),
         opt (mc_workspace_id candidate), opt (mc_agent_id candidate), opt (mc_user_id candidate),
         opt (mc_session_id candidate), mc_content_hash candidate]))"

definition plan_warnings ::
  "MemoryCandidate \<Rightarrow> MemoryRelationDecision list \<Rightarrow> MemoryRelationType \<Rightarrow> str list" where
  "plan_warnings candidate decisions primary_relation =
     (if mc_canonical_claims candidate = []
      then [''Canonical claims were unavailable; semantic classification is limited.''] else []) @
     (if decisions = [] then [''No existing Context candidate was recalled.''] else []) @
     (if primary_relation = CONTRADICTS
      then [''An unresolved contradiction must remain visible to recall.''] else []) @
     (if primary_relation = SUPERSEDES
      then [''Supersession requires explicit Memory Steward approval before canonical lifecycle mutation.'']
      else []) @
     (if primary_relation = UNKNOWN
      then [''Relation confidence is insufficient for automatic resolution.''] else [])"

definition build_plan ::
  "(str \<Rightarrow> str) \<Rightarrow> str \<Rightarrow> instant \<Rightarrow> MemoryCandidate \<Rightarrow> MemoryRelationDecision list \<Rightarrow> str option
   \<Rightarrow> MemoryEvolutionCandidateEvidence option \<Rightarrow> MemoryReconciliationPlan" where
  "build_plan hash_text new_id now candidate decisions idempotency_key candidate_evidence =
     (let primary = select_primary_decision decisions;
          primary_relation = (case primary of None \<Rightarrow> UNRELATED | Some d \<Rightarrow> rd_relation d);
          requires_review = primary_relation \<in> {CONTRADICTS, SUPERSEDES, UNKNOWN};
          conflicting = fromkeys (map rd_existing_context_id
                          (filter (\<lambda>d. rd_relation d = CONTRADICTS) decisions))
      in \<lparr> rp_plan_id = new_id,
           rp_candidate = candidate,
           rp_decisions = decisions,
           rp_primary_decision = primary_relation,
           rp_actions = actions_for_decision primary,
           rp_warnings = plan_warnings candidate decisions primary_relation,
           rp_conflicting_context_ids = conflicting,
           rp_requires_review = requires_review,
           rp_idempotency_key =
             (case idempotency_key of
                None \<Rightarrow> generated_idempotency_key hash_text candidate
              | Some k \<Rightarrow> if strip k \<noteq> [] then strip k
                          else generated_idempotency_key hash_text candidate),
           rp_status = (if requires_review then REVIEW_REQUIRED else PLANNED),
           rp_created_at = now,
           rp_candidate_evidence = candidate_evidence \<rparr>)"

section \<open>Facts about policy and plans\<close>

definition action_types :: "MemoryReconciliationAction list \<Rightarrow> MemoryReconciliationActionType list" where
  "action_types acts = map ra_action_type acts"

text \<open>The action types the policy assigns to each relation.\<close>

fun actions_of_relation :: "MemoryRelationType \<Rightarrow> MemoryReconciliationActionType list" where
  "actions_of_relation DUPLICATE = [MERGE_EVIDENCE, NOOP]"
| "actions_of_relation SUPPORTS = [MERGE_EVIDENCE, CREATE_RELATION]"
| "actions_of_relation EXTENDS = [CREATE_CONTEXT, CREATE_RELATION]"
| "actions_of_relation CONTRADICTS = [CREATE_CONTEXT, CREATE_RELATION, CREATE_CONFLICT_SET, QUEUE_REVIEW]"
| "actions_of_relation SUPERSEDES = [CREATE_CONTEXT, CREATE_RELATION, MARK_SUPERSEDED, QUEUE_REVIEW]"
| "actions_of_relation UNKNOWN = [CREATE_CONTEXT, PRESERVE_CANDIDATE, QUEUE_REVIEW]"
| "actions_of_relation UNRELATED = [CREATE_CONTEXT]"

lemma ra_action_type_action [simp]: "ra_action_type (action a t r m) = a"
  by (simp add: action_def)

lemma ra_target_action [simp]: "ra_target_context_id (action a t r m) = t"
  by (simp add: action_def)

lemma action_types_policy:
  "action_types (actions_for_decision p) =
     actions_of_relation (case p of None \<Rightarrow> UNRELATED | Some d \<Rightarrow> rd_relation d)"
proof (cases p)
  case (Some d)
  then show ?thesis
    by (cases "rd_relation d") (simp_all add: actions_for_decision_def action_types_def Let_def)
qed (simp add: actions_for_decision_def action_types_def)

lemma actions_target:
  "act \<in> set (actions_for_decision (Some d)) \<Longrightarrow> ra_target_context_id act = Some (rd_existing_context_id d)"
  by (cases "rd_relation d") (auto simp: actions_for_decision_def Let_def)

lemma build_plan_simps [simp]:
  "rp_plan_id (build_plan h i now c ds k ev) = i"
  "rp_candidate (build_plan h i now c ds k ev) = c"
  "rp_decisions (build_plan h i now c ds k ev) = ds"
  "rp_actions (build_plan h i now c ds k ev) = actions_for_decision (select_primary_decision ds)"
  "rp_primary_decision (build_plan h i now c ds k ev) =
     (case select_primary_decision ds of None \<Rightarrow> UNRELATED | Some d \<Rightarrow> rd_relation d)"
  "rp_conflicting_context_ids (build_plan h i now c ds k ev) =
     fromkeys (map rd_existing_context_id (filter (\<lambda>d. rd_relation d = CONTRADICTS) ds))"
  by (simp_all add: build_plan_def Let_def)

lemma build_plan_review:
  "rp_requires_review (build_plan h i now c ds k ev) \<longleftrightarrow>
     rp_primary_decision (build_plan h i now c ds k ev) \<in> {CONTRADICTS, SUPERSEDES, UNKNOWN}"
  "rp_status (build_plan h i now c ds k ev) =
     (if rp_requires_review (build_plan h i now c ds k ev) then REVIEW_REQUIRED else PLANNED)"
  by (simp_all add: build_plan_def Let_def)

text \<open>\<open>has_action\<close> of \<open>memory_reconciliation_apply_policy.py\<close>.\<close>

definition has_action :: "MemoryReconciliationPlan \<Rightarrow> MemoryReconciliationActionType \<Rightarrow> bool" where
  "has_action plan action_type = list_ex (\<lambda>a. ra_action_type a = action_type) (rp_actions plan)"

lemma has_action_iff: "has_action plan a \<longleftrightarrow> a \<in> set (action_types (rp_actions plan))"
  by (auto simp: has_action_def action_types_def list_ex_iff)

text \<open>A plan whose actions are exactly what the policy assigns to its primary relation.\<close>

definition policy_plan :: "MemoryReconciliationPlan \<Rightarrow> bool" where
  "policy_plan plan \<longleftrightarrow>
     action_types (rp_actions plan) = actions_of_relation (rp_primary_decision plan) \<and>
     rp_requires_review plan = (rp_primary_decision plan \<in> {CONTRADICTS, SUPERSEDES, UNKNOWN}) \<and>
     (rp_primary_decision plan \<noteq> UNRELATED \<longrightarrow>
        (\<exists>d\<in>set (rp_decisions plan). rd_relation d = rp_primary_decision plan))"

lemma has_action_policy:
  "policy_plan plan \<Longrightarrow> has_action plan a \<longleftrightarrow> a \<in> set (actions_of_relation (rp_primary_decision plan))"
  by (simp add: has_action_iff policy_plan_def)

lemma policy_plan_build: "policy_plan (build_plan h i now c ds k ev)"
  unfolding policy_plan_def
proof (intro conjI)
  show "rp_primary_decision (build_plan h i now c ds k ev) \<noteq> UNRELATED \<longrightarrow>
      (\<exists>d\<in>set (rp_decisions (build_plan h i now c ds k ev)).
         rd_relation d = rp_primary_decision (build_plan h i now c ds k ev))"
    using max_by_in [of decision_key ds]
    by (auto simp: select_primary_decision_def split: option.splits)
qed (simp_all add: action_types_policy build_plan_review)

lemma decision_key_mono: "decision_key d \<le> decision_key e \<Longrightarrow>
  RELATION_PRIORITY (rd_relation d) \<le> RELATION_PRIORITY (rd_relation e)"
  by (auto simp: decision_key_def less_eq_prod_def)

lemma RELATION_PRIORITY_inject [simp]: "RELATION_PRIORITY a = RELATION_PRIORITY b \<longleftrightarrow> a = b"
  by (cases a; cases b) simp_all

section \<open>Properties\<close>

text \<open>
  the primary decision is the safest one: among all decisions it has the highest relation
  priority, and among those of its relation the highest confidence; there is one as soon as there
  is any decision.
\<close>

theorem primary_decision_is_maximal:
  assumes "d \<in> set decisions"
  shows "\<exists>p\<in>set decisions. select_primary_decision decisions = Some p \<and>
     RELATION_PRIORITY (rd_relation d) \<le> RELATION_PRIORITY (rd_relation p) \<and>
     (rd_relation d = rd_relation p \<longrightarrow> rd_confidence d \<le> rd_confidence p)"
proof -
  obtain p where p: "select_primary_decision decisions = Some p"
    using assms by (cases "select_primary_decision decisions") (auto simp: select_primary_decision_def)
  then have "p \<in> set decisions" "decision_key d \<le> decision_key p"
    using max_by_in max_by_ge assms by (auto simp: select_primary_decision_def)
  with p show ?thesis
    using decision_key_mono [of d p] by (auto simp: decision_key_def less_eq_prod_def)
qed

definition sample_decision :: "str \<Rightarrow> MemoryRelationType \<Rightarrow> pyfloat \<Rightarrow> MemoryRelationDecision" where
  "sample_decision target relation confidence =
     \<lparr> rd_candidate_id = ''c1'', rd_existing_context_id = target, rd_relation = relation,
       rd_confidence = confidence, rd_reason = ''r'', rd_evidence_refs = [], rd_claim_matches = [],
       rd_scores = \<lparr> sc_semantic_similarity = 0, sc_claim_overlap = 0, sc_scope_compatibility = 1,
         sc_temporal_compatibility = 1, sc_source_independence = 0, sc_polarity_conflict = 1,
         sc_specificity_change = 0, sc_freshness = 0 \<rparr>,
       rd_decision_source = LLM, rd_policy_version = [], rd_created_at = 0 \<rparr>"

theorem primary_decision_is_maximal_witness:
  "\<exists>p. select_primary_decision [sample_decision ''a'' EXTENDS 1, sample_decision ''b'' CONTRADICTS (1 / 2)] = Some p \<and>
       rd_relation p = CONTRADICTS"
proof -
  let ?ds = "[sample_decision ''a'' EXTENDS 1, sample_decision ''b'' CONTRADICTS (1 / 2)]"
  obtain p where "p \<in> set ?ds" "select_primary_decision ?ds = Some p"
    "RELATION_PRIORITY CONTRADICTS \<le> RELATION_PRIORITY (rd_relation p)"
    using primary_decision_is_maximal [of "sample_decision ''b'' CONTRADICTS (1 / 2)" ?ds]
    by (auto simp: sample_decision_def)
  then show ?thesis by (auto simp: sample_decision_def)
qed

text \<open>
  in every plan the builder produces, a human review is queued exactly when the plan requires
  review, superseding an existing memory or opening a conflict is only ever planned together with
  that review and with a persisted relation, and every plan writes the canonical memory in exactly
  one way (a new Context or merged evidence).
\<close>

theorem built_plans_are_review_safe:
  "(has_action (build_plan h i now c ds k ev) QUEUE_REVIEW \<longleftrightarrow>
      rp_requires_review (build_plan h i now c ds k ev)) \<and>
   (has_action (build_plan h i now c ds k ev) MARK_SUPERSEDED \<or>
    has_action (build_plan h i now c ds k ev) CREATE_CONFLICT_SET \<longrightarrow>
      rp_requires_review (build_plan h i now c ds k ev) \<and>
      has_action (build_plan h i now c ds k ev) CREATE_RELATION) \<and>
   (has_action (build_plan h i now c ds k ev) CREATE_CONTEXT \<longleftrightarrow>
      \<not> has_action (build_plan h i now c ds k ev) MERGE_EVIDENCE)"
proof -
  let ?p = "build_plan h i now c ds k ev"
  have "rp_requires_review ?p = (rp_primary_decision ?p \<in> {CONTRADICTS, SUPERSEDES, UNKNOWN})"
    "policy_plan ?p"
    using policy_plan_build [of h i now c ds k ev] by (simp_all add: policy_plan_def)
  then show ?thesis by (cases "rp_primary_decision ?p") (simp_all add: has_action_policy)
qed

theorem built_plans_are_review_safe_witness:
  "has_action (build_plan (\<lambda>x. x) ''p'' 0 (sample_candidate [] [] None)
      [sample_decision ''a'' SUPERSEDES 1] None None) MARK_SUPERSEDED \<and>
   rp_requires_review (build_plan (\<lambda>x. x) ''p'' 0 (sample_candidate [] [] None)
      [sample_decision ''a'' SUPERSEDES 1] None None)"
proof -
  let ?p = "build_plan (\<lambda>x. x) ''p'' 0 (sample_candidate [] [] None) [sample_decision ''a'' SUPERSEDES 1] None None"
  have "has_action ?p MARK_SUPERSEDED"
    by (simp add: has_action_policy [OF policy_plan_build] select_primary_decision_def sample_decision_def)
  then show ?thesis
    using built_plans_are_review_safe [of "\<lambda>x. x" "''p''" 0 "sample_candidate [] [] None"
        "[sample_decision ''a'' SUPERSEDES 1]" None None] by blast
qed

end
