(* ===== verification/Reconciliation_Store.thy ===== *)
theory Reconciliation_Store
  imports Reconciliation_Plan
begin

text \<open>
  The SQL persistence of reconciliation: the five tables of \<open>reconciliation_models.py\<close>, one
  record per row, and the operations of the focused stores (\<open>reconciliation_plan_store.py\<close>,
  \<open>reconciliation_result_store.py\<close>, \<open>reconciliation_relation_store.py\<close>,
  \<open>reconciliation_conflict_store.py\<close>, \<open>reconciliation_temporal_store.py\<close>) that the repository
  facade delegates to.

  Two third-party packages sit below these stores and are a parameter of type \<open>sql\<close>:
  pydantic's \<open>TypeAdapter\<close>s, which dump an entity to the JSON payload column and validate it back
  (validation may raise), and the SQLAlchemy session on PostgreSQL, which may raise on a query or
  on a flush. A failed flush leaves the session unusable until it is rolled back: every later
  operation of the unit of work raises \<open>PendingRollbackError\<close>. What the code relies on is stated
  as named hypotheses: \<open>sql_round_trip\<close> and \<open>sql_fault_free\<close>.
\<close>

section \<open>Tables\<close>

record 'j PlanRow =
  pl_id :: str
  pl_candidate_id :: str
  pl_idempotency_key :: str
  pl_primary_decision :: MemoryRelationType
  pl_status :: MemoryReconciliationStatus
  pl_requires_review :: bool
  pl_payload :: 'j
  pl_created_at :: instant

record 'j ResultRow =
  rs_id :: str
  rs_plan_id :: str
  rs_status :: MemoryReconciliationStatus
  rs_failure_code :: "MemoryReconciliationFailureCode option"
  rs_hard_delete_performed :: bool
  rs_payload :: 'j
  rs_completed_at :: "instant option"

record 'j RelationRow =
  rw_id :: str
  rw_source_context_id :: str
  rw_target_context_id :: str
  rw_candidate_id :: str
  rw_relation :: MemoryRelationType
  rw_confidence :: pyfloat
  rw_reason :: str
  rw_decision_source :: MemoryDecisionSource
  rw_policy_version :: str
  rw_payload :: 'j
  rw_created_at :: instant

record 'j ConflictRow =
  cf_id :: str
  cf_candidate_id :: str
  cf_subject_key :: str
  cf_claim_key :: str
  cf_scope :: ContextScope
  cf_status :: MemoryConflictStatus
  cf_validity_overlap :: bool
  cf_payload :: 'j
  cf_created_at :: instant
  cf_resolved_at :: "instant option"

record 'j TemporalRow =
  tp_context_id :: str
  tp_recorded_at :: instant
  tp_observed_at :: "instant option"
  tp_valid_from :: "instant option"
  tp_valid_to :: "instant option"
  tp_is_current :: bool
  tp_payload :: 'j
  tp_updated_at :: instant

record 'j db =
  db_plans :: "'j PlanRow list"
  db_results :: "'j ResultRow list"
  db_relations :: "'j RelationRow list"
  db_conflicts :: "'j ConflictRow list"
  db_temporal :: "'j TemporalRow list"
  db_needs_rollback :: bool

section \<open>The session and the payload adapters\<close>

record 'j sql =
  sql_plan_dump :: "MemoryReconciliationPlan \<Rightarrow> 'j"
  sql_plan_load :: "'j \<Rightarrow> py_exn + MemoryReconciliationPlan"
  sql_result_dump :: "MemoryReconciliationResult \<Rightarrow> 'j"
  sql_result_load :: "'j \<Rightarrow> py_exn + MemoryReconciliationResult"
  sql_relation_dump :: "MemoryRelationRecord \<Rightarrow> 'j"
  sql_relation_load :: "'j \<Rightarrow> py_exn + MemoryRelationRecord"
  sql_conflict_dump :: "MemoryConflictSet \<Rightarrow> 'j"
  sql_conflict_load :: "'j \<Rightarrow> py_exn + MemoryConflictSet"
  sql_temporal_dump :: "MemoryTemporalState \<Rightarrow> 'j"
  sql_temporal_load :: "'j \<Rightarrow> py_exn + MemoryTemporalState"
  sql_query_fault :: "str \<Rightarrow> 'j db \<Rightarrow> py_exn option"
  sql_flush_fault :: "str \<Rightarrow> 'j db \<Rightarrow> py_exn option"

text \<open>A payload dumped by an adapter validates back to the same entity.\<close>

definition sql_round_trip :: "'j sql \<Rightarrow> bool" where
  "sql_round_trip S \<longleftrightarrow>
     (\<forall>x. sql_plan_load S (sql_plan_dump S x) = Inr x) \<and>
     (\<forall>x. sql_result_load S (sql_result_dump S x) = Inr x) \<and>
     (\<forall>x. sql_relation_load S (sql_relation_dump S x) = Inr x) \<and>
     (\<forall>x. sql_conflict_load S (sql_conflict_dump S x) = Inr x) \<and>
     (\<forall>x. sql_temporal_load S (sql_temporal_dump S x) = Inr x)"

definition sql_fault_free :: "'j sql \<Rightarrow> bool" where
  "sql_fault_free S \<longleftrightarrow>
     (\<forall>f d. sql_query_fault S f d = None) \<and> (\<forall>f d. sql_flush_fault S f d = None)"

lemma sql_round_trip_simps:
  assumes "sql_round_trip S"
  shows "sql_plan_load S (sql_plan_dump S p) = Inr p"
    and "sql_result_load S (sql_result_dump S r) = Inr r"
    and "sql_relation_load S (sql_relation_dump S l) = Inr l"
    and "sql_conflict_load S (sql_conflict_dump S c) = Inr c"
    and "sql_temporal_load S (sql_temporal_dump S t) = Inr t"
  using assms by (simp_all add: sql_round_trip_def)

definition PendingRollbackError :: py_exn where
  "PendingRollbackError = OtherError ''PendingRollbackError''
     ''This Session's transaction has been rolled back due to a previous exception during flush.''"

text \<open>A query: refused while a rollback is pending, otherwise a read of the tables.\<close>

definition query :: "'j sql \<Rightarrow> str \<Rightarrow> ('j db \<Rightarrow> 'a) \<Rightarrow> ('j db, py_exn, 'a) prog" where
  "query S op f d =
     (if db_needs_rollback d then (Inl PendingRollbackError, d)
      else (case sql_query_fault S op d of Some e \<Rightarrow> (Inl e, d) | None \<Rightarrow> (Inr (f d), d)))"

text \<open>\<open>session.flush()\<close> of one pending change of the tables.\<close>

definition flush :: "'j sql \<Rightarrow> str \<Rightarrow> ('j db \<Rightarrow> 'j db) \<Rightarrow> ('j db, py_exn, unit) prog" where
  "flush S op pending d =
     (if db_needs_rollback d then (Inl PendingRollbackError, d)
      else (case sql_flush_fault S op (pending d) of
              Some e \<Rightarrow> (Inl e, d\<lparr>db_needs_rollback := True\<rparr>)
            | None \<Rightarrow> (Inr (), pending d)))"

text \<open>The \<open>*_from_row\<close> functions of \<open>reconciliation_mapping.py\<close>: validate the payload column.\<close>

definition from_payload :: "('j \<Rightarrow> py_exn + 'a) \<Rightarrow> 'j \<Rightarrow> ('s, py_exn, 'a) prog" where
  "from_payload load payload s = (load payload, s)"

definition from_optional_row ::
  "('r \<Rightarrow> 'j) \<Rightarrow> ('j \<Rightarrow> py_exn + 'a) \<Rightarrow> 'r option \<Rightarrow> ('s, py_exn, 'a option) prog" where
  "from_optional_row payload load row =
     (case row of None \<Rightarrow> ret None
      | Some r \<Rightarrow> bind (from_payload load (payload r)) (\<lambda>x. ret (Some x)))"

fun from_rows ::
  "('r \<Rightarrow> 'j) \<Rightarrow> ('j \<Rightarrow> py_exn + 'a) \<Rightarrow> 'r list \<Rightarrow> ('s, py_exn, 'a list) prog" where
  "from_rows payload load [] = ret []"
| "from_rows payload load (r # rs) =
     bind (from_payload load (payload r)) (\<lambda>x.
     bind (from_rows payload load rs) (\<lambda>xs. ret (x # xs)))"

text \<open>The first row that satisfies the condition is updated in place; without one a row is added.\<close>

fun upsert_row :: "('r \<Rightarrow> bool) \<Rightarrow> ('r \<Rightarrow> 'r) \<Rightarrow> 'r \<Rightarrow> 'r list \<Rightarrow> 'r list" where
  "upsert_row P upd new [] = [new]"
| "upsert_row P upd new (r # rs) = (if P r then upd r # rs else r # upsert_row P upd new rs)"

text \<open>\<open>ORDER BY created_at DESC\<close>.\<close>

definition newest_first :: "('r \<Rightarrow> instant) \<Rightarrow> 'r list \<Rightarrow> 'r list" where
  "newest_first created rows = sort_key (\<lambda>r. - created r) rows"

section \<open>Plans\<close>

definition get_plan_by_idempotency_key ::
  "'j sql \<Rightarrow> str \<Rightarrow> ('j db, py_exn, MemoryReconciliationPlan option) prog" where
  "get_plan_by_idempotency_key S idempotency_key =
     bind (query S ''get_plan_by_idempotency_key''
             (\<lambda>d. find (\<lambda>r. pl_idempotency_key r = idempotency_key) (db_plans d)))
       (from_optional_row pl_payload (sql_plan_load S))"

definition plan_row :: "'j sql \<Rightarrow> MemoryReconciliationPlan \<Rightarrow> 'j PlanRow" where
  "plan_row S plan =
     \<lparr> pl_id = rp_plan_id plan, pl_candidate_id = mc_candidate_id (rp_candidate plan),
       pl_idempotency_key = rp_idempotency_key plan,
       pl_primary_decision = rp_primary_decision plan, pl_status = rp_status plan,
       pl_requires_review = rp_requires_review plan, pl_payload = sql_plan_dump S plan,
       pl_created_at = rp_created_at plan \<rparr>"

definition save_plan ::
  "'j sql \<Rightarrow> MemoryReconciliationPlan \<Rightarrow> ('j db, py_exn, MemoryReconciliationPlan) prog" where
  "save_plan S plan =
     bind (get_plan_by_idempotency_key S (rp_idempotency_key plan)) (\<lambda>existing.
       case existing of
         Some p \<Rightarrow> ret p
       | None \<Rightarrow>
           seq (flush S ''save_plan'' (\<lambda>d. d\<lparr>db_plans := db_plans d @ [plan_row S plan]\<rparr>))
               (from_payload (sql_plan_load S) (pl_payload (plan_row S plan))))"

definition get_plan :: "'j sql \<Rightarrow> str \<Rightarrow> ('j db, py_exn, MemoryReconciliationPlan option) prog" where
  "get_plan S plan_id =
     bind (query S ''get_plan'' (\<lambda>d. find (\<lambda>r. pl_id r = plan_id) (db_plans d)))
       (from_optional_row pl_payload (sql_plan_load S))"

definition applied_result_exists :: "'j db \<Rightarrow> 'j PlanRow \<Rightarrow> bool" where
  "applied_result_exists d row =
     list_ex (\<lambda>r. rs_plan_id r = pl_id row \<and> rs_status r = APPLIED) (db_results d)"

definition list_review_plans ::
  "'j sql \<Rightarrow> int \<Rightarrow> ('j db, py_exn, MemoryReconciliationPlan list) prog" where
  "list_review_plans S limit =
     bind (query S ''list_review_plans''
             (\<lambda>d. take (nat limit) (newest_first pl_created_at
                (filter (\<lambda>r. pl_requires_review r \<and> \<not> applied_result_exists d r) (db_plans d)))))
       (from_rows pl_payload (sql_plan_load S))"

section \<open>Results\<close>

definition put_result ::
  "'j sql \<Rightarrow> MemoryReconciliationResult \<Rightarrow> 'j ResultRow list \<Rightarrow> 'j ResultRow list" where
  "put_result S result =
     upsert_row (\<lambda>r. rs_plan_id r = rr_plan_id result)
       (\<lambda>r. r\<lparr> rs_status := rr_status result, rs_failure_code := rr_failure_code result,
               rs_hard_delete_performed := rr_hard_delete_performed result,
               rs_payload := sql_result_dump S result,
               rs_completed_at := rr_completed_at result \<rparr>)
       \<lparr> rs_id = rr_reconciliation_id result, rs_plan_id = rr_plan_id result,
         rs_status = rr_status result, rs_failure_code = rr_failure_code result,
         rs_hard_delete_performed = rr_hard_delete_performed result,
         rs_payload = sql_result_dump S result, rs_completed_at = rr_completed_at result \<rparr>"

definition save_result ::
  "'j sql \<Rightarrow> MemoryReconciliationResult \<Rightarrow> ('j db, py_exn, MemoryReconciliationResult) prog" where
  "save_result S result =
     bind (query S ''save_result''
             (\<lambda>d. find (\<lambda>r. rs_plan_id r = rr_plan_id result) (db_results d))) (\<lambda>row.
     seq (flush S ''save_result'' (\<lambda>d. d\<lparr>db_results := put_result S result (db_results d)\<rparr>))
         (from_payload (sql_result_load S) (sql_result_dump S result)))"

definition get_result ::
  "'j sql \<Rightarrow> str \<Rightarrow> ('j db, py_exn, MemoryReconciliationResult option) prog" where
  "get_result S reconciliation_id =
     bind (query S ''get_result'' (\<lambda>d. find (\<lambda>r. rs_id r = reconciliation_id) (db_results d)))
       (from_optional_row rs_payload (sql_result_load S))"

definition get_result_by_plan_id ::
  "'j sql \<Rightarrow> str \<Rightarrow> ('j db, py_exn, MemoryReconciliationResult option) prog" where
  "get_result_by_plan_id S plan_id =
     bind (query S ''get_result_by_plan_id''
             (\<lambda>d. find (\<lambda>r. rs_plan_id r = plan_id) (db_results d)))
       (from_optional_row rs_payload (sql_result_load S))"

section \<open>Relations\<close>

definition relation_row :: "'j sql \<Rightarrow> MemoryRelationRecord \<Rightarrow> 'j RelationRow" where
  "relation_row S relation =
     \<lparr> rw_id = rel_relation_id relation, rw_source_context_id = rel_source_context_id relation,
       rw_target_context_id = rel_target_context_id relation,
       rw_candidate_id = rel_candidate_id relation, rw_relation = rel_relation relation,
       rw_confidence = rel_confidence relation, rw_reason = rel_reason relation,
       rw_decision_source = rel_decision_source relation,
       rw_policy_version = rel_policy_version relation,
       rw_payload = sql_relation_dump S relation, rw_created_at = rel_created_at relation \<rparr>"

definition same_relation :: "MemoryRelationRecord \<Rightarrow> 'j RelationRow \<Rightarrow> bool" where
  "same_relation relation row \<longleftrightarrow>
     rw_source_context_id row = rel_source_context_id relation \<and>
     rw_target_context_id row = rel_target_context_id relation \<and>
     rw_relation row = rel_relation relation"

definition upsert_relation ::
  "'j sql \<Rightarrow> MemoryRelationRecord \<Rightarrow> ('j db, py_exn, MemoryRelationRecord) prog" where
  "upsert_relation S relation =
     bind (query S ''upsert_relation'' (\<lambda>d. find (same_relation relation) (db_relations d))) (\<lambda>row.
       case row of
         None \<Rightarrow>
           seq (flush S ''upsert_relation''
                  (\<lambda>d. d\<lparr>db_relations := db_relations d @ [relation_row S relation]\<rparr>))
               (from_payload (sql_relation_load S) (rw_payload (relation_row S relation)))
       | Some r \<Rightarrow>
           seq (flush S ''upsert_relation'' (\<lambda>d. d))
               (from_payload (sql_relation_load S) (rw_payload r)))"

definition list_relations ::
  "'j sql \<Rightarrow> str \<Rightarrow> ('j db, py_exn, MemoryRelationRecord list) prog" where
  "list_relations S context_id =
     bind (query S ''list_relations''
             (\<lambda>d. newest_first rw_created_at
                (filter (\<lambda>r. rw_source_context_id r = context_id \<or> rw_target_context_id r = context_id)
                   (db_relations d))))
       (from_rows rw_payload (sql_relation_load S))"

section \<open>Conflict sets\<close>

definition put_conflict ::
  "'j sql \<Rightarrow> MemoryConflictSet \<Rightarrow> 'j ConflictRow list \<Rightarrow> 'j ConflictRow list" where
  "put_conflict S conflict =
     upsert_row (\<lambda>r. cf_candidate_id r = cs_candidate_id conflict \<and>
                     cf_claim_key r = cs_claim_key conflict)
       (\<lambda>r. r\<lparr> cf_status := cs_status conflict, cf_validity_overlap := cs_validity_overlap conflict,
               cf_payload := sql_conflict_dump S conflict,
               cf_resolved_at := cs_resolved_at conflict \<rparr>)
       \<lparr> cf_id = cs_conflict_set_id conflict, cf_candidate_id = cs_candidate_id conflict,
         cf_subject_key = cs_subject_key conflict, cf_claim_key = cs_claim_key conflict,
         cf_scope = cs_scope conflict, cf_status = cs_status conflict,
         cf_validity_overlap = cs_validity_overlap conflict,
         cf_payload = sql_conflict_dump S conflict, cf_created_at = cs_created_at conflict,
         cf_resolved_at = cs_resolved_at conflict \<rparr>"

definition upsert_conflict ::
  "'j sql \<Rightarrow> MemoryConflictSet \<Rightarrow> ('j db, py_exn, MemoryConflictSet) prog" where
  "upsert_conflict S conflict =
     bind (query S ''upsert_conflict''
             (\<lambda>d. find (\<lambda>r. cf_candidate_id r = cs_candidate_id conflict \<and>
                            cf_claim_key r = cs_claim_key conflict) (db_conflicts d))) (\<lambda>row.
     seq (flush S ''upsert_conflict''
            (\<lambda>d. d\<lparr>db_conflicts := put_conflict S conflict (db_conflicts d)\<rparr>))
         (from_payload (sql_conflict_load S) (sql_conflict_dump S conflict)))"

definition get_conflict ::
  "'j sql \<Rightarrow> str \<Rightarrow> ('j db, py_exn, MemoryConflictSet option) prog" where
  "get_conflict S conflict_set_id =
     bind (query S ''get_conflict'' (\<lambda>d. find (\<lambda>r. cf_id r = conflict_set_id) (db_conflicts d)))
       (from_optional_row cf_payload (sql_conflict_load S))"

definition list_conflicts ::
  "'j sql \<Rightarrow> MemoryConflictStatus option \<Rightarrow> int \<Rightarrow> ('j db, py_exn, MemoryConflictSet list) prog" where
  "list_conflicts S status limit =
     bind (query S ''list_conflicts''
             (\<lambda>d. take (nat limit) (newest_first cf_created_at
                (case status of None \<Rightarrow> db_conflicts d
                 | Some st \<Rightarrow> filter (\<lambda>r. cf_status r = st) (db_conflicts d)))))
       (from_rows cf_payload (sql_conflict_load S))"

section \<open>Temporal overlays\<close>

definition put_temporal ::
  "'j sql \<Rightarrow> instant \<Rightarrow> MemoryTemporalState \<Rightarrow> 'j TemporalRow list \<Rightarrow> 'j TemporalRow list" where
  "put_temporal S now state =
     upsert_row (\<lambda>r. tp_context_id r = ts_context_id state)
       (\<lambda>r. r\<lparr> tp_recorded_at := ts_recorded_at state, tp_observed_at := ts_observed_at state,
               tp_valid_from := ts_valid_from state, tp_valid_to := ts_valid_to state,
               tp_is_current := ts_is_current state, tp_payload := sql_temporal_dump S state,
               tp_updated_at := now \<rparr>)
       \<lparr> tp_context_id = ts_context_id state, tp_recorded_at = ts_recorded_at state,
         tp_observed_at = ts_observed_at state, tp_valid_from = ts_valid_from state,
         tp_valid_to = ts_valid_to state, tp_is_current = ts_is_current state,
         tp_payload = sql_temporal_dump S state, tp_updated_at = now \<rparr>"

definition upsert_temporal_state ::
  "'j sql \<Rightarrow> instant \<Rightarrow> MemoryTemporalState \<Rightarrow> ('j db, py_exn, MemoryTemporalState) prog" where
  "upsert_temporal_state S now state =
     bind (query S ''upsert_temporal_state''
             (\<lambda>d. find (\<lambda>r. tp_context_id r = ts_context_id state) (db_temporal d))) (\<lambda>row.
     seq (flush S ''upsert_temporal_state''
            (\<lambda>d. d\<lparr>db_temporal := put_temporal S now state (db_temporal d)\<rparr>))
         (from_payload (sql_temporal_load S) (sql_temporal_dump S state)))"

definition get_temporal_state ::
  "'j sql \<Rightarrow> str \<Rightarrow> ('j db, py_exn, MemoryTemporalState option) prog" where
  "get_temporal_state S context_id =
     bind (query S ''get_temporal_state''
             (\<lambda>d. find (\<lambda>r. tp_context_id r = context_id) (db_temporal d)))
       (from_optional_row tp_payload (sql_temporal_load S))"

text \<open>\<open>get_many\<close>: a dictionary from Context identifier to overlay.\<close>

definition get_temporal_states ::
  "'j sql \<Rightarrow> str list \<Rightarrow> ('j db, py_exn, (str \<times> MemoryTemporalState) list) prog" where
  "get_temporal_states S context_ids =
     (if context_ids = [] then ret []
      else bind (query S ''get_temporal_states''
                   (\<lambda>d. filter (\<lambda>r. tp_context_id r \<in> set context_ids) (db_temporal d))) (\<lambda>rows.
           bind (from_rows tp_payload (sql_temporal_load S) rows) (\<lambda>states.
           ret (fold (\<lambda>(r, st) acc. dict_set (tp_context_id r) st acc) (zip rows states) []))))"

section \<open>Keyed tables\<close>

text \<open>
  The contract the services rely on: after a write, the row under the written key holds the
  written entity, rows under other keys are as before, and keys stay unique.
\<close>

locale keyed_table =
  fixes key :: "'r \<Rightarrow> 'k"
    and entity_key :: "'v \<Rightarrow> 'k"
    and payload :: "'r \<Rightarrow> 'j"
    and dump :: "'v \<Rightarrow> 'j"
    and put :: "'v \<Rightarrow> 'r list \<Rightarrow> 'r list"
  assumes find_put_same:
      "map_option payload (find (\<lambda>r. key r = entity_key v) (put v rows)) = Some (dump v)"
    and find_put_other:
      "k \<noteq> entity_key v \<Longrightarrow> find (\<lambda>r. key r = k) (put v rows) = find (\<lambda>r. key r = k) rows"
    and keys_put:
      "map key (put v rows) =
         (if entity_key v \<in> key ` set rows then map key rows else map key rows @ [entity_key v])"
begin

lemma find_put:
  "map_option payload (find (\<lambda>r. key r = k) (put v rows)) =
     (if k = entity_key v then Some (dump v) else map_option payload (find (\<lambda>r. key r = k) rows))"
  by (simp add: find_put_same find_put_other)

lemma distinct_put: "distinct (map key rows) \<Longrightarrow> distinct (map key (put v rows))"
  by (simp add: keys_put)

text \<open>Any sequence of writes: the last one under a key is what a read of that key returns.\<close>

lemma find_fold_put:
  "map_option payload (find (\<lambda>r. key r = k) (fold put vs rows)) =
     (case find (\<lambda>v. entity_key v = k) (rev vs) of
        Some v \<Rightarrow> Some (dump v)
      | None \<Rightarrow> map_option payload (find (\<lambda>r. key r = k) rows))"
proof (induction vs rule: rev_induct)
  case (snoc v vs)
  then show ?case by (simp add: find_put)
qed simp

lemma distinct_fold_put: "distinct (map key rows) \<Longrightarrow> distinct (map key (fold put vs rows))"
  by (induction vs arbitrary: rows) (simp_all add: distinct_put)

end

text \<open>Updating the first row of a key in place discharges the contract.\<close>

lemma find_upsert_same:
  "(\<And>r. key (upd r) = key r) \<Longrightarrow> key new = k \<Longrightarrow>
   find (\<lambda>r. key r = k) (upsert_row (\<lambda>r. key r = k) upd new rows) =
     (case find (\<lambda>r. key r = k) rows of None \<Rightarrow> Some new | Some r \<Rightarrow> Some (upd r))"
  by (induction rows) simp_all

lemma find_upsert_other:
  "(\<And>r. key (upd r) = key r) \<Longrightarrow> key new = k \<Longrightarrow> k' \<noteq> k \<Longrightarrow>
   find (\<lambda>r. key r = k') (upsert_row (\<lambda>r. key r = k) upd new rows) = find (\<lambda>r. key r = k') rows"
  by (induction rows) auto

lemma keys_upsert:
  "(\<And>r. key (upd r) = key r) \<Longrightarrow> key new = k \<Longrightarrow>
   map key (upsert_row (\<lambda>r. key r = k) upd new rows) =
     (if k \<in> key ` set rows then map key rows else map key rows @ [k])"
  by (induction rows) auto

lemmas upsert_row_laws = find_upsert_same find_upsert_other keys_upsert

interpretation result_table: keyed_table rs_plan_id rr_plan_id rs_payload "sql_result_dump S" "put_result S"
  for S :: "'j sql"
  by unfold_locales (simp_all add: put_result_def upsert_row_laws split: option.split)

interpretation temporal_table:
  keyed_table tp_context_id ts_context_id tp_payload "sql_temporal_dump S" "put_temporal S now"
  for S :: "'j sql" and now :: instant
  by unfold_locales (simp_all add: put_temporal_def upsert_row_laws split: option.split)

definition conflict_row_key :: "'j ConflictRow \<Rightarrow> str \<times> str" where
  "conflict_row_key r = (cf_candidate_id r, cf_claim_key r)"

definition conflict_key :: "MemoryConflictSet \<Rightarrow> str \<times> str" where
  "conflict_key c = (cs_candidate_id c, cs_claim_key c)"

lemma conflict_row_key_eq:
  "conflict_row_key r = conflict_key c \<longleftrightarrow>
     cf_candidate_id r = cs_candidate_id c \<and> cf_claim_key r = cs_claim_key c"
  by (simp add: conflict_row_key_def conflict_key_def)

lemma conflict_row_key_simps [simp]:
  "conflict_row_key (r\<lparr>cf_status := a\<rparr>) = conflict_row_key r"
  "conflict_row_key (r\<lparr>cf_validity_overlap := b\<rparr>) = conflict_row_key r"
  "conflict_row_key (r\<lparr>cf_payload := p\<rparr>) = conflict_row_key r"
  "conflict_row_key (r\<lparr>cf_resolved_at := x\<rparr>) = conflict_row_key r"
  by (simp_all add: conflict_row_key_def)

lemma conflict_row_key_new [simp]:
  "conflict_row_key \<lparr> cf_id = i, cf_candidate_id = cs_candidate_id c, cf_subject_key = s,
     cf_claim_key = cs_claim_key c, cf_scope = sc, cf_status = a, cf_validity_overlap = b,
     cf_payload = p, cf_created_at = x, cf_resolved_at = y \<rparr> = conflict_key c"
  by (simp add: conflict_row_key_def conflict_key_def)

interpretation conflict_table:
  keyed_table conflict_row_key conflict_key cf_payload "sql_conflict_dump S" "put_conflict S"
  for S :: "'j sql"
  by unfold_locales
    (simp_all add: put_conflict_def upsert_row_laws conflict_row_key_eq [symmetric] split: option.split)

definition relation_row_key :: "'j RelationRow \<Rightarrow> str \<times> str \<times> MemoryRelationType" where
  "relation_row_key r = (rw_source_context_id r, rw_target_context_id r, rw_relation r)"

section \<open>Outcomes of the operations\<close>

text \<open>The tables are as before; the session may have become unusable.\<close>

definition tables_kept :: "'j db \<Rightarrow> 'j db \<Rightarrow> bool" where
  "tables_kept d d' \<longleftrightarrow> d' = d \<or> d' = d\<lparr>db_needs_rollback := True\<rparr>"

lemma tables_keptD:
  assumes "tables_kept d d'"
  shows "db_plans d' = db_plans d" "db_results d' = db_results d"
    "db_relations d' = db_relations d" "db_conflicts d' = db_conflicts d"
    "db_temporal d' = db_temporal d"
  using assms by (auto simp: tables_kept_def)

lemma tables_kept_refl [simp]: "tables_kept d d"
  by (simp add: tables_kept_def)

lemma query_state [simp]: "snd (query S f g d) = d"
  by (simp add: query_def split: option.split)

lemma from_optional_row_state [simp]: "snd (from_optional_row p l r s) = s"
  by (simp add: from_optional_row_def from_payload_def prog_simps split: option.split sum.split)

lemma from_rows_state [simp]: "snd (from_rows p l rs s) = s"
  by (induction rs) (auto simp: from_payload_def prog_simps split: sum.split prod.split)

lemma snd_bind_const:
  "(\<And>d. snd (m d) = d) \<Longrightarrow> (\<And>x d. snd (f x d) = d) \<Longrightarrow> snd (bind m f d) = d"
  by (auto simp: bind_def split: prod.split sum.split) (metis snd_conv)+

lemma reads_keep_db [simp]:
  "snd (get_plan S i d) = d" "snd (get_plan_by_idempotency_key S k d) = d"
  "snd (list_review_plans S n d) = d" "snd (get_result S i d) = d"
  "snd (get_result_by_plan_id S i d) = d" "snd (list_relations S c d) = d"
  "snd (get_conflict S i d) = d" "snd (list_conflicts S st n d) = d"
  "snd (get_temporal_state S c d) = d"
  unfolding get_plan_def get_plan_by_idempotency_key_def list_review_plans_def get_result_def
    get_result_by_plan_id_def list_relations_def get_conflict_def list_conflicts_def
    get_temporal_state_def
  by (rule snd_bind_const, simp, simp)+

lemma get_temporal_states_state [simp]: "snd (get_temporal_states S cs d) = d"
proof (cases "cs = []")
  case False
  then show ?thesis
    unfolding get_temporal_states_def
    by (simp, intro snd_bind_const) (simp_all add: ret_def)
qed (simp add: get_temporal_states_def ret_def)

text \<open>A write that returns has changed exactly its table; one that raises has changed none.\<close>

lemma query_flush_outcome:
  assumes "load payload = Inr x"
  shows "case bind (query S f g) (\<lambda>_. seq (flush S f pend) (from_payload load payload)) d of
      (Inl e, d') \<Rightarrow> tables_kept d d'
    | (Inr y, d') \<Rightarrow> y = x \<and> d' = pend d \<and> \<not> db_needs_rollback d"
  using assms
  by (auto simp: query_def flush_def from_payload_def prog_simps tables_kept_def split: option.splits)

lemma save_result_outcome:
  "sql_round_trip S \<Longrightarrow>
   case save_result S r d of
     (Inl e, d') \<Rightarrow> tables_kept d d'
   | (Inr y, d') \<Rightarrow> y = r \<and> d' = d\<lparr>db_results := put_result S r (db_results d)\<rparr> \<and> \<not> db_needs_rollback d"
  unfolding save_result_def by (rule query_flush_outcome) (simp add: sql_round_trip_simps)

lemma upsert_conflict_outcome:
  "sql_round_trip S \<Longrightarrow>
   case upsert_conflict S c d of
     (Inl e, d') \<Rightarrow> tables_kept d d'
   | (Inr y, d') \<Rightarrow> y = c \<and> d' = d\<lparr>db_conflicts := put_conflict S c (db_conflicts d)\<rparr> \<and> \<not> db_needs_rollback d"
  unfolding upsert_conflict_def by (rule query_flush_outcome) (simp add: sql_round_trip_simps)

lemma upsert_temporal_state_outcome:
  "sql_round_trip S \<Longrightarrow>
   case upsert_temporal_state S now st d of
     (Inl e, d') \<Rightarrow> tables_kept d d'
   | (Inr y, d') \<Rightarrow> y = st \<and> d' = d\<lparr>db_temporal := put_temporal S now st (db_temporal d)\<rparr> \<and> \<not> db_needs_rollback d"
  unfolding upsert_temporal_state_def by (rule query_flush_outcome) (simp add: sql_round_trip_simps)

text \<open>The relation table only grows: an existing identity is returned, a new one is appended.\<close>

definition put_relation :: "'j sql \<Rightarrow> MemoryRelationRecord \<Rightarrow> 'j RelationRow list \<Rightarrow> 'j RelationRow list" where
  "put_relation S l rows = (case find (same_relation l) rows of
      None \<Rightarrow> rows @ [relation_row S l] | Some r \<Rightarrow> rows)"

lemma upsert_relation_outcome:
  assumes "sql_round_trip S"
  shows "case upsert_relation S l d of
     (Inl e, d') \<Rightarrow> tables_kept d d'
   | (Inr y, d') \<Rightarrow> d' = d\<lparr>db_relations := put_relation S l (db_relations d)\<rparr> \<and> \<not> db_needs_rollback d \<and>
       (case find (same_relation l) (db_relations d) of
          None \<Rightarrow> y = l | Some r \<Rightarrow> sql_relation_load S (rw_payload r) = Inr y)"
  using sql_round_trip_simps(3) [OF assms]
  by (auto simp: upsert_relation_def query_def flush_def from_payload_def prog_simps tables_kept_def
      relation_row_def put_relation_def split: option.splits sum.splits)

lemma save_plan_outcome:
  assumes "sql_round_trip S"
  shows "case save_plan S p d of
     (Inl e, d') \<Rightarrow> tables_kept d d'
   | (Inr y, d') \<Rightarrow> \<not> db_needs_rollback d \<and>
       (case find (\<lambda>r. pl_idempotency_key r = rp_idempotency_key p) (db_plans d) of
          None \<Rightarrow> y = p \<and> d' = d\<lparr>db_plans := db_plans d @ [plan_row S p]\<rparr>
        | Some r \<Rightarrow> sql_plan_load S (pl_payload r) = Inr y \<and> d' = d)"
  using sql_round_trip_simps(1) [OF assms]
  by (auto simp: save_plan_def get_plan_by_idempotency_key_def from_optional_row_def query_def
      flush_def from_payload_def prog_simps tables_kept_def plan_row_def split: option.splits sum.splits)

section \<open>Well-formed tables\<close>

text \<open>A row whose payload validates agrees with its indexed columns.\<close>

definition row_ok :: "('r \<Rightarrow> 'j) \<Rightarrow> ('j \<Rightarrow> py_exn + 'a) \<Rightarrow> ('a \<Rightarrow> 'r \<Rightarrow> bool) \<Rightarrow> 'r list \<Rightarrow> bool" where
  "row_ok payload load agrees rows \<longleftrightarrow>
     (\<forall>r\<in>set rows. \<forall>x. load (payload r) = Inr x \<longrightarrow> agrees x r)"

lemma row_okD: "row_ok p l a rows \<Longrightarrow> find P rows = Some r \<Longrightarrow> l (p r) = Inr x \<Longrightarrow> a x r"
  by (auto simp: row_ok_def find_Some_iff)

lemma row_ok_upsert:
  assumes "row_ok p l a rows" and "l (p new) = Inr x" and "a x new"
    and "\<And>r. P r \<Longrightarrow> l (p (upd r)) = Inr x \<and> a x (upd r)"
  shows "row_ok p l a (upsert_row P upd new rows)"
  using assms by (induction rows) (auto simp: row_ok_def)

lemma row_ok_append:
  "row_ok p l a rows \<Longrightarrow> (\<And>y. l (p new) = Inr y \<Longrightarrow> a y new) \<Longrightarrow> row_ok p l a (rows @ [new])"
  by (auto simp: row_ok_def)

definition plans_wf :: "'j sql \<Rightarrow> 'j PlanRow list \<Rightarrow> bool" where
  "plans_wf S rows \<longleftrightarrow> distinct (map pl_idempotency_key rows) \<and>
     row_ok pl_payload (sql_plan_load S) (\<lambda>p r. rp_plan_id p = pl_id r \<and>
       rp_idempotency_key p = pl_idempotency_key r \<and> rp_requires_review p = pl_requires_review r \<and>
       rp_created_at p = pl_created_at r) rows"

definition results_wf :: "'j sql \<Rightarrow> 'j ResultRow list \<Rightarrow> bool" where
  "results_wf S rows \<longleftrightarrow> distinct (map rs_plan_id rows) \<and>
     row_ok rs_payload (sql_result_load S) (\<lambda>x r. rr_plan_id x = rs_plan_id r \<and>
       rr_status x = rs_status r \<and> rr_failure_code x = rs_failure_code r \<and>
       rr_hard_delete_performed x = rs_hard_delete_performed r) rows"

definition relations_wf :: "'j sql \<Rightarrow> 'j RelationRow list \<Rightarrow> bool" where
  "relations_wf S rows \<longleftrightarrow> distinct (map relation_row_key rows) \<and>
     row_ok rw_payload (sql_relation_load S) same_relation rows"

definition conflicts_wf :: "'j sql \<Rightarrow> 'j ConflictRow list \<Rightarrow> bool" where
  "conflicts_wf S rows \<longleftrightarrow> distinct (map conflict_row_key rows) \<and>
     row_ok cf_payload (sql_conflict_load S) (\<lambda>c r. conflict_row_key r = conflict_key c \<and>
       cs_status c = cf_status r \<and> cs_resolved_at c = cf_resolved_at r) rows"

definition temporal_wf :: "'j sql \<Rightarrow> 'j TemporalRow list \<Rightarrow> bool" where
  "temporal_wf S rows \<longleftrightarrow> distinct (map tp_context_id rows) \<and>
     row_ok tp_payload (sql_temporal_load S) (\<lambda>st r. ts_context_id st = tp_context_id r \<and>
       ts_is_current st = tp_is_current r \<and> ts_valid_from st = tp_valid_from r \<and>
       ts_valid_to st = tp_valid_to r) rows"

definition db_wf :: "'j sql \<Rightarrow> 'j db \<Rightarrow> bool" where
  "db_wf S d \<longleftrightarrow> plans_wf S (db_plans d) \<and> results_wf S (db_results d) \<and>
     relations_wf S (db_relations d) \<and> conflicts_wf S (db_conflicts d) \<and>
     temporal_wf S (db_temporal d)"

lemma db_wf_tables_kept: "db_wf S d \<Longrightarrow> tables_kept d d' \<Longrightarrow> db_wf S d'"
  by (simp add: db_wf_def tables_keptD)

lemma plans_wf_append:
  assumes "sql_round_trip S" "plans_wf S rows"
    and "find (\<lambda>r. pl_idempotency_key r = rp_idempotency_key p) rows = None"
  shows "plans_wf S (rows @ [plan_row S p])"
  using assms
  by (auto simp: plans_wf_def plan_row_def find_None_iff sql_round_trip_simps intro!: row_ok_append)

lemma results_wf_put:
  "sql_round_trip S \<Longrightarrow> results_wf S rows \<Longrightarrow> results_wf S (put_result S r rows)"
  unfolding results_wf_def
  by (intro conjI result_table.distinct_put)
    (auto simp: put_result_def sql_round_trip_simps intro!: row_ok_upsert)

lemma relations_wf_put:
  "sql_round_trip S \<Longrightarrow> relations_wf S rows \<Longrightarrow> relations_wf S (put_relation S l rows)"
  unfolding relations_wf_def put_relation_def
  by (auto simp: relation_row_key_def relation_row_def same_relation_def find_None_iff
      sql_round_trip_simps split: option.split intro!: row_ok_append)

lemma conflicts_wf_put:
  "sql_round_trip S \<Longrightarrow> conflicts_wf S rows \<Longrightarrow> conflicts_wf S (put_conflict S c rows)"
  unfolding conflicts_wf_def
  by (intro conjI conflict_table.distinct_put)
    (auto simp: put_conflict_def sql_round_trip_simps conflict_row_key_eq intro!: row_ok_upsert)

lemma temporal_wf_put:
  "sql_round_trip S \<Longrightarrow> temporal_wf S rows \<Longrightarrow> temporal_wf S (put_temporal S now st rows)"
  unfolding temporal_wf_def
  by (intro conjI temporal_table.distinct_put)
    (auto simp: put_temporal_def sql_round_trip_simps intro!: row_ok_upsert)

section \<open>Reading back\<close>

lemma save_result_fault_free:
  assumes "sql_round_trip S" "sql_fault_free S" "\<not> db_needs_rollback d"
  shows "save_result S r d = (Inr r, d\<lparr>db_results := put_result S r (db_results d)\<rparr>)"
  using assms
  by (simp add: save_result_def query_def flush_def from_payload_def prog_simps sql_fault_free_def
      sql_round_trip_simps)

lemma save_results_fault_free:
  assumes "sql_round_trip S" "sql_fault_free S" "\<not> db_needs_rollback d"
  shows "fold (\<lambda>r d. snd (save_result S r d)) rs d =
     d\<lparr>db_results := fold (put_result S) rs (db_results d)\<rparr>"
  using assms(3) by (induction rs arbitrary: d) (simp_all add: save_result_fault_free [OF assms(1,2)])

lemma get_result_by_plan_id_fault_free:
  assumes "sql_fault_free S" "\<not> db_needs_rollback d"
  shows "get_result_by_plan_id S i d =
     (case map_option rs_payload (find (\<lambda>r. rs_plan_id r = i) (db_results d)) of
        None \<Rightarrow> (Inr None, d)
      | Some j \<Rightarrow> (case sql_result_load S j of Inl e \<Rightarrow> (Inl e, d) | Inr x \<Rightarrow> (Inr (Some x), d)))"
  using assms
  by (auto simp: get_result_by_plan_id_def query_def from_optional_row_def from_payload_def prog_simps
      sql_fault_free_def split: option.split sum.split)

lemma from_rows_returns:
  "from_rows p l rs s = (Inr xs, s') \<longleftrightarrow> s' = s \<and> list_all2 (\<lambda>r x. l (p r) = Inr x) rs xs"
proof (induction rs arbitrary: xs)
  case (Cons r rs)
  have step: "from_rows p l rs s = (fst (from_rows p l rs s), s)"
    using from_rows_state [of p l rs s] by (metis prod.collapse)
  show ?case
    using Cons step
    by (cases xs; cases "l (p r)"; cases "fst (from_rows p l rs s)")
      (auto simp: from_payload_def prog_simps split: prod.splits sum.splits)
qed (auto simp: ret_def)

lemma newest_first_set [simp]: "set (newest_first c rows) = set rows"
  by (simp add: newest_first_def)

lemma newest_first_sorted: "sorted (map (\<lambda>r. - c r) (newest_first c rows))"
  by (simp add: newest_first_def)

section \<open>Properties\<close>

text \<open>The temporal overlay the tables hold for a Context, when its payload validates.\<close>

definition temporal_of :: "'j sql \<Rightarrow> 'j db \<Rightarrow> str \<Rightarrow> MemoryTemporalState option" where
  "temporal_of S d c =
     (case find (\<lambda>r. tp_context_id r = c) (db_temporal d) of
        None \<Rightarrow> None
      | Some r \<Rightarrow> (case sql_temporal_load S (tp_payload r) of Inl _ \<Rightarrow> None | Inr st \<Rightarrow> Some st))"

lemma temporal_of_put:
  assumes "sql_round_trip S"
  shows "temporal_of S (d\<lparr>db_temporal := put_temporal S now st (db_temporal d)\<rparr>) c =
     (if c = ts_context_id st then Some st else temporal_of S d c)"
  using temporal_table.find_put_same [where v = st and S = S and now = now and rows = "db_temporal d"]
    temporal_table.find_put_other [where v = st and S = S and now = now and rows = "db_temporal d" and k = c]
    sql_round_trip_simps(5) [OF assms, of st]
  by (auto simp: temporal_of_def)

lemma get_temporal_state_returns:
  "get_temporal_state S c d = (Inr x, d') \<Longrightarrow> x = temporal_of S d c \<and> d' = d"
  by (auto simp: get_temporal_state_def temporal_of_def query_def from_optional_row_def
      from_payload_def prog_simps split: option.splits if_splits sum.splits)

lemma map_of_fold_dict_set:
  "distinct (map (\<lambda>z. key (fst z)) zs) \<Longrightarrow>
   map_of (fold (\<lambda>(r, st) acc. dict_set (key r) st acc) zs d) =
   map_of d ++ map_of (map (\<lambda>(r, st). (key r, st)) zs)"
proof (induction zs arbitrary: d)
  case (Cons z zs)
  have "map_of (map (\<lambda>(r, st). (key r, st)) zs) (key (fst z)) = None"
    using Cons.prems by (force simp: map_of_eq_None_iff)
  then show ?case using Cons by (cases z) (simp add: fun_eq_iff map_add_def split: option.split)
qed simp

lemma map_of_loaded:
  "list_all2 (\<lambda>r x. load (p r) = Inr x) rs xs \<Longrightarrow>
   map_of (map (\<lambda>(r, x). (key r, x)) (zip rs xs)) c =
     (case find (\<lambda>r. key r = c) rs of None \<Rightarrow> None
      | Some r \<Rightarrow> (case load (p r) of Inl _ \<Rightarrow> None | Inr x \<Rightarrow> Some x))"
  by (induction rule: list_all2_induct) auto

lemma find_filter_key: "c \<in> A \<Longrightarrow> find (\<lambda>r. key r = c) (filter (\<lambda>r. key r \<in> A) rows) = find (\<lambda>r. key r = c) rows"
  by (induction rows) auto

lemma get_temporal_states_returns:
  assumes "get_temporal_states S ids d = (Inr states, d')" and "temporal_wf S (db_temporal d)"
  shows "d' = d \<and> (\<forall>c\<in>set ids. map_of states c = temporal_of S d c)"
proof (cases "ids = []")
  case False
  let ?rows = "filter (\<lambda>r. tp_context_id r \<in> set ids) (db_temporal d)"
  obtain xs where xs: "from_rows tp_payload (sql_temporal_load S) ?rows d = (Inr xs, d')"
    and states: "states = fold (\<lambda>(r, st) acc. dict_set (tp_context_id r) st acc) (zip ?rows xs) []"
    using assms(1) False
    by (auto simp: get_temporal_states_def query_def prog_simps split: option.splits if_splits prod.splits sum.splits)
  have all2: "d' = d" "list_all2 (\<lambda>r x. sql_temporal_load S (tp_payload r) = Inr x) ?rows xs"
    using xs by (simp_all add: from_rows_returns)
  have "map fst (zip ?rows xs) = ?rows" using all2(2) by (simp add: list_all2_lengthD)
  then have "map (\<lambda>z. tp_context_id (fst z)) (zip ?rows xs) = map tp_context_id ?rows"
    by (metis (no_types, lifting) list.map_comp comp_def map_eq_conv)
  moreover have "distinct (map tp_context_id ?rows)"
    using assms(2) by (simp add: temporal_wf_def distinct_map_filter)
  ultimately have "map_of states = map_of (map (\<lambda>(r, st). (tp_context_id r, st)) (zip ?rows xs))"
    unfolding states by (subst map_of_fold_dict_set) simp_all
  then show ?thesis
    using all2 by (simp add: map_of_loaded [where load = "sql_temporal_load S" and p = tp_payload, OF all2(2)] find_filter_key temporal_of_def)
qed (use assms in \<open>simp add: get_temporal_states_def ret_def\<close>)

text \<open>What each write keeps of the tables, whether it returns or raises.\<close>

lemma save_plan_keeps [keeps_rules]: "sql_round_trip S \<Longrightarrow> keeps (db_wf S) (save_plan S p)"
  unfolding keeps_def
proof (intro allI impI)
  fix d assume S: "sql_round_trip S" and wf: "db_wf S d"
  show "db_wf S (snd (save_plan S p d))"
    using save_plan_outcome [OF S, where p = p and d = d] db_wf_tables_kept [OF wf] plans_wf_append [OF S, where rows = "db_plans d" and p = p] wf
    by (auto simp: db_wf_def split: prod.splits sum.splits option.splits)
qed

lemma save_result_keeps [keeps_rules]: "sql_round_trip S \<Longrightarrow> keeps (db_wf S) (save_result S r)"
  unfolding keeps_def
proof (intro allI impI)
  fix d assume S: "sql_round_trip S" and wf: "db_wf S d"
  show "db_wf S (snd (save_result S r d))"
    using save_result_outcome [OF S, where r = r and d = d] db_wf_tables_kept [OF wf] results_wf_put [OF S] wf
    by (auto simp: db_wf_def split: prod.splits sum.splits option.splits)
qed

lemma upsert_relation_keeps [keeps_rules]: "sql_round_trip S \<Longrightarrow> keeps (db_wf S) (upsert_relation S l)"
  unfolding keeps_def
proof (intro allI impI)
  fix d assume S: "sql_round_trip S" and wf: "db_wf S d"
  show "db_wf S (snd (upsert_relation S l d))"
    using upsert_relation_outcome [OF S, where l = l and d = d] db_wf_tables_kept [OF wf] relations_wf_put [OF S] wf
    by (auto simp: db_wf_def split: prod.splits sum.splits option.splits)
qed

lemma upsert_conflict_keeps [keeps_rules]: "sql_round_trip S \<Longrightarrow> keeps (db_wf S) (upsert_conflict S c)"
  unfolding keeps_def
proof (intro allI impI)
  fix d assume S: "sql_round_trip S" and wf: "db_wf S d"
  show "db_wf S (snd (upsert_conflict S c d))"
    using upsert_conflict_outcome [OF S, where c = c and d = d] db_wf_tables_kept [OF wf] conflicts_wf_put [OF S] wf
    by (auto simp: db_wf_def split: prod.splits sum.splits option.splits)
qed

lemma upsert_temporal_state_keeps [keeps_rules]: "sql_round_trip S \<Longrightarrow> keeps (db_wf S) (upsert_temporal_state S now st)"
  unfolding keeps_def
proof (intro allI impI)
  fix d assume S: "sql_round_trip S" and wf: "db_wf S d"
  show "db_wf S (snd (upsert_temporal_state S now st d))"
    using upsert_temporal_state_outcome [OF S, where now = now and st = st and d = d] db_wf_tables_kept [OF wf] temporal_wf_put [OF S] wf
    by (auto simp: db_wf_def split: prod.splits sum.splits option.splits)
qed

text \<open>
  every write of the five stores, whether it returns or raises, keeps the tables well formed:
  one plan per idempotency key, one result per plan, one relation per (source, target, kind), one
  conflict set per (candidate, claim key), one overlay per Context, and indexed columns that agree
  with the payload a reader gets back.
\<close>

theorem writes_keep_tables_well_formed:
  assumes S: "sql_round_trip S" and wf: "db_wf S d"
  shows "db_wf S (snd (save_plan S p d)) \<and> db_wf S (snd (save_result S r d)) \<and>
     db_wf S (snd (upsert_relation S l d)) \<and> db_wf S (snd (upsert_conflict S c d)) \<and>
     db_wf S (snd (upsert_temporal_state S now st d))"
  by (intro conjI keeps_snd [where I = "db_wf S"] keeps_rules assms)

text \<open>A session over payloads that are the entities themselves, on which no call fails.\<close>

datatype entity =
  PlanEntity MemoryReconciliationPlan | ResultEntity MemoryReconciliationResult
| RelationEntity MemoryRelationRecord | ConflictEntity MemoryConflictSet
| TemporalEntity MemoryTemporalState

definition sample_sql :: "entity sql" where
  "sample_sql =
     \<lparr> sql_plan_dump = PlanEntity,
       sql_plan_load = (\<lambda>j. case j of PlanEntity x \<Rightarrow> Inr x | _ \<Rightarrow> Inl (OtherError ''ValidationError'' [])),
       sql_result_dump = ResultEntity,
       sql_result_load = (\<lambda>j. case j of ResultEntity x \<Rightarrow> Inr x | _ \<Rightarrow> Inl (OtherError ''ValidationError'' [])),
       sql_relation_dump = RelationEntity,
       sql_relation_load = (\<lambda>j. case j of RelationEntity x \<Rightarrow> Inr x | _ \<Rightarrow> Inl (OtherError ''ValidationError'' [])),
       sql_conflict_dump = ConflictEntity,
       sql_conflict_load = (\<lambda>j. case j of ConflictEntity x \<Rightarrow> Inr x | _ \<Rightarrow> Inl (OtherError ''ValidationError'' [])),
       sql_temporal_dump = TemporalEntity,
       sql_temporal_load = (\<lambda>j. case j of TemporalEntity x \<Rightarrow> Inr x | _ \<Rightarrow> Inl (OtherError ''ValidationError'' [])),
       sql_query_fault = (\<lambda>_ _. None),
       sql_flush_fault = (\<lambda>_ _. None) \<rparr>"

definition empty_db :: "'j db" where
  "empty_db = \<lparr> db_plans = [], db_results = [], db_relations = [], db_conflicts = [],
     db_temporal = [], db_needs_rollback = False \<rparr>"

lemma sample_sql_round_trip [simp]: "sql_round_trip sample_sql"
  by (simp add: sql_round_trip_def sample_sql_def)

lemma sample_sql_fault_free [simp]: "sql_fault_free sample_sql"
  by (simp add: sql_fault_free_def sample_sql_def)

lemma empty_db_wf [simp]: "db_wf S empty_db"
  by (simp add: db_wf_def empty_db_def plans_wf_def results_wf_def relations_wf_def
      conflicts_wf_def temporal_wf_def row_ok_def)

definition sample_overlay :: "str \<Rightarrow> MemoryTemporalState" where
  "sample_overlay c = \<lparr> ts_context_id = c, ts_recorded_at = 5, ts_observed_at = None,
     ts_valid_from = Some 1, ts_valid_to = None, ts_is_current = True, ts_conflict_set_ids = [],
     ts_superseded_by = [], ts_supersedes = [], ts_relation_summary = [] \<rparr>"

theorem writes_keep_tables_well_formed_witness:
  "sql_round_trip sample_sql \<and> db_wf sample_sql (empty_db :: entity db) \<and>
   db_wf sample_sql (snd (upsert_temporal_state sample_sql 9 (sample_overlay ''c1'') empty_db))"
  using writes_keep_tables_well_formed [OF sample_sql_round_trip empty_db_wf,
      where st = "sample_overlay ''c1''" and now = 9] by simp

text \<open>
  results are read back as they were saved: after any sequence of saves, the result of a plan
  is the last one saved for it, and plans that were not saved keep the result they had.
\<close>

theorem last_saved_result_is_read_back:
  assumes "sql_round_trip S" and "sql_fault_free S" and "\<not> db_needs_rollback d"
  shows "fst (get_result_by_plan_id S i (fold (\<lambda>r d. snd (save_result S r d)) rs d)) =
     (case find (\<lambda>r. rr_plan_id r = i) (rev rs) of
        Some r \<Rightarrow> Inr (Some r)
      | None \<Rightarrow> fst (get_result_by_plan_id S i d))"
  using assms
  by (simp add: save_results_fault_free get_result_by_plan_id_fault_free result_table.find_fold_put
      sql_round_trip_simps split: option.split sum.split)

definition sample_result :: "str \<Rightarrow> MemoryReconciliationStatus \<Rightarrow> MemoryReconciliationResult" where
  "sample_result plan_id status = \<lparr> rr_reconciliation_id = ''r'', rr_plan_id = plan_id,
     rr_status = status, rr_created_context_ids = [], rr_updated_context_ids = [],
     rr_superseded_context_ids = [], rr_created_relation_ids = [], rr_created_conflict_set_ids = [],
     rr_merged_evidence = [], rr_review_queue_item_ids = [], rr_warnings = [],
     rr_hard_delete_performed = False, rr_failure_code = None, rr_reviewed_by = None,
     rr_reviewed_at = None, rr_completed_at = None \<rparr>"

theorem last_saved_result_is_read_back_witness:
  "fst (get_result_by_plan_id sample_sql ''p''
     (fold (\<lambda>r d. snd (save_result sample_sql r d))
        [sample_result ''p'' PARTIAL_APPLY, sample_result ''p'' APPLIED, sample_result ''q'' FAILED]
        (empty_db :: entity db))) = Inr (Some (sample_result ''p'' APPLIED))"
  using last_saved_result_is_read_back [OF sample_sql_round_trip sample_sql_fault_free,
      where d = empty_db and i = "''p''" and
        rs = "[sample_result ''p'' PARTIAL_APPLY, sample_result ''p'' APPLIED, sample_result ''q'' FAILED]"]
  by (simp add: empty_db_def sample_result_def)

text \<open>
  the review queue is exact: it lists, newest first and within the limit, plans that require
  review and have no applied result, and when the limit allows it lists all of them.
\<close>

theorem review_queue_is_exact:
  assumes "plans_wf S (db_plans d)" and "list_review_plans S limit d = (Inr plans, d')"
  shows "d' = d \<and> length plans \<le> nat limit \<and>
     sorted_wrt (\<lambda>p q. rp_created_at q \<le> rp_created_at p) plans \<and>
     (\<forall>p\<in>set plans. rp_requires_review p \<and>
        (\<forall>r\<in>set (db_results d). rs_plan_id r = rp_plan_id p \<longrightarrow> rs_status r \<noteq> APPLIED)) \<and>
     (length (db_plans d) \<le> nat limit \<longrightarrow>
        (\<forall>row\<in>set (db_plans d). pl_requires_review row \<longrightarrow> \<not> applied_result_exists d row \<longrightarrow>
           (\<exists>p\<in>set plans. rp_plan_id p = pl_id row)))"
proof -
  define queue where "queue = newest_first pl_created_at
     (filter (\<lambda>r. pl_requires_review r \<and> \<not> applied_result_exists d r) (db_plans d))"
  have q: "set queue = {r \<in> set (db_plans d). pl_requires_review r \<and> \<not> applied_result_exists d r}"
    "sorted (map (\<lambda>r. - pl_created_at r) queue)" "length queue \<le> length (db_plans d)"
    by (auto simp: queue_def newest_first_sorted) (simp add: newest_first_def)
  have d: "d' = d" and two: "list_all2 (\<lambda>r p. sql_plan_load S (pl_payload r) = Inr p) (take (nat limit) queue) plans"
    using assms(2) unfolding list_review_plans_def queue_def [symmetric] bind_def query_def
    by (auto simp: from_rows_returns split: if_splits option.splits prod.splits sum.splits)
  define rel where "rel r p \<longleftrightarrow> r \<in> set queue \<and> rp_plan_id p = pl_id r \<and>
      rp_requires_review p = pl_requires_review r \<and> rp_created_at p = pl_created_at r"
    for r :: "'a PlanRow" and p :: MemoryReconciliationPlan
  have two': "list_all2 rel (take (nat limit) queue) plans"
  proof (rule list.rel_mono_strong [OF two])
    fix r p
    assume "r \<in> set (take (nat limit) queue)" and load: "sql_plan_load S (pl_payload r) = Inr p"
    then have "r \<in> set queue" by (meson in_set_takeD)
    then show "rel r p" using load assms(1) q(1) by (auto simp: plans_wf_def row_ok_def rel_def)
  qed
  have "map rp_created_at plans = map pl_created_at (take (nat limit) queue)"
    using two' by (induction rule: list_all2_induct) (auto simp: rel_def)
  then have "map (\<lambda>p. - rp_created_at p) plans = take (nat limit) (map (\<lambda>r. - pl_created_at r) queue)"
    by (metis (no_types, lifting) list.map_comp comp_def map_eq_conv take_map)
  then have "sorted (map (\<lambda>p. - rp_created_at p) plans)" using q(2) by (simp add: sorted_wrt_take)
  then have srt: "sorted_wrt (\<lambda>p q. rp_created_at q \<le> rp_created_at p) plans"
    by (simp add: sorted_wrt_map)
  have members: "rel r p \<Longrightarrow> r \<in> set queue \<Longrightarrow> rp_requires_review p \<and>
      (\<forall>x\<in>set (db_results d). rs_plan_id x = rp_plan_id p \<longrightarrow> rs_status x \<noteq> APPLIED)" for r p
    using q(1) by (auto simp: rel_def applied_result_exists_def list_ex_iff)
  have all: "\<forall>p\<in>set plans. \<exists>r. rel r p \<and> r \<in> set queue"
    using two' by (induction rule: list_all2_induct) (auto simp: rel_def)
  have len: "length plans \<le> nat limit" using list_all2_lengthD [OF two'] by simp
  have comp: "\<exists>p\<in>set plans. rp_plan_id p = pl_id row"
    if "length (db_plans d) \<le> nat limit" "row \<in> set queue" for row
  proof -
    have "take (nat limit) queue = queue" using that(1) q(3) by simp
    with two' have "list_all2 rel queue plans" by simp
    then have "\<forall>r\<in>set queue. \<exists>p\<in>set plans. rel r p"
      by (induction rule: list_all2_induct) auto
    with that(2) show ?thesis by (auto simp: rel_def)
  qed
  show ?thesis using d len srt members all comp q(1) by blast
qed

definition sample_plan :: "str \<Rightarrow> instant \<Rightarrow> MemoryReconciliationPlan" where
  "sample_plan i now = build_plan (\<lambda>x. x) i now (sample_candidate [] [] None)
     [sample_decision ''old'' SUPERSEDES 1] (Some (''key-'' @ i)) None"

definition sample_db :: "entity db" where
  "sample_db = empty_db\<lparr>db_plans := [plan_row sample_sql (sample_plan ''p1'' 1), plan_row sample_sql (sample_plan ''p2'' 2)]\<rparr>"

lemma sample_plan_simps [simp]:
  "rp_plan_id (sample_plan i now) = i" "rp_requires_review (sample_plan i now)"
  "rp_created_at (sample_plan i now) = now"
  "rp_idempotency_key (sample_plan ''p1'' now) = ''key-p1''"
  "rp_idempotency_key (sample_plan ''p2'' now) = ''key-p2''"
  by (simp_all add: sample_plan_def build_plan_def strip_def is_space_def Let_def
      select_primary_decision_def sample_decision_def)

theorem review_queue_is_exact_witness:
  "fst (list_review_plans sample_sql 10 sample_db) = Inr [sample_plan ''p2'' 2, sample_plan ''p1'' 1] \<and>
   sorted_wrt (\<lambda>p q. rp_created_at q \<le> rp_created_at p) [sample_plan ''p2'' 2, sample_plan ''p1'' 1]"
proof -
  have wf: "plans_wf sample_sql (db_plans sample_db)"
    by (auto simp: sample_db_def plans_wf_def plan_row_def row_ok_def sample_sql_def)
  have run: "list_review_plans sample_sql 10 sample_db =
      (Inr [sample_plan ''p2'' 2, sample_plan ''p1'' 1], sample_db)"
    by (simp add: list_review_plans_def query_def sample_sql_def sample_db_def empty_db_def plan_row_def
        applied_result_exists_def newest_first_def from_payload_def prog_simps insort_key_def)
  show ?thesis using review_queue_is_exact [OF wf run] run by simp
qed

end
