(* ===== verification/Reconciliation_Apply.thy ===== *)
theory Reconciliation_Apply
  imports Reconciliation_Store Temporal_Policy
begin

text \<open>
  Applying a persisted reconciliation plan: the pure helpers of
  \<open>memory_reconciliation_apply_policy.py\<close>, the state writer of
  \<open>memory_reconciliation_state_writer.py\<close> and the orchestration of
  \<open>memory_reconciliation_apply_service.py\<close>.

  The world an apply reads and writes is the canonical vault, reached only through the mutation
  gateway (a record of computations on an arbitrary vault type), and the SQL tables. The Python
  locals of \<open>_apply_plan\<close> that its \<open>except\<close> branch still reads are fields of the state the body
  threads, so that an exception keeps them. \<open>uuid5\<close> over the URL namespace and the clock are
  parameters; the clock is read once per call site, which the argument names.
\<close>

section \<open>Pure helpers\<close>

definition primary_decision :: "MemoryReconciliationPlan \<Rightarrow> MemoryRelationDecision option" where
  "primary_decision plan = find (\<lambda>d. rd_relation d = rp_primary_decision plan) (rp_decisions plan)"

definition required_target :: "MemoryRelationDecision option \<Rightarrow> ('s, py_exn, str) prog" where
  "required_target decision =
     (case decision of
        None \<Rightarrow> raise (RuntimeError ''Reconciliation action requires a target Context'')
      | Some d \<Rightarrow> ret (rd_existing_context_id d))"

definition required_created_context_id :: "str option \<Rightarrow> ('s, py_exn, str) prog" where
  "required_created_context_id context_id =
     (case context_id of
        None \<Rightarrow> raise (RuntimeError ''Reconciliation action requires a created Context'')
      | Some c \<Rightarrow> ret c)"

definition candidate_lifecycle :: "MemoryReconciliationPlan \<Rightarrow> str" where
  "candidate_lifecycle plan =
     (if rp_requires_review plan then ''pending_review''
      else let requested = mc_requested_lifecycle (rp_candidate plan) in
           if requested \<in> {''active'', ''current'', ''draft''} then requested else ''active'')"

definition claim_key :: "MemoryReconciliationPlan \<Rightarrow> MemoryRelationDecision \<Rightarrow> str" where
  "claim_key plan decision =
     (case rd_claim_matches decision of
        m # ms \<Rightarrow> m
      | [] \<Rightarrow>
         (case mc_canonical_claims (rp_candidate plan) of
            c # cs \<Rightarrow> cc_subject c @ ''|'' @ cc_predicate c @ ''|'' @ cc_object c
          | [] \<Rightarrow> ''candidate:'' @ mc_candidate_id (rp_candidate plan)))"

definition conflict_ids ::
  "(str \<Rightarrow> str) \<Rightarrow> MemoryReconciliationPlan \<Rightarrow> MemoryRelationDecision option \<Rightarrow> str list" where
  "conflict_ids uuid5 plan primary =
     (case primary of
        None \<Rightarrow> []
      | Some d \<Rightarrow>
          if rd_relation d \<noteq> CONTRADICTS then []
          else [uuid5 (''memory-conflict:'' @ rp_plan_id plan @ '':'' @ claim_key plan d)])"

definition subject_key :: "MemoryReconciliationPlan \<Rightarrow> str" where
  "subject_key plan =
     (case mc_canonical_claims (rp_candidate plan) of
        c # cs \<Rightarrow> casefold (cc_subject c)
      | [] \<Rightarrow> casefold (mc_title (rp_candidate plan)))"

definition relation_summary :: "MemoryRelationDecision option \<Rightarrow> str list" where
  "relation_summary decision =
     (case decision of
        None \<Rightarrow> []
      | Some d \<Rightarrow> [lower (relation_value (rd_relation d)) @ '':'' @ rd_existing_context_id d])"

definition result_id :: "(str \<Rightarrow> str) \<Rightarrow> str \<Rightarrow> str" where
  "result_id uuid5 plan_id = uuid5 (''memory-reconciliation-result:'' @ plan_id)"

definition relation_id :: "(str \<Rightarrow> str) \<Rightarrow> str \<Rightarrow> str \<Rightarrow> MemoryRelationType \<Rightarrow> str" where
  "relation_id uuid5 source_context_id target_context_id relation =
     uuid5 (''memory-relation:'' @ source_context_id @ '':'' @ target_context_id @ '':'' @
            relation_value relation)"

definition review_item_id :: "str \<Rightarrow> str" where
  "review_item_id plan_id = ''memory-review:'' @ plan_id"

section \<open>State writer\<close>

definition relation_source_id :: "MemoryReconciliationPlan \<Rightarrow> str option \<Rightarrow> str" where
  "relation_source_id plan created_context_id =
     (case created_context_id of
        Some c \<Rightarrow> if c \<noteq> [] then c else ''evidence:'' @ mc_candidate_id (rp_candidate plan)
      | None \<Rightarrow> ''evidence:'' @ mc_candidate_id (rp_candidate plan))"

definition primary_relation_record ::
  "(str \<Rightarrow> str) \<Rightarrow> (str \<Rightarrow> instant) \<Rightarrow> MemoryReconciliationPlan \<Rightarrow> MemoryRelationDecision \<Rightarrow>
   str option \<Rightarrow> MemoryRelationRecord" where
  "primary_relation_record uuid5 now plan d created_context_id =
     (let source_context_id = relation_source_id plan created_context_id in
      \<lparr> rel_relation_id = relation_id uuid5 source_context_id (rd_existing_context_id d) (rd_relation d),
        rel_source_context_id = source_context_id,
        rel_target_context_id = rd_existing_context_id d,
        rel_candidate_id = mc_candidate_id (rp_candidate plan),
        rel_relation = rd_relation d,
        rel_confidence = rd_confidence d,
        rel_reason = rd_reason d,
        rel_decision_source = rd_decision_source d,
        rel_policy_version = rd_policy_version d,
        rel_evidence_refs = rd_evidence_refs d,
        rel_claim_matches = rd_claim_matches d,
        rel_scores = rd_scores d,
        rel_created_at = now ''relation.created_at'' \<rparr>)"

definition persist_primary_relation ::
  "'j sql \<Rightarrow> (str \<Rightarrow> str) \<Rightarrow> (str \<Rightarrow> instant) \<Rightarrow> MemoryReconciliationPlan \<Rightarrow>
   MemoryRelationDecision option \<Rightarrow> str option \<Rightarrow> ('j db, py_exn, MemoryRelationRecord) prog" where
  "persist_primary_relation S uuid5 now plan primary created_context_id =
     (case primary of
        None \<Rightarrow> raise (RuntimeError ''Relation apply requires a primary decision'')
      | Some d \<Rightarrow> upsert_relation S (primary_relation_record uuid5 now plan d created_context_id))"

definition open_conflict ::
  "(str \<Rightarrow> instant) \<Rightarrow> MemoryReconciliationPlan \<Rightarrow> MemoryRelationDecision \<Rightarrow> str \<Rightarrow> str \<Rightarrow>
   MemoryConflictSet" where
  "open_conflict now plan d created_context_id conflict_set_id =
     \<lparr> cs_conflict_set_id = conflict_set_id,
       cs_context_ids = [created_context_id, rd_existing_context_id d],
       cs_candidate_id = mc_candidate_id (rp_candidate plan),
       cs_subject_key = subject_key plan,
       cs_claim_key = claim_key plan d,
       cs_scope = mc_scope (rp_candidate plan),
       cs_validity_overlap = (sc_temporal_compatibility (rd_scores d) > 0),
       cs_reason = rd_reason d,
       cs_status = OPEN,
       cs_resolution = None,
       cs_created_at = now ''conflict.created_at'',
       cs_resolved_at = None \<rparr>"

definition persist_conflict ::
  "'j sql \<Rightarrow> (str \<Rightarrow> instant) \<Rightarrow> MemoryReconciliationPlan \<Rightarrow> MemoryRelationDecision option \<Rightarrow>
   str option \<Rightarrow> str \<Rightarrow> ('j db, py_exn, MemoryConflictSet) prog" where
  "persist_conflict S now plan primary created_context_id conflict_set_id =
     (case (primary, created_context_id) of
        (Some d, Some c) \<Rightarrow> upsert_conflict S (open_conflict now plan d c conflict_set_id)
      | _ \<Rightarrow> raise (RuntimeError ''Conflict apply requires both Context identities''))"

definition created_temporal_state ::
  "MemoryReconciliationPlan \<Rightarrow> MemoryRelationDecision option \<Rightarrow> str \<Rightarrow> str list \<Rightarrow> MemoryTemporalState" where
  "created_temporal_state plan primary created_context_id conflict_set_ids =
     \<lparr> ts_context_id = created_context_id,
       ts_recorded_at = mc_recorded_at (rp_candidate plan),
       ts_observed_at = mc_observed_at (rp_candidate plan),
       ts_valid_from = mc_valid_from (rp_candidate plan),
       ts_valid_to = mc_valid_to (rp_candidate plan),
       ts_is_current = True,
       ts_conflict_set_ids = conflict_set_ids,
       ts_superseded_by = [],
       ts_supersedes =
         (case primary of
            Some d \<Rightarrow> if rd_relation d = SUPERSEDES then [rd_existing_context_id d] else []
          | None \<Rightarrow> []),
       ts_relation_summary = relation_summary primary \<rparr>"

definition target_temporal_state ::
  "MemoryReconciliationPlan \<Rightarrow> MemoryRelationDecision \<Rightarrow> str option \<Rightarrow> str list \<Rightarrow>
   MemoryTemporalState \<Rightarrow> ('s, py_exn, MemoryTemporalState) prog" where
  "target_temporal_state plan d created_context_id conflict_set_ids base =
     (let candidate = rp_candidate plan in
      if rd_relation d = SUPERSEDES then
        bind (required_created_context_id created_context_id) (\<lambda>replacement_id.
        ret (base\<lparr>
          ts_valid_to := or_else (mc_valid_from candidate)
             (or_else (mc_observed_at candidate) (Some (mc_recorded_at candidate))),
          ts_is_current := False,
          ts_superseded_by := fromkeys (ts_superseded_by base @ [replacement_id]),
          ts_relation_summary :=
            fromkeys (ts_relation_summary base @ [''superseded_by:'' @ replacement_id]) \<rparr>))
      else if rd_relation d = CONTRADICTS then
        ret (base\<lparr>
          ts_conflict_set_ids := fromkeys (ts_conflict_set_ids base @ conflict_set_ids),
          ts_relation_summary :=
            fromkeys (ts_relation_summary base @
              [''contradicts:'' @ (case created_context_id of None \<Rightarrow> ''None'' | Some c \<Rightarrow> c)]) \<rparr>)
      else ret base)"

definition initial_temporal_state :: "MemoryReconciliationPlan \<Rightarrow> str \<Rightarrow> MemoryTemporalState" where
  "initial_temporal_state plan context_id =
     \<lparr> ts_context_id = context_id, ts_recorded_at = mc_recorded_at (rp_candidate plan),
       ts_observed_at = None, ts_valid_from = None, ts_valid_to = None,
       ts_is_current = True, ts_conflict_set_ids = [], ts_superseded_by = [],
       ts_supersedes = [], ts_relation_summary = [] \<rparr>"

definition persist_temporal_states ::
  "'j sql \<Rightarrow> (str \<Rightarrow> instant) \<Rightarrow> MemoryReconciliationPlan \<Rightarrow> MemoryRelationDecision option \<Rightarrow>
   str option \<Rightarrow> str list \<Rightarrow> ('j db, py_exn, unit) prog" where
  "persist_temporal_states S now plan primary created_context_id conflict_set_ids =
     seq (case created_context_id of
            None \<Rightarrow> ret ()
          | Some c \<Rightarrow>
              seq (upsert_temporal_state S (now ''created.updated_at'')
                     (created_temporal_state plan primary c conflict_set_ids)) (ret ()))
     (case primary of
        None \<Rightarrow> ret ()
      | Some d \<Rightarrow>
          bind (get_temporal_state S (rd_existing_context_id d)) (\<lambda>existing.
          let base = (case existing of
                Some st \<Rightarrow> st
              | None \<Rightarrow> initial_temporal_state plan (rd_existing_context_id d))
          in bind (target_temporal_state plan d created_context_id conflict_set_ids base) (\<lambda>state.
             seq (upsert_temporal_state S (now ''target.updated_at'') state) (ret ()))))"

section \<open>The world of an apply\<close>

text \<open>\<open>IMemoryCanonicalMutationGateway\<close>.\<close>

record 'v gateway =
  gw_create_context ::
    "MemoryCandidate \<Rightarrow> str \<Rightarrow> str option \<Rightarrow> str list \<Rightarrow> MemoryRelationType option \<Rightarrow> str option
     \<Rightarrow> ('v, py_exn, str) prog"
  gw_merge_evidence :: "str \<Rightarrow> MemorySourceReference list \<Rightarrow> ('v, py_exn, str) prog"
  gw_supersede :: "str \<Rightarrow> str \<Rightarrow> ('v, py_exn, unit) prog"
  gw_verify :: "str \<Rightarrow> ('v, py_exn, bool) prog"

record ('v, 'j) apply_env =
  ae_sql :: "'j sql"
  ae_gateway :: "'v gateway"
  ae_uuid5 :: "str \<Rightarrow> str"
  ae_now :: "str \<Rightarrow> instant"

record ('v, 'j) world =
  w_vault :: 'v
  w_db :: "'j db"

text \<open>The locals of \<open>_apply_plan\<close>, on top of the world.\<close>

record ('v, 'j) apply_state = "('v, 'j) world" +
  al_created_context_ids :: "str list"
  al_updated_context_ids :: "str list"
  al_superseded_context_ids :: "str list"
  al_created_relation_ids :: "str list"
  al_created_conflict_set_ids :: "str list"
  al_review_queue_item_ids :: "str list"
  al_canonical_changed :: bool
  al_failure_code :: MemoryReconciliationFailureCode

definition on_vault :: "('v, 'e, 'a) prog \<Rightarrow> (('v, 'j, 'z) world_scheme, 'e, 'a) prog" where
  "on_vault m s = (case m (w_vault s) of (r, v) \<Rightarrow> (r, s\<lparr>w_vault := v\<rparr>))"

definition on_db :: "('j db, 'e, 'a) prog \<Rightarrow> (('v, 'j, 'z) world_scheme, 'e, 'a) prog" where
  "on_db m s = (case m (w_db s) of (r, d) \<Rightarrow> (r, s\<lparr>w_db := d\<rparr>))"

section \<open>The phases of \<open>_apply_plan\<close>\<close>

definition set_failure_code ::
  "MemoryReconciliationFailureCode \<Rightarrow> (('v, 'j) apply_state, py_exn, unit) prog" where
  "set_failure_code c = modify (\<lambda>s. s\<lparr>al_failure_code := c\<rparr>)"

definition create_phase ::
  "('v, 'j) apply_env \<Rightarrow> MemoryReconciliationPlan \<Rightarrow> MemoryRelationDecision option \<Rightarrow> str list
   \<Rightarrow> (('v, 'j) apply_state, py_exn, str option) prog" where
  "create_phase E plan primary plan_conflict_ids =
     (if has_action plan CREATE_CONTEXT then
        seq (set_failure_code CONTEXT_WRITE_FAILED)
        (bind (on_vault (gw_create_context (ae_gateway E) (rp_candidate plan) (candidate_lifecycle plan)
                 (case primary of
                    Some d \<Rightarrow> if rd_relation d = SUPERSEDES then Some (rd_existing_context_id d) else None
                  | None \<Rightarrow> None)
                 plan_conflict_ids (map_option rd_relation primary)
                 (map_option rd_existing_context_id primary))) (\<lambda>created.
         seq (modify (\<lambda>s. s\<lparr> al_created_context_ids := al_created_context_ids s @ [created],
                             al_canonical_changed := True,
                             al_failure_code := READ_BACK_VERIFICATION_FAILED \<rparr>))
         (bind (on_vault (gw_verify (ae_gateway E) created)) (\<lambda>ok.
            if ok then ret (Some created)
            else raise (RuntimeError ''Created Context failed canonical read-back'')))))
      else ret None)"

definition merge_phase ::
  "('v, 'j) apply_env \<Rightarrow> MemoryReconciliationPlan \<Rightarrow> MemoryRelationDecision option
   \<Rightarrow> (('v, 'j) apply_state, py_exn, unit) prog" where
  "merge_phase E plan primary =
     whenE (has_action plan MERGE_EVIDENCE)
       (bind (required_target primary) (\<lambda>target_context_id.
        seq (set_failure_code CONTEXT_WRITE_FAILED)
        (bind (on_vault (gw_merge_evidence (ae_gateway E) target_context_id
                 (mc_source_refs (rp_candidate plan)))) (\<lambda>updated.
         seq (modify (\<lambda>s. s\<lparr> al_updated_context_ids := al_updated_context_ids s @ [updated],
                             al_canonical_changed := True,
                             al_failure_code := READ_BACK_VERIFICATION_FAILED \<rparr>))
         (bind (on_vault (gw_verify (ae_gateway E) updated)) (\<lambda>ok.
            if ok then ret ()
            else raise (RuntimeError ''Evidence merge failed canonical read-back'')))))))"

definition relation_phase ::
  "('v, 'j) apply_env \<Rightarrow> MemoryReconciliationPlan \<Rightarrow> MemoryRelationDecision option \<Rightarrow> str option
   \<Rightarrow> (('v, 'j) apply_state, py_exn, unit) prog" where
  "relation_phase E plan primary created_context_id =
     whenE (has_action plan CREATE_RELATION)
       (seq (set_failure_code GRAPH_WRITE_FAILED)
        (bind (on_db (persist_primary_relation (ae_sql E) (ae_uuid5 E) (ae_now E) plan primary
                        created_context_id)) (\<lambda>relation.
         modify (\<lambda>s. s\<lparr>al_created_relation_ids := al_created_relation_ids s @ [rel_relation_id relation]\<rparr>))))"

definition conflict_phase ::
  "('v, 'j) apply_env \<Rightarrow> MemoryReconciliationPlan \<Rightarrow> MemoryRelationDecision option \<Rightarrow> str option
   \<Rightarrow> str list \<Rightarrow> (('v, 'j) apply_state, py_exn, unit) prog" where
  "conflict_phase E plan primary created_context_id plan_conflict_ids =
     whenE (has_action plan CREATE_CONFLICT_SET)
       (seq (set_failure_code CONFLICT_WRITE_FAILED)
        (case plan_conflict_ids of
           [] \<Rightarrow> raise (OtherError ''IndexError'' ''tuple index out of range'')
         | i # is \<Rightarrow>
             bind (on_db (persist_conflict (ae_sql E) (ae_now E) plan primary created_context_id i))
               (\<lambda>conflict. modify (\<lambda>s.
                  s\<lparr>al_created_conflict_set_ids :=
                      al_created_conflict_set_ids s @ [cs_conflict_set_id conflict]\<rparr>))))"

definition supersede_phase ::
  "('v, 'j) apply_env \<Rightarrow> MemoryReconciliationPlan \<Rightarrow> MemoryRelationDecision option \<Rightarrow> str option
   \<Rightarrow> (('v, 'j) apply_state, py_exn, unit) prog" where
  "supersede_phase E plan primary created_context_id =
     whenE (has_action plan MARK_SUPERSEDED)
       (bind (required_target primary) (\<lambda>target_context_id.
          case created_context_id of
            None \<Rightarrow> raise (RuntimeError ''Supersede apply requires a replacement Context'')
          | Some c \<Rightarrow>
              seq (set_failure_code LIFECYCLE_UPDATE_FAILED)
              (seq (on_vault (gw_supersede (ae_gateway E) target_context_id c))
                   (modify (\<lambda>s. s\<lparr> al_superseded_context_ids :=
                                     al_superseded_context_ids s @ [target_context_id],
                                   al_canonical_changed := True \<rparr>)))))"

definition temporal_phase ::
  "('v, 'j) apply_env \<Rightarrow> MemoryReconciliationPlan \<Rightarrow> MemoryRelationDecision option \<Rightarrow> str option
   \<Rightarrow> str list \<Rightarrow> (('v, 'j) apply_state, py_exn, unit) prog" where
  "temporal_phase E plan primary created_context_id plan_conflict_ids =
     seq (set_failure_code LIFECYCLE_UPDATE_FAILED)
         (on_db (persist_temporal_states (ae_sql E) (ae_now E) plan primary created_context_id
                   plan_conflict_ids))"

definition review_phase :: "MemoryReconciliationPlan \<Rightarrow> (('v, 'j) apply_state, py_exn, unit) prog" where
  "review_phase plan =
     whenE (has_action plan QUEUE_REVIEW)
       (modify (\<lambda>s. s\<lparr>al_review_queue_item_ids :=
                        al_review_queue_item_ids s @ [review_item_id (rp_plan_id plan)]\<rparr>))"

section \<open>Results\<close>

definition successful_result ::
  "('v, 'j) apply_env \<Rightarrow> MemoryReconciliationPlan \<Rightarrow> str option \<Rightarrow> instant option
   \<Rightarrow> ('v, 'j) apply_state \<Rightarrow> MemoryReconciliationResult" where
  "successful_result E plan reviewed_by reviewed_at s =
     \<lparr> rr_reconciliation_id = result_id (ae_uuid5 E) (rp_plan_id plan),
       rr_plan_id = rp_plan_id plan,
       rr_status = APPLIED,
       rr_created_context_ids = al_created_context_ids s,
       rr_updated_context_ids = fromkeys (al_updated_context_ids s),
       rr_superseded_context_ids = al_superseded_context_ids s,
       rr_created_relation_ids = al_created_relation_ids s,
       rr_created_conflict_set_ids = al_created_conflict_set_ids s,
       rr_merged_evidence =
         (if has_action plan MERGE_EVIDENCE then mc_source_refs (rp_candidate plan) else []),
       rr_review_queue_item_ids = al_review_queue_item_ids s,
       rr_warnings = rp_warnings plan,
       rr_hard_delete_performed = False,
       rr_failure_code = None,
       rr_reviewed_by = reviewed_by,
       rr_reviewed_at = reviewed_at,
       rr_completed_at = Some (ae_now E ''completed_at'') \<rparr>"

definition failed_result ::
  "('v, 'j) apply_env \<Rightarrow> MemoryReconciliationPlan \<Rightarrow> str option \<Rightarrow> instant option
   \<Rightarrow> py_exn \<Rightarrow> ('v, 'j) apply_state \<Rightarrow> MemoryReconciliationResult" where
  "failed_result E plan reviewed_by reviewed_at exc s =
     (let status = (if al_canonical_changed s \<or> al_created_relation_ids s \<noteq> [] \<or>
                       al_created_conflict_set_ids s \<noteq> [] then PARTIAL_APPLY else FAILED)
      in \<lparr> rr_reconciliation_id = result_id (ae_uuid5 E) (rp_plan_id plan),
           rr_plan_id = rp_plan_id plan,
           rr_status = status,
           rr_created_context_ids = al_created_context_ids s,
           rr_updated_context_ids = fromkeys (al_updated_context_ids s),
           rr_superseded_context_ids = al_superseded_context_ids s,
           rr_created_relation_ids = al_created_relation_ids s,
           rr_created_conflict_set_ids = al_created_conflict_set_ids s,
           rr_merged_evidence = [],
           rr_review_queue_item_ids = al_review_queue_item_ids s,
           rr_warnings = rp_warnings plan @
             [failure_code_value (al_failure_code s) @ '': '' @ exn_text exc],
           rr_hard_delete_performed = False,
           rr_failure_code = Some (if status = PARTIAL_APPLY then FC_PARTIAL_APPLY
                                   else al_failure_code s),
           rr_reviewed_by = reviewed_by,
           rr_reviewed_at = reviewed_at,
           rr_completed_at = Some (ae_now E ''completed_at'') \<rparr>)"

definition initial_locals :: "('v, 'j) world \<Rightarrow> ('v, 'j) apply_state" where
  "initial_locals w = world.extend w
     \<lparr> al_created_context_ids = [], al_updated_context_ids = [], al_superseded_context_ids = [],
       al_created_relation_ids = [], al_created_conflict_set_ids = [],
       al_review_queue_item_ids = [], al_canonical_changed = False,
       al_failure_code = POLICY_BLOCKED \<rparr>"

text \<open>The body of the \<open>try\<close> statement.\<close>

definition apply_body ::
  "('v, 'j) apply_env \<Rightarrow> MemoryReconciliationPlan \<Rightarrow> (('v, 'j) apply_state, py_exn, unit) prog" where
  "apply_body E plan =
     (let primary = primary_decision plan;
          plan_conflict_ids = conflict_ids (ae_uuid5 E) plan primary in
      bind (create_phase E plan primary plan_conflict_ids) (\<lambda>created_context_id.
      seq (merge_phase E plan primary)
      (seq (relation_phase E plan primary created_context_id)
      (seq (conflict_phase E plan primary created_context_id plan_conflict_ids)
      (seq (supersede_phase E plan primary created_context_id)
      (seq (temporal_phase E plan primary created_context_id plan_conflict_ids)
           (review_phase plan)))))))"

definition apply_plan ::
  "('v, 'j) apply_env \<Rightarrow> MemoryReconciliationPlan \<Rightarrow> str option
   \<Rightarrow> (('v, 'j) world, py_exn, MemoryReconciliationResult) prog" where
  "apply_plan E plan reviewed_by w =
     (let reviewed_at = (if reviewed_by \<noteq> None then Some (ae_now E ''reviewed_at'') else None) in
      case apply_body E plan (initial_locals w) of
        (Inr _, s) \<Rightarrow>
          on_db (save_result (ae_sql E) (successful_result E plan reviewed_by reviewed_at s))
            (world.truncate s)
      | (Inl exc, s) \<Rightarrow>
          on_db (save_result (ae_sql E) (failed_result E plan reviewed_by reviewed_at exc s))
            (world.truncate s))"

section \<open>The service\<close>

definition validated_reviewer ::
  "MemoryReconciliationPlan \<Rightarrow> bool \<Rightarrow> str option \<Rightarrow> ('s, py_exn, str option) prog" where
  "validated_reviewer plan review_approved reviewer =
     (if \<not> rp_requires_review plan then ret None
      else if \<not> review_approved then
        raise (MemoryContextValidationError
          ''RECONCILIATION_REVIEW_APPROVAL_REQUIRED: explicit Memory Steward approval is required before canonical mutation'')
      else let normalized = (case reviewer of None \<Rightarrow> [] | Some r \<Rightarrow> strip r) in
        if normalized = [] \<or> length normalized > 255 then
          raise (MemoryContextValidationError
            ''RECONCILIATION_REVIEWER_REQUIRED: approved review requires a bounded Memory Steward identity'')
        else ret (Some normalized))"

text \<open>\<open>MemoryReconciliationApplyService.apply\<close>; the log calls have no effect on the world.\<close>

definition apply_reconciliation ::
  "('v, 'j) apply_env \<Rightarrow> str \<Rightarrow> bool \<Rightarrow> bool \<Rightarrow> str option
   \<Rightarrow> (('v, 'j) world, py_exn, MemoryReconciliationResult) prog" where
  "apply_reconciliation E plan_id retry_failed review_approved reviewer =
     bind (on_db (get_plan (ae_sql E) plan_id)) (\<lambda>found.
       case found of
         None \<Rightarrow> raise (MemoryContextNotFoundError
                    (''Memory reconciliation plan not found: '' @ plan_id))
       | Some plan \<Rightarrow>
           bind (on_db (get_result_by_plan_id (ae_sql E) plan_id)) (\<lambda>existing.
             if (case existing of None \<Rightarrow> False
                 | Some r \<Rightarrow> rr_status r = APPLIED \<or> \<not> retry_failed)
             then ret (the existing)
             else bind (validated_reviewer plan review_approved reviewer) (\<lambda>reviewed_by.
                  apply_plan E plan reviewed_by)))"

end
