(* ===== verification/Apply_Phases.thy ===== *)
theory Apply_Phases
  imports Reconciliation_Apply
begin

text \<open>
  Reasoning about an apply. Each phase of the body is specified by a Hoare triple over the
  tables and the locals; together they describe exactly what an applied plan wrote
  (\<open>applied_db\<close>, \<open>applied_report\<close>) and what a failed one may have left behind (\<open>failure_ok\<close>).
  A second group of lemmas shows that without faults every phase succeeds.
\<close>

section \<open>What the database operations of an apply leave behind\<close>

lemma persist_primary_relation_outcome:
  assumes "sql_round_trip S"
  shows "case persist_primary_relation S u now plan p c d of
     (Inl e, d') \<Rightarrow> tables_kept d d'
   | (Inr y, d') \<Rightarrow> (\<exists>pd. p = Some pd \<and>
       d' = d\<lparr>db_relations := put_relation S (primary_relation_record u now plan pd c) (db_relations d)\<rparr> \<and>
       (case find (same_relation (primary_relation_record u now plan pd c)) (db_relations d) of
          None \<Rightarrow> y = primary_relation_record u now plan pd c
        | Some r \<Rightarrow> sql_relation_load S (rw_payload r) = Inr y))"
proof (cases p)
  case (Some pd)
  then show ?thesis
    using upsert_relation_outcome [OF assms, where l = "primary_relation_record u now plan pd c" and d = d]
    by (auto simp: persist_primary_relation_def split: prod.splits sum.splits)
qed (simp add: persist_primary_relation_def raise_def)

lemma persist_conflict_outcome:
  assumes "sql_round_trip S"
  shows "case persist_conflict S now plan p c i d of
     (Inl e, d') \<Rightarrow> tables_kept d d'
   | (Inr y, d') \<Rightarrow> (\<exists>pd cid. p = Some pd \<and> c = Some cid \<and> y = open_conflict now plan pd cid i \<and>
       d' = d\<lparr>db_conflicts := put_conflict S (open_conflict now plan pd cid i) (db_conflicts d)\<rparr>)"
proof (cases "\<exists>pd cid. p = Some pd \<and> c = Some cid")
  case True
  then obtain pd cid where [simp]: "p = Some pd" "c = Some cid" by blast
  show ?thesis
    using upsert_conflict_outcome [OF assms, where c = "open_conflict now plan pd cid i" and d = d]
    by (auto simp: persist_conflict_def split: prod.splits sum.splits)
next
  case False
  then show ?thesis by (auto simp: persist_conflict_def raise_def split: option.split)
qed

definition only_temporal :: "'j db \<Rightarrow> 'j db \<Rightarrow> bool" where
  "only_temporal d d' \<longleftrightarrow> db_plans d' = db_plans d \<and> db_results d' = db_results d \<and>
     db_relations d' = db_relations d \<and> db_conflicts d' = db_conflicts d"

lemma only_temporalI: "tables_kept d d' \<Longrightarrow> only_temporal d d'"
  "only_temporal d (d\<lparr>db_temporal := t\<rparr>)"
  by (simp_all add: only_temporal_def tables_keptD)

lemma only_temporal_trans: "only_temporal a b \<Longrightarrow> only_temporal b c \<Longrightarrow> only_temporal a c"
  by (simp add: only_temporal_def)

section \<open>Temporal overlays after an apply\<close>

definition base_state :: "'j sql \<Rightarrow> 'j db \<Rightarrow> MemoryReconciliationPlan \<Rightarrow> MemoryRelationDecision \<Rightarrow> MemoryTemporalState" where
  "base_state S d plan pd =
     (case temporal_of S d (rd_existing_context_id pd) of
        Some st \<Rightarrow> st | None \<Rightarrow> initial_temporal_state plan (rd_existing_context_id pd))"

lemma base_state_id: "temporal_wf S (db_temporal d) \<Longrightarrow> ts_context_id (base_state S d plan pd) = rd_existing_context_id pd"
  by (auto simp: base_state_def temporal_of_def temporal_wf_def initial_temporal_state_def
      find_Some_iff dest!: row_okD split: option.splits sum.splits)

text \<open>The state written for the target of the primary decision.\<close>

definition target_state ::
  "MemoryReconciliationPlan \<Rightarrow> MemoryRelationDecision \<Rightarrow> str option \<Rightarrow> str list \<Rightarrow> MemoryTemporalState \<Rightarrow> MemoryTemporalState" where
  "target_state plan pd c ids base =
     (case fst (target_temporal_state plan pd c ids base ()) of Inr st \<Rightarrow> st | Inl _ \<Rightarrow> base)"

lemma target_temporal_state_returns:
  "target_temporal_state plan pd c ids base s = (Inr st, s') \<Longrightarrow>
     s' = s \<and> st = target_state plan pd c ids base \<and> (rd_relation pd = SUPERSEDES \<longrightarrow> c \<noteq> None)"
  by (auto simp: target_temporal_state_def target_state_def required_created_context_id_def prog_simps
      Let_def split: if_splits option.splits)

lemma target_temporal_state_state [simp]: "snd (target_temporal_state plan pd c ids base s) = s"
  by (auto simp: target_temporal_state_def required_created_context_id_def prog_simps Let_def
      split: option.split)

lemma target_state_id [simp]: "ts_context_id (target_state plan pd c ids base) = ts_context_id base"
  by (auto simp: target_state_def target_temporal_state_def required_created_context_id_def prog_simps
      Let_def split: option.split)

text \<open>What the temporal phase writes: the created overlay first, then the target's.\<close>

definition with_created ::
  "'j sql \<Rightarrow> (str \<Rightarrow> instant) \<Rightarrow> MemoryReconciliationPlan \<Rightarrow> MemoryRelationDecision option \<Rightarrow> str option
   \<Rightarrow> str list \<Rightarrow> 'j db \<Rightarrow> 'j db" where
  "with_created S now plan p c ids d =
     (case c of
        None \<Rightarrow> d
      | Some cid \<Rightarrow> d\<lparr>db_temporal := put_temporal S (now ''created.updated_at'')
                       (created_temporal_state plan p cid ids) (db_temporal d)\<rparr>)"

definition with_overlays ::
  "'j sql \<Rightarrow> (str \<Rightarrow> instant) \<Rightarrow> MemoryReconciliationPlan \<Rightarrow> MemoryRelationDecision option \<Rightarrow> str option
   \<Rightarrow> str list \<Rightarrow> 'j db \<Rightarrow> 'j db" where
  "with_overlays S now plan p c ids d =
     (let d1 = with_created S now plan p c ids d in
      case p of
        None \<Rightarrow> d1
      | Some pd \<Rightarrow> d1\<lparr>db_temporal := put_temporal S (now ''target.updated_at'')
                       (target_state plan pd c ids (base_state S d1 plan pd)) (db_temporal d1)\<rparr>)"

lemma only_temporal_with_created: "only_temporal d (with_created S now plan p c ids d)"
  by (simp add: with_created_def only_temporal_def split: option.split)

lemma created_step_outcome:
  assumes "sql_round_trip S"
  shows "case (case c of None \<Rightarrow> ret () | Some cid \<Rightarrow>
        seq (upsert_temporal_state S (now ''created.updated_at'') (created_temporal_state plan p cid ids)) (ret ())) d of
     (Inl e, d') \<Rightarrow> only_temporal d d'
   | (Inr u, d') \<Rightarrow> d' = with_created S now plan p c ids d"
proof (cases c)
  case (Some cid)
  then show ?thesis
    using upsert_temporal_state_outcome [OF assms, where now = "now ''created.updated_at''"
        and st = "created_temporal_state plan p cid ids" and d = d]
    by (auto simp: prog_simps with_created_def only_temporalI split: prod.splits sum.splits)
qed (simp add: ret_def with_created_def)

lemma target_step_outcome:
  assumes "sql_round_trip S"
  shows "case (bind (get_temporal_state S (rd_existing_context_id pd)) (\<lambda>existing.
          let base = (case existing of Some st \<Rightarrow> st | None \<Rightarrow> initial_temporal_state plan (rd_existing_context_id pd))
          in bind (target_temporal_state plan pd c ids base) (\<lambda>state.
             seq (upsert_temporal_state S t state) (ret ())))) d of
     (Inl e, d') \<Rightarrow> only_temporal d d'
   | (Inr u, d') \<Rightarrow> (rd_relation pd = SUPERSEDES \<longrightarrow> c \<noteq> None) \<and>
       d' = d\<lparr>db_temporal := put_temporal S t (target_state plan pd c ids (base_state S d plan pd)) (db_temporal d)\<rparr>"
proof (cases "get_temporal_state S (rd_existing_context_id pd) d")
  case (Pair r d1)
  then have d1 [simp]: "d1 = d" using reads_keep_db(9) [of S "rd_existing_context_id pd" d] by simp
  show ?thesis
  proof (cases r)
    case (Inl e)
    then show ?thesis using Pair by (simp add: bind_def only_temporal_def)
  next
    case (Inr x)
    then have x: "x = temporal_of S d (rd_existing_context_id pd)"
      using Pair get_temporal_state_returns by blast
    have base: "(case x of Some st \<Rightarrow> st | None \<Rightarrow> initial_temporal_state plan (rd_existing_context_id pd)) =
        base_state S d plan pd" by (simp add: base_state_def x)
    obtain tr where tr: "target_temporal_state plan pd c ids (base_state S d plan pd) d = (tr, d)"
      using target_temporal_state_state by (metis prod.collapse)
    show ?thesis
    proof (cases tr)
      case (Inl e)
      then show ?thesis using Pair Inr base tr by (simp add: bind_def only_temporal_def)
    next
      case tr': (Inr st)
      then have "st = target_state plan pd c ids (base_state S d plan pd) \<and> (rd_relation pd = SUPERSEDES \<longrightarrow> c \<noteq> None)"
        using target_temporal_state_returns tr by metis
      then show ?thesis
        using Pair Inr base tr tr' upsert_temporal_state_outcome [OF assms, where now = t and st = st and d = d]
        by (auto simp: bind_def seq_def ret_def only_temporalI split: prod.splits sum.splits)
    qed
  qed
qed

lemma persist_temporal_states_outcome:
  assumes "sql_round_trip S"
  shows "case persist_temporal_states S now plan p c ids d of
     (Inl e, d') \<Rightarrow> only_temporal d d'
   | (Inr u, d') \<Rightarrow> d' = with_overlays S now plan p c ids d \<and>
       (\<forall>pd. p = Some pd \<longrightarrow> rd_relation pd = SUPERSEDES \<longrightarrow> c \<noteq> None)"
proof -
  let ?d1 = "with_created S now plan p c ids d"
  have "runs_to (\<lambda>s. s = d) (persist_temporal_states S now plan p c ids)
      (\<lambda>_ d'. d' = with_overlays S now plan p c ids d \<and>
         (\<forall>pd. p = Some pd \<longrightarrow> rd_relation pd = SUPERSEDES \<longrightarrow> c \<noteq> None))
      (\<lambda>_. only_temporal d)"
    unfolding persist_temporal_states_def
  proof (rule runs_to_seq [where R = "\<lambda>s. s = ?d1"])
    show "runs_to (\<lambda>s. s = ?d1)
       (case p of None \<Rightarrow> ret ()
        | Some pd \<Rightarrow> bind (get_temporal_state S (rd_existing_context_id pd)) (\<lambda>existing.
          let base = (case existing of Some st \<Rightarrow> st
                | None \<Rightarrow> initial_temporal_state plan (rd_existing_context_id pd))
          in bind (target_temporal_state plan pd c ids base) (\<lambda>state.
             seq (upsert_temporal_state S (now ''target.updated_at'') state) (ret ()))))
       (\<lambda>_ d'. d' = with_overlays S now plan p c ids d \<and>
         (\<forall>pd. p = Some pd \<longrightarrow> rd_relation pd = SUPERSEDES \<longrightarrow> c \<noteq> None))
       (\<lambda>_. only_temporal d)"
    proof (cases p)
      case (Some pd)
      then show ?thesis
        using target_step_outcome [OF assms, where pd = pd and plan = plan and c = c and ids = ids
            and t = "now ''target.updated_at''" and d = ?d1]
          only_temporal_trans [OF only_temporal_with_created, of _ _ _ _ _ _ d]
        by (auto simp: runs_to_at with_overlays_def Let_def split: prod.splits sum.splits)
    qed (simp add: runs_to_def ret_def with_overlays_def)
  qed (use created_step_outcome [OF assms] in \<open>simp add: runs_to_at\<close>)
  then show ?thesis unfolding runs_to_at .
qed

section \<open>The phases\<close>

text \<open>The database and the locals of an apply in progress; the vault and the failure code are free.\<close>

definition at_point ::
  "'j db \<Rightarrow> str list \<Rightarrow> str list \<Rightarrow> str list \<Rightarrow> str list \<Rightarrow> str list \<Rightarrow> str list \<Rightarrow> bool
   \<Rightarrow> ('v, 'j) apply_state \<Rightarrow> bool" where
  "at_point d created updated superseded relations conflicts reviews changed s \<longleftrightarrow>
     w_db s = d \<and> al_created_context_ids s = created \<and> al_updated_context_ids s = updated \<and>
     al_superseded_context_ids s = superseded \<and> al_created_relation_ids s = relations \<and>
     al_created_conflict_set_ids s = conflicts \<and> al_review_queue_item_ids s = reviews \<and>
     al_canonical_changed s = changed"

text \<open>
  How a failing body leaves the state: plans and results are untouched, and either the failure
  will be reported as partial or nothing at all was written.
\<close>

definition failure_ok :: "'j db \<Rightarrow> ('v, 'j) apply_state \<Rightarrow> bool" where
  "failure_ok d s \<longleftrightarrow>
     db_plans (w_db s) = db_plans d \<and> db_results (w_db s) = db_results d \<and>
     (al_canonical_changed s \<or> al_created_relation_ids s \<noteq> [] \<or> al_created_conflict_set_ids s \<noteq> [] \<or>
      tables_kept d (w_db s) \<and> al_created_context_ids s = [] \<and> al_updated_context_ids s = [] \<and>
      al_superseded_context_ids s = [] \<and> al_review_queue_item_ids s = [])"

lemma runs_on_vault:
  assumes "\<And>s v. P s \<Longrightarrow> P (s\<lparr>w_vault := v\<rparr>)"
  shows "runs_to P (on_vault m) (\<lambda>_. P) (\<lambda>_. P)"
  using assms by (auto simp: runs_to_def on_vault_def split: prod.splits sum.splits)

lemma runs_on_db:
  assumes "runs_to (\<lambda>d. d = d0) m Q E"
  shows "runs_to (\<lambda>s. w_db s = d0 \<and> P s) (on_db m)
     (\<lambda>x s. \<exists>s0 d. w_db s0 = d0 \<and> P s0 \<and> Q x d \<and> s = s0\<lparr>w_db := d\<rparr>)
     (\<lambda>e s. \<exists>s0 d. w_db s0 = d0 \<and> P s0 \<and> E e d \<and> s = s0\<lparr>w_db := d\<rparr>)"
  using assms by (fastforce simp: runs_to_def on_db_def split: prod.splits sum.splits)

lemma at_point_vault [simp]: "at_point d a b c e f g h (s\<lparr>w_vault := v\<rparr>) = at_point d a b c e f g h s"
  by (simp add: at_point_def)

lemma at_point_code [simp]: "at_point d a b c e f g h (s\<lparr>al_failure_code := v\<rparr>) = at_point d a b c e f g h s"
  by (simp add: at_point_def)

lemma at_point_failure:
  "at_point d' cr up su re co rv ch s \<Longrightarrow> db_plans d' = db_plans d \<Longrightarrow> db_results d' = db_results d \<Longrightarrow>
   ch \<or> d' = d \<and> cr = [] \<and> up = [] \<and> su = [] \<and> rv = [] \<Longrightarrow> failure_ok d s"
  by (auto simp: at_point_def failure_ok_def)

lemma runs_set_failure_code:
  "runs_to (at_point d a b c e f g h) (set_failure_code k) (\<lambda>_. at_point d a b c e f g h) E"
  by (simp add: set_failure_code_def runs_to_def modify_def)

lemma runs_vault_call:
  fixes m :: "('v, py_exn, 'a) prog"
  assumes "\<And>s :: ('v, 'j) apply_state. at_point d' a b c e f g h s \<Longrightarrow> failure_ok d s"
  shows "runs_to (at_point d' a b c e f g h) (on_vault m) (\<lambda>_. at_point d' a b c e f g h) (\<lambda>_. failure_ok d)"
  by (rule runs_to_weaken [OF runs_on_vault [where P = "at_point d' a b c e f g h"]]) (simp_all add: assms)

lemma runs_verify:
  fixes m :: "('v, py_exn, bool) prog"
  assumes "\<And>s :: ('v, 'j) apply_state. at_point d' a b c e f g h s \<Longrightarrow> failure_ok d s"
  shows "runs_to (at_point d' a b c e f g h)
     (bind (on_vault m) (\<lambda>ok. if ok then ret x else raise err)) (\<lambda>y s. y = x \<and> at_point d' a b c e f g h s) (\<lambda>_. failure_ok d)"
  by (rule runs_to_bind [OF runs_vault_call [OF assms]]) (auto intro: runs_to_ret runs_to_raise assms)

lemma runs_create_phase:
  "runs_to (at_point d [] [] [] [] [] [] False) (create_phase E plan p ids)
     (\<lambda>c s. (c \<noteq> None \<longleftrightarrow> has_action plan CREATE_CONTEXT) \<and>
        at_point d (case c of None \<Rightarrow> [] | Some x \<Rightarrow> [x]) [] [] [] [] [] (c \<noteq> None) s)
     (\<lambda>_. failure_ok d)"
proof (cases "has_action plan CREATE_CONTEXT")
  case True
  have fresh: "\<And>s. at_point d [] [] [] [] [] [] False s \<Longrightarrow> failure_ok d s"
    and made: "\<And>c s. at_point d [c] [] [] [] [] [] True s \<Longrightarrow> failure_ok d s"
    by (erule at_point_failure; simp)+
  show ?thesis
    unfolding create_phase_def if_P [OF True]
    apply (rule runs_to_seq [OF runs_set_failure_code])
    apply (rule runs_to_bind [OF runs_vault_call [OF fresh]], assumption)
    subgoal for cid
      apply (rule runs_to_seq [where R = "at_point d [cid] [] [] [] [] [] True"])
       apply (rule runs_to_modify, simp add: at_point_def)
      apply (rule runs_to_weaken [OF runs_verify [OF made]])
      using True by auto
    done
qed (simp add: create_phase_def runs_to_def ret_def)

lemma runs_merge_phase:
  assumes "ch \<or> cr = []"
  shows "runs_to (at_point d cr [] [] [] [] [] ch) (merge_phase E plan p)
     (\<lambda>_ s. \<exists>up. (if has_action plan MERGE_EVIDENCE then \<exists>x. up = [x] else up = []) \<and>
        at_point d cr up [] [] [] [] (ch \<or> has_action plan MERGE_EVIDENCE) s)
     (\<lambda>_. failure_ok d)"
proof (cases "has_action plan MERGE_EVIDENCE")
  case True
  have before: "\<And>s. at_point d cr [] [] [] [] [] ch s \<Longrightarrow> failure_ok d s"
    using assms by (auto elim!: at_point_failure)
  have made: "\<And>u s. at_point d cr [u] [] [] [] [] True s \<Longrightarrow> failure_ok d s"
    by (erule at_point_failure; simp)
  show ?thesis
  proof (cases p)
    case None
    then show ?thesis using True before
      by (auto simp: merge_phase_def whenE_def required_target_def runs_to_def bind_def raise_def)
  next
    case (Some pd)
    show ?thesis
      unfolding merge_phase_def whenE_def if_P [OF True] Some required_target_def option.case
      apply (rule runs_to_bind [where R = "\<lambda>_. at_point d cr [] [] [] [] [] ch"])
       apply (rule runs_to_ret, assumption)
      apply (rule runs_to_seq [OF runs_set_failure_code])
      apply (rule runs_to_bind [OF runs_vault_call [OF before]], assumption)
      subgoal for _ u
        apply (rule runs_to_seq [where R = "at_point d cr [u] [] [] [] [] True"])
         apply (rule runs_to_modify, simp add: at_point_def)
        apply (rule runs_to_weaken [OF runs_verify [OF made]])
        using True by auto
      done
  qed
qed (simp add: merge_phase_def whenE_def runs_to_def ret_def)

text \<open>Once the canonical memory changed, any failure is a partial apply.\<close>

definition plans_results_kept :: "'j db \<Rightarrow> 'j db \<Rightarrow> bool" where
  "plans_results_kept d d' \<longleftrightarrow> db_plans d' = db_plans d \<and> db_results d' = db_results d"

lemma changed_failure:
  "at_point d' cr up su re co rv True s \<Longrightarrow> plans_results_kept d d' \<Longrightarrow> failure_ok d s"
  by (auto simp: at_point_def failure_ok_def plans_results_kept_def)

lemma runs_db_call:
  assumes "runs_to (\<lambda>x. x = d') m Q (\<lambda>_. plans_results_kept d)"
  shows "runs_to (at_point d' cr up su re co rv True) (on_db m)
     (\<lambda>x s. Q x (w_db s) \<and> at_point (w_db s) cr up su re co rv True s) (\<lambda>_. failure_ok d)"
  by (rule runs_to_weaken [OF runs_on_db [OF assms, where P = "at_point d' cr up su re co rv True"]])
    (auto simp: at_point_def failure_ok_def plans_results_kept_def)

lemma plans_results_kept_trans:
  "plans_results_kept a b \<Longrightarrow> plans_results_kept b c \<Longrightarrow> plans_results_kept a c"
  by (simp add: plans_results_kept_def)

lemma plans_results_kept_intros:
  "tables_kept d d' \<Longrightarrow> plans_results_kept d d'" "only_temporal d d' \<Longrightarrow> plans_results_kept d d'"
  by (simp_all add: plans_results_kept_def tables_keptD only_temporal_def)

definition with_relation ::
  "('v, 'j) apply_env \<Rightarrow> MemoryReconciliationPlan \<Rightarrow> MemoryRelationDecision option \<Rightarrow> str option \<Rightarrow> 'j db \<Rightarrow> 'j db" where
  "with_relation E plan p c d =
     (if has_action plan CREATE_RELATION
      then d\<lparr>db_relations := put_relation (ae_sql E)
               (primary_relation_record (ae_uuid5 E) (ae_now E) plan (the p) c) (db_relations d)\<rparr>
      else d)"

definition with_conflict ::
  "('v, 'j) apply_env \<Rightarrow> MemoryReconciliationPlan \<Rightarrow> MemoryRelationDecision option \<Rightarrow> str option \<Rightarrow> str list \<Rightarrow> 'j db \<Rightarrow> 'j db" where
  "with_conflict E plan p c ids d =
     (if has_action plan CREATE_CONFLICT_SET
      then d\<lparr>db_conflicts := put_conflict (ae_sql E)
               (open_conflict (ae_now E) plan (the p) (the c) (hd ids)) (db_conflicts d)\<rparr>
      else d)"

lemma kept_with_relation: "plans_results_kept d (with_relation E plan p c d)"
  by (simp add: with_relation_def plans_results_kept_def)

lemma kept_with_conflict: "plans_results_kept d (with_conflict E plan p c ids d)"
  by (simp add: with_conflict_def plans_results_kept_def)

lemma runs_relation_phase:
  assumes S: "sql_round_trip (ae_sql E)" and k: "plans_results_kept d d'"
  shows "runs_to (at_point d' cr up [] [] [] [] True) (relation_phase E plan p c)
     (\<lambda>_ s. \<exists>re. (if has_action plan CREATE_RELATION then p \<noteq> None \<and> (\<exists>x. re = [x]) else re = []) \<and>
        at_point (with_relation E plan p c d') cr up [] re [] [] True s)
     (\<lambda>_. failure_ok d)"
proof (cases "has_action plan CREATE_RELATION")
  case True
  let ?m = "persist_primary_relation (ae_sql E) (ae_uuid5 E) (ae_now E) plan p c"
  have m: "runs_to (\<lambda>x. x = d') ?m (\<lambda>_ d2. p \<noteq> None \<and> d2 = with_relation E plan p c d') (\<lambda>_. plans_results_kept d)"
    using persist_primary_relation_outcome [OF S, where u = "ae_uuid5 E" and now = "ae_now E" and plan = plan
        and p = p and c = c and d = d'] True
      plans_results_kept_trans [OF k] plans_results_kept_intros(1)
    by (fastforce simp: runs_to_at with_relation_def split: prod.splits sum.splits)
  show ?thesis
    unfolding relation_phase_def whenE_def if_P [OF True]
    by (rule runs_to_seq [OF runs_set_failure_code], rule runs_to_bind [OF runs_db_call [OF m]],
        rule runs_to_modify) (auto simp: at_point_def)
qed (simp add: relation_phase_def whenE_def with_relation_def runs_to_def ret_def)

lemma runs_conflict_phase:
  assumes S: "sql_round_trip (ae_sql E)" and k: "plans_results_kept d d'"
  shows "runs_to (at_point d' cr up [] re [] [] True) (conflict_phase E plan p c ids)
     (\<lambda>_ s. (has_action plan CREATE_CONFLICT_SET \<longrightarrow> p \<noteq> None \<and> c \<noteq> None \<and> ids \<noteq> []) \<and>
        at_point (with_conflict E plan p c ids d') cr up [] re
          (if has_action plan CREATE_CONFLICT_SET then [hd ids] else []) [] True s)
     (\<lambda>_. failure_ok d)"
proof (cases "has_action plan CREATE_CONFLICT_SET")
  case True
  show ?thesis
  proof (cases ids)
    case Nil
    then show ?thesis
      using True by (auto simp: conflict_phase_def whenE_def runs_to_def seq_def bind_def raise_def
          set_failure_code_def modify_def at_point_code intro: changed_failure [OF _ k])
  next
    case (Cons i rest)
    let ?m = "persist_conflict (ae_sql E) (ae_now E) plan p c i"
    have m: "runs_to (\<lambda>x. x = d') ?m (\<lambda>y d2. p \<noteq> None \<and> c \<noteq> None \<and> cs_conflict_set_id y = i \<and>
        d2 = with_conflict E plan p c ids d') (\<lambda>_. plans_results_kept d)"
      using persist_conflict_outcome [OF S, where now = "ae_now E" and plan = plan and p = p and c = c
          and i = i and d = d'] True Cons plans_results_kept_trans [OF k] plans_results_kept_intros(1)
      by (fastforce simp: runs_to_at with_conflict_def open_conflict_def split: prod.splits sum.splits)
    show ?thesis
      unfolding conflict_phase_def whenE_def if_P [OF True] Cons list.case
      by (rule runs_to_seq [OF runs_set_failure_code], rule runs_to_bind [OF runs_db_call [OF m]],
          rule runs_to_modify) (auto simp: at_point_def Cons)
  qed
qed (simp add: conflict_phase_def whenE_def with_conflict_def runs_to_def ret_def)

lemma runs_supersede_phase:
  assumes k: "plans_results_kept d d'"
  shows "runs_to (at_point d' cr up [] re co [] True) (supersede_phase E plan p c)
     (\<lambda>_ s. (has_action plan MARK_SUPERSEDED \<longrightarrow> p \<noteq> None \<and> c \<noteq> None) \<and>
        at_point d' cr up (if has_action plan MARK_SUPERSEDED then [rd_existing_context_id (the p)] else [])
          re co [] True s)
     (\<lambda>_. failure_ok d)"
proof (cases "has_action plan MARK_SUPERSEDED \<and> p \<noteq> None \<and> c \<noteq> None")
  case True
  then obtain pd cid where [simp]: "p = Some pd" "c = Some cid" by auto
  from True have a: "has_action plan MARK_SUPERSEDED" by simp
  note fail = changed_failure [OF _ k]
  show ?thesis
    unfolding supersede_phase_def whenE_def if_P [OF a] required_target_def
    apply simp
    apply (rule runs_to_bind [where R = "\<lambda>x s. x = rd_existing_context_id pd \<and> at_point d' cr up [] re co [] True s"])
     apply (rule runs_to_ret, simp)
    subgoal for x
      apply (rule runs_to_seq [where R = "\<lambda>s. x = rd_existing_context_id pd \<and> at_point d' cr up [] re co [] True s"])
       apply (simp add: set_failure_code_def runs_to_def modify_def)
      apply (rule runs_to_seq [where R = "\<lambda>s. x = rd_existing_context_id pd \<and> at_point d' cr up [] re co [] True s"])
       apply (rule runs_to_weaken [OF runs_on_vault [where P = "\<lambda>s. x = rd_existing_context_id pd \<and> at_point d' cr up [] re co [] True s"]])
          apply (auto intro: fail)[4]
      apply (rule runs_to_modify)
      apply (auto simp: at_point_def a)
      done
    done
next
  case False
  then show ?thesis
    using changed_failure [OF _ k]
    by (auto simp: supersede_phase_def whenE_def required_target_def runs_to_def bind_def ret_def raise_def
        split: option.splits)
qed

lemma runs_temporal_phase:
  assumes S: "sql_round_trip (ae_sql E)" and k: "plans_results_kept d d'"
  shows "runs_to (at_point d' cr up su re co [] True) (temporal_phase E plan p c ids)
     (\<lambda>_ s. at_point (with_overlays (ae_sql E) (ae_now E) plan p c ids d') cr up su re co [] True s)
     (\<lambda>_. failure_ok d)"
proof -
  let ?m = "persist_temporal_states (ae_sql E) (ae_now E) plan p c ids"
  have m: "runs_to (\<lambda>x. x = d') ?m (\<lambda>_ d2. d2 = with_overlays (ae_sql E) (ae_now E) plan p c ids d')
      (\<lambda>_. plans_results_kept d)"
    using persist_temporal_states_outcome [OF S, where now = "ae_now E" and plan = plan and p = p and c = c
        and ids = ids and d = d'] plans_results_kept_trans [OF k] plans_results_kept_intros(2)
    by (fastforce simp: runs_to_at split: prod.splits sum.splits)
  show ?thesis
    unfolding temporal_phase_def
    by (rule runs_to_seq [OF runs_set_failure_code], rule runs_to_weaken [OF runs_db_call [OF m]]) auto
qed

lemma runs_review_phase:
  "runs_to (at_point d' cr up su re co [] True) (review_phase plan)
     (\<lambda>_. at_point d' cr up su re co
        (if has_action plan QUEUE_REVIEW then [review_item_id (rp_plan_id plan)] else []) True) E"
  by (auto simp: review_phase_def runs_to_def whenE_def modify_def ret_def at_point_def)

section \<open>The whole body\<close>

definition plan_conflict_ids :: "('v, 'j) apply_env \<Rightarrow> MemoryReconciliationPlan \<Rightarrow> str list" where
  "plan_conflict_ids E plan = conflict_ids (ae_uuid5 E) plan (primary_decision plan)"

text \<open>The tables after a successful body that created the Context \<open>c\<close>.\<close>

definition applied_db :: "('v, 'j) apply_env \<Rightarrow> MemoryReconciliationPlan \<Rightarrow> str option \<Rightarrow> 'j db \<Rightarrow> 'j db" where
  "applied_db E plan c d =
     (let p = primary_decision plan; ids = plan_conflict_ids E plan in
      with_overlays (ae_sql E) (ae_now E) plan p c ids
        (with_conflict E plan p c ids (with_relation E plan p c d)))"

text \<open>Which of the identifiers an applied plan reports.\<close>

definition applied_report ::
  "('v, 'j) apply_env \<Rightarrow> MemoryReconciliationPlan \<Rightarrow> str option \<Rightarrow> str list \<Rightarrow> str list \<Rightarrow> bool" where
  "applied_report E plan c updated relations \<longleftrightarrow>
     (c \<noteq> None \<longleftrightarrow> has_action plan CREATE_CONTEXT) \<and>
     (if has_action plan MERGE_EVIDENCE then \<exists>x. updated = [x] else updated = []) \<and>
     (if has_action plan CREATE_RELATION then primary_decision plan \<noteq> None \<and> (\<exists>x. relations = [x])
      else relations = []) \<and>
     (has_action plan CREATE_CONFLICT_SET \<longrightarrow>
        primary_decision plan \<noteq> None \<and> c \<noteq> None \<and> plan_conflict_ids E plan \<noteq> []) \<and>
     (has_action plan MARK_SUPERSEDED \<longrightarrow> primary_decision plan \<noteq> None \<and> c \<noteq> None)"

definition body_done ::
  "('v, 'j) apply_env \<Rightarrow> MemoryReconciliationPlan \<Rightarrow> 'j db \<Rightarrow> str option \<Rightarrow> str list \<Rightarrow> str list
   \<Rightarrow> ('v, 'j) apply_state \<Rightarrow> bool" where
  "body_done E plan d c updated relations s \<longleftrightarrow>
     applied_report E plan c updated relations \<and>
     at_point (applied_db E plan c d)
       (case c of None \<Rightarrow> [] | Some x \<Rightarrow> [x]) updated
       (if has_action plan MARK_SUPERSEDED
        then [rd_existing_context_id (the (primary_decision plan))] else [])
       relations
       (if has_action plan CREATE_CONFLICT_SET then [hd (plan_conflict_ids E plan)] else [])
       (if has_action plan QUEUE_REVIEW then [review_item_id (rp_plan_id plan)] else []) True s"

lemma runs_apply_body:
  assumes S: "sql_round_trip (ae_sql E)"
    and writes: "has_action plan CREATE_CONTEXT \<or> has_action plan MERGE_EVIDENCE"
  shows "runs_to (at_point d [] [] [] [] [] [] False) (apply_body E plan)
     (\<lambda>_ s. \<exists>c up re. body_done E plan d c up re s) (\<lambda>_. failure_ok d)"
proof -
  let ?p = "primary_decision plan" and ?ids = "plan_conflict_ids E plan"
  have refl: "plans_results_kept d d" by (simp add: plans_results_kept_def)
  have k1: "plans_results_kept d (with_relation E plan ?p c d)" for c by (rule kept_with_relation)
  have k2: "plans_results_kept d (with_conflict E plan ?p c ?ids (with_relation E plan ?p c d))" for c
    by (rule plans_results_kept_trans [OF k1 kept_with_conflict])
  show ?thesis
    unfolding apply_body_def Let_def plan_conflict_ids_def [symmetric]
    apply (rule runs_to_bind [OF runs_create_phase])
    subgoal for c
      apply (rule runs_to_pure)
      apply (rule runs_to_seq [OF runs_merge_phase], simp split: option.split)
      apply (rule runs_to_ex, rule runs_to_pure)
      subgoal for up
        apply (subgoal_tac "(c \<noteq> None \<or> has_action plan MERGE_EVIDENCE) = True")
         prefer 2 subgoal using writes by blast
        apply (simp only:)
        apply (rule runs_to_seq [OF runs_relation_phase [OF S refl]])
        apply (rule runs_to_ex, rule runs_to_pure)
        subgoal for re
          apply (rule runs_to_seq [OF runs_conflict_phase [OF S k1]], rule runs_to_pure)
          apply (rule runs_to_seq [OF runs_supersede_phase [OF k2]], rule runs_to_pure)
          apply (rule runs_to_seq [OF runs_temporal_phase [OF S k2]])
          apply (rule runs_to_weaken [OF runs_review_phase])
            apply assumption
           apply (rule exI [of _ c], rule exI [of _ up], rule exI [of _ re])
           apply (unfold body_done_def applied_report_def applied_db_def Let_def)
           apply (intro conjI; assumption)
          apply assumption
          done
        done
      done
    done
qed

section \<open>What an apply returns\<close>

abbreviation review_time :: "('v, 'j) apply_env \<Rightarrow> str option \<Rightarrow> instant option" where
  "review_time E reviewed_by \<equiv>
     (if reviewed_by \<noteq> None then Some (ae_now E ''reviewed_at'') else None)"

lemma initial_locals_at_point: "at_point (w_db w) [] [] [] [] [] [] False (initial_locals w)"
  by (simp add: initial_locals_def at_point_def world.defs)

lemma w_db_truncate [simp]: "w_db (world.truncate s) = w_db s"
  by (simp add: world.defs)

lemma w_vault_truncate [simp]: "w_vault (world.truncate s) = w_vault s"
  by (simp add: world.defs)

definition stored :: "('v, 'j) apply_env \<Rightarrow> MemoryReconciliationResult \<Rightarrow> 'j db \<Rightarrow> 'j db" where
  "stored E r d = d\<lparr>db_results := put_result (ae_sql E) r (db_results d)\<rparr>"

lemma save_in_world:
  assumes "sql_round_trip (ae_sql E)" and "on_db (save_result (ae_sql E) r0) u = (Inr r, w')"
  shows "r = r0 \<and> w_db w' = stored E r (w_db u) \<and> w_vault w' = w_vault u \<and>
     \<not> db_needs_rollback (w_db w')"
  using save_result_outcome [OF assms(1), where r = r0 and d = "w_db u"] assms(2)
  by (auto simp: on_db_def stored_def split: prod.splits sum.splits)

lemma apply_plan_cases:
  assumes S: "sql_round_trip (ae_sql E)" and pol: "policy_plan plan"
    and run: "apply_plan E plan reviewed_by w = (Inr r, w')"
  obtains (applied) s c up re where "body_done E plan (w_db w) c up re s"
      "r = successful_result E plan reviewed_by (review_time E reviewed_by) s"
      "w_db w' = stored E r (w_db s)" "w_vault w' = w_vault s" "\<not> db_needs_rollback (w_db w')"
  | (failed) s exc where "failure_ok (w_db w) s"
      "r = failed_result E plan reviewed_by (review_time E reviewed_by) exc s"
      "w_db w' = stored E r (w_db s)" "w_vault w' = w_vault s" "\<not> db_needs_rollback (w_db w')"
proof -
  have "has_action plan CREATE_CONTEXT \<or> has_action plan MERGE_EVIDENCE"
    by (cases "rp_primary_decision plan") (simp_all add: has_action_policy [OF pol])
  note body = runs_to_outcome [OF runs_apply_body [OF S this] initial_locals_at_point]
  obtain o1 s where o1: "apply_body E plan (initial_locals w) = (o1, s)" by fastforce
  show thesis
  proof (cases o1)
    case (Inl exc)
    then have "failure_ok (w_db w) s" using body [where w1 = w] o1 by simp
    then show thesis
      using failed save_in_world [OF S] run o1 Inl by (fastforce simp: apply_plan_def Let_def)
  next
    case (Inr u)
    then obtain c up re where "body_done E plan (w_db w) c up re s" using body [where w1 = w] o1 by auto
    then show thesis
      using applied save_in_world [OF S] run o1 Inr by (fastforce simp: apply_plan_def Let_def)
  qed
qed

lemma stored_simps [simp]:
  "db_plans (stored E r d) = db_plans d" "db_relations (stored E r d) = db_relations d"
  "db_conflicts (stored E r d) = db_conflicts d" "db_temporal (stored E r d) = db_temporal d"
  "db_needs_rollback (stored E r d) = db_needs_rollback d"
  by (simp_all add: stored_def)

lemma stored_find:
  "map_option rs_payload (find (\<lambda>x. rs_plan_id x = rr_plan_id r) (db_results (stored E r d))) =
     Some (sql_result_dump (ae_sql E) r)"
  by (simp add: stored_def result_table.find_put_same)

lemma with_overlays_simps [simp]:
  "db_plans (with_overlays S now plan p c ids d) = db_plans d"
  "db_results (with_overlays S now plan p c ids d) = db_results d"
  "db_relations (with_overlays S now plan p c ids d) = db_relations d"
  "db_conflicts (with_overlays S now plan p c ids d) = db_conflicts d"
  by (simp_all add: with_overlays_def with_created_def Let_def split: option.split)

lemma applied_db_simps [simp]:
  "db_plans (applied_db E plan c d) = db_plans d"
  "db_relations (applied_db E plan c d) =
     db_relations (with_relation E plan (primary_decision plan) c d)"
  "db_conflicts (applied_db E plan c d) =
     db_conflicts (with_conflict E plan (primary_decision plan) c (plan_conflict_ids E plan) d)"
  by (simp_all add: applied_db_def with_relation_def with_conflict_def Let_def)

lemma apply_plan_frame:
  assumes "sql_round_trip (ae_sql E)" and "policy_plan plan"
    and "apply_plan E plan reviewed_by w = (Inr r, w')"
  shows "db_plans (w_db w') = db_plans (w_db w)" and "\<not> db_needs_rollback (w_db w')"
    and "map_option rs_payload (find (\<lambda>x. rs_plan_id x = rp_plan_id plan) (db_results (w_db w'))) =
       Some (sql_result_dump (ae_sql E) r)"
proof -
  have id: "rr_plan_id r = rp_plan_id plan"
    using assms by (cases rule: apply_plan_cases) (simp_all add: successful_result_def failed_result_def Let_def)
  show "db_plans (w_db w') = db_plans (w_db w)"
    using assms by (cases rule: apply_plan_cases) (auto simp: body_done_def at_point_def failure_ok_def)
  show "\<not> db_needs_rollback (w_db w')"
    using assms by (cases rule: apply_plan_cases)
  show "map_option rs_payload (find (\<lambda>x. rs_plan_id x = rp_plan_id plan) (db_results (w_db w'))) =
      Some (sql_result_dump (ae_sql E) r)"
    unfolding id [symmetric] using assms by (cases rule: apply_plan_cases) (simp_all only: stored_find)
qed

lemma primary_decision_policy:
  assumes "policy_plan plan" and "rp_primary_decision plan \<noteq> UNRELATED"
  obtains pd where "primary_decision plan = Some pd" "rd_relation pd = rp_primary_decision plan"
    "pd \<in> set (rp_decisions plan)"
proof -
  obtain d where "d \<in> set (rp_decisions plan)" "rd_relation d = rp_primary_decision plan"
    using assms by (auto simp: policy_plan_def)
  then obtain pd where "primary_decision plan = Some pd"
    by (cases "primary_decision plan") (auto simp: primary_decision_def find_None_iff)
  then show thesis
    using that by (metis (mono_tags, lifting) find_Some_iff nth_mem primary_decision_def)
qed

lemma temporal_of_cong: "db_temporal d = db_temporal d' \<Longrightarrow> temporal_of S d c = temporal_of S d' c"
  by (simp add: temporal_of_def)

lemma temporal_of_with_overlays:
  assumes S: "sql_round_trip S" and wf: "temporal_wf S (db_temporal d)"
  shows "temporal_of S (with_overlays S now plan (Some pd) c ids d) x =
     (if x = rd_existing_context_id pd
      then Some (target_state plan pd c ids (base_state S (with_created S now plan (Some pd) c ids d) plan pd))
      else if c = Some x then Some (created_temporal_state plan (Some pd) x ids)
      else temporal_of S d x)"
proof -
  let ?d1 = "with_created S now plan (Some pd) c ids d"
  have "temporal_wf S (db_temporal ?d1)"
    using temporal_wf_put [OF S wf] wf by (auto simp: with_created_def split: option.split)
  from base_state_id [OF this] show ?thesis
    by (auto simp: with_overlays_def Let_def temporal_of_put [OF S])
      (auto simp: with_created_def temporal_of_put [OF S] created_temporal_state_def split: option.split)
qed

text \<open>The overlays of an applied plan, read from the resulting tables.\<close>

lemma applied_overlays:
  assumes "sql_round_trip (ae_sql E)" and "temporal_wf (ae_sql E) (db_temporal (w_db w))"
    and "body_done E plan (w_db w) c up re s" and "primary_decision plan = Some pd"
  defines "d2 \<equiv> with_conflict E plan (Some pd) c (plan_conflict_ids E plan) (with_relation E plan (Some pd) c (w_db w))"
  shows "temporal_of (ae_sql E) (stored E r (w_db s)) x =
     (if x = rd_existing_context_id pd
      then Some (target_state plan pd c (plan_conflict_ids E plan)
        (base_state (ae_sql E) (with_created (ae_sql E) (ae_now E) plan (Some pd) c (plan_conflict_ids E plan) d2) plan pd))
      else if c = Some x then Some (created_temporal_state plan (Some pd) x (plan_conflict_ids E plan))
      else temporal_of (ae_sql E) (w_db w) x)"
proof -
  have t: "db_temporal d2 = db_temporal (w_db w)"
    by (simp add: d2_def with_conflict_def with_relation_def)
  have "temporal_of (ae_sql E) (stored E r (w_db s)) x =
      temporal_of (ae_sql E) (with_overlays (ae_sql E) (ae_now E) plan (Some pd) c (plan_conflict_ids E plan) d2) x"
    using assms(3,4) by (intro temporal_of_cong) (simp add: body_done_def at_point_def applied_db_def d2_def Let_def)
  then show ?thesis
    using temporal_of_with_overlays [OF assms(1), of d2] assms(2) temporal_of_cong [OF t] by (simp add: t)
qed

lemma target_state_supersedes:
  assumes "rd_relation pd = SUPERSEDES"
  shows "target_state plan pd (Some cid) ids base = base\<lparr>
     ts_valid_to := or_else (mc_valid_from (rp_candidate plan))
        (or_else (mc_observed_at (rp_candidate plan)) (Some (mc_recorded_at (rp_candidate plan)))),
     ts_is_current := False, ts_superseded_by := fromkeys (ts_superseded_by base @ [cid]),
     ts_relation_summary := fromkeys (ts_relation_summary base @ [''superseded_by:'' @ cid]) \<rparr>"
  using assms
  by (simp add: target_state_def target_temporal_state_def required_created_context_id_def prog_simps Let_def)

lemma target_state_contradicts:
  assumes "rd_relation pd = CONTRADICTS"
  shows "target_state plan pd (Some cid) ids base = base\<lparr>
     ts_conflict_set_ids := fromkeys (ts_conflict_set_ids base @ ids),
     ts_relation_summary := fromkeys (ts_relation_summary base @ [''contradicts:'' @ cid]) \<rparr>"
  using assms by (simp add: target_state_def target_temporal_state_def prog_simps Let_def)

section \<open>Applying without faults\<close>

text \<open>Tables a fault-free session can work on: no rollback is pending and payloads validate.\<close>

definition healthy :: "'j sql \<Rightarrow> 'j db \<Rightarrow> bool" where
  "healthy S d \<longleftrightarrow> \<not> db_needs_rollback d \<and>
     (\<forall>r\<in>set (db_relations d). \<exists>x. sql_relation_load S (rw_payload r) = Inr x) \<and>
     (\<forall>r\<in>set (db_temporal d). \<exists>x. sql_temporal_load S (tp_payload r) = Inr x)"

text \<open>A gateway whose every call succeeds and whose reads find what was written.\<close>

definition gateway_works :: "'v gateway \<Rightarrow> bool" where
  "gateway_works G \<longleftrightarrow>
     (\<forall>a b c d e f v. isl (fst (gw_create_context G a b c d e f v)) = False) \<and>
     (\<forall>a b v. isl (fst (gw_merge_evidence G a b v)) = False) \<and>
     (\<forall>a b v. isl (fst (gw_supersede G a b v)) = False) \<and>
     (\<forall>a v. fst (gw_verify G a v) = Inr True)"

definition succeeds :: "('s \<Rightarrow> bool) \<Rightarrow> ('s, 'e, 'a) prog \<Rightarrow> bool" where
  "succeeds P m \<longleftrightarrow> runs_to P m (\<lambda>_. P) (\<lambda>_ _. False)"

lemma succeeds_bind: "succeeds P m \<Longrightarrow> (\<And>x. succeeds P (f x)) \<Longrightarrow> succeeds P (bind m f)"
  unfolding succeeds_def by (rule runs_to_bind)

lemma succeeds_seq: "succeeds P m \<Longrightarrow> succeeds P n \<Longrightarrow> succeeds P (seq m n)"
  unfolding succeeds_def by (rule runs_to_seq)

lemma succeeds_ret [simp]: "succeeds P (ret x)"
  unfolding succeeds_def by (rule runs_to_ret)

lemma succeeds_whenE: "(b \<Longrightarrow> succeeds P m) \<Longrightarrow> succeeds P (whenE b m)"
  by (simp add: whenE_def)

lemma succeeds_modify: "(\<And>s. P s \<Longrightarrow> P (f s)) \<Longrightarrow> succeeds P (modify f)"
  unfolding succeeds_def by (rule runs_to_modify)

lemma set_upsert_row: "set (upsert_row P upd new rows) \<subseteq> insert new (set rows \<union> upd ` set rows)"
  by (induction rows) auto

lemma upsert_row_mem:
  "r \<in> set (upsert_row P upd new rows) \<Longrightarrow> r = new \<or> r \<in> set rows \<or> (\<exists>r0. r = upd r0)"
  using set_upsert_row [of P upd new rows] by auto

definition faultless :: "'j sql \<Rightarrow> bool" where
  "faultless S \<longleftrightarrow> sql_round_trip S \<and> sql_fault_free S"

lemmas session_calls = query_def flush_def from_payload_def from_optional_row_def prog_simps

lemma faultless_simps:
  assumes "faultless S"
  shows "sql_query_fault S f d = None" "sql_flush_fault S f d = None"
    "sql_relation_load S (sql_relation_dump S l) = Inr l"
    "sql_conflict_load S (sql_conflict_dump S c) = Inr c"
    "sql_temporal_load S (sql_temporal_dump S t) = Inr t"
    "sql_result_load S (sql_result_dump S r) = Inr r"
  using assms by (simp_all add: faultless_def sql_fault_free_def sql_round_trip_simps)

lemma succeeds_upsert_relation:
  assumes "faultless S" shows "succeeds (healthy S) (upsert_relation S l)"
  unfolding succeeds_def runs_to_def
proof (intro allI impI)
  fix d assume h: "healthy S d"
  show "case upsert_relation S l d of (Inl e, s') \<Rightarrow> False | (Inr x, s') \<Rightarrow> healthy S s'"
  proof (cases "find (same_relation l) (db_relations d)")
    case None
    then show ?thesis using h
      by (simp add: upsert_relation_def session_calls healthy_def faultless_simps [OF assms] relation_row_def)
  next
    case (Some r)
    then obtain x where "sql_relation_load S (rw_payload r) = Inr x"
      using h by (metis find_Some_iff healthy_def nth_mem)
    with Some h show ?thesis
      by (simp add: upsert_relation_def session_calls healthy_def faultless_simps [OF assms])
  qed
qed

lemma succeeds_upsert_conflict:
  assumes "faultless S" shows "succeeds (healthy S) (upsert_conflict S c)"
  by (simp add: succeeds_def runs_to_def upsert_conflict_def session_calls healthy_def faultless_simps [OF assms])

lemma put_temporal_loads:
  "faultless S \<Longrightarrow> r \<in> set (put_temporal S t st rows) \<Longrightarrow>
   r \<in> set rows \<or> sql_temporal_load S (tp_payload r) = Inr st"
  unfolding put_temporal_def by (drule upsert_row_mem) (auto simp: faultless_simps)

lemma succeeds_upsert_temporal_state:
  assumes "faultless S" shows "succeeds (healthy S) (upsert_temporal_state S t st)"
  by (auto simp: succeeds_def runs_to_def upsert_temporal_state_def session_calls healthy_def
      faultless_simps [OF assms] dest!: put_temporal_loads [OF assms])

lemma succeeds_get_temporal_state:
  assumes "faultless S" shows "succeeds (healthy S) (get_temporal_state S c)"
  unfolding succeeds_def runs_to_def
proof (intro allI impI)
  fix d assume h: "healthy S d"
  show "case get_temporal_state S c d of (Inl e, s') \<Rightarrow> False | (Inr x, s') \<Rightarrow> healthy S s'"
  proof (cases "find (\<lambda>r. tp_context_id r = c) (db_temporal d)")
    case (Some r)
    then obtain x where "sql_temporal_load S (tp_payload r) = Inr x"
      using h by (metis find_Some_iff healthy_def nth_mem)
    with Some h show ?thesis
      by (simp add: get_temporal_state_def session_calls healthy_def faultless_simps [OF assms])
  qed (use h in \<open>simp add: get_temporal_state_def session_calls healthy_def faultless_simps [OF assms]\<close>)
qed

lemma succeeds_persist_temporal_states:
  assumes S: "faultless S" and c: "\<And>pd. p = Some pd \<Longrightarrow> rd_relation pd = SUPERSEDES \<Longrightarrow> c \<noteq> None"
  shows "succeeds (healthy S) (persist_temporal_states S now plan p c ids)"
proof -
  have target: "succeeds (healthy S) (target_temporal_state plan pd c ids base)" if "p = Some pd" for pd base
    using c [OF that] by (auto simp: target_temporal_state_def required_created_context_id_def Let_def bind_def
        succeeds_def runs_to_def ret_def split: option.splits)
  show ?thesis
    unfolding persist_temporal_states_def Let_def
    by (intro succeeds_seq)
      (auto split: option.split intro!: succeeds_seq succeeds_bind succeeds_upsert_temporal_state [OF S]
        succeeds_get_temporal_state [OF S] target)
qed

lemma succeeds_on_db:
  "succeeds (healthy S) m \<Longrightarrow> succeeds (\<lambda>s. healthy S (w_db s)) (on_db m)"
  by (fastforce simp: succeeds_def runs_to_def on_db_def split: prod.splits sum.splits)

lemma succeeds_on_vault:
  fixes m :: "('v, 'e, 'a) prog" and S :: "'j sql"
  assumes "\<And>v. isl (fst (m v)) = False"
  shows "succeeds (\<lambda>s :: ('v, 'j, 'z) world_scheme. healthy S (w_db s)) (on_vault m)"
  unfolding succeeds_def runs_to_def
proof (intro allI impI)
  fix s :: "('v, 'j, 'z) world_scheme"
  assume h: "healthy S (w_db s)"
  show "case on_vault m s of (Inl e, s') \<Rightarrow> False | (Inr x, s') \<Rightarrow> healthy S (w_db s')"
    using assms [of "w_vault s"] h by (cases "m (w_vault s)"; cases "fst (m (w_vault s))") (auto simp: on_vault_def)
qed

lemma succeeds_verify:
  fixes m :: "('v, 'e, bool) prog" and S :: "'j sql"
  assumes "\<And>v. fst (m v) = Inr True"
  shows "succeeds (\<lambda>s :: ('v, 'j, 'z) world_scheme. healthy S (w_db s)) (bind (on_vault m) (\<lambda>ok. if ok then ret x else raise e))"
  unfolding succeeds_def runs_to_def
proof (intro allI impI)
  fix s :: "('v, 'j, 'z) world_scheme"
  assume h: "healthy S (w_db s)"
  obtain v where "m (w_vault s) = (Inr True, v)"
    using assms [of "w_vault s"] by (cases "m (w_vault s)") auto
  with h show "case bind (on_vault m) (\<lambda>ok. if ok then ret x else raise e) s of
      (Inl e, s') \<Rightarrow> False | (Inr x, s') \<Rightarrow> healthy S (w_db s')"
    by (simp add: on_vault_def bind_def ret_def)
qed

lemma succeeds_modify_locals:
  "(\<And>s. w_db (f s) = w_db s) \<Longrightarrow> succeeds (\<lambda>s. healthy S (w_db s)) (modify f)"
  by (rule succeeds_modify) simp

lemma succeeds_set_failure_code: "succeeds (\<lambda>s. healthy S (w_db s)) (set_failure_code k)"
  unfolding set_failure_code_def by (rule succeeds_modify_locals) simp

lemma succeeds_create_phase:
  assumes "gateway_works (ae_gateway E)"
  shows "succeeds (\<lambda>s. healthy S (w_db s)) (create_phase E plan p ids)"
  using assms unfolding create_phase_def gateway_works_def
  by (auto intro!: succeeds_seq succeeds_bind succeeds_set_failure_code succeeds_on_vault
      succeeds_modify_locals succeeds_verify)

lemma succeeds_merge_phase:
  assumes "gateway_works (ae_gateway E)" and "has_action plan MERGE_EVIDENCE \<Longrightarrow> p \<noteq> None"
  shows "succeeds (\<lambda>s. healthy S (w_db s)) (merge_phase E plan p)"
  using assms unfolding merge_phase_def gateway_works_def required_target_def
  by (auto intro!: succeeds_whenE succeeds_seq succeeds_bind succeeds_set_failure_code succeeds_on_vault
      succeeds_modify_locals succeeds_verify split: option.split)

lemma succeeds_relation_phase:
  assumes "faultless (ae_sql E)" and "has_action plan CREATE_RELATION \<Longrightarrow> p \<noteq> None"
  shows "succeeds (\<lambda>s. healthy (ae_sql E) (w_db s)) (relation_phase E plan p c)"
  using assms unfolding relation_phase_def persist_primary_relation_def
  by (auto intro!: succeeds_whenE succeeds_seq succeeds_bind succeeds_set_failure_code succeeds_on_db
      succeeds_modify_locals succeeds_upsert_relation split: option.split)

lemma succeeds_conflict_phase:
  assumes "faultless (ae_sql E)" and "has_action plan CREATE_CONFLICT_SET \<Longrightarrow> p \<noteq> None \<and> c \<noteq> None \<and> ids \<noteq> []"
  shows "succeeds (\<lambda>s. healthy (ae_sql E) (w_db s)) (conflict_phase E plan p c ids)"
  using assms unfolding conflict_phase_def persist_conflict_def
  by (auto intro!: succeeds_whenE succeeds_seq succeeds_bind succeeds_set_failure_code succeeds_on_db
      succeeds_modify_locals succeeds_upsert_conflict split: option.split list.split)

lemma succeeds_supersede_phase:
  assumes "gateway_works (ae_gateway E)" and "has_action plan MARK_SUPERSEDED \<Longrightarrow> p \<noteq> None \<and> c \<noteq> None"
  shows "succeeds (\<lambda>s. healthy S (w_db s)) (supersede_phase E plan p c)"
  using assms unfolding supersede_phase_def gateway_works_def required_target_def
  by (auto intro!: succeeds_whenE succeeds_seq succeeds_bind succeeds_set_failure_code succeeds_on_vault
      succeeds_modify_locals split: option.split)

lemma succeeds_review_phase: "succeeds (\<lambda>s. healthy S (w_db s)) (review_phase plan)"
  unfolding review_phase_def by (intro succeeds_whenE succeeds_modify_locals) simp

lemma runs_to_both:
  assumes "runs_to P m Q E" and "runs_to P' m Q' E'"
  shows "runs_to (\<lambda>s. P s \<and> P' s) m (\<lambda>x s. Q x s \<and> Q' x s) (\<lambda>e s. E e s \<and> E' e s)"
  using assms unfolding runs_to_def by (fastforce split: prod.splits sum.splits)

lemma apply_body_succeeds:
  fixes E :: "('v, 'j) apply_env"
  assumes S: "faultless (ae_sql E)" and G: "gateway_works (ae_gateway E)" and pol: "policy_plan plan"
  shows "runs_to (\<lambda>s. at_point d [] [] [] [] [] [] False s \<and> healthy (ae_sql E) (w_db s)) (apply_body E plan)
     (\<lambda>_ s. healthy (ae_sql E) (w_db s)) (\<lambda>_ _. False)"
proof -
  let ?h = "\<lambda>s :: ('v, 'j) apply_state. healthy (ae_sql E) (w_db s)"
  let ?p = "primary_decision plan" and ?ids = "conflict_ids (ae_uuid5 E) plan (primary_decision plan)"
  note acts = has_action_policy [OF pol]
  have p: "?p \<noteq> None \<and> rd_relation (the ?p) = rp_primary_decision plan" if "rp_primary_decision plan \<noteq> UNRELATED"
    using primary_decision_policy [OF pol that] by (metis option.sel option.simps(3))
  have rest: "succeeds ?h (seq (merge_phase E plan ?p) (seq (relation_phase E plan ?p c)
       (seq (conflict_phase E plan ?p c ?ids) (seq (supersede_phase E plan ?p c)
       (seq (temporal_phase E plan ?p c ?ids) (review_phase plan))))))"
    if c: "c \<noteq> None \<longleftrightarrow> has_action plan CREATE_CONTEXT" for c
  proof (intro succeeds_seq succeeds_review_phase)
    have some: "?p \<noteq> None" if "has_action plan a" "a \<in> {MERGE_EVIDENCE, CREATE_RELATION}" for a
      using that p by (cases "rp_primary_decision plan") (auto simp: acts)
    show "succeeds ?h (merge_phase E plan ?p)"
      by (rule succeeds_merge_phase [OF G]) (erule some, simp)
    show "succeeds ?h (relation_phase E plan ?p c)"
      by (rule succeeds_relation_phase [OF S]) (erule some, simp)
    show "succeeds ?h (conflict_phase E plan ?p c ?ids)"
    proof (rule succeeds_conflict_phase [OF S])
      assume "has_action plan CREATE_CONFLICT_SET"
      then have con: "rp_primary_decision plan = CONTRADICTS"
        by (cases "rp_primary_decision plan") (simp_all add: acts)
      then obtain pd where "?p = Some pd" "rd_relation pd = CONTRADICTS" using p by auto
      then show "?p \<noteq> None \<and> c \<noteq> None \<and> ?ids \<noteq> []" using con acts c by (simp add: conflict_ids_def)
    qed
    show "succeeds ?h (supersede_phase E plan ?p c)"
    proof (rule succeeds_supersede_phase [OF G])
      assume "has_action plan MARK_SUPERSEDED"
      then have sup: "rp_primary_decision plan = SUPERSEDES"
        by (cases "rp_primary_decision plan") (simp_all add: acts)
      then show "?p \<noteq> None \<and> c \<noteq> None" using p acts c by simp
    qed
    show "succeeds ?h (temporal_phase E plan ?p c ?ids)"
      unfolding temporal_phase_def
    proof (intro succeeds_seq succeeds_set_failure_code succeeds_on_db succeeds_persist_temporal_states [OF S])
      fix pd assume "?p = Some pd" "rd_relation pd = SUPERSEDES"
      then have "rp_primary_decision plan = SUPERSEDES"
        by (metis (mono_tags, lifting) find_Some_iff primary_decision_def)
      then show "c \<noteq> None" using c acts by simp
    qed
  qed
  show ?thesis
    unfolding apply_body_def Let_def
    apply (rule runs_to_bind [where R = "\<lambda>c s. (c \<noteq> None \<longleftrightarrow> has_action plan CREATE_CONTEXT) \<and> ?h s"])
     apply (rule runs_to_weaken [OF runs_to_both [OF runs_create_phase succeeds_create_phase [OF G, unfolded succeeds_def]]])
       apply blast+
    apply (rule runs_to_pure)
    apply (drule rest)
    apply (simp add: succeeds_def)
    done
qed

lemma apply_plan_succeeds:
  assumes S: "faultless (ae_sql E)" and "gateway_works (ae_gateway E)" and "policy_plan plan"
    and h: "healthy (ae_sql E) (w_db w)"
  shows "\<exists>r w'. apply_plan E plan reviewed_by w = (Inr r, w') \<and> rr_status r = APPLIED \<and>
     healthy (ae_sql E) (w_db w')"
proof -
  have "healthy (ae_sql E) (w_db (initial_locals w))" using h initial_locals_at_point [of w] by (simp add: at_point_def)
  with initial_locals_at_point [of w] have
    "case apply_body E plan (initial_locals w) of (Inl e, s') \<Rightarrow> False | (Inr x, s') \<Rightarrow> healthy (ae_sql E) (w_db s')"
    by (intro runs_to_outcome [OF apply_body_succeeds [OF assms(1-3)]]) simp
  then obtain u s where b: "apply_body E plan (initial_locals w) = (Inr u, s)" and hs: "healthy (ae_sql E) (w_db s)"
    by (auto split: prod.splits sum.splits)
  let ?r = "successful_result E plan reviewed_by (review_time E reviewed_by) s"
  have "save_result (ae_sql E) ?r (w_db s) = (Inr ?r, (w_db s)\<lparr>db_results := put_result (ae_sql E) ?r (db_results (w_db s))\<rparr>)"
    using S hs by (intro save_result_fault_free) (simp_all add: faultless_def healthy_def)
  then show ?thesis using b hs by (simp add: apply_plan_def on_db_def successful_result_def healthy_def)
qed

section \<open>A sample environment\<close>

text \<open>A vault that is the list of the identifiers written to it.\<close>

definition sample_gateway :: "str list gateway" where
  "sample_gateway =
     \<lparr> gw_create_context = (\<lambda>c l sup ids rel target v. (Inr (''obsidian:'' @ mc_candidate_id c), v @ [mc_candidate_id c])),
       gw_merge_evidence = (\<lambda>target refs v. (Inr target, v @ [target])),
       gw_supersede = (\<lambda>old new v. (Inr (), v @ [old, new])),
       gw_verify = (\<lambda>c v. (Inr True, v)) \<rparr>"

definition sample_env :: "(str list, entity) apply_env" where
  "sample_env = \<lparr> ae_sql = sample_sql, ae_gateway = sample_gateway, ae_uuid5 = (\<lambda>x. x), ae_now = (\<lambda>_. 99) \<rparr>"

definition sample_world :: "(str list, entity) world" where
  "sample_world = \<lparr> w_vault = [], w_db = sample_db \<rparr>"

definition sample_related_plan :: "MemoryRelationType \<Rightarrow> MemoryReconciliationPlan" where
  "sample_related_plan rel = build_plan (\<lambda>x. x) ''p9'' 3 (sample_candidate [] [] (Some 40))
     [sample_decision ''obsidian:old'' rel 1] None None"

lemma sample_env_simps [simp]:
  "ae_sql sample_env = sample_sql" "ae_gateway sample_env = sample_gateway"
  by (simp_all add: sample_env_def)

lemma sample_faultless [simp]: "faultless sample_sql"
  by (simp add: faultless_def)

lemma sample_gateway_works [simp]: "gateway_works sample_gateway"
  by (simp add: gateway_works_def sample_gateway_def)

lemma sample_world_healthy [simp]: "healthy sample_sql (w_db sample_world)"
  by (simp add: healthy_def sample_world_def sample_db_def empty_db_def)

lemma sample_world_temporal [simp]: "temporal_wf sample_sql (db_temporal (w_db sample_world))"
  by (simp add: sample_world_def sample_db_def empty_db_def temporal_wf_def row_ok_def)

lemma sample_world_db_wf [simp]: "db_wf sample_sql (w_db sample_world)"
  by (simp add: sample_world_def sample_db_def db_wf_def empty_db_def plans_wf_def results_wf_def relations_wf_def
      conflicts_wf_def temporal_wf_def row_ok_def plan_row_def sql_round_trip_simps)

lemma sample_related_plan_policy [simp]: "policy_plan (sample_related_plan rel)"
  by (simp add: sample_related_plan_def policy_plan_build)

lemma sample_related_plan_simps [simp]:
  "rp_primary_decision (sample_related_plan rel) = rel"
  "primary_decision (sample_related_plan rel) = Some (sample_decision ''obsidian:old'' rel 1)"
  by (simp_all add: sample_related_plan_def primary_decision_def select_primary_decision_def sample_decision_def)

lemma sample_apply:
  obtains r w' where "apply_plan sample_env (sample_related_plan rel) (Some ''ann'') sample_world = (Inr r, w')"
    "rr_status r = APPLIED"
  using apply_plan_succeeds [of sample_env "sample_related_plan rel" sample_world "Some ''ann''"] by auto

end
