(* ===== verification/Apply_Properties.thy ===== *)
theory Apply_Properties
  imports Apply_Phases
begin

text \<open>
  The properties of applying a reconciliation plan: the review gate, what a recorded outcome
  means, what an applied plan leaves in the tables, progress without faults, idempotence, and
  three behaviours of the code worth knowing (the target of an apply, a failed flush, a conflict
  set written again).
\<close>

section \<open>Properties\<close>


text \<open>
  C13: an APPLIED plan did everything its relation calls for: it reports exactly one new Context
  unless evidence was merged, exactly one persisted relation for SUPPORTS, EXTENDS, CONTRADICTS
  and SUPERSEDES, the superseded Context and the opened conflict set exactly for those relations,
  and a review item exactly when the plan required review, together with the reviewer.
\<close>

theorem applied_plans_are_complete:
  assumes "sql_round_trip (ae_sql E)" and "policy_plan plan"
    and "apply_plan E plan reviewed_by w = (Inr r, w')" and "rr_status r = APPLIED"
  shows "length (rr_created_context_ids r) = (if rp_primary_decision plan \<in> {DUPLICATE, SUPPORTS} then 0 else 1) \<and>
     length (rr_updated_context_ids r) = (if rp_primary_decision plan \<in> {DUPLICATE, SUPPORTS} then 1 else 0) \<and>
     length (rr_created_relation_ids r) =
       (if rp_primary_decision plan \<in> {SUPPORTS, EXTENDS, CONTRADICTS, SUPERSEDES} then 1 else 0) \<and>
     length (rr_created_conflict_set_ids r) = (if rp_primary_decision plan = CONTRADICTS then 1 else 0) \<and>
     rr_superseded_context_ids r =
       (if rp_primary_decision plan = SUPERSEDES
        then [rd_existing_context_id (the (primary_decision plan))] else []) \<and>
     rr_review_queue_item_ids r =
       (if rp_requires_review plan then [review_item_id (rp_plan_id plan)] else []) \<and>
     rr_reviewed_by r = reviewed_by"
  using assms(1-3)
proof (cases rule: apply_plan_cases)
  case (failed s exc)
  then show ?thesis using assms(4) by (simp add: failed_result_def Let_def split: if_splits)
next
  case (applied s c up re)
  note acts = has_action_policy [OF assms(2)]
  have rev: "rp_requires_review plan = (rp_primary_decision plan \<in> {CONTRADICTS, SUPERSEDES, UNKNOWN})"
    using assms(2) by (simp add: policy_plan_def)
  show ?thesis
    using applied(1,2) rev
    by (cases "rp_primary_decision plan")
      (auto simp: successful_result_def body_done_def at_point_def applied_report_def acts)
qed

lemma applied_supersession:
  assumes S: "sql_round_trip (ae_sql E)" and "policy_plan plan"
    and "temporal_wf (ae_sql E) (db_temporal (w_db w))"
    and "apply_plan E plan reviewed_by w = (Inr r, w')" and "rr_status r = APPLIED"
    and sup: "rp_primary_decision plan = SUPERSEDES"
  obtains pd cid base where
    "primary_decision plan = Some pd" "rd_relation pd = SUPERSEDES" "rr_created_context_ids r = [cid]"
    "temporal_of (ae_sql E) (w_db w') (rd_existing_context_id pd) =
       Some (target_state plan pd (Some cid) (plan_conflict_ids E plan) base)"
    "\<And>before. cid \<noteq> rd_existing_context_id pd \<Longrightarrow>
       temporal_of (ae_sql E) (w_db w) (rd_existing_context_id pd) = Some before \<Longrightarrow> base = before"
    "cid \<noteq> rd_existing_context_id pd \<Longrightarrow> temporal_of (ae_sql E) (w_db w') cid =
       Some (created_temporal_state plan (Some pd) cid (plan_conflict_ids E plan))"
  using S assms(2,4)
proof (cases rule: apply_plan_cases)
  case (failed s exc)
  then show ?thesis using assms(5) by (simp add: failed_result_def Let_def split: if_splits)
next
  case (applied s c up re)
  obtain pd where pd: "primary_decision plan = Some pd" "rd_relation pd = SUPERSEDES"
    using primary_decision_policy assms(2) sup by (metis MemoryRelationType.distinct(37))
  obtain cid where c: "c = Some cid"
    using applied(1) has_action_policy [OF assms(2)] sup by (auto simp: body_done_def applied_report_def)
  have created: "rr_created_context_ids r = [cid]"
    using applied c by (simp add: body_done_def at_point_def successful_result_def)
  let ?S = "ae_sql E" and ?ids = "plan_conflict_ids E plan"
  let ?d2 = "with_conflict E plan (Some pd) c ?ids (with_relation E plan (Some pd) c (w_db w))"
  let ?base = "base_state ?S (with_created ?S (ae_now E) plan (Some pd) c ?ids ?d2) plan pd"
  have t: "db_temporal ?d2 = db_temporal (w_db w)" by (simp add: with_conflict_def with_relation_def)
  note over = applied_overlays [OF S assms(3) applied(1) pd(1), of r, folded applied(3)]
  have before: "?base = before"
    if "cid \<noteq> rd_existing_context_id pd" "temporal_of ?S (w_db w) (rd_existing_context_id pd) = Some before" for before
    using that temporal_of_cong [OF t, of ?S]
    by (simp add: base_state_def with_created_def c temporal_of_put [OF S] created_temporal_state_def)
  show ?thesis by (rule that [OF pd created _ before]) (use over c in simp_all)
qed

text \<open>
  C3: applying a supersession retires the old memory without erasing it. In the resulting tables
  the overlay of the superseded Context is no longer current, its validity ends where the new
  claim begins, it names its replacement, and everything it said about its beginning is kept; the
  replacement (when it is another Context) is current and points back.
\<close>

theorem supersession_retires_old_memory:
  assumes S: "sql_round_trip (ae_sql E)" and "policy_plan plan"
    and "temporal_wf (ae_sql E) (db_temporal (w_db w))"
    and "apply_plan E plan reviewed_by w = (Inr r, w')" and "rr_status r = APPLIED"
    and sup: "rp_primary_decision plan = SUPERSEDES"
  shows "\<exists>pd cid old. primary_decision plan = Some pd \<and> rr_created_context_ids r = [cid] \<and>
     temporal_of (ae_sql E) (w_db w') (rd_existing_context_id pd) = Some old \<and>
     \<not> ts_is_current old \<and> cid \<in> set (ts_superseded_by old) \<and>
     ts_valid_to old = or_else (mc_valid_from (rp_candidate plan))
       (or_else (mc_observed_at (rp_candidate plan)) (Some (mc_recorded_at (rp_candidate plan)))) \<and>
     (cid \<noteq> rd_existing_context_id pd \<longrightarrow>
        (\<forall>before. temporal_of (ae_sql E) (w_db w) (rd_existing_context_id pd) = Some before \<longrightarrow>
           ts_valid_from old = ts_valid_from before \<and> ts_observed_at old = ts_observed_at before \<and>
           ts_conflict_set_ids old = ts_conflict_set_ids before) \<and>
        (\<exists>new. temporal_of (ae_sql E) (w_db w') cid = Some new \<and> ts_is_current new \<and>
           ts_supersedes new = [rd_existing_context_id pd]))"
  using S assms(2-) by (rule applied_supersession) (auto simp: target_state_supersedes created_temporal_state_def)

text \<open>
  C14: applying a contradiction keeps both memories and makes the conflict visible. The conflict
  table holds an OPEN conflict set naming both Contexts, both overlays carry its identifier, and
  the existing memory stays exactly as current as it was.
\<close>

theorem contradiction_preserves_both_memories:
  assumes S: "sql_round_trip (ae_sql E)" and "policy_plan plan"
    and "temporal_wf (ae_sql E) (db_temporal (w_db w))"
    and "apply_plan E plan reviewed_by w = (Inr r, w')" and "rr_status r = APPLIED"
    and con: "rp_primary_decision plan = CONTRADICTS"
  shows "\<exists>pd cid cset old. primary_decision plan = Some pd \<and> rr_created_context_ids r = [cid] \<and>
     rr_created_conflict_set_ids r = [cs_conflict_set_id cset] \<and>
     map_option cf_payload (find (\<lambda>x. conflict_row_key x = conflict_key cset) (db_conflicts (w_db w'))) =
       Some (sql_conflict_dump (ae_sql E) cset) \<and>
     cs_status cset = OPEN \<and> cs_context_ids cset = [cid, rd_existing_context_id pd] \<and>
     temporal_of (ae_sql E) (w_db w') (rd_existing_context_id pd) = Some old \<and>
     cs_conflict_set_id cset \<in> set (ts_conflict_set_ids old) \<and>
     (cid \<noteq> rd_existing_context_id pd \<longrightarrow>
        (\<forall>before. temporal_of (ae_sql E) (w_db w) (rd_existing_context_id pd) = Some before \<longrightarrow>
           ts_is_current old = ts_is_current before \<and> ts_valid_to old = ts_valid_to before) \<and>
        (\<exists>new. temporal_of (ae_sql E) (w_db w') cid = Some new \<and> ts_is_current new \<and>
           ts_conflict_set_ids new = [cs_conflict_set_id cset]))"
  using S assms(2,4)
proof (cases rule: apply_plan_cases)
  case (failed s exc)
  then show ?thesis using assms(5) by (simp add: failed_result_def Let_def split: if_splits)
next
  case (applied s c up re)
  obtain pd where pd: "primary_decision plan = Some pd" "rd_relation pd = CONTRADICTS"
    using primary_decision_policy assms(2) con by (metis MemoryRelationType.distinct(33))
  note acts = has_action_policy [OF assms(2)]
  obtain cid where c: "c = Some cid"
    using applied(1) acts con by (auto simp: body_done_def applied_report_def)
  let ?S = "ae_sql E" and ?ids = "plan_conflict_ids E plan"
  obtain i where ids: "?ids = [i]" using pd by (simp add: plan_conflict_ids_def conflict_ids_def)
  let ?cs = "open_conflict (ae_now E) plan pd cid i"
  have rep: "rr_created_context_ids r = [cid]" "rr_created_conflict_set_ids r = [cs_conflict_set_id ?cs]"
    using applied c con acts ids
    by (simp_all add: body_done_def at_point_def successful_result_def open_conflict_def)
  have row: "map_option cf_payload (find (\<lambda>x. conflict_row_key x = conflict_key ?cs) (db_conflicts (w_db w'))) =
      Some (sql_conflict_dump ?S ?cs)"
    using applied c con acts ids pd
    by (simp add: body_done_def at_point_def with_conflict_def conflict_table.find_put_same)
  let ?d2 = "with_conflict E plan (Some pd) c ?ids (with_relation E plan (Some pd) c (w_db w))"
  have t: "db_temporal ?d2 = db_temporal (w_db w)" by (simp add: with_conflict_def with_relation_def)
  note over = applied_overlays [OF S assms(3) applied(1) pd(1), of r]
  have before: "base_state ?S (with_created ?S (ae_now E) plan (Some pd) c ?ids ?d2) plan pd = before"
    if "cid \<noteq> rd_existing_context_id pd" "temporal_of ?S (w_db w) (rd_existing_context_id pd) = Some before" for before
    using that temporal_of_cong [OF t, of ?S]
    by (simp add: base_state_def with_created_def c temporal_of_put [OF S] created_temporal_state_def)
  have cs: "cs_status ?cs = OPEN" "cs_context_ids ?cs = [cid, rd_existing_context_id pd]" "cs_conflict_set_id ?cs = i"
    by (simp_all add: open_conflict_def)
  show ?thesis
    using pd rep row cs over applied(3) c before ids
    by (intro exI [of _ pd] exI [of _ cid] exI [of _ ?cs]) (auto simp: target_state_contradicts created_temporal_state_def)
qed




theorem applied_plans_are_complete_witness:
  "\<exists>r w'. apply_plan sample_env (sample_related_plan SUPERSEDES) (Some ''ann'') sample_world = (Inr r, w') \<and>
     rr_superseded_context_ids r = [''obsidian:old''] \<and> rr_reviewed_by r = Some ''ann''"
proof -
  obtain r w' where run: "apply_plan sample_env (sample_related_plan SUPERSEDES) (Some ''ann'') sample_world = (Inr r, w')"
    "rr_status r = APPLIED" by (rule sample_apply)
  show ?thesis using applied_plans_are_complete [OF _ _ run] run by (simp add: sample_decision_def)
qed

theorem supersession_retires_old_memory_witness:
  "\<exists>r w' old. apply_plan sample_env (sample_related_plan SUPERSEDES) (Some ''ann'') sample_world = (Inr r, w') \<and>
     temporal_of sample_sql (w_db w') ''obsidian:old'' = Some old \<and> \<not> ts_is_current old"
proof -
  obtain r w' where run: "apply_plan sample_env (sample_related_plan SUPERSEDES) (Some ''ann'') sample_world = (Inr r, w')"
    "rr_status r = APPLIED" by (rule sample_apply)
  show ?thesis
    using supersession_retires_old_memory [OF _ _ _ run] run(1) by (auto simp: sample_decision_def)
qed

theorem contradiction_preserves_both_memories_witness:
  "\<exists>r w' old. apply_plan sample_env (sample_related_plan CONTRADICTS) (Some ''ann'') sample_world = (Inr r, w') \<and>
     temporal_of sample_sql (w_db w') ''obsidian:old'' = Some old \<and> ts_conflict_set_ids old \<noteq> []"
proof -
  obtain r w' where run: "apply_plan sample_env (sample_related_plan CONTRADICTS) (Some ''ann'') sample_world = (Inr r, w')"
    "rr_status r = APPLIED" by (rule sample_apply)
  show ?thesis
    using contradiction_preserves_both_memories [OF _ _ _ run] run(1) by (force simp: sample_decision_def)
qed

text \<open>
  C12: nothing is written without the review a plan requires. When a stored plan requires review
  and there is no result to reuse, an apply without approval, or with a reviewer that is missing,
  blank or longer than 255 characters, raises a validation error and leaves the vault and the
  tables untouched.
\<close>

theorem review_gate_blocks_unapproved_apply:
  assumes "get_plan (ae_sql E) plan_id (w_db w) = (Inr (Some plan), w_db w)"
    and "get_result_by_plan_id (ae_sql E) plan_id (w_db w) = (Inr existing, w_db w)"
    and "existing = None \<or> retry_failed \<and> rr_status (the existing) \<noteq> APPLIED"
    and "rp_requires_review plan"
    and "\<not> review_approved \<or> reviewer = None \<or> strip (the reviewer) = [] \<or> length (strip (the reviewer)) > 255"
  shows "\<exists>m. apply_reconciliation E plan_id retry_failed review_approved reviewer w =
     (Inl (MemoryContextValidationError m), w)"
  using assms
  by (auto simp: apply_reconciliation_def on_db_def prog_simps validated_reviewer_def Let_def
      split: option.split)

theorem review_gate_blocks_unapproved_apply_witness:
  "\<exists>m. apply_reconciliation sample_env ''p1'' False True (Some '' '') sample_world =
     (Inl (MemoryContextValidationError m), sample_world)"
proof (rule review_gate_blocks_unapproved_apply)
  show "get_plan (ae_sql sample_env) ''p1'' (w_db sample_world) = (Inr (Some (sample_plan ''p1'' 1)), w_db sample_world)"
    by (simp add: get_plan_def session_calls sample_world_def sample_db_def empty_db_def plan_row_def sample_sql_def)
  show "get_result_by_plan_id (ae_sql sample_env) ''p1'' (w_db sample_world) = (Inr None, w_db sample_world)"
    by (simp add: get_result_by_plan_id_def session_calls sample_world_def sample_db_def empty_db_def sample_sql_def)
qed (simp_all add: strip_def is_space_def)

text \<open>
  C16: applying is idempotent. Once a stored plan has been applied, applying it again, by anyone,
  with any approval and even as a retry, returns the recorded result and changes neither the
  vault nor the tables.
\<close>

theorem reapply_is_idempotent:
  assumes S: "sql_round_trip (ae_sql E)" and F: "sql_fault_free (ae_sql E)"
    and wf: "plans_wf (ae_sql E) (db_plans (w_db w))"
    and plan: "get_plan (ae_sql E) plan_id (w_db w) = (Inr (Some plan), w_db w)" and pol: "policy_plan plan"
    and first: "get_result_by_plan_id (ae_sql E) plan_id (w_db w) = (Inr None, w_db w)"
    and run: "apply_reconciliation E plan_id retry_failed review_approved reviewer w = (Inr r, w')"
    and applied: "rr_status r = APPLIED"
  shows "apply_reconciliation (E\<lparr>ae_now := now', ae_gateway := G'\<rparr>) plan_id retry' approved' reviewer' w' = (Inr r, w')"
proof -
  let ?S = "ae_sql E"
  obtain rb where body: "apply_plan E plan rb w = (Inr r, w')"
    using run plan first
    by (auto simp: apply_reconciliation_def on_db_def bind_def validated_reviewer_def raise_def ret_def Let_def
        split: if_splits option.splits)
  have id: "rp_plan_id plan = plan_id"
    using plan wf F
    by (auto simp: get_plan_def session_calls sql_fault_free_def plans_wf_def row_ok_def find_Some_iff
        split: if_splits option.splits sum.splits)
  note frame = apply_plan_frame [OF S pol body]
  have "\<not> db_needs_rollback (w_db w)"
    using plan by (auto simp: get_plan_def query_def bind_def split: if_splits)
  then have "get_plan ?S plan_id (w_db w') = (Inr (Some plan), w_db w')"
    using plan frame(1,2) F
    by (auto simp: get_plan_def session_calls sql_fault_free_def split: if_splits option.splits sum.splits)
  moreover have "get_result_by_plan_id ?S plan_id (w_db w') = (Inr (Some r), w_db w')"
    using frame(2,3) id F by (auto simp: get_result_by_plan_id_fault_free sql_round_trip_simps [OF S])
  ultimately show ?thesis using applied by (simp add: apply_reconciliation_def on_db_def bind_def ret_def)
qed

theorem reapply_is_idempotent_witness:
  "\<exists>r w'. apply_reconciliation sample_env ''p1'' False True (Some ''ann'') sample_world = (Inr r, w') \<and>
     apply_reconciliation (sample_env\<lparr>ae_now := \<lambda>_. 1000, ae_gateway := sample_gateway\<rparr>) ''p1'' True False None w' = (Inr r, w')"
proof -
  have plan: "get_plan (ae_sql sample_env) ''p1'' (w_db sample_world) = (Inr (Some (sample_plan ''p1'' 1)), w_db sample_world)"
    by (simp add: get_plan_def session_calls sample_world_def sample_db_def empty_db_def plan_row_def sample_sql_def)
  have first: "get_result_by_plan_id (ae_sql sample_env) ''p1'' (w_db sample_world) = (Inr None, w_db sample_world)"
    by (simp add: get_result_by_plan_id_def session_calls sample_world_def sample_db_def empty_db_def sample_sql_def)
  have wf: "plans_wf (ae_sql sample_env) (db_plans (w_db sample_world))"
    by (auto simp: sample_world_def sample_db_def plans_wf_def plan_row_def row_ok_def sample_sql_def)
  have pol: "policy_plan (sample_plan ''p1'' 1)" by (simp add: sample_plan_def policy_plan_build)
  obtain r w' where run: "apply_plan sample_env (sample_plan ''p1'' 1) (Some ''ann'') sample_world = (Inr r, w')"
    and ok: "rr_status r = APPLIED"
    using apply_plan_succeeds [of sample_env "sample_plan ''p1'' 1" sample_world "Some ''ann''"] pol by auto
  have "apply_reconciliation sample_env ''p1'' False True (Some ''ann'') sample_world = (Inr r, w')"
    using plan first run
    by (simp add: apply_reconciliation_def on_db_def bind_def validated_reviewer_def ret_def Let_def strip_def is_space_def)
  then show ?thesis
    using reapply_is_idempotent [OF _ _ wf plan pol first _ ok] by fastforce
qed

text \<open>
  an apply acts on the first decision of the plan's primary relation, not on the decision the
  plan was built for. With two decisions of the same relation, the second more confident, every
  action of the built plan names the second Context, while the apply takes the first as its
  target.
\<close>

theorem applied_target_can_differ_from_planned_target:
  assumes "rd_relation a = rd_relation b" and "rd_confidence a < rd_confidence b"
    and "rd_existing_context_id a \<noteq> rd_existing_context_id b"
  shows "primary_decision (build_plan h i now c [a, b] k ev) = Some a \<and>
     (\<forall>act\<in>set (rp_actions (build_plan h i now c [a, b] k ev)).
        ra_target_context_id act = Some (rd_existing_context_id b) \<and>
        ra_target_context_id act \<noteq> Some (rd_existing_context_id a))"
proof -
  have "select_primary_decision [a, b] = Some b"
    using assms(1,2) by (simp add: select_primary_decision_def max_by_def decision_key_def less_prod_def)
  then show ?thesis
    using assms(1,3) actions_target [of _ b] by (auto simp: primary_decision_def)
qed

theorem applied_target_can_differ_from_planned_target_witness:
  "primary_decision (build_plan (\<lambda>x. x) ''p'' 0 (sample_candidate [] [] None)
      [sample_decision ''x'' SUPERSEDES (1 / 2), sample_decision ''y'' SUPERSEDES 1] None None) =
     Some (sample_decision ''x'' SUPERSEDES (1 / 2))"
  using applied_target_can_differ_from_planned_target [of "sample_decision ''x'' SUPERSEDES (1 / 2)"
      "sample_decision ''y'' SUPERSEDES 1"] by (simp add: sample_decision_def)


definition failing_env :: "(str list, entity) apply_env" where
  "failing_env = sample_env\<lparr>ae_sql := sample_sql\<lparr>sql_flush_fault := \<lambda>op d.
     if op = ''upsert_relation'' then Some (OtherError ''IntegrityError'' ''duplicate key'') else None\<rparr>\<rparr>"


text \<open>
  a conflict set that is written again keeps the identifier of its first row. Re-detecting
  the same claim of the same candidate under a new conflict set identifier replaces the payload
  of the existing row, and looking the new identifier up finds nothing.
\<close>

theorem rewritten_conflict_is_not_found_by_its_id:
  assumes "sql_fault_free S" and "\<not> db_needs_rollback d"
    and "conflict_key c' = conflict_key c" and "cs_conflict_set_id c' \<noteq> cs_conflict_set_id c"
    and "\<forall>r\<in>set (db_conflicts d). cf_id r \<noteq> cs_conflict_set_id c' \<and> conflict_row_key r \<noteq> conflict_key c"
    and "d' = d\<lparr>db_conflicts := put_conflict S c' (put_conflict S c (db_conflicts d))\<rparr>"
  shows "fst (get_conflict S (cs_conflict_set_id c') d') = Inr None"
proof -
  have fresh: "\<forall>r\<in>set rows. cf_id r \<noteq> cs_conflict_set_id c' \<and> conflict_row_key r \<noteq> conflict_key c \<Longrightarrow>
      find (\<lambda>r. cf_id r = cs_conflict_set_id c') (put_conflict S c' (put_conflict S c rows)) = None" for rows
    using assms(3,4)
    by (induction rows) (auto simp: put_conflict_def conflict_row_key_def conflict_key_def)
  show ?thesis
    using fresh [OF assms(5)] assms(1,2,6)
    by (simp add: get_conflict_def session_calls sql_fault_free_def)
qed

definition sample_conflict :: "str \<Rightarrow> MemoryConflictSet" where
  "sample_conflict i = open_conflict (\<lambda>_. 7) (sample_related_plan CONTRADICTS)
     (sample_decision ''obsidian:old'' CONTRADICTS 1) ''obsidian:c1'' i"

theorem rewritten_conflict_is_not_found_by_its_id_witness:
  "fst (get_conflict sample_sql ''k2''
     (empty_db\<lparr>db_conflicts := put_conflict sample_sql (sample_conflict ''k2'')
        (put_conflict sample_sql (sample_conflict ''k1'') [])\<rparr>)) = Inr None"
proof -
  have "fst (get_conflict sample_sql (cs_conflict_set_id (sample_conflict ''k2''))
     (empty_db\<lparr>db_conflicts := put_conflict sample_sql (sample_conflict ''k2'')
        (put_conflict sample_sql (sample_conflict ''k1'') [])\<rparr>)) = Inr None"
    by (rule rewritten_conflict_is_not_found_by_its_id [where d = empty_db and c = "sample_conflict ''k1''"])
      (simp_all add: empty_db_def sample_conflict_def open_conflict_def conflict_key_def)
  then show ?thesis by (simp add: sample_conflict_def open_conflict_def)
qed

end
