(* ===== verification/Temporal_Recall.thy ===== *)
theory Temporal_Recall
  imports Reconciliation_Store
begin

text \<open>
  Recall through a temporal lens (\<open>memory_temporal_recall_service.py\<close>): the overlay of a Context
  comes from the reconciliation tables or, failing that, from its frontmatter metadata; the matches
  of a search are filtered by the recall mode, cut at the limit and annotated, and recorded
  conflicts become a warning.

  Parameters: the Context search (\<open>ContextTemporalSearchPort\<close>), the validation of a metadata value
  as an aware timestamp (pydantic), and the rendering of the selected matches as Markdown
  (\<open>context_pack.py\<close>), which does not influence the selection. A caller may pass a timestamp
  without a time zone, so request timestamps are of type \<open>timestamp\<close>.
\<close>

section \<open>Requests and packs\<close>

datatype timestamp = Aware instant | Naive int

record MemoryTemporalRecallRequest =
  tq_query :: str
  tq_mode :: MemoryTemporalRecallMode
  tq_as_of :: "timestamp option"
  tq_strategy :: RagStrategy
  tq_limit :: int
  tq_project :: "str option"
  tq_kind :: "ContextKind option"
  tq_include_scopes :: "ContextScope list"
  tq_workspace_id :: "str option"
  tq_agent_id :: "str option"
  tq_user_id :: "str option"
  tq_session_id :: "str option"
  tq_include_lifecycle_statuses :: "ContextRecallLifecycleStatus list"

record MemoryTemporalRecallMatch =
  tm_match :: ContextSearchMatch
  tm_temporal_state :: "MemoryTemporalState option"
  tm_is_current :: bool
  tm_conflict_set_ids :: "str list"
  tm_superseded_by :: "str list"
  tm_supersedes :: "str list"
  tm_relation_summary :: "str list"

record MemoryTemporalRecallPack =
  tk_query :: str
  tk_mode :: MemoryTemporalRecallMode
  tk_as_of :: "timestamp option"
  tk_strategy :: RagStrategy
  tk_effective_strategy :: RagStrategy
  tk_warnings :: "str list"
  tk_recall_scopes :: "ContextScope list"
  tk_matches :: "MemoryTemporalRecallMatch list"
  tk_context_pack :: str

section \<open>Overlays from frontmatter\<close>

definition metadata_timestamp :: "(json \<Rightarrow> instant option) \<Rightarrow> json_object \<Rightarrow> str \<Rightarrow> instant option" where
  "metadata_timestamp aware metadata key =
     (let value = json_get key metadata in if value = JNull then None else aware value)"

definition metadata_strings :: "json_object \<Rightarrow> str \<Rightarrow> str list" where
  "metadata_strings metadata key =
     (case json_get key metadata of
        JList items \<Rightarrow>
          fromkeys (concat (map (\<lambda>item. case item of JStr s \<Rightarrow> if strip s \<noteq> [] then [strip s] else [] | _ \<Rightarrow> []) items))
      | _ \<Rightarrow> [])"

definition single_metadata_id :: "json_object \<Rightarrow> str \<Rightarrow> str list" where
  "single_metadata_id metadata key =
     (case json_get key metadata of
        JStr value \<Rightarrow>
          (let normalized = strip value in
           if normalized = [] then []
           else if \<not> starts_with normalized ''obsidian:'' then [''obsidian:'' @ normalized]
           else [normalized])
      | _ \<Rightarrow> [])"

definition relation_summary_fields :: "str list" where
  "relation_summary_fields =
     [''duplicates'', ''supports'', ''extends'', ''contradicts'', ''supersedes'', ''related'']"

definition metadata_relation_summary :: "json_object \<Rightarrow> str list" where
  "metadata_relation_summary metadata =
     fromkeys (concat (map (\<lambda>field.
       case json_get field metadata of
         JList items \<Rightarrow>
           concat (map (\<lambda>item.
             case item of
               JObj obj \<Rightarrow>
                 (case json_get ''id'' obj of
                    JStr target \<Rightarrow> if strip target \<noteq> [] then [field @ '':obsidian:'' @ strip target] else []
                  | _ \<Rightarrow> [])
             | _ \<Rightarrow> []) items)
       | _ \<Rightarrow> []) relation_summary_fields))"

definition temporal_state_from_context_metadata ::
  "(json \<Rightarrow> instant option) \<Rightarrow> ContextRecord \<Rightarrow> MemoryTemporalState option" where
  "temporal_state_from_context_metadata aware context =
     (let metadata = cr_context_metadata context;
          recorded_at = metadata_timestamp aware metadata ''recorded_at'';
          observed_at = metadata_timestamp aware metadata ''observed_at'';
          valid_from = metadata_timestamp aware metadata ''valid_from'';
          valid_to = metadata_timestamp aware metadata ''valid_to'';
          conflict_set_ids = metadata_strings metadata ''conflict_set_ids'';
          superseded_by = single_metadata_id metadata ''superseded_by_context_id'';
          supersedes = single_metadata_id metadata ''supersedes_context_id'';
          relation_summary = metadata_relation_summary metadata in
      if recorded_at = None \<and> observed_at = None \<and> valid_from = None \<and> valid_to = None \<and>
         conflict_set_ids = [] \<and> superseded_by = [] \<and> supersedes = [] \<and> relation_summary = []
      then None
      else Some
        \<lparr> ts_context_id = cr_id context,
          ts_recorded_at = (case recorded_at of Some t \<Rightarrow> t | None \<Rightarrow> cr_created_at context),
          ts_observed_at = observed_at, ts_valid_from = valid_from, ts_valid_to = valid_to,
          ts_is_current = (\<not> cr_is_archived context \<and> valid_to = None \<and> superseded_by = []),
          ts_conflict_set_ids = conflict_set_ids, ts_superseded_by = superseded_by,
          ts_supersedes = supersedes, ts_relation_summary = relation_summary \<rparr>)"

section \<open>The view\<close>

definition validate_request :: "str \<Rightarrow> int \<Rightarrow> ('s, py_exn, unit) prog" where
  "validate_request query_text limit =
     (if query_text = [] then raise (MemoryContextValidationError ''temporal recall query is required'')
      else if limit < 1 \<or> limit > 100 then
        raise (MemoryContextValidationError ''temporal recall limit must be between 1 and 100'')
      else ret ())"

definition resolved_as_of :: "MemoryTemporalRecallRequest \<Rightarrow> instant \<Rightarrow> ('s, py_exn, instant) prog" where
  "resolved_as_of request now =
     (if tq_mode request = HISTORICAL_MODE \<and> tq_as_of request = None then
        raise (MemoryContextValidationError
          ''historical temporal recall requires an explicit as_of timestamp'')
      else case or_else (tq_as_of request) (Some (Aware now)) of
        Some (Aware t) \<Rightarrow> ret t
      | _ \<Rightarrow> raise (MemoryContextValidationError
               ''temporal recall as_of timestamp must include timezone information''))"

definition effective_state ::
  "(json \<Rightarrow> instant option) \<Rightarrow> (str \<times> MemoryTemporalState) list \<Rightarrow> ContextRecord \<Rightarrow> MemoryTemporalState option" where
  "effective_state aware persisted context =
     (case map_of persisted (cr_id context) of
        Some st \<Rightarrow> Some st
      | None \<Rightarrow> temporal_state_from_context_metadata aware context)"

definition recall_match ::
  "MemoryTemporalState option \<Rightarrow> instant \<Rightarrow> ContextSearchMatch \<Rightarrow> MemoryTemporalRecallMatch" where
  "recall_match state now m =
     \<lparr> tm_match = m, tm_temporal_state = state,
       tm_is_current = state_is_current state (sm_context m) now,
       tm_conflict_set_ids = (case state of None \<Rightarrow> [] | Some st \<Rightarrow> ts_conflict_set_ids st),
       tm_superseded_by = (case state of None \<Rightarrow> [] | Some st \<Rightarrow> ts_superseded_by st),
       tm_supersedes = (case state of None \<Rightarrow> [] | Some st \<Rightarrow> ts_supersedes st),
       tm_relation_summary = (case state of None \<Rightarrow> [] | Some st \<Rightarrow> ts_relation_summary st) \<rparr>"

text \<open>The loop over the matches of the pack, with its two accumulators and its early exit.\<close>

fun view_loop ::
  "(ContextRecord \<Rightarrow> MemoryTemporalState option) \<Rightarrow> MemoryTemporalRecallMode \<Rightarrow> instant \<Rightarrow> instant \<Rightarrow> int
   \<Rightarrow> ContextSearchMatch list \<Rightarrow> MemoryTemporalRecallMatch list \<Rightarrow> str list
   \<Rightarrow> MemoryTemporalRecallMatch list \<times> str list" where
  "view_loop state_of mode as_of now limit [] matches conflict_ids = (matches, conflict_ids)"
| "view_loop state_of mode as_of now limit (m # rest) matches conflict_ids =
     (let state = state_of (sm_context m) in
      if \<not> include_temporal_match mode state (sm_context m) as_of now
      then view_loop state_of mode as_of now limit rest matches conflict_ids
      else
        (let conflict_ids' = conflict_ids @ (case state of None \<Rightarrow> [] | Some st \<Rightarrow> ts_conflict_set_ids st);
             matches' = matches @ [recall_match state now m] in
         if limit \<le> int (length matches') then (matches', conflict_ids')
         else view_loop state_of mode as_of now limit rest matches' conflict_ids'))"

definition conflict_warning :: "str list \<Rightarrow> str" where
  "conflict_warning ids =
     ''Temporal recall includes unresolved or recorded memory conflicts: '' @ join '', '' ids"

definition apply_view ::
  "'j sql \<Rightarrow> (json \<Rightarrow> instant option) \<Rightarrow> (str \<Rightarrow> ContextSearchMatch list \<Rightarrow> str) \<Rightarrow> instant
   \<Rightarrow> ContextPack \<Rightarrow> MemoryTemporalRecallRequest \<Rightarrow> ('j db, py_exn, MemoryTemporalRecallPack) prog" where
  "apply_view S aware render now pack request =
     (let query = strip (tq_query request) in
      seq (validate_request query (tq_limit request))
      (bind (resolved_as_of request now) (\<lambda>as_of.
       let context_ids = fromkeys (map (\<lambda>m. cr_id (sm_context m)) (cp_matches pack)) in
       bind (if context_ids = [] then ret [] else get_temporal_states S context_ids) (\<lambda>persisted.
       let (matches, conflict_ids) =
             view_loop (effective_state aware persisted) (tq_mode request) as_of now (tq_limit request)
               (cp_matches pack) [] [];
           unique_conflicts = fromkeys conflict_ids in
       ret \<lparr> tk_query = query, tk_mode = tq_mode request,
             tk_as_of = (if tq_mode request = HISTORICAL_MODE then Some (Aware as_of) else tq_as_of request),
             tk_strategy = cp_strategy pack, tk_effective_strategy = cp_effective_strategy pack,
             tk_warnings = cp_warnings pack @
               (if unique_conflicts \<noteq> [] then [conflict_warning unique_conflicts] else []),
             tk_recall_scopes = cp_recall_scopes pack, tk_matches = matches,
             tk_context_pack = render query (map tm_match matches) \<rparr>))))"

text \<open>The arguments of the search call.\<close>

record search_args =
  sa_query :: str
  sa_strategy :: RagStrategy
  sa_limit :: int
  sa_project :: "str option"
  sa_kind :: "ContextKind option"
  sa_include_scopes :: "ContextScope list option"
  sa_workspace_id :: "str option"
  sa_agent_id :: "str option"
  sa_user_id :: "str option"
  sa_session_id :: "str option"
  sa_include_lifecycle_statuses :: "ContextRecallLifecycleStatus list option"

definition search_limit :: "MemoryTemporalRecallRequest \<Rightarrow> int" where
  "search_limit request =
     (if tq_mode request = ALL_MODE then tq_limit request else min (tq_limit request * 3) 100)"

definition recall ::
  "'j sql \<Rightarrow> (json \<Rightarrow> instant option) \<Rightarrow> (str \<Rightarrow> ContextSearchMatch list \<Rightarrow> str)
   \<Rightarrow> (search_args \<Rightarrow> ('j db, py_exn, ContextPack) prog) \<Rightarrow> instant
   \<Rightarrow> MemoryTemporalRecallRequest \<Rightarrow> ('j db, py_exn, MemoryTemporalRecallPack) prog" where
  "recall S aware render search now request =
     (let query = strip (tq_query request) in
      seq (validate_request query (tq_limit request))
      (bind (search
         \<lparr> sa_query = query, sa_strategy = tq_strategy request, sa_limit = search_limit request,
           sa_project = tq_project request, sa_kind = tq_kind request,
           sa_include_scopes = (if tq_include_scopes request = [] then None else Some (tq_include_scopes request)),
           sa_workspace_id = tq_workspace_id request, sa_agent_id = tq_agent_id request,
           sa_user_id = tq_user_id request, sa_session_id = tq_session_id request,
           sa_include_lifecycle_statuses =
             (if tq_include_lifecycle_statuses request = [] then None
              else Some (tq_include_lifecycle_statuses request)) \<rparr>)
       (\<lambda>pack. apply_view S aware render now pack request)))"

section \<open>The loop is a filter cut at the limit\<close>

definition visible_matches ::
  "(ContextRecord \<Rightarrow> MemoryTemporalState option) \<Rightarrow> MemoryTemporalRecallMode \<Rightarrow> instant \<Rightarrow> instant
   \<Rightarrow> ContextSearchMatch list \<Rightarrow> ContextSearchMatch list" where
  "visible_matches state_of mode as_of now ms =
     filter (\<lambda>m. include_temporal_match mode (state_of (sm_context m)) (sm_context m) as_of now) ms"

definition view_of ::
  "(ContextRecord \<Rightarrow> MemoryTemporalState option) \<Rightarrow> instant \<Rightarrow> ContextSearchMatch \<Rightarrow> MemoryTemporalRecallMatch" where
  "view_of state_of now m = recall_match (state_of (sm_context m)) now m"

lemma view_loop_eq:
  assumes "int (length acc) < limit"
  shows "view_loop state_of mode as_of now limit ms acc ids =
    (let shown = map (view_of state_of now)
           (take (nat limit - length acc) (visible_matches state_of mode as_of now ms)) in
     (acc @ shown, ids @ concat (map tm_conflict_set_ids shown)))"
  using assms
proof (induction ms arbitrary: acc ids)
  case (Cons m ms)
  let ?view = "view_of state_of now m"
  have view: "recall_match (state_of (sm_context m)) now m = ?view"
    "(case state_of (sm_context m) of None \<Rightarrow> [] | Some st \<Rightarrow> ts_conflict_set_ids st) = tm_conflict_set_ids ?view"
    by (simp_all add: view_of_def recall_match_def)
  show ?case
  proof (cases "include_temporal_match mode (state_of (sm_context m)) (sm_context m) as_of now")
    case True
    have suc: "nat limit - length acc = Suc (nat limit - Suc (length acc))"
      using Cons.prems by linarith
    show ?thesis
    proof (cases "limit \<le> int (length acc) + 1")
      case True2: True
      then have "nat limit - Suc (length acc) = 0" using Cons.prems by linarith
      then show ?thesis using True True2 by (simp add: view suc visible_matches_def Let_def)
    next
      case False
      then have "int (length (acc @ [?view])) < limit" by simp
      from Cons.IH [OF this] show ?thesis
        using True False by (simp add: view suc visible_matches_def Let_def)
    qed
  next
    case False
    then show ?thesis using Cons.IH [OF Cons.prems] by (simp add: visible_matches_def Let_def)
  qed
qed (simp add: visible_matches_def)

section \<open>What a view shows\<close>

text \<open>The overlay a reader should see for a Context: the tables first, the frontmatter otherwise.\<close>

definition overlay_of ::
  "'j sql \<Rightarrow> (json \<Rightarrow> instant option) \<Rightarrow> 'j db \<Rightarrow> ContextRecord \<Rightarrow> MemoryTemporalState option" where
  "overlay_of S aware d context =
     (case temporal_of S d (cr_id context) of
        Some st \<Rightarrow> Some st
      | None \<Rightarrow> temporal_state_from_context_metadata aware context)"

lemma visible_matches_cong:
  assumes "\<And>m. m \<in> set ms \<Longrightarrow> f (sm_context m) = g (sm_context m)"
  shows "visible_matches f mode as_of now ms = visible_matches g mode as_of now ms"
  using assms by (auto simp: visible_matches_def intro: filter_cong)

lemma visible_matches_subset: "set (visible_matches f mode as_of now ms) \<subseteq> set ms"
  by (auto simp: visible_matches_def)

lemma view_loop_start:
  assumes "1 \<le> limit" and "\<And>m. m \<in> set ms \<Longrightarrow> f (sm_context m) = g (sm_context m)"
  shows "view_loop f mode as_of now limit ms [] [] =
    (let shown = map (view_of g now) (take (nat limit) (visible_matches g mode as_of now ms)) in
     (shown, concat (map tm_conflict_set_ids shown)))"
proof -
  have "f (sm_context m) = g (sm_context m)" if "m \<in> set (take n (visible_matches g mode as_of now ms))" for m n
    using that assms(2) visible_matches_subset in_set_takeD by fastforce
  then have "map (view_of f now) (take n (visible_matches g mode as_of now ms)) =
      map (view_of g now) (take n (visible_matches g mode as_of now ms))" for n
    by (auto simp: view_of_def)
  moreover have "visible_matches f mode as_of now ms = visible_matches g mode as_of now ms"
    by (rule visible_matches_cong) (rule assms(2))
  moreover have "int (length []) < limit" using assms(1) by simp
  note view_loop_eq [OF this, of f mode as_of now ms "[]"]
  ultimately show ?thesis by (simp only: Let_def list.size(3) diff_zero append_Nil)
qed

lemma resolved_as_of_returns:
  "resolved_as_of request now s = (Inr t, s') \<Longrightarrow>
   s' = s \<and> (tq_as_of request = Some (Aware t) \<or>
     tq_as_of request = None \<and> t = now \<and> tq_mode request \<noteq> HISTORICAL_MODE)"
  by (cases "tq_as_of request")
    (auto simp: resolved_as_of_def prog_simps split: if_splits timestamp.splits)

lemma validate_request_returns:
  "validate_request q limit s = (Inr u, s') \<Longrightarrow> s' = s \<and> q \<noteq> [] \<and> 1 \<le> limit \<and> limit \<le> 100"
  by (auto simp: validate_request_def prog_simps split: if_splits)

lemma apply_view_returns:
  assumes "apply_view S aware render now pack request d = (Inr r, d')" and "temporal_wf S (db_temporal d)"
  obtains as_of where
    "d' = d" "1 \<le> tq_limit request" "tq_limit request \<le> 100"
    "tq_as_of request = Some (Aware as_of) \<or>
       tq_as_of request = None \<and> as_of = now \<and> tq_mode request \<noteq> HISTORICAL_MODE"
    "tk_matches r = map (view_of (overlay_of S aware d) now) (take (nat (tq_limit request))
       (visible_matches (overlay_of S aware d) (tq_mode request) as_of now (cp_matches pack)))"
    "tk_warnings r = cp_warnings pack @
       (let ids = fromkeys (concat (map tm_conflict_set_ids (tk_matches r)))
        in if ids \<noteq> [] then [conflict_warning ids] else [])"
proof -
  let ?ids = "fromkeys (map (\<lambda>m. cr_id (sm_context m)) (cp_matches pack))"
  let ?loop = "\<lambda>persisted as_of. view_loop (effective_state aware persisted) (tq_mode request) as_of now
      (tq_limit request) (cp_matches pack) [] []"
  obtain as_of persisted where
    lim: "1 \<le> tq_limit request" "tq_limit request \<le> 100"
    and as_of: "tq_as_of request = Some (Aware as_of) \<or>
       tq_as_of request = None \<and> as_of = now \<and> tq_mode request \<noteq> HISTORICAL_MODE"
    and p: "(if ?ids = [] then ret [] else get_temporal_states S ?ids) d = (Inr persisted, d')"
    and r: "tk_matches r = fst (?loop persisted as_of)"
      "tk_warnings r = cp_warnings pack @ (let ids = fromkeys (snd (?loop persisted as_of))
         in if ids \<noteq> [] then [conflict_warning ids] else [])"
    using assms(1)
    unfolding apply_view_def Let_def case_prod_beta returns_simps
    by (elim exE conjE) (auto dest!: validate_request_returns resolved_as_of_returns)
  have tables: "d' = d" "\<forall>c\<in>set ?ids. map_of persisted c = temporal_of S d c"
    using p get_temporal_states_returns [OF _ assms(2)] by (auto simp: ret_def split: if_splits)
  then have eq: "effective_state aware persisted (sm_context m) = overlay_of S aware d (sm_context m)"
    if "m \<in> set (cp_matches pack)" for m using that by (simp add: effective_state_def overlay_of_def)
  note loop = view_loop_start [of "tq_limit request" "cp_matches pack" "effective_state aware persisted"
      "overlay_of S aware d", OF lim(1) eq]
  show ?thesis
    by (rule that [OF tables(1) lim as_of])
      (simp_all add: r loop Let_def)
qed

lemma from_rows_total: "\<forall>r\<in>set rows. \<exists>x. load (p r) = Inr x \<Longrightarrow> \<exists>xs. from_rows p load rows s = (Inr xs, s)"
  by (induction rows) (auto simp: from_payload_def prog_simps)

text \<open>A valid request is always answered on a session without faults.\<close>

lemma apply_view_total:
  assumes "sql_fault_free S" and "\<not> db_needs_rollback d"
    and "\<forall>r\<in>set (db_temporal d). \<exists>x. sql_temporal_load S (tp_payload r) = Inr x"
    and "strip (tq_query request) \<noteq> []" and "1 \<le> tq_limit request" and "tq_limit request \<le> 100"
    and "tq_as_of request = Some (Aware t) \<or> tq_as_of request = None \<and> tq_mode request \<noteq> HISTORICAL_MODE"
  shows "\<exists>view. apply_view S aware render now pack request d = (Inr view, d)"
proof -
  let ?ids = "fromkeys (map (\<lambda>m. cr_id (sm_context m)) (cp_matches pack))"
  have get: "\<exists>xs. get_temporal_states S ids d = (Inr xs, d)" for ids
  proof -
    let ?rows = "filter (\<lambda>r. tp_context_id r \<in> set ids) (db_temporal d)"
    have "\<forall>r\<in>set ?rows. \<exists>x. sql_temporal_load S (tp_payload r) = Inr x" using assms(3) by simp
    then obtain xs where "from_rows tp_payload (sql_temporal_load S) ?rows d = (Inr xs, d)"
      using from_rows_total [where load = "sql_temporal_load S" and p = tp_payload and s = d] by blast
    then show ?thesis
      using assms(1,2) by (simp add: get_temporal_states_def query_def sql_fault_free_def bind_def ret_def)
  qed
  have v: "validate_request (strip (tq_query request)) (tq_limit request) d = (Inr (), d)"
    using assms(4-6) by (simp add: validate_request_def ret_def)
  obtain a where a: "resolved_as_of request now d = (Inr a, d)"
    using assms(7) by (auto simp: resolved_as_of_def ret_def)
  obtain xs where "get_temporal_states S ?ids d = (Inr xs, d)" using get by blast
  then show ?thesis
    by (cases "cp_matches pack = []")
      (simp_all add: apply_view_def Let_def seq_def bind_def v a ret_def case_prod_beta)
qed

section \<open>Properties\<close>

text \<open>
  C11: a temporal view shows exactly what the overlays allow. When the view returns, it leaves the
  tables as they are and its matches are the first visible matches up to the limit of the search, in
  ranking order, each annotated with the overlay of the tables or else of its frontmatter; a
  warning is added exactly when a shown match carries a recorded conflict, and it names each of
  these conflict sets once. Without a requested instant the view is taken now.
\<close>

theorem temporal_view_is_exact:
  assumes "apply_view S aware render now pack request d = (Inr r, d')" and "temporal_wf S (db_temporal d)"
  shows "d' = d \<and>
    (\<exists>as_of. (tq_as_of request = Some (Aware as_of) \<or>
              tq_as_of request = None \<and> as_of = now \<and> tq_mode request \<noteq> HISTORICAL_MODE) \<and>
      tk_matches r = map (view_of (overlay_of S aware d) now) (take (nat (tq_limit request))
        (filter (\<lambda>m. include_temporal_match (tq_mode request) (overlay_of S aware d (sm_context m)) (sm_context m) as_of now)
          (cp_matches pack)))) \<and>
    tk_warnings r = cp_warnings pack @
      (if \<forall>t\<in>set (tk_matches r). tm_conflict_set_ids t = [] then []
       else [conflict_warning (fromkeys (concat (map tm_conflict_set_ids (tk_matches r))))])"
  using assms
proof (rule apply_view_returns)
  fix as_of
  assume a: "d' = d" "tq_as_of request = Some (Aware as_of) \<or>
       tq_as_of request = None \<and> as_of = now \<and> tq_mode request \<noteq> HISTORICAL_MODE"
    "tk_matches r = map (view_of (overlay_of S aware d) now) (take (nat (tq_limit request))
       (visible_matches (overlay_of S aware d) (tq_mode request) as_of now (cp_matches pack)))"
    "tk_warnings r = cp_warnings pack @
       (let ids = fromkeys (concat (map tm_conflict_set_ids (tk_matches r)))
        in if ids \<noteq> [] then [conflict_warning ids] else [])"
  have "fromkeys (concat (map tm_conflict_set_ids (tk_matches r))) = [] \<longleftrightarrow>
      (\<forall>t\<in>set (tk_matches r). tm_conflict_set_ids t = [])"
    by (simp add: fromkeys_eq_Nil_iff)
  with a show ?thesis by (auto simp: visible_matches_def Let_def)
qed

text \<open>
  a view that cannot be answered is refused before anything is read. A blank query or a
  limit outside 1 to 100 raises a validation error in the recall and in the view, the tables are
  untouched and no search is made.
\<close>

theorem invalid_recall_is_refused:
  assumes "strip (tq_query request) = [] \<or> tq_limit request < 1 \<or> 100 < tq_limit request"
  shows "\<exists>m. recall S aware render search now request d = (Inl (MemoryContextValidationError m), d) \<and>
    apply_view S aware render now pack request d = (Inl (MemoryContextValidationError m), d)"
  using assms by (auto simp: recall_def apply_view_def validate_request_def Let_def prog_simps)

definition sample_context :: "str \<Rightarrow> json_object \<Rightarrow> ContextRecord" where
  "sample_context i metadata =
     \<lparr> cr_id = i, cr_kind = KIND_MEMORY, cr_title = ''t'', cr_summary = [], cr_content = ''c'',
       cr_content_format = MARKDOWN, cr_project = None, cr_scope = GLOBAL, cr_workspace_id = None,
       cr_agent_id = None, cr_user_id = None, cr_session_id = None, cr_visibility = GLOBAL,
       cr_source_agent = ''a'', cr_source_type = SOURCE_AGENT, cr_importance = IMPORTANCE_LOW,
       cr_tags = [], cr_status = SAVED, cr_quality_score = 0, cr_warnings = [],
       cr_restore_prompt = None, cr_context_metadata = metadata, cr_created_at = 1, cr_updated_at = 1,
       cr_last_accessed_at = None, cr_expires_at = None, cr_archived_at = None, cr_access_count = 0,
       cr_is_archived = False, cr_memory_function = None \<rparr>"

definition sample_match :: "ContextRecord \<Rightarrow> ContextSearchMatch" where
  "sample_match c =
     \<lparr> sm_context = c, sm_chunk = \<lparr> ck_id = [], ck_context_id = cr_id c, ck_chunk_index = 0,
         ck_heading = None, ck_content = cr_content c, ck_token_count = 1, ck_content_hash = [],
         ck_chunk_metadata = [], ck_created_at = 1 \<rparr>,
       sm_score = 1, sm_fts_score = None, sm_vector_score = None, sm_why_retrieved = [],
       sm_graph_score = None, sm_graph_evidence = [] \<rparr>"

definition sample_pack :: "ContextSearchMatch list \<Rightarrow> ContextPack" where
  "sample_pack ms = \<lparr> cp_query = ''q'', cp_strategy = RAG_HYBRID, cp_effective_strategy = RAG_HYBRID,
     cp_warnings = [], cp_recall_scopes = [GLOBAL], cp_matches = ms, cp_context_pack = [] \<rparr>"

definition sample_recall_request :: "str \<Rightarrow> MemoryTemporalRecallRequest" where
  "sample_recall_request q = \<lparr> tq_query = q, tq_mode = CURRENT_MODE, tq_as_of = None, tq_strategy = RAG_HYBRID,
     tq_limit = 5, tq_project = None, tq_kind = None, tq_include_scopes = [], tq_workspace_id = None,
     tq_agent_id = None, tq_user_id = None, tq_session_id = None, tq_include_lifecycle_statuses = [] \<rparr>"

lemmas sample_recall_defs = sample_context_def sample_match_def sample_pack_def sample_recall_request_def

lemma strip_sample [simp]: "strip ''q'' = ''q''"
  by (simp add: strip_def is_space_def)

theorem temporal_view_is_exact_witness:
  "\<exists>r. apply_view sample_sql (\<lambda>_. None) (\<lambda>_ _. []) 10 (sample_pack [sample_match (sample_context ''c'' [])])
      (sample_recall_request ''q'') empty_db = (Inr r, empty_db) \<and>
     map (\<lambda>t. cr_id (sm_context (tm_match t))) (tk_matches r) = [''c'']"
proof -
  let ?c = "sample_context ''c'' []"
  let ?req = "sample_recall_request ''q''"
  have over: "overlay_of sample_sql (\<lambda>_. None) empty_db ?c = None"
    by (simp add: overlay_of_def temporal_of_def empty_db_def temporal_state_from_context_metadata_def
        metadata_timestamp_def metadata_strings_def single_metadata_id_def metadata_relation_summary_def
        relation_summary_fields_def sample_context_def json_get_def)
  obtain r d' where r: "apply_view sample_sql (\<lambda>_. None) (\<lambda>_ _. []) 10 (sample_pack [sample_match ?c]) ?req empty_db = (Inr r, d')"
    by (simp add: apply_view_def validate_request_def resolved_as_of_def get_temporal_states_def query_def
        sample_sql_def empty_db_def sample_recall_defs prog_simps case_prod_beta)
  have wf: "temporal_wf sample_sql (db_temporal empty_db)" using empty_db_wf [of sample_sql] by (simp add: db_wf_def)
  from temporal_view_is_exact [OF r wf] r over show ?thesis
    by (auto simp: include_temporal_match_def state_is_current_def view_of_def recall_match_def sample_recall_defs)
qed

theorem invalid_recall_is_refused_witness:
  "\<exists>m. recall sample_sql (\<lambda>_. None) (\<lambda>_ _. []) (\<lambda>_. ret (sample_pack [])) 10 (sample_recall_request []) empty_db =
     (Inl (MemoryContextValidationError m), empty_db)"
  using invalid_recall_is_refused [of "sample_recall_request []" sample_sql "\<lambda>_. None" "\<lambda>_ _. []"
      "\<lambda>_. ret (sample_pack [])" 10 empty_db "sample_pack []"]
  by (auto simp: sample_recall_request_def)

text \<open>
  a memory whose frontmatter says until when it is valid is never current. As long as the
  tables hold no overlay for it, any end of validity in the frontmatter, also one in the future,
  hides the memory from current recall, although the same view counts it as valid now; with the
  same validity in the tables it is shown.
\<close>

theorem frontmatter_end_hides_valid_memory:
  assumes "map_of persisted (cr_id c) = None" and "\<not> cr_is_archived c"
    and "metadata_timestamp aware (cr_context_metadata c) ''valid_to'' = Some t" and "now \<le> t"
    and "metadata_timestamp aware (cr_context_metadata c) ''valid_from'' = None"
  shows "\<exists>st. effective_state aware persisted c = Some st \<and> state_is_valid_at (Some st) c now \<and>
     \<not> include_temporal_match CURRENT_MODE (effective_state aware persisted c) c as_of now \<and>
     include_temporal_match CURRENT_MODE
       (effective_state aware ((cr_id c, st\<lparr>ts_is_current := True\<rparr>) # persisted) c) c as_of now"
  using assms
  by (simp add: effective_state_def temporal_state_from_context_metadata_def Let_def
      include_temporal_match_def state_is_current_def state_is_valid_at_def)

theorem frontmatter_end_hides_valid_memory_witness:
  "\<not> include_temporal_match CURRENT_MODE
     (effective_state (\<lambda>j. case j of JTime t \<Rightarrow> Some t | _ \<Rightarrow> None) []
       (sample_context ''c'' [(''valid_to'', JTime 50)]))
     (sample_context ''c'' [(''valid_to'', JTime 50)]) 10 10"
  using frontmatter_end_hides_valid_memory [of "[]" "sample_context ''c'' [(''valid_to'', JTime 50)]"
      "\<lambda>j. case j of JTime t \<Rightarrow> Some t | _ \<Rightarrow> None" 50 10 10]
  by (auto simp: metadata_timestamp_def json_get_def sample_context_def)

end
