(* ===== verification/Memory_Lifecycle.thy ===== *)
theory Memory_Lifecycle
  imports Apply_Properties Temporal_Recall
begin

text \<open>
  Applying plans and recalling memories together: every apply keeps the reconciliation tables well
  formed, whatever the gateway and the session do, so the temporal views read from them are exact;
  after a supersession the old memory disappears from current recall and stays in history.
\<close>

section \<open>Applies keep the tables well formed\<close>

definition world_wf :: "'j sql \<Rightarrow> ('v, 'j, 'z) world_scheme \<Rightarrow> bool" where
  "world_wf S w \<longleftrightarrow> db_wf S (w_db w)"

lemma keeps_on_db [keeps_rules]: "keeps (db_wf S) m \<Longrightarrow> keeps (world_wf S) (on_db m)"
  by (auto simp: keeps_def world_wf_def on_db_def split: prod.split)

lemma keeps_on_vault [keeps_rules]: "keeps (world_wf S) (on_vault m)"
  by (auto simp: keeps_def world_wf_def on_vault_def split: prod.split)

lemma keeps_reads [keeps_rules]:
  "keeps (db_wf S) (get_plan S i)" "keeps (db_wf S) (get_result_by_plan_id S i)"
  "keeps (db_wf S) (get_temporal_state S c)"
  by (simp_all add: keeps_def reads_keep_db)

lemma keeps_target_temporal_state [keeps_rules]: "keeps I (target_temporal_state plan d c ids base)"
  by (simp add: keeps_def target_temporal_state_state)

lemma keeps_persist [keeps_rules]:
  assumes "sql_round_trip S"
  shows "keeps (db_wf S) (persist_primary_relation S u now plan primary c)"
    and "keeps (db_wf S) (persist_conflict S now plan primary c i)"
    and "keeps (db_wf S) (persist_temporal_states S now plan primary c ids)"
  unfolding persist_primary_relation_def persist_conflict_def persist_temporal_states_def Let_def
  by (auto intro!: keeps_rules assms split: option.split)

lemma keeps_locals [keeps_rules]:
  "(\<And>s. w_db (f s) = w_db s) \<Longrightarrow> keeps (world_wf S) (modify f)"
  by (rule keeps_modify) (simp add: world_wf_def)

lemma keeps_required [keeps_rules]: "keeps I (required_target primary)"
  by (auto simp: required_target_def intro!: keeps_rules split: option.split)

lemma keeps_apply_body:
  assumes "sql_round_trip (ae_sql E)"
  shows "keeps (world_wf (ae_sql E)) (apply_body E plan)"
  unfolding apply_body_def create_phase_def merge_phase_def relation_phase_def conflict_phase_def
    supersede_phase_def temporal_phase_def review_phase_def Let_def set_failure_code_def
  by (auto intro!: keeps_rules assms split: option.split list.split)

lemma keeps_validated_reviewer [keeps_rules]: "keeps I (validated_reviewer plan approved reviewer)"
  by (auto simp: validated_reviewer_def Let_def intro!: keeps_rules)

lemma keeps_apply_plan [keeps_rules]:
  fixes E :: "('v, 'j) apply_env"
  assumes "sql_round_trip (ae_sql E)"
  shows "keeps (world_wf (ae_sql E)) (apply_plan E plan reviewed_by)"
  unfolding keeps_def
proof (intro allI impI)
  fix w :: "('v, 'j) world" assume "world_wf (ae_sql E) w"
  then have "world_wf (ae_sql E) (initial_locals w)" by (simp add: world_wf_def initial_locals_def world.defs)
  then have body: "world_wf (ae_sql E) (world.truncate s)" if "apply_body E plan (initial_locals w) = (x, s)" for x s
    using keepsD [OF keeps_apply_body [OF assms] _ that] by (simp add: world_wf_def)
  have "keeps (world_wf (ae_sql E)) (on_db (save_result (ae_sql E) r))" for r
    by (intro keeps_rules assms)
  then show "world_wf (ae_sql E) (snd (apply_plan E plan reviewed_by w))"
    using body by (auto simp: apply_plan_def Let_def keeps_def split: prod.split sum.split)
qed

text \<open>
  C10: no apply corrupts the tables. Whatever the gateway and the session do, whether the apply
  returns, records a failure or raises, the five reconciliation tables stay well formed: one plan
  per idempotency key, one result per plan, one relation per pair and kind, one conflict set per
  claim, one overlay per Context, and columns that agree with their payloads.
\<close>

theorem applies_keep_tables_well_formed:
  assumes "sql_round_trip (ae_sql E)" and "db_wf (ae_sql E) (w_db w)"
    and "apply_reconciliation E plan_id retry_failed review_approved reviewer w = (result, w')"
  shows "db_wf (ae_sql E) (w_db w')"
proof -
  have "keeps (world_wf (ae_sql E)) (apply_reconciliation E plan_id retry_failed review_approved reviewer)"
    unfolding apply_reconciliation_def
    by (auto intro!: keeps_rules assms(1) split: option.split)
  from keepsD [OF this _ assms(3)] assms(2) show ?thesis by (simp add: world_wf_def)
qed

theorem applies_keep_tables_well_formed_witness:
  "db_wf sample_sql (w_db (snd (apply_reconciliation sample_env ''p'' False True (Some ''ann'') sample_world)))"
proof -
  have "db_wf sample_sql (w_db sample_world)" by (simp add: sample_world_db_wf)
  then show ?thesis
    using applies_keep_tables_well_formed [of sample_env sample_world "''p''" False True "Some ''ann''"]
    by (metis prod.collapse sample_env_simps(1) sample_sql_round_trip)
qed

section \<open>Recall after a supersession\<close>



text \<open>The identifiers an apply reports as created come from the gateway.\<close>

definition not_created :: "str \<Rightarrow> ('v, 'j) apply_state \<Rightarrow> bool" where
  "not_created x s \<longleftrightarrow> x \<notin> set (al_created_context_ids s)"

definition creates_other_than :: "'v gateway \<Rightarrow> MemoryCandidate \<Rightarrow> str \<Rightarrow> bool" where
  "creates_other_than G candidate x \<longleftrightarrow>
     (\<forall>l sup ids rel target v. fst (gw_create_context G candidate l sup ids rel target v) \<noteq> Inr x)"

lemma keeps_not_created [keeps_rules]:
  "keeps (not_created x) (on_db m)" "keeps (not_created x) (on_vault n)"
  "(\<And>s. al_created_context_ids (f s) = al_created_context_ids s) \<Longrightarrow> keeps (not_created x) (modify f)"
  by (auto simp: keeps_def not_created_def on_db_def on_vault_def modify_def split: prod.split)

lemma keeps_create_phase:
  fixes E :: "('v, 'j) apply_env"
  assumes "creates_other_than (ae_gateway E) (rp_candidate plan) x"
  shows "keeps (not_created x) (create_phase E plan primary ids)"
proof -
  have gateway: "y \<noteq> x" if "on_vault (gw_create_context (ae_gateway E) (rp_candidate plan) l sup i rel target) s = (Inr y, s')"
    for l sup i rel target y s s'
    using assms that
    by (cases "gw_create_context (ae_gateway E) (rp_candidate plan) l sup i rel target (w_vault s)")
      (metis (no_types, lifting) Pair_inject case_prod_conv creates_other_than_def fst_conv on_vault_def)
  have add: "keeps (not_created x) (modify (\<lambda>s. s\<lparr>al_created_context_ids := al_created_context_ids s @ [y],
      al_canonical_changed := True, al_failure_code := code\<rparr>))" if "y \<noteq> x" for y code
    using that by (auto simp: keeps_def modify_def not_created_def)
  have step: "keeps (not_created x) (bind (on_vault (gw_create_context (ae_gateway E) (rp_candidate plan) l sup i rel target))
      (\<lambda>y. seq (modify (\<lambda>s. s\<lparr>al_created_context_ids := al_created_context_ids s @ [y],
        al_canonical_changed := True, al_failure_code := code\<rparr>)) (g y)))"
    if "\<And>y. keeps (not_created x) (g y)" for l sup i rel target code g
    by (rule keeps_bind_where [where Q = "\<lambda>y. y \<noteq> x"]) (auto intro: keeps_rules add that dest: gateway)
  show ?thesis
    unfolding create_phase_def set_failure_code_def
    by (rule keeps_if, rule keeps_seq [OF _ step]) (auto intro!: keeps_rules)
qed

lemma keeps_not_created_body:
  assumes "creates_other_than (ae_gateway E) (rp_candidate plan) x"
  shows "keeps (not_created x) (apply_body E plan)"
  unfolding apply_body_def merge_phase_def relation_phase_def conflict_phase_def
    supersede_phase_def temporal_phase_def review_phase_def Let_def set_failure_code_def
  by (auto intro!: keeps_rules keeps_create_phase assms split: option.split list.split)

lemma created_by_gateway:
  assumes "sql_round_trip (ae_sql E)" and "apply_plan E plan reviewed_by w = (Inr r, w')"
    and "creates_other_than (ae_gateway E) (rp_candidate plan) x"
  shows "x \<notin> set (rr_created_context_ids r)"
proof -
  obtain o1 s where body: "apply_body E plan (initial_locals w) = (o1, s)" by fastforce
  have "not_created x (initial_locals w)" by (simp add: not_created_def initial_locals_def world.defs)
  then have "not_created x s" using keepsD [OF keeps_not_created_body [OF assms(3)] _ body] by simp
  moreover have saved: "y = r0" if "save_result (ae_sql E) r0 d = (Inr y, d')" for r0 y d d'
    using save_result_outcome [OF assms(1), where r = r0 and d = d] that by simp
  have "rr_created_context_ids r = al_created_context_ids s"
    using assms(2) body
    by (auto simp: apply_plan_def Let_def on_db_def successful_result_def failed_result_def
        dest!: saved split: sum.splits prod.splits)
  ultimately show ?thesis by (simp add: not_created_def)
qed

text \<open>
  superseding a memory that had already ended rewrites its past. When the overlay of the old
  memory ended before the new claim begins, the apply moves its end to the beginning of the new
  claim, so a historical view at an instant in between, which did not show the old memory before,
  shows it afterwards.
\<close>

theorem supersession_revives_ended_memory:
  assumes "sql_round_trip (ae_sql E)" and "policy_plan plan" and "db_wf (ae_sql E) (w_db w)"
    and "apply_plan E plan reviewed_by w = (Inr r, w')" and "rr_status r = APPLIED"
    and "rp_primary_decision plan = SUPERSEDES" and "primary_decision plan = Some pd"
    and "creates_other_than (ae_gateway E) (rp_candidate plan) (rd_existing_context_id pd)"
    and "temporal_of (ae_sql E) (w_db w) (rd_existing_context_id pd) = Some before"
    and "ts_valid_from before = None" and "ts_valid_to before = Some u" and "u < t"
    and "mc_valid_from (rp_candidate plan) = Some v" and "t \<le> v"
  shows "\<not> include_temporal_match HISTORICAL_MODE (temporal_of (ae_sql E) (w_db w) (rd_existing_context_id pd)) c t now \<and>
     include_temporal_match HISTORICAL_MODE (temporal_of (ae_sql E) (w_db w') (rd_existing_context_id pd)) c t now"
proof -
  have "\<exists>cid. temporal_of (ae_sql E) (w_db w') (rd_existing_context_id pd) =
      Some (target_state plan pd (Some cid) (plan_conflict_ids E plan) before) \<and> rd_relation pd = SUPERSEDES"
    using assms(1,2) _ assms(4-6)
  proof (rule applied_supersession)
    show "temporal_wf (ae_sql E) (db_temporal (w_db w))" using assms(3) by (simp add: db_wf_def)
  qed (use assms(7-9) created_by_gateway [OF assms(1,4,8)] in auto)
  then show ?thesis
    using assms(9-)
    by (auto simp: include_temporal_match_def state_is_valid_at_def target_state_supersedes)
qed

definition ended_world :: "(str list, entity) world" where
  "ended_world = \<lparr> w_vault = [], w_db = empty_db\<lparr>db_temporal := put_temporal sample_sql 0
     ((sample_overlay ''obsidian:old'')\<lparr>ts_valid_from := None, ts_valid_to := Some 20\<rparr>) []\<rparr> \<rparr>"

theorem supersession_revives_ended_memory_witness:
  "\<exists>r w'. apply_plan sample_env (sample_related_plan SUPERSEDES) (Some ''ann'') ended_world = (Inr r, w') \<and>
     include_temporal_match HISTORICAL_MODE (temporal_of sample_sql (w_db w') ''obsidian:old'')
       (sample_context ''obsidian:old'' []) 30 60"
proof -
  let ?before = "(sample_overlay ''obsidian:old'')\<lparr>ts_valid_from := None, ts_valid_to := Some 20\<rparr>"
  have db: "temporal_of sample_sql (w_db ended_world) ''obsidian:old'' = Some ?before" "db_wf sample_sql (w_db ended_world)"
    "healthy sample_sql (w_db ended_world)"
    using temporal_wf_put [where S = sample_sql and rows = "[]" and now = 0 and st = ?before] empty_db_wf [of sample_sql]
      temporal_of_put [where S = sample_sql and c = "''obsidian:old''" and d = empty_db and now = 0 and st = ?before]
    by (simp_all add: ended_world_def sample_overlay_def db_wf_def healthy_def empty_db_def put_temporal_def
        temporal_wf_def row_ok_def sql_round_trip_simps)
  obtain r w' where run: "apply_plan sample_env (sample_related_plan SUPERSEDES) (Some ''ann'') ended_world = (Inr r, w')"
    "rr_status r = APPLIED"
    using apply_plan_succeeds [of sample_env "sample_related_plan SUPERSEDES" ended_world "Some ''ann''"] db(3) by auto
  have sample_related_candidate: "mc_valid_from (rp_candidate (sample_related_plan SUPERSEDES)) = Some 40"
    by (simp add: sample_related_plan_def sample_candidate_def)
  have fresh: "creates_other_than sample_gateway (rp_candidate (sample_related_plan SUPERSEDES)) ''obsidian:old''"
    by (simp add: creates_other_than_def sample_gateway_def sample_related_plan_def sample_candidate_def)
  show ?thesis
    using supersession_revives_ended_memory [where E = sample_env and plan = "sample_related_plan SUPERSEDES" and
        w = ended_world and t = 30 and u = 20 and v = 40 and before = ?before and c = "sample_context ''obsidian:old'' []" and now = 60,
        OF _ _ _ run] db run(1) fresh
    by (simp add: sample_decision_def sample_related_candidate)
qed

end
