(* ===== verification/Conflict_Service.thy ===== *)
theory Conflict_Service
  imports Reconciliation_Store
begin

text \<open>
  Reviewing and resolving conflict sets (\<open>memory_conflict_service.py\<close>) and the read-only queries
  over plans and results (\<open>memory_reconciliation_query_service.py\<close>). The life of a conflict set is
  a step relation on the tables: one step per service call that returns; resolved conflict sets
  stay resolved along every sequence of steps.
\<close>

section \<open>Operations\<close>

definition RESOLVED_STATUSES :: "MemoryConflictStatus set" where
  "RESOLVED_STATUSES =
     {RESOLVED_KEEP_BOTH, RESOLVED_SUPERSEDED, RESOLVED_MERGED, RESOLVED_INVALID_SOURCE}"

definition conflict_list ::
  "'j sql \<Rightarrow> MemoryConflictStatus option \<Rightarrow> int \<Rightarrow> ('j db, py_exn, MemoryConflictSet list) prog" where
  "conflict_list S status limit =
     (if limit < 1 \<or> limit > 1000 then
        raise (MemoryContextValidationError ''memory conflict limit must be between 1 and 1000'')
      else list_conflicts S status limit)"

definition conflict_get :: "'j sql \<Rightarrow> str \<Rightarrow> ('j db, py_exn, MemoryConflictSet) prog" where
  "conflict_get S conflict_set_id =
     bind (get_conflict S conflict_set_id) (\<lambda>conflict.
       case conflict of
         None \<Rightarrow> raise (MemoryContextNotFoundError (''Memory conflict not found: '' @ conflict_set_id))
       | Some c \<Rightarrow> ret c)"

definition mark_reviewing :: "'j sql \<Rightarrow> str \<Rightarrow> ('j db, py_exn, MemoryConflictSet) prog" where
  "mark_reviewing S conflict_set_id =
     bind (conflict_get S conflict_set_id) (\<lambda>conflict.
       if cs_status conflict \<notin> {OPEN, REVIEWING} then
         raise (MemoryContextValidationError ''resolved memory conflicts cannot return to REVIEWING'')
       else upsert_conflict S (conflict\<lparr>cs_status := REVIEWING\<rparr>))"

definition resolve ::
  "'j sql \<Rightarrow> instant \<Rightarrow> str \<Rightarrow> MemoryConflictStatus \<Rightarrow> str \<Rightarrow> ('j db, py_exn, MemoryConflictSet) prog" where
  "resolve S now conflict_set_id status resolution =
     (if status \<notin> RESOLVED_STATUSES then
        raise (MemoryContextValidationError ''memory conflict resolution requires a RESOLVED_* status'')
      else let normalized_resolution = strip resolution in
        if normalized_resolution = [] then
          raise (MemoryContextValidationError ''memory conflict resolution explanation is required'')
        else bind (conflict_get S conflict_set_id) (\<lambda>conflict.
               upsert_conflict S (conflict\<lparr> cs_status := status,
                 cs_resolution := Some normalized_resolution, cs_resolved_at := Some now \<rparr>)))"

definition query_get_plan :: "'j sql \<Rightarrow> str \<Rightarrow> ('j db, py_exn, MemoryReconciliationPlan) prog" where
  "query_get_plan S plan_id =
     bind (get_plan S plan_id) (\<lambda>plan.
       case plan of
         None \<Rightarrow> raise (MemoryContextNotFoundError (''Memory reconciliation plan not found: '' @ plan_id))
       | Some p \<Rightarrow> ret p)"

definition query_list_review_plans ::
  "'j sql \<Rightarrow> int \<Rightarrow> ('j db, py_exn, MemoryReconciliationPlan list) prog" where
  "query_list_review_plans S limit =
     (if limit < 1 \<or> limit > 1000 then
        raise (MemoryContextValidationError ''memory review queue limit must be between 1 and 1000'')
      else list_review_plans S limit)"

definition query_get_result :: "'j sql \<Rightarrow> str \<Rightarrow> ('j db, py_exn, MemoryReconciliationResult) prog" where
  "query_get_result S reconciliation_id =
     bind (get_result S reconciliation_id) (\<lambda>result.
       case result of
         None \<Rightarrow> raise (MemoryContextNotFoundError
                    (''Memory reconciliation result not found: '' @ reconciliation_id))
       | Some r \<Rightarrow> ret r)"

section \<open>The life of a conflict set\<close>

inductive conflict_step :: "'j sql \<Rightarrow> 'j db \<Rightarrow> 'j db \<Rightarrow> bool" for S where
  reviewing: "mark_reviewing S i d = (Inr c, d') \<Longrightarrow> conflict_step S d d'"
| resolving: "resolve S now i status reason d = (Inr c, d') \<Longrightarrow> conflict_step S d d'"

inductive_cases conflict_stepE [elim]: "conflict_step S d d'"

lemma conflict_get_returns:
  assumes "conflict_get S i d = (Inr c, d')"
  shows "d' = d \<and> (\<exists>r\<in>set (db_conflicts d). cf_id r = i \<and> sql_conflict_load S (cf_payload r) = Inr c)"
  using assms
  by (auto simp: conflict_get_def get_conflict_def query_def from_optional_row_def from_payload_def
      prog_simps find_Some_iff split: option.splits if_splits sum.splits)

text \<open>Both calls rewrite the stored conflict set they read; only its review fields change.\<close>

lemma mark_reviewing_returns:
  assumes "sql_round_trip S" "mark_reviewing S i d = (Inr c', d')"
  shows "\<exists>c. conflict_get S i d = (Inr c, d) \<and> cs_status c \<in> {OPEN, REVIEWING} \<and> c' = c\<lparr>cs_status := REVIEWING\<rparr> \<and>
     d' = d\<lparr>db_conflicts := put_conflict S c' (db_conflicts d)\<rparr>"
proof -
  obtain c where c: "conflict_get S i d = (Inr c, d)" "cs_status c \<in> {OPEN, REVIEWING}"
    "upsert_conflict S (c\<lparr>cs_status := REVIEWING\<rparr>) d = (Inr c', d')"
    using assms(2) conflict_get_returns [of S i d]
    by (auto simp: mark_reviewing_def bind_def raise_def split: prod.splits sum.splits if_splits)
  then show ?thesis
    using upsert_conflict_outcome [OF assms(1), where c = "c\<lparr>cs_status := REVIEWING\<rparr>" and d = d] by auto
qed

lemma resolve_returns:
  assumes "sql_round_trip S" "resolve S now i status reason d = (Inr c', d')"
  shows "\<exists>c. conflict_get S i d = (Inr c, d) \<and> status \<in> RESOLVED_STATUSES \<and> strip reason \<noteq> [] \<and>
     c' = c\<lparr>cs_status := status, cs_resolution := Some (strip reason), cs_resolved_at := Some now\<rparr> \<and>
     d' = d\<lparr>db_conflicts := put_conflict S c' (db_conflicts d)\<rparr>"
proof -
  obtain c where c: "conflict_get S i d = (Inr c, d)" "status \<in> RESOLVED_STATUSES" "strip reason \<noteq> []"
    "upsert_conflict S (c\<lparr>cs_status := status, cs_resolution := Some (strip reason), cs_resolved_at := Some now\<rparr>) d = (Inr c', d')"
    using assms(2) conflict_get_returns [of S i d]
    by (auto simp: resolve_def bind_def raise_def Let_def split: prod.splits sum.splits if_splits)
  then show ?thesis
    using upsert_conflict_outcome [OF assms(1), where d = d and
        c = "c\<lparr>cs_status := status, cs_resolution := Some (strip reason), cs_resolved_at := Some now\<rparr>"] by auto
qed

definition resolved_at_key :: "(str \<times> str) \<Rightarrow> 'j db \<Rightarrow> bool" where
  "resolved_at_key k d \<longleftrightarrow>
     (\<exists>r. find (\<lambda>r. conflict_row_key r = k) (db_conflicts d) = Some r \<and> cf_status r \<in> RESOLVED_STATUSES)"

lemma put_conflict_status:
  "find (\<lambda>r. conflict_row_key r = k) (put_conflict S c rows) = Some r \<Longrightarrow>
     k = conflict_key c \<and> cf_status r = cs_status c \<or>
     k \<noteq> conflict_key c \<and> find (\<lambda>r. conflict_row_key r = k) rows = Some r"
proof (cases "k = conflict_key c")
  case True
  assume "find (\<lambda>r. conflict_row_key r = k) (put_conflict S c rows) = Some r"
  with True show ?thesis
    by (auto simp: put_conflict_def conflict_row_key_eq [symmetric] find_upsert_same split: option.splits)
qed (simp add: conflict_table.find_put_other)

lemma found_by_key:
  assumes "conflicts_wf S rows" and "r \<in> set rows" and "find (\<lambda>r. conflict_row_key r = k) rows = Some r'"
    and "conflict_row_key r = k"
  shows "r' = r"
proof -
  have "r' \<in> set rows" "conflict_row_key r' = k" using assms(3) by (auto simp: find_Some_iff)
  then show ?thesis using assms by (auto simp: conflicts_wf_def distinct_map inj_on_def)
qed

lemma put_keeps_key:
  "find (\<lambda>r. conflict_row_key r = k) rows \<noteq> None \<Longrightarrow> find (\<lambda>r. conflict_row_key r = k) (put_conflict S c rows) \<noteq> None"
  by (cases "k = conflict_key c") (use conflict_table.find_put_same [of c S rows] in
      \<open>auto simp: conflict_table.find_put_other\<close>)

lemma conflict_step_keeps_resolved:
  assumes S: "sql_round_trip S" and wf: "conflicts_wf S (db_conflicts d)" and st: "conflict_step S d d'"
  shows "conflicts_wf S (db_conflicts d') \<and> (resolved_at_key k d \<longrightarrow> resolved_at_key k d')"
proof -
  obtain i c c' where g: "conflict_get S i d = (Inr c, d)" and key: "conflict_key c' = conflict_key c"
    and stat: "cs_status c' \<in> RESOLVED_STATUSES \<or> cs_status c \<notin> RESOLVED_STATUSES"
    and d': "d' = d\<lparr>db_conflicts := put_conflict S c' (db_conflicts d)\<rparr>"
    using st
  proof cases
    case (reviewing i c')
    from mark_reviewing_returns [OF S this] obtain c where c: "conflict_get S i d = (Inr c, d)"
      "cs_status c \<in> {OPEN, REVIEWING}" "c' = c\<lparr>cs_status := REVIEWING\<rparr>"
      "d' = d\<lparr>db_conflicts := put_conflict S c' (db_conflicts d)\<rparr>" by blast
    show thesis
      by (rule that [OF c(1) _ _ c(4)]) (use c(2,3) in \<open>auto simp: conflict_key_def RESOLVED_STATUSES_def\<close>)
  next
    case (resolving now i status reason c')
    from resolve_returns [OF S this] obtain c where c: "conflict_get S i d = (Inr c, d)" "status \<in> RESOLVED_STATUSES"
      "c' = c\<lparr>cs_status := status, cs_resolution := Some (strip reason), cs_resolved_at := Some now\<rparr>"
      "d' = d\<lparr>db_conflicts := put_conflict S c' (db_conflicts d)\<rparr>" by blast
    show thesis by (rule that [OF c(1) _ _ c(4)]) (use c(2,3) in \<open>auto simp: conflict_key_def\<close>)
  qed
  obtain r where r: "r \<in> set (db_conflicts d)" "conflict_row_key r = conflict_key c" "cf_status r = cs_status c"
    using conflict_get_returns [OF g] wf by (auto simp: conflicts_wf_def row_ok_def)
  have "resolved_at_key k d'" if res: "resolved_at_key k d"
  proof -
    obtain r0 where r0: "find (\<lambda>r. conflict_row_key r = k) (db_conflicts d) = Some r0" "cf_status r0 \<in> RESOLVED_STATUSES"
      using res by (auto simp: resolved_at_key_def)
    obtain r1 where r1: "find (\<lambda>r. conflict_row_key r = k) (put_conflict S c' (db_conflicts d)) = Some r1"
      using put_keeps_key [of k "db_conflicts d" S c'] r0(1) by auto
    show ?thesis
      using put_conflict_status [OF r1] r0 r1 found_by_key [OF wf r(1) r0(1)] r(2,3) key stat d'
      by (auto simp: resolved_at_key_def)
  qed
  then show ?thesis using conflicts_wf_put [OF S wf] d' by simp
qed

section \<open>Properties\<close>

text \<open>
  a resolution is final. Along any sequence of review and resolve calls, a conflict set that
  has been resolved never becomes open or under review again (it can at most be resolved
  differently), and the conflict table stays well formed.
\<close>

theorem resolved_conflicts_stay_resolved:
  assumes S: "sql_round_trip S" and "conflicts_wf S (db_conflicts d)"
    and "(conflict_step S)\<^sup>*\<^sup>* d d'" and "resolved_at_key k d"
  shows "resolved_at_key k d' \<and> conflicts_wf S (db_conflicts d')"
  using assms(3,2,4)
  by (induction rule: rtranclp_induct) (auto dest: conflict_step_keeps_resolved [OF S])

text \<open>
  resolving is explicit and complete: a resolve call that returns was given a RESOLVED status
  and a non-blank explanation, records both with the time of resolution, and changes nothing else
  of the conflict set, in particular not the Contexts it preserves.
\<close>

theorem resolve_records_resolution:
  assumes "sql_round_trip S" and "resolve S now i status reason d = (Inr c', d')"
  shows "\<exists>c. fst (conflict_get S i d) = Inr c \<and> status \<in> RESOLVED_STATUSES \<and>
     cs_status c' = status \<and> cs_resolution c' = Some (strip reason) \<and> strip reason \<noteq> [] \<and>
     cs_resolved_at c' = Some now \<and> cs_context_ids c' = cs_context_ids c \<and>
     cs_conflict_set_id c' = cs_conflict_set_id c \<and> conflict_key c' = conflict_key c \<and>
     db_temporal d' = db_temporal d \<and> db_relations d' = db_relations d"
  using resolve_returns [OF assms] by (auto simp: conflict_key_def)

definition sample_conflict_set :: MemoryConflictSet where
  "sample_conflict_set = \<lparr> cs_conflict_set_id = ''k'', cs_context_ids = [''new'', ''old''],
     cs_candidate_id = ''c1'', cs_subject_key = ''s'', cs_claim_key = ''s|p|o'', cs_scope = PROJECT,
     cs_validity_overlap = True, cs_reason = ''r'', cs_status = OPEN, cs_resolution = None,
     cs_created_at = 1, cs_resolved_at = None \<rparr>"

definition sample_conflict_db :: "entity db" where
  "sample_conflict_db = empty_db\<lparr>db_conflicts := put_conflict sample_sql sample_conflict_set []\<rparr>"

lemma sample_resolve:
  "resolve sample_sql 5 ''k'' RESOLVED_MERGED ''merged '' sample_conflict_db =
    (Inr (sample_conflict_set\<lparr>cs_status := RESOLVED_MERGED, cs_resolution := Some ''merged'', cs_resolved_at := Some 5\<rparr>),
     sample_conflict_db\<lparr>db_conflicts := put_conflict sample_sql
       (sample_conflict_set\<lparr>cs_status := RESOLVED_MERGED, cs_resolution := Some ''merged'', cs_resolved_at := Some 5\<rparr>)
       (db_conflicts sample_conflict_db)\<rparr>)"
  by (simp add: resolve_def conflict_get_def get_conflict_def upsert_conflict_def sample_conflict_db_def
      sample_conflict_set_def empty_db_def put_conflict_def query_def flush_def from_payload_def
      from_optional_row_def prog_simps sample_sql_def RESOLVED_STATUSES_def strip_def is_space_def Let_def)

theorem resolve_records_resolution_witness:
  "\<exists>c'. fst (resolve sample_sql 5 ''k'' RESOLVED_MERGED ''merged '' sample_conflict_db) = Inr c' \<and>
     cs_resolution c' = Some ''merged'' \<and> cs_status c' = RESOLVED_MERGED"
  using resolve_records_resolution [OF sample_sql_round_trip sample_resolve] sample_resolve
  by (auto simp: strip_def is_space_def)

theorem resolved_conflicts_stay_resolved_witness:
  "let d = snd (resolve sample_sql 5 ''k'' RESOLVED_MERGED ''merged '' sample_conflict_db);
       d' = snd (resolve sample_sql 6 ''k'' RESOLVED_KEEP_BOTH ''both'' d) in
   resolved_at_key (''c1'', ''s|p|o'') d'"
proof -
  define d where "d = snd (resolve sample_sql 5 ''k'' RESOLVED_MERGED ''merged '' sample_conflict_db)"
  define d' where "d' = snd (resolve sample_sql 6 ''k'' RESOLVED_KEEP_BOTH ''both'' d)"
  have d: "d = sample_conflict_db\<lparr>db_conflicts := put_conflict sample_sql
       (sample_conflict_set\<lparr>cs_status := RESOLVED_MERGED, cs_resolution := Some ''merged'', cs_resolved_at := Some 5\<rparr>)
       (db_conflicts sample_conflict_db)\<rparr>" unfolding d_def sample_resolve by simp
  have wf0: "conflicts_wf sample_sql (db_conflicts sample_conflict_db)"
    using conflicts_wf_put [OF sample_sql_round_trip, of "[]" sample_conflict_set]
    by (simp add: sample_conflict_db_def conflicts_wf_def row_ok_def)
  then have wf: "conflicts_wf sample_sql (db_conflicts d)" using conflicts_wf_put [OF sample_sql_round_trip] d by simp
  have res: "resolved_at_key (''c1'', ''s|p|o'') d"
    by (simp add: resolved_at_key_def d sample_conflict_db_def sample_conflict_set_def put_conflict_def
        conflict_row_key_def RESOLVED_STATUSES_def)
  obtain c where "resolve sample_sql 6 ''k'' RESOLVED_KEEP_BOTH ''both'' d = (Inr c, d')"
    unfolding d'_def d
    by (simp add: resolve_def conflict_get_def get_conflict_def upsert_conflict_def sample_conflict_db_def
      sample_conflict_set_def empty_db_def put_conflict_def query_def flush_def from_payload_def
      from_optional_row_def prog_simps sample_sql_def RESOLVED_STATUSES_def strip_def is_space_def Let_def)
  then have "(conflict_step sample_sql)\<^sup>*\<^sup>* d d'" by (blast intro: conflict_step.resolving)
  from resolved_conflicts_stay_resolved [OF sample_sql_round_trip wf this res]
  show ?thesis by (simp add: Let_def d_def d'_def)
qed

end
