(* ===== verification/Recovery_Model.thy ===== *)
theory Recovery_Model
  imports Prelude
begin

text \<open>
  Operational recovery: the entities of \<open>recovery_plan.py\<close> and \<open>recovery_run.py\<close>, the persisted
  payloads and the record files of \<open>recovery_run_manifest.py\<close>, and the policies of
  \<open>recovery_run_retry_policy.py\<close>.

  Recovery state is files below one directory: a manifest per run and one active record. A file
  system maps paths to contents of an arbitrary type; turning payloads into contents and back is
  pydantic and orjson, a parameter of type \<open>codec\<close> with the named hypothesis \<open>codec_ok\<close>. Records
  are replaced atomically (\<open>_write_recovery_record\<close>), and every change of the active record runs
  under an exclusive \<open>flock\<close>: each operation on it is one step. Writing may fail with an operating
  system error, which the codec record decides as well.
\<close>

section \<open>Status values\<close>

datatype RecoveryRunStatus = RUN_PLANNED | RUN_RUNNING | RUN_COMPLETED | RUN_BLOCKED | RUN_FAILED

datatype RecoveryStepStatus =
  STEP_PENDING | STEP_RUNNING | STEP_SUCCEEDED | STEP_SKIPPED | STEP_BLOCKED | STEP_FAILED

fun step_status_value :: "RecoveryStepStatus \<Rightarrow> str" where
  "step_status_value STEP_PENDING = ''PENDING''"
| "step_status_value STEP_RUNNING = ''RUNNING''"
| "step_status_value STEP_SUCCEEDED = ''SUCCEEDED''"
| "step_status_value STEP_SKIPPED = ''SKIPPED''"
| "step_status_value STEP_BLOCKED = ''BLOCKED''"
| "step_status_value STEP_FAILED = ''FAILED''"

section \<open>Errors\<close>

datatype recovery_exn =
  RecoveryInProgressError str "str option"
| RecoveryStepFailedError str str
| AnyException str

fun recovery_exn_text :: "recovery_exn \<Rightarrow> str" where
  "recovery_exn_text (RecoveryInProgressError run_id key) = ''recovery is already in progress''"
| "recovery_exn_text (RecoveryStepFailedError code summary) = summary"
| "recovery_exn_text (AnyException m) = m"

section \<open>Entities\<close>

record RecoverySourceSnapshot =
  ss_vault_path :: str
  ss_alexandria_root :: str
  ss_managed_markdown_count :: int
  ss_representative_path :: "str option"
  ss_representative_sha256 :: "str option"
  ss_disk_free_bytes :: "int option"
  ss_access_error :: "str option"
  ss_markdown_manifest :: "(str \<times> str) list"

record RecoveryPlanStep =
  sp_code :: str
  sp_title :: str
  sp_mutates_state :: bool

record RecoveryRunStepResult =
  rsr_code :: str
  rsr_status :: RecoveryStepStatus
  rsr_attempts :: int
  rsr_started_at :: "instant option"
  rsr_finished_at :: "instant option"
  rsr_input_hash :: str
  rsr_result :: json_object

record RecoveryRun =
  run_id :: str
  run_parent_run_id :: "str option"
  run_idempotency_key :: str
  run_trigger :: str
  run_actor :: str
  run_status :: RecoveryRunStatus
  run_current_step :: "str option"
  run_started_at :: instant
  run_updated_at :: instant
  run_finished_at :: "instant option"
  run_source_snapshot :: RecoverySourceSnapshot
  run_diagnosis :: "str list"
  run_planned_steps :: "RecoveryPlanStep list"
  run_step_results :: "RecoveryRunStepResult list"
  run_rebuild_results :: json_object
  run_verification_results :: json_object
  run_error_code :: "str option"
  run_error_summary :: "str option"
  run_next_actions :: "str list"
  run_manifest_path :: str

section \<open>Persisted payloads\<close>

record RecoveryActiveLockPayload =
  lk_run_id :: str
  lk_idempotency_key :: "str option"
  lk_trigger :: str
  lk_actor :: str
  lk_started_at :: "instant option"
  lk_current_step :: "str option"
  lk_updated_at :: "instant option"
  lk_read_error :: "str option"

record RecoverySourceSnapshotPayload =
  ssp_vault_path :: str
  ssp_alexandria_root :: str
  ssp_managed_markdown_count :: int
  ssp_representative_path :: "str option"
  ssp_representative_sha256 :: "str option"
  ssp_disk_free_bytes :: "int option"
  ssp_access_error :: "str option"
  ssp_markdown_manifest :: "(str \<times> str) list"

record RecoveryPlanStepPayload =
  spp_code :: str
  spp_title :: str
  spp_mutates_state :: bool

record RecoveryStepResultPayload =
  srp_code :: str
  srp_status :: RecoveryStepStatus
  srp_attempts :: int
  srp_started_at :: "instant option"
  srp_finished_at :: "instant option"
  srp_input_hash :: str
  srp_result :: json_object

record RecoveryRunManifestPayload =
  mfp_id :: str
  mfp_parent_run_id :: "str option"
  mfp_idempotency_key :: str
  mfp_trigger :: str
  mfp_actor :: str
  mfp_status :: RecoveryRunStatus
  mfp_current_step :: "str option"
  mfp_started_at :: instant
  mfp_updated_at :: instant
  mfp_finished_at :: "instant option"
  mfp_source_snapshot :: RecoverySourceSnapshotPayload
  mfp_diagnosis :: "str list"
  mfp_planned_steps :: "RecoveryPlanStepPayload list"
  mfp_step_results :: "RecoveryStepResultPayload list"
  mfp_rebuild_results :: json_object
  mfp_verification_results :: json_object
  mfp_error_code :: "str option"
  mfp_error_summary :: "str option"
  mfp_next_actions :: "str list"

section \<open>Mapping runs to payloads and back\<close>

definition source_snapshot_payload :: "RecoverySourceSnapshot \<Rightarrow> RecoverySourceSnapshotPayload" where
  "source_snapshot_payload s =
     \<lparr> ssp_vault_path = ss_vault_path s, ssp_alexandria_root = ss_alexandria_root s,
       ssp_managed_markdown_count = ss_managed_markdown_count s,
       ssp_representative_path = ss_representative_path s,
       ssp_representative_sha256 = ss_representative_sha256 s,
       ssp_disk_free_bytes = ss_disk_free_bytes s, ssp_access_error = ss_access_error s,
       ssp_markdown_manifest = ss_markdown_manifest s \<rparr>"

definition planned_step_payload :: "RecoveryPlanStep \<Rightarrow> RecoveryPlanStepPayload" where
  "planned_step_payload s =
     \<lparr> spp_code = sp_code s, spp_title = sp_title s, spp_mutates_state = sp_mutates_state s \<rparr>"

definition step_result_payload :: "RecoveryRunStepResult \<Rightarrow> RecoveryStepResultPayload" where
  "step_result_payload s =
     \<lparr> srp_code = rsr_code s, srp_status = rsr_status s, srp_attempts = rsr_attempts s,
       srp_started_at = rsr_started_at s, srp_finished_at = rsr_finished_at s,
       srp_input_hash = rsr_input_hash s, srp_result = rsr_result s \<rparr>"

definition run_payload :: "RecoveryRun \<Rightarrow> RecoveryRunManifestPayload" where
  "run_payload run =
     \<lparr> mfp_id = run_id run, mfp_parent_run_id = run_parent_run_id run,
       mfp_idempotency_key = run_idempotency_key run, mfp_trigger = run_trigger run,
       mfp_actor = run_actor run, mfp_status = run_status run,
       mfp_current_step = run_current_step run, mfp_started_at = run_started_at run,
       mfp_updated_at = run_updated_at run, mfp_finished_at = run_finished_at run,
       mfp_source_snapshot = source_snapshot_payload (run_source_snapshot run),
       mfp_diagnosis = run_diagnosis run,
       mfp_planned_steps = map planned_step_payload (run_planned_steps run),
       mfp_step_results = map step_result_payload (run_step_results run),
       mfp_rebuild_results = run_rebuild_results run,
       mfp_verification_results = run_verification_results run,
       mfp_error_code = run_error_code run, mfp_error_summary = run_error_summary run,
       mfp_next_actions = run_next_actions run \<rparr>"

definition source_snapshot_from_payload :: "RecoverySourceSnapshotPayload \<Rightarrow> RecoverySourceSnapshot" where
  "source_snapshot_from_payload p =
     \<lparr> ss_vault_path = ssp_vault_path p, ss_alexandria_root = ssp_alexandria_root p,
       ss_managed_markdown_count = ssp_managed_markdown_count p,
       ss_representative_path = ssp_representative_path p,
       ss_representative_sha256 = ssp_representative_sha256 p,
       ss_disk_free_bytes = ssp_disk_free_bytes p, ss_access_error = ssp_access_error p,
       ss_markdown_manifest = ssp_markdown_manifest p \<rparr>"

definition planned_step_from_payload :: "RecoveryPlanStepPayload \<Rightarrow> RecoveryPlanStep" where
  "planned_step_from_payload p =
     \<lparr> sp_code = spp_code p, sp_title = spp_title p, sp_mutates_state = spp_mutates_state p \<rparr>"

definition step_result_from_payload :: "RecoveryStepResultPayload \<Rightarrow> RecoveryRunStepResult" where
  "step_result_from_payload p =
     \<lparr> rsr_code = srp_code p, rsr_status = srp_status p, rsr_attempts = srp_attempts p,
       rsr_started_at = srp_started_at p, rsr_finished_at = srp_finished_at p,
       rsr_input_hash = srp_input_hash p, rsr_result = srp_result p \<rparr>"

definition run_from_payload :: "RecoveryRunManifestPayload \<Rightarrow> str \<Rightarrow> RecoveryRun" where
  "run_from_payload p manifest_path =
     \<lparr> run_id = mfp_id p, run_parent_run_id = mfp_parent_run_id p,
       run_idempotency_key = mfp_idempotency_key p, run_trigger = mfp_trigger p,
       run_actor = mfp_actor p, run_status = mfp_status p,
       run_current_step = mfp_current_step p, run_started_at = mfp_started_at p,
       run_updated_at = mfp_updated_at p, run_finished_at = mfp_finished_at p,
       run_source_snapshot = source_snapshot_from_payload (mfp_source_snapshot p),
       run_diagnosis = mfp_diagnosis p,
       run_planned_steps = map planned_step_from_payload (mfp_planned_steps p),
       run_step_results = map step_result_from_payload (mfp_step_results p),
       run_rebuild_results = mfp_rebuild_results p,
       run_verification_results = mfp_verification_results p,
       run_error_code = mfp_error_code p, run_error_summary = mfp_error_summary p,
       run_next_actions = mfp_next_actions p, run_manifest_path = manifest_path \<rparr>"

lemma snapshot_payload_inverse [simp]: "source_snapshot_from_payload (source_snapshot_payload s) = s"
  by (simp add: source_snapshot_from_payload_def source_snapshot_payload_def)

lemma planned_step_payload_inverse [simp]: "planned_step_from_payload (planned_step_payload s) = s"
  by (simp add: planned_step_from_payload_def planned_step_payload_def)

lemma step_result_payload_inverse [simp]: "step_result_from_payload (step_result_payload s) = s"
  by (simp add: step_result_from_payload_def step_result_payload_def)

lemma run_payload_inverse [simp]:
  "run_from_payload (run_payload run) path = run\<lparr>run_manifest_path := path\<rparr>"
  by (simp add: run_from_payload_def run_payload_def comp_def)

section \<open>Record files\<close>

record 'b codec =
  co_lock_dump :: "RecoveryActiveLockPayload \<Rightarrow> 'b"
  co_lock_load :: "'b \<Rightarrow> RecoveryActiveLockPayload option"
  co_run_dump :: "RecoveryRunManifestPayload \<Rightarrow> 'b"
  co_run_load :: "'b \<Rightarrow> RecoveryRunManifestPayload option"
  co_write_fault :: "str \<Rightarrow> 'b \<Rightarrow> str option"
  co_recovery_dir :: str

text \<open>Contents that were dumped validate to the payload they were dumped from.\<close>

definition codec_ok :: "'b codec \<Rightarrow> bool" where
  "codec_ok K \<longleftrightarrow> (\<forall>l. co_lock_load K (co_lock_dump K l) = Some l) \<and>
     (\<forall>p. co_run_load K (co_run_dump K p) = Some p)"

text \<open>Writing records does not fail.\<close>

definition writes_ok :: "'b codec \<Rightarrow> bool" where
  "writes_ok K \<longleftrightarrow> (\<forall>p c. co_write_fault K p c = None)"

type_synonym 'b fs = "str \<Rightarrow> 'b option"

definition manifest_path_by_id :: "'b codec \<Rightarrow> str \<Rightarrow> str" where
  "manifest_path_by_id K i = co_recovery_dir K @ ''/'' @ i @ ''/recovery-run.json''"

definition active_lock_path :: "'b codec \<Rightarrow> str" where
  "active_lock_path K = co_recovery_dir K @ ''/active-run.json''"

lemma manifest_path_inject [simp]: "manifest_path_by_id K i = manifest_path_by_id K j \<longleftrightarrow> i = j"
  by (simp add: manifest_path_by_id_def)

lemma manifest_path_not_lock [simp]: "manifest_path_by_id K i \<noteq> active_lock_path K"
proof
  assume "manifest_path_by_id K i = active_lock_path K"
  then have "length (manifest_path_by_id K i) = length (active_lock_path K)" by simp
  then show False by (simp add: manifest_path_by_id_def active_lock_path_def)
qed

lemma lock_not_manifest_path [simp]: "active_lock_path K \<noteq> manifest_path_by_id K i"
  using manifest_path_not_lock by metis

text \<open>\<open>_write_recovery_record\<close>: the whole record is replaced, or the write raises.\<close>

definition write_recovery_record :: "'b codec \<Rightarrow> str \<Rightarrow> 'b \<Rightarrow> ('b fs, recovery_exn, unit) prog" where
  "write_recovery_record K path content files =
     (case co_write_fault K path content of
        Some m \<Rightarrow> (Inl (AnyException m), files)
      | None \<Rightarrow> (Inr (), files(path \<mapsto> content)))"

definition UNREADABLE_ACTIVE_RECOVERY_RUN_ID :: str where
  "UNREADABLE_ACTIVE_RECOVERY_RUN_ID = ''unreadable-active-recovery-lock''"

definition unreadable_active_lock :: RecoveryActiveLockPayload where
  "unreadable_active_lock =
     \<lparr> lk_run_id = UNREADABLE_ACTIVE_RECOVERY_RUN_ID, lk_idempotency_key = None,
       lk_trigger = ''manual'', lk_actor = ''operator'', lk_started_at = None,
       lk_current_step = None, lk_updated_at = None,
       lk_read_error = Some ''active_recovery_lock_unreadable'' \<rparr>"

definition read_active_lock :: "'b codec \<Rightarrow> 'b fs \<Rightarrow> RecoveryActiveLockPayload option" where
  "read_active_lock K files =
     (case files (active_lock_path K) of
        None \<Rightarrow> None
      | Some c \<Rightarrow> (case co_lock_load K c of Some l \<Rightarrow> Some l | None \<Rightarrow> Some unreadable_active_lock))"

text \<open>\<open>_write_active_lock\<close>, given the run's identity (the fields of its plan) and the time.\<close>

definition write_active_lock ::
  "'b codec \<Rightarrow> str \<Rightarrow> str \<Rightarrow> str \<Rightarrow> str \<Rightarrow> instant \<Rightarrow> ('b fs, recovery_exn, unit) prog" where
  "write_active_lock K plan_id key trigger actor now files =
     (case read_active_lock K files of
        Some l \<Rightarrow> (Inl (RecoveryInProgressError (lk_run_id l) (lk_idempotency_key l)), files)
      | None \<Rightarrow>
          write_recovery_record K (active_lock_path K)
            (co_lock_dump K \<lparr> lk_run_id = plan_id, lk_idempotency_key = Some key,
               lk_trigger = trigger, lk_actor = actor, lk_started_at = Some now,
               lk_current_step = None, lk_updated_at = None, lk_read_error = None \<rparr>) files)"

definition checkpoint_active_step ::
  "'b codec \<Rightarrow> str \<Rightarrow> str \<Rightarrow> instant \<Rightarrow> ('b fs, recovery_exn, str) prog" where
  "checkpoint_active_step K plan_id current_step now files =
     (case read_active_lock K files of
        None \<Rightarrow> (Inl (RecoveryInProgressError UNREADABLE_ACTIVE_RECOVERY_RUN_ID None), files)
      | Some l \<Rightarrow>
          if lk_run_id l \<noteq> plan_id
          then (Inl (RecoveryInProgressError (lk_run_id l) (lk_idempotency_key l)), files)
          else seq (write_recovery_record K (active_lock_path K)
                      (co_lock_dump K (l\<lparr> lk_current_step := Some current_step,
                                          lk_updated_at := Some now \<rparr>)))
                   (ret current_step) files)"

definition clear_active_lock_for_run_id :: "'b codec \<Rightarrow> str \<Rightarrow> ('b fs, recovery_exn, unit) prog" where
  "clear_active_lock_for_run_id K i files =
     (case read_active_lock K files of
        None \<Rightarrow> (Inr (), files)
      | Some l \<Rightarrow> if lk_run_id l \<noteq> i then (Inr (), files)
                  else (Inr (), files(active_lock_path K := None)))"

definition write_manifest :: "'b codec \<Rightarrow> RecoveryRun \<Rightarrow> ('b fs, recovery_exn, unit) prog" where
  "write_manifest K run =
     write_recovery_record K (run_manifest_path run) (co_run_dump K (run_payload run))"

text \<open>\<open>_run_from_manifest\<close>: reading an existing manifest; invalid contents raise.\<close>

definition run_from_manifest :: "'b codec \<Rightarrow> str \<Rightarrow> ('b fs, recovery_exn, RecoveryRun) prog" where
  "run_from_manifest K path files =
     (case files path of
        None \<Rightarrow> (Inl (AnyException (''No such file or directory: '' @ path)), files)
      | Some c \<Rightarrow>
          (case co_run_load K c of
             None \<Rightarrow> (Inl (AnyException ''validation error for RecoveryRunManifestPayload''), files)
           | Some p \<Rightarrow> (Inr (run_from_payload p path), files)))"

section \<open>Retry policy\<close>

definition parent_run_for_retry ::
  "'b codec \<Rightarrow> str option \<Rightarrow> ('b fs, recovery_exn, RecoveryRun option) prog" where
  "parent_run_for_retry K parent_run_id files =
     (case parent_run_id of
        None \<Rightarrow> (Inr None, files)
      | Some i \<Rightarrow>
          if files (manifest_path_by_id K i) = None then (Inr None, files)
          else bind (run_from_manifest K (manifest_path_by_id K i)) (\<lambda>r. ret (Some r)) files)"

text \<open>The dictionary of parent steps that may be reused: a later entry replaces an earlier one.\<close>

definition successful_parent_steps ::
  "RecoveryRun option \<Rightarrow> ((str \<times> str) \<times> RecoveryRunStepResult) list" where
  "successful_parent_steps parent =
     (case parent of
        None \<Rightarrow> []
      | Some r \<Rightarrow>
          fold (\<lambda>s acc. if rsr_status s = STEP_SUCCEEDED \<and> rsr_input_hash s \<noteq> []
                        then dict_set (rsr_code s, rsr_input_hash s) s acc else acc)
            (run_step_results r) [])"

definition recovery_steps :: "RecoveryPlanStep list" where
  "recovery_steps =
     [\<lparr> sp_code = ''snapshot_sources'', sp_title = ''Snapshot source vault metadata'', sp_mutates_state = False \<rparr>,
      \<lparr> sp_code = ''reindex_vault'', sp_title = ''Rebuild Obsidian index cache'', sp_mutates_state = True \<rparr>,
      \<lparr> sp_code = ''reindex_embeddings'', sp_title = ''Rebuild retrieval embeddings'', sp_mutates_state = True \<rparr>,
      \<lparr> sp_code = ''verify_readiness'', sp_title = ''Verify operational readiness'', sp_mutates_state = False \<rparr>]"

definition interrupted_active_run ::
  "RecoveryActiveLockPayload \<Rightarrow> RecoverySourceSnapshot \<Rightarrow> str \<Rightarrow> instant \<Rightarrow> RecoveryRun" where
  "interrupted_active_run lock snapshot manifest_path now =
     \<lparr> run_id = lk_run_id lock, run_parent_run_id = None,
       run_idempotency_key = (case lk_idempotency_key lock of None \<Rightarrow> [] | Some k \<Rightarrow> k),
       run_trigger = lk_trigger lock, run_actor = lk_actor lock, run_status = RUN_BLOCKED,
       run_current_step = lk_current_step lock,
       run_started_at = (case lk_started_at lock of None \<Rightarrow> now | Some t \<Rightarrow> t),
       run_updated_at = now, run_finished_at = Some now,
       run_source_snapshot = snapshot,
       run_diagnosis = [''RECOVERY_INTERRUPTED_AFTER_RESTART''],
       run_planned_steps = recovery_steps, run_step_results = [],
       run_rebuild_results = [], run_verification_results = [],
       run_error_code = Some ''RECOVERY_INTERRUPTED_AFTER_RESTART'',
       run_error_summary = Some ''Recovery active lock existed without a completed manifest; the run was blocked for operator retry after restart.'',
       run_next_actions = [''retry_recovery_run'', ''inspect_recovery_run''],
       run_manifest_path = manifest_path \<rparr>"

definition default_retry_idempotency_key :: "str \<Rightarrow> str" where
  "default_retry_idempotency_key parent_run_id = ''retry:'' @ parent_run_id"

definition reuse_step ::
  "RecoveryRunStepResult \<Rightarrow> ((str \<times> str) \<times> RecoveryRunStepResult) list \<Rightarrow> ((str \<times> str) \<times> RecoveryRunStepResult) list" where
  "reuse_step s acc = (if rsr_status s = STEP_SUCCEEDED \<and> rsr_input_hash s \<noteq> []
     then dict_set (rsr_code s, rsr_input_hash s) s acc else acc)"

lemma fold_reuse_step:
  "map_of (fold reuse_step xs d) (c, h) = Some s \<Longrightarrow>
     (s \<in> set xs \<and> rsr_status s = STEP_SUCCEEDED \<and> rsr_code s = c \<and> rsr_input_hash s = h \<and> h \<noteq> []) \<or>
     map_of d (c, h) = Some s"
proof (induction xs arbitrary: d)
  case (Cons x xs)
  then have "map_of (fold reuse_step xs (reuse_step x d)) (c, h) = Some s" by simp
  from Cons.IH [OF this] show ?case
    by (cases "rsr_status x = STEP_SUCCEEDED \<and> rsr_input_hash x \<noteq> []")
      (auto simp: reuse_step_def split: if_splits)
qed simp

lemma successful_parent_steps_succeeded:
  assumes "map_of (successful_parent_steps (Some r)) (c, h) = Some s"
  shows "s \<in> set (run_step_results r) \<and> rsr_status s = STEP_SUCCEEDED \<and> rsr_code s = c \<and>
     rsr_input_hash s = h \<and> h \<noteq> []"
  using assms fold_reuse_step [of "run_step_results r" "[]" c h s]
  by (simp add: successful_parent_steps_def reuse_step_def [abs_def])

end
