(* ===== verification/Recovery_Plan.thy ===== *)
theory Recovery_Plan
  imports Recovery_Model "HOL-Library.List_Lexorder" "HOL-Library.Char_ord"
begin

text \<open>
  Planning a recovery: the policy of \<open>recovery_plan_policy.py\<close>, the source snapshots of
  \<open>recovery_plan_source_policy.py\<close> and \<open>recovery_run_source_preservation.py\<close>, and the plan that
  \<open>RecoveryPlanService.plan\<close> assembles from a readiness snapshot.

  The readiness snapshot comes from the readiness service; the record holds the fields the
  planning and verification code reads. The vault on disk is a parameter: which managed notes are
  discovered below the root (relative to the vault; None when listing raises \<open>OSError\<close>), and
  what \<open>stat\<close>, hashing and the disk usage call return for them.
\<close>

section \<open>Readiness\<close>

datatype OperationalReadinessStatus =
  RS_UNKNOWN | RS_READY | RS_DEGRADED_FTS_ONLY | RS_DEGRADED_RUNTIME_DRIFT
| RS_DEGRADED_RETRIEVAL_CANARY | RS_DEGRADED_PROJECTION_INTEGRITY | RS_RECOVERY_REQUIRED
| RS_RECOVERING | RS_VERIFYING | RS_BLOCKED | RS_FAILED

fun readiness_status_value :: "OperationalReadinessStatus \<Rightarrow> str" where
  "readiness_status_value RS_UNKNOWN = ''UNKNOWN''"
| "readiness_status_value RS_READY = ''READY''"
| "readiness_status_value RS_DEGRADED_FTS_ONLY = ''DEGRADED_FTS_ONLY''"
| "readiness_status_value RS_DEGRADED_RUNTIME_DRIFT = ''DEGRADED_RUNTIME_DRIFT''"
| "readiness_status_value RS_DEGRADED_RETRIEVAL_CANARY = ''DEGRADED_RETRIEVAL_CANARY''"
| "readiness_status_value RS_DEGRADED_PROJECTION_INTEGRITY = ''DEGRADED_PROJECTION_INTEGRITY''"
| "readiness_status_value RS_RECOVERY_REQUIRED = ''RECOVERY_REQUIRED''"
| "readiness_status_value RS_RECOVERING = ''RECOVERING''"
| "readiness_status_value RS_VERIFYING = ''VERIFYING''"
| "readiness_status_value RS_BLOCKED = ''BLOCKED''"
| "readiness_status_value RS_FAILED = ''FAILED''"

record OperationalVaultSnapshot =
  vs_exists :: bool
  vs_readable :: bool
  vs_vault_path :: str
  vs_alexandria_root :: str
  vs_alexandria_root_exists :: bool
  vs_indexed_notes :: "int option"
  vs_stale_notes :: "int option"
  vs_error_notes :: "int option"

record OperationalDatabaseSnapshot =
  ds_reachable :: bool
  ds_integrity :: str
  ds_schema_version :: "str option"
  ds_corruption_detected :: bool

record OperationalReadinessSnapshot =
  or_status :: OperationalReadinessStatus
  or_ready :: bool
  or_vault :: OperationalVaultSnapshot
  or_database :: OperationalDatabaseSnapshot
  or_effective_strategy :: str
  or_warnings :: "str list"
  or_blockers :: "str list"

section \<open>Plans and requests\<close>

record RecoveryPlanRequest =
  rq_trigger :: str
  rq_actor :: str
  rq_idempotency_key :: "str option"
  rq_parent_run_id :: "str option"

record RecoveryPlan =
  rpl_id :: str
  rpl_parent_run_id :: "str option"
  rpl_idempotency_key :: str
  rpl_trigger :: str
  rpl_actor :: str
  rpl_status :: OperationalReadinessStatus
  rpl_created_at :: instant
  rpl_dry_run :: bool
  rpl_automatic_execution_allowed :: bool
  rpl_diagnosis :: "str list"
  rpl_blocked_reasons :: "str list"
  rpl_source_snapshot :: RecoverySourceSnapshot
  rpl_steps :: "RecoveryPlanStep list"
  rpl_estimated_reindex_scope :: json_object
  rpl_service_impact :: "str list"
  rpl_next_actions :: "str list"
  rpl_readiness :: OperationalReadinessSnapshot
  rpl_warnings :: "str list"

section \<open>The vault on disk\<close>

record vault_files =
  vf_root_exists :: bool
  vf_discover :: "str list option"
  vf_stat :: "str \<Rightarrow> (int \<times> int) option"
  vf_sha256 :: "str \<Rightarrow> (str option) option"
  vf_disk_free :: "int option"

definition file_inventory_token :: "vault_files \<Rightarrow> str \<Rightarrow> str option" where
  "file_inventory_token V path =
     (case vf_stat V path of
        None \<Rightarrow> None
      | Some (n_bytes, mtime_ns) \<Rightarrow> Some (int_text n_bytes @ '':'' @ int_text mtime_ns))"

definition markdown_manifest :: "vault_files \<Rightarrow> str list \<Rightarrow> (str \<times> str) list" where
  "markdown_manifest V markdown_files =
     fold (\<lambda>p acc. case file_inventory_token V p of None \<Rightarrow> acc | Some t \<Rightarrow> dict_set p t acc)
       markdown_files []"

text \<open>\<open>_source_snapshot\<close>: operating system errors become the access error of the snapshot.\<close>

definition source_snapshot :: "vault_files \<Rightarrow> str \<Rightarrow> str \<Rightarrow> RecoverySourceSnapshot" where
  "source_snapshot V vault_path alexandria_root =
     (let listing = (if vf_root_exists V then vf_discover V else Some []);
          files = (case listing of None \<Rightarrow> [] | Some fs \<Rightarrow> fs);
          err1 = (if listing = None then Some ''source_snapshot_unreadable'' else None);
          representative = (case files of [] \<Rightarrow> None | p # ps \<Rightarrow> Some p);
          hash_outcome = (case representative of None \<Rightarrow> Some None | Some p \<Rightarrow> vf_sha256 V p);
          err2 = (if hash_outcome = None then Some ''source_snapshot_unreadable'' else err1);
          err3 = (if vf_root_exists V \<and> vf_disk_free V = None
                  then Some ''source_snapshot_unreadable'' else err2)
      in \<lparr> ss_vault_path = vault_path, ss_alexandria_root = alexandria_root,
           ss_managed_markdown_count = int (length files),
           ss_representative_path = map_option (\<lambda>p. vault_path @ ''/'' @ p) representative,
           ss_representative_sha256 = (case hash_outcome of None \<Rightarrow> None | Some h \<Rightarrow> h),
           ss_disk_free_bytes = (if vf_root_exists V then vf_disk_free V else None),
           ss_access_error = err3,
           ss_markdown_manifest = markdown_manifest V files \<rparr>)"

text \<open>\<open>_source_snapshot_from_vault\<close>: the same evidence, but operating system errors are raised.\<close>

definition source_snapshot_from_vault ::
  "vault_files \<Rightarrow> str \<Rightarrow> str \<Rightarrow> ('s, recovery_exn, RecoverySourceSnapshot) prog" where
  "source_snapshot_from_vault V vault_path alexandria_root =
     (case (if vf_root_exists V then vf_discover V else Some []) of
        None \<Rightarrow> raise (AnyException ''OSError'')
      | Some files \<Rightarrow>
          (let representative = (case files of [] \<Rightarrow> None | p # ps \<Rightarrow> Some p) in
           case (case representative of None \<Rightarrow> Some None | Some p \<Rightarrow> vf_sha256 V p) of
             None \<Rightarrow> raise (AnyException ''OSError'')
           | Some h \<Rightarrow>
               if vf_root_exists V \<and> vf_disk_free V = None then raise (AnyException ''OSError'')
               else ret \<lparr> ss_vault_path = vault_path, ss_alexandria_root = alexandria_root,
                      ss_managed_markdown_count = int (length files),
                      ss_representative_path = map_option (\<lambda>p. vault_path @ ''/'' @ p) representative,
                      ss_representative_sha256 = h,
                      ss_disk_free_bytes = (if vf_root_exists V then vf_disk_free V else None),
                      ss_access_error = None,
                      ss_markdown_manifest = markdown_manifest V files \<rparr>))"

section \<open>Source preservation\<close>

text \<open>\<open>_current_markdown_manifest\<close>: what the vault holds when the run verifies itself.\<close>

definition current_markdown_manifest :: "vault_files \<Rightarrow> ('s, recovery_exn, (str \<times> str) list) prog" where
  "current_markdown_manifest V =
     (case (if vf_root_exists V then vf_discover V else Some []) of
        None \<Rightarrow> raise (AnyException ''OSError'')
      | Some files \<Rightarrow> ret (markdown_manifest V files))"

definition removed_paths :: "(str \<times> str) list \<Rightarrow> (str \<times> str) list \<Rightarrow> str list" where
  "removed_paths before after =
     sort (filter (\<lambda>p. map_of after p = None) (fromkeys (map fst before)))"

definition added_paths :: "(str \<times> str) list \<Rightarrow> (str \<times> str) list \<Rightarrow> str list" where
  "added_paths before after =
     sort (filter (\<lambda>p. map_of before p = None) (fromkeys (map fst after)))"

definition changed_paths :: "(str \<times> str) list \<Rightarrow> (str \<times> str) list \<Rightarrow> str list" where
  "changed_paths before after =
     sort (filter (\<lambda>p. map_of after p \<noteq> None \<and> map_of before p \<noteq> map_of after p)
             (fromkeys (map fst before)))"

definition is_preserved :: "(str \<times> str) list \<Rightarrow> (str \<times> str) list \<Rightarrow> bool" where
  "is_preserved before after \<longleftrightarrow>
     removed_paths before after = [] \<and> added_paths before after = [] \<and> changed_paths before after = []"

definition preservation_report :: "(str \<times> str) list \<Rightarrow> (str \<times> str) list \<Rightarrow> json_object" where
  "preservation_report before after =
     (let texts = (\<lambda>ps. JList (map JStr ps)) in
      [(''preserved'', JBool (is_preserved before after)),
       (''managed_markdown_count'', JInt (int (length before))),
       (''removed_count'', JInt (int (length (removed_paths before after)))),
       (''changed_count'', JInt (int (length (changed_paths before after)))),
       (''added_count'', JInt (int (length (added_paths before after)))),
       (''removed_paths'', texts (removed_paths before after)),
       (''changed_paths'', texts (changed_paths before after)),
       (''added_paths'', texts (added_paths before after))])"

definition source_preservation_result ::
  "vault_files \<Rightarrow> RecoverySourceSnapshot \<Rightarrow> ('s, recovery_exn, json_object) prog" where
  "source_preservation_result V snapshot =
     bind (current_markdown_manifest V) (\<lambda>current.
     ret (preservation_report (ss_markdown_manifest snapshot) current))"

section \<open>Policy\<close>

definition default_idempotency_key :: "(str \<Rightarrow> str) \<Rightarrow> str \<Rightarrow> str \<Rightarrow> str" where
  "default_idempotency_key sha256_hex trigger actor =
     take 24 (sha256_hex (''postgresql:'' @ trigger @ '':'' @ actor))"

definition blocked_reasons ::
  "OperationalReadinessSnapshot \<Rightarrow> RecoverySourceSnapshot \<Rightarrow> str list" where
  "blocked_reasons readiness snapshot =
     (if \<not> ds_reachable (or_database readiness) then [''postgresql_server_recovery_required''] else []) @
     (case ss_access_error snapshot of None \<Rightarrow> [] | Some e \<Rightarrow> [e]) @
     (if \<not> vs_exists (or_vault readiness) then [''vault_not_found''] else []) @
     (if \<not> vs_alexandria_root_exists (or_vault readiness) then [''alexandria_root_not_found''] else []) @
     (if ss_managed_markdown_count snapshot = 0 then [''managed_markdown_not_found''] else [])"

definition plan_status ::
  "OperationalReadinessSnapshot \<Rightarrow> str list \<Rightarrow> OperationalReadinessStatus" where
  "plan_status readiness reasons =
     (if reasons \<noteq> [] then RS_BLOCKED
      else if or_status readiness = RS_RECOVERY_REQUIRED then RS_RECOVERY_REQUIRED
      else or_status readiness)"

definition diagnosis :: "OperationalReadinessSnapshot \<Rightarrow> str list" where
  "diagnosis readiness =
     (if \<not> ds_reachable (or_database readiness) then [''POSTGRESQL_DATABASE_UNREACHABLE'']
      else or_warnings readiness)"

definition reconciliation_only_issue :: "str list \<Rightarrow> bool" where
  "reconciliation_only_issue warnings \<longleftrightarrow>
     warnings \<noteq> [] \<and> list_all (\<lambda>w. starts_with w ''memory_reconciliation_'') warnings"

definition any_in :: "str list \<Rightarrow> str list \<Rightarrow> bool" where
  "any_in codes warnings = list_ex (\<lambda>w. w \<in> set codes) warnings"

definition plan_steps :: "OperationalReadinessSnapshot \<Rightarrow> RecoveryPlanStep list" where
  "plan_steps readiness =
     (if reconciliation_only_issue (or_warnings readiness) then
        [\<lparr> sp_code = ''inspect_memory_reconciliation'',
           sp_title = ''Inspect reconciliation diagnostics without rebuilding storage'',
           sp_mutates_state = False \<rparr>]
      else if \<not> ds_reachable (or_database readiness) then
        [\<lparr> sp_code = ''inspect_postgresql_backup_restore'',
           sp_title = ''Inspect PostgreSQL server backup and restore state'',
           sp_mutates_state = False \<rparr>]
      else
        let steps =
          [\<lparr> sp_code = ''snapshot_sources'', sp_title = ''Snapshot source vault metadata'',
             sp_mutates_state = False \<rparr>] @
          (if any_in [''obsidian_stale_notes_present'', ''obsidian_error_notes_present'',
                      ''rag_fts_not_healthy''] (or_warnings readiness)
           then [\<lparr> sp_code = ''reindex_vault'', sp_title = ''Rebuild Obsidian and lexical indexes'',
                    sp_mutates_state = True \<rparr>] else []) @
          (if any_in [''rag_vector_not_healthy'', ''rag_embedding_reindex_required'',
                      ''rag_embedding_not_healthy'', ''rag_default_strategy_not_hybrid'',
                      ''rag_status_warnings_present''] (or_warnings readiness)
           then [\<lparr> sp_code = ''reindex_embeddings'', sp_title = ''Rebuild retrieval embeddings'',
                    sp_mutates_state = True \<rparr>] else [])
        in if length steps > 1
           then steps @ [\<lparr> sp_code = ''verify_readiness'', sp_title = ''Verify operational readiness'',
                             sp_mutates_state = False \<rparr>]
           else steps)"

definition next_actions ::
  "OperationalReadinessStatus \<Rightarrow> str list \<Rightarrow> str list \<Rightarrow> str list" where
  "next_actions status reasons warnings =
     (if reasons \<noteq> [] then
        (if ''postgresql_server_recovery_required'' \<in> set reasons then [''restore_postgresql_from_backup'']
         else if any_in [''vault_not_found'', ''alexandria_root_not_found'',
                         ''managed_markdown_not_found'', ''source_snapshot_unreadable''] reasons
         then [''inspect_vault_configuration'']
         else [''resolve_recovery_blockers''])
      else if any_in [''database_unreachable'', ''database_integrity_not_healthy''] warnings
      then [''inspect_database'']
      else if any_in [''vault_not_found'', ''alexandria_root_not_found'',
                      ''obsidian_stale_notes_present'', ''obsidian_error_notes_present''] warnings
      then [''inspect_vault_configuration'']
      else
        let actions =
          (if ''memory_reconciliation_repository_unreachable'' \<in> set warnings
           then [''inspect_memory_reconciliation_repository''] else []) @
          (if any_in [''memory_reconciliation_partial_apply_present'',
                      ''memory_reconciliation_failed_results_present''] warnings
           then [''inspect_memory_reconciliation_failures''] else []) @
          (if ''memory_reconciliation_hard_delete_detected'' \<in> set warnings
           then [''audit_memory_reconciliation_integrity''] else []) @
          (if ''memory_reconciliation_temporal_backfill_required'' \<in> set warnings
           then [''preview_existing_memory_reconciliation''] else []) @
          (if any_in [''memory_reconciliation_review_required'', ''memory_reconciliation_open_conflicts'',
                      ''memory_reconciliation_reviews_in_progress''] warnings
           then [''review_memory_reconciliation''] else [])
        in if actions \<noteq> [] then fromkeys actions
           else if status = RS_RECOVERY_REQUIRED then [''start_recovery_run'']
           else [''no_recovery_required''])"

section \<open>Assembling the plan\<close>

text \<open>\<open>request.idempotency_key or _default_idempotency_key(...)\<close>: the empty text counts as absent.\<close>

definition plan_idempotency_key :: "(str \<Rightarrow> str) \<Rightarrow> RecoveryPlanRequest \<Rightarrow> str" where
  "plan_idempotency_key sha256_hex request =
     (case rq_idempotency_key request of
        Some k \<Rightarrow> if k \<noteq> [] then k
                  else default_idempotency_key sha256_hex (rq_trigger request) (rq_actor request)
      | None \<Rightarrow> default_idempotency_key sha256_hex (rq_trigger request) (rq_actor request))"

definition plan_run_id :: "(str \<Rightarrow> str) \<Rightarrow> str \<Rightarrow> str" where
  "plan_run_id uuid5 key = uuid5 (''heterarchy-alexandria:recovery:postgresql:'' @ key)"

definition recovery_plan ::
  "(str \<Rightarrow> str) \<Rightarrow> (str \<Rightarrow> str) \<Rightarrow> instant \<Rightarrow> vault_files \<Rightarrow> OperationalReadinessSnapshot
   \<Rightarrow> RecoveryPlanRequest \<Rightarrow> RecoveryPlan" where
  "recovery_plan sha256_hex uuid5 now V readiness request =
     (let key = plan_idempotency_key sha256_hex request;
          snapshot = source_snapshot V (vs_vault_path (or_vault readiness))
                       (vs_alexandria_root (or_vault readiness));
          reasons = blocked_reasons readiness snapshot;
          steps = plan_steps readiness;
          has_automatic_repair = list_ex sp_mutates_state steps;
          allowed = (ds_reachable (or_database readiness) \<and> has_automatic_repair \<and> reasons = []);
          status = (if allowed then RS_RECOVERY_REQUIRED else plan_status readiness reasons)
      in \<lparr> rpl_id = plan_run_id uuid5 key,
           rpl_parent_run_id = rq_parent_run_id request,
           rpl_idempotency_key = key,
           rpl_trigger = rq_trigger request,
           rpl_actor = rq_actor request,
           rpl_status = status,
           rpl_created_at = now,
           rpl_dry_run = True,
           rpl_automatic_execution_allowed = allowed,
           rpl_diagnosis = diagnosis readiness,
           rpl_blocked_reasons = reasons,
           rpl_source_snapshot = snapshot,
           rpl_steps = steps,
           rpl_estimated_reindex_scope =
             [(''vault_indexed_notes'', case vs_indexed_notes (or_vault readiness) of None \<Rightarrow> JNull | Some n \<Rightarrow> JInt n),
              (''managed_markdown_count'', JInt (ss_managed_markdown_count snapshot)),
              (''embedding_strategy'', JStr (or_effective_strategy readiness))],
           rpl_service_impact =
             [if allowed then ''search_blocked_until_verify'' else ''no_mutation_planned''],
           rpl_next_actions = next_actions status reasons (or_warnings readiness),
           rpl_readiness = readiness,
           rpl_warnings = or_warnings readiness \<rparr>)"

section \<open>Facts\<close>

lemma recovery_plan_simps [simp]:
  "rpl_steps (recovery_plan h u now V r q) = plan_steps r"
  "rpl_id (recovery_plan h u now V r q) = plan_run_id u (plan_idempotency_key h q)"
  "rpl_idempotency_key (recovery_plan h u now V r q) = plan_idempotency_key h q"
  by (simp_all add: recovery_plan_def Let_def)

lemma removed_added_changed:
  "removed_paths b a = [] \<longleftrightarrow> dom (map_of b) \<subseteq> dom (map_of a)"
  "added_paths b a = [] \<longleftrightarrow> dom (map_of a) \<subseteq> dom (map_of b)"
  "changed_paths b a = [] \<longleftrightarrow> (\<forall>p\<in>dom (map_of b) \<inter> dom (map_of a). map_of b p = map_of a p)"
proof -
  have sort_Nil: "sort xs = [] \<longleftrightarrow> xs = []" for xs :: "str list" by (metis set_empty set_sort)
  show "removed_paths b a = [] \<longleftrightarrow> dom (map_of b) \<subseteq> dom (map_of a)"
    by (auto simp: removed_paths_def sort_Nil filter_empty_conv dom_map_of_conv_image_fst map_of_eq_None_iff)
  show "added_paths b a = [] \<longleftrightarrow> dom (map_of a) \<subseteq> dom (map_of b)"
    by (auto simp: added_paths_def sort_Nil filter_empty_conv dom_map_of_conv_image_fst map_of_eq_None_iff)
  show "changed_paths b a = [] \<longleftrightarrow> (\<forall>p\<in>dom (map_of b) \<inter> dom (map_of a). map_of b p = map_of a p)"
    unfolding changed_paths_def sort_Nil filter_empty_conv set_fromkeys set_map
      dom_map_of_conv_image_fst [of b, symmetric] by blast
qed

lemma plan_steps_reachable:
  assumes "list_ex sp_mutates_state (plan_steps readiness)"
  shows "\<exists>mid. map sp_code (plan_steps readiness) = [''snapshot_sources''] @ mid @ [''verify_readiness''] \<and>
     mid \<noteq> [] \<and> set mid \<subseteq> {''reindex_vault'', ''reindex_embeddings''} \<and> distinct mid"
  using assms by (auto simp: plan_steps_def Let_def split: if_splits)

section \<open>Properties\<close>

text \<open>
  C18: a recovery is only executed when it is safe and complete. A plan that allows automatic
  execution has no blocked reason (the database is reachable, the vault and its root exist, the
  sources could be read and are not empty), and its steps are: snapshot the sources first, then at
  least one rebuild, each at most once, and verify readiness last.
\<close>

theorem executable_plans_are_safe:
  assumes "rpl_automatic_execution_allowed (recovery_plan h u now V readiness request)"
  shows "rpl_blocked_reasons (recovery_plan h u now V readiness request) = [] \<and>
     ds_reachable (or_database readiness) \<and> vs_exists (or_vault readiness) \<and>
     vs_alexandria_root_exists (or_vault readiness) \<and>
     ss_access_error (rpl_source_snapshot (recovery_plan h u now V readiness request)) = None \<and>
     ss_managed_markdown_count (rpl_source_snapshot (recovery_plan h u now V readiness request)) > 0 \<and>
     (\<exists>mid. map sp_code (rpl_steps (recovery_plan h u now V readiness request)) =
          [''snapshot_sources''] @ mid @ [''verify_readiness''] \<and>
        mid \<noteq> [] \<and> set mid \<subseteq> {''reindex_vault'', ''reindex_embeddings''} \<and> distinct mid)"
proof -
  let ?s = "source_snapshot V (vs_vault_path (or_vault readiness)) (vs_alexandria_root (or_vault readiness))"
  have a: "ds_reachable (or_database readiness)" "list_ex sp_mutates_state (plan_steps readiness)"
    "blocked_reasons readiness ?s = []"
    using assms by (simp_all add: recovery_plan_def Let_def)
  have "ss_managed_markdown_count ?s \<ge> 0" by (simp add: source_snapshot_def Let_def)
  with a show ?thesis
    using plan_steps_reachable [OF a(2)]
    by (auto simp: recovery_plan_def Let_def blocked_reasons_def split: if_splits option.splits)
qed

definition sample_vault :: vault_files where
  "sample_vault = \<lparr> vf_root_exists = True, vf_discover = Some [''a.md'', ''b.md''],
     vf_stat = (\<lambda>p. Some (3, 7)), vf_sha256 = (\<lambda>p. Some (Some ''cafe'')), vf_disk_free = Some 100 \<rparr>"

definition sample_readiness :: "str list \<Rightarrow> OperationalReadinessSnapshot" where
  "sample_readiness warnings =
     \<lparr> or_status = RS_DEGRADED_FTS_ONLY, or_ready = False,
       or_vault = \<lparr> vs_exists = True, vs_readable = True, vs_vault_path = ''/v'', vs_alexandria_root = ''A'',
         vs_alexandria_root_exists = True, vs_indexed_notes = Some 2, vs_stale_notes = Some 1, vs_error_notes = Some 0 \<rparr>,
       or_database = \<lparr> ds_reachable = True, ds_integrity = ''ok'', ds_schema_version = None, ds_corruption_detected = False \<rparr>,
       or_effective_strategy = ''HYBRID'', or_warnings = warnings, or_blockers = [] \<rparr>"

definition sample_request :: RecoveryPlanRequest where
  "sample_request = \<lparr> rq_trigger = ''manual'', rq_actor = ''operator'', rq_idempotency_key = Some ''k'', rq_parent_run_id = None \<rparr>"

lemmas sample_plan_defs = sample_vault_def sample_readiness_def sample_request_def recovery_plan_def
  source_snapshot_def blocked_reasons_def plan_steps_def reconciliation_only_issue_def any_in_def Let_def

theorem executable_plans_are_safe_witness:
  "map sp_code (rpl_steps (recovery_plan (\<lambda>x. x) (\<lambda>x. x) 0 sample_vault
      (sample_readiness [''rag_vector_not_healthy'']) sample_request)) =
     [''snapshot_sources'', ''reindex_embeddings'', ''verify_readiness''] \<and>
   ss_managed_markdown_count (rpl_source_snapshot (recovery_plan (\<lambda>x. x) (\<lambda>x. x) 0 sample_vault
      (sample_readiness [''rag_vector_not_healthy'']) sample_request)) > 0"
proof -
  let ?p = "recovery_plan (\<lambda>x. x) (\<lambda>x. x) 0 sample_vault (sample_readiness [''rag_vector_not_healthy'']) sample_request"
  have "rpl_automatic_execution_allowed ?p" by (simp add: sample_plan_defs)
  from executable_plans_are_safe [OF this] show ?thesis by (simp add: sample_plan_defs)
qed

text \<open>
  the preservation report is exact: it says preserved precisely when the vault holds the same
  managed notes with the same inventory tokens as the snapshot, and otherwise lists exactly the
  removed, the added and the changed paths, each once and in order.
\<close>

theorem preservation_report_is_exact:
  "(json_get ''preserved'' (preservation_report before after) = JBool True \<longleftrightarrow> map_of before = map_of after) \<and>
   set (removed_paths before after) = dom (map_of before) - dom (map_of after) \<and>
   set (added_paths before after) = dom (map_of after) - dom (map_of before) \<and>
   set (changed_paths before after) =
     {p \<in> dom (map_of before) \<inter> dom (map_of after). map_of before p \<noteq> map_of after p} \<and>
   distinct (removed_paths before after @ added_paths before after @ changed_paths before after) \<and>
   sorted (removed_paths before after) \<and> sorted (added_paths before after) \<and> sorted (changed_paths before after)"
proof (intro conjI)
  show rem: "set (removed_paths before after) = dom (map_of before) - dom (map_of after)"
    by (auto simp: removed_paths_def dom_map_of_conv_image_fst map_of_eq_None_iff)
  show add: "set (added_paths before after) = dom (map_of after) - dom (map_of before)"
    by (auto simp: added_paths_def dom_map_of_conv_image_fst map_of_eq_None_iff)
  show cha: "set (changed_paths before after) =
      {p \<in> dom (map_of before) \<inter> dom (map_of after). map_of before p \<noteq> map_of after p}"
    unfolding changed_paths_def set_sort set_filter set_fromkeys set_map
      dom_map_of_conv_image_fst [of before, symmetric] by blast
  have "is_preserved before after \<longleftrightarrow> map_of before = map_of after"
  proof
    assume "is_preserved before after"
    then have *: "dom (map_of before) = dom (map_of after)"
      "\<forall>p\<in>dom (map_of before) \<inter> dom (map_of after). map_of before p = map_of after p"
      unfolding is_preserved_def removed_added_changed by blast+
    then show "map_of before = map_of after" by (intro map_le_antisym) (auto simp: map_le_def)
  qed (simp add: is_preserved_def removed_added_changed)
  then show "json_get ''preserved'' (preservation_report before after) = JBool True \<longleftrightarrow> map_of before = map_of after"
    by (simp add: json_get_def preservation_report_def Let_def)
  show "distinct (removed_paths before after @ added_paths before after @ changed_paths before after)"
    using rem add cha by (auto simp: removed_paths_def added_paths_def changed_paths_def)
qed (simp_all add: removed_paths_def added_paths_def changed_paths_def)

end
