(* ===== verification/Recovery_Run.thy ===== *)
theory Recovery_Run
  imports Recovery_Plan
begin

text \<open>
  Executing a recovery: step execution and skipping (\<open>recovery_run_step_execution.py\<close>), the
  mutating steps (\<open>recovery_run_mutation_operations.py\<close>), the final verification
  (\<open>recovery_run_verification_service.py\<close>) and the run lifecycle
  (\<open>RecoveryRunService.start\<close>, \<open>get\<close> and \<open>retry\<close>).

  The state is the record files and a runtime of arbitrary type (database, index, vault), reached
  through the ports of the service. The Python locals that survive an exception inside the loop of
  \<open>start\<close> are fields of the state of the loop. The clock is read per call site, named by the
  argument; hashing (sha256 of the serialised step input, uuid5) and the text of a JSON value are
  parameters.
\<close>

section \<open>Ports\<close>

text \<open>The fields of notes and of reindex reports that the recovery code reads.\<close>

record note_ref =
  nr_note_id :: str
  nr_relative_path :: str
  nr_title :: str
  nr_content_hash :: str

record vault_reindex_report =
  vr_files_seen :: int
  vr_files_indexed :: int
  vr_files_skipped :: int
  vr_stale_marked :: int
  vr_errors :: "str list"

record embedding_reindex_report =
  er_scanned :: int
  er_updated :: int
  er_skipped :: int
  er_warnings :: "str list"

record 'w ports =
  pt_readiness :: "str option \<Rightarrow> ('w, recovery_exn, OperationalReadinessSnapshot) prog"
  pt_vault :: "'w \<Rightarrow> vault_files"
  pt_vault_status :: "('w, recovery_exn, str \<times> str) prog"
  pt_reindex :: "('w, recovery_exn, vault_reindex_report) prog"
  pt_reindex_embeddings :: "int \<Rightarrow> bool \<Rightarrow> ('w, recovery_exn, embedding_reindex_report) prog"
  pt_search :: "str \<Rightarrow> int \<Rightarrow> ('w, recovery_exn, note_ref list) prog"
  pt_read_note :: "str \<Rightarrow> ('w, recovery_exn, note_ref) prog"
  pt_read_note_by_path :: "str \<Rightarrow> ('w, recovery_exn, note_ref) prog"
  pt_commit :: "('w, recovery_exn, unit) prog"
  pt_rollback :: "'w \<Rightarrow> 'w"

record ('b, 'w) recovery_env =
  ne_codec :: "'b codec"
  ne_ports :: "'w ports"
  ne_sha256_hex :: "str \<Rightarrow> str"
  ne_uuid5 :: "str \<Rightarrow> str"
  ne_step_digest :: "json \<Rightarrow> str"
  ne_py_str :: "json \<Rightarrow> str"
  ne_now :: "str \<Rightarrow> instant"

text \<open>\<open>async with request_session()\<close>: roll back and re-raise on an exception, commit otherwise.\<close>

definition in_session :: "'w ports \<Rightarrow> ('w, recovery_exn, 'a) prog \<Rightarrow> ('w, recovery_exn, 'a) prog" where
  "in_session T m w =
     (case m w of
        (Inl e, w') \<Rightarrow> (Inl e, pt_rollback T w')
      | (Inr x, w') \<Rightarrow> bind (pt_commit T) (\<lambda>_. ret x) w')"

section \<open>Mutating steps\<close>

definition reindex_vault :: "'w ports \<Rightarrow> ('w, recovery_exn, json_object) prog" where
  "reindex_vault T =
     bind (in_session T (pt_reindex T)) (\<lambda>result.
     ret [(''files_seen'', JInt (vr_files_seen result)),
          (''files_indexed'', JInt (vr_files_indexed result)),
          (''files_skipped'', JInt (vr_files_skipped result)),
          (''stale_marked'', JInt (vr_stale_marked result)),
          (''errors'', JList (map JStr (vr_errors result)))])"

definition reindex_embeddings :: "'w ports \<Rightarrow> ('w, recovery_exn, json_object) prog" where
  "reindex_embeddings T =
     bind (in_session T (pt_reindex_embeddings T 250 False)) (\<lambda>result.
     ret [(''scanned'', JInt (er_scanned result)),
          (''updated'', JInt (er_updated result)),
          (''skipped'', JInt (er_skipped result)),
          (''warnings'', JList (map JStr (er_warnings result)))])"

section \<open>Verification\<close>

text \<open>The representative query and path suffix of the source, in UTF-8.\<close>

definition REPRESENTATIVE_QUERY :: str where
  "REPRESENTATIVE_QUERY = map (\<lambda>n. char_of (n :: nat)) [236, 154, 180, 236, 152, 129, 32, 236, 149, 136, 236, 160, 149, 236, 132, 177, 32, 236, 158, 144, 235, 143, 153, 32, 235, 179, 181, 234, 181, 172, 32, 235, 163, 168, 237, 148, 132]"

definition REPRESENTATIVE_NOTE_ID :: str where
  "REPRESENTATIVE_NOTE_ID = ''prd_operational_readiness_recovery_v0_1''"

definition REPRESENTATIVE_PATH_SUFFIX :: str where
  "REPRESENTATIVE_PATH_SUFFIX = ''Contexts/Projects/heterarchy-alexandria/dev-size/PRD/'' @
     map (\<lambda>n. char_of (n :: nat)) [80, 82, 68, 32, 45, 32, 236, 154, 180, 236, 152, 129, 32, 236, 149, 136, 236, 160, 149, 236, 132, 177, 32, 235, 176, 143, 32, 236, 158, 144, 235, 143, 153, 32, 235, 179, 181, 234, 181, 172, 32, 235, 163, 168, 237, 148, 132, 46, 109, 100]"

definition representative_readback_note_payload :: "note_ref \<Rightarrow> json_object" where
  "representative_readback_note_payload note =
     [(''id'', JStr (nr_note_id note)), (''path'', JStr (nr_relative_path note)),
      (''title'', JStr (nr_title note)), (''content_hash'', JStr (nr_content_hash note))]"

definition readback_missing :: "json \<Rightarrow> json_object" where
  "readback_missing err =
     [(''matched'', JBool False), (''id_read'', JNull), (''path_read'', JNull), (''error'', err)]"

definition readback_matches :: "note_ref \<Rightarrow> note_ref \<Rightarrow> bool" where
  "readback_matches by_id by_path \<longleftrightarrow>
     nr_note_id by_id = REPRESENTATIVE_NOTE_ID \<and>
     ends_with (nr_relative_path by_id) REPRESENTATIVE_PATH_SUFFIX \<and>
     nr_note_id by_path = REPRESENTATIVE_NOTE_ID \<and>
     ends_with (nr_relative_path by_path) REPRESENTATIVE_PATH_SUFFIX \<and>
     nr_relative_path by_id = nr_relative_path by_path"

definition verify_representative_readback ::
  "'w ports \<Rightarrow> str option \<Rightarrow> ('w, recovery_exn, json_object) prog" where
  "verify_representative_readback T matched_path =
     (case matched_path of
        None \<Rightarrow> ret (readback_missing JNull)
      | Some path \<Rightarrow>
          try_catch
            (bind (pt_read_note T REPRESENTATIVE_NOTE_ID) (\<lambda>by_id.
             bind (pt_read_note_by_path T path) (\<lambda>by_path.
             ret [(''matched'', JBool (readback_matches by_id by_path)),
                  (''id_read'', JObj (representative_readback_note_payload by_id)),
                  (''path_read'', JObj (representative_readback_note_payload by_path)),
                  (''error'', JNull)])))
            (\<lambda>exc. ret (readback_missing (JStr (recovery_exn_text exc)))))"

definition representative_match :: "note_ref list \<Rightarrow> str option" where
  "representative_match hits =
     map_option nr_relative_path
       (find (\<lambda>h. nr_note_id h = REPRESENTATIVE_NOTE_ID \<and>
                  ends_with (nr_relative_path h) REPRESENTATIVE_PATH_SUFFIX) hits)"

definition verify_representative_search :: "'w ports \<Rightarrow> ('w, recovery_exn, json_object) prog" where
  "verify_representative_search T =
     bind (pt_search T REPRESENTATIVE_QUERY 5) (\<lambda>hits.
     let matched_path = representative_match hits in
     bind (verify_representative_readback T matched_path) (\<lambda>readback.
     ret [(''query'', JStr REPRESENTATIVE_QUERY),
          (''expected_id'', JStr REPRESENTATIVE_NOTE_ID),
          (''expected_path_suffix'', JStr REPRESENTATIVE_PATH_SUFFIX),
          (''matched'', JBool (matched_path \<noteq> None \<and> json_get ''matched'' readback = JBool True)),
          (''matches'', JList (map (\<lambda>h. JObj [(''id'', JStr (nr_note_id h)),
              (''path'', JStr (nr_relative_path h)), (''title'', JStr (nr_title h))]) hits)),
          (''readback'', JObj readback)]))"

definition verify_readiness :: "'w ports \<Rightarrow> RecoveryPlan \<Rightarrow> ('w, recovery_exn, json_object) prog" where
  "verify_readiness T plan =
     bind (in_session T
             (bind (pt_readiness T (Some (rpl_id plan))) (\<lambda>snapshot.
              bind (verify_representative_search T) (\<lambda>representative.
              ret (snapshot, representative))))) (\<lambda>(snapshot, representative).
     bind (gets (pt_vault T)) (\<lambda>V.
     bind (source_preservation_result V (rpl_source_snapshot plan)) (\<lambda>preservation.
     let matched = (json_get ''matched'' representative = JBool True);
         preserved = (json_get ''preserved'' preservation = JBool True);
         extra = (if \<not> matched then [''representative_search_missing''] else []) @
                 (if \<not> preserved then [''source_markdown_changed''] else [])
     in ret [(''status'', JStr (readiness_status_value (or_status snapshot))),
             (''ready'', JBool (or_ready snapshot \<and> matched \<and> preserved)),
             (''warnings'', JList (map JStr (or_warnings snapshot @ extra))),
             (''blockers'', JList (map JStr (or_blockers snapshot @ extra))),
             (''source_preservation'', JObj preservation),
             (''representative_search'', JObj representative)])))"

section \<open>Step execution\<close>

definition snapshot_sources :: "RecoveryPlan \<Rightarrow> json_object" where
  "snapshot_sources plan =
     (let s = rpl_source_snapshot plan; opt = (\<lambda>v. case v of None \<Rightarrow> JNull | Some t \<Rightarrow> JStr t) in
      [(''managed_markdown_count'', JInt (ss_managed_markdown_count s)),
       (''representative_path'', opt (ss_representative_path s)),
       (''representative_sha256'', opt (ss_representative_sha256 s)),
       (''markdown_manifest_count'', JInt (int (length (ss_markdown_manifest s))))])"

definition step_input_hash :: "(json \<Rightarrow> str) \<Rightarrow> str \<Rightarrow> json_object option \<Rightarrow> str" where
  "step_input_hash digest code input_payload =
     digest (JObj [(''code'', JStr code),
                   (''input'', JObj (case input_payload of None \<Rightarrow> [] | Some p \<Rightarrow> p))])"

definition execute_step ::
  "('b, 'w) recovery_env \<Rightarrow> str \<Rightarrow> ('s, recovery_exn, json_object) prog \<Rightarrow> json_object option
   \<Rightarrow> ('s, recovery_exn, RecoveryRunStepResult) prog" where
  "execute_step E code callback input_payload s =
     (let started_at = ne_now E (''step.started_at:'' @ code);
          finished_at = ne_now E (''step.finished_at:'' @ code);
          input_hash = step_input_hash (ne_step_digest E) code input_payload;
          done_with = (\<lambda>status result.
            \<lparr> rsr_code = code, rsr_status = status, rsr_attempts = 1, rsr_started_at = Some started_at,
              rsr_finished_at = Some finished_at, rsr_input_hash = input_hash, rsr_result = result \<rparr>)
      in case callback s of
           (Inl exc, s') \<Rightarrow> (Inr (done_with STEP_FAILED [(''error'', JStr (recovery_exn_text exc))]), s')
         | (Inr result, s') \<Rightarrow> (Inr (done_with STEP_SUCCEEDED result), s'))"

definition execute_or_skip_step ::
  "('b, 'w) recovery_env \<Rightarrow> str \<Rightarrow> ('s, recovery_exn, json_object) prog \<Rightarrow> RecoveryRun option
   \<Rightarrow> ((str \<times> str) \<times> RecoveryRunStepResult) list \<Rightarrow> json_object option
   \<Rightarrow> ('s, recovery_exn, RecoveryRunStepResult) prog" where
  "execute_or_skip_step E code callback parent_run parent_success_steps input_payload =
     (let input_hash = step_input_hash (ne_step_digest E) code input_payload;
          now = ne_now E (''step.skipped_at:'' @ code) in
      case (parent_run, map_of parent_success_steps (code, input_hash)) of
        (Some parent, Some step) \<Rightarrow>
          ret \<lparr> rsr_code = code, rsr_status = STEP_SKIPPED, rsr_attempts = 0,
                rsr_started_at = Some now, rsr_finished_at = Some now, rsr_input_hash = input_hash,
                rsr_result =
                  dict_set ''skipped_parent_step_status'' (JStr (step_status_value (rsr_status step)))
                    (dict_set ''skipped_from_parent_run_id'' (JStr (run_id parent)) (rsr_result step)) \<rparr>
      | _ \<Rightarrow> execute_step E code callback input_payload)"

definition require_step_success ::
  "RecoveryRunStepResult \<Rightarrow> str \<Rightarrow> ('s, recovery_exn, unit) prog" where
  "require_step_success step error_code =
     (if rsr_status step \<in> {STEP_SUCCEEDED, STEP_SKIPPED} then ret ()
      else raise (RecoveryStepFailedError error_code (rsr_code step @ '' failed'')))"

definition require_empty_result_list ::
  "(json \<Rightarrow> str) \<Rightarrow> RecoveryRunStepResult \<Rightarrow> str \<Rightarrow> str \<Rightarrow> ('s, recovery_exn, unit) prog" where
  "require_empty_result_list py_str step key error_code =
     (case json_get key (rsr_result step) of
        JList (v # vs) \<Rightarrow>
          raise (RecoveryStepFailedError error_code
            (rsr_code step @ '' reported '' @ key @ '': '' @ join '', '' (map py_str (v # vs))))
      | _ \<Rightarrow> ret ())"

section \<open>The loop of a run\<close>

record ('b, 'w) recovery_world =
  fw_files :: "'b fs"
  fw_runtime :: 'w

record ('b, 'w) run_state = "('b, 'w) recovery_world" +
  rl_step_results :: "RecoveryRunStepResult list"
  rl_rebuild_results :: json_object
  rl_verification_results :: json_object
  rl_current_step :: "str option"

definition on_files :: "('b fs, 'e, 'a) prog \<Rightarrow> (('b, 'w, 'z) recovery_world_scheme, 'e, 'a) prog" where
  "on_files m s = (case m (fw_files s) of (r, f) \<Rightarrow> (r, s\<lparr>fw_files := f\<rparr>))"

definition on_runtime :: "('w, 'e, 'a) prog \<Rightarrow> (('b, 'w, 'z) recovery_world_scheme, 'e, 'a) prog" where
  "on_runtime m s = (case m (fw_runtime s) of (r, w) \<Rightarrow> (r, s\<lparr>fw_runtime := w\<rparr>))"

definition run_step ::
  "('b, 'w) recovery_env \<Rightarrow> RecoveryPlan \<Rightarrow> RecoveryRun option
   \<Rightarrow> ((str \<times> str) \<times> RecoveryRunStepResult) list \<Rightarrow> str
   \<Rightarrow> (('b, 'w) run_state, recovery_exn, RecoveryRunStepResult) prog" where
  "run_step E plan parent parent_steps current_step =
     (if current_step = ''snapshot_sources'' then
        execute_or_skip_step E current_step (ret (snapshot_sources plan)) parent parent_steps None
      else if current_step = ''reindex_vault'' then
        bind (execute_or_skip_step E current_step (on_runtime (reindex_vault (ne_ports E))) parent parent_steps None)
          (\<lambda>result.
           seq (modify (\<lambda>s. s\<lparr>rl_rebuild_results := dict_set ''vault'' (JObj (rsr_result result)) (rl_rebuild_results s)\<rparr>))
           (seq (require_step_success result ''VAULT_REINDEX_FAILED'')
           (seq (require_empty_result_list (ne_py_str E) result ''errors'' ''VAULT_REINDEX_FAILED'')
                (ret result))))
      else if current_step = ''reindex_embeddings'' then
        bind (execute_or_skip_step E current_step (on_runtime (reindex_embeddings (ne_ports E))) parent parent_steps None)
          (\<lambda>result.
           seq (modify (\<lambda>s. s\<lparr>rl_rebuild_results := dict_set ''embeddings'' (JObj (rsr_result result)) (rl_rebuild_results s)\<rparr>))
           (seq (require_step_success result ''EMBEDDING_REINDEX_FAILED'')
           (seq (require_empty_result_list (ne_py_str E) result ''warnings'' ''EMBEDDING_REINDEX_REQUIRED'')
                (ret result))))
      else if current_step = ''verify_readiness'' then
        bind (execute_or_skip_step E current_step (on_runtime (verify_readiness (ne_ports E) plan)) parent parent_steps None)
          (\<lambda>result.
           seq (modify (\<lambda>s. s\<lparr>rl_verification_results := rsr_result result\<rparr>))
           (if json_get ''ready'' (rsr_result result) \<noteq> JBool True
            then raise (RecoveryStepFailedError ''READINESS_VERIFICATION_FAILED''
                          ''Operational readiness did not become READY.'')
            else ret result))
      else raise (RecoveryStepFailedError ''UNSUPPORTED_RECOVERY_STEP''
                    (''Unsupported recovery step: '' @ current_step)))"

fun run_steps ::
  "('b, 'w) recovery_env \<Rightarrow> RecoveryPlan \<Rightarrow> RecoveryRun option
   \<Rightarrow> ((str \<times> str) \<times> RecoveryRunStepResult) list \<Rightarrow> RecoveryPlanStep list
   \<Rightarrow> (('b, 'w) run_state, recovery_exn, unit) prog" where
  "run_steps E plan parent parent_steps [] = ret ()"
| "run_steps E plan parent parent_steps (planned # rest) =
     bind (on_files (checkpoint_active_step (ne_codec E) (rpl_id plan) (sp_code planned)
                       (ne_now E (''checkpoint:'' @ sp_code planned)))) (\<lambda>code.
     seq (modify (\<lambda>s. s\<lparr>rl_current_step := Some code\<rparr>))
     (bind (run_step E plan parent parent_steps code) (\<lambda>result.
      seq (modify (\<lambda>s. s\<lparr>rl_step_results := rl_step_results s @ [result]\<rparr>))
          (run_steps E plan parent parent_steps rest))))"

section \<open>The run lifecycle\<close>

definition blocked_run :: "RecoveryPlan \<Rightarrow> str \<Rightarrow> instant \<Rightarrow> RecoveryRun" where
  "blocked_run plan manifest_path now =
     \<lparr> run_id = rpl_id plan, run_parent_run_id = rpl_parent_run_id plan,
       run_idempotency_key = rpl_idempotency_key plan, run_trigger = rpl_trigger plan,
       run_actor = rpl_actor plan, run_status = RUN_BLOCKED, run_current_step = None,
       run_started_at = now, run_updated_at = now, run_finished_at = Some now,
       run_source_snapshot = rpl_source_snapshot plan, run_diagnosis = rpl_diagnosis plan,
       run_planned_steps = rpl_steps plan, run_step_results = [],
       run_rebuild_results = [], run_verification_results = [],
       run_error_code = Some ''RECOVERY_PLAN_BLOCKED'',
       run_error_summary = Some (join '', '' (rpl_blocked_reasons plan)),
       run_next_actions = rpl_next_actions plan, run_manifest_path = manifest_path \<rparr>"

definition initial_run_state :: "('b, 'w) recovery_world \<Rightarrow> ('b, 'w) run_state" where
  "initial_run_state w = recovery_world.extend w
     \<lparr> rl_step_results = [], rl_rebuild_results = [], rl_verification_results = [],
       rl_current_step = None \<rparr>"

text \<open>The outcome of the loop: status, error code and error summary.\<close>

definition loop_verdict :: "recovery_exn + unit \<Rightarrow> RecoveryRunStatus \<times> str option \<times> str option" where
  "loop_verdict result =
     (case result of
        Inr _ \<Rightarrow> (RUN_COMPLETED, None, None)
      | Inl (RecoveryStepFailedError code summary) \<Rightarrow> (RUN_FAILED, Some code, Some summary)
      | Inl exc \<Rightarrow> (RUN_FAILED, Some ''RECOVERY_RUN_FAILED'', Some (recovery_exn_text exc)))"

definition finished_run ::
  "('b, 'w) recovery_env \<Rightarrow> RecoveryPlan \<Rightarrow> recovery_exn + unit \<Rightarrow> ('b, 'w) run_state \<Rightarrow> RecoveryRun" where
  "finished_run E plan result s =
     (case loop_verdict result of (status, error_code, error_summary) \<Rightarrow>
      \<lparr> run_id = rpl_id plan, run_parent_run_id = rpl_parent_run_id plan,
        run_idempotency_key = rpl_idempotency_key plan, run_trigger = rpl_trigger plan,
        run_actor = rpl_actor plan, run_status = status, run_current_step = rl_current_step s,
        run_started_at = ne_now E ''run.started_at'', run_updated_at = ne_now E ''run.finished_at'',
        run_finished_at = Some (ne_now E ''run.finished_at''),
        run_source_snapshot = rpl_source_snapshot plan, run_diagnosis = rpl_diagnosis plan,
        run_planned_steps = rpl_steps plan, run_step_results = rl_step_results s,
        run_rebuild_results = rl_rebuild_results s,
        run_verification_results = rl_verification_results s,
        run_error_code = error_code, run_error_summary = error_summary,
        run_next_actions = (if status = RUN_COMPLETED then [] else [''inspect_recovery_run'']),
        run_manifest_path = manifest_path_by_id (ne_codec E) (rpl_id plan) \<rparr>)"

definition execute_run ::
  "('b, 'w) recovery_env \<Rightarrow> RecoveryPlan \<Rightarrow> RecoveryRun option
   \<Rightarrow> (('b, 'w) recovery_world, recovery_exn, RecoveryRun) prog" where
  "execute_run E plan parent w =
     (case run_steps E plan parent (successful_parent_steps parent) (rpl_steps plan) (initial_run_state w) of
        (result, s) \<Rightarrow>
          let run = finished_run E plan result s in
          seq (on_files (write_manifest (ne_codec E) run))
          (seq (on_files (clear_active_lock_for_run_id (ne_codec E) (rpl_id plan)))
               (ret run)) (recovery_world.truncate s))"

definition make_plan ::
  "('b, 'w) recovery_env \<Rightarrow> RecoveryPlanRequest \<Rightarrow> (('b, 'w) recovery_world, recovery_exn, RecoveryPlan) prog" where
  "make_plan E request =
     bind (on_runtime (pt_readiness (ne_ports E) None)) (\<lambda>readiness.
     gets (\<lambda>w. recovery_plan (ne_sha256_hex E) (ne_uuid5 E) (ne_now E ''plan.created_at'')
                 (pt_vault (ne_ports E) (fw_runtime w)) readiness request))"

definition start ::
  "('b, 'w) recovery_env \<Rightarrow> RecoveryPlanRequest \<Rightarrow> (('b, 'w) recovery_world, recovery_exn, RecoveryRun) prog" where
  "start E request =
     (let K = ne_codec E in
      bind (make_plan E request) (\<lambda>plan.
      let manifest_path = manifest_path_by_id K (rpl_id plan) in
      bind (gets (\<lambda>w. (fw_files w manifest_path, read_active_lock K (fw_files w)))) (\<lambda>(existing, active).
      if existing \<noteq> None then on_files (run_from_manifest K manifest_path)
      else (case active of
        Some l \<Rightarrow> raise (RecoveryInProgressError (lk_run_id l) (lk_idempotency_key l))
      | None \<Rightarrow>
          if \<not> rpl_automatic_execution_allowed plan then
            let run = blocked_run plan manifest_path (ne_now E ''run.blocked_at'') in
            seq (on_files (write_manifest K run)) (ret run)
          else
            bind (on_files (parent_run_for_retry K (rq_parent_run_id request))) (\<lambda>parent.
            seq (on_files (write_active_lock K (rpl_id plan) (rpl_idempotency_key plan)
                   (rpl_trigger plan) (rpl_actor plan) (ne_now E ''lock.started_at'')))
                (execute_run E plan parent))))))"

definition get_run ::
  "('b, 'w) recovery_env \<Rightarrow> str \<Rightarrow> (('b, 'w) recovery_world, recovery_exn, RecoveryRun option) prog" where
  "get_run E i =
     (let K = ne_codec E; manifest_path = manifest_path_by_id K i in
      bind (gets (\<lambda>w. (fw_files w manifest_path, read_active_lock K (fw_files w)))) (\<lambda>(existing, active).
      if existing = None then
        (case active of
           None \<Rightarrow> ret None
         | Some l \<Rightarrow>
             if lk_run_id l \<noteq> i then ret None
             else
               bind (on_runtime (pt_vault_status (ne_ports E))) (\<lambda>(vault_path, root).
               bind (gets (\<lambda>w. pt_vault (ne_ports E) (fw_runtime w))) (\<lambda>V.
               bind (source_snapshot_from_vault V vault_path root) (\<lambda>snapshot.
               let run = interrupted_active_run l snapshot manifest_path (ne_now E ''run.interrupted_at'') in
               seq (on_files (write_manifest K run))
               (seq (on_files (clear_active_lock_for_run_id K i)) (ret (Some run)))))))
      else bind (on_files (run_from_manifest K manifest_path)) (\<lambda>run. ret (Some run))))"

definition retry ::
  "('b, 'w) recovery_env \<Rightarrow> str \<Rightarrow> RecoveryPlanRequest
   \<Rightarrow> (('b, 'w) recovery_world, recovery_exn, RecoveryRun option) prog" where
  "retry E parent_run_id request =
     bind (get_run E parent_run_id) (\<lambda>parent_run.
       case parent_run of
         None \<Rightarrow> ret None
       | Some _ \<Rightarrow>
           bind (start E
             \<lparr> rq_trigger = rq_trigger request, rq_actor = rq_actor request,
               rq_idempotency_key = Some (case rq_idempotency_key request of
                 Some k \<Rightarrow> if k \<noteq> [] then k else default_retry_idempotency_key parent_run_id
               | None \<Rightarrow> default_retry_idempotency_key parent_run_id),
               rq_parent_run_id = Some parent_run_id \<rparr>)
             (\<lambda>run. ret (Some run)))"

end
