(* ===== verification/Recovery_Lock.thy ===== *)
theory Recovery_Lock
  imports Recovery_Model
begin

text \<open>
  The active record as a lock between recovery runs. The interface \<open>exclusive_record\<close> states what
  runs rely on: admission only into a free record, steps only by the owner, release only of one's
  own record. Sequences of events, in any interleaving of any number of runs, are replayed over
  it, and the record files of \<open>recovery_run_manifest.py\<close> are shown to implement it.
\<close>

section \<open>Interface\<close>

datatype 'a lock_event = Admitted str 'a | Stepped str 'a | Released str

fun replay ::
  "(str \<Rightarrow> 'a \<Rightarrow> 's \<Rightarrow> 's option) \<Rightarrow> (str \<Rightarrow> 'a \<Rightarrow> 's \<Rightarrow> 's option) \<Rightarrow> (str \<Rightarrow> 's \<Rightarrow> 's)
   \<Rightarrow> 'a lock_event list \<Rightarrow> 's \<Rightarrow> 's option" where
  "replay acquire touch release [] s = Some s"
| "replay acquire touch release (Admitted r a # es) s =
     (case acquire r a s of None \<Rightarrow> None | Some s' \<Rightarrow> replay acquire touch release es s')"
| "replay acquire touch release (Stepped r a # es) s =
     (case touch r a s of None \<Rightarrow> None | Some s' \<Rightarrow> replay acquire touch release es s')"
| "replay acquire touch release (Released r # es) s = replay acquire touch release es (release r s)"

text \<open>Who owns the record after a sequence of events.\<close>

fun owner_after :: "'a lock_event list \<Rightarrow> str option \<Rightarrow> str option" where
  "owner_after [] h = h"
| "owner_after (Admitted r a # es) h = owner_after es (Some r)"
| "owner_after (Stepped r a # es) h = owner_after es h"
| "owner_after (Released r # es) h = owner_after es (if h = Some r then None else h)"

locale exclusive_record =
  fixes inv :: "'s \<Rightarrow> bool"
    and holder :: "'s \<Rightarrow> str option"
    and acquire :: "str \<Rightarrow> 'a \<Rightarrow> 's \<Rightarrow> 's option"
    and touch :: "str \<Rightarrow> 'a \<Rightarrow> 's \<Rightarrow> 's option"
    and release :: "str \<Rightarrow> 's \<Rightarrow> 's"
  assumes acquire_free: "inv s \<Longrightarrow> acquire r a s = Some s' \<Longrightarrow> holder s = None \<and> holder s' = Some r \<and> inv s'"
    and touch_owner: "inv s \<Longrightarrow> touch r a s = Some s' \<Longrightarrow> holder s = Some r \<and> holder s' = Some r \<and> inv s'"
    and release_own: "inv s \<Longrightarrow> holder (release r s) = (if holder s = Some r then None else holder s) \<and> inv (release r s)"
begin

lemma replay_append:
  "replay acquire touch release (es @ es') s =
     (case replay acquire touch release es s of None \<Rightarrow> None | Some s' \<Rightarrow> replay acquire touch release es' s')"
proof (induction es arbitrary: s)
  case (Cons e es)
  then show ?case by (cases e) (simp_all split: option.split)
qed simp

text \<open>One event, and what it does to the owner.\<close>

lemma replay_Cons:
  assumes "inv s" and "replay acquire touch release (e # es) s = Some s'"
  obtains s1 where "replay acquire touch release [e] s = Some s1" "replay acquire touch release es s1 = Some s'"
    "inv s1" "holder s1 = owner_after [e] (holder s)"
    "case e of Admitted r a \<Rightarrow> holder s = None | Stepped r a \<Rightarrow> holder s = Some r | Released r \<Rightarrow> True"
proof (cases e)
  case (Admitted r a)
  with assms obtain s1 where s1: "acquire r a s = Some s1" "replay acquire touch release es s1 = Some s'"
    by (auto split: option.splits)
  with acquire_free [OF assms(1) s1(1)] Admitted that [of s1] show thesis by simp
next
  case (Stepped r a)
  with assms obtain s1 where s1: "touch r a s = Some s1" "replay acquire touch release es s1 = Some s'"
    by (auto split: option.splits)
  with touch_owner [OF assms(1) s1(1)] Stepped that [of s1] show thesis by simp
next
  case (Released r)
  with assms release_own [OF assms(1), of r] that [of "release r s"] show thesis by simp
qed

lemma owner_after_Cons: "owner_after (e # es) h = owner_after es (owner_after [e] h)"
  by (cases e) simp_all

text \<open>The record implements the abstract owner.\<close>

lemma replay_refines_owner:
  "inv s \<Longrightarrow> replay acquire touch release es s = Some s' \<Longrightarrow> inv s' \<and> holder s' = owner_after es (holder s)"
proof (induction es arbitrary: s)
  case (Cons e es)
  from Cons.prems obtain s1 where "replay acquire touch release es s1 = Some s'" "inv s1"
    "holder s1 = owner_after [e] (holder s)" by (rule replay_Cons)
  with Cons.IH [of s1] show ?case by (simp add: owner_after_Cons [of e es])
qed simp

lemma owner_kept_until_released:
  "inv s \<Longrightarrow> holder s = Some r \<Longrightarrow> replay acquire touch release es s = Some s' \<Longrightarrow> Released r \<notin> set es \<Longrightarrow>
   inv s' \<and> holder s' = Some r"
proof (induction es arbitrary: s)
  case (Cons e es)
  from Cons.prems(1,3) obtain s1 where s1: "replay acquire touch release es s1 = Some s'" "inv s1"
    "holder s1 = owner_after [e] (holder s)"
    "case e of Admitted r a \<Rightarrow> holder s = None | Stepped r a \<Rightarrow> holder s = Some r | Released r \<Rightarrow> True"
    by (rule replay_Cons)
  have "holder s1 = Some r" using s1(3,4) Cons.prems(2,4) by (cases e) auto
  with Cons.IH [of s1] s1(1,2) Cons.prems(4) show ?case by simp
qed simp

text \<open>Between the admission of one run and a step or admission of another, the first was released.\<close>

lemma exclusion:
  assumes "inv s" and "replay acquire touch release (xs @ [Admitted r a] @ ys @ [e]) s = Some s'"
    and "e = Stepped q b \<or> e = Admitted q b" and "q \<noteq> r"
  shows "Released r \<in> set ys"
proof (rule ccontr)
  assume not: "Released r \<notin> set ys"
  obtain s1 s2 s3 where s1: "replay acquire touch release xs s = Some s1" and s2: "acquire r a s1 = Some s2"
    and s3: "replay acquire touch release ys s2 = Some s3" and last: "replay acquire touch release [e] s3 = Some s'"
    using assms(2) by (auto simp: replay_append split: option.splits)
  have "inv s1" using replay_refines_owner [OF assms(1) s1] by simp
  then have "inv s2" "holder s2 = Some r" using acquire_free s2 by blast+
  then have "inv s3 \<and> holder s3 = Some r" using owner_kept_until_released [OF _ _ s3 not] by simp
  then have s3i: "inv s3" "holder s3 = Some r" by simp_all
  from s3i(1) last have "case e of Admitted r a \<Rightarrow> holder s3 = None | Stepped r a \<Rightarrow> holder s3 = Some r | Released r \<Rightarrow> True"
    by (rule replay_Cons)
  with s3i(2) assms(3,4) show False by auto
qed

end

section \<open>The record files\<close>

text \<open>What an event carries: the identity and time of an admission, the step and time of a checkpoint.\<close>

record event_data =
  ed_key :: str
  ed_trigger :: str
  ed_actor :: str
  ed_step :: str
  ed_at :: instant

definition lock_holder :: "'b codec \<times> 'b fs \<Rightarrow> str option" where
  "lock_holder s = (case s of (K, files) \<Rightarrow> map_option lk_run_id (read_active_lock K files))"

definition returned_files :: "'b codec \<Rightarrow> ('e + 'a) \<times> 'b fs \<Rightarrow> ('b codec \<times> 'b fs) option" where
  "returned_files K r = (case r of (Inr _, files) \<Rightarrow> Some (K, files) | (Inl _, _) \<Rightarrow> None)"

definition lock_admit :: "str \<Rightarrow> event_data \<Rightarrow> 'b codec \<times> 'b fs \<Rightarrow> ('b codec \<times> 'b fs) option" where
  "lock_admit r d s = (case s of (K, files) \<Rightarrow>
     returned_files K (write_active_lock K r (ed_key d) (ed_trigger d) (ed_actor d) (ed_at d) files))"

definition lock_checkpoint :: "str \<Rightarrow> event_data \<Rightarrow> 'b codec \<times> 'b fs \<Rightarrow> ('b codec \<times> 'b fs) option" where
  "lock_checkpoint r d s = (case s of (K, files) \<Rightarrow>
     returned_files K (checkpoint_active_step K r (ed_step d) (ed_at d) files))"

definition lock_clear :: "str \<Rightarrow> 'b codec \<times> 'b fs \<Rightarrow> 'b codec \<times> 'b fs" where
  "lock_clear r s = (case s of (K, files) \<Rightarrow> (K, snd (clear_active_lock_for_run_id K r files)))"

lemma write_lock_returns:
  "write_active_lock K r key t a now files = (Inr u, files') \<Longrightarrow>
     read_active_lock K files = None \<and>
     files' = files(active_lock_path K \<mapsto> co_lock_dump K \<lparr> lk_run_id = r, lk_idempotency_key = Some key,
        lk_trigger = t, lk_actor = a, lk_started_at = Some now, lk_current_step = None,
        lk_updated_at = None, lk_read_error = None \<rparr>)"
  by (auto simp: write_active_lock_def write_recovery_record_def split: option.splits)

lemma checkpoint_returns:
  "checkpoint_active_step K r code now files = (Inr c, files') \<Longrightarrow>
     c = code \<and> (\<exists>l. read_active_lock K files = Some l \<and> lk_run_id l = r \<and>
       files' = files(active_lock_path K \<mapsto> co_lock_dump K (l\<lparr> lk_current_step := Some code, lk_updated_at := Some now \<rparr>)))"
  by (auto simp: checkpoint_active_step_def write_recovery_record_def prog_simps
      split: option.splits if_splits)

lemma read_lock_written:
  "codec_ok K \<Longrightarrow> read_active_lock K (files(active_lock_path K \<mapsto> co_lock_dump K l)) = Some l"
  by (simp add: read_active_lock_def codec_ok_def)

lemma clear_lock_state:
  "snd (clear_active_lock_for_run_id K r files) =
     (if map_option lk_run_id (read_active_lock K files) = Some r then files(active_lock_path K := None) else files)"
  by (auto simp: clear_active_lock_for_run_id_def split: option.splits)

interpretation active_record: exclusive_record "\<lambda>s. codec_ok (fst s)" lock_holder lock_admit lock_checkpoint lock_clear
proof unfold_locales
  fix s s' :: "'b codec \<times> 'b fs" and r :: str and d :: event_data
  obtain K files where s: "s = (K, files)" by (cases s)
  show "lock_holder s = None \<and> lock_holder s' = Some r \<and> codec_ok (fst s')"
    if "codec_ok (fst s)" "lock_admit r d s = Some s'"
    using that s by (auto simp: lock_admit_def lock_holder_def returned_files_def read_lock_written
        split: prod.splits sum.splits dest!: write_lock_returns)
  show "lock_holder s = Some r \<and> lock_holder s' = Some r \<and> codec_ok (fst s')"
    if "codec_ok (fst s)" "lock_checkpoint r d s = Some s'"
    using that s by (auto simp: lock_checkpoint_def lock_holder_def returned_files_def read_lock_written
        split: prod.splits sum.splits dest!: checkpoint_returns)
  show "lock_holder (lock_clear r s) = (if lock_holder s = Some r then None else lock_holder s) \<and>
      codec_ok (fst (lock_clear r s))" if "codec_ok (fst s)"
    using that s by (auto simp: lock_clear_def lock_holder_def clear_lock_state read_active_lock_def)
qed

section \<open>Properties\<close>

text \<open>
  C2: recovery runs exclude each other. In every interleaving of admissions, step checkpoints and
  releases by any number of runs over the record files, once a run has been admitted no other run
  is admitted or starts a step until the record of the first has been released.
\<close>

theorem recovery_runs_exclude_each_other:
  assumes "codec_ok K"
    and "replay lock_admit lock_checkpoint lock_clear (xs @ [Admitted r a] @ ys @ [e]) (K, files) = Some s'"
    and "e = Stepped q b \<or> e = Admitted q b" and "q \<noteq> r"
  shows "Released r \<in> set ys"
  using active_record.exclusion [of "(K, files)" xs r a ys e s' q b] assms by simp

text \<open>A codec over contents that are the payloads themselves, on which writing never fails.\<close>

datatype record_file = LockFile RecoveryActiveLockPayload | RunFile RecoveryRunManifestPayload | OtherFile

definition sample_codec :: "record_file codec" where
  "sample_codec =
     \<lparr> co_lock_dump = LockFile,
       co_lock_load = (\<lambda>c. case c of LockFile l \<Rightarrow> Some l | _ \<Rightarrow> None),
       co_run_dump = RunFile,
       co_run_load = (\<lambda>c. case c of RunFile p \<Rightarrow> Some p | _ \<Rightarrow> None),
       co_write_fault = (\<lambda>_ _. None),
       co_recovery_dir = ''/r'' \<rparr>"

lemma sample_codec_ok [simp]: "codec_ok sample_codec" "writes_ok sample_codec"
  by (simp_all add: codec_ok_def writes_ok_def sample_codec_def)

definition sample_event :: event_data where
  "sample_event = \<lparr> ed_key = ''k'', ed_trigger = ''manual'', ed_actor = ''ann'', ed_step = ''snapshot_sources'', ed_at = 1 \<rparr>"

theorem recovery_runs_exclude_each_other_witness:
  "(\<exists>s'. replay lock_admit lock_checkpoint lock_clear
      ([] @ [Admitted ''r1'' sample_event] @ [Stepped ''r1'' sample_event, Released ''r1''] @
       [Admitted ''r2'' sample_event]) (sample_codec, Map.empty) = Some s') \<and>
   Released ''r1'' \<in> set [Stepped ''r1'' sample_event, Released ''r1'']"
proof -
  obtain s' where "replay lock_admit lock_checkpoint lock_clear
      ([] @ [Admitted ''r1'' sample_event] @ [Stepped ''r1'' sample_event, Released ''r1''] @
       [Admitted ''r2'' sample_event]) (sample_codec, Map.empty) = Some s'"
    by (simp add: lock_admit_def lock_checkpoint_def lock_clear_def returned_files_def write_active_lock_def
        checkpoint_active_step_def clear_active_lock_for_run_id_def read_active_lock_def
        write_recovery_record_def sample_codec_def sample_event_def prog_simps)
  then show ?thesis
    using recovery_runs_exclude_each_other [OF sample_codec_ok(1), of "[]" "''r1''" sample_event _
        "Admitted ''r2'' sample_event" Map.empty s' "''r2''" sample_event] by auto
qed

end
