(* ===== verification/Recovery_Properties.thy ===== *)
theory Recovery_Properties
  imports Recovery_Run Recovery_Lock
begin

text \<open>
  Properties of recovery runs: manifests read back as written, a recorded run is returned instead
  of being executed again, what a completed run has done, that every run ends and releases the
  record, when steps are skipped, and two behaviours worth knowing (reading a run that is still
  executing, retrying a completed run).
\<close>

section \<open>Manifests\<close>

lemma write_manifest_returns:
  "write_manifest K run files = (Inr u, files') \<Longrightarrow>
     files' = files(run_manifest_path run \<mapsto> co_run_dump K (run_payload run))"
  by (auto simp: write_manifest_def write_recovery_record_def split: option.splits)

lemma write_manifest_ok:
  "writes_ok K \<Longrightarrow> write_manifest K run files = (Inr (), files(run_manifest_path run \<mapsto> co_run_dump K (run_payload run)))"
  by (simp add: write_manifest_def write_recovery_record_def writes_ok_def)

text \<open>The files hold a run under its own manifest path.\<close>

definition recorded :: "'b codec \<Rightarrow> RecoveryRun \<Rightarrow> str \<Rightarrow> 'b fs \<Rightarrow> bool" where
  "recorded K run path files \<longleftrightarrow>
     (\<exists>c p. files path = Some c \<and> co_run_load K c = Some p \<and> run_from_payload p path = run)"

lemma recorded_read: "recorded K run path files \<Longrightarrow> run_from_manifest K path files = (Inr run, files)"
  by (auto simp: recorded_def run_from_manifest_def)

lemma recorded_written:
  assumes "codec_ok K" and "run_manifest_path run = path"
  shows "recorded K run path (files(path \<mapsto> co_run_dump K (run_payload run)))"
  unfolding recorded_def using assms by (auto simp: codec_ok_def)

lemma run_from_manifest_returns:
  "run_from_manifest K path files = (Inr run, files') \<Longrightarrow> files' = files \<and> recorded K run path files"
  by (auto simp: run_from_manifest_def recorded_def split: option.splits)

lemma clear_lock_keeps: "path \<noteq> active_lock_path K \<Longrightarrow>
    snd (clear_active_lock_for_run_id K i files) path = files path"
  by (auto simp: clear_active_lock_for_run_id_def split: option.splits)

section \<open>Executing\<close>

lemma fw_simps [simp]:
  "fw_files (recovery_world.truncate s) = fw_files s" "fw_runtime (recovery_world.truncate s) = fw_runtime s"
  "fw_files (initial_run_state w) = fw_files w" "fw_runtime (initial_run_state w) = fw_runtime w"
  "rl_step_results (initial_run_state w) = []"
  by (simp_all add: recovery_world.defs initial_run_state_def)

text \<open>How an execution ends: the manifest is written, then the record is cleared.\<close>

lemma execute_run_returns:
  assumes "execute_run E plan parent w = (Inr run, w')"
  obtains result s where
    "run_steps E plan parent (successful_parent_steps parent) (rpl_steps plan) (initial_run_state w) = (result, s)"
    "run = finished_run E plan result s"
    "fw_files w' = snd (clear_active_lock_for_run_id (ne_codec E) (rpl_id plan)
       ((fw_files s)(run_manifest_path run \<mapsto> co_run_dump (ne_codec E) (run_payload run))))"
    "fw_runtime w' = fw_runtime s"
proof -
  obtain result s where steps: "run_steps E plan parent (successful_parent_steps parent) (rpl_steps plan) (initial_run_state w) = (result, s)"
    by fastforce
  then show thesis
    using assms that write_manifest_returns
    by (fastforce simp: execute_run_def on_files_def seq_def bind_def ret_def Let_def
        split: prod.splits sum.splits)
qed

lemma finished_run_simps [simp]:
  "run_id (finished_run E plan result s) = rpl_id plan"
  "run_manifest_path (finished_run E plan result s) = manifest_path_by_id (ne_codec E) (rpl_id plan)"
  "run_step_results (finished_run E plan result s) = rl_step_results s"
  "run_planned_steps (finished_run E plan result s) = rpl_steps plan"
  "run_status (finished_run E plan result s) = fst (loop_verdict result)"
  "run_error_code (finished_run E plan result s) = fst (snd (loop_verdict result))"
  by (simp_all add: finished_run_def split: prod.split)

lemma loop_verdict_completed: "fst (loop_verdict result) = RUN_COMPLETED \<longleftrightarrow> result = Inr ()"
  by (cases result) (auto simp: loop_verdict_def split: recovery_exn.split)

lemma loop_verdict_cases:
  "loop_verdict result = (RUN_COMPLETED, None, None) \<or> (\<exists>c m. loop_verdict result = (RUN_FAILED, Some c, Some m))"
  by (cases result) (auto simp: loop_verdict_def split: recovery_exn.split)

lemma execute_run_total:
  assumes "writes_ok (ne_codec E)"
  shows "\<exists>run w'. execute_run E plan parent w = (Inr run, w')"
proof -
  obtain result s where "run_steps E plan parent (successful_parent_steps parent) (rpl_steps plan) (initial_run_state w) = (result, s)"
    by fastforce
  then show ?thesis
    using write_manifest_ok [OF assms]
    by (auto simp: execute_run_def on_files_def seq_def bind_def ret_def Let_def clear_active_lock_for_run_id_def
        split: prod.splits option.splits)
qed

section \<open>Steps\<close>

definition step_ok :: "RecoveryRunStepResult \<Rightarrow> bool" where
  "step_ok r \<longleftrightarrow>
     (rsr_code r \<in> {''reindex_vault'', ''reindex_embeddings''} \<longrightarrow> rsr_status r \<in> {STEP_SUCCEEDED, STEP_SKIPPED}) \<and>
     (rsr_code r = ''reindex_vault'' \<longrightarrow> (\<forall>v vs. json_get ''errors'' (rsr_result r) \<noteq> JList (v # vs))) \<and>
     (rsr_code r = ''reindex_embeddings'' \<longrightarrow> (\<forall>v vs. json_get ''warnings'' (rsr_result r) \<noteq> JList (v # vs))) \<and>
     (rsr_code r = ''verify_readiness'' \<longrightarrow> json_get ''ready'' (rsr_result r) = JBool True)"

lemma execute_or_skip_code:
  "execute_or_skip_step E code cb parent ps inp s = (Inr r, s') \<Longrightarrow> rsr_code r = code"
  by (auto simp: execute_or_skip_step_def execute_step_def ret_def Let_def
      split: option.splits prod.splits sum.splits)

lemma require_empty_returns:
  "require_empty_result_list f r key c s = (Inr u, s') \<Longrightarrow>
     s' = s \<and> (\<forall>v vs. json_get key (rsr_result r) \<noteq> JList (v # vs))"
  by (auto simp: require_empty_result_list_def ret_def raise_def split: json.splits list.splits)

lemma require_success_returns:
  "require_step_success r c s = (Inr u, s') \<Longrightarrow> s' = s \<and> rsr_status r \<in> {STEP_SUCCEEDED, STEP_SKIPPED}"
  by (auto simp: require_step_success_def ret_def raise_def split: if_splits)

lemma execute_or_skip_runtime:
  "\<exists>r w. execute_or_skip_step E code (on_runtime m) parent ps inp s = (Inr r, s\<lparr>fw_runtime := w\<rparr>) \<and> rsr_code r = code"
  by (cases "m (fw_runtime s)"; cases "fst (m (fw_runtime s))"; cases parent;
      cases "map_of ps (code, step_input_hash (ne_step_digest E) code inp)")
    (auto simp: execute_or_skip_step_def execute_step_def ret_def on_runtime_def Let_def intro: exI [of _ "fw_runtime s"])

text \<open>What a step that lets the loop go on has established; it adds nothing to the results itself.\<close>

lemma run_step_returns:
  assumes "run_step E plan parent ps code s = (Inr r, s')"
  shows "rsr_code r = code \<and> step_ok r \<and> rl_step_results s' = rl_step_results s"
proof -
  note unfold = run_step_def bind_def seq_def modify_def
  consider (snapshot) "code = ''snapshot_sources''" | (vault) "code = ''reindex_vault''"
    | (embeddings) "code = ''reindex_embeddings''" | (verify) "code = ''verify_readiness''"
    using assms by (auto simp: run_step_def raise_def split: if_splits)
  then show ?thesis
  proof cases
    case snapshot
    then have run: "execute_or_skip_step E code (ret (snapshot_sources plan)) parent ps None s = (Inr r, s')"
      using assms by (simp add: run_step_def)
    then have "rl_step_results s' = rl_step_results s"
      by (auto simp: execute_or_skip_step_def execute_step_def ret_def Let_def split: option.splits)
    then show ?thesis using execute_or_skip_code [OF run] snapshot by (simp add: step_ok_def)
  next
    case vault
    obtain r1 w where r1: "execute_or_skip_step E code (on_runtime (reindex_vault (ne_ports E))) parent ps None s = (Inr r1, s\<lparr>fw_runtime := w\<rparr>)"
      "rsr_code r1 = code" using execute_or_skip_runtime by metis
    show ?thesis
      using assms vault r1
      by (auto simp: unfold ret_def step_ok_def split: prod.splits sum.splits
          dest!: require_success_returns require_empty_returns)
  next
    case embeddings
    obtain r1 w where r1: "execute_or_skip_step E code (on_runtime (reindex_embeddings (ne_ports E))) parent ps None s = (Inr r1, s\<lparr>fw_runtime := w\<rparr>)"
      "rsr_code r1 = code" using execute_or_skip_runtime by metis
    show ?thesis
      using assms embeddings r1
      by (auto simp: unfold ret_def step_ok_def split: prod.splits sum.splits
          dest!: require_success_returns require_empty_returns)
  next
    case verify
    obtain r1 w where r1: "execute_or_skip_step E code (on_runtime (verify_readiness (ne_ports E) plan)) parent ps None s = (Inr r1, s\<lparr>fw_runtime := w\<rparr>)"
      "rsr_code r1 = code" using execute_or_skip_runtime by metis
    show ?thesis
      using assms verify r1 by (auto simp: unfold ret_def raise_def step_ok_def split: if_splits)
  qed
qed

lemma run_steps_returns:
  "run_steps E plan parent ps steps s = (Inr u, s') \<Longrightarrow>
     \<exists>rs. rl_step_results s' = rl_step_results s @ rs \<and> map rsr_code rs = map sp_code steps \<and> list_all step_ok rs"
proof (induction steps arbitrary: s)
  case (Cons st steps)
  let ?cp = "checkpoint_active_step (ne_codec E) (rpl_id plan) (sp_code st) (ne_now E (''checkpoint:'' @ sp_code st))"
  obtain code files where cp: "?cp (fw_files s) = (Inr code, files)"
    using Cons.prems by (cases "?cp (fw_files s)"; cases "fst (?cp (fw_files s))") (auto simp: bind_def on_files_def)
  then have code: "code = sp_code st" by (auto dest: checkpoint_returns)
  let ?s1 = "s\<lparr>fw_files := files, rl_current_step := Some code\<rparr>"
  obtain r s2 where r: "run_step E plan parent ps code ?s1 = (Inr r, s2)"
    and rest: "run_steps E plan parent ps steps (s2\<lparr>rl_step_results := rl_step_results s2 @ [r]\<rparr>) = (Inr u, s')"
    using Cons.prems cp by (auto simp: bind_def seq_def modify_def on_files_def split: prod.splits sum.splits)
  from run_step_returns [OF r] have "rsr_code r = code" "step_ok r" "rl_step_results s2 = rl_step_results s"
    by simp_all
  with Cons.IH [OF rest] code show ?case by auto
qed (simp add: ret_def)

section \<open>Starting\<close>

lemma parent_run_keeps_files: "snd (parent_run_for_retry K i files) = files"
  by (auto simp: parent_run_for_retry_def bind_def ret_def run_from_manifest_def split: option.splits)

text \<open>Whatever way a start takes to return a run, the run is recorded under the plan's path.\<close>

lemma execute_run_recorded:
  assumes "codec_ok (ne_codec E)" and "execute_run E plan parent w = (Inr run, w')"
  shows "recorded (ne_codec E) run (manifest_path_by_id (ne_codec E) (rpl_id plan)) (fw_files w')"
  using assms(2)
proof (rule execute_run_returns)
  fix result s
  assume run: "run = finished_run E plan result s"
    and files: "fw_files w' = snd (clear_active_lock_for_run_id (ne_codec E) (rpl_id plan)
        ((fw_files s)(run_manifest_path run \<mapsto> co_run_dump (ne_codec E) (run_payload run))))"
  let ?path = "manifest_path_by_id (ne_codec E) (rpl_id plan)"
  have "recorded (ne_codec E) run ?path ((fw_files s)(?path \<mapsto> co_run_dump (ne_codec E) (run_payload run)))"
    using recorded_written [OF assms(1)] run by simp
  moreover have "fw_files w' ?path = ((fw_files s)(?path \<mapsto> co_run_dump (ne_codec E) (run_payload run))) ?path"
    using files run by (simp add: clear_lock_keeps)
  ultimately show ?thesis by (simp add: recorded_def)
qed

lemma make_plan_returns:
  "make_plan E request w = (Inr plan, w') \<Longrightarrow>
     fw_files w' = fw_files w \<and> rpl_id plan = plan_run_id (ne_uuid5 E) (plan_idempotency_key (ne_sha256_hex E) request)"
  by (auto simp: make_plan_def bind_def gets_def on_runtime_def split: prod.splits sum.splits)

lemma start_recorded:
  assumes K: "codec_ok (ne_codec E)" and run: "start E request w = (Inr run, w')"
  shows "recorded (ne_codec E) run
     (manifest_path_by_id (ne_codec E) (plan_run_id (ne_uuid5 E) (plan_idempotency_key (ne_sha256_hex E) request))) (fw_files w')"
proof -
  obtain plan w1 where plan: "make_plan E request w = (Inr plan, w1)"
    using run by (cases "make_plan E request w"; cases "fst (make_plan E request w)") (auto simp: start_def bind_def Let_def)
  let ?path = "manifest_path_by_id (ne_codec E) (rpl_id plan)"
  have id: "rpl_id plan = plan_run_id (ne_uuid5 E) (plan_idempotency_key (ne_sha256_hex E) request)"
    using make_plan_returns [OF plan] by simp
  consider (existing) "on_files (run_from_manifest (ne_codec E) ?path) w1 = (Inr run, w')"
    | (blocked) m where "run = blocked_run plan ?path m" "on_files (write_manifest (ne_codec E) run) w1 = (Inr (), w')"
    | (executed) parent w2 where "execute_run E plan parent w2 = (Inr run, w')"
    using run plan
    by (auto simp: start_def bind_def [of "make_plan E request"] Let_def bind_def seq_def gets_def ret_def raise_def
        split: if_splits option.splits prod.splits sum.splits)
  then have "recorded (ne_codec E) run ?path (fw_files w')"
  proof cases
    case existing
    then show ?thesis
      by (cases "run_from_manifest (ne_codec E) ?path (fw_files w1)")
        (auto simp: on_files_def dest: run_from_manifest_returns)
  next
    case (blocked m)
    then have "fw_files w' = (fw_files w1)(?path \<mapsto> co_run_dump (ne_codec E) (run_payload run))"
      by (cases "write_manifest (ne_codec E) run (fw_files w1)")
        (auto simp: on_files_def blocked_run_def dest!: write_manifest_returns)
    then show ?thesis using recorded_written [OF K, of run ?path] blocked(1) by (simp add: blocked_run_def)
  next
    case executed
    then show ?thesis using execute_run_recorded [OF K] by blast
  qed
  then show ?thesis by (simp add: id)
qed

section \<open>Skipping\<close>

lemma json_get_dict_set: "json_get k (dict_set k' v d) = (if k = k' then v else json_get k d)"
  by (simp add: json_get_def)

definition skipped_result :: "('b, 'w) recovery_env \<Rightarrow> str \<Rightarrow> RecoveryRun \<Rightarrow> RecoveryRunStepResult \<Rightarrow> RecoveryRunStepResult" where
  "skipped_result E code parent step =
     \<lparr> rsr_code = code, rsr_status = STEP_SKIPPED, rsr_attempts = 0,
       rsr_started_at = Some (ne_now E (''step.skipped_at:'' @ code)),
       rsr_finished_at = Some (ne_now E (''step.skipped_at:'' @ code)),
       rsr_input_hash = step_input_hash (ne_step_digest E) code None,
       rsr_result = dict_set ''skipped_parent_step_status'' (JStr (step_status_value (rsr_status step)))
          (dict_set ''skipped_from_parent_run_id'' (JStr (run_id parent)) (rsr_result step)) \<rparr>"

lemma execute_or_skip_skips:
  "map_of ps (code, step_input_hash (ne_step_digest E) code None) = Some step \<Longrightarrow>
   execute_or_skip_step E code cb (Some parent) ps None = ret (skipped_result E code parent step)"
  by (simp add: execute_or_skip_step_def skipped_result_def Let_def)

lemma skipped_result_keeps:
  assumes "k \<noteq> ''skipped_parent_step_status''" and "k \<noteq> ''skipped_from_parent_run_id''"
  shows "json_get k (rsr_result (skipped_result E code parent step)) = json_get k (rsr_result step)"
  using assms by (simp add: skipped_result_def json_get_dict_set)

lemma require_empty_passes:
  "\<forall>v vs. json_get key (rsr_result step) \<noteq> JList (v # vs) \<Longrightarrow>
   require_empty_result_list py_str step key e = ret ()"
  by (simp add: require_empty_result_list_def split: json.split list.split)

text \<open>The steps a run can execute.\<close>

definition supported :: "str \<Rightarrow> bool" where
  "supported code \<longleftrightarrow> code = ''snapshot_sources'' \<or> code = ''reindex_vault'' \<or> code = ''reindex_embeddings'' \<or>
     code = ''verify_readiness''"

lemma run_step_skips:
  assumes "map_of ps (code, step_input_hash (ne_step_digest E) code None) = Some step"
    and "step_ok step" and "rsr_code step = code" and "supported code"
  shows "\<exists>s'. run_step E plan (Some parent) ps code s = (Inr (skipped_result E code parent step), s') \<and>
     fw_runtime s' = fw_runtime s \<and> fw_files s' = fw_files s \<and> rl_step_results s' = rl_step_results s"
proof -
  define r where "r = skipped_result E code parent step"
  have hit: "code = c \<Longrightarrow> execute_or_skip_step E c cb (Some parent) ps None = ret r" for c cb
    using execute_or_skip_skips [OF assms(1)] unfolding r_def by blast
  note unfold = run_step_def hit bind_def seq_def ret_def modify_def
  have success: "require_step_success r e = ret ()" for e :: str
    by (simp add: require_step_success_def r_def skipped_result_def)
  consider (snapshot) "code = ''snapshot_sources''" | (vault) "code = ''reindex_vault''"
    | (embeddings) "code = ''reindex_embeddings''" | (verify) "code = ''verify_readiness''"
    using assms(4) unfolding supported_def by (elim disjE) (erule that)+
  then have "\<exists>s'. run_step E plan (Some parent) ps code s = (Inr r, s') \<and>
     fw_runtime s' = fw_runtime s \<and> fw_files s' = fw_files s \<and> rl_step_results s' = rl_step_results s"
  proof cases
    case snapshot
    then show ?thesis by (simp add: unfold)
  next
    case vault
    then have clean: "require_empty_result_list (ne_py_str E) r ''errors'' e = ret ()" for e
      using assms(2,3) by (intro require_empty_passes) (simp add: r_def skipped_result_keeps step_ok_def)
    show ?thesis using vault by (simp add: unfold success clean)
  next
    case embeddings
    then have clean: "require_empty_result_list (ne_py_str E) r ''warnings'' e = ret ()" for e
      using assms(2,3) by (intro require_empty_passes) (simp add: r_def skipped_result_keeps step_ok_def)
    show ?thesis using embeddings by (simp add: unfold success clean)
  next
    case verify
    with assms(2,3) have "json_get ''ready'' (rsr_result r) = JBool True"
      by (simp add: r_def skipped_result_keeps step_ok_def)
    with verify show ?thesis by (simp add: unfold)
  qed
  then show ?thesis unfolding r_def .
qed

lemma checkpoint_owner:
  assumes "codec_ok K" "writes_ok K" "map_option lk_run_id (read_active_lock K files) = Some i"
  shows "\<exists>files'. checkpoint_active_step K i code now files = (Inr code, files') \<and>
     map_option lk_run_id (read_active_lock K files') = Some i"
  using assms
  by (auto simp: checkpoint_active_step_def write_recovery_record_def writes_ok_def prog_simps read_lock_written)

lemma run_steps_skip:
  assumes K: "codec_ok (ne_codec E)" "writes_ok (ne_codec E)"
    and own: "map_option lk_run_id (read_active_lock (ne_codec E) (fw_files s)) = Some (rpl_id plan)"
    and reuse: "\<forall>st\<in>set steps. supported (sp_code st) \<and>
       (\<exists>r. map_of ps (sp_code st, step_input_hash (ne_step_digest E) (sp_code st) None) = Some r \<and>
            step_ok r \<and> rsr_code r = sp_code st)"
  shows "\<exists>s' rs. run_steps E plan (Some parent) ps steps s = (Inr (), s') \<and> fw_runtime s' = fw_runtime s \<and>
     rl_step_results s' = rl_step_results s @ rs \<and> (\<forall>r\<in>set rs. rsr_status r = STEP_SKIPPED)"
  using own reuse
proof (induction steps arbitrary: s)
  case (Cons st steps)
  let ?now = "ne_now E (''checkpoint:'' @ sp_code st)"
  obtain files where cp: "checkpoint_active_step (ne_codec E) (rpl_id plan) (sp_code st) ?now (fw_files s) = (Inr (sp_code st), files)"
    and own1: "map_option lk_run_id (read_active_lock (ne_codec E) files) = Some (rpl_id plan)"
    using checkpoint_owner [OF K Cons.prems(1)] by blast
  obtain r where r: "map_of ps (sp_code st, step_input_hash (ne_step_digest E) (sp_code st) None) = Some r"
    "step_ok r" "rsr_code r = sp_code st" "supported (sp_code st)" using Cons.prems(2) by auto
  let ?s1 = "s\<lparr>fw_files := files, rl_current_step := Some (sp_code st)\<rparr>"
  obtain s2 where s2: "run_step E plan (Some parent) ps (sp_code st) ?s1 = (Inr (skipped_result E (sp_code st) parent r), s2)"
    "fw_runtime s2 = fw_runtime ?s1" "fw_files s2 = fw_files ?s1" "rl_step_results s2 = rl_step_results ?s1"
    using run_step_skips [OF r, where s = ?s1] by blast
  let ?s3 = "s2\<lparr>rl_step_results := rl_step_results s2 @ [skipped_result E (sp_code st) parent r]\<rparr>"
  have "map_option lk_run_id (read_active_lock (ne_codec E) (fw_files ?s3)) = Some (rpl_id plan)"
    using own1 s2(3) by simp
  with Cons.IH [of ?s3] Cons.prems(2) obtain s' rs where
    "run_steps E plan (Some parent) ps steps ?s3 = (Inr (), s')" "fw_runtime s' = fw_runtime ?s3"
    "rl_step_results s' = rl_step_results ?s3 @ rs" "\<forall>r\<in>set rs. rsr_status r = STEP_SKIPPED" by auto
  then show ?case
    using cp s2
    by (intro exI [of _ s'] exI [of _ "skipped_result E (sp_code st) parent r # rs"])
      (simp add: bind_def seq_def modify_def on_files_def skipped_result_def)
qed (simp add: ret_def)

section \<open>Properties\<close>

text \<open>
  a run manifest reads back exactly as the run that was written, with every step result, and
  writing it touches no other record.
\<close>

theorem manifest_round_trip:
  assumes "codec_ok K" and "write_manifest K run files = (Inr u, files')"
  shows "run_from_manifest K (run_manifest_path run) files' = (Inr run, files') \<and>
     (\<forall>path. path \<noteq> run_manifest_path run \<longrightarrow> files' path = files path)"
proof -
  have f: "files' = files(run_manifest_path run \<mapsto> co_run_dump K (run_payload run))"
    using write_manifest_returns [OF assms(2)] .
  then show ?thesis using recorded_read [OF recorded_written [OF assms(1)]] by auto
qed

definition sample_plan_readiness :: OperationalReadinessSnapshot where
  "sample_plan_readiness = sample_readiness [''rag_vector_not_healthy'']"

definition sample_recovery_plan :: RecoveryPlan where
  "sample_recovery_plan = recovery_plan (\<lambda>x. x) (\<lambda>x. x) 0 sample_vault sample_plan_readiness sample_request"

theorem manifest_round_trip_witness:
  "let run = blocked_run sample_recovery_plan ''/r/x/recovery-run.json'' 5;
       files' = snd (write_manifest sample_codec run Map.empty) in
   run_from_manifest sample_codec ''/r/x/recovery-run.json'' files' = (Inr run, files')"
proof -
  let ?run = "blocked_run sample_recovery_plan ''/r/x/recovery-run.json'' 5"
  have "write_manifest sample_codec ?run Map.empty = (Inr (), snd (write_manifest sample_codec ?run Map.empty))"
    using write_manifest_ok [OF sample_codec_ok(2), of ?run] by simp
  from manifest_round_trip [OF sample_codec_ok(1) this] show ?thesis by (simp add: Let_def blocked_run_def)
qed

text \<open>
  C4: a completed run did what was planned. When an execution returns a COMPLETED run, there is
  one result per planned step, in order; every rebuild step succeeded (or was reused from the
  parent) without reported errors or warnings, and a planned verification found the system ready.
\<close>

theorem completed_runs_executed_their_plan:
  assumes "execute_run E plan parent w = (Inr run, w')" and "run_status run = RUN_COMPLETED"
  shows "map rsr_code (run_step_results run) = map sp_code (rpl_steps plan) \<and>
     (\<forall>r\<in>set (run_step_results run).
        (rsr_code r \<in> {''reindex_vault'', ''reindex_embeddings''} \<longrightarrow>
           rsr_status r \<in> {STEP_SUCCEEDED, STEP_SKIPPED}) \<and>
        (rsr_code r = ''reindex_vault'' \<longrightarrow> (\<forall>v vs. json_get ''errors'' (rsr_result r) \<noteq> JList (v # vs))) \<and>
        (rsr_code r = ''reindex_embeddings'' \<longrightarrow> (\<forall>v vs. json_get ''warnings'' (rsr_result r) \<noteq> JList (v # vs))) \<and>
        (rsr_code r = ''verify_readiness'' \<longrightarrow> json_get ''ready'' (rsr_result r) = JBool True))"
  using assms(1)
proof (rule execute_run_returns)
  fix result s
  assume steps: "run_steps E plan parent (successful_parent_steps parent) (rpl_steps plan) (initial_run_state w) = (result, s)"
    and run: "run = finished_run E plan result s"
  then have "result = Inr ()" using assms(2) by (simp add: loop_verdict_completed)
  from run_steps_returns [OF steps [unfolded this]] run show ?thesis
    unfolding step_ok_def [symmetric] by (auto simp: list_all_iff)
qed


text \<open>
  starting is idempotent. Once a start has returned a run, a later start with the same
  idempotency key, whatever the clock, the trigger or the state of the system then, returns that
  very run and executes nothing: apart from the readiness check it touches neither files nor
  runtime.
\<close>

theorem start_is_idempotent:
  assumes "codec_ok (ne_codec E)" and "start E request w = (Inr run, w1)"
    and "plan_idempotency_key (ne_sha256_hex E) request' = plan_idempotency_key (ne_sha256_hex E) request"
    and "fw_files w2 = fw_files w1"
    and "pt_readiness (ne_ports E) None (fw_runtime w2) = (Inr readiness, rt)"
  shows "start (E\<lparr>ne_now := now'\<rparr>) request' w2 = (Inr run, w2\<lparr>fw_runtime := rt\<rparr>)"
proof -
  let ?path = "manifest_path_by_id (ne_codec E) (plan_run_id (ne_uuid5 E) (plan_idempotency_key (ne_sha256_hex E) request))"
  have rec: "recorded (ne_codec E) run ?path (fw_files w2)" using start_recorded [OF assms(1,2)] assms(4) by simp
  then have "fw_files w2 ?path \<noteq> None" by (auto simp: recorded_def)
  with recorded_read [OF rec] show ?thesis
    using assms(3,5)
    by (simp add: start_def make_plan_def bind_def gets_def on_runtime_def on_files_def Let_def)
qed

text \<open>A runtime that is the list of the operations performed on it.\<close>

definition sample_ports :: "str list ports" where
  "sample_ports =
     \<lparr> pt_readiness = (\<lambda>_ w. (Inr sample_plan_readiness, w)),
       pt_vault = (\<lambda>_. sample_vault),
       pt_vault_status = (\<lambda>w. (Inr (''/v'', ''A''), w)),
       pt_reindex = (\<lambda>w. (Inr \<lparr> vr_files_seen = 2, vr_files_indexed = 2, vr_files_skipped = 0, vr_stale_marked = 0, vr_errors = [] \<rparr>, w @ [''vault''])),
       pt_reindex_embeddings = (\<lambda>n f w. (Inr \<lparr> er_scanned = 2, er_updated = 2, er_skipped = 0, er_warnings = [] \<rparr>, w @ [''embeddings''])),
       pt_search = (\<lambda>q n w. (Inr [], w)),
       pt_read_note = (\<lambda>i w. (Inl (AnyException ''missing''), w)),
       pt_read_note_by_path = (\<lambda>i w. (Inl (AnyException ''missing''), w)),
       pt_commit = (\<lambda>w. (Inr (), w)),
       pt_rollback = (\<lambda>w. w) \<rparr>"

definition sample_recovery_env :: "(record_file, str list) recovery_env" where
  "sample_recovery_env =
     \<lparr> ne_codec = sample_codec, ne_ports = sample_ports, ne_sha256_hex = (\<lambda>x. x), ne_uuid5 = (\<lambda>x. x),
       ne_step_digest = (\<lambda>j. ''d''), ne_py_str = (\<lambda>j. []), ne_now = (\<lambda>_. 5) \<rparr>"

definition sample_recovery_world :: "(record_file, str list) recovery_world" where
  "sample_recovery_world = \<lparr> fw_files = Map.empty, fw_runtime = [] \<rparr>"

lemma sample_recovery_simps [simp]:
  "ne_codec sample_recovery_env = sample_codec" "ne_ports sample_recovery_env = sample_ports"
  by (simp_all add: sample_recovery_env_def)


lemma sample_start_runs:
  obtains run w1 where "start sample_recovery_env sample_request sample_recovery_world = (Inr run, w1)"
proof -
  let ?w = "sample_recovery_world" and ?E = sample_recovery_env
  have plan: "make_plan ?E sample_request ?w = (Inr (recovery_plan (\<lambda>x. x) (\<lambda>x. x) 5 sample_vault sample_plan_readiness sample_request), ?w)"
    by (simp add: make_plan_def bind_def on_runtime_def gets_def sample_ports_def sample_recovery_env_def sample_recovery_world_def)
  let ?p = "recovery_plan (\<lambda>x. x) (\<lambda>x. x) 5 sample_vault sample_plan_readiness sample_request"
  have ok: "rpl_automatic_execution_allowed ?p" by (simp add: sample_plan_readiness_def sample_plan_defs)
  define w1 where "w1 = snd (on_files (write_active_lock sample_codec (rpl_id ?p) (rpl_idempotency_key ?p) (rpl_trigger ?p) (rpl_actor ?p) 5) ?w)"
  have lock: "on_files (write_active_lock sample_codec (rpl_id ?p) (rpl_idempotency_key ?p) (rpl_trigger ?p) (rpl_actor ?p) 5) ?w = (Inr (), w1)"
    unfolding w1_def
    by (simp add: on_files_def write_active_lock_def read_active_lock_def write_recovery_record_def sample_codec_def sample_recovery_world_def)
  obtain run w' where "execute_run ?E ?p None w1 = (Inr run, w')"
    using execute_run_total [of ?E ?p None w1] by auto
  moreover have "on_files (parent_run_for_retry sample_codec None) ?w = (Inr None, ?w)"
    by (simp add: on_files_def parent_run_for_retry_def)
  moreover have "ne_now ?E = (\<lambda>_. 5)" by (simp add: sample_recovery_env_def)
  moreover have "fw_files ?w = Map.empty" "rq_parent_run_id sample_request = None"
    by (simp_all add: sample_recovery_world_def sample_request_def)
  ultimately have "start ?E sample_request ?w = (Inr run, w')"
    using plan ok lock by (simp add: start_def bind_def seq_def gets_def Let_def read_active_lock_def)
  then show thesis by (rule that)
qed

theorem start_is_idempotent_witness:
  "\<exists>run w1. start sample_recovery_env sample_request sample_recovery_world = (Inr run, w1) \<and>
     start (sample_recovery_env\<lparr>ne_now := \<lambda>_. 99\<rparr>) (sample_request\<lparr>rq_actor := ''bob''\<rparr>) w1 = (Inr run, w1)"
proof -
  obtain run w1 where run: "start sample_recovery_env sample_request sample_recovery_world = (Inr run, w1)"
    by (rule sample_start_runs)
  have "pt_readiness (ne_ports sample_recovery_env) None (fw_runtime w1) = (Inr sample_plan_readiness, fw_runtime w1)"
    by (simp add: sample_ports_def)
  from start_is_idempotent [OF _ run _ refl this, of "sample_request\<lparr>rq_actor := ''bob''\<rparr>"] run
  show ?thesis by (auto simp: plan_idempotency_key_def sample_request_def)
qed

text \<open>
  a step is skipped only on evidence, and skipping does nothing. The result of a step says
  SKIPPED only if the parent run has a SUCCEEDED result for the same step with the same input
  hash, and then the state is left untouched; otherwise the step was executed exactly once.
\<close>

theorem skipping_needs_parent_success:
  assumes "execute_or_skip_step E code callback parent (successful_parent_steps parent) inp s = (Inr r, s')"
  shows "rsr_code r = code \<and>
     (rsr_status r = STEP_SKIPPED \<longrightarrow> s' = s \<and> rsr_attempts r = 0 \<and>
        (\<exists>p step. parent = Some p \<and> step \<in> set (run_step_results p) \<and> rsr_status step = STEP_SUCCEEDED \<and>
           rsr_code step = code \<and> rsr_input_hash step = rsr_input_hash r)) \<and>
     (rsr_status r \<noteq> STEP_SKIPPED \<longrightarrow> rsr_attempts r = 1 \<and> s' = snd (callback s) \<and>
        (rsr_status r = STEP_SUCCEEDED \<longleftrightarrow> fst (callback s) = Inr (rsr_result r)))"
proof (cases "\<exists>p step. parent = Some p \<and>
    map_of (successful_parent_steps parent) (code, step_input_hash (ne_step_digest E) code inp) = Some step")
  case True
  then obtain p step where ps: "parent = Some p"
    "map_of (successful_parent_steps (Some p)) (code, step_input_hash (ne_step_digest E) code inp) = Some step" by auto
  from successful_parent_steps_succeeded [OF this(2)] ps assms show ?thesis
    by (auto simp: execute_or_skip_step_def ret_def Let_def)
next
  case False
  then have "execute_step E code callback inp s = (Inr r, s')"
    using assms by (auto simp: execute_or_skip_step_def Let_def split: option.splits)
  then show ?thesis
    by (auto simp: execute_step_def Let_def split: prod.splits sum.splits)
qed

definition sample_step :: "str \<Rightarrow> RecoveryRunStepResult" where
  "sample_step code = \<lparr> rsr_code = code, rsr_status = STEP_SUCCEEDED, rsr_attempts = 1, rsr_started_at = Some 1,
     rsr_finished_at = Some 2, rsr_input_hash = ''d'', rsr_result = [(''ready'', JBool True)] \<rparr>"

definition sample_parent :: RecoveryRun where
  "sample_parent = (blocked_run sample_recovery_plan [] 1)\<lparr>run_id := ''parent'', run_status := RUN_COMPLETED,
     run_step_results := [sample_step ''snapshot_sources'', sample_step ''reindex_embeddings'', sample_step ''verify_readiness'']\<rparr>"

lemma sample_parent_steps:
  "successful_parent_steps (Some sample_parent) =
     [((''snapshot_sources'', ''d''), sample_step ''snapshot_sources''),
      ((''reindex_embeddings'', ''d''), sample_step ''reindex_embeddings''),
      ((''verify_readiness'', ''d''), sample_step ''verify_readiness'')]"
  by (simp add: successful_parent_steps_def sample_parent_def sample_step_def)

theorem skipping_needs_parent_success_witness:
  "\<exists>r. execute_or_skip_step sample_recovery_env ''reindex_embeddings'' (\<lambda>n. (Inr [], n + 1)) (Some sample_parent)
       (successful_parent_steps (Some sample_parent)) None (0::nat) = (Inr r, 0) \<and> rsr_attempts r = 0"
proof -
  let ?m = "execute_or_skip_step sample_recovery_env ''reindex_embeddings'' (\<lambda>n. (Inr [], n + 1)) (Some sample_parent)
       (successful_parent_steps (Some sample_parent)) None"
  obtain r where r: "?m (0::nat) = (Inr r, 0)" "rsr_status r = STEP_SKIPPED"
    by (simp add: execute_or_skip_step_def sample_parent_steps step_input_hash_def sample_recovery_env_def ret_def Let_def)
  from skipping_needs_parent_success [OF r(1)] r show ?thesis by blast
qed

text \<open>
  retrying a run that already succeeded executes nothing. When the parent has a clean
  SUCCEEDED result for every planned step, the retry is recorded as COMPLETED with every step
  skipped and the runtime untouched: the readiness of the system is not verified again.
\<close>

theorem retry_of_completed_run_executes_nothing:
  assumes "codec_ok (ne_codec E)" and "writes_ok (ne_codec E)"
    and "map_option lk_run_id (read_active_lock (ne_codec E) (fw_files w)) = Some (rpl_id plan)"
    and "\<forall>st\<in>set (rpl_steps plan). supported (sp_code st) \<and>
       (\<exists>r. map_of (successful_parent_steps (Some parent))
              (sp_code st, step_input_hash (ne_step_digest E) (sp_code st) None) = Some r \<and>
            step_ok r \<and> rsr_code r = sp_code st)"
  shows "\<exists>run w'. execute_run E plan (Some parent) w = (Inr run, w') \<and> run_status run = RUN_COMPLETED \<and>
     fw_runtime w' = fw_runtime w \<and> (\<forall>r\<in>set (run_step_results run). rsr_status r = STEP_SKIPPED)"
proof -
  obtain s' rs where steps: "run_steps E plan (Some parent) (successful_parent_steps (Some parent)) (rpl_steps plan) (initial_run_state w) = (Inr (), s')"
    "fw_runtime s' = fw_runtime w" "rl_step_results s' = rs" "\<forall>r\<in>set rs. rsr_status r = STEP_SKIPPED"
    using run_steps_skip [OF assms(1,2), of "initial_run_state w" plan "rpl_steps plan" "successful_parent_steps (Some parent)" parent] assms(3,4)
    by auto
  obtain run w' where ex: "execute_run E plan (Some parent) w = (Inr run, w')"
    using execute_run_total [OF assms(2)] by blast
  then show ?thesis
  proof (rule execute_run_returns)
    fix result s
    assume "run_steps E plan (Some parent) (successful_parent_steps (Some parent)) (rpl_steps plan) (initial_run_state w) = (result, s)"
      "run = finished_run E plan result s" "fw_runtime w' = fw_runtime s"
    with steps ex show ?thesis by (auto simp: loop_verdict_def)
  qed
qed

definition sample_locked_world :: "(record_file, str list) recovery_world" where
  "sample_locked_world = \<lparr> fw_files = [active_lock_path sample_codec \<mapsto>
     LockFile (unreadable_active_lock\<lparr>lk_run_id := rpl_id sample_recovery_plan\<rparr>)], fw_runtime = [''before''] \<rparr>"

lemma sample_locked:
  "map_option lk_run_id (read_active_lock sample_codec (fw_files sample_locked_world)) = Some (rpl_id sample_recovery_plan)"
  by (simp add: sample_locked_world_def read_active_lock_def sample_codec_def unreadable_active_lock_def)

lemma sample_reuse:
  "\<forall>st\<in>set (rpl_steps sample_recovery_plan). supported (sp_code st) \<and>
       (\<exists>r. map_of (successful_parent_steps (Some sample_parent))
              (sp_code st, step_input_hash (ne_step_digest sample_recovery_env) (sp_code st) None) = Some r \<and>
            step_ok r \<and> rsr_code r = sp_code st)"
proof -
  have codes: "map sp_code (rpl_steps sample_recovery_plan) = [''snapshot_sources'', ''reindex_embeddings'', ''verify_readiness'']"
    by (simp add: sample_recovery_plan_def sample_plan_readiness_def sample_plan_defs)
  have "\<forall>c\<in>set (map sp_code (rpl_steps sample_recovery_plan)). supported c \<and>
       (\<exists>r. map_of (successful_parent_steps (Some sample_parent))
              (c, step_input_hash (ne_step_digest sample_recovery_env) c None) = Some r \<and> step_ok r \<and> rsr_code r = c)"
    unfolding codes
    by (simp add: supported_def sample_parent_steps step_input_hash_def sample_recovery_env_def step_ok_def sample_step_def json_get_def)
  then show ?thesis by simp
qed

theorem retry_of_completed_run_executes_nothing_witness:
  "\<exists>run w'. execute_run sample_recovery_env sample_recovery_plan (Some sample_parent) sample_locked_world = (Inr run, w') \<and>
     run_status run = RUN_COMPLETED \<and> fw_runtime w' = [''before'']"
proof -
  have "fw_runtime sample_locked_world = [''before'']" by (simp add: sample_locked_world_def)
  with retry_of_completed_run_executes_nothing [of sample_recovery_env sample_locked_world sample_recovery_plan sample_parent]
    sample_locked sample_reuse show ?thesis by auto
qed

theorem completed_runs_executed_their_plan_witness:
  "\<exists>run w'. execute_run sample_recovery_env sample_recovery_plan (Some sample_parent) sample_locked_world = (Inr run, w') \<and>
     map rsr_code (run_step_results run) = [''snapshot_sources'', ''reindex_embeddings'', ''verify_readiness'']"
proof -
  obtain s' rs where steps: "run_steps sample_recovery_env sample_recovery_plan (Some sample_parent) (successful_parent_steps (Some sample_parent))
      (rpl_steps sample_recovery_plan) (initial_run_state sample_locked_world) = (Inr (), s')"
    using run_steps_skip [of sample_recovery_env "initial_run_state sample_locked_world" sample_recovery_plan
        "rpl_steps sample_recovery_plan" "successful_parent_steps (Some sample_parent)" sample_parent] sample_locked sample_reuse
    by auto
  obtain run w' where ex: "execute_run sample_recovery_env sample_recovery_plan (Some sample_parent) sample_locked_world = (Inr run, w')"
    using execute_run_total [of sample_recovery_env sample_recovery_plan "Some sample_parent" sample_locked_world] by auto
  then have "run_status run = RUN_COMPLETED"
  proof (rule execute_run_returns)
    fix result s
    assume "run_steps sample_recovery_env sample_recovery_plan (Some sample_parent) (successful_parent_steps (Some sample_parent))
        (rpl_steps sample_recovery_plan) (initial_run_state sample_locked_world) = (result, s)"
      "run = finished_run sample_recovery_env sample_recovery_plan result s"
    with steps show ?thesis by (auto simp: loop_verdict_def)
  qed
  from completed_runs_executed_their_plan [OF ex this] ex show ?thesis
    by (auto simp: sample_recovery_plan_def sample_plan_readiness_def sample_plan_defs)
qed

text \<open>
  asking for a run that is still executing ends it. While a run holds the active record and
  has no manifest yet, reading it by its id records it as BLOCKED (interrupted by a restart) and
  releases the record, whether or not its process is alive; the next checkpoint of the run then
  raises.
\<close>

theorem reading_an_executing_run_interrupts_it:
  assumes "codec_ok (ne_codec E)" and "writes_ok (ne_codec E)"
    and "read_active_lock (ne_codec E) (fw_files w) = Some l" and "lk_run_id l = i"
    and "fw_files w (manifest_path_by_id (ne_codec E) i) = None"
    and "pt_vault_status (ne_ports E) (fw_runtime w) = (Inr (vault, root_dir), rt)"
    and "source_snapshot_from_vault (pt_vault (ne_ports E) rt) vault root_dir () = (Inr snapshot, ())"
  shows "\<exists>run w'. get_run E i w = (Inr (Some run), w') \<and> run_status run = RUN_BLOCKED \<and>
     read_active_lock (ne_codec E) (fw_files w') = None \<and>
     (\<exists>e. fst (checkpoint_active_step (ne_codec E) i step now (fw_files w')) = Inl e)"
proof -
  let ?K = "ne_codec E" and ?path = "manifest_path_by_id (ne_codec E) i"
  let ?run = "interrupted_active_run l snapshot ?path (ne_now E ''run.interrupted_at'')"
  let ?f = "(fw_files w)(?path \<mapsto> co_run_dump ?K (run_payload ?run), active_lock_path ?K := None)"
  have snap: "source_snapshot_from_vault (pt_vault (ne_ports E) rt) vault root_dir s = (Inr snapshot, s)"
    for s :: "('a, 'b) recovery_world"
    using assms(7) by (auto simp: source_snapshot_from_vault_def ret_def raise_def Let_def split: option.splits if_splits)
  have path: "run_manifest_path ?run = ?path" by (simp add: interrupted_active_run_def)
  have lock: "read_active_lock ?K ((fw_files w)(?path \<mapsto> c)) = Some l" for c
    using assms(3) by (simp add: read_active_lock_def)
  have "get_run E i w = (Inr (Some ?run), w\<lparr>fw_runtime := rt, fw_files := ?f\<rparr>)"
    using assms(3-6) snap lock write_manifest_ok [OF assms(2), of ?run]
    by (simp add: get_run_def bind_def seq_def gets_def ret_def on_files_def on_runtime_def Let_def path
        clear_active_lock_for_run_id_def)
  then show ?thesis
    by (auto simp: interrupted_active_run_def read_active_lock_def checkpoint_active_step_def)
qed

theorem reading_an_executing_run_interrupts_it_witness:
  "\<exists>run w'. get_run sample_recovery_env (rpl_id sample_recovery_plan) sample_locked_world = (Inr (Some run), w') \<and>
     run_status run = RUN_BLOCKED"
proof -
  have "fw_files sample_locked_world (manifest_path_by_id sample_codec (rpl_id sample_recovery_plan)) = None"
    by (simp add: sample_locked_world_def)
  moreover obtain snap where "source_snapshot_from_vault (pt_vault (ne_ports sample_recovery_env) [''before'']) ''/v'' ''A'' () = (Inr snap, ())"
    by (simp add: source_snapshot_from_vault_def sample_ports_def sample_vault_def ret_def Let_def)
  moreover have "pt_vault_status (ne_ports sample_recovery_env) (fw_runtime sample_locked_world) = (Inr (''/v'', ''A''), [''before''])"
    by (simp add: sample_ports_def sample_locked_world_def)
  moreover obtain l where "read_active_lock sample_codec (fw_files sample_locked_world) = Some l" "lk_run_id l = rpl_id sample_recovery_plan"
    using sample_locked by auto
  ultimately have "\<exists>run w'. get_run sample_recovery_env (rpl_id sample_recovery_plan) sample_locked_world = (Inr (Some run), w') \<and>
     run_status run = RUN_BLOCKED \<and> read_active_lock (ne_codec sample_recovery_env) (fw_files w') = None \<and>
     (\<exists>e. fst (checkpoint_active_step (ne_codec sample_recovery_env) (rpl_id sample_recovery_plan) ''x'' 0 (fw_files w')) = Inl e)"
    by (intro reading_an_executing_run_interrupts_it) simp_all
  then show ?thesis by blast
qed

end
