(* ===== verification/Maintenance_Model.thy ===== *)
theory Maintenance_Model
  imports Prelude
begin

text \<open>
  The data of the maintenance queue: job kinds and states (\<open>maintenance_job_enums.py\<close>), the
  entities of \<open>maintenance_job.py\<close>, the errors and the delivery of \<open>maintenance_job_queue.py\<close>, the
  settings of \<open>maintenance_queue_config.py\<close>, the values redis-py returns (\<open>redis_types.py\<close>), and
  the codecs the queue relies on.

  A byte string is a list of characters, one character per byte. UTF-8, ISO 8601 times and
  orjson are a parameter of type \<open>codecs\<close>; what the queue relies on is the named hypothesis
  \<open>codecs_ok\<close>.
\<close>

section \<open>Kinds and states\<close>

datatype MaintenanceJobKind = EMBEDDING_REINDEX | BATCH_NOTE_WRITE

datatype MaintenanceJobStatus = JOB_QUEUED | JOB_RUNNING | JOB_RETRYING | JOB_SUCCEEDED | JOB_FAILED

fun job_kind_value :: "MaintenanceJobKind \<Rightarrow> str" where
  "job_kind_value EMBEDDING_REINDEX = ''embedding_reindex''"
| "job_kind_value BATCH_NOTE_WRITE = ''batch_note_write''"

fun job_status_value :: "MaintenanceJobStatus \<Rightarrow> str" where
  "job_status_value JOB_QUEUED = ''QUEUED''"
| "job_status_value JOB_RUNNING = ''RUNNING''"
| "job_status_value JOB_RETRYING = ''RETRYING''"
| "job_status_value JOB_SUCCEEDED = ''SUCCEEDED''"
| "job_status_value JOB_FAILED = ''FAILED''"

section \<open>Entities\<close>

record MaintenanceJobRequest =
  jr_kind :: MaintenanceJobKind
  jr_requested_by :: str
  jr_source_id :: str
  jr_limit :: int
  jr_force :: bool

record EmbeddingReindexJobResult =
  er_scanned :: int
  er_updated :: int
  er_skipped :: int
  er_warnings :: "str list"

record BatchNoteWriteJobItem =
  bi_path :: str
  bi_status :: str
  bi_content_hash :: "str option"
  bi_current_content_hash :: "str option"

record BatchNoteWriteJobResult =
  br_succeeded :: int
  br_conflicted :: int
  br_failed :: int
  br_items :: "BatchNoteWriteJobItem list"

datatype job_result = EmbeddingResult EmbeddingReindexJobResult | BatchResult BatchNoteWriteJobResult

record MaintenanceJobSnapshot =
  js_job_id :: str
  js_kind :: MaintenanceJobKind
  js_status :: MaintenanceJobStatus
  js_requested_by :: str
  js_source_id :: str
  js_limit :: int
  js_force :: bool
  js_attempts :: int
  js_submitted_at :: instant
  js_started_at :: "instant option"
  js_finished_at :: "instant option"
  js_stream_id :: "str option"
  js_deduplicated :: bool
  js_error_summary :: "str option"
  js_result :: "job_result option"

record MaintenanceQueueSnapshot =
  qs_stream_length :: int
  qs_pending :: int
  qs_consumers :: int
  qs_dead_letter_length :: int

record MaintenanceDeadLetterEntry =
  dl_entry_id :: str
  dl_job_id :: str
  dl_kind :: MaintenanceJobKind
  dl_attempts :: int
  dl_failed_at :: instant
  dl_error_summary :: str
  dl_source_stream_id :: str

record MaintenanceJobDelivery =
  dv_stream_id :: str
  dv_job :: MaintenanceJobSnapshot

section \<open>Settings\<close>

record MaintenanceQueueConfig =
  qf_redis_url :: "str option"
  qf_stream_name :: str
  qf_dead_letter_stream_name :: str
  qf_consumer_group :: str
  qf_status_key_prefix :: str
  qf_dedup_key_prefix :: str
  qf_rate_key_prefix :: str
  qf_embedding_threads :: int
  qf_worker_concurrency :: int
  qf_batch_limit :: int
  qf_max_attempts :: int
  qf_retry_idle_seconds :: int
  qf_block_milliseconds :: int
  qf_status_ttl_seconds :: int
  qf_dedup_cooldown_seconds :: int
  qf_submission_limit :: int
  qf_submission_window_seconds :: int
  qf_max_stream_length :: int
  qf_worker_max_connections :: int

definition default_config :: MaintenanceQueueConfig where
  "default_config = \<lparr> qf_redis_url = None, qf_stream_name = ''alexandria:maintenance:v1'',
     qf_dead_letter_stream_name = ''alexandria:maintenance:dead:v1'',
     qf_consumer_group = ''alexandria-maintenance-workers-v1'',
     qf_status_key_prefix = ''alexandria:maintenance:job:v1'',
     qf_dedup_key_prefix = ''alexandria:maintenance:dedup:v1'',
     qf_rate_key_prefix = ''alexandria:rate:v1'', qf_embedding_threads = 1,
     qf_worker_concurrency = 1, qf_batch_limit = 250, qf_max_attempts = 3,
     qf_retry_idle_seconds = 15, qf_block_milliseconds = 2000, qf_status_ttl_seconds = 86400,
     qf_dedup_cooldown_seconds = 60, qf_submission_limit = 6, qf_submission_window_seconds = 60,
     qf_max_stream_length = 10000, qf_worker_max_connections = 2 \<rparr>"

text \<open>The bounds the settings are validated against.\<close>

definition config_valid :: "MaintenanceQueueConfig \<Rightarrow> bool" where
  "config_valid c \<longleftrightarrow>
     qf_embedding_threads c \<in> {1..32} \<and> qf_worker_concurrency c \<in> {1..4} \<and>
     qf_batch_limit c \<in> {1..1000} \<and> qf_max_attempts c \<in> {1..10} \<and>
     qf_retry_idle_seconds c \<in> {1..3600} \<and> qf_block_milliseconds c \<in> {100..60000} \<and>
     qf_status_ttl_seconds c \<in> {60..604800} \<and> qf_dedup_cooldown_seconds c \<in> {1..3600} \<and>
     qf_submission_limit c \<in> {1..1000} \<and> qf_submission_window_seconds c \<in> {1..3600} \<and>
     qf_max_stream_length c \<in> {100..1000000} \<and> qf_worker_max_connections c \<in> {1..16}"

lemma default_config_valid: "config_valid default_config"
  by (simp add: config_valid_def default_config_def)

definition normalize_optional_redis_url :: "str option \<Rightarrow> str option" where
  "normalize_optional_redis_url value = (case value of
       None \<Rightarrow> None
     | Some v \<Rightarrow> (let normalized = strip v in if normalized = [] then None else Some normalized))"

section \<open>Errors\<close>

text \<open>
  What a Redis command raises: an error reply of the server, or the client's own errors (no
  connection, no answer in time), all subclasses of \<open>RedisError\<close>.
\<close>

datatype redis_fault = ResponseError str | ConnectionFault str

text \<open>
  The exceptions of the queue, the worker and the submission service. An enumeration lookup and
  orjson raise errors of their own, which the queue does not convert. \<open>JobError\<close> stands for an
  exception raised by the code a job runs: its type name and its text.
\<close>

datatype queue_exn =
  MaintenanceQueueUnavailableError str
| MaintenanceSubmissionRateLimitError int
| MaintenanceDeadLetterNotFoundError str
| MaintenanceDeadLetterSourceGoneError str
| MaintenanceBatchWritePayloadTooLargeError str
| RedisFault redis_fault
| InvalidEnumValue str str
| JSONDecodeError
| JSONEncodeError
| QueueValueError str
| QueueRuntimeError str
| JobError str str
| CancelledError

section \<open>Values of redis-py\<close>

type_synonym bytes = "char list"

datatype redis_response =
  RBytes bytes | RStr str | RInt int | RFloat rat | RBool bool | RNone
| RList "redis_response list" | RDict "(redis_response \<times> redis_response) list"

section \<open>Codecs\<close>

record codecs =
  cx_encode :: "str \<Rightarrow> bytes"
  cx_decode :: "bytes \<Rightarrow> str option"
  cx_isoformat :: "instant \<Rightarrow> str"
  cx_fromisoformat :: "str \<Rightarrow> instant option"
  cx_dumps :: "json \<Rightarrow> bytes option"
  cx_loads :: "str \<Rightarrow> json option"

text \<open>
  The JSON values orjson writes and reads back unchanged: 64-bit integers, texts, booleans, null,
  lists, and objects with distinct keys.
\<close>

fun json_plain :: "json \<Rightarrow> bool" where
  "json_plain (JInt i) \<longleftrightarrow> - (2 ^ 63) \<le> i \<and> i < 2 ^ 63"
| "json_plain (JFloat _) \<longleftrightarrow> False"
| "json_plain (JTime _) \<longleftrightarrow> False"
| "json_plain (JList js) \<longleftrightarrow> (\<forall>j\<in>set js. json_plain j)"
| "json_plain (JObj kvs) \<longleftrightarrow> distinct (map fst kvs) \<and> (\<forall>kv\<in>set kvs. json_plain (snd kv))"
| "json_plain _ \<longleftrightarrow> True"

definition ascii :: "str \<Rightarrow> bool" where
  "ascii s \<longleftrightarrow> (\<forall>c\<in>set s. (of_char c :: nat) < 128)"

definition codecs_ok :: "codecs \<Rightarrow> bool" where
  "codecs_ok X \<longleftrightarrow>
     (\<forall>b s. cx_decode X b = Some s \<longleftrightarrow> b = cx_encode X s) \<and>
     (\<forall>s. ascii s \<longrightarrow> cx_encode X s = s) \<and>
     (\<forall>t. cx_fromisoformat X (cx_isoformat X t) = Some t) \<and>
     (\<forall>t. cx_isoformat X t \<noteq> [] \<and> strip (cx_isoformat X t) = cx_isoformat X t) \<and>
     (\<forall>j b. cx_dumps X j = Some b \<longrightarrow> (\<exists>s. b = cx_encode X s)) \<and>
     (\<forall>j. json_plain j \<longrightarrow> (\<exists>s. cx_dumps X j = Some (cx_encode X s) \<and> s \<noteq> [] \<and>
        cx_loads X s = Some j))"

lemma codecs_ok_simps:
  assumes "codecs_ok X"
  shows "cx_decode X b = Some s \<longleftrightarrow> b = cx_encode X s" and "ascii s \<Longrightarrow> cx_encode X s = s"
    and "cx_fromisoformat X (cx_isoformat X t) = Some t"
    and "cx_dumps X j = Some b \<Longrightarrow> \<exists>s. b = cx_encode X s"
    and "cx_isoformat X t \<noteq> []" and "strip (cx_isoformat X t) = cx_isoformat X t"
  using assms unfolding codecs_ok_def by blast+

lemma decode_encode:
  "codecs_ok X \<Longrightarrow> cx_decode X (cx_encode X s) = Some s"
  by (simp add: codecs_ok_simps)

lemma encode_inject:
  "codecs_ok X \<Longrightarrow> cx_encode X s = cx_encode X t \<longleftrightarrow> s = t"
  by (metis decode_encode option.inject)

lemma codecs_ok_json:
  assumes "codecs_ok X" and "json_plain j"
  obtains s where "cx_dumps X j = Some (cx_encode X s)" "s \<noteq> []" "cx_loads X s = Some j"
  using assms unfolding codecs_ok_def by blast

text \<open>The enumeration constructors: \<open>MaintenanceJobKind(value)\<close> and \<open>MaintenanceJobStatus(value)\<close>.\<close>

definition job_kind_of :: "str \<Rightarrow> queue_exn + MaintenanceJobKind" where
  "job_kind_of v =
     (if v = job_kind_value EMBEDDING_REINDEX then Inr EMBEDDING_REINDEX
      else if v = job_kind_value BATCH_NOTE_WRITE then Inr BATCH_NOTE_WRITE
      else Inl (InvalidEnumValue ''MaintenanceJobKind'' v))"

definition job_status_of :: "str \<Rightarrow> queue_exn + MaintenanceJobStatus" where
  "job_status_of v =
     (case filter (\<lambda>s. job_status_value s = v)
        [JOB_QUEUED, JOB_RUNNING, JOB_RETRYING, JOB_SUCCEEDED, JOB_FAILED] of
        [] \<Rightarrow> Inl (InvalidEnumValue ''MaintenanceJobStatus'' v)
      | s # _ \<Rightarrow> Inr s)"

lemma job_kind_of_value [simp]: "job_kind_of (job_kind_value k) = Inr k"
  by (cases k) (simp_all add: job_kind_of_def)

lemma job_status_of_value [simp]: "job_status_of (job_status_value s) = Inr s"
  by (cases s) (simp_all add: job_status_of_def)

lemma job_values_nonempty [simp]: "job_kind_value k \<noteq> []" "job_status_value s \<noteq> []"
  by (cases k; simp) (cases s; simp)

lemma job_kind_value_inject [simp]: "job_kind_value a = job_kind_value b \<longleftrightarrow> a = b"
  by (cases a; cases b) simp_all

lemma job_status_value_inject [simp]: "job_status_value a = job_status_value b \<longleftrightarrow> a = b"
  by (cases a; cases b) simp_all

end
