(* ===== verification/Redis_Codec.thy ===== *)
theory Redis_Codec
  imports Maintenance_Model
begin

text \<open>
  The normalisation of Redis responses for maintenance jobs (\<open>redis_maintenance_job_codec.py\<close>):
  each decoder returns the decoded value or the exception it raises, with the checks in the order
  of the source. A normalised field mapping is an insertion-ordered dictionary of the known names.
\<close>

section \<open>Scalars\<close>

abbreviation unavailable :: "str \<Rightarrow> queue_exn + 'a" where
  "unavailable m \<equiv> Inl (MaintenanceQueueUnavailableError m)"

definition response_sequence :: "redis_response \<Rightarrow> str \<Rightarrow> queue_exn + redis_response list" where
  "response_sequence raw field = (case raw of
       RList values \<Rightarrow> Inr values
     | _ \<Rightarrow> unavailable (''Redis '' @ field @ '' must be a sequence''))"

definition bool_text :: "bool \<Rightarrow> str" where
  "bool_text b = (if b then ''True'' else ''False'')"

definition response_text :: "codecs \<Rightarrow> redis_response \<Rightarrow> str \<Rightarrow> queue_exn + str" where
  "response_text X raw field = (case raw of
       RBytes b \<Rightarrow> (case cx_decode X b of
           None \<Rightarrow> unavailable (''Redis '' @ field @ '' is not valid UTF-8'')
         | Some s \<Rightarrow> Inr s)
     | RStr s \<Rightarrow> Inr s
     | RInt i \<Rightarrow> Inr (int_text i)
     | RBool b \<Rightarrow> Inr (bool_text b)
     | _ \<Rightarrow> unavailable (''Redis '' @ field @ '' must be text''))"

definition text_integer :: "str \<Rightarrow> str \<Rightarrow> queue_exn + int" where
  "text_integer value field = (case py_int value of
       Some i \<Rightarrow> Inr i
     | None \<Rightarrow> unavailable (''Redis maintenance field must be an integer: '' @ field))"

definition response_integer :: "codecs \<Rightarrow> redis_response \<Rightarrow> str \<Rightarrow> queue_exn + int" where
  "response_integer X raw field = (case raw of
       RBool _ \<Rightarrow> unavailable (''Redis '' @ field @ '' must be an integer'')
     | RInt i \<Rightarrow> Inr i
     | _ \<Rightarrow> and_then (response_text X raw field) (\<lambda>s. text_integer s field))"

definition required :: "str option \<Rightarrow> str \<Rightarrow> queue_exn + str" where
  "required value field = (case value of
       Some (c # cs) \<Rightarrow> Inr (c # cs)
     | _ \<Rightarrow> unavailable (''Redis maintenance status field is missing: '' @ field))"

definition nonblank :: "str option \<Rightarrow> str option" where
  "nonblank value = (case value of
       None \<Rightarrow> None
     | Some v \<Rightarrow> (let normalized = strip v in if normalized = [] then None else Some normalized))"

definition text_datetime :: "codecs \<Rightarrow> str \<Rightarrow> str \<Rightarrow> queue_exn + instant" where
  "text_datetime X value field = (case cx_fromisoformat X value of
       Some t \<Rightarrow> Inr t
     | None \<Rightarrow> unavailable (''Redis maintenance datetime is invalid: '' @ field))"

definition optional_datetime :: "codecs \<Rightarrow> str option \<Rightarrow> str \<Rightarrow> queue_exn + instant option" where
  "optional_datetime X value field = (case nonblank value of
       None \<Rightarrow> Inr None
     | Some v \<Rightarrow> and_then (text_datetime X v field) (\<lambda>t. Inr (Some t)))"

definition json_integer :: "json \<Rightarrow> str \<Rightarrow> queue_exn + int" where
  "json_integer raw field = (case raw of
       JInt i \<Rightarrow> Inr i
     | _ \<Rightarrow> unavailable (''Redis maintenance result field must be an integer: '' @ field))"

definition json_text :: "json \<Rightarrow> str \<Rightarrow> queue_exn + str" where
  "json_text raw field = (case raw of
       JStr s \<Rightarrow> Inr s
     | _ \<Rightarrow> unavailable (''Redis maintenance result field must be text: '' @ field))"

definition json_optional_text :: "json \<Rightarrow> queue_exn + str option" where
  "json_optional_text raw = (case raw of
       JNull \<Rightarrow> Inr None
     | _ \<Rightarrow> and_then (json_text raw ''optional text'') (\<lambda>s. Inr (Some s)))"

section \<open>Field mappings\<close>

type_synonym fields = "(str \<times> str) list"

definition status_field_names :: "str list" where
  "status_field_names = [''job_id'', ''kind'', ''status'', ''requested_by'', ''source_id'', ''limit'',
     ''force'', ''attempts'', ''submitted_at'', ''started_at'', ''finished_at'', ''stream_id'',
     ''result_json'', ''error_summary'']"

definition dead_letter_field_names :: "str list" where
  "dead_letter_field_names = [''job_id'', ''kind'', ''attempts'', ''failed_at'', ''error_summary'',
     ''source_stream_id'']"

text \<open>The loop both normalisations share: every key and value is decoded, known keys are kept.\<close>

fun normalize_fields ::
  "codecs \<Rightarrow> str list \<Rightarrow> str \<Rightarrow> (redis_response \<times> redis_response) list \<Rightarrow> fields \<Rightarrow> queue_exn + fields" where
  "normalize_fields X names label [] normalized = Inr normalized"
| "normalize_fields X names label ((raw_key, raw_value) # items) normalized =
     and_then (response_text X raw_key label) (\<lambda>key.
     and_then (response_text X raw_value key) (\<lambda>value.
     normalize_fields X names label items
       (if key \<in> set names then dict_set key value normalized else normalized)))"

definition status_fields :: "codecs \<Rightarrow> redis_response \<Rightarrow> queue_exn + fields" where
  "status_fields X raw = (case raw of
       RDict items \<Rightarrow> normalize_fields X status_field_names ''status key'' items []
     | _ \<Rightarrow> unavailable ''Redis maintenance status must be a mapping'')"

definition dead_letter_fields :: "codecs \<Rightarrow> redis_response \<Rightarrow> queue_exn + fields" where
  "dead_letter_fields X raw = (case raw of
       RDict items \<Rightarrow> normalize_fields X dead_letter_field_names ''dead-letter key'' items []
     | _ \<Rightarrow> unavailable ''Redis dead-letter entry must be a mapping'')"

section \<open>Job results\<close>

definition optional_json_text :: "str option \<Rightarrow> json" where
  "optional_json_text v = (case v of None \<Rightarrow> JNull | Some s \<Rightarrow> JStr s)"

definition batch_item_json :: "BatchNoteWriteJobItem \<Rightarrow> json" where
  "batch_item_json item = JObj [(''path'', JStr (bi_path item)), (''status'', JStr (bi_status item)),
     (''content_hash'', optional_json_text (bi_content_hash item)),
     (''current_content_hash'', optional_json_text (bi_current_content_hash item))]"

definition batch_result_json :: "BatchNoteWriteJobResult \<Rightarrow> json" where
  "batch_result_json result = JObj [(''succeeded'', JInt (br_succeeded result)),
     (''conflicted'', JInt (br_conflicted result)), (''failed'', JInt (br_failed result)),
     (''items'', JList (map batch_item_json (br_items result)))]"

definition embedding_result_json :: "EmbeddingReindexJobResult \<Rightarrow> json" where
  "embedding_result_json result = JObj [(''scanned'', JInt (er_scanned result)),
     (''updated'', JInt (er_updated result)), (''skipped'', JInt (er_skipped result)),
     (''warnings'', JList (map JStr (er_warnings result)))]"

definition dumps_json :: "codecs \<Rightarrow> json \<Rightarrow> queue_exn + bytes" where
  "dumps_json X j = (case cx_dumps X j of None \<Rightarrow> Inl JSONEncodeError | Some b \<Rightarrow> Inr b)"

definition loads_json :: "codecs \<Rightarrow> str \<Rightarrow> queue_exn + json" where
  "loads_json X s = (case cx_loads X s of None \<Rightarrow> Inl JSONDecodeError | Some j \<Rightarrow> Inr j)"

definition encode_batch_note_write_result :: "codecs \<Rightarrow> BatchNoteWriteJobResult \<Rightarrow> queue_exn + bytes" where
  "encode_batch_note_write_result X result = dumps_json X (batch_result_json result)"

definition encode_embedding_result :: "codecs \<Rightarrow> EmbeddingReindexJobResult \<Rightarrow> queue_exn + bytes" where
  "encode_embedding_result X result = dumps_json X (embedding_result_json result)"

definition json_object :: "json \<Rightarrow> str \<Rightarrow> queue_exn + json_object" where
  "json_object j message = (case j of JObj d \<Rightarrow> Inr d | _ \<Rightarrow> unavailable message)"

text \<open>\<open>decoded.get(key, [])\<close>, checked to be a sequence that is not text.\<close>

definition json_sequence :: "json_object \<Rightarrow> str \<Rightarrow> str \<Rightarrow> queue_exn + json list" where
  "json_sequence d key message = (case map_of d key of
       None \<Rightarrow> Inr [] | Some (JList js) \<Rightarrow> Inr js | Some _ \<Rightarrow> unavailable message)"

definition batch_item_of :: "json \<Rightarrow> queue_exn + BatchNoteWriteJobItem" where
  "batch_item_of item_raw =
     and_then (json_object item_raw ''Redis maintenance result item must be an object'') (\<lambda>d.
     and_then (json_text (json_get ''path'' d) ''path'') (\<lambda>path.
     and_then (json_text (json_get ''status'' d) ''status'') (\<lambda>st.
     and_then (json_optional_text (json_get ''content_hash'' d)) (\<lambda>content_hash.
     and_then (json_optional_text (json_get ''current_content_hash'' d)) (\<lambda>current.
     Inr \<lparr> bi_path = path, bi_status = st, bi_content_hash = content_hash,
           bi_current_content_hash = current \<rparr>)))))"

definition decode_batch_note_write_result :: "codecs \<Rightarrow> str \<Rightarrow> queue_exn + BatchNoteWriteJobResult" where
  "decode_batch_note_write_result X payload =
     and_then (loads_json X payload) (\<lambda>decoded.
     and_then (json_object decoded ''Redis maintenance result JSON must be an object'') (\<lambda>d.
     and_then (json_sequence d ''items'' ''Redis maintenance result items must be a sequence'') (\<lambda>items_raw.
     and_then (traverse batch_item_of items_raw) (\<lambda>items.
     and_then (json_integer (json_get ''succeeded'' d) ''succeeded'') (\<lambda>succeeded.
     and_then (json_integer (json_get ''conflicted'' d) ''conflicted'') (\<lambda>conflicted.
     and_then (json_integer (json_get ''failed'' d) ''failed'') (\<lambda>failed.
     Inr \<lparr> br_succeeded = succeeded, br_conflicted = conflicted, br_failed = failed,
           br_items = items \<rparr>)))))))"

definition warning_of :: "json \<Rightarrow> queue_exn + str" where
  "warning_of warning = (case warning of
       JStr s \<Rightarrow> Inr s
     | _ \<Rightarrow> unavailable ''Redis maintenance result warning must be text'')"

definition decode_embedding_result :: "codecs \<Rightarrow> str \<Rightarrow> queue_exn + EmbeddingReindexJobResult" where
  "decode_embedding_result X payload =
     and_then (loads_json X payload) (\<lambda>decoded.
     and_then (json_object decoded ''Redis maintenance result JSON must be an object'') (\<lambda>d.
     and_then (json_integer (json_get ''scanned'' d) ''scanned'') (\<lambda>scanned.
     and_then (json_integer (json_get ''updated'' d) ''updated'') (\<lambda>updated.
     and_then (json_integer (json_get ''skipped'' d) ''skipped'') (\<lambda>skipped.
     and_then (json_sequence d ''warnings'' ''Redis maintenance result warnings must be a sequence'') (\<lambda>raw.
     and_then (traverse warning_of raw) (\<lambda>warnings.
     Inr \<lparr> er_scanned = scanned, er_updated = updated, er_skipped = skipped,
           er_warnings = warnings \<rparr>)))))))"

definition decode_job_result :: "codecs \<Rightarrow> str option \<Rightarrow> str \<Rightarrow> queue_exn + job_result" where
  "decode_job_result X kind payload =
     (if kind = Some (job_kind_value BATCH_NOTE_WRITE) then
        and_then (decode_batch_note_write_result X payload) (\<lambda>r. Inr (BatchResult r))
      else if kind = Some (job_kind_value EMBEDDING_REINDEX) then
        and_then (decode_embedding_result X payload) (\<lambda>r. Inr (EmbeddingResult r))
      else unavailable ''Redis maintenance job result kind is unknown'')"

section \<open>Responses\<close>

record EnqueueScriptResult =
  es_state :: str
  es_value :: str
  es_stream_id :: str

record RedisStreamDelivery =
  sd_stream_id :: str
  sd_job_id :: str

definition decode_enqueue_result :: "codecs \<Rightarrow> redis_response \<Rightarrow> queue_exn + EnqueueScriptResult" where
  "decode_enqueue_result X raw =
     and_then (response_sequence raw ''enqueue response'') (\<lambda>values.
     case values of
       [v0, v1, v2] \<Rightarrow>
         and_then (response_text X v0 ''enqueue state'') (\<lambda>state.
         and_then (response_text X v1 ''enqueue value'') (\<lambda>value.
         and_then (response_text X v2 ''enqueue stream id'') (\<lambda>sid.
         Inr \<lparr> es_state = state, es_value = value, es_stream_id = sid \<rparr>)))
     | _ \<Rightarrow> unavailable ''Redis maintenance enqueue returned an invalid response'')"

text \<open>The snapshot built from the normalised fields.\<close>

definition snapshot_of :: "codecs \<Rightarrow> (str \<Rightarrow> str option) \<Rightarrow> queue_exn + MaintenanceJobSnapshot" where
  "snapshot_of X get =
     (let result_json = (case get ''result_json'' of None \<Rightarrow> [] | Some s \<Rightarrow> s) in
     and_then (required (get ''job_id'') ''job_id'') (\<lambda>job_id.
     and_then (and_then (required (get ''kind'') ''kind'') job_kind_of) (\<lambda>kind.
     and_then (and_then (required (get ''status'') ''status'') job_status_of) (\<lambda>st.
     and_then (required (get ''requested_by'') ''requested_by'') (\<lambda>requested_by.
     and_then (required (get ''source_id'') ''source_id'') (\<lambda>source_id.
     and_then (and_then (required (get ''limit'') ''limit'') (\<lambda>s. text_integer s ''limit'')) (\<lambda>limit.
     and_then (required (get ''force'') ''force'') (\<lambda>force.
     and_then (and_then (required (get ''attempts'') ''attempts'') (\<lambda>s. text_integer s ''attempts'')) (\<lambda>attempts.
     and_then (and_then (required (get ''submitted_at'') ''submitted_at'')
                 (\<lambda>s. text_datetime X s ''submitted_at'')) (\<lambda>submitted_at.
     and_then (optional_datetime X (get ''started_at'') ''started_at'') (\<lambda>started_at.
     and_then (optional_datetime X (get ''finished_at'') ''finished_at'') (\<lambda>finished_at.
     and_then (if result_json = [] then Inr None
               else and_then (decode_job_result X (get ''kind'') result_json) (\<lambda>r. Inr (Some r))) (\<lambda>result.
     Inr \<lparr> js_job_id = job_id, js_kind = kind, js_status = st, js_requested_by = requested_by,
       js_source_id = source_id, js_limit = limit, js_force = (force = ''1''), js_attempts = attempts,
       js_submitted_at = submitted_at, js_started_at = started_at, js_finished_at = finished_at,
       js_stream_id = nonblank (get ''stream_id''), js_deduplicated = False,
       js_error_summary = nonblank (get ''error_summary''), js_result = result \<rparr>)))))))))))))"

definition decode_job_snapshot :: "codecs \<Rightarrow> redis_response \<Rightarrow> queue_exn + MaintenanceJobSnapshot option" where
  "decode_job_snapshot X raw =
     and_then (status_fields X raw) (\<lambda>fields.
     if fields = [] then Inr None
     else and_then (snapshot_of X (map_of fields)) (\<lambda>s. Inr (Some s)))"

text \<open>\<open>raw.get(k)\<close> on a response dictionary: an absent key gives None.\<close>

definition response_get :: "(redis_response \<times> redis_response) list \<Rightarrow> redis_response \<Rightarrow> redis_response" where
  "response_get d k = (case map_of d k of None \<Rightarrow> RNone | Some v \<Rightarrow> v)"

definition decode_pending_count :: "codecs \<Rightarrow> redis_response \<Rightarrow> queue_exn + int" where
  "decode_pending_count X raw = (case raw of
       RDict d \<Rightarrow> (let pending = response_get d (RStr ''pending'') in
         response_integer X
           (if pending = RNone then response_get d (RBytes (cx_encode X ''pending'')) else pending)
           ''pending'')
     | _ \<Rightarrow> and_then (response_sequence raw ''pending summary'') (\<lambda>values.
         case values of [] \<Rightarrow> Inr 0 | v # _ \<Rightarrow> response_integer X v ''pending''))"

definition decode_consumer_count :: "redis_response \<Rightarrow> queue_exn + int" where
  "decode_consumer_count raw =
     and_then (response_sequence raw ''consumer info'') (\<lambda>values. Inr (int (length values)))"

definition delivery_of :: "codecs \<Rightarrow> redis_response \<Rightarrow> queue_exn + RedisStreamDelivery" where
  "delivery_of X raw =
     and_then (response_sequence raw ''stream delivery'') (\<lambda>values.
     case values of
       [v0, v1] \<Rightarrow>
         and_then (status_fields X v1) (\<lambda>fields.
         and_then (response_text X v0 ''stream id'') (\<lambda>sid.
         and_then (required (map_of fields ''job_id'') ''job_id'') (\<lambda>job_id.
         Inr \<lparr> sd_stream_id = sid, sd_job_id = job_id \<rparr>)))
     | _ \<Rightarrow> unavailable ''Redis maintenance stream delivery is invalid'')"

definition decode_autoclaim_delivery :: "codecs \<Rightarrow> redis_response \<Rightarrow> queue_exn + RedisStreamDelivery option" where
  "decode_autoclaim_delivery X raw =
     and_then (response_sequence raw ''autoclaim response'') (\<lambda>values.
     case values of
       v0 # v1 # _ \<Rightarrow> and_then (response_sequence v1 ''autoclaim entries'') (\<lambda>entries.
         case entries of [] \<Rightarrow> Inr None | e # _ \<Rightarrow> and_then (delivery_of X e) (\<lambda>d. Inr (Some d)))
     | _ \<Rightarrow> Inr None)"

definition decode_readgroup_delivery :: "codecs \<Rightarrow> redis_response \<Rightarrow> queue_exn + RedisStreamDelivery option" where
  "decode_readgroup_delivery X raw =
     and_then (response_sequence raw ''readgroup response'') (\<lambda>streams.
     case streams of [] \<Rightarrow> Inr None | stream # _ \<Rightarrow>
       and_then (response_sequence stream ''readgroup stream'') (\<lambda>stream_record.
       case stream_record of
         v0 # v1 # _ \<Rightarrow> and_then (response_sequence v1 ''readgroup entries'') (\<lambda>entries.
           case entries of [] \<Rightarrow> Inr None | e # _ \<Rightarrow> and_then (delivery_of X e) (\<lambda>d. Inr (Some d)))
       | _ \<Rightarrow> Inr None))"

definition dead_letter_entry_of :: "codecs \<Rightarrow> redis_response \<Rightarrow> queue_exn + MaintenanceDeadLetterEntry" where
  "dead_letter_entry_of X record =
     and_then (response_sequence record ''dead-letter entry'') (\<lambda>values.
     case values of
       [v0, v1] \<Rightarrow>
         and_then (dead_letter_fields X v1) (\<lambda>fields. let get = map_of fields in
         and_then (response_text X v0 ''dead-letter entry id'') (\<lambda>entry_id.
         and_then (required (get ''job_id'') ''job_id'') (\<lambda>job_id.
         and_then (and_then (required (get ''kind'') ''kind'') job_kind_of) (\<lambda>kind.
         and_then (and_then (required (get ''attempts'') ''attempts'')
                     (\<lambda>s. text_integer s ''attempts'')) (\<lambda>attempts.
         and_then (and_then (required (get ''failed_at'') ''failed_at'')
                     (\<lambda>s. text_datetime X s ''failed_at'')) (\<lambda>failed_at.
         and_then (required (get ''source_stream_id'') ''source_stream_id'') (\<lambda>source_stream_id.
         Inr \<lparr> dl_entry_id = entry_id, dl_job_id = job_id, dl_kind = kind, dl_attempts = attempts,
           dl_failed_at = failed_at,
           dl_error_summary = (case nonblank (get ''error_summary'') of None \<Rightarrow> [] | Some s \<Rightarrow> s),
           dl_source_stream_id = source_stream_id \<rparr>)))))))
     | _ \<Rightarrow> unavailable ''Redis dead-letter entry is invalid'')"

definition decode_dead_letter_entries :: "codecs \<Rightarrow> redis_response \<Rightarrow> queue_exn + MaintenanceDeadLetterEntry list" where
  "decode_dead_letter_entries X raw =
     and_then (response_sequence raw ''dead-letter entries'') (\<lambda>records.
     traverse (dead_letter_entry_of X) records)"

definition decode_dead_letter_source_request :: "codecs \<Rightarrow> redis_response \<Rightarrow> queue_exn + MaintenanceJobRequest option" where
  "decode_dead_letter_source_request X raw =
     and_then (response_sequence raw ''dead-letter source entries'') (\<lambda>records.
     case records of [] \<Rightarrow> Inr None | record # _ \<Rightarrow>
       and_then (response_sequence record ''dead-letter source entry'') (\<lambda>values.
       case values of
         [v0, v1] \<Rightarrow>
           and_then (status_fields X v1) (\<lambda>fields. let get = map_of fields in
           and_then (and_then (required (get ''kind'') ''kind'') job_kind_of) (\<lambda>kind.
           and_then (required (get ''requested_by'') ''requested_by'') (\<lambda>requested_by.
           and_then (required (get ''source_id'') ''source_id'') (\<lambda>source_id.
           and_then (and_then (required (get ''limit'') ''limit'') (\<lambda>s. text_integer s ''limit'')) (\<lambda>limit.
           and_then (required (get ''force'') ''force'') (\<lambda>force.
           Inr (Some \<lparr> jr_kind = kind, jr_requested_by = requested_by, jr_source_id = source_id,
             jr_limit = limit, jr_force = (force = ''1'') \<rparr>)))))))
       | _ \<Rightarrow> unavailable ''Redis dead-letter source entry is invalid''))"

section \<open>Round trips\<close>

lemma batch_item_round_trip: "batch_item_of (batch_item_json item) = Inr item"
  by (cases "bi_content_hash item"; cases "bi_current_content_hash item")
     (simp_all add: batch_item_of_def batch_item_json_def json_object_def json_get_def json_text_def
        json_optional_text_def optional_json_text_def)

lemma warnings_round_trip: "traverse warning_of (map JStr ws) = Inr ws"
  by (rule traverse_map_id) (simp add: warning_of_def)

definition result_json_of :: "job_result \<Rightarrow> json" where
  "result_json_of r = (case r of BatchResult b \<Rightarrow> batch_result_json b | EmbeddingResult e \<Rightarrow> embedding_result_json e)"

definition result_kind :: "job_result \<Rightarrow> MaintenanceJobKind" where
  "result_kind r = (case r of BatchResult _ \<Rightarrow> BATCH_NOTE_WRITE | EmbeddingResult _ \<Rightarrow> EMBEDDING_REINDEX)"

lemma decode_job_result_round_trip:
  assumes "cx_loads X s = Some (result_json_of r)"
  shows "decode_job_result X (Some (job_kind_value (result_kind r))) s = Inr r"
proof (cases r)
  case (BatchResult b)
  have "traverse batch_item_of (map batch_item_json (br_items b)) = Inr (br_items b)"
    by (rule traverse_map_id) (rule batch_item_round_trip)
  with BatchResult assms show ?thesis
    by (simp add: decode_job_result_def decode_batch_note_write_result_def loads_json_def result_json_of_def
        result_kind_def batch_result_json_def json_object_def json_sequence_def json_integer_def json_get_def)
next
  case (EmbeddingResult e)
  with assms show ?thesis
    by (simp add: decode_job_result_def decode_embedding_result_def loads_json_def result_json_of_def
        result_kind_def embedding_result_json_def json_object_def json_sequence_def json_integer_def
        json_get_def warnings_round_trip)
qed

text \<open>The integers of a result fit into 64 bits, which is what orjson writes.\<close>

definition result_bounded :: "job_result \<Rightarrow> bool" where
  "result_bounded r = (case r of
       BatchResult b \<Rightarrow> int64 (br_succeeded b) \<and> int64 (br_conflicted b) \<and> int64 (br_failed b)
     | EmbeddingResult e \<Rightarrow> int64 (er_scanned e) \<and> int64 (er_updated e) \<and> int64 (er_skipped e))"

lemma result_json_plain: "result_bounded r \<Longrightarrow> json_plain (result_json_of r)"
  by (cases r) (auto simp: result_bounded_def result_json_of_def int64_def batch_result_json_def
      embedding_result_json_def batch_item_json_def optional_json_text_def split: option.splits)

section \<open>Status hashes as text\<close>

text \<open>What a hash holds under a name, as text, and that a hash holds nothing but text.\<close>

definition text_at :: "codecs \<Rightarrow> (bytes \<Rightarrow> bytes option) \<Rightarrow> str \<Rightarrow> str option" where
  "text_at X h n = (case h (cx_encode X n) of None \<Rightarrow> None | Some b \<Rightarrow> cx_decode X b)"

definition text_hash :: "codecs \<Rightarrow> (bytes \<Rightarrow> bytes option) \<Rightarrow> bool" where
  "text_hash X h \<longleftrightarrow> (\<forall>k b. h k = Some b \<longrightarrow> (\<exists>n. k = cx_encode X n) \<and> (\<exists>s. b = cx_encode X s))"

definition known_texts :: "str list \<Rightarrow> (str \<times> str) list \<Rightarrow> fields \<Rightarrow> fields" where
  "known_texts names kvs d = fold (\<lambda>(k, v) d. if k \<in> set names then dict_set k v d else d) kvs d"

lemma normalize_fields_texts:
  assumes "codecs_ok X"
  shows "normalize_fields X names label
    (map (\<lambda>(k, v). (RBytes (cx_encode X k), RBytes (cx_encode X v))) kvs) d = Inr (known_texts names kvs d)"
  by (induction kvs arbitrary: d)
     (auto simp: known_texts_def response_text_def decode_encode [OF assms])

lemma map_of_known_texts:
  "distinct (map fst kvs) \<Longrightarrow>
   map_of (known_texts names kvs d) n =
     (case map_of kvs n of Some v \<Rightarrow> if n \<in> set names then Some v else map_of d n | None \<Rightarrow> map_of d n)"
proof (induction kvs arbitrary: d)
  case (Cons kv kvs)
  obtain k v where kv: "kv = (k, v)" by (cases kv)
  with Cons.prems have "map_of kvs k = None" by (simp add: map_of_eq_None_iff)
  with Cons kv show ?case by (auto simp: known_texts_def split: option.split)
qed (simp add: known_texts_def)

lemma text_hash_items:
  assumes X: "codecs_ok X" and h: "text_hash X (map_of kvs)" and d: "distinct (map fst kvs)"
  obtains texts where "kvs = map (\<lambda>(k, v). (cx_encode X k, cx_encode X v)) texts"
    "distinct (map fst texts)" "\<And>n. map_of texts n = text_at X (map_of kvs) n"
proof -
  have "\<exists>texts. kvs = map (\<lambda>(k, v). (cx_encode X k, cx_encode X v)) texts"
    using h d
  proof (induction kvs)
    case (Cons kv kvs)
    obtain k b where kv: "kv = (k, b)" by (cases kv)
    have "text_hash X (map_of kvs)"
      unfolding text_hash_def
    proof (intro allI impI)
      fix k' b' assume b': "map_of kvs k' = Some b'"
      then have "k' \<in> fst ` set kvs" by (metis domI dom_map_of_conv_image_fst)
      with Cons.prems(2) kv have "map_of (kv # kvs) k' = Some b'" using b' by auto
      with Cons.prems(1) show "(\<exists>n. k' = cx_encode X n) \<and> (\<exists>s. b' = cx_encode X s)"
        unfolding text_hash_def by blast
    qed
    with Cons obtain texts where "kvs = map (\<lambda>(k, v). (cx_encode X k, cx_encode X v)) texts" by auto
    moreover obtain n s where "k = cx_encode X n" "b = cx_encode X s"
      using Cons.prems(1) [unfolded text_hash_def, rule_format, of k b] kv by auto
    ultimately have "kv # kvs = map (\<lambda>(k, v). (cx_encode X k, cx_encode X v)) ((n, s) # texts)"
      using kv by simp
    then show ?case by (rule exI)
  qed simp
  then obtain texts where t: "kvs = map (\<lambda>(k, v). (cx_encode X k, cx_encode X v)) texts" by blast
  have "map_of texts n = text_at X (map_of kvs) n" for n
    unfolding t text_at_def
    by (induction texts) (auto simp: encode_inject [OF X] decode_encode [OF X] split: option.splits)
  moreover have "distinct (map fst texts)"
    using d unfolding t by (induction texts) (force simp: encode_inject [OF X])+
  ultimately show thesis using that t by blast
qed

text \<open>Reading a status hash: the known names, each with its text.\<close>

lemma status_fields_of_hash:
  assumes X: "codecs_ok X" and h: "text_hash X h" and kvs: "map_of kvs = h" "distinct (map fst kvs)"
  obtains fields where
    "status_fields X (RDict (map (\<lambda>(k, v). (RBytes k, RBytes v)) kvs)) = Inr fields"
    "\<And>n. map_of fields n = (if n \<in> set status_field_names then text_at X h n else None)"
proof -
  obtain texts where t: "kvs = map (\<lambda>(k, v). (cx_encode X k, cx_encode X v)) texts"
    and d: "distinct (map fst texts)" and m: "\<And>n. map_of texts n = text_at X (map_of kvs) n"
    using text_hash_items [OF X _ kvs(2)] h kvs(1) by blast
  have "status_fields X (RDict (map (\<lambda>(k, v). (RBytes k, RBytes v)) kvs)) =
      Inr (known_texts status_field_names texts [])"
    using normalize_fields_texts [OF X, of status_field_names "''status key''" texts "[]"]
    unfolding t by (simp add: status_fields_def comp_def split_def)
  moreover have "map_of (known_texts status_field_names texts []) n =
      (if n \<in> set status_field_names then text_at X h n else None)" for n
    using map_of_known_texts [OF d] m kvs(1) by (auto split: option.split)
  ultimately show thesis using that by blast
qed

end
