(* ===== verification/Redis_Server.thy ===== *)
theory Redis_Server
  imports Redis_Codec
begin

text \<open>
  The Redis server and the redis-py client are not part of the repository: the queue is modelled
  over a parameter of type \<open>redis\<close>, one field per command the code sends. The state of the server
  is an arbitrary type; \<open>rd_view\<close> reads the keys, stream entries and pending entries off it. What
  the queue relies on is stated on that view as the named hypothesis \<open>redis_ok\<close>, after the
  documentation of each command: an error reply leaves the data as it was, and a command that is
  answered had its documented effect.

  The connection is a part of the parameter: before each command \<open>rd_link\<close> says whether the
  request and its answer get through. A lost answer leaves the client with an error although the
  command was executed. Keys with a lifetime may disappear between two commands (\<open>aged\<close>).
\<close>

section \<open>The parameter\<close>

record redis_view =
  rv_strings :: "str \<Rightarrow> bytes option"
  rv_hashes :: "str \<Rightarrow> bytes \<Rightarrow> bytes option"
  rv_streams :: "str \<Rightarrow> (bytes \<times> (bytes \<times> bytes) list) list"
  rv_pending :: "str \<Rightarrow> str \<Rightarrow> bytes set"

datatype link = Delivered | RequestLost str | ReplyLost str

type_synonym ('r, 'a) command = "('r, redis_fault, 'a) prog"

record 'r redis =
  rd_view :: "'r \<Rightarrow> redis_view"
  rd_link :: "'r \<Rightarrow> link \<times> 'r"
  rd_get :: "str \<Rightarrow> ('r, bytes option) command"
  rd_set_ex :: "str \<Rightarrow> bytes \<Rightarrow> int \<Rightarrow> ('r, unit) command"
  rd_incr :: "str \<Rightarrow> ('r, int) command"
  rd_expire :: "str \<Rightarrow> int \<Rightarrow> ('r, int) command"
  rd_ttl :: "str \<Rightarrow> ('r, int) command"
  rd_hset :: "str \<Rightarrow> (bytes \<times> bytes) list \<Rightarrow> ('r, int) command"
  rd_hgetall :: "str \<Rightarrow> ('r, redis_response) command"
  rd_hincrby :: "str \<Rightarrow> bytes \<Rightarrow> int \<Rightarrow> ('r, redis_response) command"
  rd_xadd :: "str \<Rightarrow> int \<Rightarrow> (bytes \<times> bytes) list \<Rightarrow> ('r, bytes) command"
  rd_xack :: "str \<Rightarrow> str \<Rightarrow> bytes \<Rightarrow> ('r, int) command"
  rd_xgroup_create :: "str \<Rightarrow> str \<Rightarrow> ('r, unit) command"
  rd_xautoclaim :: "str \<Rightarrow> str \<Rightarrow> str \<Rightarrow> int \<Rightarrow> ('r, redis_response) command"
  rd_xreadgroup :: "str \<Rightarrow> str \<Rightarrow> str \<Rightarrow> int \<Rightarrow> ('r, redis_response) command"
  rd_xlen :: "str \<Rightarrow> ('r, redis_response) command"
  rd_xpending :: "str \<Rightarrow> str \<Rightarrow> ('r, redis_response) command"
  rd_xinfo_consumers :: "str \<Rightarrow> str \<Rightarrow> ('r, redis_response) command"
  rd_xrange :: "str \<Rightarrow> bytes \<Rightarrow> ('r, redis_response) command"
  rd_xrevrange :: "str \<Rightarrow> int \<Rightarrow> ('r, redis_response) command"
  rd_xtrim :: "str \<Rightarrow> ('r, int) command"

text \<open>
  One command sent by the client: lost, executed with its answer lost, or executed and answered.
  \<open>wrap\<close> makes the fault an exception of the calling module.
\<close>

definition exchange :: "(redis_fault \<Rightarrow> 'e) \<Rightarrow> 'r redis \<Rightarrow> ('r, 'a) command \<Rightarrow> ('r, 'e, 'a) prog" where
  "exchange wrap R m r = (case rd_link R r of
       (RequestLost e, r1) \<Rightarrow> (Inl (wrap (ConnectionFault e)), r1)
     | (ReplyLost e, r1) \<Rightarrow> (Inl (wrap (ConnectionFault e)), snd (m r1))
     | (Delivered, r1) \<Rightarrow> (case m r1 of
           (Inl f, r2) \<Rightarrow> (Inl (wrap f), r2)
         | (Inr x, r2) \<Rightarrow> (Inr x, r2)))"

definition call :: "'r redis \<Rightarrow> ('r, 'a) command \<Rightarrow> ('r, queue_exn, 'a) prog" where
  "call R m = exchange RedisFault R m"

text \<open>\<open>except RedisError as exc: raise MaintenanceQueueUnavailableError(message) from exc\<close>.\<close>

definition except_redis :: "str \<Rightarrow> ('r, queue_exn, 'a) prog \<Rightarrow> ('r, queue_exn, 'a) prog" where
  "except_redis message m = try_catch m (\<lambda>e. case e of
       RedisFault _ \<Rightarrow> raise (MaintenanceQueueUnavailableError message)
     | _ \<Rightarrow> raise e)"

definition decoded :: "queue_exn + 'a \<Rightarrow> ('r, queue_exn, 'a) prog" where
  "decoded x r = (x, r)"

section \<open>What the commands promise\<close>

definition hash_put :: "(bytes \<times> bytes) list \<Rightarrow> (bytes \<Rightarrow> bytes option) \<Rightarrow> bytes \<Rightarrow> bytes option" where
  "hash_put m h = fold (\<lambda>(f, x) h. h(f \<mapsto> x)) m h"

definition view_set :: "str \<Rightarrow> bytes \<Rightarrow> redis_view \<Rightarrow> redis_view" where
  "view_set k b v = v\<lparr>rv_strings := (rv_strings v)(k \<mapsto> b)\<rparr>"

definition view_hset :: "str \<Rightarrow> (bytes \<times> bytes) list \<Rightarrow> redis_view \<Rightarrow> redis_view" where
  "view_hset k m v = v\<lparr>rv_hashes := (rv_hashes v)(k := hash_put m (rv_hashes v k))\<rparr>"

definition view_ack :: "str \<Rightarrow> str \<Rightarrow> bytes \<Rightarrow> redis_view \<Rightarrow> redis_view" where
  "view_ack s g i v = v\<lparr>rv_pending := (rv_pending v)(s := (rv_pending v s)(g := rv_pending v s g - {i}))\<rparr>"

definition view_deliver :: "str \<Rightarrow> str \<Rightarrow> bytes set \<Rightarrow> redis_view \<Rightarrow> redis_view" where
  "view_deliver s g is v = v\<lparr>rv_pending := (rv_pending v)(s := (rv_pending v s)(g := is))\<rparr>"

definition view_stream :: "str \<Rightarrow> (bytes \<times> (bytes \<times> bytes) list) list \<Rightarrow> redis_view \<Rightarrow> redis_view" where
  "view_stream s es v = v\<lparr>rv_streams := (rv_streams v)(s := es)\<rparr>"

lemmas view_updates = view_set_def view_hset_def view_ack_def view_deliver_def view_stream_def

text \<open>Between two commands keys with a lifetime may expire; streams and their groups have none.\<close>

definition aged :: "redis_view \<Rightarrow> redis_view \<Rightarrow> bool" where
  "aged v v' \<longleftrightarrow> rv_strings v' \<subseteq>\<^sub>m rv_strings v \<and>
     (\<forall>k. rv_hashes v' k = rv_hashes v k \<or> rv_hashes v' k = Map.empty) \<and>
     rv_streams v' = rv_streams v \<and> rv_pending v' = rv_pending v"

text \<open>The number a string or hash field counts: absent is zero, else its canonical
  decimal text; counters are signed 64-bit integers and an overflow is refused.\<close>

definition counts :: "bytes option \<Rightarrow> int \<Rightarrow> bool" where
  "counts b n \<longleftrightarrow> int64 n \<and> (b = None \<and> n = 0 \<or> b = Some (int_text n))"

definition items_response :: "(bytes \<times> bytes) list \<Rightarrow> redis_response" where
  "items_response kvs = RDict (map (\<lambda>(k, v). (RBytes k, RBytes v)) kvs)"

definition entry_response :: "bytes \<times> (bytes \<times> bytes) list \<Rightarrow> redis_response" where
  "entry_response e = RList [RBytes (fst e), items_response (snd e)]"

text \<open>
  \<open>answers R m Q\<close>: an error reply leaves the data alone; an answer \<open>x\<close> and the view before and
  after are related by \<open>Q\<close>.
\<close>

definition answers :: "'r redis \<Rightarrow> ('r, 'a) command \<Rightarrow> (redis_view \<Rightarrow> 'a \<Rightarrow> redis_view \<Rightarrow> bool) \<Rightarrow> bool" where
  "answers R m Q \<longleftrightarrow> (\<forall>r. case m r of
       (Inl _, r') \<Rightarrow> rd_view R r' = rd_view R r
     | (Inr x, r') \<Rightarrow> Q (rd_view R r) x (rd_view R r'))"

abbreviation reads :: "redis_view \<Rightarrow> 'a \<Rightarrow> redis_view \<Rightarrow> bool" where
  "reads v x v' \<equiv> v' = v"

definition redis_keys_ok :: "'r redis \<Rightarrow> bool" where
  "redis_keys_ok R \<longleftrightarrow>
     (\<forall>r. aged (rd_view R r) (rd_view R (snd (rd_link R r)))) \<and>
     (\<forall>k. answers R (rd_get R k) (\<lambda>v x v'. x = rv_strings v k \<and> v' = v)) \<and>
     (\<forall>k b ex. answers R (rd_set_ex R k b ex) (\<lambda>v x v'. v' = view_set k b v)) \<and>
     (\<forall>k. answers R (rd_incr R k) (\<lambda>v x v'.
        \<exists>n. counts (rv_strings v k) n \<and> x = n + 1 \<and> int64 x \<and> v' = view_set k (int_text x) v)) \<and>
     (\<forall>k n. answers R (rd_expire R k n) (\<lambda>v x v'. 0 < n \<longrightarrow> v' = v)) \<and>
     (\<forall>k. answers R (rd_ttl R k) (\<lambda>v x v'. int64 x \<and> v' = v)) \<and>
     (\<forall>k m. answers R (rd_hset R k m) (\<lambda>v x v'. v' = view_hset k m v)) \<and>
     (\<forall>k. answers R (rd_hgetall R k) (\<lambda>v x v'. v' = v \<and>
        (\<exists>kvs. distinct (map fst kvs) \<and> map_of kvs = rv_hashes v k \<and> x = items_response kvs))) \<and>
     (\<forall>k f d. answers R (rd_hincrby R k f d) (\<lambda>v x v'.
        \<exists>n. counts (rv_hashes v k f) n \<and> x = RInt (n + d) \<and> int64 (n + d) \<and>
            v' = view_hset k [(f, int_text (n + d))] v))"

text \<open>Entry identifiers are \<open>milliseconds-sequence\<close>.\<close>

definition entry_id_text :: "bytes \<Rightarrow> bool" where
  "entry_id_text i \<longleftrightarrow> i \<noteq> [] \<and> (\<forall>c\<in>set i. is_digit c \<or> c = CHR ''-'')"

text \<open>
  Appending trims old entries only beyond the requested length. Claiming hands over a pending
  entry that is still in the stream, and forgets pending entries that are no longer in it; reading
  delivers an entry and makes it pending.
\<close>

definition append_effect ::
  "str \<Rightarrow> int \<Rightarrow> (bytes \<times> bytes) list \<Rightarrow> redis_view \<Rightarrow> bytes \<Rightarrow> redis_view \<Rightarrow> bool" where
  "append_effect s len m v i v' \<longleftrightarrow>
     (\<exists>n. (n = 0 \<or> len \<le> int (length (rv_streams v s) + 1 - n)) \<and> entry_id_text i \<and>
          i \<notin> fst ` set (rv_streams v s) \<and> v' = view_stream s (drop n (rv_streams v s) @ [(i, m)]) v)"

lemma append_effect_streams:
  "append_effect s len m v i v' \<Longrightarrow> rv_streams w = rv_streams v \<Longrightarrow>
   append_effect s len m w i (w\<lparr>rv_streams := rv_streams v'\<rparr>)"
  unfolding append_effect_def view_stream_def by force

lemma append_effect_frame:
  "append_effect s len m v i v' \<Longrightarrow>
   rv_strings v' = rv_strings v \<and> rv_hashes v' = rv_hashes v \<and> rv_pending v' = rv_pending v \<and>
   (\<forall>t. t \<noteq> s \<longrightarrow> rv_streams v' t = rv_streams v t)"
  unfolding append_effect_def view_stream_def by auto

definition claim_effect :: "str \<Rightarrow> str \<Rightarrow> redis_view \<Rightarrow> redis_response \<Rightarrow> redis_view \<Rightarrow> bool" where
  "claim_effect s g v x v' \<longleftrightarrow>
     (\<exists>gone. gone \<inter> fst ` set (rv_streams v s) = {} \<and> v' = view_deliver s g (rv_pending v s g - gone) v) \<and>
     (\<exists>cursor deleted.
        x = RList [cursor, RList [], deleted] \<or>
        (\<exists>e. e \<in> set (rv_streams v s) \<and> fst e \<in> rv_pending v s g \<and>
             x = RList [cursor, RList [entry_response e], deleted]))"

definition read_effect :: "str \<Rightarrow> str \<Rightarrow> redis_view \<Rightarrow> redis_response \<Rightarrow> redis_view \<Rightarrow> bool" where
  "read_effect s g v x v' \<longleftrightarrow>
     x = RList [] \<and> v' = v \<or>
     (\<exists>e. e \<in> set (rv_streams v s) \<and> x = RList [RList [RStr s, RList [entry_response e]]] \<and>
          v' = view_deliver s g (insert (fst e) (rv_pending v s g)) v)"

definition redis_streams_ok :: "'r redis \<Rightarrow> bool" where
  "redis_streams_ok R \<longleftrightarrow>
     (\<forall>s len m. answers R (rd_xadd R s len m) (append_effect s len m)) \<and>
     (\<forall>s g i. answers R (rd_xack R s g i) (\<lambda>v x v'. v' = view_ack s g i v)) \<and>
     (\<forall>s g. answers R (rd_xgroup_create R s g) reads) \<and>
     (\<forall>s g c idle. answers R (rd_xautoclaim R s g c idle) (claim_effect s g)) \<and>
     (\<forall>s g c block. answers R (rd_xreadgroup R s g c block) (read_effect s g)) \<and>
     (\<forall>s. answers R (rd_xlen R s) (\<lambda>v x v'. x = RInt (int (length (rv_streams v s))) \<and> v' = v)) \<and>
     (\<forall>s g. answers R (rd_xpending R s g) reads) \<and>
     (\<forall>s g. answers R (rd_xinfo_consumers R s g) reads) \<and>
     (\<forall>s i. answers R (rd_xrange R s i) (\<lambda>v x v'. v' = v \<and>
        x = RList (map entry_response (filter (\<lambda>e. fst e = i) (rv_streams v s))))) \<and>
     (\<forall>s n. answers R (rd_xrevrange R s n) (\<lambda>v x v'. v' = v \<and>
        x = RList (map entry_response (take (nat n) (rev (rv_streams v s)))))) \<and>
     (\<forall>s. answers R (rd_xtrim R s) (\<lambda>v x v'. v' = view_stream s [] v))"

definition redis_ok :: "'r redis \<Rightarrow> bool" where
  "redis_ok R \<longleftrightarrow> redis_keys_ok R \<and> redis_streams_ok R"

text \<open>
  What an exchange can do to the data: \<open>P\<close> holds of the view and stays true when keys age, and
  the command leads from it to \<open>Q\<close> on an answer and to \<open>E\<close> on an error reply; a lost request
  leaves \<open>P\<close>, a lost answer leaves either result.
\<close>

lemma exchange_cases:
  assumes "exchange wrap R m r = (x, r')"
  obtains (lost) e r1 where "rd_link R r = (RequestLost e, r1)" "x = Inl (wrap (ConnectionFault e))" "r' = r1"
  | (unanswered) e r1 y where "rd_link R r = (ReplyLost e, r1)" "x = Inl (wrap (ConnectionFault e))"
      "m r1 = (y, r')"
  | (refused) r1 f where "rd_link R r = (Delivered, r1)" "m r1 = (Inl f, r')" "x = Inl (wrap f)"
  | (answered) r1 a where "rd_link R r = (Delivered, r1)" "m r1 = (Inr a, r')" "x = Inr a"
  using assms unfolding exchange_def
  by (auto split: prod.splits link.splits sum.splits)

lemma answersD:
  assumes "answers R m Q"
  shows "m r = (Inl e, r') \<Longrightarrow> rd_view R r' = rd_view R r"
    and "m r = (Inr x, r') \<Longrightarrow> Q (rd_view R r) x (rd_view R r')"
  using assms [unfolded answers_def, rule_format, of r] by simp_all

lemma redis_keys_okD:
  assumes "redis_keys_ok R"
  shows "aged (rd_view R r) (rd_view R (snd (rd_link R r)))"
    and "answers R (rd_get R k) (\<lambda>v x v'. x = rv_strings v k \<and> v' = v)"
    and "answers R (rd_set_ex R k b ex) (\<lambda>v x v'. v' = view_set k b v)"
    and "answers R (rd_incr R k) (\<lambda>v x v'.
        \<exists>n. counts (rv_strings v k) n \<and> x = n + 1 \<and> int64 x \<and> v' = view_set k (int_text x) v)"
    and "answers R (rd_expire R k i) (\<lambda>v x v'. 0 < i \<longrightarrow> v' = v)"
    and "answers R (rd_ttl R k) (\<lambda>v x v'. int64 x \<and> v' = v)"
    and "answers R (rd_hset R k m) (\<lambda>v x v'. v' = view_hset k m v)"
    and "answers R (rd_hgetall R k) (\<lambda>v x v'. v' = v \<and>
        (\<exists>kvs. distinct (map fst kvs) \<and> map_of kvs = rv_hashes v k \<and> x = items_response kvs))"
    and "answers R (rd_hincrby R k f d) (\<lambda>v x v'.
        \<exists>n. counts (rv_hashes v k f) n \<and> x = RInt (n + d) \<and> int64 (n + d) \<and>
            v' = view_hset k [(f, int_text (n + d))] v)"
  using assms by (simp_all add: redis_keys_ok_def)

lemma redis_streams_okD:
  assumes "redis_streams_ok R"
  shows "answers R (rd_xadd R s len m) (append_effect s len m)"
    and "answers R (rd_xack R s g i) (\<lambda>v x v'. v' = view_ack s g i v)"
    and "answers R (rd_xgroup_create R s g) reads"
    and "answers R (rd_xautoclaim R s g c idle) (claim_effect s g)"
    and "answers R (rd_xreadgroup R s g c block) (read_effect s g)"
    and "answers R (rd_xlen R s) (\<lambda>v x v'. x = RInt (int (length (rv_streams v s))) \<and> v' = v)"
    and "answers R (rd_xpending R s g) reads"
    and "answers R (rd_xinfo_consumers R s g) reads"
    and "answers R (rd_xrange R s i) (\<lambda>v x v'. v' = v \<and>
        x = RList (map entry_response (filter (\<lambda>e. fst e = i) (rv_streams v s))))"
    and "answers R (rd_xrevrange R s n) (\<lambda>v x v'. v' = v \<and>
        x = RList (map entry_response (take (nat n) (rev (rv_streams v s)))))"
    and "answers R (rd_xtrim R s) (\<lambda>v x v'. v' = view_stream s [] v)"
  using assms by (simp_all add: redis_streams_ok_def)

text \<open>The effect of one call on the data, whatever happens to the exchange.\<close>

lemma call_effect:
  assumes "call R m r = (x, r')" and "redis_ok R" and "answers R m Q"
  obtains v where "aged (rd_view R r) v" "\<And>a. x = Inr a \<Longrightarrow> Q v a (rd_view R r')"
    "\<And>e. x = Inl e \<Longrightarrow> (\<exists>f. e = RedisFault f) \<and> (rd_view R r' = v \<or> (\<exists>a. Q v a (rd_view R r')))"
proof -
  define r1 where "r1 = snd (rd_link R r)"
  have aged: "aged (rd_view R r) (rd_view R r1)"
    using assms(2) unfolding r1_def by (simp add: redis_ok_def redis_keys_okD(1))
  show thesis
    using assms(1) unfolding call_def
  proof (cases rule: exchange_cases)
    case (unanswered e r2 y)
    then show thesis
      using aged answersD [OF assms(3)] by (cases y) (fastforce simp: r1_def intro!: that)+
  qed (use aged answersD [OF assms(3)] in \<open>auto simp: r1_def intro!: that\<close>)
qed

text \<open>Nothing expires while an operation runs; an undisturbed exchange also loses nothing.\<close>

definition no_expiry :: "'r redis \<Rightarrow> bool" where
  "no_expiry R \<longleftrightarrow> (\<forall>r. rd_view R (snd (rd_link R r)) = rd_view R r)"

lemma call_returns:
  assumes "call R m r = (Inr a, r')" and "no_expiry R" and "answers R m Q"
  shows "Q (rd_view R r) a (rd_view R r')"
  using assms(1) unfolding call_def
proof (cases rule: exchange_cases)
  case (answered r1 b)
  with assms(2) have "rd_view R r1 = rd_view R r" unfolding no_expiry_def by (metis snd_conv)
  with answered answersD(2) [OF assms(3)] show ?thesis by fastforce
qed auto

definition link_up :: "'r redis \<Rightarrow> bool" where
  "link_up R \<longleftrightarrow> (\<forall>r. rd_link R r = (Delivered, r))"

lemma link_up_no_expiry: "link_up R \<Longrightarrow> no_expiry R"
  by (simp add: link_up_def no_expiry_def)

lemma call_link_up: "link_up R \<Longrightarrow> m r = (Inr a, r') \<Longrightarrow> call R m r = (Inr a, r')"
  by (simp add: call_def exchange_def link_up_def)

definition accepts :: "('r, 'a) command \<Rightarrow> bool" where
  "accepts m \<longleftrightarrow> (\<forall>r. \<exists>x r'. m r = (Inr x, r'))"

end
