(* ===== verification/Maintenance_Queue.thy ===== *)
theory Maintenance_Queue
  imports Redis_Server
begin

text \<open>
  Submission and status reads: the enqueue script (\<open>redis_maintenance_job_scripts.py\<close>) and
  \<open>RedisMaintenanceJobSubmitter\<close> (\<open>redis_maintenance_job_queue.py\<close>). The script is a composition of
  the server's commands, executed as one; job identifiers and times are arguments.
\<close>

section \<open>Environment and keys\<close>

record 'r queue_env =
  qe_redis :: "'r redis"
  qe_config :: MaintenanceQueueConfig
  qe_codecs :: codecs
  qe_sha256 :: "str \<Rightarrow> str"

definition force_flag :: "bool \<Rightarrow> str" where
  "force_flag f = (if f then ''1'' else ''0'')"

definition unit_separator :: str where
  "unit_separator = [char_of (31 :: nat)]"

definition status_key :: "MaintenanceQueueConfig \<Rightarrow> str \<Rightarrow> str" where
  "status_key c job_id = qf_status_key_prefix c @ '':'' @ job_id"

lemma status_key_inject [simp]: "status_key c i = status_key c j \<longleftrightarrow> i = j"
  by (simp add: status_key_def)

definition dedup_material :: "MaintenanceJobRequest \<Rightarrow> str" where
  "dedup_material request = join unit_separator
     [job_kind_value (jr_kind request), jr_requested_by request, jr_source_id request,
      int_text (jr_limit request), force_flag (jr_force request)]"

definition dedup_key :: "'r queue_env \<Rightarrow> MaintenanceJobRequest \<Rightarrow> str" where
  "dedup_key E request =
     qf_dedup_key_prefix (qe_config E) @ '':'' @ qe_sha256 E (dedup_material request)"

definition rate_key :: "'r queue_env \<Rightarrow> MaintenanceJobRequest \<Rightarrow> str" where
  "rate_key E request = qf_rate_key_prefix (qe_config E) @ '':maintenance:'' @
     qe_sha256 E (job_kind_value (jr_kind request) @ unit_separator @ jr_requested_by request)"

section \<open>The enqueue script\<close>

record enqueue_args =
  ea_dedup_key :: str
  ea_stream :: str
  ea_status_key :: str
  ea_rate_key :: str
  ea_window :: int
  ea_submission_limit :: int
  ea_max_stream_length :: int
  ea_job_id :: bytes
  ea_kind :: bytes
  ea_requested_by :: bytes
  ea_source_id :: bytes
  ea_limit :: bytes
  ea_force :: bytes
  ea_submitted_at :: bytes
  ea_status_ttl :: int
  ea_dedup_cooldown :: int

definition script_entry :: "enqueue_args \<Rightarrow> (bytes \<times> bytes) list" where
  "script_entry a = [(''job_id'', ea_job_id a), (''kind'', ea_kind a),
     (''requested_by'', ea_requested_by a), (''source_id'', ea_source_id a), (''limit'', ea_limit a),
     (''force'', ea_force a), (''submitted_at'', ea_submitted_at a)]"

definition script_status :: "enqueue_args \<Rightarrow> bytes \<Rightarrow> (bytes \<times> bytes) list" where
  "script_status a stream_id = [(''job_id'', ea_job_id a), (''kind'', ea_kind a),
     (''status'', ''QUEUED''), (''requested_by'', ea_requested_by a), (''source_id'', ea_source_id a),
     (''limit'', ea_limit a), (''force'', ea_force a), (''attempts'', ''0''),
     (''submitted_at'', ea_submitted_at a), (''stream_id'', stream_id), (''result_json'', []),
     (''error_summary'', [])]"

definition script_reply :: "bytes list \<Rightarrow> redis_response" where
  "script_reply bs = RList (map RBytes bs)"

text \<open>The part after the admission checks: the entry, its status, the deduplication mark.\<close>

definition script_append :: "'r redis \<Rightarrow> enqueue_args \<Rightarrow> ('r, redis_response) command" where
  "script_append R a =
     bind (rd_xadd R (ea_stream a) (ea_max_stream_length a) (script_entry a)) (\<lambda>stream_id.
     seq (rd_hset R (ea_status_key a) (script_status a stream_id))
    (seq (rd_expire R (ea_status_key a) (ea_status_ttl a))
    (seq (rd_set_ex R (ea_dedup_key a) (ea_job_id a) (ea_dedup_cooldown a))
    (ret (script_reply [''QUEUED'', ea_job_id a, stream_id])))))"

definition enqueue_script :: "'r redis \<Rightarrow> enqueue_args \<Rightarrow> ('r, redis_response) command" where
  "enqueue_script R a =
     bind (rd_get R (ea_dedup_key a)) (\<lambda>existing.
     case existing of
       Some b \<Rightarrow> ret (script_reply [''DEDUPLICATED'', b, []])
     | None \<Rightarrow>
         bind (rd_incr R (ea_rate_key a)) (\<lambda>current.
         seq (whenE (current = 1)
                (seq (rd_expire R (ea_rate_key a) (ea_window a)) (ret ())))
        (if current > ea_submission_limit a then
           bind (rd_ttl R (ea_rate_key a)) (\<lambda>ttl.
           ret (script_reply [''RATE_LIMITED'', int_text ttl, []]))
         else script_append R a)))"

section \<open>The submitter\<close>

definition enqueue_args_of :: "'r queue_env \<Rightarrow> MaintenanceJobRequest \<Rightarrow> str \<Rightarrow> instant \<Rightarrow> enqueue_args" where
  "enqueue_args_of E request job_id submitted_at =
     (let c = qe_config E; e = cx_encode (qe_codecs E) in
      \<lparr> ea_dedup_key = dedup_key E request, ea_stream = qf_stream_name c,
        ea_status_key = status_key c job_id, ea_rate_key = rate_key E request,
        ea_window = qf_submission_window_seconds c, ea_submission_limit = qf_submission_limit c,
        ea_max_stream_length = qf_max_stream_length c, ea_job_id = e job_id,
        ea_kind = e (job_kind_value (jr_kind request)), ea_requested_by = e (jr_requested_by request),
        ea_source_id = e (jr_source_id request), ea_limit = int_text (jr_limit request),
        ea_force = e (force_flag (jr_force request)),
        ea_submitted_at = e (cx_isoformat (qe_codecs E) submitted_at),
        ea_status_ttl = qf_status_ttl_seconds c, ea_dedup_cooldown = qf_dedup_cooldown_seconds c \<rparr>)"

fun contains_text :: "str \<Rightarrow> str \<Rightarrow> bool" where
  "contains_text [] p = (p = [])"
| "contains_text (c # cs) p = (starts_with (c # cs) p \<or> contains_text cs p)"

definition ensure_consumer_group :: "'r queue_env \<Rightarrow> ('r, queue_exn, unit) prog" where
  "ensure_consumer_group E =
     try_catch
       (call (qe_redis E) (rd_xgroup_create (qe_redis E) (qf_stream_name (qe_config E))
          (qf_consumer_group (qe_config E))))
       (\<lambda>exc. case exc of
          RedisFault (ResponseError message) \<Rightarrow>
            if contains_text message ''BUSYGROUP'' then ret ()
            else raise (MaintenanceQueueUnavailableError
                   ''Redis maintenance consumer group creation failed'')
        | RedisFault (ConnectionFault _) \<Rightarrow>
            raise (MaintenanceQueueUnavailableError ''Redis maintenance queue is unavailable'')
        | _ \<Rightarrow> raise exc)"

definition get_job :: "'r queue_env \<Rightarrow> str \<Rightarrow> ('r, queue_exn, MaintenanceJobSnapshot option) prog" where
  "get_job E job_id =
     bind (except_redis ''Redis maintenance status lookup failed''
            (call (qe_redis E) (rd_hgetall (qe_redis E) (status_key (qe_config E) job_id)))) (\<lambda>raw.
     decoded (decode_job_snapshot (qe_codecs E) raw))"

text \<open>What the submitter does with the answer of the script.\<close>

definition enqueue_outcome ::
  "'r queue_env \<Rightarrow> EnqueueScriptResult \<Rightarrow> ('r, queue_exn, MaintenanceJobSnapshot) prog" where
  "enqueue_outcome E result =
     (if es_state result = ''RATE_LIMITED'' then
        bind (decoded (response_integer (qe_codecs E) (RStr (es_value result)) ''retry_after'')) (\<lambda>n.
        raise (MaintenanceSubmissionRateLimitError (max 1 n)))
      else if es_state result \<notin> {''QUEUED'', ''DEDUPLICATED''} then
        raise (MaintenanceQueueUnavailableError ''Redis maintenance enqueue returned an invalid state'')
      else bind (get_job E (es_value result)) (\<lambda>snapshot.
        case snapshot of
          None \<Rightarrow> raise (MaintenanceQueueUnavailableError ''Redis maintenance job status was not persisted'')
        | Some s \<Rightarrow> ret (s\<lparr>js_deduplicated := (es_state result = ''DEDUPLICATED'')\<rparr>)))"

definition enqueue ::
  "'r queue_env \<Rightarrow> str \<Rightarrow> instant \<Rightarrow> MaintenanceJobRequest \<Rightarrow> ('r, queue_exn, MaintenanceJobSnapshot) prog" where
  "enqueue E job_id submitted_at request =
     bind (except_redis ''Redis maintenance enqueue failed''
            (call (qe_redis E) (enqueue_script (qe_redis E)
               (enqueue_args_of E request job_id submitted_at)))) (\<lambda>raw.
     bind (decoded (decode_enqueue_result (qe_codecs E) raw)) (enqueue_outcome E))"

definition queue_status :: "'r queue_env \<Rightarrow> ('r, queue_exn, MaintenanceQueueSnapshot) prog" where
  "queue_status E = (let R = qe_redis E; c = qe_config E; X = qe_codecs E in
     seq (ensure_consumer_group E)
    (bind (except_redis ''Redis maintenance queue status failed''
       (bind (call R (rd_xlen R (qf_stream_name c))) (\<lambda>stream_length_raw.
        bind (call R (rd_xpending R (qf_stream_name c) (qf_consumer_group c))) (\<lambda>pending_raw.
        bind (call R (rd_xinfo_consumers R (qf_stream_name c) (qf_consumer_group c))) (\<lambda>consumers_raw.
        bind (call R (rd_xlen R (qf_dead_letter_stream_name c))) (\<lambda>dead_letter_raw.
        ret (stream_length_raw, pending_raw, consumers_raw, dead_letter_raw)))))))
     (\<lambda>(stream_length_raw, pending_raw, consumers_raw, dead_letter_raw).
        decoded (
          and_then (response_integer X stream_length_raw ''stream length'') (\<lambda>stream_length.
          and_then (decode_pending_count X pending_raw) (\<lambda>pending.
          and_then (decode_consumer_count consumers_raw) (\<lambda>consumers.
          and_then (response_integer X dead_letter_raw ''dead-letter length'') (\<lambda>dead_letters.
          Inr \<lparr> qs_stream_length = stream_length, qs_pending = pending, qs_consumers = consumers,
                qs_dead_letter_length = dead_letters \<rparr>))))))))"

definition list_dead_letters :: "'r queue_env \<Rightarrow> int \<Rightarrow> ('r, queue_exn, MaintenanceDeadLetterEntry list) prog" where
  "list_dead_letters E limit = (let bounded_limit = max 1 (min limit 200) in
     bind (except_redis ''Redis dead-letter read failed''
       (call (qe_redis E) (rd_xrevrange (qe_redis E) (qf_dead_letter_stream_name (qe_config E)) bounded_limit)))
     (\<lambda>raw. decoded (decode_dead_letter_entries (qe_codecs E) raw)))"

definition purge_dead_letters :: "'r queue_env \<Rightarrow> ('r, queue_exn, int) prog" where
  "purge_dead_letters E = (let R = qe_redis E; dead = qf_dead_letter_stream_name (qe_config E) in
     bind (except_redis ''Redis dead-letter purge failed''
       (bind (call R (rd_xlen R dead)) (\<lambda>length_raw. seq (call R (rd_xtrim R dead)) (ret length_raw))))
     (\<lambda>length_raw. decoded (response_integer (qe_codecs E) length_raw ''dead-letter length'')))"

definition range_entry :: "'r queue_env \<Rightarrow> str \<Rightarrow> str \<Rightarrow> ('r, queue_exn, redis_response) prog" where
  "range_entry E stream entry_id =
     except_redis ''Redis dead-letter read failed''
       (call (qe_redis E) (rd_xrange (qe_redis E) stream (cx_encode (qe_codecs E) entry_id)))"

definition replay_dead_letter ::
  "'r queue_env \<Rightarrow> str \<Rightarrow> instant \<Rightarrow> str \<Rightarrow> ('r, queue_exn, MaintenanceJobSnapshot) prog" where
  "replay_dead_letter E job_id submitted_at entry_id = (let c = qe_config E; X = qe_codecs E in
     bind (range_entry E (qf_dead_letter_stream_name c) entry_id) (\<lambda>letter_raw.
     bind (decoded (decode_dead_letter_entries X letter_raw)) (\<lambda>letters.
     case letters of
       [] \<Rightarrow> raise (MaintenanceDeadLetterNotFoundError ''dead-letter entry was not found'')
     | letter # _ \<Rightarrow>
         bind (range_entry E (qf_stream_name c) (dl_source_stream_id letter)) (\<lambda>source_raw.
         bind (decoded (decode_dead_letter_source_request X source_raw)) (\<lambda>request.
         case request of
           None \<Rightarrow> raise (MaintenanceDeadLetterSourceGoneError
                     ''dead-letter source entry is no longer available for replay'')
         | Some q \<Rightarrow> enqueue E job_id submitted_at q)))))"

end
