(* ===== verification/Maintenance_Consumer.thy ===== *)
theory Maintenance_Consumer
  imports Maintenance_Queue
begin

text \<open>
  The worker's side of the queue (\<open>redis_maintenance_job_consumer.py\<close>): receiving a delivery, and
  the transitions to running, succeeded and failed. Times are arguments.
\<close>

section \<open>Mutations\<close>

datatype field_value = TextValue str | BytesValue bytes

record MaintenanceStatusMutation =
  mu_status :: "str option"
  mu_started_at :: "str option"
  mu_finished_at :: "str option"
  mu_result_json :: "bytes option"
  mu_error_summary :: "str option"

record MaintenanceDeadLetterFields =
  df_job_id :: str
  df_kind :: str
  df_attempts :: str
  df_failed_at :: str
  df_error_summary :: str
  df_source_stream_id :: str

definition present :: "str \<Rightarrow> ('a \<Rightarrow> field_value) \<Rightarrow> 'a option \<Rightarrow> (str \<times> field_value) list" where
  "present name inject v = (case v of None \<Rightarrow> [] | Some x \<Rightarrow> [(name, inject x)])"

definition status_mapping :: "MaintenanceStatusMutation \<Rightarrow> (str \<times> field_value) list" where
  "status_mapping m =
     present ''status'' TextValue (mu_status m) @ present ''started_at'' TextValue (mu_started_at m) @
     present ''finished_at'' TextValue (mu_finished_at m) @
     present ''result_json'' BytesValue (mu_result_json m) @
     present ''error_summary'' TextValue (mu_error_summary m)"

definition dead_letter_mapping :: "MaintenanceDeadLetterFields \<Rightarrow> (str \<times> field_value) list" where
  "dead_letter_mapping f =
     [(''job_id'', TextValue (df_job_id f)), (''kind'', TextValue (df_kind f)),
      (''attempts'', TextValue (df_attempts f)), (''failed_at'', TextValue (df_failed_at f)),
      (''error_summary'', TextValue (df_error_summary f)),
      (''source_stream_id'', TextValue (df_source_stream_id f))]"

text \<open>How redis-py sends a mapping: text as UTF-8, bytes as they are.\<close>

fun value_bytes :: "codecs \<Rightarrow> field_value \<Rightarrow> bytes" where
  "value_bytes X (TextValue s) = cx_encode X s"
| "value_bytes X (BytesValue b) = b"

definition sent_mapping :: "codecs \<Rightarrow> (str \<times> field_value) list \<Rightarrow> (bytes \<times> bytes) list" where
  "sent_mapping X m = map (\<lambda>(k, v). (cx_encode X k, value_bytes X v)) m"

section \<open>Operations\<close>

definition ack :: "'r queue_env \<Rightarrow> str \<Rightarrow> ('r, queue_exn, unit) prog" where
  "ack E stream_id =
     seq (call (qe_redis E) (rd_xack (qe_redis E) (qf_stream_name (qe_config E))
            (qf_consumer_group (qe_config E)) (cx_encode (qe_codecs E) stream_id)))
         (ret ())"

definition claim_or_read :: "'r queue_env \<Rightarrow> str \<Rightarrow> ('r, queue_exn, RedisStreamDelivery option) prog" where
  "claim_or_read E consumer_name = (let R = qe_redis E; c = qe_config E; X = qe_codecs E in
     except_redis ''Redis maintenance receive failed''
       (bind (call R (rd_xautoclaim R (qf_stream_name c) (qf_consumer_group c) consumer_name
                (qf_retry_idle_seconds c * 1000))) (\<lambda>claimed_raw.
        bind (decoded (decode_autoclaim_delivery X claimed_raw)) (\<lambda>claimed.
        case claimed of
          Some d \<Rightarrow> ret (Some d)
        | None \<Rightarrow>
            bind (call R (rd_xreadgroup R (qf_stream_name c) (qf_consumer_group c) consumer_name
                   (qf_block_milliseconds c))) (\<lambda>read_raw.
            decoded (decode_readgroup_delivery X read_raw))))))"

definition receive :: "'r queue_env \<Rightarrow> str \<Rightarrow> ('r, queue_exn, MaintenanceJobDelivery option) prog" where
  "receive E consumer_name =
     seq (ensure_consumer_group E)
    (bind (claim_or_read E consumer_name) (\<lambda>delivered.
     case delivered of
       None \<Rightarrow> ret None
     | Some d \<Rightarrow>
         bind (get_job E (sd_job_id d)) (\<lambda>snapshot.
         case snapshot of
           None \<Rightarrow> seq (ack E (sd_stream_id d)) (ret None)
         | Some s \<Rightarrow> ret (Some \<lparr> dv_stream_id = sd_stream_id d, dv_job = s \<rparr>))))"

text \<open>Writing one mutation to the status hash and renewing its lifetime.\<close>

definition write_status ::
  "'r queue_env \<Rightarrow> str \<Rightarrow> MaintenanceStatusMutation \<Rightarrow> ('r, queue_exn, unit) prog" where
  "write_status E key mutation = (let R = qe_redis E in
     seq (call R (rd_hset R key (sent_mapping (qe_codecs E) (status_mapping mutation))))
    (seq (call R (rd_expire R key (qf_status_ttl_seconds (qe_config E))))
    (ret ())))"

definition running_mutation :: "codecs \<Rightarrow> instant \<Rightarrow> MaintenanceStatusMutation" where
  "running_mutation X now = \<lparr> mu_status = Some (job_status_value JOB_RUNNING),
     mu_started_at = Some (cx_isoformat X now), mu_finished_at = Some [], mu_result_json = None,
     mu_error_summary = Some [] \<rparr>"

definition mark_running :: "'r queue_env \<Rightarrow> instant \<Rightarrow> MaintenanceJobDelivery \<Rightarrow> ('r, queue_exn, int) prog" where
  "mark_running E now delivery =
     (let key = status_key (qe_config E) (js_job_id (dv_job delivery)); R = qe_redis E in
      bind (except_redis ''Redis maintenance running transition failed''
        (bind (call R (rd_hincrby R key (cx_encode (qe_codecs E) ''attempts'') 1)) (\<lambda>attempt_raw.
         seq (write_status E key (running_mutation (qe_codecs E) now))
             (ret attempt_raw)))) (\<lambda>attempt_raw.
      decoded (response_integer (qe_codecs E) attempt_raw ''attempt'')))"

definition encode_result :: "codecs \<Rightarrow> job_result \<Rightarrow> queue_exn + bytes" where
  "encode_result X result = (case result of
       BatchResult r \<Rightarrow> encode_batch_note_write_result X r
     | EmbeddingResult r \<Rightarrow> encode_embedding_result X r)"

definition succeeded_mutation :: "codecs \<Rightarrow> instant \<Rightarrow> bytes \<Rightarrow> MaintenanceStatusMutation" where
  "succeeded_mutation X now result_json = \<lparr> mu_status = Some (job_status_value JOB_SUCCEEDED),
     mu_started_at = None, mu_finished_at = Some (cx_isoformat X now),
     mu_result_json = Some result_json, mu_error_summary = Some [] \<rparr>"

definition mark_succeeded ::
  "'r queue_env \<Rightarrow> instant \<Rightarrow> MaintenanceJobDelivery \<Rightarrow> job_result \<Rightarrow> ('r, queue_exn, unit) prog" where
  "mark_succeeded E now delivery result =
     (let key = status_key (qe_config E) (js_job_id (dv_job delivery)) in
      bind (decoded (encode_result (qe_codecs E) result)) (\<lambda>result_json.
      except_redis ''Redis maintenance success transition failed''
        (seq (write_status E key (succeeded_mutation (qe_codecs E) now result_json))
             (ack E (dv_stream_id delivery)))))"

definition failed_mutation :: "codecs \<Rightarrow> instant \<Rightarrow> bool \<Rightarrow> str \<Rightarrow> MaintenanceStatusMutation" where
  "failed_mutation X now terminal bounded_error =
     \<lparr> mu_status = Some (job_status_value (if terminal then JOB_FAILED else JOB_RETRYING)),
       mu_started_at = None,
       mu_finished_at = (if terminal then Some (cx_isoformat X now) else None),
       mu_result_json = None, mu_error_summary = Some bounded_error \<rparr>"

definition dead_letter_of ::
  "codecs \<Rightarrow> MaintenanceJobDelivery \<Rightarrow> int \<Rightarrow> instant \<Rightarrow> str \<Rightarrow> MaintenanceDeadLetterFields" where
  "dead_letter_of X delivery attempt failed_at bounded_error =
     \<lparr> df_job_id = js_job_id (dv_job delivery), df_kind = job_kind_value (js_kind (dv_job delivery)),
       df_attempts = int_text attempt, df_failed_at = cx_isoformat X failed_at,
       df_error_summary = bounded_error, df_source_stream_id = dv_stream_id delivery \<rparr>"

text \<open>The two clock readings of a terminal failure are \<open>now\<close> and \<open>failed_at\<close>.\<close>

definition mark_failed ::
  "'r queue_env \<Rightarrow> instant \<Rightarrow> instant \<Rightarrow> MaintenanceJobDelivery \<Rightarrow> int \<Rightarrow> str \<Rightarrow> ('r, queue_exn, bool) prog" where
  "mark_failed E now failed_at delivery attempt error_summary =
     (let R = qe_redis E; c = qe_config E; X = qe_codecs E;
          key = status_key c (js_job_id (dv_job delivery));
          bounded_error = take 1000 error_summary;
          terminal = (qf_max_attempts c \<le> attempt) in
      except_redis ''Redis maintenance failure transition failed''
        (seq (write_status E key (failed_mutation X now terminal bounded_error))
        (seq (whenE terminal
               (seq (call R (rd_xadd R (qf_dead_letter_stream_name c) (qf_max_stream_length c)
                       (sent_mapping X (dead_letter_mapping
                          (dead_letter_of X delivery attempt failed_at bounded_error)))))
                    (ack E (dv_stream_id delivery))))
        (ret terminal))))"

end
