(* ===== verification/Job_Status.thy ===== *)
theory Job_Status
  imports Maintenance_Consumer
begin

text \<open>
  The status hash as an abstract job record: which hashes represent which snapshot, and that the
  field mutations the consumer writes are the lifecycle transitions of the abstract record
  (\<open>begin_attempt\<close>, \<open>succeed\<close>, \<open>fail\<close>).
\<close>

section \<open>Reading a snapshot off the fields\<close>

lemma job_kind_of_Inr: "job_kind_of v = Inr k \<longleftrightarrow> v = job_kind_value k"
  by (cases k) (auto simp: job_kind_of_def)

lemma job_status_of_Inr: "job_status_of v = Inr st \<longleftrightarrow> v = job_status_value st"
proof
  assume "job_status_of v = Inr st"
  then obtain rest where
    "filter (\<lambda>s. job_status_value s = v) [JOB_QUEUED, JOB_RUNNING, JOB_RETRYING, JOB_SUCCEEDED, JOB_FAILED]
       = st # rest"
    unfolding job_status_of_def by (auto split: list.splits)
  then have "st \<in> set (filter (\<lambda>s. job_status_value s = v)
      [JOB_QUEUED, JOB_RUNNING, JOB_RETRYING, JOB_SUCCEEDED, JOB_FAILED])" by simp
  then show "v = job_status_value st" unfolding set_filter by simp
qed simp

lemma required_Inr: "required v n = Inr s \<longleftrightarrow> v = Some s \<and> s \<noteq> []"
  by (cases s) (auto simp: required_def split: option.splits list.splits)

lemma text_integer_Inr: "text_integer s n = Inr i \<longleftrightarrow> py_int s = Some i"
  by (simp add: text_integer_def split: option.split)

lemma text_datetime_Inr: "text_datetime X s n = Inr t \<longleftrightarrow> cx_fromisoformat X s = Some t"
  by (simp add: text_datetime_def split: option.split)

definition result_of :: "codecs \<Rightarrow> (str \<Rightarrow> str option) \<Rightarrow> queue_exn + job_result option" where
  "result_of X get = (case get ''result_json'' of
       None \<Rightarrow> Inr None
     | Some [] \<Rightarrow> Inr None
     | Some (c # cs) \<Rightarrow> and_then (decode_job_result X (get ''kind'') (c # cs)) (\<lambda>r. Inr (Some r)))"

definition number_at :: "(str \<Rightarrow> str option) \<Rightarrow> str \<Rightarrow> int \<Rightarrow> bool" where
  "number_at get n i \<longleftrightarrow> (\<exists>s. get n = Some s \<and> s \<noteq> [] \<and> py_int s = Some i)"

definition time_at :: "codecs \<Rightarrow> (str \<Rightarrow> str option) \<Rightarrow> str \<Rightarrow> instant \<Rightarrow> bool" where
  "time_at X get n t \<longleftrightarrow> (\<exists>s. get n = Some s \<and> s \<noteq> [] \<and> cx_fromisoformat X s = Some t)"

definition name_at :: "(str \<Rightarrow> str option) \<Rightarrow> str \<Rightarrow> str \<Rightarrow> bool" where
  "name_at get n v \<longleftrightarrow> get n = Some v \<and> v \<noteq> []"

definition flag_at :: "(str \<Rightarrow> str option) \<Rightarrow> str \<Rightarrow> bool \<Rightarrow> bool" where
  "flag_at get n b \<longleftrightarrow> (\<exists>s. get n = Some s \<and> s \<noteq> [] \<and> b = (s = ''1''))"

lemma snapshot_of_iff:
  "snapshot_of X get = Inr s \<longleftrightarrow>
     name_at get ''job_id'' (js_job_id s) \<and> get ''kind'' = Some (job_kind_value (js_kind s)) \<and>
     get ''status'' = Some (job_status_value (js_status s)) \<and>
     name_at get ''requested_by'' (js_requested_by s) \<and> name_at get ''source_id'' (js_source_id s) \<and>
     number_at get ''limit'' (js_limit s) \<and> flag_at get ''force'' (js_force s) \<and>
     number_at get ''attempts'' (js_attempts s) \<and> time_at X get ''submitted_at'' (js_submitted_at s) \<and>
     optional_datetime X (get ''started_at'') ''started_at'' = Inr (js_started_at s) \<and>
     optional_datetime X (get ''finished_at'') ''finished_at'' = Inr (js_finished_at s) \<and>
     js_stream_id s = nonblank (get ''stream_id'') \<and> \<not> js_deduplicated s \<and>
     js_error_summary s = nonblank (get ''error_summary'') \<and> result_of X get = Inr (js_result s)"
proof -
  have result: "(if (case get ''result_json'' of None \<Rightarrow> [] | Some s \<Rightarrow> s) = [] then Inr None
       else and_then (decode_job_result X (get ''kind'') (case get ''result_json'' of None \<Rightarrow> [] | Some s \<Rightarrow> s))
              (\<lambda>r. Inr (Some r))) = result_of X get"
    by (simp add: result_of_def split: option.split list.split)
  show ?thesis
    unfolding snapshot_of_def Let_def result
    by (cases s)
       (simp add: and_then_Inr required_Inr job_kind_of_Inr job_status_of_Inr text_integer_Inr
          text_datetime_Inr name_at_def number_at_def time_at_def flag_at_def, blast)
qed

section \<open>Hashes that represent a job\<close>

definition job_hash :: "codecs \<Rightarrow> (bytes \<Rightarrow> bytes option) \<Rightarrow> MaintenanceJobSnapshot \<Rightarrow> bool" where
  "job_hash X h s \<longleftrightarrow> text_hash X h \<and> snapshot_of X (text_at X h) = Inr s"

lemma snapshot_of_cong:
  assumes "\<And>n. n \<in> set status_field_names \<Longrightarrow> get n = get' n"
  shows "snapshot_of X get = snapshot_of X get'"
proof -
  have "get ''job_id'' = get' ''job_id''" "get ''kind'' = get' ''kind''" "get ''status'' = get' ''status''"
    "get ''requested_by'' = get' ''requested_by''" "get ''source_id'' = get' ''source_id''"
    "get ''limit'' = get' ''limit''" "get ''force'' = get' ''force''" "get ''attempts'' = get' ''attempts''"
    "get ''submitted_at'' = get' ''submitted_at''" "get ''started_at'' = get' ''started_at''"
    "get ''finished_at'' = get' ''finished_at''" "get ''stream_id'' = get' ''stream_id''"
    "get ''result_json'' = get' ''result_json''" "get ''error_summary'' = get' ''error_summary''"
    by (rule assms; simp add: status_field_names_def)+
  then show ?thesis by (simp only: snapshot_of_def)
qed

text \<open>What \<open>get\<close> returns for a hash that represents a job, and for one without known fields.\<close>

lemma decode_job_hash:
  assumes X: "codecs_ok X" and h: "job_hash X h s" and kvs: "map_of kvs = h" "distinct (map fst kvs)"
  shows "decode_job_snapshot X (items_response kvs) = Inr (Some s)"
proof -
  obtain fields where f: "status_fields X (RDict (map (\<lambda>(k, v). (RBytes k, RBytes v)) kvs)) = Inr fields"
    and m: "\<And>n. map_of fields n = (if n \<in> set status_field_names then text_at X h n else None)"
    using status_fields_of_hash [OF X _ kvs] h unfolding job_hash_def by blast
  have s: "snapshot_of X (map_of fields) = Inr s"
    using h m snapshot_of_cong [of "map_of fields" "text_at X h" X] by (simp add: job_hash_def)
  then have "map_of fields ''job_id'' \<noteq> None" by (simp add: snapshot_of_iff name_at_def)
  then have "fields \<noteq> []" by auto
  with f s show ?thesis by (simp add: decode_job_snapshot_def items_response_def)
qed

lemma decode_job_none:
  assumes X: "codecs_ok X" and h: "text_hash X h" and kvs: "map_of kvs = h" "distinct (map fst kvs)"
    and none: "decode_job_snapshot X (items_response kvs) = Inr None" and n: "n \<in> set status_field_names"
  shows "text_at X h n = None"
proof -
  obtain fields where f: "status_fields X (RDict (map (\<lambda>(k, v). (RBytes k, RBytes v)) kvs)) = Inr fields"
    and m: "\<And>n. map_of fields n = (if n \<in> set status_field_names then text_at X h n else None)"
    using status_fields_of_hash [OF X h kvs] by blast
  have "fields = []"
    using none f by (auto simp: decode_job_snapshot_def items_response_def and_then_Inr split: if_splits)
  with m [of n] n show ?thesis by simp
qed

section \<open>Writing fields\<close>

definition sendable :: "codecs \<Rightarrow> field_value \<Rightarrow> bool" where
  "sendable X v \<longleftrightarrow> (\<exists>s. value_bytes X v = cx_encode X s)"

definition put_fields :: "codecs \<Rightarrow> (str \<times> field_value) list \<Rightarrow> (str \<Rightarrow> str option) \<Rightarrow> str \<Rightarrow> str option" where
  "put_fields X m get = fold (\<lambda>(n, v) g. g(n := cx_decode X (value_bytes X v))) m get"

lemma text_at_upd:
  "codecs_ok X \<Longrightarrow> text_at X (h(cx_encode X n \<mapsto> b)) = (text_at X h)(n := cx_decode X b)"
  by (rule ext) (simp add: text_at_def encode_inject)

lemma text_hash_upd:
  "text_hash X h \<Longrightarrow> text_hash X (h(cx_encode X n \<mapsto> cx_encode X s))"
  unfolding text_hash_def by auto

lemma text_at_hash_put:
  assumes "codecs_ok X"
  shows "text_at X (hash_put (sent_mapping X m) h) = put_fields X m (text_at X h)"
  by (induction m arbitrary: h)
     (auto simp: hash_put_def sent_mapping_def put_fields_def text_at_upd [OF assms])

lemma text_hash_put:
  assumes "text_hash X h" and "\<forall>(n, v)\<in>set m. sendable X v"
  shows "text_hash X (hash_put (sent_mapping X m) h)"
  using assms
proof (induction m arbitrary: h)
  case (Cons nv m)
  obtain n v where nv: "nv = (n, v)" by (cases nv)
  with Cons.prems obtain s where "value_bytes X v = cx_encode X s" by (auto simp: sendable_def)
  then have "text_hash X (h(cx_encode X n \<mapsto> value_bytes X v))"
    using text_hash_upd [OF Cons.prems(1)] by simp
  then have "text_hash X (hash_put (sent_mapping X m) (h(cx_encode X n \<mapsto> value_bytes X v)))"
    by (rule Cons.IH) (use Cons.prems(2) in simp)
  with nv show ?case by (simp only: hash_put_def sent_mapping_def list.map fold_simps case_prod_conv)
qed (simp add: hash_put_def sent_mapping_def)

lemma sendable_text [simp]: "sendable X (TextValue s)"
  by (auto simp: sendable_def)

section \<open>Lifecycle transitions\<close>

definition begin_attempt :: "instant \<Rightarrow> MaintenanceJobSnapshot \<Rightarrow> MaintenanceJobSnapshot" where
  "begin_attempt now s = s\<lparr>js_status := JOB_RUNNING, js_attempts := js_attempts s + 1,
     js_started_at := Some now, js_finished_at := None, js_error_summary := None\<rparr>"

definition succeed :: "instant \<Rightarrow> job_result \<Rightarrow> MaintenanceJobSnapshot \<Rightarrow> MaintenanceJobSnapshot" where
  "succeed now r s = s\<lparr>js_status := JOB_SUCCEEDED, js_finished_at := Some now,
     js_error_summary := None, js_result := Some r\<rparr>"

definition fail :: "bool \<Rightarrow> instant \<Rightarrow> str \<Rightarrow> MaintenanceJobSnapshot \<Rightarrow> MaintenanceJobSnapshot" where
  "fail terminal now e s = s\<lparr>js_status := (if terminal then JOB_FAILED else JOB_RETRYING),
     js_finished_at := (if terminal then Some now else js_finished_at s),
     js_error_summary := nonblank (Some e)\<rparr>"

lemma optional_datetime_simps:
  assumes "codecs_ok X"
  shows "optional_datetime X (Some []) n = Inr None"
    and "optional_datetime X (Some (cx_isoformat X t)) n = Inr (Some t)"
  using codecs_ok_simps [OF assms]
  by (simp_all add: optional_datetime_def nonblank_def Let_def text_datetime_def)

lemma nonblank_empty [simp]: "nonblank (Some []) = None"
  by (simp add: nonblank_def)

lemma result_of_upd [simp]:
  "n \<noteq> ''result_json'' \<Longrightarrow> n \<noteq> ''kind'' \<Longrightarrow> result_of X (get(n := v)) = result_of X get"
  by (simp add: result_of_def split: option.split list.split)

lemmas field_reads = name_at_def number_at_def time_at_def flag_at_def

lemma running_fields:
  assumes X: "codecs_ok X"
  shows "put_fields X (status_mapping (running_mutation X now)) get =
    get(''status'' := Some (job_status_value JOB_RUNNING), ''started_at'' := Some (cx_isoformat X now),
        ''finished_at'' := Some [], ''error_summary'' := Some [])"
  by (simp add: put_fields_def status_mapping_def running_mutation_def present_def decode_encode [OF X])

lemma succeeded_fields:
  assumes X: "codecs_ok X"
  shows "put_fields X (status_mapping (succeeded_mutation X now (cx_encode X b))) get =
    get(''status'' := Some (job_status_value JOB_SUCCEEDED), ''finished_at'' := Some (cx_isoformat X now),
        ''result_json'' := Some b, ''error_summary'' := Some [])"
  by (simp add: put_fields_def status_mapping_def succeeded_mutation_def present_def decode_encode [OF X])

lemma failed_fields:
  assumes X: "codecs_ok X"
  shows "put_fields X (status_mapping (failed_mutation X now terminal e)) get =
    (if terminal then get(''status'' := Some (job_status_value JOB_FAILED),
         ''finished_at'' := Some (cx_isoformat X now), ''error_summary'' := Some e)
     else get(''status'' := Some (job_status_value JOB_RETRYING), ''error_summary'' := Some e))"
  by (simp add: put_fields_def status_mapping_def failed_mutation_def present_def decode_encode [OF X])

lemma snapshot_begin:
  assumes "codecs_ok X" and "snapshot_of X get = Inr s" and "short_int (js_attempts s + 1)"
  shows "snapshot_of X (put_fields X (status_mapping (running_mutation X now))
    (get(''attempts'' := Some (int_text (js_attempts s + 1))))) = Inr (begin_attempt now s)"
  using assms unfolding running_fields [OF assms(1)] snapshot_of_iff
  by (simp add: begin_attempt_def field_reads optional_datetime_simps py_int_int_text)

lemma snapshot_succeed:
  assumes "codecs_ok X" and "snapshot_of X get = Inr s" and "cx_loads X b = Some (result_json_of r)"
    and "b \<noteq> []" and "result_kind r = js_kind s"
  shows "snapshot_of X (put_fields X (status_mapping (succeeded_mutation X now (cx_encode X b))) get) =
    Inr (succeed now r s)"
proof -
  have "result_of X (get(''status'' := Some (job_status_value JOB_SUCCEEDED),
      ''finished_at'' := Some (cx_isoformat X now), ''result_json'' := Some b, ''error_summary'' := Some [])) =
      Inr (Some r)"
    using assms(2,4,5) decode_job_result_round_trip [OF assms(3)]
    by (cases b) (simp_all add: result_of_def snapshot_of_iff)
  with assms(1,2) show ?thesis unfolding succeeded_fields [OF assms(1)] snapshot_of_iff
    by (simp add: succeed_def name_at_def number_at_def time_at_def flag_at_def optional_datetime_simps)
qed

lemma snapshot_fail:
  assumes "codecs_ok X" and "snapshot_of X get = Inr s"
  shows "snapshot_of X (put_fields X (status_mapping (failed_mutation X now terminal e)) get) =
    Inr (fail terminal now e s)"
  using assms unfolding failed_fields [OF assms(1)] snapshot_of_iff
  by (simp add: fail_def field_reads optional_datetime_simps)

end
