(* ===== verification/Redis_Memory.thy ===== *)
theory Redis_Memory
  imports Redis_Server "HOL-Library.Countable"
begin

text \<open>
  An in-memory server that meets \<open>redis_ok\<close> and codecs that meet \<open>codecs_ok\<close>: the hypotheses on
  Redis can hold, and the properties of the queue are applied on it to concrete jobs. The state
  carries the data, the entries already delivered, whether pending entries count as idle, and the
  fate of the coming requests (none listed means delivered).
\<close>

record memory =
  me_view :: redis_view
  me_seen :: "bytes set"
  me_idle :: bool
  me_links :: "link list"

definition on_view :: "(redis_view \<Rightarrow> 'a \<times> redis_view) \<Rightarrow> (memory, 'a) command" where
  "on_view f r = (case f (me_view r) of (x, v) \<Rightarrow> (Inr x, r\<lparr>me_view := v\<rparr>))"

definition memory_link :: "memory \<Rightarrow> link \<times> memory" where
  "memory_link r = (case me_links r of [] \<Rightarrow> (Delivered, r) | l # ls \<Rightarrow> (l, r\<lparr>me_links := ls\<rparr>))"

definition stored_number :: "bytes option \<Rightarrow> int option" where
  "stored_number b = (case b of None \<Rightarrow> Some 0 | Some s \<Rightarrow>
     (case py_int s of Some n \<Rightarrow> if int_text n = s \<and> int64 n then Some n else None | None \<Rightarrow> None))"

definition memory_incr :: "str \<Rightarrow> (memory, int) command" where
  "memory_incr k r = (case stored_number (rv_strings (me_view r) k) of
       None \<Rightarrow> (Inl (ResponseError ''ERR value is not an integer or out of range''), r)
     | Some n \<Rightarrow> if int64 (n + 1)
         then (Inr (n + 1), r\<lparr>me_view := view_set k (int_text (n + 1)) (me_view r)\<rparr>)
         else (Inl (ResponseError ''ERR increment or decrement would overflow''), r))"

definition memory_hincrby :: "str \<Rightarrow> bytes \<Rightarrow> int \<Rightarrow> (memory, redis_response) command" where
  "memory_hincrby k f d r = (case stored_number (rv_hashes (me_view r) k f) of
       None \<Rightarrow> (Inl (ResponseError ''ERR hash value is not an integer''), r)
     | Some n \<Rightarrow> if int64 (n + d)
         then (Inr (RInt (n + d)), r\<lparr>me_view := view_hset k [(f, int_text (n + d))] (me_view r)\<rparr>)
         else (Inl (ResponseError ''ERR increment or decrement would overflow''), r))"

text \<open>The fields of a hash, in the order of a list of names that covers the ones in use.\<close>

definition known_fields :: "bytes list" where
  "known_fields = status_field_names"

definition memory_hgetall :: "str \<Rightarrow> (memory, redis_response) command" where
  "memory_hgetall k r = (let h = rv_hashes (me_view r) k in
     if dom h \<subseteq> set known_fields
     then (Inr (items_response (map (\<lambda>f. (f, the (h f))) (filter (\<lambda>f. h f \<noteq> None) known_fields))), r)
     else (Inl (ResponseError ''ERR unknown field''), r))"

definition fresh_id :: "(bytes \<times> 'a) list \<Rightarrow> bytes" where
  "fresh_id es = replicate (Suc (fold max (map (length \<circ> fst) es) 0)) (CHR ''1'')"

definition memory_xadd :: "str \<Rightarrow> int \<Rightarrow> (bytes \<times> bytes) list \<Rightarrow> (memory, bytes) command" where
  "memory_xadd s len m = on_view (\<lambda>v. let i = fresh_id (rv_streams v s) in
     (i, view_stream s (rv_streams v s @ [(i, m)]) v))"

definition memory_xautoclaim :: "str \<Rightarrow> str \<Rightarrow> str \<Rightarrow> int \<Rightarrow> (memory, redis_response) command" where
  "memory_xautoclaim s g c idle r =
     (case filter (\<lambda>e. fst e \<in> rv_pending (me_view r) s g) (rv_streams (me_view r) s) of
        e # _ \<Rightarrow> if me_idle r then (Inr (RList [RBytes ''0-0'', RList [entry_response e], RList []]), r)
                 else (Inr (RList [RBytes ''0-0'', RList [], RList []]), r)
      | [] \<Rightarrow> (Inr (RList [RBytes ''0-0'', RList [], RList []]), r))"

definition memory_xreadgroup :: "str \<Rightarrow> str \<Rightarrow> str \<Rightarrow> int \<Rightarrow> (memory, redis_response) command" where
  "memory_xreadgroup s g c block r =
     (case filter (\<lambda>e. fst e \<notin> me_seen r) (rv_streams (me_view r) s) of
        [] \<Rightarrow> (Inr (RList []), r)
      | e # _ \<Rightarrow> (Inr (RList [RList [RStr s, RList [entry_response e]]]),
          r\<lparr>me_seen := insert (fst e) (me_seen r),
            me_view := view_deliver s g (insert (fst e) (rv_pending (me_view r) s g)) (me_view r)\<rparr>))"

definition memory_redis :: "memory redis" where
  "memory_redis = \<lparr> rd_view = me_view, rd_link = memory_link,
     rd_get = (\<lambda>k. on_view (\<lambda>v. (rv_strings v k, v))),
     rd_set_ex = (\<lambda>k b ex. on_view (\<lambda>v. ((), view_set k b v))),
     rd_incr = memory_incr,
     rd_expire = (\<lambda>k n. on_view (\<lambda>v. (1, v))),
     rd_ttl = (\<lambda>k. on_view (\<lambda>v. (60, v))),
     rd_hset = (\<lambda>k m. on_view (\<lambda>v. (int (length m), view_hset k m v))),
     rd_hgetall = memory_hgetall,
     rd_hincrby = memory_hincrby,
     rd_xadd = memory_xadd,
     rd_xack = (\<lambda>s g i. on_view (\<lambda>v. (1, view_ack s g i v))),
     rd_xgroup_create = (\<lambda>s g. on_view (\<lambda>v. ((), v))),
     rd_xautoclaim = memory_xautoclaim,
     rd_xreadgroup = memory_xreadgroup,
     rd_xlen = (\<lambda>s. on_view (\<lambda>v. (RInt (int (length (rv_streams v s))), v))),
     rd_xpending = (\<lambda>s g. on_view (\<lambda>v. (RDict [(RStr ''pending'', RInt 0)], v))),
     rd_xinfo_consumers = (\<lambda>s g. on_view (\<lambda>v. (RList [], v))),
     rd_xrange = (\<lambda>s i. on_view (\<lambda>v.
        (RList (map entry_response (filter (\<lambda>e. fst e = i) (rv_streams v s))), v))),
     rd_xrevrange = (\<lambda>s n. on_view (\<lambda>v.
        (RList (map entry_response (take (nat n) (rev (rv_streams v s)))), v))),
     rd_xtrim = (\<lambda>s. on_view (\<lambda>v. (int (length (rv_streams v s)), view_stream s [] v))) \<rparr>"

lemma memory_redis_simps [simp]:
  "rd_view memory_redis = me_view" "rd_link memory_redis = memory_link"
  "rd_get memory_redis k = on_view (\<lambda>v. (rv_strings v k, v))"
  "rd_set_ex memory_redis k b ex = on_view (\<lambda>v. ((), view_set k b v))"
  "rd_incr memory_redis k = memory_incr k"
  "rd_expire memory_redis k n = on_view (\<lambda>v. (1, v))"
  "rd_ttl memory_redis k = on_view (\<lambda>v. (60, v))"
  "rd_hset memory_redis k m = on_view (\<lambda>v. (int (length m), view_hset k m v))"
  "rd_hgetall memory_redis k = memory_hgetall k"
  "rd_hincrby memory_redis k f d = memory_hincrby k f d"
  "rd_xadd memory_redis s len m = memory_xadd s len m"
  "rd_xack memory_redis s g i = on_view (\<lambda>v. (1, view_ack s g i v))"
  "rd_xgroup_create memory_redis s g = on_view (\<lambda>v. ((), v))"
  "rd_xautoclaim memory_redis s g c idle = memory_xautoclaim s g c idle"
  "rd_xreadgroup memory_redis s g c block = memory_xreadgroup s g c block"
  "rd_xlen memory_redis s = on_view (\<lambda>v. (RInt (int (length (rv_streams v s))), v))"
  "rd_xpending memory_redis s g = on_view (\<lambda>v. (RDict [(RStr ''pending'', RInt 0)], v))"
  "rd_xinfo_consumers memory_redis s g = on_view (\<lambda>v. (RList [], v))"
  "rd_xrange memory_redis s i = on_view (\<lambda>v.
     (RList (map entry_response (filter (\<lambda>e. fst e = i) (rv_streams v s))), v))"
  "rd_xrevrange memory_redis s n = on_view (\<lambda>v.
     (RList (map entry_response (take (nat n) (rev (rv_streams v s)))), v))"
  "rd_xtrim memory_redis s = on_view (\<lambda>v. (int (length (rv_streams v s)), view_stream s [] v))"
  by (simp_all add: memory_redis_def)

section \<open>The laws hold\<close>

lemma answers_on_view:
  "answers memory_redis (on_view f) Q \<longleftrightarrow> (\<forall>r :: memory. case f (me_view r) of (x, v) \<Rightarrow> Q (me_view r) x v)"
  by (simp add: answers_def on_view_def split: prod.splits)

lemma stored_number_counts: "stored_number b = Some n \<Longrightarrow> counts b n"
  by (auto simp: stored_number_def counts_def int64_def split: option.splits if_splits)

lemma fold_max_ge: "m \<le> fold max ns (m :: nat)"
  by (induction ns arbitrary: m) (simp, metis fold_simps(2) max.boundedE)

lemma fold_max_mem: "n \<in> set ns \<Longrightarrow> n \<le> fold max ns (m :: nat)"
proof (induction ns arbitrary: m)
  case (Cons a ns)
  then show ?case using fold_max_ge [of "max a m" ns] by auto
qed simp

lemma fresh_id_fresh: "fresh_id es \<notin> fst ` set es"
proof
  assume "fresh_id es \<in> fst ` set es"
  then obtain e where "e \<in> set es" "fst e = fresh_id es" by auto
  then have "length (fresh_id es) \<le> fold max (map (length \<circ> fst) es) 0"
    by (intro fold_max_mem) force
  then show False by (simp add: fresh_id_def)
qed

lemma fresh_id_entry_id: "entry_id_text (fresh_id es)"
  by (simp add: entry_id_text_def fresh_id_def is_digit_def)

lemma aged_refl: "aged v v"
  by (simp add: aged_def)

lemma memory_hgetall_law:
  "answers memory_redis (memory_hgetall k) (\<lambda>v x v'. v' = v \<and>
     (\<exists>kvs. distinct (map fst kvs) \<and> map_of kvs = rv_hashes v k \<and> x = items_response kvs))"
proof -
  have "\<exists>kvs. distinct (map fst kvs) \<and> map_of kvs = h \<and>
      items_response (map (\<lambda>f. (f, the (h f))) (filter (\<lambda>f. h f \<noteq> None) known_fields)) = items_response kvs"
    if "dom h \<subseteq> set known_fields" for h :: "bytes \<Rightarrow> bytes option"
  proof (intro exI conjI)
    let ?kvs = "map (\<lambda>f. (f, the (h f))) (filter (\<lambda>f. h f \<noteq> None) known_fields)"
    have "distinct known_fields" by (simp add: known_fields_def status_field_names_def)
    then show "distinct (map fst ?kvs)" by (simp add: comp_def)
    show "map_of ?kvs = h"
      unfolding map_of_map_restrict
    proof
      fix f show "((Some \<circ> (\<lambda>f. the (h f))) |` set (filter (\<lambda>f. h f \<noteq> None) known_fields)) f = h f"
        using that by (cases "h f") (auto simp: restrict_map_def)
    qed
  qed simp
  then show ?thesis
    by (auto simp: answers_def memory_hgetall_def Let_def)
qed

lemma memory_redis_keys_ok: "redis_keys_ok memory_redis"
  unfolding redis_keys_ok_def
  by (intro conjI allI)
     (simp_all add: answers_on_view memory_hgetall_law memory_link_def aged_refl int64_def [of 60] split: list.split,
      auto simp: answers_def memory_incr_def memory_hincrby_def split: option.split dest: stored_number_counts)

lemma filter_hd: "filter P xs = e # es \<Longrightarrow> e \<in> set xs \<and> P e"
  using filter_set [of P xs] by (auto dest: arg_cong [where f = set])

lemma claim_nothing: "claim_effect s g v (RList [cursor, RList [], deleted]) v"
  unfolding claim_effect_def by (intro conjI exI [of _ "{}"]) (auto simp: view_deliver_def)

lemma claim_entry:
  "e \<in> set (rv_streams v s) \<Longrightarrow> fst e \<in> rv_pending v s g \<Longrightarrow>
   claim_effect s g v (RList [cursor, RList [entry_response e], deleted]) v"
  unfolding claim_effect_def
  by (intro conjI exI [of _ "{}"]) (simp_all add: view_deliver_def, metis prod.collapse)

lemma memory_xautoclaim_law: "answers memory_redis (memory_xautoclaim s g c idle) (claim_effect s g)"
  unfolding answers_def memory_xautoclaim_def
  by (rule allI) (auto split: list.split dest!: filter_hd intro!: claim_nothing claim_entry)

lemma memory_xreadgroup_law: "answers memory_redis (memory_xreadgroup s g c block) (read_effect s g)"
  unfolding answers_def memory_xreadgroup_def read_effect_def
  by (rule allI) (auto split: list.split dest!: filter_hd)

lemma memory_xadd_law: "answers memory_redis (memory_xadd s len m) (append_effect s len m)"
  unfolding memory_xadd_def answers_on_view Let_def append_effect_def
  by (simp add: fresh_id_fresh) (metis drop0 fresh_id_entry_id)

lemma memory_redis_streams_ok: "redis_streams_ok memory_redis"
  unfolding redis_streams_ok_def memory_redis_simps
  by (intro conjI allI memory_xadd_law memory_xautoclaim_law memory_xreadgroup_law)
     (simp_all add: answers_on_view)

lemma memory_redis_ok: "redis_ok memory_redis"
  by (simp add: redis_ok_def memory_redis_keys_ok memory_redis_streams_ok)

section \<open>Codecs\<close>

text \<open>
  One byte per character; times as decimal text; JSON values numbered by their enumeration and
  written in unary.
\<close>

instance json :: countable
  by countable_datatype

definition decimal :: "str \<Rightarrow> instant option" where
  "decimal s = (case s of [] \<Rightarrow> None | c # cs \<Rightarrow>
     if c = CHR ''-'' then map_option (\<lambda>n. - int n) (digits_value 0 cs)
     else map_option int (digits_value 0 s))"

definition memory_codecs :: codecs where
  "memory_codecs = \<lparr> cx_encode = id, cx_decode = Some, cx_isoformat = int_text,
     cx_fromisoformat = decimal,
     cx_dumps = (\<lambda>j. Some (replicate (Suc (to_nat j)) (CHR ''1''))),
     cx_loads = (\<lambda>s. Some (from_nat (length s - 1))) \<rparr>"

lemma decimal_int_text: "decimal (int_text t) = Some t"
proof (cases "t < 0")
  case False
  obtain c cs where d: "nat_digits (nat t) = c # cs" by (cases "nat_digits (nat t)") simp_all
  then have "c \<noteq> CHR ''-''" using minus_not_digits by metis
  with False d digits_value_nat_digits [of "nat t"] show ?thesis
    by (simp add: decimal_def int_text_def)
qed (simp add: decimal_def int_text_def digits_value_nat_digits)

lemma memory_codecs_ok: "codecs_ok memory_codecs"
  by (auto simp: codecs_ok_def memory_codecs_def decimal_int_text)

definition empty_view :: redis_view where
  "empty_view = \<lparr> rv_strings = Map.empty, rv_hashes = (\<lambda>_. Map.empty), rv_streams = (\<lambda>_. []),
     rv_pending = (\<lambda>_ _. {}) \<rparr>"

definition fresh_memory :: "link list \<Rightarrow> memory" where
  "fresh_memory ls = \<lparr> me_view = empty_view, me_seen = {}, me_idle = False, me_links = ls \<rparr>"

end
