(* ===== verification/Queue_Properties.thy ===== *)
theory Queue_Properties
  imports Job_Status Redis_Memory
begin

text \<open>
  The queue over any Redis that keeps its documented promises: submission is exact (deduplicated,
  rate limited or queued, with nothing else changed), and the consumer's transitions implement the
  abstract lifecycle of a job.
\<close>

text \<open>The assumptions on the environment; the two streams have names of their own.\<close>

definition queue_ok :: "'r queue_env \<Rightarrow> bool" where
  "queue_ok E \<longleftrightarrow> redis_ok (qe_redis E) \<and> codecs_ok (qe_codecs E) \<and> config_valid (qe_config E) \<and>
     qf_stream_name (qe_config E) \<noteq> qf_dead_letter_stream_name (qe_config E)"

lemma queue_okD:
  assumes "queue_ok E"
  shows "redis_ok (qe_redis E)" "redis_keys_ok (qe_redis E)" "redis_streams_ok (qe_redis E)"
    "codecs_ok (qe_codecs E)" "0 < qf_status_ttl_seconds (qe_config E)"
    "0 < qf_submission_window_seconds (qe_config E)"
    "qf_stream_name (qe_config E) \<noteq> qf_dead_letter_stream_name (qe_config E)"
  using assms by (simp_all add: queue_ok_def redis_ok_def config_valid_def)

section \<open>Returning computations\<close>

lemma except_redis_Inr: "except_redis msg m r = (Inr x, r') \<longleftrightarrow> m r = (Inr x, r')"
  by (auto simp: except_redis_def try_catch_def raise_def split: prod.splits sum.splits queue_exn.splits)

lemma decoded_Inr: "decoded x r = (Inr y, r') \<longleftrightarrow> x = Inr y \<and> r' = r"
  by (auto simp: decoded_def)

lemma whenE_Inr: "whenE b m r = (Inr u, r') \<longleftrightarrow> (if b then m r = (Inr u, r') else r' = r)"
  by (auto simp: whenE_def ret_def)

lemmas queue_returns = returns_simps except_redis_Inr decoded_Inr whenE_Inr

section \<open>Single operations\<close>

abbreviation view_of :: "'r queue_env \<Rightarrow> 'r \<Rightarrow> redis_view" where
  "view_of E r \<equiv> rd_view (qe_redis E) r"

abbreviation status_hash :: "'r queue_env \<Rightarrow> redis_view \<Rightarrow> str \<Rightarrow> bytes \<Rightarrow> bytes option" where
  "status_hash E v job_id \<equiv> rv_hashes v (status_key (qe_config E) job_id)"

lemma get_job_returns:
  assumes ok: "queue_ok E" and calm: "no_expiry (qe_redis E)" and run: "get_job E j r = (Inr x, r')"
  shows "view_of E r' = view_of E r"
    and "job_hash (qe_codecs E) (status_hash E (view_of E r) j) s \<Longrightarrow> x = Some s"
proof -
  obtain raw where c: "call (qe_redis E) (rd_hgetall (qe_redis E) (status_key (qe_config E) j)) r = (Inr raw, r')"
    and d: "decode_job_snapshot (qe_codecs E) raw = Inr x"
    using run by (auto simp: get_job_def queue_returns)
  obtain kvs where kvs: "distinct (map fst kvs)" "map_of kvs = status_hash E (view_of E r) j"
      "raw = items_response kvs" and v: "view_of E r' = view_of E r"
    using call_returns [OF c calm redis_keys_okD(8) [OF queue_okD(2) [OF ok]]] by blast
  from v show "view_of E r' = view_of E r" .
  show "x = Some s" if "job_hash (qe_codecs E) (status_hash E (view_of E r) j) s"
    using decode_job_hash [OF queue_okD(4) [OF ok] that kvs(2,1)] d kvs(3) by simp
qed

lemma write_status_returns:
  assumes ok: "queue_ok E" and calm: "no_expiry (qe_redis E)"
    and run: "write_status E key mu r = (Inr u, r')"
  shows "view_of E r' =
    view_hset key (sent_mapping (qe_codecs E) (status_mapping mu)) (view_of E r)"
proof -
  obtain n1 r1 n2 where c1: "call (qe_redis E) (rd_hset (qe_redis E) key
        (sent_mapping (qe_codecs E) (status_mapping mu))) r = (Inr n1, r1)"
    and c2: "call (qe_redis E) (rd_expire (qe_redis E) key (qf_status_ttl_seconds (qe_config E))) r1 = (Inr n2, r')"
    using run by (auto simp: write_status_def Let_def queue_returns)
  show ?thesis
    using call_returns [OF c1 calm redis_keys_okD(7) [OF queue_okD(2) [OF ok]]]
      call_returns [OF c2 calm redis_keys_okD(5) [OF queue_okD(2) [OF ok]]] queue_okD(5) [OF ok]
    by simp
qed

lemma ack_returns:
  assumes ok: "queue_ok E" and calm: "no_expiry (qe_redis E)" and run: "ack E i r = (Inr u, r')"
  shows "view_of E r' = view_ack (qf_stream_name (qe_config E)) (qf_consumer_group (qe_config E))
    (cx_encode (qe_codecs E) i) (view_of E r)"
proof -
  obtain n where c: "call (qe_redis E) (rd_xack (qe_redis E) (qf_stream_name (qe_config E))
      (qf_consumer_group (qe_config E)) (cx_encode (qe_codecs E) i)) r = (Inr n, r')"
    using run by (auto simp: ack_def queue_returns)
  show ?thesis
    using call_returns [OF c calm redis_streams_okD(2) [OF queue_okD(3) [OF ok]]] .
qed

section \<open>The consumer implements the job lifecycle\<close>

text \<open>Everything but one status hash is the same.\<close>

definition only_job_changed :: "'r queue_env \<Rightarrow> str \<Rightarrow> redis_view \<Rightarrow> redis_view \<Rightarrow> bool" where
  "only_job_changed E j v v' \<longleftrightarrow>
     rv_strings v' = rv_strings v \<and>
     (\<forall>k. k \<noteq> status_key (qe_config E) j \<longrightarrow> rv_hashes v' k = rv_hashes v k)"

lemma job_hash_mutation:
  assumes X: "codecs_ok X" and h: "text_hash X h" and m: "\<forall>(n, v)\<in>set m. sendable X v"
    and s: "snapshot_of X (put_fields X m (text_at X h)) = Inr s"
  shows "job_hash X (hash_put (sent_mapping X m) h) s"
  using s text_hash_put [OF h m] by (simp add: job_hash_def text_at_hash_put [OF X])

lemma mutation_sendable:
  "\<forall>(n, v)\<in>set (status_mapping (running_mutation X now)). sendable X v"
  "\<forall>(n, v)\<in>set (status_mapping (failed_mutation X now terminal e)). sendable X v"
  "\<forall>(n, v)\<in>set (status_mapping (succeeded_mutation X now (cx_encode X b))). sendable X v"
  by (auto simp: status_mapping_def running_mutation_def failed_mutation_def succeeded_mutation_def
      present_def sendable_def)

lemma ascii_int_text: "ascii (int_text i)"
proof -
  have "c \<in> set (nat_digits n) \<Longrightarrow> (of_char c :: nat) < 128" for c n
    using nat_digits_digits [of c n] by (simp add: is_digit_def)
  then show ?thesis by (auto simp: ascii_def int_text_def)
qed

lemma encode_int_text: "codecs_ok X \<Longrightarrow> cx_encode X (int_text i) = int_text i"
  by (simp add: codecs_ok_simps ascii_int_text)

lemma counts_attempts:
  assumes X: "codecs_ok X" and s: "snapshot_of X (text_at X h) = Inr s"
    and c: "counts (h (cx_encode X ''attempts'')) n"
  shows "n = js_attempts s"
proof -
  obtain t where t: "text_at X h ''attempts'' = Some t" "py_int t = Some (js_attempts s)"
    using s by (auto simp: snapshot_of_iff number_at_def)
  then have h: "h (cx_encode X ''attempts'') = Some (int_text n)"
    using c by (auto simp: counts_def text_at_def)
  then have "t = int_text n"
    using t(1) X by (simp add: text_at_def) (metis decode_encode encode_int_text option.inject)
  with t(2) c int64_short show ?thesis by (simp add: counts_def py_int_int_text)
qed

lemma mark_running_returns:
  assumes ok: "queue_ok E" and calm: "no_expiry (qe_redis E)"
    and job: "job_hash (qe_codecs E) (status_hash E (view_of E r) (js_job_id (dv_job d))) s"
    and run: "mark_running E now d r = (Inr n, r')"
  shows "n = js_attempts s + 1 \<and>
    job_hash (qe_codecs E) (status_hash E (view_of E r') (js_job_id (dv_job d))) (begin_attempt now s) \<and>
    only_job_changed E (js_job_id (dv_job d)) (view_of E r) (view_of E r') \<and>
    rv_pending (view_of E r') = rv_pending (view_of E r) \<and> rv_streams (view_of E r') = rv_streams (view_of E r)"
proof -
  let ?X = "qe_codecs E" and ?key = "status_key (qe_config E) (js_job_id (dv_job d))"
  let ?h = "rv_hashes (view_of E r) ?key"
  have X: "codecs_ok ?X" by (rule queue_okD(4) [OF ok])
  obtain raw r1 u where c: "call (qe_redis E) (rd_hincrby (qe_redis E) ?key (cx_encode ?X ''attempts'') 1) r = (Inr raw, r1)"
    and w: "write_status E ?key (running_mutation ?X now) r1 = (Inr u, r')"
    and n: "response_integer ?X raw ''attempt'' = Inr n"
    using run by (auto simp: mark_running_def Let_def queue_returns)
  obtain m where m: "counts (?h (cx_encode ?X ''attempts'')) m" "raw = RInt (m + 1)" "int64 (m + 1)"
      "view_of E r1 = view_hset ?key [(cx_encode ?X ''attempts'', int_text (m + 1))] (view_of E r)"
    using call_returns [OF c calm redis_keys_okD(9) [OF queue_okD(2) [OF ok]]] by blast
  have s: "snapshot_of ?X (text_at ?X ?h) = Inr s" and t: "text_hash ?X ?h"
    using job by (simp_all add: job_hash_def)
  have ms: "m = js_attempts s" by (rule counts_attempts [OF X s m(1)])
  have h1: "rv_hashes (view_of E r1) ?key = ?h(cx_encode ?X ''attempts'' \<mapsto> cx_encode ?X (int_text (m + 1)))"
    using m(4) by (simp add: view_hset_def hash_put_def encode_int_text [OF X])
  have "snapshot_of ?X (put_fields ?X (status_mapping (running_mutation ?X now))
      (text_at ?X (rv_hashes (view_of E r1) ?key))) = Inr (begin_attempt now s)"
    unfolding h1 text_at_upd [OF X] using snapshot_begin [OF X s] m(3) ms int64_short
    by (simp add: decode_encode [OF X])
  from job_hash_mutation [OF X _ mutation_sendable(1) this] text_hash_upd [OF t]
  have "job_hash ?X (hash_put (sent_mapping ?X (status_mapping (running_mutation ?X now)))
      (rv_hashes (view_of E r1) ?key)) (begin_attempt now s)" unfolding h1 by blast
  moreover have "view_of E r' = view_hset ?key (sent_mapping ?X (status_mapping (running_mutation ?X now))) (view_of E r1)"
    by (rule write_status_returns [OF ok calm w])
  ultimately show ?thesis
    using n m ms by (auto simp: response_integer_def only_job_changed_def view_hset_def)
qed

lemma encode_result_sendable:
  assumes X: "codecs_ok X" and b: "result_bounded res" and e: "encode_result X res = Inr bytes"
  obtains t where "bytes = cx_encode X t" "t \<noteq> []" "cx_loads X t = Some (result_json_of res)"
proof -
  obtain t where t: "cx_dumps X (result_json_of res) = Some (cx_encode X t)" "t \<noteq> []"
      "cx_loads X t = Some (result_json_of res)"
    using codecs_ok_json [OF X result_json_plain [OF b]] by blast
  with e show thesis
    by (intro that [of t]; cases res)
       (simp_all add: encode_result_def encode_batch_note_write_result_def encode_embedding_result_def
          dumps_json_def result_json_of_def)
qed

lemma mark_succeeded_returns:
  assumes ok: "queue_ok E" and calm: "no_expiry (qe_redis E)"
    and job: "job_hash (qe_codecs E) (status_hash E (view_of E r) (js_job_id (dv_job d))) s"
    and res: "result_bounded res" "result_kind res = js_kind s"
    and run: "mark_succeeded E now d res r = (Inr u, r')"
  shows "job_hash (qe_codecs E) (status_hash E (view_of E r') (js_job_id (dv_job d))) (succeed now res s) \<and>
    only_job_changed E (js_job_id (dv_job d)) (view_of E r) (view_of E r') \<and>
    rv_streams (view_of E r') = rv_streams (view_of E r) \<and>
    rv_pending (view_of E r') = rv_pending (view_ack (qf_stream_name (qe_config E))
      (qf_consumer_group (qe_config E)) (cx_encode (qe_codecs E) (dv_stream_id d)) (view_of E r))"
proof -
  let ?X = "qe_codecs E" and ?key = "status_key (qe_config E) (js_job_id (dv_job d))"
  have X: "codecs_ok ?X" by (rule queue_okD(4) [OF ok])
  obtain bytes r1 u' where e: "encode_result ?X res = Inr bytes"
    and w: "write_status E ?key (succeeded_mutation ?X now bytes) r = (Inr u', r1)"
    and a: "ack E (dv_stream_id d) r1 = (Inr u, r')"
    using run by (auto simp: mark_succeeded_def Let_def queue_returns)
  obtain t where t: "bytes = cx_encode ?X t" "t \<noteq> []" "cx_loads ?X t = Some (result_json_of res)"
    using encode_result_sendable [OF X res(1) e] .
  have s: "snapshot_of ?X (text_at ?X (rv_hashes (view_of E r) ?key)) = Inr s"
    and th: "text_hash ?X (rv_hashes (view_of E r) ?key)"
    using job by (simp_all add: job_hash_def)
  have "job_hash ?X (hash_put (sent_mapping ?X (status_mapping (succeeded_mutation ?X now bytes)))
      (rv_hashes (view_of E r) ?key)) (succeed now res s)"
    unfolding t(1)
    by (rule job_hash_mutation [OF X th mutation_sendable(3) snapshot_succeed [OF X s t(3,2) res(2)]])
  with write_status_returns [OF ok calm w] ack_returns [OF ok calm a] show ?thesis
    by (auto simp: only_job_changed_def view_hset_def view_ack_def)
qed

lemma mark_failed_returns:
  assumes ok: "queue_ok E" and calm: "no_expiry (qe_redis E)"
    and job: "job_hash (qe_codecs E) (status_hash E (view_of E r) (js_job_id (dv_job d))) s"
    and run: "mark_failed E now failed_at d attempt e r = (Inr terminal, r')"
  shows "terminal = (qf_max_attempts (qe_config E) \<le> attempt) \<and>
    job_hash (qe_codecs E) (status_hash E (view_of E r') (js_job_id (dv_job d)))
      (fail terminal now (take 1000 e) s) \<and>
    only_job_changed E (js_job_id (dv_job d)) (view_of E r) (view_of E r') \<and>
    rv_pending (view_of E r') = (if terminal then rv_pending (view_ack (qf_stream_name (qe_config E))
      (qf_consumer_group (qe_config E)) (cx_encode (qe_codecs E) (dv_stream_id d)) (view_of E r))
      else rv_pending (view_of E r)) \<and>
    (if terminal then \<exists>i v. append_effect (qf_dead_letter_stream_name (qe_config E))
         (qf_max_stream_length (qe_config E)) (sent_mapping (qe_codecs E) (dead_letter_mapping
            (dead_letter_of (qe_codecs E) d attempt failed_at (take 1000 e)))) (view_of E r) i v \<and>
         rv_streams (view_of E r') = rv_streams v
     else rv_streams (view_of E r') = rv_streams (view_of E r))"
proof -
  let ?X = "qe_codecs E" and ?key = "status_key (qe_config E) (js_job_id (dv_job d))"
  let ?t = "qf_max_attempts (qe_config E) \<le> attempt"
  let ?m = "sent_mapping ?X (dead_letter_mapping (dead_letter_of ?X d attempt failed_at (take 1000 e)))"
  have X: "codecs_ok ?X" by (rule queue_okD(4) [OF ok])
  obtain r1 u1 where t: "terminal = ?t"
    and w: "write_status E ?key (failed_mutation ?X now ?t (take 1000 e)) r = (Inr u1, r1)"
    and rest: "if ?t then \<exists>i r2 u. call (qe_redis E) (rd_xadd (qe_redis E)
          (qf_dead_letter_stream_name (qe_config E)) (qf_max_stream_length (qe_config E)) ?m) r1 = (Inr i, r2) \<and>
          ack E (dv_stream_id d) r2 = (Inr u, r') else r' = r1"
    using run by (auto simp: mark_failed_def Let_def queue_returns split: if_splits)
  have s: "snapshot_of ?X (text_at ?X (rv_hashes (view_of E r) ?key)) = Inr s"
    and th: "text_hash ?X (rv_hashes (view_of E r) ?key)"
    using job by (simp_all add: job_hash_def)
  have h: "job_hash ?X (hash_put (sent_mapping ?X (status_mapping (failed_mutation ?X now ?t (take 1000 e))))
      (rv_hashes (view_of E r) ?key)) (fail ?t now (take 1000 e) s)"
    by (rule job_hash_mutation [OF X th mutation_sendable(2) snapshot_fail [OF X s]])
  note v1 = write_status_returns [OF ok calm w]
  show ?thesis
  proof (cases ?t)
    case True
    then obtain i r2 u where c: "call (qe_redis E) (rd_xadd (qe_redis E)
          (qf_dead_letter_stream_name (qe_config E)) (qf_max_stream_length (qe_config E)) ?m) r1 = (Inr i, r2)"
      and a: "ack E (dv_stream_id d) r2 = (Inr u, r')" using rest by auto
    have eff: "append_effect (qf_dead_letter_stream_name (qe_config E)) (qf_max_stream_length (qe_config E))
        ?m (view_of E r1) i (view_of E r2)"
      by (rule call_returns [OF c calm redis_streams_okD(1) [OF queue_okD(3) [OF ok]]])
    have "rv_streams (view_of E r) = rv_streams (view_of E r1)" unfolding v1 by (simp add: view_hset_def)
    from append_effect_streams [OF eff this]
    have "\<exists>i v. append_effect (qf_dead_letter_stream_name (qe_config E)) (qf_max_stream_length (qe_config E))
        ?m (view_of E r) i v \<and> rv_streams (view_of E r') = rv_streams v"
      using ack_returns [OF ok calm a] by (intro exI conjI) (assumption, simp add: view_ack_def)
    with True t h v1 append_effect_frame [OF eff] ack_returns [OF ok calm a] show ?thesis
      by (simp add: only_job_changed_def view_hset_def view_ack_def)
  next
    case False
    with rest t h v1 show ?thesis by (simp add: only_job_changed_def view_hset_def)
  qed
qed

section \<open>Submission\<close>

definition dedup_reply :: "bytes \<Rightarrow> redis_response" where
  "dedup_reply b = script_reply [''DEDUPLICATED'', b, []]"

lemma enqueue_script_returns:
  assumes ok: "redis_ok R" and pos: "0 < ea_window a" "0 < ea_status_ttl a"
    and run: "enqueue_script R a r = (Inr raw, r')"
  obtains (duplicate) b where "rv_strings (rd_view R r) (ea_dedup_key a) = Some b"
      "raw = script_reply [''DEDUPLICATED'', b, []]" "rd_view R r' = rd_view R r"
  | (limited) n ttl where "rv_strings (rd_view R r) (ea_dedup_key a) = None"
      "counts (rv_strings (rd_view R r) (ea_rate_key a)) n" "ea_submission_limit a < n + 1" "int64 ttl"
      "raw = script_reply [''RATE_LIMITED'', int_text ttl, []]"
      "rd_view R r' = view_set (ea_rate_key a) (int_text (n + 1)) (rd_view R r)"
  | (queued) n i v where "rv_strings (rd_view R r) (ea_dedup_key a) = None"
      "counts (rv_strings (rd_view R r) (ea_rate_key a)) n" "n + 1 \<le> ea_submission_limit a"
      "append_effect (ea_stream a) (ea_max_stream_length a) (script_entry a)
         (view_set (ea_rate_key a) (int_text (n + 1)) (rd_view R r)) i v"
      "raw = script_reply [''QUEUED'', ea_job_id a, i]"
      "rd_view R r' = view_set (ea_dedup_key a) (ea_job_id a)
         (view_hset (ea_status_key a) (script_status a i) v)"
proof -
  have keys: "redis_keys_ok R" and streams: "redis_streams_ok R" using ok by (simp_all add: redis_ok_def)
  have expire: "rd_view R r2 = rd_view R r1" if "rd_expire R k w r1 = (Inr x, r2)" "0 < w" for k w r1 r2 x
    using answersD(2) [OF redis_keys_okD(5) [OF keys] that(1)] that(2) by simp
  obtain existing r1 where g: "rd_get R (ea_dedup_key a) r = (Inr existing, r1)"
    using run by (auto simp: enqueue_script_def returns_simps)
  have v1: "existing = rv_strings (rd_view R r) (ea_dedup_key a)" "rd_view R r1 = rd_view R r"
    using answersD(2) [OF redis_keys_okD(2) [OF keys] g] by simp_all
  show thesis
  proof (cases existing)
    case (Some b)
    with run g have "raw = script_reply [''DEDUPLICATED'', b, []]" "r' = r1"
      by (simp_all add: enqueue_script_def returns_simps)
    with Some v1 show thesis by (intro duplicate) auto
  next
    case None
    with run g obtain current r2 where c: "rd_incr R (ea_rate_key a) r1 = (Inr current, r2)"
      and after: "seq (whenE (current = 1) (seq (rd_expire R (ea_rate_key a) (ea_window a)) (ret ())))
        (if current > ea_submission_limit a then
           bind (rd_ttl R (ea_rate_key a)) (\<lambda>ttl. ret (script_reply [''RATE_LIMITED'', int_text ttl, []]))
         else script_append R a) r2 = (Inr raw, r')"
      by (auto simp: enqueue_script_def bind_Inr)
    obtain u r3 where w: "whenE (current = 1) (seq (rd_expire R (ea_rate_key a) (ea_window a)) (ret ())) r2 = (Inr u, r3)"
      and rest: "(if current > ea_submission_limit a then
           bind (rd_ttl R (ea_rate_key a)) (\<lambda>ttl. ret (script_reply [''RATE_LIMITED'', int_text ttl, []]))
         else script_append R a) r3 = (Inr raw, r')"
      using after unfolding seq_Inr by blast
    have e: "if current = 1 then \<exists>x. rd_expire R (ea_rate_key a) (ea_window a) r2 = (Inr x, r3) else r3 = r2"
      using w by (auto simp: whenE_Inr returns_simps split: if_splits)
    obtain n where n: "counts (rv_strings (rd_view R r) (ea_rate_key a)) n" "current = n + 1"
        "rd_view R r2 = view_set (ea_rate_key a) (int_text (n + 1)) (rd_view R r)"
      using answersD(2) [OF redis_keys_okD(4) [OF keys] c] v1 by auto
    have v3: "rd_view R r3 = view_set (ea_rate_key a) (int_text (n + 1)) (rd_view R r)"
      using e n(3) pos expire by (auto split: if_splits)
    show thesis
    proof (cases "ea_submission_limit a < current")
      case True
      with rest obtain ttl where t: "rd_ttl R (ea_rate_key a) r3 = (Inr ttl, r')"
        "raw = script_reply [''RATE_LIMITED'', int_text ttl, []]"
        by (auto simp: returns_simps)
      have "int64 ttl" "rd_view R r' = rd_view R r3"
        using answersD(2) [OF redis_keys_okD(6) [OF keys] t(1)] by simp_all
      with True n t v1 v3 None show thesis by (intro limited) auto
    next
      case False
      with rest obtain i r4 x5 r5 x6 r6 x7 where
        a4: "rd_xadd R (ea_stream a) (ea_max_stream_length a) (script_entry a) r3 = (Inr i, r4)" and
        a5: "rd_hset R (ea_status_key a) (script_status a i) r4 = (Inr x5, r5)" and
        a6: "rd_expire R (ea_status_key a) (ea_status_ttl a) r5 = (Inr x6, r6)" and
        a7: "rd_set_ex R (ea_dedup_key a) (ea_job_id a) (ea_dedup_cooldown a) r6 = (Inr x7, r')" and
        raw: "raw = script_reply [''QUEUED'', ea_job_id a, i]"
        by (auto simp: script_append_def returns_simps)
      have "append_effect (ea_stream a) (ea_max_stream_length a) (script_entry a)
         (view_set (ea_rate_key a) (int_text (n + 1)) (rd_view R r)) i (rd_view R r4)"
        using answersD(2) [OF redis_streams_okD(1) [OF streams] a4] unfolding v3 .
      moreover have "rd_view R r' = view_set (ea_dedup_key a) (ea_job_id a)
         (view_hset (ea_status_key a) (script_status a i) (rd_view R r4))"
        using answersD(2) [OF redis_keys_okD(7) [OF keys] a5] expire [OF a6 pos(2)]
          answersD(2) [OF redis_keys_okD(3) [OF keys] a7] by simp
      ultimately show thesis using False n v1 None raw by (intro queued) auto
    qed
  qed
qed

text \<open>The snapshot of a freshly queued job, and requests the hash can represent.\<close>

definition queued_snapshot :: "MaintenanceJobRequest \<Rightarrow> str \<Rightarrow> instant \<Rightarrow> str \<Rightarrow> MaintenanceJobSnapshot" where
  "queued_snapshot q job_id submitted_at stream_id =
     \<lparr> js_job_id = job_id, js_kind = jr_kind q, js_status = JOB_QUEUED, js_requested_by = jr_requested_by q,
       js_source_id = jr_source_id q, js_limit = jr_limit q, js_force = jr_force q, js_attempts = 0,
       js_submitted_at = submitted_at, js_started_at = None, js_finished_at = None,
       js_stream_id = Some stream_id, js_deduplicated = False, js_error_summary = None, js_result = None \<rparr>"

definition request_ok :: "MaintenanceJobRequest \<Rightarrow> bool" where
  "request_ok q \<longleftrightarrow> jr_requested_by q \<noteq> [] \<and> jr_source_id q \<noteq> [] \<and> int64 (jr_limit q)"

lemma ascii_names:
  "ascii ''job_id''" "ascii ''kind''" "ascii ''status''" "ascii ''requested_by''" "ascii ''source_id''"
  "ascii ''limit''" "ascii ''force''" "ascii ''attempts''" "ascii ''submitted_at''" "ascii ''stream_id''"
  "ascii ''result_json''" "ascii ''error_summary''" "ascii ''QUEUED''" "ascii ''0''" "ascii []"
  by (simp_all add: ascii_def)

lemma entry_id_facts:
  assumes "entry_id_text i"
  shows "ascii i" "i \<noteq> []" "strip i = i"
proof -
  have c: "(of_char c :: nat) < 128 \<and> \<not> is_space c" if "c \<in> set i" for c
    using assms that unfolding entry_id_text_def
    by (auto simp: is_digit_def is_space_def Let_def)
  then show "ascii i" by (simp add: ascii_def)
  show "i \<noteq> []" using assms by (simp add: entry_id_text_def)
  then show "strip i = i" using c by (intro strip_id) simp
qed

lemma py_int_zero: "py_int ''0'' = Some 0"
  by code_simp

definition queued_fields :: "codecs \<Rightarrow> MaintenanceJobRequest \<Rightarrow> str \<Rightarrow> instant \<Rightarrow> str \<Rightarrow> (str \<times> field_value) list" where
  "queued_fields X q job_id t i =
    [(''job_id'', TextValue job_id), (''kind'', TextValue (job_kind_value (jr_kind q))),
     (''status'', TextValue ''QUEUED''), (''requested_by'', TextValue (jr_requested_by q)),
     (''source_id'', TextValue (jr_source_id q)), (''limit'', TextValue (int_text (jr_limit q))),
     (''force'', TextValue (force_flag (jr_force q))), (''attempts'', TextValue ''0''),
     (''submitted_at'', TextValue (cx_isoformat X t)), (''stream_id'', TextValue i),
     (''result_json'', TextValue []), (''error_summary'', TextValue [])]"

lemma script_status_sent:
  assumes X: "codecs_ok (qe_codecs E)" and i: "entry_id_text i"
  shows "script_status (enqueue_args_of E q job_id t) i =
    sent_mapping (qe_codecs E) (queued_fields (qe_codecs E) q job_id t i)"
  using entry_id_facts [OF i]
  by (simp add: script_status_def enqueue_args_of_def Let_def queued_fields_def sent_mapping_def
      encode_int_text [OF X] codecs_ok_simps(2) [OF X] ascii_names)

definition entry_fields :: "codecs \<Rightarrow> MaintenanceJobRequest \<Rightarrow> str \<Rightarrow> instant \<Rightarrow> (str \<times> field_value) list" where
  "entry_fields X q job_id t =
    [(''job_id'', TextValue job_id), (''kind'', TextValue (job_kind_value (jr_kind q))),
     (''requested_by'', TextValue (jr_requested_by q)), (''source_id'', TextValue (jr_source_id q)),
     (''limit'', TextValue (int_text (jr_limit q))), (''force'', TextValue (force_flag (jr_force q))),
     (''submitted_at'', TextValue (cx_isoformat X t))]"

lemma script_entry_sent:
  assumes X: "codecs_ok (qe_codecs E)"
  shows "script_entry (enqueue_args_of E q job_id t) =
    sent_mapping (qe_codecs E) (entry_fields (qe_codecs E) q job_id t)"
  by (simp add: script_entry_def enqueue_args_of_def Let_def entry_fields_def sent_mapping_def
      encode_int_text [OF X] codecs_ok_simps(2) [OF X] ascii_names)

lemma queued_job_hash:
  assumes X: "codecs_ok (qe_codecs E)" and q: "request_ok q" and j: "job_id \<noteq> []" and i: "entry_id_text i"
  shows "job_hash (qe_codecs E)
    (hash_put (script_status (enqueue_args_of E q job_id t) i) Map.empty) (queued_snapshot q job_id t i)"
proof -
  let ?X = "qe_codecs E"
  have "snapshot_of ?X (put_fields ?X (queued_fields ?X q job_id t i) (text_at ?X Map.empty)) =
      Inr (queued_snapshot q job_id t i)"
    using q j entry_id_facts [OF i] codecs_ok_simps(3,5,6) [OF X] int64_short [of "jr_limit q"]
    unfolding snapshot_of_iff
    by (simp add: queued_fields_def put_fields_def decode_encode [OF X] queued_snapshot_def field_reads request_ok_def
        py_int_int_text py_int_zero optional_datetime_def nonblank_def text_at_def result_of_def
        force_flag_def Let_def)
  moreover have "\<forall>(n, v)\<in>set (queued_fields ?X q job_id t i). sendable ?X v" by (simp add: queued_fields_def)
  moreover have "text_hash ?X Map.empty" by (simp add: text_hash_def)
  ultimately show ?thesis unfolding script_status_sent [OF X i] by (intro job_hash_mutation [OF X]) simp_all
qed

lemma call_answered:
  assumes "call R m r = (Inr a, r')" and "no_expiry R"
  obtains r0 where "rd_view R r0 = rd_view R r" "m r0 = (Inr a, r')"
  using assms(1) unfolding call_def
proof (cases rule: exchange_cases)
  case (answered r1 b)
  with assms(2) have "rd_view R r1 = rd_view R r" unfolding no_expiry_def by (metis snd_conv)
  with answered that show thesis by simp
qed auto

lemma except_redis_cases:
  assumes "except_redis msg (call R m) r = (x, r')"
  shows "(\<exists>a. x = Inr a \<and> call R m r = (Inr a, r')) \<or>
    x = Inl (MaintenanceQueueUnavailableError msg) \<and> \<not> (link_up R \<and> (\<exists>a r1. m r = (Inr a, r1)))"
  using assms unfolding except_redis_def call_def try_catch_def exchange_def link_up_def
  by (auto simp: raise_def split: prod.splits sum.splits link.splits)

text \<open>The server answers the reads of status hashes.\<close>

definition hashes_readable :: "'r redis \<Rightarrow> bool" where
  "hashes_readable R \<longleftrightarrow> (\<forall>k r. \<exists>a r'. rd_hgetall R k r = (Inr a, r'))"

lemma script_reply_encoded:
  assumes X: "codecs_ok X"
  shows "decode_enqueue_result X (script_reply [cx_encode X st, cx_encode X v, cx_encode X i]) =
    Inr \<lparr> es_state = st, es_value = v, es_stream_id = i \<rparr>"
  by (simp add: decode_enqueue_result_def response_sequence_def response_text_def script_reply_def
      decode_encode [OF X])

lemma script_reply_decoded:
  assumes X: "codecs_ok X" and st: "ascii st" and i: "ascii i"
  shows "decode_enqueue_result X (script_reply [st, cx_encode X v, i]) =
    Inr \<lparr> es_state = st, es_value = v, es_stream_id = i \<rparr>"
  using script_reply_encoded [OF X, of st v i] codecs_ok_simps(2) [OF X st] codecs_ok_simps(2) [OF X i]
  by simp

lemma get_job_outcome:
  assumes ok: "queue_ok E" and calm: "no_expiry (qe_redis E)"
    and job: "job_hash (qe_codecs E) (status_hash E (view_of E r) j) s"
    and run: "get_job E j r = (x, r')"
  shows "x = Inr (Some s) \<and> view_of E r' = view_of E r \<or>
    (\<exists>m. x = Inl (MaintenanceQueueUnavailableError m)) \<and> \<not> (link_up (qe_redis E) \<and> hashes_readable (qe_redis E))"
proof -
  obtain y r1 where y: "except_redis ''Redis maintenance status lookup failed''
      (call (qe_redis E) (rd_hgetall (qe_redis E) (status_key (qe_config E) j))) r = (y, r1)"
    by (rule prod.exhaust)
  show ?thesis
    using except_redis_cases [OF y]
  proof (elim disjE exE conjE)
    fix raw assume a: "y = Inr raw"
      and c: "call (qe_redis E) (rd_hgetall (qe_redis E) (status_key (qe_config E) j)) r = (Inr raw, r1)"
    obtain kvs where kvs: "distinct (map fst kvs)" "map_of kvs = status_hash E (view_of E r) j"
        "raw = items_response kvs" and v: "view_of E r1 = view_of E r"
      using call_returns [OF c calm redis_keys_okD(8) [OF queue_okD(2) [OF ok]]] by blast
    have "decode_job_snapshot (qe_codecs E) raw = Inr (Some s)"
      using decode_job_hash [OF queue_okD(4) [OF ok] job kvs(2,1)] kvs(3) by simp
    with run y a v show ?thesis by (simp add: get_job_def bind_def decoded_def)
  qed (use run y in \<open>auto simp: get_job_def bind_def hashes_readable_def\<close>)
qed

text \<open>The mark of a recent submission names a job whose status is still there.\<close>

definition marks_ok :: "'r queue_env \<Rightarrow> redis_view \<Rightarrow> MaintenanceJobRequest \<Rightarrow> bool" where
  "marks_ok E v q \<longleftrightarrow> (\<forall>b. rv_strings v (dedup_key E q) = Some b \<longrightarrow>
     (\<exists>j s. b = cx_encode (qe_codecs E) j \<and> job_hash (qe_codecs E) (status_hash E v j) s))"

lemma enqueue_returns:
  assumes ok: "queue_ok E" and calm: "no_expiry (qe_redis E)" and q: "request_ok q" and j: "job_id \<noteq> []"
    and fresh: "status_hash E (view_of E r) job_id = Map.empty" and marks: "marks_ok E (view_of E r) q"
    and run: "enqueue E job_id t q r = (x, r')"
  shows "(\<exists>j s. rv_strings (view_of E r) (dedup_key E q) = Some (cx_encode (qe_codecs E) j) \<and>
       job_hash (qe_codecs E) (status_hash E (view_of E r) j) s \<and>
       view_of E r' = view_of E r \<and> x = Inr (s\<lparr>js_deduplicated := True\<rparr>)) \<or>
    (\<exists>n k. rv_strings (view_of E r) (dedup_key E q) = None \<and>
       counts (rv_strings (view_of E r) (rate_key E q)) n \<and> qf_submission_limit (qe_config E) < n + 1 \<and>
       view_of E r' = view_set (rate_key E q) (int_text (n + 1)) (view_of E r) \<and>
       1 \<le> k \<and> x = Inl (MaintenanceSubmissionRateLimitError k)) \<or>
    (\<exists>n i v. rv_strings (view_of E r) (dedup_key E q) = None \<and>
       counts (rv_strings (view_of E r) (rate_key E q)) n \<and> n + 1 \<le> qf_submission_limit (qe_config E) \<and>
       append_effect (qf_stream_name (qe_config E)) (qf_max_stream_length (qe_config E))
         (script_entry (enqueue_args_of E q job_id t))
         (view_set (rate_key E q) (int_text (n + 1)) (view_of E r)) i v \<and>
       view_of E r' = view_set (dedup_key E q) (cx_encode (qe_codecs E) job_id)
         (view_hset (status_key (qe_config E) job_id) (script_status (enqueue_args_of E q job_id t) i) v) \<and>
       x = Inr (queued_snapshot q job_id t i)) \<or>
    (\<exists>m. x = Inl (MaintenanceQueueUnavailableError m)) \<and>
      \<not> (link_up (qe_redis E) \<and> hashes_readable (qe_redis E) \<and>
         (\<exists>a r1. enqueue_script (qe_redis E) (enqueue_args_of E q job_id t) r = (Inr a, r1)))"
  (is "?dup \<or> ?limited \<or> ?queued \<or> ?unavailable")
proof -
  let ?X = "qe_codecs E" and ?R = "qe_redis E" and ?a = "enqueue_args_of E q job_id t"
  have X: "codecs_ok ?X" and R: "redis_ok ?R" by (rule queue_okD [OF ok])+
  have args: "ea_dedup_key ?a = dedup_key E q" "ea_rate_key ?a = rate_key E q"
    "ea_status_key ?a = status_key (qe_config E) job_id" "ea_job_id ?a = cx_encode ?X job_id"
    "ea_stream ?a = qf_stream_name (qe_config E)" "ea_window ?a = qf_submission_window_seconds (qe_config E)"
    "ea_submission_limit ?a = qf_submission_limit (qe_config E)"
    "ea_max_stream_length ?a = qf_max_stream_length (qe_config E)"
    "ea_status_ttl ?a = qf_status_ttl_seconds (qe_config E)"
    by (simp_all add: enqueue_args_of_def Let_def)
  obtain y r1 where y: "except_redis ''Redis maintenance enqueue failed'' (call ?R (enqueue_script ?R ?a)) r = (y, r1)"
    by (rule prod.exhaust)
  show ?thesis
    using except_redis_cases [OF y]
  proof (elim disjE exE conjE)
    fix raw assume Inr: "y = Inr raw" and c: "call ?R (enqueue_script ?R ?a) r = (Inr raw, r1)"
    obtain r0 where v0: "rd_view ?R r0 = view_of E r" and s0: "enqueue_script ?R ?a r0 = (Inr raw, r1)"
      using call_answered [OF c calm] .
    have out: "bind (decoded (decode_enqueue_result ?X raw)) (enqueue_outcome E) r1 = (x, r')"
      using run y Inr by (simp add: enqueue_def bind_def)
    have pos: "0 < ea_window ?a" "0 < ea_status_ttl ?a"
      using queue_okD(5,6) [OF ok] by (simp_all add: args)
    show ?thesis
      using R pos s0
    proof (cases rule: enqueue_script_returns)
      case (duplicate b)
      then obtain j s where b: "b = cx_encode ?X j" and js: "job_hash ?X (status_hash E (view_of E r) j) s"
        using marks v0 by (auto simp: marks_ok_def args)
      obtain z r2 where z: "get_job E j r1 = (z, r2)" by (rule prod.exhaust)
      have "job_hash ?X (status_hash E (view_of E r1) j) s" using js duplicate(3) v0 by simp
      from get_job_outcome [OF ok calm this z]
      have "z = Inr (Some s) \<and> view_of E r2 = view_of E r1 \<or>
        (\<exists>m. z = Inl (MaintenanceQueueUnavailableError m)) \<and> \<not> (link_up ?R \<and> hashes_readable ?R)" .
      moreover have "decode_enqueue_result ?X raw = Inr \<lparr> es_state = ''DEDUPLICATED'', es_value = j, es_stream_id = [] \<rparr>"
        using duplicate(2) b by (simp add: script_reply_decoded [OF X] ascii_def)
      ultimately have "x = Inr (s\<lparr>js_deduplicated := True\<rparr>) \<and> view_of E r' = view_of E r1 \<or> ?unavailable"
        using out z by (auto simp: bind_def decoded_def enqueue_outcome_def ret_def raise_def)
      with js b duplicate(1,3) v0 show ?thesis unfolding args by metis
    next
      case (limited n ttl)
      have "decode_enqueue_result ?X raw = Inr \<lparr> es_state = ''RATE_LIMITED'', es_value = int_text ttl, es_stream_id = [] \<rparr>"
        using limited(5) script_reply_decoded [OF X, of "''RATE_LIMITED''" "[]" "int_text ttl"]
        by (simp add: ascii_def encode_int_text [OF X])
      with out limited(4) have "x = Inl (MaintenanceSubmissionRateLimitError (max 1 ttl)) \<and> r' = r1"
        by (auto simp: bind_def decoded_def enqueue_outcome_def response_integer_def response_text_def
            text_integer_def py_int_int_text int64_short raise_def)
      with limited v0 have ?limited unfolding args by (intro exI [of _ n] exI [of _ "max 1 ttl"]) simp
      then show ?thesis by blast
    next
      case (queued n i v)
      have i: "entry_id_text i" using queued(4) by (auto simp: append_effect_def)
      obtain z r2 where z: "get_job E job_id r1 = (z, r2)" by (rule prod.exhaust)
      have "rv_hashes v = rv_hashes (view_of E r)"
        using append_effect_frame [OF queued(4)] v0 by (simp add: view_set_def)
      then have "job_hash ?X (status_hash E (view_of E r1) job_id) (queued_snapshot q job_id t i)"
        using queued_job_hash [OF X q j i] fresh unfolding queued(6) args by (simp add: view_set_def view_hset_def)
      from get_job_outcome [OF ok calm this z]
      have "z = Inr (Some (queued_snapshot q job_id t i)) \<and> view_of E r2 = view_of E r1 \<or>
        (\<exists>m. z = Inl (MaintenanceQueueUnavailableError m)) \<and> \<not> (link_up ?R \<and> hashes_readable ?R)" .
      moreover have "decode_enqueue_result ?X raw = Inr \<lparr> es_state = ''QUEUED'', es_value = job_id, es_stream_id = i \<rparr>"
        using queued(5) entry_id_facts [OF i] by (simp add: script_reply_decoded [OF X] ascii_names args)
      ultimately have "x = Inr (queued_snapshot q job_id t i) \<and> view_of E r' = view_of E r1 \<or> ?unavailable"
        using out z by (auto simp: bind_def decoded_def enqueue_outcome_def ret_def raise_def queued_snapshot_def)
      with queued v0 show ?thesis unfolding args by metis
    qed
  next
    assume "y = Inl (MaintenanceQueueUnavailableError ''Redis maintenance enqueue failed'')"
      and "\<not> (link_up ?R \<and> (\<exists>a r1. enqueue_script ?R ?a r = (Inr a, r1)))"
    with run y have ?unavailable by (auto simp: enqueue_def bind_def)
    then show ?thesis by blast
  qed
qed

end
