(* ===== verification/Batch_Notes.thy ===== *)
theory Batch_Notes
  imports Prelude
begin

text \<open>
  Bounded batch note operations: the contracts of \<open>obsidian_batch_contracts.py\<close> and
  \<open>ObsidianBatchNoteService\<close> (\<open>obsidian_batch_note_service.py\<close>). Reading, writing and link
  validation of one note belong to other services and are a parameter over an arbitrary vault
  state. Exceptions keep the distinction the handlers make: \<open>ObsidianNotFoundError\<close>,
  \<open>ObsidianValidationError\<close> and the other Obsidian errors are runtime errors, a
  \<open>BatchValidationError\<close> is a \<open>ValueError\<close>. The text that Python's own \<open>dict()\<close> puts into its
  errors is left out.
\<close>

section \<open>Contracts\<close>

datatype note_exn =
  ObsidianNotFoundError str
| ObsidianValidationError str
| ObsidianWriteConflictError str "str option"
| OtherObsidianError str str
| NoteValueError str
| BatchValidationError str
| OtherNoteError str str

fun is_value_error :: "note_exn \<Rightarrow> bool" where
  "is_value_error (NoteValueError _) = True"
| "is_value_error (BatchValidationError _) = True"
| "is_value_error _ = False"

fun note_exn_text :: "note_exn \<Rightarrow> str" where
  "note_exn_text (ObsidianNotFoundError m) = m"
| "note_exn_text (ObsidianValidationError m) = m"
| "note_exn_text (ObsidianWriteConflictError m _) = m"
| "note_exn_text (OtherObsidianError _ m) = m"
| "note_exn_text (NoteValueError m) = m"
| "note_exn_text (BatchValidationError m) = m"
| "note_exn_text (OtherNoteError _ m) = m"

record BatchReadSelector =
  bs_path :: "str option"
  bs_note_id :: "str option"

text \<open>The constructor with its \<open>__post_init__\<close> check.\<close>

definition batch_read_selector :: "str option \<Rightarrow> str option \<Rightarrow> note_exn + BatchReadSelector" where
  "batch_read_selector path note_id =
     (if (path = None) = (note_id = None)
      then Inl (BatchValidationError ''BATCH_SELECTOR_INVALID: exactly one of path or note_id is required'')
      else Inr \<lparr> bs_path = path, bs_note_id = note_id \<rparr>)"

record BatchWriteOperation =
  bo_op :: str
  bo_title :: str
  bo_body :: str
  bo_relative_path :: str
  bo_note_id :: "str option"
  bo_expected_content_hash :: "str option"
  bo_frontmatter :: "(json \<times> json) list"

definition payload_str :: "json_object \<Rightarrow> str \<Rightarrow> note_exn + str" where
  "payload_str raw key = (case json_get key raw of
       JStr (c # cs) \<Rightarrow> Inr (c # cs)
     | _ \<Rightarrow> Inl (BatchValidationError (''BATCH_OPERATION_INVALID: '' @ key @ '' must be non-empty text'')))"

definition payload_optional_str :: "json_object \<Rightarrow> str \<Rightarrow> note_exn + str option" where
  "payload_optional_str raw key = (case json_get key raw of
       JNull \<Rightarrow> Inr None
     | JStr s \<Rightarrow> Inr (Some s)
     | _ \<Rightarrow> Inl (BatchValidationError (''BATCH_OPERATION_INVALID: '' @ key @ '' must be text when present'')))"

text \<open>
  \<open>dict(value or {})\<close> on a JSON value: falsy values give the empty dictionary, an object its
  entries, and a list whose elements are pairs the dictionary of those pairs, where a pair is any
  iterable of length two with a hashable first element. Everything else raises.
\<close>

fun falsy :: "json \<Rightarrow> bool" where
  "falsy JNull = True"
| "falsy (JBool b) = (\<not> b)"
| "falsy (JInt i) = (i = 0)"
| "falsy (JFloat q) = (q = 0)"
| "falsy (JStr s) = (s = [])"
| "falsy (JTime _) = False"
| "falsy (JList js) = (js = [])"
| "falsy (JObj d) = (d = [])"

fun elements :: "json \<Rightarrow> json list option" where
  "elements (JList js) = Some js"
| "elements (JStr s) = Some (map (\<lambda>c. JStr [c]) s)"
| "elements (JObj d) = Some (map (\<lambda>kv. JStr (fst kv)) d)"
| "elements _ = None"

fun hashable :: "json \<Rightarrow> bool" where
  "hashable (JList _) = False"
| "hashable (JObj _) = False"
| "hashable _ = True"

fun dict_of_pairs :: "json list \<Rightarrow> (json \<times> json) list \<Rightarrow> (json \<times> json) list option" where
  "dict_of_pairs [] d = Some d"
| "dict_of_pairs (j # js) d = (case elements j of
       Some [k, v] \<Rightarrow> if hashable k then dict_of_pairs js (dict_set k v d) else None
     | _ \<Rightarrow> None)"

definition dict_of_json :: "json \<Rightarrow> (json \<times> json) list option" where
  "dict_of_json j = (if falsy j then Some [] else case j of
       JObj d \<Rightarrow> Some (map (\<lambda>(k, v). (JStr k, v)) d)
     | _ \<Rightarrow> (case elements j of Some js \<Rightarrow> dict_of_pairs js [] | None \<Rightarrow> None))"

definition from_payload :: "json \<Rightarrow> note_exn + BatchWriteOperation" where
  "from_payload raw = (case raw of
       JObj d \<Rightarrow>
         and_then (payload_str d ''op'') (\<lambda>operation.
         and_then (payload_str d ''title'') (\<lambda>title.
         and_then (payload_str d ''body'') (\<lambda>body.
         and_then (payload_str d ''relative_path'') (\<lambda>relative_path.
         and_then (payload_optional_str d ''note_id'') (\<lambda>note_id.
         and_then (payload_optional_str d ''expected_content_hash'') (\<lambda>expected.
         case dict_of_json (json_get ''frontmatter'' d) of
           None \<Rightarrow> Inl (BatchValidationError ''BATCH_OPERATION_INVALID: '')
         | Some frontmatter \<Rightarrow> Inr \<lparr> bo_op = operation, bo_title = title, bo_body = body,
             bo_relative_path = relative_path, bo_note_id = note_id,
             bo_expected_content_hash = expected, bo_frontmatter = frontmatter \<rparr>))))))
     | _ \<Rightarrow> Inl (BatchValidationError ''BATCH_OPERATION_INVALID: each operation must be an object''))"

definition command_parts :: "BatchWriteOperation \<Rightarrow> str \<times> str \<times> str \<times> str \<times> str option \<times> str option" where
  "command_parts x = (bo_op x, bo_title x, bo_body x, bo_relative_path x, bo_note_id x,
     bo_expected_content_hash x)"

record 'n BatchReadItemResult =
  ri_path :: "str option"
  ri_note_id :: "str option"
  ri_status :: str
  ri_note :: "'n option"
  ri_parse_error :: "str option"

record BatchValidateItemResult =
  vi_path :: "str option"
  vi_note_id :: "str option"
  vi_status :: str
  vi_exists :: bool
  vi_parsed_count :: int
  vi_resolved_count :: int
  vi_unresolved_count :: int
  vi_error :: "str option"

record BatchWriteItemResult =
  wi_path :: str
  wi_note_id :: "str option"
  wi_status :: str
  wi_content_hash :: "str option"
  wi_current_content_hash :: "str option"
  wi_error :: "str option"

definition count_status :: "str list \<Rightarrow> BatchWriteItemResult list \<Rightarrow> int" where
  "count_status names items = int (length (filter (\<lambda>i. wi_status i \<in> set names) items))"

definition batch_succeeded :: "BatchWriteItemResult list \<Rightarrow> int" where
  "batch_succeeded items = count_status [''updated'', ''created''] items"

definition batch_conflicted :: "BatchWriteItemResult list \<Rightarrow> int" where
  "batch_conflicted items = count_status [''conflict''] items"

definition batch_failed :: "BatchWriteItemResult list \<Rightarrow> int" where
  "batch_failed items = count_status [''invalid'', ''not_found'', ''error''] items"

section \<open>Commands and the note services\<close>

datatype AlexandriaNoteType =
  NOTE_CONTEXT | NOTE_MEMORY_COMPACT | NOTE_SKILL | NOTE_PROMPT | NOTE_JOB_PLAN
| NOTE_IMPLEMENTATION_HISTORY

datatype ObsidianWriteMode = WRITE_CREATE | WRITE_UPDATE | WRITE_UPSERT

datatype ObsidianWriteMatchBy = MATCH_NOTE_ID | MATCH_PATH

datatype ObsidianFrontmatterMode = FRONTMATTER_MERGE | FRONTMATTER_REPLACE_USER_FIELDS

datatype ObsidianWriteOperation = OP_CREATED | OP_UPDATED | OP_UNCHANGED

fun write_operation_value :: "ObsidianWriteOperation \<Rightarrow> str" where
  "write_operation_value OP_CREATED = ''created''"
| "write_operation_value OP_UPDATED = ''updated''"
| "write_operation_value OP_UNCHANGED = ''unchanged''"

record ObsidianSaveNote =
  sn_title :: str
  sn_body :: str
  sn_alexandria_type :: AlexandriaNoteType
  sn_note_id :: "str option"
  sn_relative_path :: "str option"
  sn_tags :: "str list"
  sn_status :: str
  sn_project :: "str option"
  sn_source :: str
  sn_frontmatter :: "(json \<times> json) list"
  sn_expected_content_hash :: "str option"

record ObsidianWriteNote =
  wn_note :: ObsidianSaveNote
  wn_write_mode :: ObsidianWriteMode
  wn_match_by :: ObsidianWriteMatchBy
  wn_frontmatter_mode :: ObsidianFrontmatterMode
  wn_provided_fields :: "str set option"

text \<open>What the service reads of a write result and of a link report.\<close>

record write_outcome =
  wo_operation :: ObsidianWriteOperation
  wo_content_hash :: str

record link_report =
  lr_relative_path :: "str option"
  lr_exists :: bool
  lr_parsed_count :: int
  lr_resolved_count :: int
  lr_unresolved_count :: int

record ('v, 'n) note_port =
  np_read_note :: "str \<Rightarrow> ('v, note_exn, 'n) prog"
  np_read_note_by_path :: "str \<Rightarrow> ('v, note_exn, 'n) prog"
  np_validate_note_links :: "str option \<Rightarrow> str option \<Rightarrow> ('v, note_exn, link_report) prog"
  np_write_note :: "ObsidianWriteNote \<Rightarrow> ('v, note_exn, write_outcome) prog"

section \<open>The service\<close>

definition too_many :: "int \<Rightarrow> int \<Rightarrow> note_exn" where
  "too_many actual maximum = BatchValidationError (''BATCH_SIZE_EXCEEDED: '' @ int_text actual @
     '' operations exceeds the '' @ int_text maximum @ '' limit'')"

fun each :: "('a \<Rightarrow> ('v, 'e, 'b) prog) \<Rightarrow> 'a list \<Rightarrow> ('v, 'e, 'b list) prog" where
  "each f [] = ret []"
| "each f (x # xs) = bind (f x) (\<lambda>y. bind (each f xs) (\<lambda>ys. ret (y # ys)))"

definition read_item :: "BatchReadSelector \<Rightarrow> str \<Rightarrow> 'n option \<Rightarrow> str option \<Rightarrow> 'n BatchReadItemResult" where
  "read_item selector st note parse_error = \<lparr> ri_path = bs_path selector,
     ri_note_id = bs_note_id selector, ri_status = st, ri_note = note, ri_parse_error = parse_error \<rparr>"

definition read_one :: "('v, 'n) note_port \<Rightarrow> BatchReadSelector \<Rightarrow> ('v, note_exn, 'n BatchReadItemResult) prog" where
  "read_one N selector =
     try_catch
       (bind (case bs_note_id selector of
            Some note_id \<Rightarrow> np_read_note N note_id
          | None \<Rightarrow> np_read_note_by_path N (case bs_path selector of None \<Rightarrow> [] | Some p \<Rightarrow> p)) (\<lambda>note.
        ret (read_item selector ''success'' (Some note) None)))
       (\<lambda>exc. case exc of
            ObsidianNotFoundError _ \<Rightarrow> ret (read_item selector ''not_found'' None None)
          | ObsidianValidationError m \<Rightarrow> ret (read_item selector ''parse_error'' None (Some m))
          | _ \<Rightarrow> if is_value_error exc
                 then ret (read_item selector ''parse_error'' None (Some (note_exn_text exc)))
                 else raise exc)"

definition refused_validation :: "BatchReadSelector \<Rightarrow> str \<Rightarrow> str option \<Rightarrow> BatchValidateItemResult" where
  "refused_validation selector st error = \<lparr> vi_path = bs_path selector, vi_note_id = bs_note_id selector,
     vi_status = st, vi_exists = False, vi_parsed_count = 0, vi_resolved_count = 0,
     vi_unresolved_count = 0, vi_error = error \<rparr>"

text \<open>\<open>selector.path or report.note.relative_path\<close>: an empty path is falsy.\<close>

definition validated_item :: "BatchReadSelector \<Rightarrow> link_report \<Rightarrow> BatchValidateItemResult" where
  "validated_item selector report =
     \<lparr> vi_path = (case bs_path selector of Some (c # cs) \<Rightarrow> Some (c # cs) | _ \<Rightarrow> lr_relative_path report),
       vi_note_id = bs_note_id selector,
       vi_status = (if lr_exists report then ''validated'' else ''not_found''),
       vi_exists = lr_exists report, vi_parsed_count = lr_parsed_count report,
       vi_resolved_count = lr_resolved_count report, vi_unresolved_count = lr_unresolved_count report,
       vi_error = None \<rparr>"

definition validate_one :: "('v, 'n) note_port \<Rightarrow> BatchReadSelector \<Rightarrow> ('v, note_exn, BatchValidateItemResult) prog" where
  "validate_one N selector =
     try_catch
       (bind (np_validate_note_links N (bs_note_id selector) (bs_path selector)) (\<lambda>report.
        ret (validated_item selector report)))
       (\<lambda>exc. case exc of
            ObsidianNotFoundError _ \<Rightarrow> ret (refused_validation selector ''not_found'' None)
          | ObsidianValidationError m \<Rightarrow> ret (refused_validation selector ''parse_error'' (Some m))
          | _ \<Rightarrow> raise exc)"

definition write_command :: "BatchWriteOperation \<Rightarrow> ObsidianWriteNote" where
  "write_command x =
     \<lparr> wn_note = \<lparr> sn_title = bo_title x, sn_body = bo_body x, sn_alexandria_type = NOTE_CONTEXT,
         sn_note_id = bo_note_id x, sn_relative_path = Some (bo_relative_path x), sn_tags = [],
         sn_status = ''active'', sn_project = None, sn_source = ''mcp'',
         sn_frontmatter = bo_frontmatter x, sn_expected_content_hash = bo_expected_content_hash x \<rparr>,
       wn_write_mode = WRITE_UPSERT, wn_match_by = MATCH_PATH,
       wn_frontmatter_mode = FRONTMATTER_MERGE, wn_provided_fields = None \<rparr>"

definition write_item :: "BatchWriteOperation \<Rightarrow> str \<Rightarrow> str option \<Rightarrow> str option \<Rightarrow> BatchWriteItemResult" where
  "write_item x st content_hash current = \<lparr> wi_path = bo_relative_path x, wi_note_id = bo_note_id x,
     wi_status = st, wi_content_hash = content_hash, wi_current_content_hash = current,
     wi_error = None \<rparr>"

definition write_one :: "('v, 'n) note_port \<Rightarrow> BatchWriteOperation \<Rightarrow> ('v, note_exn, BatchWriteItemResult) prog" where
  "write_one N x =
     try_catch
       (bind (np_write_note N (write_command x)) (\<lambda>result.
        let value = write_operation_value (wo_operation result) in
        if value = ''UNCHANGED''
        then ret (write_item x ''unchanged'' (Some (wo_content_hash result)) None)
        else ret (write_item x (lower value) (Some (wo_content_hash result)) None)))
       (\<lambda>exc. case exc of
            ObsidianWriteConflictError _ current \<Rightarrow> ret (write_item x ''conflict'' None current)
          | ObsidianNotFoundError _ \<Rightarrow> ret (write_item x ''not_found'' None None)
          | _ \<Rightarrow> if is_value_error exc then ret (write_item x ''invalid'' None None) else raise exc)"

definition bounded :: "int \<Rightarrow> ('a \<Rightarrow> ('v, note_exn, 'b) prog) \<Rightarrow> 'a list \<Rightarrow> ('v, note_exn, 'b list) prog" where
  "bounded max_operations f xs =
     (if int (length xs) > max_operations then raise (too_many (int (length xs)) max_operations)
      else each f xs)"

definition batch_read ::
  "('v, 'n) note_port \<Rightarrow> int \<Rightarrow> BatchReadSelector list \<Rightarrow> ('v, note_exn, 'n BatchReadItemResult list) prog" where
  "batch_read N max_operations selectors = bounded max_operations (read_one N) selectors"

definition batch_validate_links ::
  "('v, 'n) note_port \<Rightarrow> int \<Rightarrow> BatchReadSelector list \<Rightarrow> ('v, note_exn, BatchValidateItemResult list) prog" where
  "batch_validate_links N max_operations selectors = bounded max_operations (validate_one N) selectors"

definition batch_write ::
  "('v, 'n) note_port \<Rightarrow> int \<Rightarrow> BatchWriteOperation list \<Rightarrow> ('v, note_exn, BatchWriteItemResult list) prog" where
  "batch_write N max_operations operations = bounded max_operations (write_one N) operations"

end
