(* ===== verification/Maintenance_Worker.thy ===== *)
theory Maintenance_Worker
  imports Maintenance_Consumer Batch_Notes
begin

text \<open>
  The processes around the queue: the staging table of job payloads
  (\<open>maintenance_job_payload_store.py\<close>, \<open>maintenance_models.py\<close>), the submission of batch note
  writes (\<open>maintenance_batch_note_write_service.py\<close>) and the worker's handling of a delivery
  (\<open>redis_maintenance_worker.py\<close>).

  The world has three parts: the Redis server, the payload table, and the state of the
  application (vault and Context database), on which embedding reindexing and note writing act
  through parameters. \<open>we_db\<close> says whether the database answers the next statement.
\<close>

section \<open>World\<close>

record MaintenanceJobPayloadORM =
  po_payload_id :: str
  po_kind :: str
  po_body :: json_object
  po_created_at :: instant

record ('r, 'v) worker_world =
  ww_redis :: 'r
  ww_payloads :: "MaintenanceJobPayloadORM list"
  ww_app :: 'v

text \<open>What the code of a job raises: a cancellation, or an exception with its type name and text.\<close>

datatype job_exn = JobCancelled | JobRaised str str

record EmbeddingReindexResult =
  rx_scanned :: int
  rx_updated :: int
  rx_skipped :: int
  rx_warnings :: "str list"

record ('r, 'v, 'n) worker_env =
  we_queue :: "'r queue_env"
  we_notes :: "('v, 'n) note_port"
  we_max_operations :: int
  we_batch_limit :: int
  we_reindex_embeddings :: "int \<Rightarrow> bool \<Rightarrow> ('v, job_exn, EmbeddingReindexResult) prog"
  we_db :: "'v \<Rightarrow> job_exn option \<times> 'v"

type_synonym ('r, 'v, 'e, 'a) work = "(('r, 'v) worker_world, 'e, 'a) prog"

definition on_redis :: "('r, 'e, 'a) prog \<Rightarrow> ('r, 'v, 'e, 'a) work" where
  "on_redis m w = (case m (ww_redis w) of (x, r) \<Rightarrow> (x, w\<lparr>ww_redis := r\<rparr>))"

definition on_app :: "('e \<Rightarrow> 'f) \<Rightarrow> ('v, 'e, 'a) prog \<Rightarrow> ('r, 'v, 'f, 'a) work" where
  "on_app h m w = (case m (ww_app w) of
       (Inl e, v) \<Rightarrow> (Inl (h e), w\<lparr>ww_app := v\<rparr>)
     | (Inr x, v) \<Rightarrow> (Inr x, w\<lparr>ww_app := v\<rparr>))"

fun note_exn_name :: "note_exn \<Rightarrow> str" where
  "note_exn_name (ObsidianNotFoundError _) = ''ObsidianNotFoundError''"
| "note_exn_name (ObsidianValidationError _) = ''ObsidianValidationError''"
| "note_exn_name (ObsidianWriteConflictError _ _) = ''ObsidianWriteConflictError''"
| "note_exn_name (OtherObsidianError n _) = n"
| "note_exn_name (NoteValueError _) = ''ValueError''"
| "note_exn_name (BatchValidationError _) = ''BatchValidationError''"
| "note_exn_name (OtherNoteError n _) = n"

definition note_job_exn :: "note_exn \<Rightarrow> job_exn" where
  "note_job_exn e = JobRaised (note_exn_name e) (note_exn_text e)"

section \<open>Payload store\<close>

definition statement :: "('r, 'v, 'n) worker_env \<Rightarrow> ('r, 'v, job_exn, 'a) work \<Rightarrow> ('r, 'v, job_exn, 'a) work" where
  "statement W m w = (case we_db W (ww_app w) of
       (Some e, v) \<Rightarrow> (Inl e, w\<lparr>ww_app := v\<rparr>)
     | (None, v) \<Rightarrow> m (w\<lparr>ww_app := v\<rparr>))"

definition find_payload :: "str \<Rightarrow> MaintenanceJobPayloadORM list \<Rightarrow> MaintenanceJobPayloadORM option" where
  "find_payload payload_id rows = find (\<lambda>row. po_payload_id row = payload_id) rows"

definition save_payload ::
  "('r, 'v, 'n) worker_env \<Rightarrow> instant \<Rightarrow> str \<Rightarrow> str \<Rightarrow> json_object \<Rightarrow> ('r, 'v, job_exn, unit) work" where
  "save_payload W now payload_id kind body = statement W (\<lambda>w.
     if find_payload payload_id (ww_payloads w) \<noteq> None
     then (Inl (JobRaised ''IntegrityError'' payload_id), w)
     else (Inr (), w\<lparr>ww_payloads := ww_payloads w @
            [\<lparr> po_payload_id = payload_id, po_kind = kind, po_body = body, po_created_at = now \<rparr>]\<rparr>))"

definition load_payload :: "('r, 'v, 'n) worker_env \<Rightarrow> str \<Rightarrow> ('r, 'v, job_exn, json_object option) work" where
  "load_payload W payload_id = statement W (gets (\<lambda>w.
     map_option po_body (find_payload payload_id (ww_payloads w))))"

definition delete_payload :: "('r, 'v, 'n) worker_env \<Rightarrow> str \<Rightarrow> ('r, 'v, job_exn, unit) work" where
  "delete_payload W payload_id = statement W (modify (\<lambda>w.
     w\<lparr>ww_payloads := filter (\<lambda>row. po_payload_id row \<noteq> payload_id) (ww_payloads w)\<rparr>))"

section \<open>Submission of batch note writes\<close>

datatype submit_exn = QueueError queue_exn | DatabaseError job_exn

definition raising :: "('e \<Rightarrow> 'f) \<Rightarrow> ('s, 'e, 'a) prog \<Rightarrow> ('s, 'f, 'a) prog" where
  "raising h m s = (case m s of (Inl e, s') \<Rightarrow> (Inl (h e), s') | (Inr x, s') \<Rightarrow> (Inr x, s'))"

definition batch_request :: "json list \<Rightarrow> str \<Rightarrow> str \<Rightarrow> MaintenanceJobRequest" where
  "batch_request operations requested_by batch_id =
     \<lparr> jr_kind = BATCH_NOTE_WRITE, jr_requested_by = requested_by, jr_source_id = batch_id,
       jr_limit = int (length operations), jr_force = False \<rparr>"

definition batch_payload :: "json list \<Rightarrow> str \<Rightarrow> json_object" where
  "batch_payload operations requested_by =
     [(''requested_by'', JStr requested_by), (''operations'', JList operations)]"

text \<open>
  \<open>enabled\<close>: whether a submitter is configured; the two identifiers and the two times are drawn
  by this call (\<open>batch_id\<close>, created) and by the enqueue (\<open>job_id\<close>, submitted).
\<close>

definition submit ::
  "('r, 'v, 'n) worker_env \<Rightarrow> bool \<Rightarrow> str \<Rightarrow> instant \<Rightarrow> str \<Rightarrow> instant \<Rightarrow> json list \<Rightarrow> str \<Rightarrow>
   ('r, 'v, submit_exn, MaintenanceJobSnapshot) work" where
  "submit W enabled batch_id created job_id submitted operations requested_by =
     (if \<not> enabled then
        raise (QueueError (MaintenanceQueueUnavailableError ''Redis maintenance queue is disabled''))
      else if int (length operations) > we_max_operations W then
        raise (QueueError (MaintenanceBatchWritePayloadTooLargeError
          (''ASYNC_BATCH_TOO_LARGE: '' @ int_text (int (length operations)) @
           '' operations exceeds the '' @ int_text (we_max_operations W) @ '' limit'')))
      else
        seq (raising DatabaseError (save_payload W created batch_id (job_kind_value BATCH_NOTE_WRITE)
               (batch_payload operations requested_by)))
       (try_catch
          (raising QueueError (on_redis (enqueue (we_queue W) job_id submitted
             (batch_request operations requested_by batch_id))))
          (\<lambda>exc. case exc of
             QueueError (MaintenanceQueueUnavailableError _) \<Rightarrow>
               seq (raising DatabaseError (delete_payload W batch_id)) (raise exc)
           | QueueError (MaintenanceSubmissionRateLimitError _) \<Rightarrow>
               seq (raising DatabaseError (delete_payload W batch_id)) (raise exc)
           | _ \<Rightarrow> raise exc)))"

section \<open>Executing a job\<close>

definition job_item :: "BatchWriteItemResult \<Rightarrow> BatchNoteWriteJobItem" where
  "job_item item = \<lparr> bi_path = wi_path item, bi_status = wi_status item,
     bi_content_hash = wi_content_hash item, bi_current_content_hash = wi_current_content_hash item \<rparr>"

definition batch_job_result :: "BatchWriteItemResult list \<Rightarrow> BatchNoteWriteJobResult" where
  "batch_job_result items = \<lparr> br_succeeded = batch_succeeded items, br_conflicted = batch_conflicted items,
     br_failed = batch_failed items, br_items = map job_item items \<rparr>"

text \<open>\<open>payload["operations"]\<close>: a missing key raises \<open>KeyError\<close>.\<close>

definition payload_operations :: "json_object \<Rightarrow> job_exn + json list" where
  "payload_operations payload = (case map_of payload ''operations'' of
       None \<Rightarrow> Inl (JobRaised ''KeyError'' ''operations'')
     | Some (JList ops) \<Rightarrow> Inr ops
     | Some _ \<Rightarrow> Inl (JobRaised ''RuntimeError'' ''maintenance job payload operations are invalid''))"

definition parse_operations :: "json list \<Rightarrow> job_exn + BatchWriteOperation list" where
  "parse_operations raw = (case traverse from_payload raw of
       Inl e \<Rightarrow> Inl (note_job_exn e) | Inr ops \<Rightarrow> Inr ops)"

definition checked :: "'e + 'a \<Rightarrow> ('s, 'e, 'a) prog" where
  "checked x s = (x, s)"

definition execute_batch_note_write ::
  "('r, 'v, 'n) worker_env \<Rightarrow> MaintenanceJobDelivery \<Rightarrow> ('r, 'v, job_exn, BatchNoteWriteJobResult) work" where
  "execute_batch_note_write W delivery = (let source_id = js_source_id (dv_job delivery) in
     bind (load_payload W source_id) (\<lambda>payload.
     case payload of
       None \<Rightarrow> raise (JobRaised ''RuntimeError'' (''maintenance job payload is missing: '' @ source_id))
     | Some body \<Rightarrow>
         bind (checked (payload_operations body)) (\<lambda>raw_operations.
         bind (checked (parse_operations raw_operations)) (\<lambda>operations.
         bind (on_app note_job_exn (batch_write (we_notes W) (we_batch_limit W) operations)) (\<lambda>items.
         seq (delete_payload W source_id)
             (ret (batch_job_result items)))))))"

definition execute_job ::
  "('r, 'v, 'n) worker_env \<Rightarrow> MaintenanceJobDelivery \<Rightarrow> ('r, 'v, job_exn, job_result) work" where
  "execute_job W delivery = (case js_kind (dv_job delivery) of
       BATCH_NOTE_WRITE \<Rightarrow>
         bind (execute_batch_note_write W delivery) (\<lambda>r. ret (BatchResult r))
     | EMBEDDING_REINDEX \<Rightarrow>
         bind (on_app id (we_reindex_embeddings W (js_limit (dv_job delivery)) (js_force (dv_job delivery))))
           (\<lambda>r. ret (EmbeddingResult \<lparr> er_scanned = rx_scanned r, er_updated = rx_updated r,
                       er_skipped = rx_skipped r, er_warnings = rx_warnings r \<rparr>)))"

definition safe_error_summary :: "str \<Rightarrow> str \<Rightarrow> str" where
  "safe_error_summary name exc_text = (let message = join '' '' (split_words exc_text) in
     if message \<noteq> [] then take 1000 (name @ '': '' @ message) else name)"

section \<open>The worker\<close>

text \<open>The clock readings of one delivery.\<close>

record readings =
  at_started :: instant
  at_finished :: instant
  at_failed :: instant

definition process_delivery ::
  "('r, 'v, 'n) worker_env \<Rightarrow> readings \<Rightarrow> MaintenanceJobDelivery \<Rightarrow> ('r, 'v, queue_exn, unit) work" where
  "process_delivery W t delivery =
     bind (on_redis (mark_running (we_queue W) (at_started t) delivery)) (\<lambda>attempt w.
     case execute_job W delivery w of
       (Inl JobCancelled, w') \<Rightarrow> (Inl CancelledError, w')
     | (Inl (JobRaised name exc_text), w') \<Rightarrow>
         seq (on_redis (mark_failed (we_queue W) (at_finished t) (at_failed t) delivery attempt
                (safe_error_summary name exc_text))) (ret ()) w'
     | (Inr result, w') \<Rightarrow>
         on_redis (mark_succeeded (we_queue W) (at_finished t) delivery result) w')"

text \<open>
  One turn of the consumer loop: an unavailable queue is logged and waited out, any other error
  ends the loop. The loop runs until the stop event, here as long as there are readings.
\<close>

definition ignoring_unavailable :: "'a \<Rightarrow> ('s, queue_exn, 'a) prog \<Rightarrow> ('s, queue_exn, 'a) prog" where
  "ignoring_unavailable fallback m = try_catch m (\<lambda>e. case e of
       MaintenanceQueueUnavailableError _ \<Rightarrow> ret fallback | _ \<Rightarrow> raise e)"

definition consumer_turn :: "('r, 'v, 'n) worker_env \<Rightarrow> str \<Rightarrow> readings \<Rightarrow> ('r, 'v, queue_exn, unit) work" where
  "consumer_turn W consumer_name t =
     bind (ignoring_unavailable None (on_redis (receive (we_queue W) consumer_name))) (\<lambda>delivery.
     case delivery of
       None \<Rightarrow> ret ()
     | Some d \<Rightarrow> ignoring_unavailable () (process_delivery W t d))"

fun consumer_loop :: "('r, 'v, 'n) worker_env \<Rightarrow> str \<Rightarrow> readings list \<Rightarrow> ('r, 'v, queue_exn, unit) work" where
  "consumer_loop W consumer_name [] = ret ()"
| "consumer_loop W consumer_name (t # ts) =
     seq (consumer_turn W consumer_name t) (consumer_loop W consumer_name ts)"

end
