(* ===== verification/Queue_Safety.thy ===== *)
theory Queue_Safety
  imports Queue_Properties Maintenance_Worker
begin

text \<open>
  No job is lost: whatever the connection does and whatever expires, a turn of the worker
  acknowledges a stream entry only when its job has reached a final state that is recorded, a
  failed one together with its dead letter, or when the status of the job is already gone.
\<close>

section \<open>Effects on the data under faults\<close>

lemma runs_to_except_redis:
  assumes "runs_to P m Q (\<lambda>e. F)"
  shows "runs_to P (except_redis msg m) Q (\<lambda>e. F)"
  unfolding except_redis_def
  by (rule runs_to_try_catch [OF assms]) (auto split: queue_exn.split intro!: runs_to_raise)

lemma runs_to_decoded: "runs_to P (decoded x) (\<lambda>a r. x = Inr a \<and> P r) (\<lambda>e. P)"
  by (cases x) (simp_all add: runs_to_def decoded_def)

text \<open>
  One call in terms of the view: \<open>P\<close> survives aging, and the command leads from \<open>P\<close> to \<open>Q\<close>
  whenever it is executed.
\<close>

lemma runs_to_call:
  assumes ok: "redis_ok R" and m: "answers R m eff"
    and stable: "\<And>v v'. P v \<Longrightarrow> aged v v' \<Longrightarrow> P v'"
    and step: "\<And>v a v'. P v \<Longrightarrow> eff v a v' \<Longrightarrow> Q a v'"
    and fault: "\<And>v. P v \<Longrightarrow> F v" "\<And>a v. Q a v \<Longrightarrow> F v"
  shows "runs_to (\<lambda>r. P (rd_view R r)) (call R m) (\<lambda>a r. Q a (rd_view R r)) (\<lambda>_ r. F (rd_view R r))"
  unfolding runs_to_def
proof (intro allI impI)
  fix r assume P: "P (rd_view R r)"
  obtain x r' where run: "call R m r = (x, r')" by (rule prod.exhaust)
  show "case call R m r of (Inl e, r') \<Rightarrow> F (rd_view R r') | (Inr a, r') \<Rightarrow> Q a (rd_view R r')"
  proof (rule call_effect [OF run ok m])
    fix v assume v: "aged (rd_view R r) v" "\<And>a. x = Inr a \<Longrightarrow> eff v a (rd_view R r')"
      "\<And>e. x = Inl e \<Longrightarrow> (\<exists>f. e = RedisFault f) \<and> (rd_view R r' = v \<or> (\<exists>a. eff v a (rd_view R r')))"
    have "P v" by (rule stable [OF P v(1)])
    with v(2,3) step fault run show ?thesis by (cases x) fastforce+
  qed
qed

section \<open>Acknowledging operations\<close>

abbreviation main_pending :: "'r queue_env \<Rightarrow> redis_view \<Rightarrow> bytes set" where
  "main_pending E v \<equiv> rv_pending v (qf_stream_name (qe_config E)) (qf_consumer_group (qe_config E))"

abbreviation status_text :: "'r queue_env \<Rightarrow> redis_view \<Rightarrow> str \<Rightarrow> str option" where
  "status_text E v job_id \<equiv> text_at (qe_codecs E) (status_hash E v job_id) ''status''"

definition has_status :: "'r queue_env \<Rightarrow> str \<Rightarrow> MaintenanceJobStatus \<Rightarrow> redis_view \<Rightarrow> bool" where
  "has_status E job_id st v \<longleftrightarrow> status_text E v job_id \<in> {None, Some (job_status_value st)}"

definition dead_lettered :: "'r queue_env \<Rightarrow> str \<Rightarrow> str \<Rightarrow> redis_view \<Rightarrow> bool" where
  "dead_lettered E job_id stream_id v \<longleftrightarrow>
     (\<exists>e\<in>set (rv_streams v (qf_dead_letter_stream_name (qe_config E))).
        text_at (qe_codecs E) (map_of (snd e)) ''job_id'' = Some job_id \<and>
        text_at (qe_codecs E) (map_of (snd e)) ''source_stream_id'' = Some stream_id)"

text \<open>
  A job is settled: its status is gone, or it succeeded, or it failed and left a dead letter.
\<close>

definition settled :: "'r queue_env \<Rightarrow> str \<Rightarrow> str \<Rightarrow> redis_view \<Rightarrow> bool" where
  "settled E job_id stream_id v \<longleftrightarrow>
     status_text E v job_id = None \<or> status_text E v job_id = Some (job_status_value JOB_SUCCEEDED) \<or>
     status_text E v job_id = Some (job_status_value JOB_FAILED) \<and> dead_lettered E job_id stream_id v"

lemma aged_facts:
  assumes "aged v v'"
  shows "rv_streams v' = rv_streams v" "rv_pending v' = rv_pending v"
    "rv_hashes v' k = rv_hashes v k \<or> rv_hashes v' k = Map.empty"
  using assms by (auto simp: aged_def)

lemma has_status_aged: "has_status E j st v \<Longrightarrow> aged v v' \<Longrightarrow> has_status E j st v'"
  unfolding has_status_def using aged_facts(3) [of v v' "status_key (qe_config E) j"]
  by (auto simp: text_at_def)

lemma dead_lettered_aged: "dead_lettered E j i v \<Longrightarrow> aged v v' \<Longrightarrow> dead_lettered E j i v'"
  unfolding dead_lettered_def by (simp add: aged_facts)

lemma write_status_effect:
  assumes ok: "queue_ok E"
    and st: "put_fields (qe_codecs E) (status_mapping mu) get ''status'' = Some (job_status_value st)"
      "\<And>g. put_fields (qe_codecs E) (status_mapping mu) g ''status'' = put_fields (qe_codecs E) (status_mapping mu) get ''status''"
  shows "runs_to (\<lambda>r. main_pending E (view_of E r) = p)
    (write_status E (status_key (qe_config E) j) mu)
    (\<lambda>_ r. main_pending E (view_of E r) = p \<and> has_status E j st (view_of E r))
    (\<lambda>_ r. main_pending E (view_of E r) = p)"
proof -
  note keys = queue_okD(2) [OF ok] and R = queue_okD(1) [OF ok]
  have hset: "runs_to (\<lambda>r. main_pending E (view_of E r) = p)
      (call (qe_redis E) (rd_hset (qe_redis E) (status_key (qe_config E) j)
         (sent_mapping (qe_codecs E) (status_mapping mu))))
      (\<lambda>_ r. main_pending E (view_of E r) = p \<and> has_status E j st (view_of E r))
      (\<lambda>_ r. main_pending E (view_of E r) = p)"
    by (rule runs_to_call [OF R redis_keys_okD(7) [OF keys]])
       (use st in \<open>auto simp: aged_facts view_hset_def has_status_def text_at_hash_put [OF queue_okD(4) [OF ok]]\<close>)
  have expire: "runs_to (\<lambda>r. main_pending E (view_of E r) = p \<and> has_status E j st (view_of E r))
      (call (qe_redis E) (rd_expire (qe_redis E) (status_key (qe_config E) j) (qf_status_ttl_seconds (qe_config E))))
      (\<lambda>_ r. main_pending E (view_of E r) = p \<and> has_status E j st (view_of E r))
      (\<lambda>_ r. main_pending E (view_of E r) = p)"
    by (rule runs_to_call [OF R redis_keys_okD(5) [OF keys]])
       (use queue_okD(5) [OF ok] in \<open>auto simp: aged_facts intro: has_status_aged\<close>)
  show ?thesis
    unfolding write_status_def Let_def
    by (intro runs_to_seq [OF hset] runs_to_seq [OF expire] runs_to_ret) simp
qed

text \<open>Acknowledging keeps every property of the hashes and streams that aging keeps.\<close>

definition lasting :: "(redis_view \<Rightarrow> bool) \<Rightarrow> bool" where
  "lasting P \<longleftrightarrow> (\<forall>v v'. P v \<longrightarrow> aged v v' \<longrightarrow> P v') \<and> (\<forall>v s g i. P v \<longrightarrow> P (view_ack s g i v))"

lemma lasting_has_status: "lasting (has_status E j st)"
  unfolding lasting_def by (auto intro: has_status_aged) (simp add: has_status_def view_ack_def)

lemma lasting_dead_lettered: "lasting (dead_lettered E j i)"
  unfolding lasting_def by (auto intro: dead_lettered_aged) (simp add: dead_lettered_def view_ack_def)

lemma lasting_conj: "lasting P \<Longrightarrow> lasting Q \<Longrightarrow> lasting (\<lambda>v. P v \<and> Q v)"
  unfolding lasting_def by blast

lemma ack_effect:
  assumes ok: "queue_ok E" and P: "lasting P"
  shows "runs_to (\<lambda>r. main_pending E (view_of E r) = p \<and> P (view_of E r)) (ack E i)
    (\<lambda>_ r. main_pending E (view_of E r) = p - {cx_encode (qe_codecs E) i} \<and> P (view_of E r))
    (\<lambda>_ r. main_pending E (view_of E r) = p \<or>
       main_pending E (view_of E r) = p - {cx_encode (qe_codecs E) i} \<and> P (view_of E r))"
proof -
  have c: "runs_to (\<lambda>r. main_pending E (view_of E r) = p \<and> P (view_of E r))
    (call (qe_redis E) (rd_xack (qe_redis E) (qf_stream_name (qe_config E)) (qf_consumer_group (qe_config E))
       (cx_encode (qe_codecs E) i)))
    (\<lambda>_ r. main_pending E (view_of E r) = p - {cx_encode (qe_codecs E) i} \<and> P (view_of E r))
    (\<lambda>_ r. main_pending E (view_of E r) = p \<or>
       main_pending E (view_of E r) = p - {cx_encode (qe_codecs E) i} \<and> P (view_of E r))"
    by (rule runs_to_call [OF queue_okD(1) [OF ok] redis_streams_okD(2) [OF queue_okD(3) [OF ok]]])
       (use P in \<open>auto simp: aged_facts lasting_def view_ack_def [of _ _ _ "_ :: redis_view"]\<close>)
  show ?thesis unfolding ack_def by (intro runs_to_seq [OF c] runs_to_ret) simp
qed

text \<open>The outcomes of a transition: the entry stays pending, or it is acknowledged and settled.\<close>

definition outcome :: "'r queue_env \<Rightarrow> str \<Rightarrow> str \<Rightarrow> bytes set \<Rightarrow> redis_view \<Rightarrow> bool" where
  "outcome E job_id stream_id p v \<longleftrightarrow>
     main_pending E v = p \<or>
     main_pending E v = p - {cx_encode (qe_codecs E) stream_id} \<and> settled E job_id stream_id v"

lemma mark_succeeded_effect:
  assumes ok: "queue_ok E"
  shows "runs_to (\<lambda>r. main_pending E (view_of E r) = p) (mark_succeeded E now d res)
    (\<lambda>_ r. outcome E (js_job_id (dv_job d)) (dv_stream_id d) p (view_of E r))
    (\<lambda>_ r. outcome E (js_job_id (dv_job d)) (dv_stream_id d) p (view_of E r))"
proof -
  let ?j = "js_job_id (dv_job d)" and ?O = "\<lambda>r. outcome E (js_job_id (dv_job d)) (dv_stream_id d) p (view_of E r)"
  have st: "put_fields (qe_codecs E) (status_mapping (succeeded_mutation (qe_codecs E) now b)) g ''status'' =
      Some (job_status_value JOB_SUCCEEDED)" for b g
    by (simp add: put_fields_def status_mapping_def succeeded_mutation_def present_def
        decode_encode [OF queue_okD(4) [OF ok]])
  have settled: "has_status E ?j JOB_SUCCEEDED v \<Longrightarrow> settled E ?j (dv_stream_id d) v" for v
    by (auto simp: has_status_def settled_def)
  have body: "runs_to (\<lambda>r. main_pending E (view_of E r) = p)
      (seq (write_status E (status_key (qe_config E) ?j) (succeeded_mutation (qe_codecs E) now b))
           (ack E (dv_stream_id d))) (\<lambda>_. ?O) (\<lambda>_. ?O)" for b
    by (rule runs_to_seq [OF runs_to_weaken [OF write_status_effect [OF ok st]]
          runs_to_weaken [OF ack_effect [OF ok lasting_has_status]]])
       (use st settled in \<open>auto simp: outcome_def\<close>)
  show ?thesis
    unfolding mark_succeeded_def Let_def
  proof (rule runs_to_bind)
    show "runs_to (\<lambda>r. main_pending E (view_of E r) = p) (decoded (encode_result (qe_codecs E) res))
        (\<lambda>_ r. main_pending E (view_of E r) = p) (\<lambda>_. ?O)"
      by (simp add: runs_to_def decoded_def outcome_def split: sum.split)
  qed (rule runs_to_except_redis [OF body])
qed

lemma dead_letter_readable:
  assumes X: "codecs_ok X"
  shows "text_at X (map_of (sent_mapping X (dead_letter_mapping f))) ''job_id'' = Some (df_job_id f)"
    and "text_at X (map_of (sent_mapping X (dead_letter_mapping f))) ''source_stream_id'' = Some (df_source_stream_id f)"
  by (simp_all add: text_at_def sent_mapping_def dead_letter_mapping_def encode_inject [OF X] decode_encode [OF X])

lemma dead_letter_appended:
  assumes X: "codecs_ok (qe_codecs E)"
    and "append_effect (qf_dead_letter_stream_name (qe_config E)) len
      (sent_mapping (qe_codecs E) (dead_letter_mapping (dead_letter_of (qe_codecs E) d attempt failed_at e))) v i v'"
  shows "dead_lettered E (js_job_id (dv_job d)) (dv_stream_id d) v'"
  using assms(2) dead_letter_readable [OF X, of "dead_letter_of (qe_codecs E) d attempt failed_at e"]
  unfolding dead_lettered_def append_effect_def by (auto simp: view_stream_def dead_letter_of_def)

lemma has_status_cong: "rv_hashes v' = rv_hashes v \<Longrightarrow> has_status E j st v' = has_status E j st v"
  by (simp add: has_status_def)

lemma mark_failed_effect:
  assumes ok: "queue_ok E"
  shows "runs_to (\<lambda>r. main_pending E (view_of E r) = p) (mark_failed E now failed_at d attempt e)
    (\<lambda>_ r. outcome E (js_job_id (dv_job d)) (dv_stream_id d) p (view_of E r))
    (\<lambda>_ r. outcome E (js_job_id (dv_job d)) (dv_stream_id d) p (view_of E r))"
proof -
  let ?j = "js_job_id (dv_job d)" and ?i = "dv_stream_id d" and ?X = "qe_codecs E"
  let ?O = "\<lambda>r. outcome E (js_job_id (dv_job d)) (dv_stream_id d) p (view_of E r)"
  let ?m = "sent_mapping ?X (dead_letter_mapping (dead_letter_of ?X d attempt failed_at (take 1000 e)))"
  have X: "codecs_ok ?X" by (rule queue_okD(4) [OF ok])
  have st: "put_fields ?X (status_mapping (failed_mutation ?X now b m)) g ''status'' =
      Some (job_status_value (if b then JOB_FAILED else JOB_RETRYING))" for b m g
    by (simp add: put_fields_def status_mapping_def failed_mutation_def present_def decode_encode [OF X])
  have settled: "has_status E ?j JOB_FAILED v \<and> dead_lettered E ?j ?i v \<Longrightarrow> settled E ?j ?i v" for v
    by (auto simp: has_status_def settled_def)
  have xadd: "runs_to (\<lambda>r. main_pending E (view_of E r) = p \<and> has_status E ?j JOB_FAILED (view_of E r))
      (call (qe_redis E) (rd_xadd (qe_redis E) (qf_dead_letter_stream_name (qe_config E))
         (qf_max_stream_length (qe_config E)) ?m))
      (\<lambda>_ r. main_pending E (view_of E r) = p \<and> has_status E ?j JOB_FAILED (view_of E r) \<and>
         dead_lettered E ?j ?i (view_of E r))
      (\<lambda>_ r. main_pending E (view_of E r) = p)"
    by (rule runs_to_call [OF queue_okD(1) [OF ok] redis_streams_okD(1) [OF queue_okD(3) [OF ok]]])
       (auto simp: aged_facts dead_letter_appended [OF X] dest: append_effect_frame intro: has_status_aged,
        metis append_effect_frame has_status_cong)
  have w: "runs_to (\<lambda>r. main_pending E (view_of E r) = p)
      (write_status E (status_key (qe_config E) ?j) (failed_mutation ?X now b (take 1000 e)))
      (\<lambda>_ r. main_pending E (view_of E r) = p \<and>
         has_status E ?j (if b then JOB_FAILED else JOB_RETRYING) (view_of E r)) (\<lambda>_. ?O)" for b
    by (rule runs_to_weaken [OF write_status_effect [OF ok st]]) (auto simp: outcome_def st)
  have x: "runs_to (\<lambda>r. main_pending E (view_of E r) = p \<and> has_status E ?j JOB_FAILED (view_of E r))
      (call (qe_redis E) (rd_xadd (qe_redis E) (qf_dead_letter_stream_name (qe_config E))
         (qf_max_stream_length (qe_config E)) ?m))
      (\<lambda>_ r. main_pending E (view_of E r) = p \<and> has_status E ?j JOB_FAILED (view_of E r) \<and>
         dead_lettered E ?j ?i (view_of E r)) (\<lambda>_. ?O)"
    by (rule runs_to_weaken [OF xadd]) (auto simp: outcome_def)
  have a: "runs_to (\<lambda>r. main_pending E (view_of E r) = p \<and> has_status E ?j JOB_FAILED (view_of E r) \<and>
      dead_lettered E ?j ?i (view_of E r)) (ack E ?i) (\<lambda>_. ?O) (\<lambda>_. ?O)"
    by (rule runs_to_weaken [OF ack_effect [OF ok lasting_conj [OF lasting_has_status lasting_dead_lettered],
          where p = p]])
       (use settled in \<open>auto simp: outcome_def\<close>)
  show ?thesis
  proof (cases "qf_max_attempts (qe_config E) \<le> attempt")
    case True
    have "runs_to (\<lambda>r. main_pending E (view_of E r) = p)
      (seq (write_status E (status_key (qe_config E) ?j) (failed_mutation ?X now True (take 1000 e)))
      (seq (seq (call (qe_redis E) (rd_xadd (qe_redis E) (qf_dead_letter_stream_name (qe_config E))
                 (qf_max_stream_length (qe_config E)) ?m)) (ack E ?i))
           (ret True))) (\<lambda>_. ?O) (\<lambda>_. ?O)"
      by (rule runs_to_seq [OF w [of True, simplified] runs_to_seq [OF runs_to_seq [OF x a] runs_to_ret]]) simp
    with True show ?thesis
      unfolding mark_failed_def Let_def by (simp add: whenE_def runs_to_except_redis)
  next
    case False
    have "runs_to (\<lambda>r. main_pending E (view_of E r) = p)
      (seq (write_status E (status_key (qe_config E) ?j) (failed_mutation ?X now False (take 1000 e)))
      (seq (ret ()) (ret False))) (\<lambda>_. ?O) (\<lambda>_. ?O)"
      by (rule runs_to_seq [OF w [of False, simplified] runs_to_seq [OF runs_to_ret runs_to_ret]])
         (auto simp: outcome_def)
    with False show ?thesis
      unfolding mark_failed_def Let_def by (simp add: whenE_def runs_to_except_redis)
  qed
qed

lemma mark_running_effect:
  assumes ok: "queue_ok E"
  shows "runs_to (\<lambda>r. main_pending E (view_of E r) = p) (mark_running E now d)
    (\<lambda>_ r. main_pending E (view_of E r) = p) (\<lambda>_ r. main_pending E (view_of E r) = p)"
proof -
  let ?P = "\<lambda>r. main_pending E (view_of E r) = p" and ?X = "qe_codecs E"
  have st: "put_fields ?X (status_mapping (running_mutation ?X now)) g ''status'' = Some (job_status_value JOB_RUNNING)" for g
    by (simp add: put_fields_def status_mapping_def running_mutation_def present_def
        decode_encode [OF queue_okD(4) [OF ok]])
  have incr: "runs_to ?P (call (qe_redis E) (rd_hincrby (qe_redis E) key f 1)) (\<lambda>_. ?P) (\<lambda>_. ?P)" for key f
    by (rule runs_to_call [OF queue_okD(1) [OF ok] redis_keys_okD(9) [OF queue_okD(2) [OF ok]]])
       (auto simp: aged_facts view_hset_def)
  have wr: "runs_to ?P (write_status E (status_key (qe_config E) j) (running_mutation ?X now)) (\<lambda>_. ?P) (\<lambda>_. ?P)" for j
    by (rule runs_to_weaken [OF write_status_effect [OF ok st, where p = p]]) (simp_all add: st)
  have dec: "runs_to ?P (decoded x) (\<lambda>_. ?P) (\<lambda>_. ?P)" for x :: "queue_exn + int"
    by (simp add: runs_to_def decoded_def split: sum.split)
  show ?thesis
    unfolding mark_running_def Let_def
    by (rule runs_to_bind [OF runs_to_except_redis [OF runs_to_bind [OF incr runs_to_seq [OF wr runs_to_ret]]] dec])
qed

section \<open>Receiving\<close>

definition stream_ok :: "'r queue_env \<Rightarrow> (bytes \<times> (bytes \<times> bytes) list) list \<Rightarrow> bool" where
  "stream_ok E es \<longleftrightarrow> distinct (map fst es) \<and>
     (\<forall>e\<in>set es. distinct (map fst (snd e)) \<and> text_hash (qe_codecs E) (map_of (snd e)))"

definition jobs_ok :: "'r queue_env \<Rightarrow> redis_view \<Rightarrow> bool" where
  "jobs_ok E v \<longleftrightarrow> (\<forall>j. text_hash (qe_codecs E) (status_hash E v j) \<and>
     text_at (qe_codecs E) (status_hash E v j) ''job_id'' \<in> {None, Some j})"

definition kept :: "'r queue_env \<Rightarrow> (bytes \<times> (bytes \<times> bytes) list) list \<Rightarrow> bytes set \<Rightarrow> redis_view \<Rightarrow> bool" where
  "kept E es p v \<longleftrightarrow> rv_streams v (qf_stream_name (qe_config E)) = es \<and>
     p \<inter> fst ` set es \<subseteq> main_pending E v \<and> jobs_ok E v"

definition delivered :: "'r queue_env \<Rightarrow> (bytes \<times> (bytes \<times> bytes) list) list \<Rightarrow> str \<Rightarrow> str \<Rightarrow> bool" where
  "delivered E es stream_id job_id \<longleftrightarrow>
     (\<exists>e\<in>set es. fst e = cx_encode (qe_codecs E) stream_id \<and>
        text_at (qe_codecs E) (map_of (snd e)) ''job_id'' = Some job_id)"

lemma jobs_ok_aged: "jobs_ok E v \<Longrightarrow> aged v v' \<Longrightarrow> jobs_ok E v'"
  unfolding jobs_ok_def
proof
  fix j assume ok: "\<forall>j. text_hash (qe_codecs E) (status_hash E v j) \<and>
      text_at (qe_codecs E) (status_hash E v j) ''job_id'' \<in> {None, Some j}" and "aged v v'"
  then consider "status_hash E v' j = status_hash E v j" | "status_hash E v' j = Map.empty"
    using aged_facts(3) by blast
  then show "text_hash (qe_codecs E) (status_hash E v' j) \<and>
      text_at (qe_codecs E) (status_hash E v' j) ''job_id'' \<in> {None, Some j}"
    by cases (use ok in \<open>auto simp: text_hash_def text_at_def\<close>)
qed

lemma kept_aged: "kept E es p v \<Longrightarrow> aged v v' \<Longrightarrow> kept E es p v'"
  unfolding kept_def by (auto simp: aged_facts intro: jobs_ok_aged)

lemma delivery_of_entry:
  assumes X: "codecs_ok (qe_codecs E)" and es: "stream_ok E es" and e: "e \<in> set es"
    and d: "delivery_of (qe_codecs E) (entry_response e) = Inr d"
  shows "delivered E es (sd_stream_id d) (sd_job_id d)"
proof -
  have wf: "distinct (map fst (snd e))" "text_hash (qe_codecs E) (map_of (snd e))"
    using es e by (simp_all add: stream_ok_def)
  obtain fields where f: "status_fields (qe_codecs E) (items_response (snd e)) = Inr fields"
    and m: "\<And>n. map_of fields n = (if n \<in> set status_field_names then text_at (qe_codecs E) (map_of (snd e)) n else None)"
    using status_fields_of_hash [OF X wf(2) refl wf(1)] unfolding items_response_def by blast
  have "cx_decode (qe_codecs E) (fst e) = Some (sd_stream_id d)" "map_of fields ''job_id'' = Some (sd_job_id d)"
    using d f by (auto simp: delivery_of_def entry_response_def response_sequence_def response_text_def
        and_then_Inr required_Inr split: option.splits)
  then show ?thesis
    using e m [of "''job_id''"] unfolding delivered_def
    by (auto simp: codecs_ok_simps(1) [OF X] status_field_names_def)
qed

lemma ensure_consumer_group_effect:
  assumes ok: "queue_ok E"
  shows "runs_to (\<lambda>r. kept E es p (view_of E r)) (ensure_consumer_group E)
    (\<lambda>_ r. kept E es p (view_of E r)) (\<lambda>_ r. kept E es p (view_of E r))"
proof -
  have c: "runs_to (\<lambda>r. kept E es p (view_of E r))
      (call (qe_redis E) (rd_xgroup_create (qe_redis E) (qf_stream_name (qe_config E)) (qf_consumer_group (qe_config E))))
      (\<lambda>_ r. kept E es p (view_of E r)) (\<lambda>_ r. kept E es p (view_of E r))"
    by (rule runs_to_call [OF queue_okD(1) [OF ok] redis_streams_okD(3) [OF queue_okD(3) [OF ok]]])
       (auto intro: kept_aged)
  show ?thesis
    unfolding ensure_consumer_group_def
    by (rule runs_to_try_catch [OF c])
       (auto split: queue_exn.split redis_fault.split intro!: runs_to_ret runs_to_raise)
qed

lemma kept_stream: "kept E es p v \<Longrightarrow> rv_streams v (qf_stream_name (qe_config E)) = es"
  by (simp add: kept_def)

definition good_delivery :: "'r queue_env \<Rightarrow> (bytes \<times> (bytes \<times> bytes) list) list \<Rightarrow> RedisStreamDelivery option \<Rightarrow> bool" where
  "good_delivery E es x \<longleftrightarrow> (\<forall>d. x = Some d \<longrightarrow> delivered E es (sd_stream_id d) (sd_job_id d))"

lemma claimed_is_good:
  assumes X: "codecs_ok (qe_codecs E)" and es: "stream_ok E es" "rv_streams v (qf_stream_name (qe_config E)) = es"
    and c: "claim_effect (qf_stream_name (qe_config E)) (qf_consumer_group (qe_config E)) v raw v'"
    and x: "decode_autoclaim_delivery (qe_codecs E) raw = Inr x"
  shows "good_delivery E es x"
  using c x delivery_of_entry [OF X es(1)] es(2) unfolding claim_effect_def good_delivery_def
  by (auto simp: decode_autoclaim_delivery_def response_sequence_def and_then_Inr)

lemma read_is_good:
  assumes X: "codecs_ok (qe_codecs E)" and es: "stream_ok E es" "rv_streams v (qf_stream_name (qe_config E)) = es"
    and c: "read_effect (qf_stream_name (qe_config E)) (qf_consumer_group (qe_config E)) v raw v'"
    and x: "decode_readgroup_delivery (qe_codecs E) raw = Inr x"
  shows "good_delivery E es x"
  using c x delivery_of_entry [OF X es(1)] es(2) unfolding read_effect_def good_delivery_def
  by (auto simp: decode_readgroup_delivery_def response_sequence_def and_then_Inr)

lemma kept_deliver:
  "kept E es p v \<Longrightarrow> main_pending E v \<inter> fst ` set es \<subseteq> q \<Longrightarrow>
   kept E es p (view_deliver (qf_stream_name (qe_config E)) (qf_consumer_group (qe_config E)) q v)"
  by (simp add: kept_def view_deliver_def jobs_ok_def) blast

lemma kept_claim:
  assumes "kept E es p v" "claim_effect (qf_stream_name (qe_config E)) (qf_consumer_group (qe_config E)) v x v'"
  shows "kept E es p v'"
proof -
  have "\<exists>gone. gone \<inter> fst ` set es = {} \<and>
    v' = view_deliver (qf_stream_name (qe_config E)) (qf_consumer_group (qe_config E)) (main_pending E v - gone) v"
    using assms(2) unfolding claim_effect_def kept_stream [OF assms(1)] by (rule conjunct1)
  then obtain gone where g: "gone \<inter> fst ` set es = {}"
    "v' = view_deliver (qf_stream_name (qe_config E)) (qf_consumer_group (qe_config E)) (main_pending E v - gone) v"
    by blast
  show ?thesis unfolding g(2) by (rule kept_deliver [OF assms(1)]) (use g(1) in blast)
qed

lemma kept_read:
  assumes "kept E es p v" "read_effect (qf_stream_name (qe_config E)) (qf_consumer_group (qe_config E)) v x v'"
  shows "kept E es p v'"
  using assms(2) unfolding read_effect_def
proof (elim disjE exE conjE)
  fix e assume "v' = view_deliver (qf_stream_name (qe_config E)) (qf_consumer_group (qe_config E))
      (insert (fst e) (main_pending E v)) v"
  then show ?thesis by (simp only:) (rule kept_deliver [OF assms(1)], blast)
qed (use assms(1) in simp)

lemma claim_or_read_effect:
  assumes ok: "queue_ok E" and es: "stream_ok E es"
  shows "runs_to (\<lambda>r. kept E es p (view_of E r)) (claim_or_read E c)
    (\<lambda>x r. kept E es p (view_of E r) \<and> good_delivery E es x) (\<lambda>_ r. kept E es p (view_of E r))"
proof -
  let ?R = "qe_redis E" and ?s = "qf_stream_name (qe_config E)" and ?g = "qf_consumer_group (qe_config E)"
  let ?K = "\<lambda>r. kept E es p (view_of E r)" and ?X = "qe_codecs E"
  have X: "codecs_ok ?X" by (rule queue_okD(4) [OF ok])
  have claim: "runs_to ?K (call ?R (rd_xautoclaim ?R ?s ?g c n))
      (\<lambda>raw r. ?K r \<and> (\<forall>x. decode_autoclaim_delivery ?X raw = Inr x \<longrightarrow> good_delivery E es x)) (\<lambda>_. ?K)" for n
    by (rule runs_to_call [OF queue_okD(1) [OF ok] redis_streams_okD(4) [OF queue_okD(3) [OF ok]]])
       (auto intro: kept_aged kept_claim claimed_is_good [OF X es kept_stream])
  have rd: "runs_to ?K (call ?R (rd_xreadgroup ?R ?s ?g c n))
      (\<lambda>raw r. ?K r \<and> (\<forall>x. decode_readgroup_delivery ?X raw = Inr x \<longrightarrow> good_delivery E es x)) (\<lambda>_. ?K)" for n
    by (rule runs_to_call [OF queue_okD(1) [OF ok] redis_streams_okD(5) [OF queue_okD(3) [OF ok]]])
       (auto intro: kept_aged kept_read read_is_good [OF X es kept_stream])
  have dec: "runs_to (\<lambda>r. ?K r \<and> (\<forall>y. x = Inr y \<longrightarrow> Q y)) (decoded x) (\<lambda>y r. ?K r \<and> Q y) (\<lambda>_. ?K)"
    for x :: "queue_exn + RedisStreamDelivery option" and Q
    by (cases x) (auto simp: runs_to_def decoded_def)
  have rest: "runs_to (\<lambda>r. ?K r \<and> good_delivery E es x)
      (case x of Some d \<Rightarrow> ret (Some d)
       | None \<Rightarrow> bind (call ?R (rd_xreadgroup ?R ?s ?g c (qf_block_milliseconds (qe_config E))))
           (\<lambda>raw. decoded (decode_readgroup_delivery ?X raw)))
      (\<lambda>x r. ?K r \<and> good_delivery E es x) (\<lambda>_. ?K)" for x
  proof (cases x)
    case None
    show ?thesis unfolding None option.case
      by (rule runs_to_weaken [OF runs_to_bind [OF rd dec]]) simp_all
  qed (simp add: runs_to_def ret_def)
  show ?thesis
    unfolding claim_or_read_def Let_def
    by (intro runs_to_except_redis runs_to_bind [OF claim] runs_to_bind [OF dec] rest)
qed

definition no_status :: "'r queue_env \<Rightarrow> str \<Rightarrow> redis_view \<Rightarrow> bool" where
  "no_status E j v \<longleftrightarrow> status_text E v j = None"

lemma lasting_no_status: "lasting (no_status E j)"
  unfolding lasting_def
proof (intro conjI allI impI)
  fix v v' assume "no_status E j v" "aged v v'"
  then show "no_status E j v'"
    using aged_facts(3) [of v v' "status_key (qe_config E) j"] by (auto simp: no_status_def text_at_def)
qed (simp add: no_status_def view_ack_def)

lemma get_job_effect:
  assumes ok: "queue_ok E"
  shows "runs_to (\<lambda>r. kept E es p (view_of E r)) (get_job E j)
    (\<lambda>x r. kept E es p (view_of E r) \<and> (x = None \<longrightarrow> no_status E j (view_of E r)) \<and>
       (\<forall>s. x = Some s \<longrightarrow> js_job_id s = j))
    (\<lambda>_ r. kept E es p (view_of E r))"
proof -
  let ?X = "qe_codecs E" and ?K = "\<lambda>r. kept E es p (view_of E r)"
  let ?G = "\<lambda>raw r. ?K r \<and> (\<exists>kvs. distinct (map fst kvs) \<and> map_of kvs = status_hash E (view_of E r) j \<and>
      raw = items_response kvs)"
  have X: "codecs_ok ?X" by (rule queue_okD(4) [OF ok])
  have c: "runs_to ?K (call (qe_redis E) (rd_hgetall (qe_redis E) (status_key (qe_config E) j))) ?G (\<lambda>_. ?K)"
    by (rule runs_to_call [OF queue_okD(1) [OF ok] redis_keys_okD(8) [OF queue_okD(2) [OF ok]]])
       (auto intro: kept_aged)
  have d: "runs_to (?G raw) (decoded (decode_job_snapshot ?X raw))
      (\<lambda>x r. ?K r \<and> (x = None \<longrightarrow> no_status E j (view_of E r)) \<and> (\<forall>s. x = Some s \<longrightarrow> js_job_id s = j))
      (\<lambda>_. ?K)" for raw
    unfolding runs_to_def
  proof (intro allI impI, elim conjE exE)
    fix r kvs assume K: "?K r" and kvs: "distinct (map fst kvs)" "map_of kvs = status_hash E (view_of E r) j"
      "raw = items_response kvs"
    have h: "text_hash ?X (status_hash E (view_of E r) j)"
      "text_at ?X (status_hash E (view_of E r) j) ''job_id'' \<in> {None, Some j}"
      using K by (simp_all add: kept_def jobs_ok_def)
    obtain fields where f: "status_fields ?X raw = Inr fields"
      and m: "\<And>n. map_of fields n = (if n \<in> set status_field_names then text_at ?X (status_hash E (view_of E r) j) n else None)"
      using status_fields_of_hash [OF X h(1) kvs(2,1)] unfolding kvs(3) items_response_def by blast
    have none: "decode_job_snapshot ?X raw = Inr None \<Longrightarrow> no_status E j (view_of E r)"
      using decode_job_none [OF X h(1) kvs(2,1), of "''status''"] kvs(3)
      by (simp add: no_status_def status_field_names_def)
    have some: "js_job_id s = j" if "decode_job_snapshot ?X raw = Inr (Some s)" for s
    proof -
      have "snapshot_of ?X (map_of fields) = Inr s"
        using that f by (auto simp: decode_job_snapshot_def and_then_Inr split: if_splits)
      then have "map_of fields ''job_id'' = Some (js_job_id s)" by (simp add: snapshot_of_iff name_at_def)
      with m [of "''job_id''"] h(2) show ?thesis by (auto simp: status_field_names_def)
    qed
    show "case decoded (decode_job_snapshot ?X raw) r of (Inl e, r') \<Rightarrow> ?K r'
      | (Inr x, r') \<Rightarrow> ?K r' \<and> (x = None \<longrightarrow> no_status E j (view_of E r')) \<and> (\<forall>s. x = Some s \<longrightarrow> js_job_id s = j)"
      using K none some by (auto simp: decoded_def split: sum.split)
  qed
  show ?thesis unfolding get_job_def by (rule runs_to_bind [OF runs_to_except_redis [OF c] d])
qed

section \<open>The turn\<close>

text \<open>Every entry that was pending is still pending, or its job is settled.\<close>

definition none_lost :: "'r queue_env \<Rightarrow> (bytes \<times> (bytes \<times> bytes) list) list \<Rightarrow> bytes set \<Rightarrow> redis_view \<Rightarrow> bool" where
  "none_lost E es p v \<longleftrightarrow> (\<forall>e\<in>set es. fst e \<in> p \<longrightarrow> fst e \<in> main_pending E v \<or>
     (\<exists>j i. text_at (qe_codecs E) (map_of (snd e)) ''job_id'' = Some j \<and>
            fst e = cx_encode (qe_codecs E) i \<and> settled E j i v))"

lemma kept_none_lost: "kept E es p v \<Longrightarrow> none_lost E es p v"
  unfolding kept_def none_lost_def by blast

lemma outcome_none_lost:
  assumes es: "stream_ok E es" and d: "delivered E es i j" and q: "p \<inter> fst ` set es \<subseteq> q"
    and o: "outcome E j i q v"
  shows "none_lost E es p v"
  unfolding none_lost_def
proof (intro ballI impI)
  fix e assume e: "e \<in> set es" "fst e \<in> p"
  obtain e' where e': "e' \<in> set es" "fst e' = cx_encode (qe_codecs E) i"
      "text_at (qe_codecs E) (map_of (snd e')) ''job_id'' = Some j"
    using d by (auto simp: delivered_def)
  have inq: "fst e \<in> q" using e q by blast
  show "fst e \<in> main_pending E v \<or> (\<exists>j i. text_at (qe_codecs E) (map_of (snd e)) ''job_id'' = Some j \<and>
      fst e = cx_encode (qe_codecs E) i \<and> settled E j i v)"
  proof (cases "fst e = fst e'")
    case True
    then have "e = e'" using es e(1) e'(1) by (metis stream_ok_def eq_key_imp_eq_value prod.collapse)
    with e' o inq show ?thesis unfolding outcome_def by auto
  next
    case False
    with o inq e'(2) show ?thesis unfolding outcome_def by auto
  qed
qed

lemma receive_effect:
  assumes ok: "queue_ok E" and es: "stream_ok E es"
  shows "runs_to (\<lambda>r. kept E es p (view_of E r)) (receive E c)
    (\<lambda>x r. case x of None \<Rightarrow> none_lost E es p (view_of E r)
       | Some d \<Rightarrow> kept E es p (view_of E r) \<and> delivered E es (dv_stream_id d) (js_job_id (dv_job d)))
    (\<lambda>_ r. none_lost E es p (view_of E r))"
proof -
  let ?K = "\<lambda>r. kept E es p (view_of E r)" and ?N = "\<lambda>r. none_lost E es p (view_of E r)"
  let ?Q = "\<lambda>x r. case x of None \<Rightarrow> ?N r
     | Some d \<Rightarrow> ?K r \<and> delivered E es (dv_stream_id d) (js_job_id (dv_job d))"
  have group: "runs_to ?K (ensure_consumer_group E) (\<lambda>_. ?K) (\<lambda>_. ?N)"
    by (rule runs_to_weaken [OF ensure_consumer_group_effect [OF ok]]) (auto intro: kept_none_lost)
  have claim: "runs_to ?K (claim_or_read E c) (\<lambda>x r. ?K r \<and> good_delivery E es x) (\<lambda>_. ?N)"
    by (rule runs_to_weaken [OF claim_or_read_effect [OF ok es]]) (auto intro: kept_none_lost)
  have orphan: "runs_to (\<lambda>r. ?K r \<and> no_status E j (view_of E r)) (seq (ack E i) (ret None)) ?Q (\<lambda>_. ?N)"
    if d: "delivered E es i j" for i j
  proof -
    have after: "outcome E j i q v \<Longrightarrow> p \<inter> fst ` set es \<subseteq> q \<Longrightarrow> none_lost E es p v" for q v
      by (rule outcome_none_lost [OF es d])
    have "runs_to (\<lambda>r. p \<inter> fst ` set es \<subseteq> q \<and> (main_pending E (view_of E r) = q \<and> no_status E j (view_of E r)))
        (ack E i) (\<lambda>_. ?N) (\<lambda>_. ?N)" for q
      by (rule runs_to_pure, rule runs_to_weaken [OF ack_effect [OF ok lasting_no_status, where p = q]])
         (auto intro!: after [of q] simp: outcome_def settled_def no_status_def)
    then have "runs_to (\<lambda>r. \<exists>q. p \<inter> fst ` set es \<subseteq> q \<and> (main_pending E (view_of E r) = q \<and> no_status E j (view_of E r)))
        (ack E i) (\<lambda>_. ?N) (\<lambda>_. ?N)" by (rule runs_to_ex)
    then have "runs_to (\<lambda>r. ?K r \<and> no_status E j (view_of E r)) (ack E i) (\<lambda>_. ?N) (\<lambda>_. ?N)"
      by (rule runs_to_weaken) (auto simp: kept_def)
    then show ?thesis by (rule runs_to_seq) (simp add: runs_to_ret)
  qed
  have get: "runs_to ?K (get_job E j) (\<lambda>x r. ?K r \<and> (x = None \<longrightarrow> no_status E j (view_of E r)) \<and>
      (\<forall>s. x = Some s \<longrightarrow> js_job_id s = j)) (\<lambda>_. ?N)" for j
    by (rule runs_to_weaken [OF get_job_effect [OF ok]]) (auto intro: kept_none_lost)
  have rest: "runs_to (\<lambda>r. ?K r \<and> good_delivery E es x)
      (case x of None \<Rightarrow> ret None | Some d \<Rightarrow> bind (get_job E (sd_job_id d)) (\<lambda>snapshot.
         case snapshot of None \<Rightarrow> seq (ack E (sd_stream_id d)) (ret None)
         | Some s \<Rightarrow> ret (Some \<lparr> dv_stream_id = sd_stream_id d, dv_job = s \<rparr>))) ?Q (\<lambda>_. ?N)" for x
  proof (cases x)
    case None
    then show ?thesis by (auto intro!: runs_to_ret kept_none_lost)
  next
    case (Some d)
    show ?thesis
    proof (cases "delivered E es (sd_stream_id d) (sd_job_id d)")
      case True
      have "runs_to (\<lambda>r. ?K r \<and> (y = None \<longrightarrow> no_status E (sd_job_id d) (view_of E r)) \<and>
          (\<forall>s. y = Some s \<longrightarrow> js_job_id s = sd_job_id d))
          (case y of None \<Rightarrow> seq (ack E (sd_stream_id d)) (ret None)
           | Some s \<Rightarrow> ret (Some \<lparr> dv_stream_id = sd_stream_id d, dv_job = s \<rparr>)) ?Q (\<lambda>_. ?N)" for y
        using orphan [OF True] True by (cases y) (auto intro!: runs_to_ret)
      from runs_to_bind [OF get this] Some show ?thesis
        by (auto intro: runs_to_weaken)
    next
      case False
      with Some show ?thesis by (simp add: good_delivery_def runs_to_def)
    qed
  qed
  show ?thesis
    unfolding receive_def
    by (rule runs_to_seq [OF group runs_to_bind [OF claim rest]])
qed

section \<open>The worker\<close>

lemma keeps_on_app [keeps_rules]: "keeps (\<lambda>w. ww_redis w = r) (on_app h m)"
  by (auto simp: keeps_def on_app_def split: prod.split sum.split)

lemma keeps_statement: "keeps (\<lambda>w. ww_redis w = r) m \<Longrightarrow> keeps (\<lambda>w. ww_redis w = r) (statement W m)"
  by (auto simp: keeps_def statement_def split: prod.split option.split)

lemma keeps_checked [keeps_rules]: "keeps I (checked x)"
  by (simp add: keeps_def checked_def)

lemma execute_job_keeps_redis: "keeps (\<lambda>w. ww_redis w = r) (execute_job W d)"
  unfolding execute_job_def execute_batch_note_write_def load_payload_def delete_payload_def Let_def
  by (cases "js_kind (dv_job d)") (simp_all, (intro keeps_rules keeps_statement keeps_modify; simp)+)

lemma runs_to_on_redis:
  assumes "runs_to P m Q F"
  shows "runs_to (\<lambda>w. P (ww_redis w)) (on_redis m) (\<lambda>x w. Q x (ww_redis w)) (\<lambda>e w. F e (ww_redis w))"
  using assms unfolding runs_to_def on_redis_def by (auto split: prod.splits sum.splits)

lemma process_delivery_effect:
  fixes W :: "('r, 'v, 'n) worker_env"
  assumes ok: "queue_ok (we_queue W)"
  shows "runs_to (\<lambda>w. main_pending (we_queue W) (view_of (we_queue W) (ww_redis w)) = q) (process_delivery W t d)
    (\<lambda>_ w. outcome (we_queue W) (js_job_id (dv_job d)) (dv_stream_id d) q (view_of (we_queue W) (ww_redis w)))
    (\<lambda>_ w. outcome (we_queue W) (js_job_id (dv_job d)) (dv_stream_id d) q (view_of (we_queue W) (ww_redis w)))"
proof -
  let ?E = "we_queue W"
  let ?P = "\<lambda>w :: ('r, 'v) worker_world. main_pending ?E (view_of ?E (ww_redis w)) = q"
  let ?O = "\<lambda>w :: ('r, 'v) worker_world. outcome ?E (js_job_id (dv_job d)) (dv_stream_id d) q (view_of ?E (ww_redis w))"
  have running: "runs_to ?P (on_redis (mark_running ?E (at_started t) d)) (\<lambda>_. ?P) (\<lambda>_. ?O)"
    by (rule runs_to_weaken [OF runs_to_on_redis [OF mark_running_effect [OF ok, where p = q]]])
       (auto simp: outcome_def)
  have failed: "runs_to ?P (seq (on_redis (mark_failed ?E (at_finished t) (at_failed t) d attempt e)) (ret ()))
      (\<lambda>_. ?O) (\<lambda>_. ?O)" for attempt e
    by (rule runs_to_seq [OF runs_to_on_redis [OF mark_failed_effect [OF ok, where p = q]] runs_to_ret]) simp
  have succeeded: "runs_to ?P (on_redis (mark_succeeded ?E (at_finished t) d res)) (\<lambda>_. ?O) (\<lambda>_. ?O)" for res
    by (rule runs_to_on_redis [OF mark_succeeded_effect [OF ok, where p = q]])
  have rest: "runs_to ?P (\<lambda>w. case execute_job W d w of
       (Inl JobCancelled, w') \<Rightarrow> (Inl CancelledError, w')
     | (Inl (JobRaised name exc_text), w') \<Rightarrow>
         seq (on_redis (mark_failed ?E (at_finished t) (at_failed t) d attempt
                (safe_error_summary name exc_text))) (ret ()) w'
     | (Inr result, w') \<Rightarrow> on_redis (mark_succeeded ?E (at_finished t) d result) w')
      (\<lambda>_. ?O) (\<lambda>_. ?O)" for attempt
    unfolding runs_to_def
  proof (intro allI impI)
    fix w assume P: "?P w"
    obtain x w' where x: "execute_job W d w = (x, w')" by (rule prod.exhaust)
    have "ww_redis w' = ww_redis w" using keepsD [OF execute_job_keeps_redis refl x] .
    with P have P': "?P w'" by simp
    show "case (case execute_job W d w of
       (Inl JobCancelled, w') \<Rightarrow> (Inl CancelledError, w')
     | (Inl (JobRaised name exc_text), w') \<Rightarrow>
         seq (on_redis (mark_failed ?E (at_finished t) (at_failed t) d attempt
                (safe_error_summary name exc_text))) (ret ()) w'
     | (Inr result, w') \<Rightarrow> on_redis (mark_succeeded ?E (at_finished t) d result) w') of
       (Inl e, w') \<Rightarrow> ?O w' | (Inr y, w') \<Rightarrow> ?O w'"
      using x P' runs_to_outcome [OF failed P'] runs_to_outcome [OF succeeded P']
      by (auto simp: outcome_def split: sum.split job_exn.split)
  qed
  show ?thesis unfolding process_delivery_def by (rule runs_to_bind [OF running rest])
qed

lemma runs_to_ignoring_unavailable:
  assumes "runs_to P m Q (\<lambda>_. F)" and "\<And>s. F s \<Longrightarrow> Q fallback s"
  shows "runs_to P (ignoring_unavailable fallback m) Q (\<lambda>_. F)"
  unfolding ignoring_unavailable_def
  by (rule runs_to_try_catch [OF assms(1)])
     (auto split: queue_exn.split intro!: runs_to_raise runs_to_ret assms(2))

lemma consumer_turn_effect:
  fixes W :: "('r, 'v, 'n) worker_env"
  assumes ok: "queue_ok (we_queue W)" and es: "stream_ok (we_queue W) es"
  shows "runs_to (\<lambda>w. kept (we_queue W) es p (view_of (we_queue W) (ww_redis w))) (consumer_turn W c t)
    (\<lambda>_ w. none_lost (we_queue W) es p (view_of (we_queue W) (ww_redis w)))
    (\<lambda>_ w. none_lost (we_queue W) es p (view_of (we_queue W) (ww_redis w)))"
proof -
  let ?E = "we_queue W"
  let ?K = "\<lambda>w :: ('r, 'v) worker_world. kept ?E es p (view_of ?E (ww_redis w))"
  let ?N = "\<lambda>w :: ('r, 'v) worker_world. none_lost ?E es p (view_of ?E (ww_redis w))"
  let ?Q = "\<lambda>x w. case x of None \<Rightarrow> ?N w
    | Some d \<Rightarrow> ?K w \<and> delivered ?E es (dv_stream_id d) (js_job_id (dv_job d))"
  have rc: "runs_to ?K (ignoring_unavailable None (on_redis (receive ?E c))) ?Q (\<lambda>_. ?N)"
    by (rule runs_to_ignoring_unavailable [OF runs_to_on_redis [OF receive_effect [OF ok es]]]) simp
  have rest: "runs_to (?Q x) (case x of None \<Rightarrow> ret () | Some d \<Rightarrow> ignoring_unavailable () (process_delivery W t d))
      (\<lambda>_. ?N) (\<lambda>_. ?N)" for x
  proof (cases x)
    case None
    then show ?thesis by (auto intro!: runs_to_ret)
  next
    case (Some d)
    let ?D = "delivered ?E es (dv_stream_id d) (js_job_id (dv_job d))"
    have "runs_to (\<lambda>w. (?D \<and> p \<inter> fst ` set es \<subseteq> q) \<and> main_pending ?E (view_of ?E (ww_redis w)) = q)
        (process_delivery W t d) (\<lambda>_. ?N) (\<lambda>_. ?N)" for q
      by (rule runs_to_pure, rule runs_to_weaken [OF process_delivery_effect [OF ok, where q = q]])
         (auto intro!: outcome_none_lost [OF es, where q = q])
    then have "runs_to (\<lambda>w. \<exists>q. (?D \<and> p \<inter> fst ` set es \<subseteq> q) \<and> main_pending ?E (view_of ?E (ww_redis w)) = q)
        (process_delivery W t d) (\<lambda>_. ?N) (\<lambda>_. ?N)" by (rule runs_to_ex)
    then have "runs_to (\<lambda>w. ?K w \<and> ?D) (process_delivery W t d) (\<lambda>_. ?N) (\<lambda>_. ?N)"
      by (rule runs_to_weaken) (auto simp: kept_def)
    from runs_to_ignoring_unavailable [OF this] Some show ?thesis by simp
  qed
  show ?thesis unfolding consumer_turn_def by (rule runs_to_bind [OF rc rest])
qed

end
