(* ===== verification/Queue_Invariant.thy ===== *)
theory Queue_Invariant
  imports Queue_Safety
begin

text \<open>
  The data invariant of the queue, kept by every operation of the submitter, the consumer and the
  worker along every history, faults and expiry included; with it the safety of the worker's
  turns holds in every reachable world.
\<close>

section \<open>Well-formed data\<close>

text \<open>
  The data every component relies on: entries of the main stream are text with distinct
  identifiers, and a status hash is text and names its own job.
\<close>

definition queue_wf :: "'r queue_env \<Rightarrow> redis_view \<Rightarrow> bool" where
  "queue_wf E v \<longleftrightarrow> stream_ok E (rv_streams v (qf_stream_name (qe_config E))) \<and> jobs_ok E v"

lemma queue_wf_aged: "queue_wf E v \<Longrightarrow> aged v v' \<Longrightarrow> queue_wf E v'"
  unfolding queue_wf_def by (auto simp: aged_facts intro: jobs_ok_aged)

lemma queue_wf_frame:
  "queue_wf E v \<Longrightarrow> rv_hashes v' = rv_hashes v \<Longrightarrow>
   rv_streams v' (qf_stream_name (qe_config E)) = rv_streams v (qf_stream_name (qe_config E)) \<Longrightarrow> queue_wf E v'"
  by (simp add: queue_wf_def jobs_ok_def)

text \<open>Writing text fields other than the identifier, or the identifier itself, keeps it.\<close>

lemma queue_wf_hset:
  assumes X: "codecs_ok (qe_codecs E)" and wf: "queue_wf E v"
    and m: "\<forall>(n, x)\<in>set m. sendable (qe_codecs E) x \<and> (n = ''job_id'' \<longrightarrow> x = TextValue j)"
  shows "queue_wf E (view_hset (status_key (qe_config E) j) (sent_mapping (qe_codecs E) m) v)"
proof -
  let ?X = "qe_codecs E" and ?h = "status_hash E v j"
  have h: "text_hash ?X ?h" "text_at ?X ?h ''job_id'' \<in> {None, Some j}"
    using wf by (simp_all add: queue_wf_def jobs_ok_def)
  have "put_fields ?X m g ''job_id'' \<in> {None, Some j}" if "g ''job_id'' \<in> {None, Some j}" for g
    using m that
  proof (induction m arbitrary: g)
    case (Cons nx m)
    obtain n x where nx: "nx = (n, x)" by (cases nx)
    let ?g = "g(n := cx_decode ?X (value_bytes ?X x))"
    have "?g ''job_id'' \<in> {None, Some j}"
      using Cons.prems nx by (auto simp: decode_encode [OF X])
    then have "put_fields ?X m ?g ''job_id'' \<in> {None, Some j}"
      by (rule Cons.IH [rotated]) (use Cons.prems(1) in simp)
    then show ?case using nx by (simp add: put_fields_def)
  qed (simp add: put_fields_def)
  then have "text_at ?X (hash_put (sent_mapping ?X m) ?h) ''job_id'' \<in> {None, Some j}"
    unfolding text_at_hash_put [OF X] using h(2) by blast
  moreover have "text_hash ?X (hash_put (sent_mapping ?X m) ?h)"
    by (rule text_hash_put [OF h(1)]) (use m in fast)
  ultimately show ?thesis
    using wf by (auto simp: queue_wf_def jobs_ok_def view_hset_def)
qed

abbreviation wf_at :: "'r queue_env \<Rightarrow> 'r \<Rightarrow> bool" where
  "wf_at E r \<equiv> queue_wf E (view_of E r)"

lemma preserves_call:
  assumes ok: "queue_ok E" and m: "answers (qe_redis E) m eff"
    and step: "\<And>v a v'. queue_wf E v \<Longrightarrow> eff v a v' \<Longrightarrow> queue_wf E v'"
  shows "keeps (wf_at E) (call (qe_redis E) m)"
  unfolding keeps_def
proof (intro allI impI)
  fix r assume wf: "wf_at E r"
  obtain x r' where run: "call (qe_redis E) m r = (x, r')" by (rule prod.exhaust)
  show "wf_at E (snd (call (qe_redis E) m r))"
  proof (rule call_effect [OF run queue_okD(1) [OF ok] m])
    fix v assume v: "aged (view_of E r) v" "\<And>a. x = Inr a \<Longrightarrow> eff v a (view_of E r')"
      "\<And>e. x = Inl e \<Longrightarrow> (\<exists>f. e = RedisFault f) \<and> (view_of E r' = v \<or> (\<exists>a. eff v a (view_of E r')))"
    have "queue_wf E v" by (rule queue_wf_aged [OF wf v(1)])
    with v(2,3) step run show ?thesis by (cases x) fastforce+
  qed
qed

lemma keeps_except_redis [keeps_rules]: "keeps I m \<Longrightarrow> keeps I (except_redis msg m)"
  unfolding except_redis_def
  by (rule keeps_try_catch) (auto intro: keeps_raise split: queue_exn.split)

lemma keeps_decoded [keeps_rules]: "keeps I (decoded x)"
  by (simp add: keeps_def decoded_def)

lemma write_status_keeps:
  assumes ok: "queue_ok E" and m: "\<forall>(n, x)\<in>set (status_mapping mu). sendable (qe_codecs E) x"
  shows "keeps (wf_at E) (write_status E (status_key (qe_config E) j) mu)"
proof -
  have no_id: "\<forall>(n, x)\<in>set (status_mapping mu). sendable (qe_codecs E) x \<and> (n = ''job_id'' \<longrightarrow> x = TextValue j)"
    using m by (auto simp: status_mapping_def present_def split: option.splits)
  have "keeps (wf_at E) (call (qe_redis E) (rd_hset (qe_redis E) (status_key (qe_config E) j)
      (sent_mapping (qe_codecs E) (status_mapping mu))))"
    by (rule preserves_call [OF ok redis_keys_okD(7) [OF queue_okD(2) [OF ok]]])
       (simp add: queue_wf_hset [OF queue_okD(4) [OF ok] _ no_id])
  moreover have "keeps (wf_at E) (call (qe_redis E) (rd_expire (qe_redis E) (status_key (qe_config E) j)
      (qf_status_ttl_seconds (qe_config E))))"
    by (rule preserves_call [OF ok redis_keys_okD(5) [OF queue_okD(2) [OF ok]]])
       (use queue_okD(5) [OF ok] in simp)
  ultimately show ?thesis unfolding write_status_def Let_def by (intro keeps_rules)
qed

lemma ack_keeps:
  assumes ok: "queue_ok E"
  shows "keeps (wf_at E) (ack E i)"
proof -
  have "keeps (wf_at E) (call (qe_redis E) (rd_xack (qe_redis E) s g b))" for s g b
    by (rule preserves_call [OF ok redis_streams_okD(2) [OF queue_okD(3) [OF ok]]])
       (auto intro: queue_wf_frame simp: view_ack_def)
  then show ?thesis unfolding ack_def by (intro keeps_rules)
qed

lemma hincrby_keeps:
  assumes ok: "queue_ok E"
  shows "keeps (wf_at E) (call (qe_redis E) (rd_hincrby (qe_redis E) (status_key (qe_config E) j)
    (cx_encode (qe_codecs E) ''attempts'') d))"
proof (rule preserves_call [OF ok redis_keys_okD(9) [OF queue_okD(2) [OF ok]]], elim exE conjE)
  fix v a v' n assume wf: "queue_wf E v" and v': "v' = view_hset (status_key (qe_config E) j)
      [(cx_encode (qe_codecs E) ''attempts'', int_text (n + d))] v"
  have "[(cx_encode (qe_codecs E) ''attempts'', int_text (n + d))] =
      sent_mapping (qe_codecs E) [(''attempts'', TextValue (int_text (n + d)))]"
    by (simp add: sent_mapping_def encode_int_text [OF queue_okD(4) [OF ok]])
  with v' show "queue_wf E v'"
    using queue_wf_hset [OF queue_okD(4) [OF ok] wf, of "[(''attempts'', TextValue (int_text (n + d)))]" j] by simp
qed

lemma mark_running_keeps: "queue_ok E \<Longrightarrow> keeps (wf_at E) (mark_running E now d)"
  unfolding mark_running_def Let_def
  by (intro keeps_rules hincrby_keeps write_status_keeps mutation_sendable)

lemma encoded_result_text:
  "codecs_ok X \<Longrightarrow> encode_result X res = Inr b \<Longrightarrow> \<exists>s. b = cx_encode X s"
  by (cases res) (auto simp: encode_result_def encode_batch_note_write_result_def encode_embedding_result_def
      dumps_json_def split: option.splits dest: codecs_ok_simps(4))

lemma mark_succeeded_keeps:
  assumes ok: "queue_ok E"
  shows "keeps (wf_at E) (mark_succeeded E now d res)"
  unfolding mark_succeeded_def Let_def
proof (rule keeps_bind_where [where Q = "\<lambda>b. \<exists>s. b = cx_encode (qe_codecs E) s"])
  show "\<And>s b s'. decoded (encode_result (qe_codecs E) res) s = (Inr b, s') \<Longrightarrow> \<exists>s. b = cx_encode (qe_codecs E) s"
    by (auto simp: decoded_def intro: encoded_result_text [OF queue_okD(4) [OF ok]])
  fix b assume "\<exists>s. b = cx_encode (qe_codecs E) s"
  then obtain s where b: "b = cx_encode (qe_codecs E) s" ..
  show "keeps (wf_at E) (except_redis ''Redis maintenance success transition failed''
      (seq (write_status E (status_key (qe_config E) (js_job_id (dv_job d))) (succeeded_mutation (qe_codecs E) now b))
           (ack E (dv_stream_id d))))"
    unfolding b by (intro keeps_rules write_status_keeps ok mutation_sendable ack_keeps)
qed (rule keeps_decoded)

lemma keeps_command:
  assumes m: "answers (qe_redis E) m eff"
    and step: "\<And>v a v'. queue_wf E v \<Longrightarrow> eff v a v' \<Longrightarrow> queue_wf E v'"
  shows "keeps (wf_at E) m"
  unfolding keeps_def
proof (intro allI impI)
  fix r assume wf: "wf_at E r"
  obtain x r' where run: "m r = (x, r')" by (rule prod.exhaust)
  show "wf_at E (snd (m r))"
    using answersD [OF m] wf step run by (cases x) fastforce+
qed

lemma keeps_call:
  assumes ok: "queue_ok E" and m: "keeps (wf_at E) m"
  shows "keeps (wf_at E) (call (qe_redis E) m)"
  unfolding keeps_def
proof (intro allI impI)
  fix r assume wf: "wf_at E r"
  obtain x r' where run: "call (qe_redis E) m r = (x, r')" by (rule prod.exhaust)
  have wf1: "wf_at E (snd (rd_link (qe_redis E) r))"
    by (rule queue_wf_aged [OF wf redis_keys_okD(1) [OF queue_okD(2) [OF ok]]])
  from run have "wf_at E r'"
    unfolding call_def by (cases rule: exchange_cases) (use wf1 m in \<open>auto dest: keepsD\<close>)
  with run show "wf_at E (snd (call (qe_redis E) m r))" by simp
qed

lemma mark_failed_keeps:
  assumes ok: "queue_ok E"
  shows "keeps (wf_at E) (mark_failed E now failed_at d attempt e)"
proof -
  have "keeps (wf_at E) (call (qe_redis E) (rd_xadd (qe_redis E) (qf_dead_letter_stream_name (qe_config E)) n m))" for n m
    by (rule preserves_call [OF ok redis_streams_okD(1) [OF queue_okD(3) [OF ok]]])
       (use queue_okD(7) [OF ok] in \<open>auto intro: queue_wf_frame dest: append_effect_frame\<close>)
  then show ?thesis
    unfolding mark_failed_def Let_def
    by (intro keeps_rules write_status_keeps ok mutation_sendable ack_keeps)
qed

section \<open>Submission keeps it\<close>

lemma text_hash_sent:
  assumes X: "codecs_ok X" and m: "\<forall>(n, v)\<in>set m. sendable X v" "distinct (map fst m)"
  shows "distinct (map fst (sent_mapping X m))" and "text_hash X (map_of (sent_mapping X m))"
proof -
  have "inj (cx_encode X)" by (rule injI) (simp add: encode_inject [OF X])
  then show "distinct (map fst (sent_mapping X m))"
    using m(2) by (simp add: sent_mapping_def comp_def split_def distinct_map inj_on_def inj_def)
  show "text_hash X (map_of (sent_mapping X m))"
    unfolding text_hash_def
  proof (intro allI impI)
    fix k b assume "map_of (sent_mapping X m) k = Some b"
    then have "(k, b) \<in> set (sent_mapping X m)" by (rule map_of_SomeD)
    with m(1) show "(\<exists>n. k = cx_encode X n) \<and> (\<exists>s. b = cx_encode X s)"
      by (auto simp: sent_mapping_def sendable_def)
  qed
qed

lemma stream_ok_append:
  assumes "stream_ok E es" and "i \<notin> fst ` set es" and "distinct (map fst m)" and "text_hash (qe_codecs E) (map_of m)"
  shows "stream_ok E (drop n es @ [(i, m)])"
proof -
  have "set (drop n es) \<subseteq> set es" by (rule set_drop_subset)
  moreover have "distinct (map fst (drop n es))"
    using assms(1) by (simp add: stream_ok_def drop_map [symmetric] distinct_drop)
  ultimately show ?thesis using assms unfolding stream_ok_def by auto
qed

lemma script_keeps:
  assumes ok: "queue_ok E"
  shows "keeps (wf_at E) (enqueue_script (qe_redis E) (enqueue_args_of E q job_id t))"
proof -
  let ?R = "qe_redis E" and ?a = "enqueue_args_of E q job_id t" and ?X = "qe_codecs E"
  have X: "codecs_ok ?X" by (rule queue_okD(4) [OF ok])
  note keys = redis_keys_okD [OF queue_okD(2) [OF ok]]
  have get: "keeps (wf_at E) (rd_get ?R k)" for k
    by (rule keeps_command [OF keys(2)]) simp
  have incr: "keeps (wf_at E) (rd_incr ?R k)" for k
    by (rule keeps_command [OF keys(4)]) (auto intro: queue_wf_frame simp: view_set_def)
  have expire: "0 < n \<Longrightarrow> keeps (wf_at E) (rd_expire ?R k n)" for k n
    by (rule keeps_command [OF keys(5)]) simp
  have ttl: "keeps (wf_at E) (rd_ttl ?R k)" for k
    by (rule keeps_command [OF keys(6)]) simp
  have setex: "keeps (wf_at E) (rd_set_ex ?R k b n)" for k b n
    by (rule keeps_command [OF keys(3)]) (auto intro: queue_wf_frame simp: view_set_def)
  have xadd: "keeps (wf_at E) (rd_xadd ?R (ea_stream ?a) n (script_entry ?a))" for n
  proof (rule keeps_command [OF redis_streams_okD(1) [OF queue_okD(3) [OF ok]]])
    fix v i v' assume wf: "queue_wf E v" and "append_effect (ea_stream ?a) n (script_entry ?a) v i v'"
    then obtain k where "i \<notin> fst ` set (rv_streams v (qf_stream_name (qe_config E)))"
      "v' = view_stream (qf_stream_name (qe_config E)) (drop k (rv_streams v (qf_stream_name (qe_config E))) @ [(i, script_entry ?a)]) v"
      by (auto simp: append_effect_def enqueue_args_of_def Let_def)
    moreover have "distinct (map fst (script_entry ?a))" "text_hash ?X (map_of (script_entry ?a))"
      unfolding script_entry_sent [OF X] by (rule text_hash_sent [OF X]; simp add: entry_fields_def)+
    ultimately show "queue_wf E v'"
      using wf stream_ok_append by (auto simp: queue_wf_def view_stream_def jobs_ok_def)
  qed
  have fresh: "rd_xadd ?R s n m r = (Inr i, r') \<Longrightarrow> entry_id_text i" for s n m r i r'
    by (drule answersD(2) [OF redis_streams_okD(1) [OF queue_okD(3) [OF ok]]]) (auto simp: append_effect_def)
  have hset: "keeps (wf_at E) (rd_hset ?R (ea_status_key ?a) (script_status ?a i))" if "entry_id_text i" for i
  proof (rule keeps_command [OF keys(7)])
    fix v :: redis_view and a :: int and v'
    assume wf: "queue_wf E v" and "v' = view_hset (ea_status_key ?a) (script_status ?a i) v"
    then show "queue_wf E v'"
      using queue_wf_hset [OF X wf, of "queued_fields ?X q job_id t i" job_id] script_status_sent [OF X that]
      by (simp add: enqueue_args_of_def Let_def queued_fields_def)
  qed
  have append: "keeps (wf_at E) (script_append ?R ?a)"
    unfolding script_append_def
  proof (rule keeps_bind_where [where Q = entry_id_text])
    fix i assume i: "entry_id_text i"
    show "keeps (wf_at E) (seq (rd_hset ?R (ea_status_key ?a) (script_status ?a i))
        (seq (rd_expire ?R (ea_status_key ?a) (ea_status_ttl ?a))
        (seq (rd_set_ex ?R (ea_dedup_key ?a) (ea_job_id ?a) (ea_dedup_cooldown ?a))
             (ret (script_reply [''QUEUED'', ea_job_id ?a, i])))))"
      by (intro keeps_rules hset [OF i] setex expire)
         (use queue_okD(5) [OF ok] in \<open>simp add: enqueue_args_of_def Let_def\<close>)
  qed (rule xadd, erule fresh)
  show ?thesis
    unfolding enqueue_script_def
    by (intro keeps_rules get incr expire ttl append)
       (use queue_okD(6) [OF ok] in \<open>simp add: enqueue_args_of_def Let_def\<close>)
qed

lemma get_job_keeps: "queue_ok E \<Longrightarrow> keeps (wf_at E) (get_job E j)"
  unfolding get_job_def
  by (intro keeps_rules preserves_call [OF _ redis_keys_okD(8) [OF queue_okD(2)]]) simp_all

lemma enqueue_keeps: "queue_ok E \<Longrightarrow> keeps (wf_at E) (enqueue E job_id t q)"
  unfolding enqueue_def enqueue_outcome_def
  by (intro keeps_rules keeps_call script_keeps get_job_keeps)

section \<open>The other operations keep it\<close>

lemma streams_keep:
  assumes ok: "queue_ok E"
  shows "keeps (wf_at E) (call (qe_redis E) (rd_xgroup_create (qe_redis E) s g))"
    and "keeps (wf_at E) (call (qe_redis E) (rd_xautoclaim (qe_redis E) s g c n))"
    and "keeps (wf_at E) (call (qe_redis E) (rd_xreadgroup (qe_redis E) s g c n))"
    and "keeps (wf_at E) (call (qe_redis E) (rd_xlen (qe_redis E) s))"
    and "keeps (wf_at E) (call (qe_redis E) (rd_xpending (qe_redis E) s g))"
    and "keeps (wf_at E) (call (qe_redis E) (rd_xinfo_consumers (qe_redis E) s g))"
    and "keeps (wf_at E) (call (qe_redis E) (rd_xrange (qe_redis E) s i))"
    and "keeps (wf_at E) (call (qe_redis E) (rd_xrevrange (qe_redis E) s n))"
    and "keeps (wf_at E) (call (qe_redis E) (rd_xtrim (qe_redis E) (qf_dead_letter_stream_name (qe_config E))))"
proof -
  note D = redis_streams_okD [OF queue_okD(3) [OF ok]] and P = preserves_call [OF ok]
  show "keeps (wf_at E) (call (qe_redis E) (rd_xgroup_create (qe_redis E) s g))" by (rule P [OF D(3)]) simp
  show "keeps (wf_at E) (call (qe_redis E) (rd_xautoclaim (qe_redis E) s g c n))"
    by (rule P [OF D(4)]) (auto simp: claim_effect_def view_deliver_def elim!: queue_wf_frame)
  show "keeps (wf_at E) (call (qe_redis E) (rd_xreadgroup (qe_redis E) s g c n))"
    by (rule P [OF D(5)]) (auto simp: read_effect_def view_deliver_def elim!: queue_wf_frame)
  show "keeps (wf_at E) (call (qe_redis E) (rd_xlen (qe_redis E) s))" by (rule P [OF D(6)]) simp
  show "keeps (wf_at E) (call (qe_redis E) (rd_xpending (qe_redis E) s g))" by (rule P [OF D(7)]) simp
  show "keeps (wf_at E) (call (qe_redis E) (rd_xinfo_consumers (qe_redis E) s g))" by (rule P [OF D(8)]) simp
  show "keeps (wf_at E) (call (qe_redis E) (rd_xrange (qe_redis E) s i))" by (rule P [OF D(9)]) simp
  show "keeps (wf_at E) (call (qe_redis E) (rd_xrevrange (qe_redis E) s n))" by (rule P [OF D(10)]) simp
  show "keeps (wf_at E) (call (qe_redis E) (rd_xtrim (qe_redis E) (qf_dead_letter_stream_name (qe_config E))))"
    by (rule P [OF D(11)]) (use queue_okD(7) [OF ok] in \<open>auto simp: view_stream_def elim!: queue_wf_frame\<close>)
qed

lemma ensure_consumer_group_keeps: "queue_ok E \<Longrightarrow> keeps (wf_at E) (ensure_consumer_group E)"
  unfolding ensure_consumer_group_def
  by (rule keeps_try_catch [OF streams_keep(1)])
     (auto intro!: keeps_rules split: queue_exn.split redis_fault.split)

lemma receive_keeps: "queue_ok E \<Longrightarrow> keeps (wf_at E) (receive E c)"
  unfolding receive_def claim_or_read_def Let_def
  by (intro keeps_rules ensure_consumer_group_keeps streams_keep get_job_keeps ack_keeps)

lemma queries_keep:
  assumes ok: "queue_ok E"
  shows "keeps (wf_at E) (queue_status E)" and "keeps (wf_at E) (list_dead_letters E n)"
    and "keeps (wf_at E) (purge_dead_letters E)"
proof -
  show "keeps (wf_at E) (queue_status E)"
    unfolding queue_status_def Let_def split_def
    by (intro keeps_rules ensure_consumer_group_keeps streams_keep ok)
  show "keeps (wf_at E) (list_dead_letters E n)" "keeps (wf_at E) (purge_dead_letters E)"
    unfolding list_dead_letters_def purge_dead_letters_def Let_def by (intro keeps_rules streams_keep ok)+
qed

lemma keeps_list [keeps_rules]:
  "keeps I m \<Longrightarrow> (\<And>x xs. keeps I (f x xs)) \<Longrightarrow> keeps I (case l of [] \<Rightarrow> m | x # xs \<Rightarrow> f x xs)"
  by (cases l) simp_all

lemma replay_keeps: "queue_ok E \<Longrightarrow> keeps (wf_at E) (replay_dead_letter E job_id t i)"
  unfolding replay_dead_letter_def range_entry_def Let_def
  by (intro keeps_rules streams_keep enqueue_keeps)

section \<open>Histories\<close>

text \<open>
  The actors of a deployment take turns on the world: submitters, operators and consumers, in any
  order, each with any arguments. The rest of the application may change its own state at any time.
\<close>

inductive maintenance_step :: "('r, 'v, 'n) worker_env \<Rightarrow> ('r, 'v) worker_world \<Rightarrow> ('r, 'v) worker_world \<Rightarrow> bool"
  for W where
  submitted: "maintenance_step W w (snd (submit W enabled batch_id created job_id t operations requested_by w))"
| enqueued: "maintenance_step W w (snd (on_redis (enqueue (we_queue W) job_id t q) w))"
| looked_up: "maintenance_step W w (snd (on_redis (get_job (we_queue W) job_id) w))"
| reported: "maintenance_step W w (snd (on_redis (queue_status (we_queue W)) w))"
| listed: "maintenance_step W w (snd (on_redis (list_dead_letters (we_queue W) limit) w))"
| purged: "maintenance_step W w (snd (on_redis (purge_dead_letters (we_queue W)) w))"
| replayed: "maintenance_step W w (snd (on_redis (replay_dead_letter (we_queue W) job_id t entry_id) w))"
| consumed: "maintenance_step W w (snd (consumer_turn W consumer_name readings w))"
| elsewhere: "maintenance_step W w (w\<lparr>ww_app := v\<rparr>)"

definition fresh_queue :: "('r, 'v, 'n) worker_env \<Rightarrow> ('r, 'v) worker_world \<Rightarrow> bool" where
  "fresh_queue W w \<longleftrightarrow> rv_streams (view_of (we_queue W) (ww_redis w)) = (\<lambda>_. []) \<and>
     rv_hashes (view_of (we_queue W) (ww_redis w)) = (\<lambda>_. Map.empty)"

inductive maintained :: "('r, 'v, 'n) worker_env \<Rightarrow> ('r, 'v) worker_world \<Rightarrow> bool"
  for W where
  started: "fresh_queue W w \<Longrightarrow> maintained W w"
| stepped: "maintained W w \<Longrightarrow> maintenance_step W w w' \<Longrightarrow> maintained W w'"

abbreviation wf_world :: "('r, 'v, 'n) worker_env \<Rightarrow> ('r, 'v) worker_world \<Rightarrow> bool" where
  "wf_world W w \<equiv> wf_at (we_queue W) (ww_redis w)"

lemma fresh_queue_wf: "fresh_queue W w \<Longrightarrow> wf_world W w"
  by (simp add: fresh_queue_def queue_wf_def stream_ok_def jobs_ok_def text_hash_def text_at_def)

lemma on_redis_keeps: "keeps (wf_at (we_queue W)) m \<Longrightarrow> keeps (wf_world W) (on_redis m)"
  by (auto simp: keeps_def on_redis_def split: prod.split)

lemma app_keeps:
  "keeps (wf_world W) (on_app h m)" "keeps (wf_world W) (checked x)"
  "keeps (wf_world W) (load_payload W i)" "keeps (wf_world W) (delete_payload W i)"
  "keeps (wf_world W) (save_payload W t i k b)"
  by (auto simp: keeps_def on_app_def checked_def statement_def load_payload_def delete_payload_def
      save_payload_def gets_def modify_def split: prod.split sum.split option.split)

lemma execute_job_wf: "keeps (wf_world W) (execute_job W d)"
proof -
  have "keeps (\<lambda>w. ww_redis w = r) (execute_job W d)" for r by (rule execute_job_keeps_redis)
  then show ?thesis unfolding keeps_def by metis
qed

lemma keeps_raising [keeps_rules]: "keeps I m \<Longrightarrow> keeps I (raising h m)"
  by (auto simp: keeps_def raising_def split: prod.split sum.split)

lemma process_delivery_keeps:
  assumes ok: "queue_ok (we_queue W)"
  shows "keeps (wf_world W) (process_delivery W t d)"
proof -
  have failed: "keeps (wf_world W) (seq (on_redis (mark_failed (we_queue W) n f d k e)) (ret ()))" for n f k e
    by (intro keeps_rules on_redis_keeps mark_failed_keeps ok)
  have succeeded: "keeps (wf_world W) (on_redis (mark_succeeded (we_queue W) n d res))" for n res
    by (intro on_redis_keeps mark_succeeded_keeps ok)
  show ?thesis
    unfolding process_delivery_def
  proof (rule keeps_bind [OF on_redis_keeps [OF mark_running_keeps [OF ok]]])
    fix k
    show "keeps (wf_world W) (\<lambda>w. case execute_job W d w of
       (Inl JobCancelled, w') \<Rightarrow> (Inl CancelledError, w')
     | (Inl (JobRaised name exc_text), w') \<Rightarrow>
         seq (on_redis (mark_failed (we_queue W) (at_finished t) (at_failed t) d k
                (safe_error_summary name exc_text))) (ret ()) w'
     | (Inr result, w') \<Rightarrow> on_redis (mark_succeeded (we_queue W) (at_finished t) d result) w')"
      unfolding keeps_def
    proof (intro allI impI)
      fix w assume "wf_world W w"
      obtain x w' where x: "execute_job W d w = (x, w')" by (rule prod.exhaust)
      have "wf_world W w'" by (rule keepsD [OF execute_job_wf _ x]) fact
      note after = this keeps_snd [OF failed this] keeps_snd [OF succeeded this]
      show "wf_world W (snd (case execute_job W d w of
         (Inl JobCancelled, w') \<Rightarrow> (Inl CancelledError, w')
       | (Inl (JobRaised name exc_text), w') \<Rightarrow>
           seq (on_redis (mark_failed (we_queue W) (at_finished t) (at_failed t) d k
                  (safe_error_summary name exc_text))) (ret ()) w'
       | (Inr result, w') \<Rightarrow> on_redis (mark_succeeded (we_queue W) (at_finished t) d result) w'))"
        unfolding x using after by (simp split: sum.split job_exn.split)
    qed
  qed
qed

lemma keeps_ignoring_unavailable [keeps_rules]: "keeps I m \<Longrightarrow> keeps I (ignoring_unavailable x m)"
  unfolding ignoring_unavailable_def
  by (rule keeps_try_catch) (simp_all add: keeps_ret keeps_raise split: queue_exn.split)

lemma consumer_turn_keeps: "queue_ok (we_queue W) \<Longrightarrow> keeps (wf_world W) (consumer_turn W c t)"
  unfolding consumer_turn_def
  by (intro keeps_rules on_redis_keeps receive_keeps process_delivery_keeps)

lemma submit_keeps:
  fixes W :: "('r, 'v, 'n) worker_env"
  assumes ok: "queue_ok (we_queue W)"
  shows "keeps (wf_world W) (submit W en b t0 j t ops who)"
proof -
  have undo: "keeps (wf_world W) (seq (raising DatabaseError (delete_payload W b))
      (raise e :: ('r, 'v, submit_exn, MaintenanceJobSnapshot) work))" for e
    by (intro keeps_seq keeps_raising app_keeps keeps_raise)
  have handler: "keeps (wf_world W) (case e of
        QueueError (MaintenanceQueueUnavailableError _) \<Rightarrow>
          seq (raising DatabaseError (delete_payload W b)) (raise e)
      | QueueError (MaintenanceSubmissionRateLimitError _) \<Rightarrow>
          seq (raising DatabaseError (delete_payload W b)) (raise e)
      | _ \<Rightarrow> (raise e :: ('r, 'v, submit_exn, MaintenanceJobSnapshot) work))" for e
    using undo by (simp add: keeps_raise split: submit_exn.split queue_exn.split)
  show ?thesis
    unfolding submit_def
    by (intro keeps_if keeps_raise keeps_seq keeps_try_catch [OF _ handler] keeps_raising app_keeps
        on_redis_keeps enqueue_keeps ok)
qed

lemma maintenance_step_keeps:
  assumes ok: "queue_ok (we_queue W)" and "maintenance_step W w w'" "wf_world W w"
  shows "wf_world W w'"
proof -
  note [simp] = assms(3) and redis = keeps_snd [OF on_redis_keeps [where W = W]]
  show ?thesis
    using assms(2)
    by cases (simp_all add: keeps_snd [OF submit_keeps [OF ok]] keeps_snd [OF consumer_turn_keeps [OF ok]]
      redis [OF enqueue_keeps [OF ok]] redis [OF get_job_keeps [OF ok]] redis [OF queries_keep(1) [OF ok]]
      redis [OF queries_keep(2) [OF ok]] redis [OF queries_keep(3) [OF ok]] redis [OF replay_keeps [OF ok]])
qed

lemma maintained_wf: "queue_ok (we_queue W) \<Longrightarrow> maintained W w \<Longrightarrow> wf_world W w"
  by (rotate_tac, induction rule: maintained.induct) (auto intro: fresh_queue_wf maintenance_step_keeps)

end
