(* ===== verification/Queue_Refinement.thy ===== *)
theory Queue_Refinement
  imports Queue_Properties
begin

text \<open>
  The contract of the maintenance queue as an abstract machine, job records and a set of
  unacknowledged entries, and the proof that the consumer's operations on Redis implement it, for
  single transitions and for whole histories.
\<close>

section \<open>Simulations\<close>

inductive runs :: "('l \<Rightarrow> 'c \<Rightarrow> 'c \<Rightarrow> bool) \<Rightarrow> 'l list \<Rightarrow> 'c \<Rightarrow> 'c \<Rightarrow> bool" for step where
  runs_none: "runs step [] c c"
| runs_more: "step l c c' \<Longrightarrow> runs step ls c' c'' \<Longrightarrow> runs step (l # ls) c c''"

inductive_simps runs_simps: "runs step [] c c'" "runs step (l # ls) c c'"

fun allowed_run :: "('l \<Rightarrow> 'a \<Rightarrow> bool) \<Rightarrow> ('l \<Rightarrow> 'a \<Rightarrow> 'a) \<Rightarrow> 'l list \<Rightarrow> 'a \<Rightarrow> bool" where
  "allowed_run allowed step [] a = True"
| "allowed_run allowed step (l # ls) a = (allowed l a \<and> allowed_run allowed step ls (step l a))"

text \<open>A concrete system that follows an abstract one as long as the abstract one allows the step.\<close>

locale simulation =
  fixes rel :: "'c \<Rightarrow> 'a \<Rightarrow> bool"
    and cstep :: "'l \<Rightarrow> 'c \<Rightarrow> 'c \<Rightarrow> bool"
    and astep :: "'l \<Rightarrow> 'a \<Rightarrow> 'a"
    and allowed :: "'l \<Rightarrow> 'a \<Rightarrow> bool"
  assumes sim: "rel c a \<Longrightarrow> allowed l a \<Longrightarrow> cstep l c c' \<Longrightarrow> rel c' (astep l a)"
begin

lemma sim_run: "runs cstep ls c c' \<Longrightarrow> rel c a \<Longrightarrow> allowed_run allowed astep ls a \<Longrightarrow> rel c' (fold astep ls a)"
  by (induction ls c c' arbitrary: a rule: runs.induct) (auto intro: sim)

end

section \<open>The abstract queue\<close>

record abstract_queue =
  aq_jobs :: "str \<Rightarrow> MaintenanceJobSnapshot option"
  aq_pending :: "str set"

datatype transition =
  Running instant MaintenanceJobDelivery
| Succeeded instant MaintenanceJobDelivery job_result
| Failed instant instant MaintenanceJobDelivery int str

fun transition_job :: "transition \<Rightarrow> str" where
  "transition_job (Running _ d) = js_job_id (dv_job d)"
| "transition_job (Succeeded _ d _) = js_job_id (dv_job d)"
| "transition_job (Failed _ _ d _ _) = js_job_id (dv_job d)"

fun job_step :: "int \<Rightarrow> transition \<Rightarrow> MaintenanceJobSnapshot \<Rightarrow> MaintenanceJobSnapshot" where
  "job_step max_attempts (Running now _) s = begin_attempt now s"
| "job_step max_attempts (Succeeded now _ r) s = succeed now r s"
| "job_step max_attempts (Failed now _ _ attempt e) s = fail (max_attempts \<le> attempt) now (take 1000 e) s"

fun acknowledged :: "int \<Rightarrow> transition \<Rightarrow> str set" where
  "acknowledged max_attempts (Running _ _) = {}"
| "acknowledged max_attempts (Succeeded _ d _) = {dv_stream_id d}"
| "acknowledged max_attempts (Failed _ _ d attempt _) = (if max_attempts \<le> attempt then {dv_stream_id d} else {})"

definition queue_step :: "int \<Rightarrow> transition \<Rightarrow> abstract_queue \<Rightarrow> abstract_queue" where
  "queue_step max_attempts l a =
     a\<lparr>aq_jobs := (aq_jobs a)(transition_job l := map_option (job_step max_attempts l) (aq_jobs a (transition_job l))),
       aq_pending := aq_pending a - acknowledged max_attempts l\<rparr>"

text \<open>A transition concerns a known job; a result has the job's kind and 64-bit counts.\<close>

fun transition_allowed :: "transition \<Rightarrow> abstract_queue \<Rightarrow> bool" where
  "transition_allowed (Succeeded now d r) a \<longleftrightarrow> result_bounded r \<and>
     (\<exists>s. aq_jobs a (js_job_id (dv_job d)) = Some s \<and> result_kind r = js_kind s)"
| "transition_allowed l a \<longleftrightarrow> aq_jobs a (transition_job l) \<noteq> None"

section \<open>The concrete queue\<close>

definition represents :: "'r queue_env \<Rightarrow> redis_view \<Rightarrow> abstract_queue \<Rightarrow> bool" where
  "represents E v a \<longleftrightarrow>
     (\<forall>j s. aq_jobs a j = Some s \<longrightarrow> job_hash (qe_codecs E) (status_hash E v j) s) \<and>
     rv_pending v (qf_stream_name (qe_config E)) (qf_consumer_group (qe_config E)) =
       cx_encode (qe_codecs E) ` aq_pending a"

fun performs :: "'r queue_env \<Rightarrow> transition \<Rightarrow> 'r \<Rightarrow> 'r \<Rightarrow> bool" where
  "performs E (Running now d) r r' \<longleftrightarrow> (\<exists>n. mark_running E now d r = (Inr n, r'))"
| "performs E (Succeeded now d res) r r' \<longleftrightarrow> mark_succeeded E now d res r = (Inr (), r')"
| "performs E (Failed now failed_at d attempt e) r r' \<longleftrightarrow>
     (\<exists>terminal. mark_failed E now failed_at d attempt e r = (Inr terminal, r'))"

lemma represents_step:
  assumes X: "codecs_ok (qe_codecs E)" and rep: "represents E v a"
    and known: "aq_jobs a (transition_job l) = Some s"
    and job: "job_hash (qe_codecs E) (status_hash E v' (transition_job l)) (job_step k l s)"
    and frame: "only_job_changed E (transition_job l) v v'"
    and pending: "rv_pending v' (qf_stream_name (qe_config E)) (qf_consumer_group (qe_config E)) =
      rv_pending v (qf_stream_name (qe_config E)) (qf_consumer_group (qe_config E)) -
        cx_encode (qe_codecs E) ` acknowledged k l"
  shows "represents E v' (queue_step k l a)"
proof -
  have "inj (cx_encode (qe_codecs E))" by (rule injI) (simp add: encode_inject [OF X])
  then have "cx_encode (qe_codecs E) ` (aq_pending a - acknowledged k l) =
      cx_encode (qe_codecs E) ` aq_pending a - cx_encode (qe_codecs E) ` acknowledged k l"
    by (rule image_set_diff)
  moreover have "job_hash (qe_codecs E) (status_hash E v' j) t"
    if "aq_jobs (queue_step k l a) j = Some t" for j t
  proof (cases "j = transition_job l")
    case True
    with that known job show ?thesis by (simp add: queue_step_def)
  next
    case False
    with that rep have "job_hash (qe_codecs E) (status_hash E v j) t"
      by (simp add: queue_step_def represents_def)
    with False frame show ?thesis by (simp add: only_job_changed_def)
  qed
  ultimately show ?thesis using rep pending by (simp add: represents_def queue_step_def)
qed

lemma performs_simulated:
  assumes ok: "queue_ok E" and calm: "no_expiry (qe_redis E)"
    and rep: "represents E (view_of E r) a" and allowed: "transition_allowed l a"
    and run: "performs E l r r'"
  shows "represents E (view_of E r') (queue_step (qf_max_attempts (qe_config E)) l a)"
proof -
  obtain s where known: "aq_jobs a (transition_job l) = Some s"
    using allowed by (cases l) auto
  then have job: "job_hash (qe_codecs E) (status_hash E (view_of E r) (transition_job l)) s"
    using rep by (simp add: represents_def)
  show ?thesis
  proof (cases l)
    case (Running now d)
    with run obtain n where "mark_running E now d r = (Inr n, r')" by auto
    from mark_running_returns [OF ok calm _ this] job Running show ?thesis
      by (intro represents_step [OF queue_okD(4) [OF ok] rep known]) auto
  next
    case (Succeeded now d res)
    with allowed known have "result_bounded res" "result_kind res = js_kind s" by auto
    from mark_succeeded_returns [OF ok calm _ this] job Succeeded run show ?thesis
      by (intro represents_step [OF queue_okD(4) [OF ok] rep known]) (auto simp: view_ack_def)
  next
    case (Failed now failed_at d attempt e)
    with run obtain t where "mark_failed E now failed_at d attempt e r = (Inr t, r')" by auto
    from mark_failed_returns [OF ok calm _ this] job Failed show ?thesis
      by (intro represents_step [OF queue_okD(4) [OF ok] rep known]) (auto simp: view_ack_def)
  qed
qed

interpretation consumer: simulation
  "\<lambda>r a. queue_ok E \<and> no_expiry (qe_redis E) \<and> represents E (view_of E r) a"
  "performs E" "queue_step (qf_max_attempts (qe_config E))" transition_allowed
  for E :: "'r queue_env"
  by unfold_locales (auto intro: performs_simulated)

end
