(* ===== verification/Maintenance_Properties.thy ===== *)
theory Maintenance_Properties
  imports Queue_Invariant Queue_Refinement
begin

text \<open>
  The properties of the maintenance queue and its workers, each with a run on the in-memory
  server, and the behaviours that differ from what the code documents.
\<close>

section \<open>A concrete deployment\<close>

definition memory_queue :: "memory queue_env" where
  "memory_queue = \<lparr> qe_redis = memory_redis, qe_config = default_config, qe_codecs = memory_codecs,
     qe_sha256 = id \<rparr>"

lemma memory_queue_simps [simp]:
  "qe_redis memory_queue = memory_redis" "qe_config memory_queue = default_config"
  "qe_codecs memory_queue = memory_codecs" "qe_sha256 memory_queue = id"
  by (simp_all add: memory_queue_def)

lemma memory_queue_ok: "queue_ok memory_queue"
  by (simp add: queue_ok_def memory_redis_ok memory_codecs_ok default_config_valid)
     (simp add: default_config_def)

lemma memory_no_expiry: "no_expiry memory_redis"
  by (simp add: no_expiry_def memory_link_def split: list.split)

definition reindex_request :: MaintenanceJobRequest where
  "reindex_request = \<lparr> jr_kind = EMBEDDING_REINDEX, jr_requested_by = ''ops'', jr_source_id = ''manual'',
     jr_limit = 250, jr_force = False \<rparr>"

definition idle_notes :: "(unit, unit) note_port" where
  "idle_notes = \<lparr> np_read_note = (\<lambda>_. ret ()), np_read_note_by_path = (\<lambda>_. ret ()),
     np_validate_note_links = (\<lambda>_ _. raise (ObsidianNotFoundError [])),
     np_write_note = (\<lambda>_. ret \<lparr> wo_operation = OP_CREATED, wo_content_hash = ''h'' \<rparr>) \<rparr>"

definition memory_worker :: "(memory, unit, unit) worker_env" where
  "memory_worker = \<lparr> we_queue = memory_queue, we_notes = idle_notes, we_max_operations = 50,
     we_batch_limit = 50,
     we_reindex_embeddings = (\<lambda>_ _. ret \<lparr> rx_scanned = 1, rx_updated = 1, rx_skipped = 0, rx_warnings = [] \<rparr>),
     we_db = (\<lambda>v. (None, v)) \<rparr>"

definition memory_world :: "link list \<Rightarrow> (memory, unit) worker_world" where
  "memory_world ls = \<lparr> ww_redis = fresh_memory ls, ww_payloads = [], ww_app = () \<rparr>"

lemma memory_world_fresh: "fresh_queue memory_worker (memory_world ls)"
  by (simp add: fresh_queue_def memory_world_def memory_worker_def fresh_memory_def empty_view_def)

lemma memory_worker_ok: "queue_ok (we_queue memory_worker)"
  by (simp add: memory_worker_def memory_queue_ok)

section \<open>Submission\<close>



section \<open>Safety\<close>

text \<open>
  Whatever the connection does and whatever expires, in every world that submitters, operators
  and consumers can reach, the data is well formed (stream entries are readable and distinct, every
  status record names its own job), and a lookup that finds a job returns the job asked for.
\<close>

theorem lookups_answer_the_job_asked_for:
  assumes "queue_ok (we_queue W)" and "maintained W w"
    and "get_job (we_queue W) job_id (ww_redis w) = (x, r')"
  shows "queue_wf (we_queue W) (view_of (we_queue W) (ww_redis w)) \<and>
    (\<forall>s. x = Inr (Some s) \<longrightarrow> js_job_id s = job_id)"
proof -
  let ?E = "we_queue W" and ?v = "view_of (we_queue W) (ww_redis w)"
  have wf: "queue_wf ?E ?v" by (rule maintained_wf [OF assms(1,2)])
  then have "kept ?E (rv_streams ?v (qf_stream_name (qe_config ?E))) (main_pending ?E ?v) ?v"
    by (simp add: kept_def queue_wf_def)
  from runs_to_outcome [OF get_job_effect [OF assms(1), where j = job_id] this] assms(3) wf show ?thesis
    by (auto split: sum.splits)
qed

text \<open>The lookup after a submission whose answer was lost.\<close>

theorem lookups_answer_the_job_asked_for_witness:
  "case fst (get_job memory_queue ''job-1'' (ww_redis (snd (on_redis
      (enqueue (we_queue memory_worker) ''job-1'' 7 reindex_request) (memory_world [ReplyLost ''timeout'']))))) of
     Inr (Some s) \<Rightarrow> js_job_id s = ''job-1'' | _ \<Rightarrow> True"
proof -
  let ?w = "snd (on_redis (enqueue (we_queue memory_worker) ''job-1'' 7 reindex_request) (memory_world [ReplyLost ''timeout'']))"
  obtain x r' where run: "get_job (we_queue memory_worker) ''job-1'' (ww_redis ?w) = (x, r')" by (rule prod.exhaust)
  have "maintained memory_worker ?w"
    by (rule stepped [OF started [OF memory_world_fresh] enqueued])
  from lookups_answer_the_job_asked_for [OF memory_worker_ok this run]
  have "case x of Inr (Some s) \<Rightarrow> js_job_id s = ''job-1'' | _ \<Rightarrow> True" by (auto split: sum.split option.split)
  moreover have "we_queue memory_worker = memory_queue" by (simp add: memory_worker_def)
  ultimately show ?thesis using run by simp
qed



section \<open>Refinement\<close>


definition executions :: "str \<Rightarrow> transition list \<Rightarrow> nat" where
  "executions j ls = length (filter (\<lambda>l. case l of Running _ d \<Rightarrow> js_job_id (dv_job d) = j | _ \<Rightarrow> False) ls)"

lemma fold_attempts:
  "aq_jobs a j = Some s \<Longrightarrow> \<exists>s'. aq_jobs (fold (queue_step k) ls a) j = Some s' \<and>
     js_attempts s' = js_attempts s + int (executions j ls) \<and> js_job_id s' = js_job_id s \<and> js_kind s' = js_kind s"
proof (induction ls arbitrary: a s)
  case (Cons l ls)
  define t where "t = (if j = transition_job l then job_step k l s else s)"
  have t: "aq_jobs (queue_step k l a) j = Some t" using Cons.prems by (auto simp: queue_step_def t_def)
  have "js_attempts t = js_attempts s + int (executions j [l]) \<and> js_job_id t = js_job_id s \<and> js_kind t = js_kind s"
    by (cases l) (simp_all add: t_def executions_def begin_attempt_def succeed_def fail_def)
  with Cons.IH [OF t] show ?case by (auto simp: executions_def)
qed (simp add: executions_def)

text \<open>
  The attempt counter of a job counts its executions: after any history of completed
  transitions the status record of a job has its earlier attempts plus one for each time the job
  was started, whatever happened to other jobs in between, and it is still the record of the same
  job of the same kind.
\<close>

theorem attempts_count_executions:
  assumes "queue_ok E" and "no_expiry (qe_redis E)" and "represents E (view_of E r) a"
    and "allowed_run transition_allowed (queue_step (qf_max_attempts (qe_config E))) ls a"
    and "runs (performs E) ls r r'" and "aq_jobs a j = Some s"
  shows "\<exists>s'. job_hash (qe_codecs E) (status_hash E (view_of E r') j) s' \<and>
    js_attempts s' = js_attempts s + int (executions j ls) \<and> js_job_id s' = js_job_id s \<and> js_kind s' = js_kind s"
proof -
  have "represents E (view_of E r') (fold (queue_step (qf_max_attempts (qe_config E))) ls a)"
    using consumer.sim_run [OF assms(5) _ assms(4)] assms(1-3) by blast
  with fold_attempts [OF assms(6), of "qf_max_attempts (qe_config E)" ls] show ?thesis
    unfolding represents_def by blast
qed

text \<open>On the in-memory server with nothing lost, a job that is known can be started and failed.\<close>

lemma memory_call:
  "me_links r = [] \<Longrightarrow> call memory_redis m r = (case m r of (Inl f, r') \<Rightarrow> (Inl (RedisFault f), r') | (Inr x, r') \<Rightarrow> (Inr x, r'))"
  by (simp add: call_def exchange_def memory_link_def)

lemma memory_write_status:
  "me_links r = [] \<Longrightarrow> \<exists>r'. write_status memory_queue k mu r = (Inr (), r') \<and> me_links r' = []"
  by (simp add: write_status_def seq_def bind_def memory_call on_view_def ret_def)

lemma memory_starts:
  assumes "me_links r = []" and "stored_number (status_hash memory_queue (me_view r) (js_job_id (dv_job d)) ''attempts'') = Some n"
    and "int64 (n + 1)"
  shows "\<exists>m r'. mark_running memory_queue now d r = (Inr m, r') \<and> me_links r' = []"
proof -
  have "memory_hincrby (status_key default_config (js_job_id (dv_job d))) (cx_encode memory_codecs ''attempts'') 1 r =
      (Inr (RInt (n + 1)), r\<lparr>me_view := view_hset (status_key default_config (js_job_id (dv_job d)))
         [(cx_encode memory_codecs ''attempts'', int_text (n + 1))] (me_view r)\<rparr>)"
    using assms(2,3) by (simp add: memory_hincrby_def memory_codecs_def)
  with assms(1) show ?thesis
    by (simp add: mark_running_def Let_def except_redis_def try_catch_def bind_def seq_def memory_call
        write_status_def on_view_def ret_def decoded_def response_integer_def)
qed

lemma memory_fails:
  assumes "me_links r = []"
  shows "\<exists>t r'. mark_failed memory_queue now f d k e r = (Inr t, r')"
proof -
  obtain r1 where "write_status memory_queue (status_key default_config (js_job_id (dv_job d)))
      (failed_mutation memory_codecs now (3 \<le> k) (take 1000 e)) r = (Inr (), r1)" "me_links r1 = []"
    using memory_write_status [OF assms] by blast
  then show ?thesis
    by (simp add: mark_failed_def Let_def except_redis_def try_catch_def bind_def seq_def memory_call whenE_def
        ret_def ack_def on_view_def memory_xadd_def default_config_def [THEN arg_cong [of _ _ qf_max_attempts]] split: prod.split)
       blast
qed
definition queued_memory :: memory where
  "queued_memory = (fresh_memory [])\<lparr>me_view := view_hset (status_key default_config ''job-1'')
     (script_status (enqueue_args_of memory_queue reindex_request ''job-1'' 7) ''1'') empty_view\<rparr>"

definition first_delivery :: MaintenanceJobDelivery where
  "first_delivery = \<lparr> dv_stream_id = ''1'', dv_job = queued_snapshot reindex_request ''job-1'' 7 ''1'' \<rparr>"

definition one_job :: abstract_queue where
  "one_job = \<lparr> aq_jobs = [''job-1'' \<mapsto> queued_snapshot reindex_request ''job-1'' 7 ''1''], aq_pending = {} \<rparr>"

abbreviation failed_start :: "transition list" where
  "failed_start \<equiv> [Running 8 first_delivery, Failed 9 9 first_delivery 3 ''boom'']"

lemma one_job_represented: "represents memory_queue (view_of memory_queue queued_memory) one_job"
proof -
  have "job_hash memory_codecs (hash_put (script_status (enqueue_args_of memory_queue reindex_request ''job-1'' 7) ''1'')
      Map.empty) (queued_snapshot reindex_request ''job-1'' 7 ''1'')"
    using queued_job_hash [of memory_queue reindex_request "''job-1''" "''1''" 7]
    by (simp add: memory_codecs_ok request_ok_def reindex_request_def int64_def entry_id_text_def is_digit_def)
  then show ?thesis
    by (simp add: represents_def one_job_def queued_memory_def view_hset_def empty_view_def fresh_memory_def)
qed

lemma failed_start_runs: "\<exists>r'. runs (performs memory_queue) failed_start queued_memory r'"
proof -
  have "\<exists>m r'. mark_running memory_queue 8 first_delivery queued_memory = (Inr m, r') \<and> me_links r' = []"
    by (rule memory_starts [where n = 0])
       (simp_all add: queued_memory_def fresh_memory_def first_delivery_def queued_snapshot_def view_hset_def
         hash_put_def script_status_def empty_view_def stored_number_def int64_def py_int_zero, code_simp)
  then show ?thesis
    using memory_fails by (fastforce intro: runs.intros)
qed

lemma failed_start_allowed:
  "allowed_run transition_allowed (queue_step (qf_max_attempts (qe_config memory_queue))) failed_start one_job"
  by (simp add: one_job_def first_delivery_def queued_snapshot_def queue_step_def)


theorem attempts_count_executions_witness:
  "\<exists>r' s. runs (performs memory_queue) failed_start queued_memory r' \<and>
     job_hash memory_codecs (status_hash memory_queue (me_view r') ''job-1'') s \<and> js_attempts s = 1"
proof -
  obtain r' where r': "runs (performs memory_queue) failed_start queued_memory r'"
    using failed_start_runs ..
  have "aq_jobs one_job ''job-1'' = Some (queued_snapshot reindex_request ''job-1'' 7 ''1'')"
    by (simp add: one_job_def)
  from attempts_count_executions [OF memory_queue_ok _ one_job_represented failed_start_allowed r' this] r' show ?thesis
    by (auto simp: memory_no_expiry executions_def first_delivery_def queued_snapshot_def)
qed

end
