(* ===== verification/Worker_Properties.thy ===== *)
theory Worker_Properties
  imports Maintenance_Properties
begin

text \<open>
  Dead letters, batch submissions and batch execution: the round trip of a replayed request, the
  report of a batch, and four situations in which the outcome differs from what the code
  documents.
\<close>

section \<open>Replaying a dead letter\<close>

lemma items_response_sent:
  assumes X: "codecs_ok X" and m: "m = map (\<lambda>(n, s). (n, TextValue s)) kvs"
  shows "normalize_fields X names label (map (\<lambda>(k, v). (RBytes k, RBytes v)) (sent_mapping X m)) [] =
    Inr (known_texts names kvs [])"
  using normalize_fields_texts [OF X, of names label kvs "[]"]
  by (simp add: m sent_mapping_def comp_def split_def)

lemma replayed_source:
  assumes X: "codecs_ok (qe_codecs E)" and q: "request_ok q"
  shows "decode_dead_letter_source_request (qe_codecs E)
      (RList [entry_response (i, script_entry (enqueue_args_of E q job_id t))]) = Inr (Some q)"
proof -
  let ?kvs = "[(''job_id'', job_id), (''kind'', job_kind_value (jr_kind q)),
     (''requested_by'', jr_requested_by q), (''source_id'', jr_source_id q),
     (''limit'', int_text (jr_limit q)), (''force'', force_flag (jr_force q)),
     (''submitted_at'', cx_isoformat (qe_codecs E) t)]"
  have "status_fields (qe_codecs E) (items_response (script_entry (enqueue_args_of E q job_id t))) =
      Inr (known_texts status_field_names ?kvs [])"
    unfolding script_entry_sent [OF X] status_fields_def items_response_def redis_response.case
    by (rule items_response_sent [OF X]) (simp add: entry_fields_def)
  moreover define F where "F = known_texts status_field_names ?kvs []"
  moreover have "map_of F n = (if n \<in> set status_field_names then map_of ?kvs n else None)" for n
    unfolding F_def by (subst map_of_known_texts) (simp_all split: option.split)
  then have "map_of F ''kind'' = Some (job_kind_value (jr_kind q))" "map_of F ''requested_by'' = Some (jr_requested_by q)"
    "map_of F ''source_id'' = Some (jr_source_id q)" "map_of F ''limit'' = Some (int_text (jr_limit q))"
    "map_of F ''force'' = Some (force_flag (jr_force q))"
    by (simp_all add: status_field_names_def)
  moreover have "job_kind_value k \<noteq> []" for k by (cases k) simp_all
  ultimately show ?thesis
    using q by (simp add: decode_dead_letter_source_request_def entry_response_def response_sequence_def Let_def
         and_then_Inr required_Inr job_kind_of_Inr text_integer_Inr request_ok_def py_int_int_text int64_short)
      (simp add: force_flag_def)
qed

text \<open>
  C40: Replaying reads back the original request: the stream entry the enqueue script writes for a
  request, given to the dead-letter replay, decodes to exactly that request.
\<close>

theorem replayed_request_is_the_original:
  assumes X: "codecs_ok (qe_codecs E)" and q: "request_ok q"
  shows "decode_dead_letter_source_request (qe_codecs E)
      (RList [entry_response (i, script_entry (enqueue_args_of E q job_id t))]) = Inr (Some q)"
  by (rule replayed_source [OF assms])

theorem replayed_request_is_the_original_witness:
  "decode_dead_letter_source_request memory_codecs
     (RList [entry_response (''1'', script_entry (enqueue_args_of memory_queue reindex_request ''job-1'' 7))]) =
   Inr (Some reindex_request)"
  using replayed_request_is_the_original [of memory_queue reindex_request "''1''" "''job-1''" 7]
  by (simp add: memory_codecs_ok request_ok_def reindex_request_def int64_def)

lemma dead_letter_decoded:
  assumes X: "codecs_ok X" and d: "js_job_id (dv_job d) \<noteq> []" "dv_stream_id d \<noteq> []" and k: "int64 k"
  shows "\<exists>l. decode_dead_letter_entries X (RList [entry_response (cx_encode X i,
      sent_mapping X (dead_letter_mapping (dead_letter_of X d k fa e)))]) = Inr [l] \<and>
    dl_source_stream_id l = dv_stream_id d \<and> dl_job_id l = js_job_id (dv_job d)"
proof -
  let ?kvs = "[(''job_id'', js_job_id (dv_job d)), (''kind'', job_kind_value (js_kind (dv_job d))),
     (''attempts'', int_text k), (''failed_at'', cx_isoformat X fa), (''error_summary'', e),
     (''source_stream_id'', dv_stream_id d)]"
  define F where "F = known_texts dead_letter_field_names ?kvs []"
  have f: "dead_letter_fields X (items_response (sent_mapping X (dead_letter_mapping (dead_letter_of X d k fa e)))) = Inr F"
    unfolding dead_letter_fields_def items_response_def redis_response.case F_def
    by (rule items_response_sent [OF X]) (simp add: dead_letter_mapping_def dead_letter_of_def)
  have "map_of F n = (if n \<in> set dead_letter_field_names then map_of ?kvs n else None)" for n
    unfolding F_def by (subst map_of_known_texts) (simp_all split: option.split)
  then have "map_of F ''job_id'' = Some (js_job_id (dv_job d))" "map_of F ''kind'' = Some (job_kind_value (js_kind (dv_job d)))"
    "map_of F ''attempts'' = Some (int_text k)" "map_of F ''failed_at'' = Some (cx_isoformat X fa)"
    "map_of F ''source_stream_id'' = Some (dv_stream_id d)"
    by (simp_all add: dead_letter_field_names_def)
  moreover have "job_kind_value k \<noteq> []" for k by (cases k) simp_all
  ultimately show ?thesis
    using f d k codecs_ok_simps(3,5,6) [OF X]
    by (simp add: decode_dead_letter_entries_def dead_letter_entry_of_def entry_response_def response_sequence_def Let_def
        response_text_def decode_encode [OF X] and_then_Inr required_Inr job_kind_of_Inr text_integer_Inr
        text_datetime_Inr py_int_int_text int64_short)
qed

lemma range_entry_returns:
  assumes "queue_ok E" "no_expiry (qe_redis E)" "range_entry E s i r = (Inr raw, r')"
  shows "view_of E r' = view_of E r"
    and "raw = RList (map entry_response (filter (\<lambda>e. fst e = cx_encode (qe_codecs E) i) (rv_streams (view_of E r) s)))"
  using assms call_returns [OF _ assms(2) redis_streams_okD(9) [OF queue_okD(3) [OF assms(1)]]]
  unfolding range_entry_def except_redis_Inr by blast+

text \<open>
  A replay within the deduplication cooldown queues nothing. When the dead letter and its
  source entry are readable and the mark of the request still names the job it was first queued
  under, the replay returns that old job, failed as it is, flagged as deduplicated, and Redis is
  unchanged; the caller is told that a fresh replacement job was queued.
\<close>

theorem replay_in_cooldown_queues_nothing:
  assumes ok: "queue_ok E" and calm: "no_expiry (qe_redis E)" and q: "request_ok q"
    and new: "job_id \<noteq> []" "status_hash E (view_of E r) job_id = Map.empty" and marks: "marks_ok E (view_of E r) q"
    and letter: "filter (\<lambda>e. fst e = cx_encode (qe_codecs E) entry_id)
        (rv_streams (view_of E r) (qf_dead_letter_stream_name (qe_config E))) =
      [(cx_encode (qe_codecs E) entry_id,
        sent_mapping (qe_codecs E) (dead_letter_mapping (dead_letter_of (qe_codecs E) d k failed_at e)))]"
    and d: "js_job_id (dv_job d) \<noteq> []" "dv_stream_id d \<noteq> []" "int64 k"
    and source: "filter (\<lambda>e. fst e = cx_encode (qe_codecs E) (dv_stream_id d))
        (rv_streams (view_of E r) (qf_stream_name (qe_config E))) =
      [(cx_encode (qe_codecs E) (dv_stream_id d), script_entry (enqueue_args_of E q (js_job_id (dv_job d)) t0))]"
    and mark: "rv_strings (view_of E r) (dedup_key E q) = Some (cx_encode (qe_codecs E) (js_job_id (dv_job d)))"
    and old: "job_hash (qe_codecs E) (status_hash E (view_of E r) (js_job_id (dv_job d))) s"
    and run: "replay_dead_letter E job_id t entry_id r = (Inr x, r')"
  shows "x = s\<lparr>js_deduplicated := True\<rparr> \<and> view_of E r' = view_of E r"
proof -
  let ?X = "qe_codecs E" and ?c = "qe_config E"
  have X: "codecs_ok ?X" by (rule queue_okD(4) [OF ok])
  obtain l where l: "decode_dead_letter_entries ?X (RList [entry_response (cx_encode ?X entry_id,
      sent_mapping ?X (dead_letter_mapping (dead_letter_of ?X d k failed_at e)))]) = Inr [l]"
    "dl_source_stream_id l = dv_stream_id d"
    using dead_letter_decoded [OF X d] by blast
  obtain raw1 r1 ls where r1: "range_entry E (qf_dead_letter_stream_name ?c) entry_id r = (Inr raw1, r1)"
    and ls: "decode_dead_letter_entries ?X raw1 = Inr ls"
    using run by (auto simp: replay_dead_letter_def Let_def queue_returns)
  note v1 = range_entry_returns [OF ok calm r1]
  have "ls = [l]" using ls l(1) v1(2) letter by simp
  then obtain raw2 r2 where r2: "range_entry E (qf_stream_name ?c) (dv_stream_id d) r1 = (Inr raw2, r2)"
    using run r1 ls l(2) by (auto simp: replay_dead_letter_def Let_def queue_returns)
  note v2 = range_entry_returns [OF ok calm r2]
  have "decode_dead_letter_source_request ?X raw2 = Inr (Some q)"
    using v2(2) v1(1) source replayed_source [OF X q] by simp
  with run r1 ls \<open>ls = [l]\<close> l(2) r2 have "enqueue E job_id t q r2 = (Inr x, r')"
    by (auto simp: replay_dead_letter_def Let_def queue_returns)
  from enqueue_returns [OF ok calm q new(1) _ _ this] v1(1) v2(1) new(2) marks mark old show ?thesis
    by (auto simp: encode_inject [OF X] job_hash_def)
qed

section \<open>Submitting a batch\<close>

text \<open>
  A lost answer to the enqueue call costs the payload of a job that was queued: the call is
  reported as an unavailable queue, the staged payload is deleted, and Redis keeps whatever the
  executed script wrote, the queued job included.
\<close>

theorem lost_answer_drops_queued_payload:
  assumes db: "\<And>v. fst (we_db W v) = None" and len: "int (length operations) \<le> we_max_operations W"
    and fresh: "find_payload batch_id (ww_payloads w) = None"
    and link: "rd_link (qe_redis (we_queue W)) (ww_redis w) = (ReplyLost e, r1)"
    and script: "enqueue_script (qe_redis (we_queue W)) (enqueue_args_of (we_queue W)
      (batch_request operations requested_by batch_id) job_id t) r1 = (Inr a, r2)"
  shows "\<exists>m w'. submit W True batch_id created job_id t operations requested_by w =
      (Inl (QueueError (MaintenanceQueueUnavailableError m)), w') \<and>
    ww_redis w' = r2 \<and> find_payload batch_id (ww_payloads w') = None"
proof -
  have db': "\<exists>v'. we_db W v = (None, v')" for v using db [of v] by (cases "we_db W v") simp
  obtain v1 where v1: "we_db W (ww_app w) = (None, v1)" using db' by blast
  obtain v2 where v2: "we_db W v1 = (None, v2)" using db' by blast
  have "enqueue (we_queue W) job_id t (batch_request operations requested_by batch_id) (ww_redis w) =
      (Inl (MaintenanceQueueUnavailableError ''Redis maintenance enqueue failed''), r2)"
    using link script
    by (simp add: enqueue_def bind_def except_redis_def try_catch_def call_def exchange_def raise_def)
  then show ?thesis
    using len fresh v1 v2
    by (simp add: submit_def seq_def bind_def raising_def save_payload_def statement_def try_catch_def
        on_redis_def delete_payload_def modify_def raise_def find_payload_def find_None_iff)
qed

section \<open>Executing a batch\<close>

lemma each_returns:
  "each f xs s = (Inr ys, s') \<Longrightarrow> length ys = length xs \<and> (\<forall>i<length xs. \<exists>u u'. f (xs ! i) u = (Inr (ys ! i), u'))"
proof (induction xs arbitrary: ys s)
  case (Cons x xs)
  then obtain y u zs where "f x s = (Inr y, u)" "each f xs u = (Inr zs, s')" "ys = y # zs"
    by (auto simp: returns_simps)
  with Cons.IH [of u zs] show ?case by (auto simp: nth_Cons split: nat.split)
qed (simp add: ret_def)

lemma write_one_returns:
  assumes "write_one N x v = (Inr y, v')"
  shows "wi_path y = bo_relative_path x \<and> wi_note_id y = bo_note_id x \<and>
    wi_status y \<in> {''created'', ''updated'', ''unchanged'', ''conflict'', ''not_found'', ''invalid''}"
proof -
  have op: "lower (write_operation_value op) \<in> {''created'', ''updated'', ''unchanged'', ''conflict'', ''not_found'', ''invalid''}" for op
    by (cases op) (simp_all, code_simp+)
  show ?thesis
    using assms
    by (auto simp: write_one_def try_catch_def bind_def ret_def raise_def Let_def write_item_def
        split: prod.splits sum.splits note_exn.splits if_splits) (use op in \<open>simp, blast\<close>)
qed

lemma count_status_append: "count_status ns (xs @ ys) = count_status ns xs + count_status ns ys"
  by (simp add: count_status_def)

text \<open>
  The report of a batch write that completes accounts for every operation: one item per
  operation, in order, with its path and note id and one of the documented statuses, and the
  succeeded, conflicted, failed and unchanged items add up to the operations.
\<close>

theorem batch_report_accounts_for_operations:
  assumes "batch_write N limit operations v = (Inr items, v')"
  shows "map wi_path items = map bo_relative_path operations \<and> map wi_note_id items = map bo_note_id operations \<and>
    int (length operations) \<le> limit \<and>
    batch_succeeded items + batch_conflicted items + batch_failed items + count_status [''unchanged''] items =
      int (length operations)"
proof -
  have run: "each (write_one N) operations v = (Inr items, v')" and len: "int (length operations) \<le> limit"
    using assms by (auto simp: batch_write_def bounded_def raise_def split: if_splits)
  have each: "length items = length operations" "\<And>i. i < length operations \<Longrightarrow>
      wi_path (items ! i) = bo_relative_path (operations ! i) \<and> wi_note_id (items ! i) = bo_note_id (operations ! i) \<and>
      wi_status (items ! i) \<in> {''created'', ''updated'', ''unchanged'', ''conflict'', ''not_found'', ''invalid''}"
    using each_returns [OF run] write_one_returns by (blast, metis)
  then have "\<forall>y\<in>set items. wi_status y \<in> {''created'', ''updated'', ''unchanged'', ''conflict'', ''not_found'', ''invalid''}"
    by (metis in_set_conv_nth)
  then have "batch_succeeded items + batch_conflicted items + batch_failed items + count_status [''unchanged''] items =
      int (length items)"
    unfolding batch_succeeded_def batch_conflicted_def batch_failed_def
    by (induction items) (auto simp: count_status_def)
  with each len show ?thesis by (auto intro!: nth_equalityI)
qed

definition two_operations :: "BatchWriteOperation list" where
  "two_operations = map (\<lambda>p. \<lparr> bo_op = ''write'', bo_title = p, bo_body = ''b'', bo_relative_path = p,
     bo_note_id = None, bo_expected_content_hash = None, bo_frontmatter = [] \<rparr>) [''a.md'', ''b.md'']"

theorem batch_report_accounts_for_operations_witness:
  "\<exists>items. batch_write idle_notes 50 two_operations () = (Inr items, ()) \<and>
     map wi_path items = [''a.md'', ''b.md''] \<and>
     batch_succeeded items + batch_conflicted items + batch_failed items + count_status [''unchanged''] items = 2"
proof -
  obtain items where run: "batch_write idle_notes 50 two_operations () = (Inr items, ())"
    by (simp add: batch_write_def bounded_def two_operations_def write_one_def try_catch_def bind_def ret_def
        idle_notes_def Let_def)
  with batch_report_accounts_for_operations [OF run] show ?thesis by (auto simp: two_operations_def)
qed

text \<open>
  The items of a batch are not independent: a validation error of the note service while
  writing one item ends the whole batch with that error, although every earlier item has been
  written and their results are lost.
\<close>

theorem invalid_item_aborts_the_batch:
  assumes "int (length (before @ x # after)) \<le> limit" and "each (write_one N) before v = (Inr items, v1)"
    and "np_write_note N (write_command x) v1 = (Inl (ObsidianValidationError m), v2)"
  shows "batch_write N limit (before @ x # after) v = (Inl (ObsidianValidationError m), v2)"
proof -
  have "write_one N x v1 = (Inl (ObsidianValidationError m), v2)"
    using assms(3) by (simp add: write_one_def try_catch_def bind_def raise_def)
  then have "each (write_one N) (before @ x # after) v = (Inl (ObsidianValidationError m), v2)"
    using assms(2)
  proof (induction before arbitrary: v items)
    case (Cons b bs)
    then obtain y u ys where "write_one N b v = (Inr y, u)" "each (write_one N) bs u = (Inr ys, v1)"
      by (auto simp: returns_simps)
    with Cons.IH [OF Cons.prems(1)] show ?case by (simp add: bind_def)
  qed (simp add: bind_def ret_def)
  with assms(1) show ?thesis by (simp add: batch_write_def bounded_def)
qed

section \<open>Delivering a finished batch again\<close>

lemma missing_payload_raises:
  assumes "\<And>v. fst (we_db W v) = None" and "js_kind (dv_job d) = BATCH_NOTE_WRITE"
    and "find_payload (js_source_id (dv_job d)) (ww_payloads w) = None"
  shows "\<exists>w'. execute_job W d w = (Inl (JobRaised ''RuntimeError''
      (''maintenance job payload is missing: '' @ js_source_id (dv_job d))), w') \<and> ww_redis w' = ww_redis w"
proof -
  obtain v where "we_db W (ww_app w) = (None, v)" using assms(1) [of "ww_app w"] by (cases "we_db W (ww_app w)") simp
  with assms(2,3) show ?thesis
    by (simp add: execute_job_def execute_batch_note_write_def Let_def load_payload_def statement_def gets_def
        bind_def raise_def)
qed

text \<open>
  A batch job that has succeeded turns into a failed one when its entry is delivered again,
  as happens when its acknowledgement was lost: the payload is gone, execution raises, and the
  status record goes from succeeded to retrying or failed, although every note was written.
  Nothing on the way checks the status of the delivered job.
\<close>

theorem redelivered_finished_batch_is_failed:
  assumes ok: "queue_ok (we_queue W)" and calm: "no_expiry (qe_redis (we_queue W))"
    and db: "\<And>v. fst (we_db W v) = None" and kind: "js_kind (dv_job d) = BATCH_NOTE_WRITE"
    and done_before: "js_status (dv_job d) = JOB_SUCCEEDED"
    and stored: "job_hash (qe_codecs (we_queue W))
      (status_hash (we_queue W) (view_of (we_queue W) (ww_redis w)) (js_job_id (dv_job d))) (dv_job d)"
    and gone: "find_payload (js_source_id (dv_job d)) (ww_payloads w) = None"
    and run: "process_delivery W t d w = (Inr (), w')"
  shows "\<exists>s. job_hash (qe_codecs (we_queue W))
      (status_hash (we_queue W) (view_of (we_queue W) (ww_redis w')) (js_job_id (dv_job d))) s \<and>
    js_status s = (if qf_max_attempts (qe_config (we_queue W)) \<le> js_attempts (dv_job d) + 1
      then JOB_FAILED else JOB_RETRYING) \<and> js_attempts s = js_attempts (dv_job d) + 1"
proof -
  let ?E = "we_queue W"
  obtain n w1 where m: "on_redis (mark_running ?E (at_started t) d) w = (Inr n, w1)"
    using run by (auto simp: process_delivery_def returns_simps)
  then have m': "mark_running ?E (at_started t) d (ww_redis w) = (Inr n, ww_redis w1)"
    and p1: "ww_payloads w1 = ww_payloads w"
    by (auto simp: on_redis_def split: prod.splits)
  note running = mark_running_returns [OF ok calm stored m']
  obtain w2 where x: "execute_job W d w1 = (Inl (JobRaised ''RuntimeError''
      (''maintenance job payload is missing: '' @ js_source_id (dv_job d))), w2)" and r2: "ww_redis w2 = ww_redis w1"
    using missing_payload_raises [OF db kind, of w1] gone p1 by auto
  let ?e = "safe_error_summary ''RuntimeError'' (''maintenance job payload is missing: '' @ js_source_id (dv_job d))"
  have "seq (on_redis (mark_failed ?E (at_finished t) (at_failed t) d n ?e)) (ret ()) w2 = (Inr (), w')"
    using run m x by (simp add: process_delivery_def bind_def)
  then obtain terminal where f: "mark_failed ?E (at_finished t) (at_failed t) d n ?e (ww_redis w1) = (Inr terminal, ww_redis w')"
    using r2 by (auto simp: seq_def bind_def on_redis_def ret_def split: prod.splits sum.splits)
  from mark_failed_returns [OF ok calm _ f] running show ?thesis
    by (auto simp: fail_def begin_attempt_def intro!: exI)
qed

definition batch_job :: MaintenanceJobSnapshot where
  "batch_job = (queued_snapshot (batch_request [] ''ops'' ''batch-1'') ''job-1'' 7 ''1'')\<lparr>js_status := JOB_SUCCEEDED\<rparr>"

definition finished_memory :: memory where
  "finished_memory = (fresh_memory [])\<lparr>me_view := view_hset (status_key default_config ''job-1'')
     (sent_mapping memory_codecs [(''status'', TextValue ''SUCCEEDED'')])
     (view_hset (status_key default_config ''job-1'')
        (script_status (enqueue_args_of memory_queue (batch_request [] ''ops'' ''batch-1'') ''job-1'' 7) ''1'') empty_view)\<rparr>"

lemma snapshot_status:
  "snapshot_of X get = Inr s \<Longrightarrow>
   snapshot_of X (get(''status'' \<mapsto> job_status_value st)) = Inr (s\<lparr>js_status := st\<rparr>)"
  unfolding snapshot_of_iff by (auto simp: field_reads result_of_def split: option.splits list.splits)

lemma finished_job_stored:
  "job_hash memory_codecs (status_hash memory_queue (me_view finished_memory) ''job-1'') batch_job"
proof -
  let ?q = "batch_request [] ''ops'' ''batch-1''"
  let ?h = "hash_put (script_status (enqueue_args_of memory_queue ?q ''job-1'' 7) ''1'') Map.empty"
  have "job_hash memory_codecs ?h (queued_snapshot ?q ''job-1'' 7 ''1'')"
    using queued_job_hash [of memory_queue ?q "''job-1''" "''1''" 7]
    by (simp add: memory_codecs_ok request_ok_def batch_request_def int64_def entry_id_text_def is_digit_def)
  then have h: "text_hash memory_codecs ?h" "snapshot_of memory_codecs (text_at memory_codecs ?h) = Inr (queued_snapshot ?q ''job-1'' 7 ''1'')"
    by (simp_all add: job_hash_def)
  have "snapshot_of memory_codecs (put_fields memory_codecs [(''status'', TextValue ''SUCCEEDED'')] (text_at memory_codecs ?h)) = Inr batch_job"
    using snapshot_status [OF h(2), of JOB_SUCCEEDED]
    by (simp add: put_fields_def decode_encode [OF memory_codecs_ok] batch_job_def)
  then have "job_hash memory_codecs (hash_put (sent_mapping memory_codecs [(''status'', TextValue ''SUCCEEDED'')]) ?h) batch_job"
    by (intro job_hash_mutation [OF memory_codecs_ok h(1)]) (simp_all add: sendable_def, blast)
  then show ?thesis
    by (simp add: finished_memory_def fresh_memory_def view_hset_def empty_view_def)
qed

theorem redelivered_finished_batch_is_failed_witness:
  "\<exists>w' s. process_delivery memory_worker \<lparr> at_started = 8, at_finished = 9, at_failed = 9 \<rparr>
      \<lparr> dv_stream_id = ''1'', dv_job = batch_job \<rparr>
      \<lparr> ww_redis = finished_memory, ww_payloads = [], ww_app = () \<rparr> = (Inr (), w') \<and>
    js_status batch_job = JOB_SUCCEEDED \<and>
    job_hash memory_codecs (status_hash memory_queue (me_view (ww_redis w')) ''job-1'') s \<and>
    js_status s = JOB_RETRYING"
proof -
  let ?d = "\<lparr> dv_stream_id = ''1'', dv_job = batch_job \<rparr>" and ?t = "\<lparr> at_started = 8, at_finished = 9, at_failed = 9 \<rparr>"
  let ?w = "\<lparr> ww_redis = finished_memory, ww_payloads = [], ww_app = () \<rparr>"
  have facts: "js_status batch_job = JOB_SUCCEEDED" "js_kind batch_job = BATCH_NOTE_WRITE" "js_job_id batch_job = ''job-1''"
    "js_attempts batch_job = 0" "js_source_id batch_job = ''batch-1''"
    by (simp_all add: batch_job_def queued_snapshot_def batch_request_def)
  obtain n r1 where m: "mark_running memory_queue 8 ?d finished_memory = (Inr n, r1)" "me_links r1 = []"
  proof -
    have "stored_number (status_hash memory_queue (me_view finished_memory) (js_job_id (dv_job ?d)) ''attempts'') = Some 0"
      by (simp add: finished_memory_def fresh_memory_def view_hset_def empty_view_def hash_put_def script_status_def
          sent_mapping_def stored_number_def py_int_zero facts memory_codecs_def int64_def, code_simp)
    moreover have "me_links finished_memory = []" by (simp add: finished_memory_def fresh_memory_def)
    ultimately show thesis using that memory_starts [of finished_memory ?d 0 8] by (auto simp: int64_def)
  qed
  obtain w1 where x: "execute_job memory_worker ?d (?w\<lparr>ww_redis := r1\<rparr>) = (Inl (JobRaised ''RuntimeError''
      (''maintenance job payload is missing: '' @ ''batch-1'')), w1)" and w1: "ww_redis w1 = r1"
    using missing_payload_raises [of memory_worker ?d "?w\<lparr>ww_redis := r1\<rparr>"]
    by (auto simp: facts find_payload_def memory_worker_def)
  let ?e = "safe_error_summary ''RuntimeError'' (''maintenance job payload is missing: '' @ ''batch-1'')"
  have queue: "we_queue memory_worker = memory_queue" by (simp add: memory_worker_def)
  obtain b r2 where f: "mark_failed memory_queue 9 9 ?d n ?e r1 = (Inr b, r2)"
    using memory_fails [OF m(2)] by blast
  have run1: "on_redis (mark_running memory_queue 8 ?d) ?w = (Inr n, ?w\<lparr>ww_redis := r1\<rparr>)"
    using m(1) by (simp add: on_redis_def)
  have run2: "seq (on_redis (mark_failed memory_queue 9 9 ?d n ?e)) (ret ()) w1 = (Inr (), w1\<lparr>ww_redis := r2\<rparr>)"
    using f w1 by (simp add: seq_def bind_def on_redis_def ret_def)
  obtain w' where run: "process_delivery memory_worker ?t ?d ?w = (Inr (), w')"
    using run1 run2 x unfolding process_delivery_def queue bind_def readings.simps by (simp del: append.simps)
  have "\<exists>s. job_hash memory_codecs (status_hash memory_queue (me_view (ww_redis w')) ''job-1'') s \<and>
      js_status s = JOB_RETRYING"
    using redelivered_finished_batch_is_failed [OF memory_worker_ok _ _ _ _ _ _ run] finished_job_stored
    by (auto simp: facts memory_no_expiry memory_worker_def find_payload_def default_config_def)
  with run facts(1) show ?thesis by blast
qed

end
