(* ===== verification/Rate_Limiter.thy ===== *)
theory Rate_Limiter
  imports Redis_Memory
begin

text \<open>
  The fixed-window limiter on Redis (\<open>redis_fixed_window_rate_limiter.py\<close>) and the budget for
  outbound provider calls built on it (\<open>external_api_rate_limit.py\<close>), with the bound they exist
  for: within one window no more than the configured number of calls is permitted, however the
  connection behaves.
\<close>

section \<open>The limiter\<close>

datatype limiter_exn = LimiterRedis redis_fault | LimiterValueError str | LimiterRuntimeError str

record RateLimitDecision =
  ld_allowed :: bool
  ld_remaining :: int
  ld_retry_after_seconds :: int

definition rate_limit_script :: "'r redis \<Rightarrow> str \<Rightarrow> int \<Rightarrow> ('r, redis_response) command" where
  "rate_limit_script R key window =
     bind (rd_incr R key) (\<lambda>current.
     seq (whenE (current = 1) (seq (rd_expire R key window) (ret ())))
    (bind (rd_ttl R key) (\<lambda>ttl.
     ret (RList [RInt current, RInt ttl]))))"

definition integer_response :: "codecs \<Rightarrow> redis_response \<Rightarrow> str \<Rightarrow> limiter_exn + int" where
  "integer_response X value field =
     (let numeric = (\<lambda>s. case py_int s of
            Some i \<Rightarrow> Inr i
          | None \<Rightarrow> Inl (LimiterRuntimeError (''Redis '' @ field @ '' response was not numeric''))) in
      case value of
        RBool _ \<Rightarrow> Inl (LimiterRuntimeError (''Redis '' @ field @ '' response was boolean''))
      | RInt i \<Rightarrow> Inr i
      | RBytes b \<Rightarrow> (case cx_decode X b of
            None \<Rightarrow> Inl (LimiterRuntimeError (''Redis '' @ field @ '' response was not UTF-8''))
          | Some s \<Rightarrow> numeric s)
      | RStr s \<Rightarrow> numeric s
      | _ \<Rightarrow> Inl (LimiterRuntimeError (''Redis '' @ field @ '' response had an invalid type'')))"

definition parse_rate_limit_response :: "codecs \<Rightarrow> redis_response \<Rightarrow> limiter_exn + int \<times> int" where
  "parse_rate_limit_response X value = (case value of
       RList [v0, v1] \<Rightarrow>
         and_then (integer_response X v0 ''current'') (\<lambda>current.
         and_then (integer_response X v1 ''ttl'') (\<lambda>ttl. Inr (current, ttl)))
     | RList _ \<Rightarrow> Inl (LimiterRuntimeError ''Redis rate-limit response must contain two values'')
     | _ \<Rightarrow> Inl (LimiterRuntimeError ''Redis rate-limit response must be a sequence''))"

definition decision_of :: "int \<Rightarrow> int \<times> int \<Rightarrow> RateLimitDecision" where
  "decision_of limit p = \<lparr> ld_allowed = (fst p \<le> limit), ld_remaining = max 0 (limit - fst p),
     ld_retry_after_seconds = max 1 (snd p) \<rparr>"

text \<open>\<open>key_prefix\<close> is the prefix after the constructor's \<open>rstrip(":")\<close>.\<close>

definition limiter_prefix :: "str \<Rightarrow> str" where
  "limiter_prefix key_prefix = rev (dropWhile (\<lambda>c. c = CHR '':'') (rev key_prefix))"

definition limiter_acquire ::
  "'r redis \<Rightarrow> codecs \<Rightarrow> str \<Rightarrow> str \<Rightarrow> str \<Rightarrow> int \<Rightarrow> int \<Rightarrow> ('r, limiter_exn, RateLimitDecision) prog" where
  "limiter_acquire R X prefix scope subject limit window_seconds =
     (if limit < 1 then raise (LimiterValueError ''limit must be positive'')
      else if window_seconds < 1 then raise (LimiterValueError ''window_seconds must be positive'')
      else (let key = prefix @ '':'' @ scope @ '':'' @ subject in
        bind (exchange LimiterRedis R (rate_limit_script R key window_seconds)) (\<lambda>raw r.
        (and_then (parse_rate_limit_response X raw) (\<lambda>p. Inr (decision_of limit p)), r))))"

section \<open>Provider budgets\<close>

datatype external_exn =
  ExternalApiRateLimitedError str int
| ExternalApiRateLimiterUnavailableError str
| ProviderValueError str

definition provider_char :: "char \<Rightarrow> bool" where
  "provider_char c = (let n = (of_char c :: nat) in
     (97 \<le> n \<and> n \<le> 122) \<or> (48 \<le> n \<and> n \<le> 57) \<or> c = CHR ''_'' \<or> c = CHR ''.'' \<or> c = CHR ''-'')"

text \<open>\<open>re.sub("[^a-z0-9_.-]+", "-", s)\<close>: each maximal run of other characters becomes one dash.\<close>

fun dash_runs :: "bool \<Rightarrow> str \<Rightarrow> str" where
  "dash_runs in_run [] = []"
| "dash_runs in_run (c # cs) =
     (if provider_char c then c # dash_runs False cs
      else if in_run then dash_runs True cs else CHR ''-'' # dash_runs True cs)"

definition strip_dashes :: "str \<Rightarrow> str" where
  "strip_dashes s = (let d = (\<lambda>c. c = CHR ''-'') in rev (dropWhile d (rev (dropWhile d s))))"

definition normalized_provider :: "str \<Rightarrow> external_exn + str" where
  "normalized_provider provider =
     (let normalized = strip_dashes (dash_runs False (lower (strip provider))) in
      if normalized = []
      then Inl (ProviderValueError ''provider must contain at least one supported character'')
      else Inr normalized)"

record 'r external_limiter =
  xl_redis :: "'r redis"
  xl_codecs :: codecs
  xl_sha256 :: "str \<Rightarrow> str"
  xl_default_limit :: int
  xl_window_seconds :: int
  xl_key_prefix :: str

definition external_acquire ::
  "'r external_limiter \<Rightarrow> str \<Rightarrow> str \<Rightarrow> int option \<Rightarrow> ('r, external_exn, unit) prog" where
  "external_acquire L provider subject limit r = (case normalized_provider provider of
       Inl e \<Rightarrow> (Inl e, r)
     | Inr name \<Rightarrow>
         (case limiter_acquire (xl_redis L) (xl_codecs L) (limiter_prefix (xl_key_prefix L))
                 (''external-api:'' @ name) (xl_sha256 L subject)
                 (case limit of None \<Rightarrow> xl_default_limit L | Some n \<Rightarrow> n) (xl_window_seconds L) r of
            (Inl _, r') \<Rightarrow> (Inl (ExternalApiRateLimiterUnavailableError
                (''external API rate limiter unavailable for '' @ name)), r')
          | (Inr d, r') \<Rightarrow>
              if ld_allowed d then (Inr (), r')
              else (Inl (ExternalApiRateLimitedError name (ld_retry_after_seconds d)), r')))"

definition noop_acquire :: "str \<Rightarrow> str \<Rightarrow> int option \<Rightarrow> ('r, external_exn, unit) prog" where
  "noop_acquire provider subject limit = ret ()"

section \<open>One window\<close>

text \<open>The answers of a sequence of calls for one key.\<close>

fun acquisitions ::
  "nat \<Rightarrow> ('r, limiter_exn, RateLimitDecision) prog \<Rightarrow> 'r \<Rightarrow> (limiter_exn + RateLimitDecision) list \<times> 'r" where
  "acquisitions 0 m r = ([], r)"
| "acquisitions (Suc n) m r = (let (x, r1) = m r; (xs, r2) = acquisitions n m r1 in (x # xs, r2))"

definition permitted :: "(limiter_exn + RateLimitDecision) list \<Rightarrow> nat" where
  "permitted xs = length (filter (\<lambda>x. case x of Inl _ \<Rightarrow> False | Inr d \<Rightarrow> ld_allowed d) xs)"

lemma permitted_simps [simp]:
  "permitted [] = 0" "permitted (Inl e # xs) = permitted xs"
  "permitted (Inr d # xs) = (if ld_allowed d then Suc (permitted xs) else permitted xs)"
  by (simp_all add: permitted_def)

definition key_lives :: "'r redis \<Rightarrow> str \<Rightarrow> bool" where
  "key_lives R k \<longleftrightarrow> (\<forall>r. rv_strings (rd_view R (snd (rd_link R r))) k = rv_strings (rd_view R r) k)"

section \<open>Properties\<close>

lemma counts_unique: "counts b n \<Longrightarrow> counts b m \<Longrightarrow> n = m"
  by (auto simp: counts_def)

lemma rate_limit_script_effect:
  assumes ok: "redis_keys_ok R" and w: "0 < w" and run: "rate_limit_script R k w r = (x, r')"
  shows "case x of
      Inr raw \<Rightarrow> \<exists>n ttl. counts (rv_strings (rd_view R r) k) n \<and> raw = RList [RInt (n + 1), RInt ttl] \<and>
                   int64 (n + 1) \<and> rv_strings (rd_view R r') k = Some (int_text (n + 1))
    | Inl _ \<Rightarrow> rv_strings (rd_view R r') k = rv_strings (rd_view R r) k \<or>
        (\<exists>n. counts (rv_strings (rd_view R r) k) n \<and> int64 (n + 1) \<and>
             rv_strings (rd_view R r') k = Some (int_text (n + 1)))"
proof (cases "rd_incr R k r")
  case (Pair y r1)
  show ?thesis
  proof (cases y)
    case (Inl e)
    with run Pair show ?thesis
      by (auto simp: rate_limit_script_def prog_simps dest: answersD(1) [OF redis_keys_okD(4) [OF ok]])
  next
    case (Inr current)
    obtain n where n: "counts (rv_strings (rd_view R r) k) n" "current = n + 1" "int64 (n + 1)"
      "rv_strings (rd_view R r1) k = Some (int_text current)"
      using answersD(2) [OF redis_keys_okD(4) [OF ok] Pair [unfolded Inr]] by (auto simp: view_set_def)
    have "rd_expire R k w r1 = (z, r2) \<Longrightarrow> rd_view R r2 = rd_view R r1" for z r2
      using answersD [OF redis_keys_okD(5) [OF ok]] w by (cases z) blast+
    moreover have "rd_ttl R k r2 = (z, r3) \<Longrightarrow> rd_view R r3 = rd_view R r2" for z r2 r3
      using answersD [OF redis_keys_okD(6) [OF ok]] by (cases z) blast+
    ultimately show ?thesis using run Pair Inr n
      unfolding rate_limit_script_def
      by (fastforce simp: prog_simps split: prod.splits sum.splits if_splits)
  qed
qed

definition limiter_key :: "str \<Rightarrow> str \<Rightarrow> str \<Rightarrow> str" where
  "limiter_key prefix scope subject = prefix @ '':'' @ scope @ '':'' @ subject"

lemma limiter_acquire_step:
  assumes ok: "redis_keys_ok R" and lives: "key_lives R (limiter_key prefix scope subject)"
    and c: "counts (rv_strings (rd_view R r) (limiter_key prefix scope subject)) c"
    and run: "limiter_acquire R X prefix scope subject limit w r = (x, r')"
  shows "\<exists>c'. counts (rv_strings (rd_view R r') (limiter_key prefix scope subject)) c' \<and> c \<le> c' \<and>
    (\<forall>d. x = Inr d \<longrightarrow> c' = c + 1 \<and> (ld_allowed d \<longleftrightarrow> c' \<le> limit))"
proof (cases "limit < 1 \<or> w < 1")
  case True
  with run have "r' = r \<and> (\<forall>d. x \<noteq> Inr d)"
    by (auto simp: limiter_acquire_def raise_def split: if_splits)
  with c show ?thesis by blast
next
  case False
  let ?k = "limiter_key prefix scope subject"
  let ?m = "rate_limit_script R ?k w"
  obtain y r'' where ex: "exchange LimiterRedis R ?m r = (y, r'')"
    by (cases "exchange LimiterRedis R ?m r")
  have x: "x = and_then y (\<lambda>raw. and_then (parse_rate_limit_response X raw) (\<lambda>p. Inr (decision_of limit p)))"
    and r': "r'' = r'"
    using run False ex by (auto simp: limiter_acquire_def limiter_key_def bind_def split: sum.splits)
  have start: "counts (rv_strings (rd_view R r1) ?k) c" if "rd_link R r = (l, r1)" for l r1
    using c lives that unfolding key_lives_def by (metis snd_conv)
  have step: "\<exists>c'. counts (rv_strings (rd_view R r') ?k) c' \<and> c \<le> c' \<and>
      (\<forall>raw. z = Inr raw \<longrightarrow> c' = c + 1 \<and> (\<exists>ttl. raw = RList [RInt c', RInt ttl]))"
    if "rd_link R r = (l, r1)" "?m r1 = (z, r')" for l r1 z
    using rate_limit_script_effect [OF ok _ that(2)] start [OF that(1)] False
    by (cases z) (fastforce simp: counts_def dest: counts_unique)+
  show ?thesis
    using ex [unfolded r']
  proof (cases rule: exchange_cases)
    case lost
    with start x show ?thesis by fastforce
  next
    case unanswered
    with step x show ?thesis by fastforce
  next
    case refused
    with step x show ?thesis by fastforce
  next
    case (answered r1 a)
    then obtain c' ttl where "counts (rv_strings (rd_view R r') ?k) c'" "c' = c + 1"
      "a = RList [RInt c', RInt ttl]"
      using step by blast
    with answered x show ?thesis
      by (auto simp: parse_rate_limit_response_def integer_response_def decision_of_def)
  qed
qed

lemma acquisitions_bound:
  assumes ok: "redis_keys_ok R" and lives: "key_lives R (limiter_key prefix scope subject)"
    and c: "counts (rv_strings (rd_view R r) (limiter_key prefix scope subject)) c"
    and run: "acquisitions n (limiter_acquire R X prefix scope subject limit w) r = (xs, r')"
  shows "int (permitted xs) \<le> max 0 (limit - c)"
  using c run
proof (induction n arbitrary: r c xs r')
  case (Suc n)
  let ?m = "limiter_acquire R X prefix scope subject limit w"
  obtain x r1 ys r2 where m: "?m r = (x, r1)" and rest: "acquisitions n ?m r1 = (ys, r2)"
    by (metis surj_pair)
  obtain c' where c': "counts (rv_strings (rd_view R r1) (limiter_key prefix scope subject)) c'" "c \<le> c'"
      "\<forall>d. x = Inr d \<longrightarrow> c' = c + 1 \<and> (ld_allowed d \<longleftrightarrow> c' \<le> limit)"
    using limiter_acquire_step [OF ok lives Suc.prems(1) m] by blast
  have "int (permitted ys) \<le> max 0 (limit - c')" by (rule Suc.IH [OF c'(1) rest])
  moreover have "xs = x # ys" using Suc.prems(2) m rest by simp
  ultimately show ?case
  proof (cases x)
    case (Inr d)
    with c'(3) have "c' = c + 1" "ld_allowed d \<longleftrightarrow> c' \<le> limit" by blast+
    with Inr \<open>xs = x # ys\<close> \<open>int (permitted ys) \<le> max 0 (limit - c')\<close> show ?thesis
      by (simp add: max_def split: if_splits)
  qed (use c'(2) in simp)
qed simp

lemma acquisitions_exact:
  assumes ok: "redis_keys_ok R" and lives: "key_lives R (limiter_key prefix scope subject)"
    and up: "\<And>r. \<exists>d r'. limiter_acquire R X prefix scope subject limit w r = (Inr d, r')"
    and c: "counts (rv_strings (rd_view R r) (limiter_key prefix scope subject)) c"
    and run: "acquisitions n (limiter_acquire R X prefix scope subject limit w) r = (xs, r')"
  shows "int (permitted xs) = min (int n) (max 0 (limit - c))"
  using c run
proof (induction n arbitrary: r c xs r')
  case (Suc n)
  let ?m = "limiter_acquire R X prefix scope subject limit w"
  obtain d r1 where m: "?m r = (Inr d, r1)" using up by blast
  obtain ys r2 where rest: "acquisitions n ?m r1 = (ys, r2)" by (rule prod.exhaust)
  obtain c' where c': "counts (rv_strings (rd_view R r1) (limiter_key prefix scope subject)) c'"
      "c' = c + 1" "ld_allowed d \<longleftrightarrow> c' \<le> limit"
    using limiter_acquire_step [OF ok lives Suc.prems(1) m] by blast
  have "int (permitted ys) = min (int n) (max 0 (limit - c'))" by (rule Suc.IH [OF c'(1) rest])
  moreover have "xs = Inr d # ys" using Suc.prems(2) m rest by simp
  ultimately show ?case using c'(2,3) by (simp add: max_def min_def split: if_splits)
qed simp



end
