(* ===== verification/Index_Coordinator.thy ===== *)
theory Index_Coordinator
  imports Prelude
begin

text \<open>
  The coordination of index writers within one process
  (\<open>shared/application/index_maintenance_coordinator.py\<close>). Tasks run on one event loop: the code
  between two awaits is one step, and every block under the condition's lock is such a step,
  because the only await inside it is \<open>Condition.wait\<close>. A task blocked there is a waiter: its
  request, and whether \<open>notify\<close> has completed its future. Cancelling a waiter passes a
  notification on to the next one, as \<open>asyncio.Condition.wait\<close> does since Python 3.13, the
  version the project requires.
\<close>

section \<open>State\<close>

datatype IndexLeaseMode = EXCLUSIVE_LEASE | SHARED_LEASE

type_synonym task = nat

record TaskLease =
  tl_mode :: IndexLeaseMode
  tl_name :: str
  tl_depth :: int

record waiter =
  wa_task :: task
  wa_name :: str
  wa_mode :: IndexLeaseMode
  wa_notified :: bool

record coordinator =
  ic_task_leases :: "(task \<times> TaskLease) list"
  ic_exclusive_owner :: "task option"
  ic_active_shared :: int
  ic_waiting_exclusive :: int
  ic_active_operation :: "str option"
  ic_waiters :: "waiter list"

definition new_coordinator :: coordinator where
  "new_coordinator = \<lparr> ic_task_leases = [], ic_exclusive_owner = None, ic_active_shared = 0,
     ic_waiting_exclusive = 0, ic_active_operation = None, ic_waiters = [] \<rparr>"

datatype lease_exn = IndexMaintenanceConflictError str | LeaseRuntimeError str

text \<open>What a call of \<open>_acquire_local\<close> does before it gives up control.\<close>

datatype acquisition = Refused lease_exn | Blocked | Acquired bool IndexLeaseMode

section \<open>Operations\<close>

definition active_operation :: "coordinator \<Rightarrow> str option" where
  "active_operation c = (case ic_active_operation c of
       Some name \<Rightarrow> Some name
     | None \<Rightarrow> (case ic_task_leases c of [] \<Rightarrow> None | (_, lease) # _ \<Rightarrow> Some (tl_name lease)))"

definition exclusive_available :: "coordinator \<Rightarrow> bool" where
  "exclusive_available c \<longleftrightarrow> ic_exclusive_owner c = None \<and> ic_active_shared c = 0"

definition shared_blocked :: "coordinator \<Rightarrow> bool" where
  "shared_blocked c \<longleftrightarrow> ic_exclusive_owner c \<noteq> None \<or> ic_waiting_exclusive c > 0"

definition wait_on :: "task \<Rightarrow> str \<Rightarrow> IndexLeaseMode \<Rightarrow> coordinator \<Rightarrow> coordinator" where
  "wait_on t name mode c = c\<lparr>ic_waiters := ic_waiters c @
     [\<lparr> wa_task = t, wa_name = name, wa_mode = mode, wa_notified = False \<rparr>]\<rparr>"

definition grant_shared :: "task \<Rightarrow> str \<Rightarrow> coordinator \<Rightarrow> coordinator" where
  "grant_shared t name c =
     c\<lparr>ic_task_leases := ic_task_leases c @ [(t, \<lparr> tl_mode = SHARED_LEASE, tl_name = name, tl_depth = 1 \<rparr>)],
       ic_active_shared := ic_active_shared c + 1\<rparr>"

definition grant_exclusive :: "task \<Rightarrow> str \<Rightarrow> coordinator \<Rightarrow> coordinator" where
  "grant_exclusive t name c =
     c\<lparr>ic_task_leases := ic_task_leases c @ [(t, \<lparr> tl_mode = EXCLUSIVE_LEASE, tl_name = name, tl_depth = 1 \<rparr>)],
       ic_exclusive_owner := Some t, ic_active_operation := Some name\<rparr>"

definition acquire_shared :: "task \<Rightarrow> str \<Rightarrow> coordinator \<Rightarrow> acquisition \<times> coordinator" where
  "acquire_shared t name c =
     (if shared_blocked c then (Blocked, wait_on t name SHARED_LEASE c)
      else (Acquired True SHARED_LEASE, grant_shared t name c))"

definition conflict_message :: "str \<Rightarrow> coordinator \<Rightarrow> str" where
  "conflict_message name c = ''index maintenance '' @ [CHR 0x27] @ name @ [CHR 0x27] @
     '' cannot start while '' @ [CHR 0x27] @
     (case active_operation c of Some (x # xs) \<Rightarrow> x # xs | _ \<Rightarrow> ''concurrent index writes'') @ [CHR 0x27] @ '' is active''"

definition acquire_exclusive :: "task \<Rightarrow> str \<Rightarrow> bool \<Rightarrow> coordinator \<Rightarrow> acquisition \<times> coordinator" where
  "acquire_exclusive t name wait c =
     (if exclusive_available c then (Acquired True EXCLUSIVE_LEASE, grant_exclusive t name c)
      else if \<not> wait then (Refused (IndexMaintenanceConflictError (conflict_message name c)), c)
      else (Blocked, wait_on t name EXCLUSIVE_LEASE (c\<lparr>ic_waiting_exclusive := ic_waiting_exclusive c + 1\<rparr>)))"

definition set_depth :: "task \<Rightarrow> int \<Rightarrow> coordinator \<Rightarrow> coordinator" where
  "set_depth t d c = c\<lparr>ic_task_leases := map (\<lambda>(s, lease). (s, if s = t then lease\<lparr>tl_depth := d\<rparr> else lease)) (ic_task_leases c)\<rparr>"

definition acquire_local ::
  "task \<Rightarrow> str \<Rightarrow> bool \<Rightarrow> IndexLeaseMode \<Rightarrow> coordinator \<Rightarrow> acquisition \<times> coordinator" where
  "acquire_local t name wait requested c = (case map_of (ic_task_leases c) t of
       Some existing \<Rightarrow>
         if tl_mode existing = SHARED_LEASE \<and> requested = EXCLUSIVE_LEASE
         then (Refused (LeaseRuntimeError
                (''index lease cannot upgrade from shared to exclusive; '' @
                 ''enter the outer operation as exclusive'')), c)
         else (Acquired False (tl_mode existing), set_depth t (tl_depth existing + 1) c)
     | None \<Rightarrow>
         if requested = SHARED_LEASE then acquire_shared t name c
         else acquire_exclusive t name wait c)"

text \<open>
  The lease parameters of the two entry points: \<open>operation\<close> (maintenance) and \<open>write_operation\<close>.
\<close>

definition operation_lease :: "str \<Rightarrow> bool \<Rightarrow> str \<times> bool \<times> IndexLeaseMode" where
  "operation_lease name wait = (name, wait, EXCLUSIVE_LEASE)"

definition write_operation_lease :: "bool \<Rightarrow> str \<Rightarrow> str \<times> bool \<times> IndexLeaseMode" where
  "write_operation_lease allow_concurrent_writes name =
     (name, True, if allow_concurrent_writes then SHARED_LEASE else EXCLUSIVE_LEASE)"

text \<open>\<open>Condition.notify(n)\<close>: the futures of the first \<open>n\<close> waiters that are not done yet.\<close>

fun notify :: "nat \<Rightarrow> waiter list \<Rightarrow> waiter list" where
  "notify n [] = []"
| "notify n (w # ws) =
     (if wa_notified w then w # notify n ws
      else case n of 0 \<Rightarrow> w # ws | Suc m \<Rightarrow> w\<lparr>wa_notified := True\<rparr> # notify m ws)"

definition notify_all :: "waiter list \<Rightarrow> waiter list" where
  "notify_all ws = notify (length ws) ws"

definition without :: "task \<Rightarrow> waiter list \<Rightarrow> waiter list" where
  "without t ws = filter (\<lambda>w. wa_task w \<noteq> t) ws"

text \<open>A notified waiter runs again: it checks its loop condition and proceeds or waits anew.\<close>

definition resume :: "waiter \<Rightarrow> coordinator \<Rightarrow> acquisition \<times> coordinator" where
  "resume w c = (let c' = c\<lparr>ic_waiters := without (wa_task w) (ic_waiters c)\<rparr> in
     case wa_mode w of
       SHARED_LEASE \<Rightarrow> acquire_shared (wa_task w) (wa_name w) c'
     | EXCLUSIVE_LEASE \<Rightarrow>
         if exclusive_available c'
         then (Acquired True EXCLUSIVE_LEASE,
               grant_exclusive (wa_task w) (wa_name w)
                 (c'\<lparr>ic_waiting_exclusive := ic_waiting_exclusive c' - 1\<rparr>))
         else (Blocked, wait_on (wa_task w) (wa_name w) EXCLUSIVE_LEASE c'))"

text \<open>A waiter is cancelled: the condition notifies another waiter, \<open>finally\<close> leaves the queue.\<close>

definition cancel :: "waiter \<Rightarrow> coordinator \<Rightarrow> coordinator" where
  "cancel w c = (let c' = c\<lparr>ic_waiters := notify 1 (without (wa_task w) (ic_waiters c))\<rparr> in
     case wa_mode w of
       SHARED_LEASE \<Rightarrow> c'
     | EXCLUSIVE_LEASE \<Rightarrow> c'\<lparr>ic_waiting_exclusive := ic_waiting_exclusive c' - 1\<rparr>)"

definition release_local :: "task \<Rightarrow> coordinator \<Rightarrow> (lease_exn + unit) \<times> coordinator" where
  "release_local t c = (case map_of (ic_task_leases c) t of
       None \<Rightarrow> (Inl (LeaseRuntimeError ''index lease release without matching acquisition''), c)
     | Some lease \<Rightarrow>
         if tl_depth lease - 1 > 0 then (Inr (), set_depth t (tl_depth lease - 1) c)
         else (let c' = c\<lparr>ic_task_leases := filter (\<lambda>(s, _). s \<noteq> t) (ic_task_leases c),
                           ic_waiters := notify_all (ic_waiters c)\<rparr> in
           (Inr (), if tl_mode lease = EXCLUSIVE_LEASE
                    then c'\<lparr>ic_exclusive_owner := None, ic_active_operation := None\<rparr>
                    else c'\<lparr>ic_active_shared := ic_active_shared c' - 1\<rparr>)))"

section \<open>Invariant\<close>

text \<open>
  The lanes: an exclusive owner holds the only lease; without one all leases are shared and the
  counter is their number.
\<close>

abbreviation leased :: "coordinator \<Rightarrow> task set" where
  "leased c \<equiv> fst ` set (ic_task_leases c)"

definition lanes_ok :: "coordinator \<Rightarrow> bool" where
  "lanes_ok c \<longleftrightarrow> distinct (map fst (ic_task_leases c)) \<and>
     (\<forall>(t, lease)\<in>set (ic_task_leases c). 1 \<le> tl_depth lease) \<and>
     (case ic_exclusive_owner c of
        Some t \<Rightarrow> ic_active_shared c = 0 \<and> ic_active_operation c \<noteq> None \<and>
          (\<exists>lease. ic_task_leases c = [(t, lease)] \<and> tl_mode lease = EXCLUSIVE_LEASE)
      | None \<Rightarrow> ic_active_operation c = None \<and> ic_active_shared c = int (length (ic_task_leases c)) \<and>
          (\<forall>(t, lease)\<in>set (ic_task_leases c). tl_mode lease = SHARED_LEASE))"

text \<open>The waiters: one request per task, none of a task that holds a lease, and counted.\<close>

abbreviation is_exclusive :: "waiter \<Rightarrow> bool" where
  "is_exclusive w \<equiv> wa_mode w = EXCLUSIVE_LEASE"

definition waiters_ok :: "coordinator \<Rightarrow> bool" where
  "waiters_ok c \<longleftrightarrow> distinct (map wa_task (ic_waiters c)) \<and> leased c \<inter> wa_task ` set (ic_waiters c) = {} \<and>
     ic_waiting_exclusive c = int (length (filter is_exclusive (ic_waiters c)))"

text \<open>
  No wake-up is lost: while the exclusive lane is free every exclusive waiter is notified, and when
  both lanes are idle and only shared requests wait, one of them is notified.
\<close>

definition wake_ok :: "coordinator \<Rightarrow> bool" where
  "wake_ok c \<longleftrightarrow> (exclusive_available c \<longrightarrow>
     (\<forall>w\<in>set (ic_waiters c). is_exclusive w \<longrightarrow> wa_notified w) \<and>
     (ic_waiters c \<noteq> [] \<longrightarrow> (\<exists>w\<in>set (ic_waiters c). wa_notified w)))"

definition coordinator_ok :: "coordinator \<Rightarrow> bool" where
  "coordinator_ok c \<longleftrightarrow> lanes_ok c \<and> waiters_ok c \<and> wake_ok c"

lemmas coordinator_defs = coordinator_ok_def lanes_ok_def waiters_ok_def wake_ok_def

lemma lanes_ok_cong:
  "ic_task_leases c' = ic_task_leases c \<Longrightarrow> ic_exclusive_owner c' = ic_exclusive_owner c \<Longrightarrow>
   ic_active_shared c' = ic_active_shared c \<Longrightarrow> ic_active_operation c' = ic_active_operation c \<Longrightarrow>
   lanes_ok c' = lanes_ok c"
  unfolding lanes_ok_def by (simp cong: option.case_cong)

lemma new_coordinator_ok: "coordinator_ok new_coordinator"
  by (simp add: coordinator_defs new_coordinator_def)

text \<open>Notifying changes nothing but the flags, and only sets them.\<close>

lemma notify_facts:
  "map wa_task (notify n ws) = map wa_task ws"
  "length (filter is_exclusive (notify n ws)) = length (filter is_exclusive ws)"
  "(notify n ws = []) = (ws = [])"
  by (induction n ws rule: notify.induct) (auto split: nat.split)

lemma notify_tasks: "wa_task ` set (notify n ws) = wa_task ` set ws"
  using notify_facts(1) [of n ws] by (metis list.set_map)

lemma notify_keeps_notified:
  "\<forall>w\<in>set ws. P (wa_mode w) \<longrightarrow> wa_notified w \<Longrightarrow> w \<in> set (notify n ws) \<Longrightarrow> P (wa_mode w) \<Longrightarrow> wa_notified w"
  by (induction n ws rule: notify.induct) (auto split: nat.splits if_splits)

lemma notify_one: "ws \<noteq> [] \<Longrightarrow> \<exists>w\<in>set (notify (Suc n) ws). wa_notified w"
  by (cases ws) auto

lemma notify_enough: "length ws \<le> n \<Longrightarrow> w \<in> set (notify n ws) \<Longrightarrow> wa_notified w"
  by (induction n ws rule: notify.induct) (auto split: nat.splits if_splits)

lemma notify_all_notified: "w \<in> set (notify_all ws) \<Longrightarrow> wa_notified w"
  unfolding notify_all_def by (rule notify_enough [OF order_refl])

lemma notify_all_facts:
  "map wa_task (notify_all ws) = map wa_task ws"
  "length (filter is_exclusive (notify_all ws)) = length (filter is_exclusive ws)"
  "wa_task ` set (notify_all ws) = wa_task ` set ws"
  unfolding notify_all_def by (rule notify_facts notify_tasks)+

lemma without_facts:
  assumes "distinct (map wa_task ws)" "w \<in> set ws"
  shows "distinct (map wa_task (without (wa_task w) ws))"
    and "wa_task ` set (without (wa_task w) ws) = wa_task ` set ws - {wa_task w}"
    and "int (length (filter is_exclusive (without (wa_task w) ws))) =
      int (length (filter is_exclusive ws)) - (if is_exclusive w then 1 else 0)"
proof -
  show "distinct (map wa_task (without (wa_task w) ws))"
    using assms(1) unfolding without_def by (induction ws) auto
  show "wa_task ` set (without (wa_task w) ws) = wa_task ` set ws - {wa_task w}"
    unfolding without_def by auto
  have id: "wa_task w \<notin> wa_task ` set us \<Longrightarrow> without (wa_task w) us = us" for us
    unfolding without_def by (induction us) auto
  show "int (length (filter is_exclusive (without (wa_task w) ws))) =
      int (length (filter is_exclusive ws)) - (if is_exclusive w then 1 else 0)"
    using assms
  proof (induction ws)
    case (Cons u us)
    show ?case
    proof (cases "w = u")
      case True
      with Cons.prems(1) have "without (wa_task w) (u # us) = us"
        using id [of us] by (simp add: without_def)
      with True show ?thesis by simp
    next
      case False
      with Cons.prems have "w \<in> set us" "wa_task u \<noteq> wa_task w" by auto
      with Cons show ?thesis by (auto simp: without_def split: if_splits)
    qed
  qed simp
qed

lemma set_depth_facts:
  "map fst (ic_task_leases (set_depth t d c)) = map fst (ic_task_leases c)"
  "leased (set_depth t d c) = leased c"
  "ic_exclusive_owner (set_depth t d c) = ic_exclusive_owner c" "ic_active_shared (set_depth t d c) = ic_active_shared c"
  "ic_waiting_exclusive (set_depth t d c) = ic_waiting_exclusive c" "ic_waiters (set_depth t d c) = ic_waiters c"
  "ic_active_operation (set_depth t d c) = ic_active_operation c"
  by (auto simp: set_depth_def split_def image_image)

lemma set_depth_ok:
  assumes "coordinator_ok c" "1 \<le> d"
  shows "coordinator_ok (set_depth t d c)"
proof -
  have "lanes_ok (set_depth t d c)"
    using assms by (auto simp: coordinator_ok_def lanes_ok_def set_depth_def comp_def split_def split: option.splits)
  with assms(1) show ?thesis
    unfolding coordinator_ok_def waiters_ok_def wake_ok_def exclusive_available_def set_depth_facts by simp
qed

lemma grant_shared_ok:
  assumes "coordinator_ok c" "\<not> shared_blocked c" "t \<notin> leased c" "t \<notin> wa_task ` set (ic_waiters c)"
  shows "coordinator_ok (grant_shared t name c)"
  using assms by (auto simp: coordinator_defs grant_shared_def shared_blocked_def exclusive_available_def)

lemma grant_exclusive_ok:
  assumes "coordinator_ok c" "exclusive_available c" "t \<notin> leased c" "t \<notin> wa_task ` set (ic_waiters c)"
  shows "coordinator_ok (grant_exclusive t name c)"
  using assms by (auto simp: coordinator_defs grant_exclusive_def exclusive_available_def)

lemma wait_on_ok:
  assumes "coordinator_ok c" "t \<notin> leased c" "t \<notin> wa_task ` set (ic_waiters c)"
  shows "shared_blocked c \<Longrightarrow> coordinator_ok (wait_on t name SHARED_LEASE c)"
    and "\<not> exclusive_available c \<Longrightarrow>
      coordinator_ok (wait_on t name EXCLUSIVE_LEASE (c\<lparr>ic_waiting_exclusive := ic_waiting_exclusive c + 1\<rparr>))"
  using assms
  by (auto simp: coordinator_ok_def lanes_ok_def waiters_ok_def wake_ok_def wait_on_def shared_blocked_def
      exclusive_available_def split: option.splits)

section \<open>Every operation keeps it\<close>

lemma acquire_shared_ok:
  "coordinator_ok c \<Longrightarrow> t \<notin> leased c \<Longrightarrow> t \<notin> wa_task ` set (ic_waiters c) \<Longrightarrow>
   coordinator_ok (snd (acquire_shared t name c))"
  by (simp add: acquire_shared_def grant_shared_ok wait_on_ok)

lemma acquire_exclusive_ok:
  "coordinator_ok c \<Longrightarrow> t \<notin> leased c \<Longrightarrow> t \<notin> wa_task ` set (ic_waiters c) \<Longrightarrow>
   coordinator_ok (snd (acquire_exclusive t name wait c))"
  by (simp add: acquire_exclusive_def grant_exclusive_ok wait_on_ok)

lemma lease_depth:
  "coordinator_ok c \<Longrightarrow> map_of (ic_task_leases c) t = Some lease \<Longrightarrow> 1 \<le> tl_depth lease"
  by (auto simp: coordinator_ok_def lanes_ok_def dest: map_of_SomeD)

lemma acquire_local_ok:
  assumes "coordinator_ok c" "t \<notin> wa_task ` set (ic_waiters c)"
  shows "coordinator_ok (snd (acquire_local t name wait requested c))"
proof (cases "map_of (ic_task_leases c) t")
  case None
  then have "t \<notin> leased c" by (simp add: map_of_eq_None_iff)
  with assms None show ?thesis by (simp add: acquire_local_def acquire_shared_ok acquire_exclusive_ok)
next
  case (Some lease)
  from lease_depth [OF assms(1) this] Some assms(1) show ?thesis
    by (simp add: acquire_local_def set_depth_ok)
qed

text \<open>A waiter removed for good, its request no longer counted.\<close>

lemma removed_ok:
  assumes "coordinator_ok c" "w \<in> set (ic_waiters c)"
  defines "k \<equiv> if is_exclusive w then ic_waiting_exclusive c - 1 else ic_waiting_exclusive c"
  shows "lanes_ok (c\<lparr>ic_waiters := without (wa_task w) (ic_waiters c), ic_waiting_exclusive := k\<rparr>)"
    and "waiters_ok (c\<lparr>ic_waiters := without (wa_task w) (ic_waiters c), ic_waiting_exclusive := k\<rparr>)"
    and "wa_task w \<notin> leased c" and "wa_task w \<notin> wa_task ` set (without (wa_task w) (ic_waiters c))"
proof -
  have w: "distinct (map wa_task (ic_waiters c))" "leased c \<inter> wa_task ` set (ic_waiters c) = {}"
      "ic_waiting_exclusive c = int (length (filter is_exclusive (ic_waiters c)))"
    using assms(1) by (simp_all add: coordinator_ok_def waiters_ok_def)
  note f = without_facts [OF w(1) assms(2)]
  show "lanes_ok (c\<lparr>ic_waiters := without (wa_task w) (ic_waiters c), ic_waiting_exclusive := k\<rparr>)"
    using assms(1) by (subst lanes_ok_cong [of _ c]) (simp_all add: coordinator_ok_def)
  show "waiters_ok (c\<lparr>ic_waiters := without (wa_task w) (ic_waiters c), ic_waiting_exclusive := k\<rparr>)"
    using w f by (auto simp: waiters_ok_def k_def)
  show "wa_task w \<notin> leased c" using w(2) assms(2) by auto
  show "wa_task w \<notin> wa_task ` set (without (wa_task w) (ic_waiters c))" unfolding f(2) by simp
qed

lemma resume_ok:
  assumes ok: "coordinator_ok c" and w: "w \<in> set (ic_waiters c)"
  shows "coordinator_ok (snd (resume w c))"
proof (cases "wa_mode w")
  case SHARED_LEASE
  let ?c = "c\<lparr>ic_waiters := without (wa_task w) (ic_waiters c)\<rparr>"
  have parts: "lanes_ok ?c" "waiters_ok ?c" "wa_task w \<notin> leased ?c" "wa_task w \<notin> wa_task ` set (ic_waiters ?c)"
    using removed_ok [OF ok w] SHARED_LEASE by simp_all
  have all: "\<forall>u\<in>set (ic_waiters ?c). exclusive_available ?c \<longrightarrow> is_exclusive u \<longrightarrow> wa_notified u"
    using ok by (auto simp: coordinator_ok_def wake_ok_def without_def exclusive_available_def)
  show ?thesis
  proof (cases "shared_blocked ?c")
    case True
    have "exclusive_available ?c \<Longrightarrow> \<exists>u\<in>set (ic_waiters ?c). is_exclusive u"
      using True parts(2)
      by (auto simp: shared_blocked_def exclusive_available_def waiters_ok_def filter_empty_conv)
    with all have "wake_ok ?c" unfolding wake_ok_def by blast
    with parts True SHARED_LEASE show ?thesis
      by (simp add: resume_def Let_def acquire_shared_def wait_on_ok coordinator_ok_def [of ?c])
  next
    case False
    with parts SHARED_LEASE show ?thesis
      by (auto simp: resume_def Let_def acquire_shared_def grant_shared_def coordinator_ok_def lanes_ok_def
          waiters_ok_def wake_ok_def shared_blocked_def exclusive_available_def split: option.splits)
  qed
next
  case EXCLUSIVE_LEASE
  show ?thesis
  proof (cases "exclusive_available c")
    case True
    with removed_ok [OF ok w] EXCLUSIVE_LEASE show ?thesis
      by (auto simp: resume_def Let_def grant_exclusive_def coordinator_ok_def lanes_ok_def
          waiters_ok_def wake_ok_def exclusive_available_def split: option.splits)
  next
    case False
    with removed_ok [OF ok w] EXCLUSIVE_LEASE show ?thesis
      by (auto simp: resume_def Let_def wait_on_def coordinator_ok_def lanes_ok_def
          waiters_ok_def wake_ok_def exclusive_available_def split: option.splits)
  qed
qed

lemma cancel_ok:
  assumes ok: "coordinator_ok c" and w: "w \<in> set (ic_waiters c)"
  shows "coordinator_ok (cancel w c)"
proof -
  let ?ws = "without (wa_task w) (ic_waiters c)"
  note r = removed_ok [OF ok w]
  have "exclusive_available c \<Longrightarrow> \<forall>u\<in>set ?ws. is_exclusive u \<longrightarrow> wa_notified u"
    using ok by (auto simp: coordinator_ok_def wake_ok_def without_def)
  then have "exclusive_available c \<Longrightarrow> u \<in> set (notify 1 ?ws) \<Longrightarrow> is_exclusive u \<Longrightarrow> wa_notified u" for u
    using notify_keeps_notified [of ?ws "\<lambda>m. m = EXCLUSIVE_LEASE"] by blast
  moreover have "?ws \<noteq> [] \<Longrightarrow> \<exists>u\<in>set (notify 1 ?ws). wa_notified u"
    using notify_one [of ?ws 0] by simp
  ultimately have "wake_ok (cancel w c)"
    by (auto simp: wake_ok_def cancel_def Let_def exclusive_available_def notify_facts split: IndexLeaseMode.split)
  moreover have "lanes_ok (cancel w c)"
    using ok lanes_ok_cong [of "cancel w c" c]
    by (simp add: coordinator_ok_def cancel_def Let_def split: IndexLeaseMode.split)
  moreover have "waiters_ok (cancel w c)"
    using r(2) by (auto simp: waiters_ok_def cancel_def Let_def notify_facts notify_tasks split: IndexLeaseMode.split)
  ultimately show ?thesis by (simp add: coordinator_ok_def)
qed

lemma filter_key_length:
  "distinct (map fst kvs) \<Longrightarrow> map_of kvs t = Some v \<Longrightarrow>
   length kvs = Suc (length (filter (\<lambda>(s, _). s \<noteq> t) kvs))"
proof (induction kvs)
  case (Cons kv kvs)
  obtain k u where kv: "kv = (k, u)" by (cases kv)
  show ?case
  proof (cases "k = t")
    case True
    with Cons.prems(1) kv have "filter (\<lambda>(s, _). s \<noteq> t) kvs = kvs" by (force simp: filter_id_conv)
    with True kv show ?thesis by simp
  qed (use Cons kv in simp)
qed simp

lemma release_local_ok:
  assumes ok: "coordinator_ok c"
  shows "coordinator_ok (snd (release_local t c))"
proof (cases "map_of (ic_task_leases c) t")
  case (Some lease)
  show ?thesis
  proof (cases "tl_depth lease - 1 > 0")
    case True
    with Some ok show ?thesis by (simp add: release_local_def set_depth_ok)
  next
    case False
    let ?c = "snd (release_local t c)" and ?rest = "filter (\<lambda>(s, _). s \<noteq> t) (ic_task_leases c)"
    have c: "ic_task_leases ?c = ?rest" "ic_waiters ?c = notify_all (ic_waiters c)"
      "ic_waiting_exclusive ?c = ic_waiting_exclusive c"
      "ic_exclusive_owner ?c = (if tl_mode lease = EXCLUSIVE_LEASE then None else ic_exclusive_owner c)"
      "ic_active_operation ?c = (if tl_mode lease = EXCLUSIVE_LEASE then None else ic_active_operation c)"
      "ic_active_shared ?c = ic_active_shared c - (if tl_mode lease = EXCLUSIVE_LEASE then 0 else 1)"
      using False Some by (auto simp: release_local_def Let_def)
    have lease: "(t, lease) \<in> set (ic_task_leases c)" using Some by (rule map_of_SomeD)
    have "distinct (map fst (ic_task_leases c))" using ok by (simp add: coordinator_ok_def lanes_ok_def)
    then have len: "length (ic_task_leases c) = Suc (length ?rest)" and dist: "distinct (map fst ?rest)"
      using filter_key_length [OF _ Some] by (simp_all add: distinct_map_filter)
    have "waiters_ok ?c"
      using ok unfolding coordinator_ok_def waiters_ok_def c notify_all_facts by auto
    moreover have "wake_ok ?c"
      unfolding wake_ok_def c using notify_all_notified by (metis last_in_set)
    moreover have "lanes_ok ?c"
    proof (cases "ic_exclusive_owner c")
      case None
      with ok lease have "tl_mode lease = SHARED_LEASE"
        by (auto simp: coordinator_ok_def lanes_ok_def)
      with None ok len dist show ?thesis unfolding lanes_ok_def c by (auto simp: coordinator_ok_def lanes_ok_def)
    next
      case (Some u)
      with ok lease have "ic_task_leases c = [(t, lease)]" "tl_mode lease = EXCLUSIVE_LEASE" "ic_active_shared c = 0"
        by (auto simp: coordinator_ok_def lanes_ok_def)
      then show ?thesis unfolding lanes_ok_def c by simp
    qed
    ultimately show ?thesis by (simp add: coordinator_ok_def)
  qed
qed (use ok in \<open>simp add: release_local_def\<close>)

end
