(* ===== verification/Index_Lease.thy ===== *)
theory Index_Lease
  imports Index_Coordinator
begin

text \<open>
  Index leases across processes: the context manager \<open>_lease\<close> of the coordinator and the
  PostgreSQL advisory lock it enters (\<open>shared/infrastructure/postgres_advisory_lock.py\<close>).
  Each process has a coordinator, each task a stack of the leases it is inside of. The advisory
  locks of the server are a parameter with the documented behaviour as a hypothesis; a session
  (the dedicated connection of an outermost lease) stays open as long as the lease.
\<close>

section \<open>Advisory locks\<close>

text \<open>The key: the first eight bytes of a digest as a signed 64-bit number.\<close>

definition bytes_value :: "nat list \<Rightarrow> nat" where
  "bytes_value bs = foldl (\<lambda>n b. 256 * n + b) 0 bs"

definition postgres_advisory_lock_key :: "(str \<Rightarrow> nat list) \<Rightarrow> str \<Rightarrow> int" where
  "postgres_advisory_lock_key sha256 namespace =
     (let n = int (bytes_value (take 8 (sha256 namespace))) in if n < 2 ^ 63 then n else n - 2 ^ 64)"

type_synonym session = "nat \<times> task"

record 'g advisory =
  al_holders :: "'g \<Rightarrow> session \<Rightarrow> IndexLeaseMode option"
  al_try :: "bool \<Rightarrow> session \<Rightarrow> ('g, str, bool) prog"
  al_unlock :: "bool \<Rightarrow> session \<Rightarrow> ('g, str, bool) prog"
  al_invalidate :: "session \<Rightarrow> 'g \<Rightarrow> 'g"

definition mode_of :: "bool \<Rightarrow> IndexLeaseMode" where
  "mode_of shared = (if shared then SHARED_LEASE else EXCLUSIVE_LEASE)"

text \<open>
  \<open>pg_try_advisory_lock\<close> and its shared form grant a lock only next to compatible holders and
  change nothing otherwise; unlocking changes no other session, and reports whether the session
  held the lock; a closed connection holds none.
\<close>

definition try_law :: "'g advisory \<Rightarrow> bool \<Rightarrow> session \<Rightarrow> 'g \<Rightarrow> bool" where
  "try_law A shared s g \<longleftrightarrow> (case al_try A shared s g of
       (Inr True, g') \<Rightarrow> al_holders A g' = (al_holders A g)(s \<mapsto> mode_of shared) \<and>
         (\<forall>s' m. s' \<noteq> s \<longrightarrow> al_holders A g s' = Some m \<longrightarrow> shared \<and> m = SHARED_LEASE)
     | (_, g') \<Rightarrow> al_holders A g' = al_holders A g)"

definition unlock_law :: "'g advisory \<Rightarrow> bool \<Rightarrow> session \<Rightarrow> 'g \<Rightarrow> bool" where
  "unlock_law A shared s g \<longleftrightarrow> (case al_unlock A shared s g of
       (Inr True, g') \<Rightarrow> al_holders A g' = (al_holders A g)(s := None)
     | (_, g') \<Rightarrow> (\<forall>s'. s' \<noteq> s \<longrightarrow> al_holders A g' s' = al_holders A g s'))"

definition advisory_ok :: "'g advisory \<Rightarrow> bool" where
  "advisory_ok A \<longleftrightarrow> (\<forall>shared s g. try_law A shared s g \<and> unlock_law A shared s g) \<and>
     (\<forall>s g. al_holders A (al_invalidate A s g) = (al_holders A g)(s := None))"

datatype lock_attempt = LockEntered | LockPolling | LockBlocked | LockFailed str

text \<open>One attempt: a waiting caller polls again later, another one gets \<open>BlockingIOError\<close>.\<close>

definition lock_attempt :: "'g advisory \<Rightarrow> bool \<Rightarrow> bool \<Rightarrow> session \<Rightarrow> 'g \<Rightarrow> lock_attempt \<times> 'g" where
  "lock_attempt A wait shared s g = (case al_try A shared s g of
       (Inr True, g') \<Rightarrow> (LockEntered, g')
     | (Inr False, g') \<Rightarrow> (if wait then LockPolling else LockBlocked, g')
     | (Inl e, g') \<Rightarrow> (LockFailed e, g'))"

definition release_or_invalidate :: "'g advisory \<Rightarrow> bool \<Rightarrow> session \<Rightarrow> ('g, str, unit) prog" where
  "release_or_invalidate A shared s g = (case al_unlock A shared s g of
       (Inr True, g') \<Rightarrow> (Inr (), g')
     | (Inr False, g') \<Rightarrow> (Inl ''PostgreSQL advisory lock release failed'', al_invalidate A s g')
     | (Inl e, g') \<Rightarrow> (Inl e, al_invalidate A s g'))"

section \<open>Leases\<close>

datatype lease_phase = Opening | Inside | Closing

record lease_frame =
  fr_name :: str
  fr_wait :: bool
  fr_outermost :: bool
  fr_mode :: IndexLeaseMode
  fr_phase :: lease_phase

record 'g lease_world =
  lw_coordinator :: "nat \<Rightarrow> coordinator"
  lw_frames :: "nat \<Rightarrow> task \<Rightarrow> lease_frame list"
  lw_locks :: 'g

text \<open>
  After \<open>_acquire_local\<close>: an outermost lease goes on to the advisory lock, a re-entered one is
  inside at once.
\<close>

fun pushed :: "str \<Rightarrow> bool \<Rightarrow> acquisition \<Rightarrow> lease_frame list \<Rightarrow> lease_frame list" where
  "pushed name wait (Acquired outermost mode) fs =
     \<lparr> fr_name = name, fr_wait = wait, fr_outermost = outermost, fr_mode = mode,
       fr_phase = (if outermost then Opening else Inside) \<rparr> # fs"
| "pushed name wait _ fs = fs"

definition upd_task :: "nat \<Rightarrow> task \<Rightarrow> coordinator \<Rightarrow> lease_frame list \<Rightarrow> 'g lease_world \<Rightarrow> 'g lease_world" where
  "upd_task p t c fs w = w\<lparr>lw_coordinator := (lw_coordinator w)(p := c),
     lw_frames := (lw_frames w)(p := (lw_frames w p)(t := fs))\<rparr>"

text \<open>\<open>finally: await self._release_local(task_id)\<close>.\<close>

definition pop :: "nat \<Rightarrow> task \<Rightarrow> 'g lease_world \<Rightarrow> 'g lease_world" where
  "pop p t w = upd_task p t (snd (release_local t (lw_coordinator w p))) (tl (lw_frames w p t)) w"

definition set_phase :: "nat \<Rightarrow> task \<Rightarrow> lease_phase \<Rightarrow> 'g \<Rightarrow> 'g lease_world \<Rightarrow> 'g lease_world" where
  "set_phase p t ph g w = (let fs = lw_frames w p t in
     (upd_task p t (lw_coordinator w p) ((hd fs)\<lparr>fr_phase := ph\<rparr> # tl fs) w)\<lparr>lw_locks := g\<rparr>)"

definition running_body :: "lease_frame list \<Rightarrow> bool" where
  "running_body fs \<longleftrightarrow> (case fs of [] \<Rightarrow> True | f # _ \<Rightarrow> fr_phase f = Inside)"

text \<open>The steps of all tasks of all processes; a body may end at any time, by return or exception.\<close>

inductive lease_step :: "'g advisory \<Rightarrow> 'g lease_world \<Rightarrow> 'g lease_world \<Rightarrow> bool" for A where
  request: "running_body (lw_frames w p t) \<Longrightarrow> t \<notin> wa_task ` set (ic_waiters (lw_coordinator w p)) \<Longrightarrow>
    acquire_local t name wait mode (lw_coordinator w p) = (a, c) \<Longrightarrow>
    lease_step A w (upd_task p t c (pushed name wait a (lw_frames w p t)) w)"
| wake: "u \<in> set (ic_waiters (lw_coordinator w p)) \<Longrightarrow> wa_notified u \<Longrightarrow>
    resume u (lw_coordinator w p) = (a, c) \<Longrightarrow>
    lease_step A w (upd_task p (wa_task u) c (pushed (wa_name u) True a (lw_frames w p (wa_task u))) w)"
| cancelled: "u \<in> set (ic_waiters (lw_coordinator w p)) \<Longrightarrow>
    lease_step A w (upd_task p (wa_task u) (cancel u (lw_coordinator w p)) (lw_frames w p (wa_task u)) w)"
| entered: "lw_frames w p t = f # fs \<Longrightarrow> fr_phase f = Opening \<Longrightarrow>
    lock_attempt A (fr_wait f) (fr_mode f = SHARED_LEASE) (p, t) (lw_locks w) = (LockEntered, g) \<Longrightarrow>
    lease_step A w (set_phase p t Inside g w)"
| polled: "lw_frames w p t = f # fs \<Longrightarrow> fr_phase f = Opening \<Longrightarrow>
    lock_attempt A (fr_wait f) (fr_mode f = SHARED_LEASE) (p, t) (lw_locks w) = (LockPolling, g) \<Longrightarrow>
    lease_step A w (w\<lparr>lw_locks := g\<rparr>)"
| refused: "lw_frames w p t = f # fs \<Longrightarrow> fr_phase f = Opening \<Longrightarrow>
    lock_attempt A (fr_wait f) (fr_mode f = SHARED_LEASE) (p, t) (lw_locks w) = (r, g) \<Longrightarrow>
    r = LockBlocked \<or> r = LockFailed e \<Longrightarrow>
    lease_step A w (pop p t (w\<lparr>lw_locks := g\<rparr>))"
| aborted: "lw_frames w p t = f # fs \<Longrightarrow> fr_phase f = Opening \<Longrightarrow> lease_step A w (pop p t w)"
| left: "lw_frames w p t = f # fs \<Longrightarrow> fr_phase f = Inside \<Longrightarrow> fr_outermost f \<Longrightarrow>
    release_or_invalidate A (fr_mode f = SHARED_LEASE) (p, t) (lw_locks w) = (r, g) \<Longrightarrow>
    lease_step A w (set_phase p t Closing g w)"
| left_inner: "lw_frames w p t = f # fs \<Longrightarrow> fr_phase f = Inside \<Longrightarrow> \<not> fr_outermost f \<Longrightarrow>
    lease_step A w (pop p t w)"
| closed: "lw_frames w p t = f # fs \<Longrightarrow> fr_phase f = Closing \<Longrightarrow> lease_step A w (pop p t w)"

definition fresh_world :: "'g advisory \<Rightarrow> 'g lease_world \<Rightarrow> bool" where
  "fresh_world A w \<longleftrightarrow> lw_coordinator w = (\<lambda>_. new_coordinator) \<and> lw_frames w = (\<lambda>_ _. []) \<and>
     al_holders A (lw_locks w) = Map.empty"

inductive lease_reachable :: "'g advisory \<Rightarrow> 'g lease_world \<Rightarrow> bool" for A where
  lease_init: "fresh_world A w \<Longrightarrow> lease_reachable A w"
| lease_more: "lease_reachable A w \<Longrightarrow> lease_step A w w' \<Longrightarrow> lease_reachable A w'"

section \<open>Invariant\<close>

text \<open>
  The stack of a task and its lease: as deep as the stack, of one mode; the lowest frame is the
  outermost, and everything above it is inside.
\<close>

definition stack_ok :: "TaskLease option \<Rightarrow> lease_frame list \<Rightarrow> bool" where
  "stack_ok l fs \<longleftrightarrow> (case l of
       None \<Rightarrow> fs = []
     | Some lease \<Rightarrow> tl_depth lease = int (length fs) \<and> fs \<noteq> [] \<and> fr_outermost (last fs) \<and>
         (\<forall>f\<in>set fs. fr_mode f = tl_mode lease) \<and>
         (\<forall>f\<in>set (butlast fs). \<not> fr_outermost f \<and> fr_phase f = Inside) \<and>
         (butlast fs \<noteq> [] \<longrightarrow> fr_phase (last fs) = Inside))"

definition held :: "lease_frame list \<Rightarrow> IndexLeaseMode option" where
  "held fs = (if fs \<noteq> [] \<and> fr_phase (last fs) = Inside then Some (fr_mode (last fs)) else None)"

lemma held_Nil: "held [] = None"
  by (simp add: held_def)

definition compatible :: "(session \<Rightarrow> IndexLeaseMode option) \<Rightarrow> bool" where
  "compatible h \<longleftrightarrow> (\<forall>s s' m m'. s \<noteq> s' \<longrightarrow> h s = Some m \<longrightarrow> h s' = Some m' \<longrightarrow> m = SHARED_LEASE)"

abbreviation lease_of :: "coordinator \<Rightarrow> task \<Rightarrow> TaskLease option" where
  "lease_of c \<equiv> map_of (ic_task_leases c)"

definition lease_world_ok :: "'g advisory \<Rightarrow> 'g lease_world \<Rightarrow> bool" where
  "lease_world_ok A w \<longleftrightarrow> (\<forall>p. coordinator_ok (lw_coordinator w p)) \<and>
     (\<forall>p t. stack_ok (lease_of (lw_coordinator w p) t) (lw_frames w p t)) \<and>
     al_holders A (lw_locks w) = (\<lambda>(p, t). held (lw_frames w p t)) \<and> compatible (al_holders A (lw_locks w))"

section \<open>How the operations change leases\<close>

lemma lease_of_append: "lease_of c t = None \<Longrightarrow> map_of (ic_task_leases c @ [(t, l)]) = (lease_of c)(t \<mapsto> l)"
  by (rule ext) (auto simp: map_add_def split: option.split)

lemma lease_of_set_depth:
  "lease_of (set_depth t d c) = (\<lambda>s. if s = t then map_option (tl_depth_update (\<lambda>_. d)) (lease_of c s) else lease_of c s)"
proof
  fix s
  have "map_of (map (\<lambda>(s, l). (s, if s = t then l\<lparr>tl_depth := d\<rparr> else l)) kvs) s =
      (if s = t then map_option (tl_depth_update (\<lambda>_. d)) (map_of kvs s) else map_of kvs s)" for kvs :: "(task \<times> TaskLease) list"
    by (induction kvs) auto
  then show "lease_of (set_depth t d c) s =
      (if s = t then map_option (tl_depth_update (\<lambda>_. d)) (lease_of c s) else lease_of c s)"
    by (simp add: set_depth_def)
qed

lemma grant_leases:
  assumes "lease_of c t = None"
  shows "lease_of (grant_shared t n c) = (lease_of c)(t \<mapsto> \<lparr> tl_mode = SHARED_LEASE, tl_name = n, tl_depth = 1 \<rparr>)"
    and "lease_of (grant_exclusive t n c) = (lease_of c)(t \<mapsto> \<lparr> tl_mode = EXCLUSIVE_LEASE, tl_name = n, tl_depth = 1 \<rparr>)"
  unfolding grant_shared_def grant_exclusive_def using assms by (simp_all add: lease_of_append del: map_of_append)

lemma stack_ok_first:
  "stack_ok (Some \<lparr> tl_mode = m, tl_name = n, tl_depth = 1 \<rparr>) (pushed n' wt (Acquired True m) [])"
  by (simp add: stack_ok_def)

lemma stack_ok_deeper:
  assumes "stack_ok (Some l) fs" "running_body fs"
  shows "stack_ok (Some (l\<lparr>tl_depth := tl_depth l + 1\<rparr>)) (pushed n wt (Acquired False (tl_mode l)) fs)"
  using assms by (cases fs rule: rev_cases; cases "butlast fs") (auto simp: stack_ok_def running_body_def split: list.splits)

lemma acquire_local_leases:
  assumes a: "acquire_local t n wt m c = (a, c')" and st: "stack_ok (lease_of c t) fs" "running_body fs"
  shows "stack_ok (lease_of c' t) (pushed n wt a fs)" and "s \<noteq> t \<Longrightarrow> lease_of c' s = lease_of c s"
    and "held (pushed n wt a fs) = held fs"
proof -
  have "stack_ok (lease_of c' t) (pushed n wt a fs) \<and> (s \<noteq> t \<longrightarrow> lease_of c' s = lease_of c s) \<and>
      held (pushed n wt a fs) = held fs"
  proof (cases "lease_of c t")
    case None
    with st have "fs = []" by (simp add: stack_ok_def)
    with a None show ?thesis
      by (auto simp: acquire_local_def acquire_shared_def acquire_exclusive_def grant_leases stack_ok_first wait_on_def
          held_def stack_ok_def split: if_splits)
  next
    case (Some l)
    with st have "fs \<noteq> []" by (auto simp: stack_ok_def)
    with a Some st stack_ok_deeper [of l fs] show ?thesis
      by (auto simp: acquire_local_def lease_of_set_depth held_def split: if_splits)
  qed
  then show "stack_ok (lease_of c' t) (pushed n wt a fs)" "s \<noteq> t \<Longrightarrow> lease_of c' s = lease_of c s"
    "held (pushed n wt a fs) = held fs" by blast+
qed

lemma resume_leases:
  assumes a: "resume u c = (a, c')" and l: "lease_of c (wa_task u) = None"
  shows "stack_ok (lease_of c' (wa_task u)) (pushed n True a [])" and "s \<noteq> wa_task u \<Longrightarrow> lease_of c' s = lease_of c s"
    and "held (pushed n True a []) = None"
proof -
  have "lease_of (c\<lparr>ic_waiters := x\<rparr>) = lease_of c" "lease_of (c\<lparr>ic_waiters := x, ic_waiting_exclusive := k\<rparr>) = lease_of c" for x k
    by simp_all
  then have "stack_ok (lease_of c' (wa_task u)) (pushed n True a []) \<and> (s \<noteq> wa_task u \<longrightarrow> lease_of c' s = lease_of c s) \<and>
      held (pushed n True a []) = None"
    using a l
    by (auto simp: resume_def Let_def acquire_shared_def grant_leases wait_on_def stack_ok_def held_def
        split: if_splits IndexLeaseMode.splits)
  then show "stack_ok (lease_of c' (wa_task u)) (pushed n True a [])" "s \<noteq> wa_task u \<Longrightarrow> lease_of c' s = lease_of c s"
    "held (pushed n True a []) = None" by blast+
qed

lemma cancel_leases: "lease_of (cancel u c) = lease_of c"
  by (simp add: cancel_def Let_def split: IndexLeaseMode.split)

lemma map_of_filter_key: "map_of (filter (\<lambda>(s, _). s \<noteq> t) kvs) s = (if s = t then None else map_of kvs s)"
  by (induction kvs) auto

lemma release_leases:
  assumes "stack_ok (lease_of c t) fs" "fs \<noteq> []"
  shows "stack_ok (lease_of (snd (release_local t c)) t) (tl fs)"
    and "s \<noteq> t \<Longrightarrow> lease_of (snd (release_local t c)) s = lease_of c s"
proof -
  obtain l where l: "lease_of c t = Some l" "tl_depth l = int (length fs)"
    using assms by (auto simp: stack_ok_def split: option.splits)
  show "s \<noteq> t \<Longrightarrow> lease_of (snd (release_local t c)) s = lease_of c s"
    using l by (simp add: release_local_def Let_def lease_of_set_depth map_of_filter_key)
  show "stack_ok (lease_of (snd (release_local t c)) t) (tl fs)"
  proof (cases "length fs = 1")
    case True
    with l show ?thesis
      by (auto simp: release_local_def Let_def map_of_filter_key stack_ok_def length_Suc_conv)
  next
    case False
    then obtain f g gs where fs: "fs = f # g # gs" using assms(2) by (cases fs; cases "tl fs") auto
    with l assms(1) show ?thesis
      by (auto simp: release_local_def lease_of_set_depth stack_ok_def)
  qed
qed

section \<open>Every step keeps the invariant\<close>

lemma lease_world_okD:
  assumes "lease_world_ok A w"
  shows "coordinator_ok (lw_coordinator w p)" "stack_ok (lease_of (lw_coordinator w p) t) (lw_frames w p t)"
    "al_holders A (lw_locks w) (p, t) = held (lw_frames w p t)" "compatible (al_holders A (lw_locks w))"
  using assms unfolding lease_world_ok_def by (blast, blast, simp, blast)

lemma upd_task_ok:
  assumes w: "lease_world_ok A w" and c: "coordinator_ok c" "stack_ok (lease_of c t) fs"
    "\<And>s. s \<noteq> t \<Longrightarrow> lease_of c s = lease_of (lw_coordinator w p) s"
    and locks: "al_holders A g = (al_holders A (lw_locks w))((p, t) := held fs)" "compatible (al_holders A g)"
  shows "lease_world_ok A ((upd_task p t c fs w)\<lparr>lw_locks := g\<rparr>)"
proof -
  have "stack_ok (lease_of (((lw_coordinator w)(p := c)) q) s) (((lw_frames w)(p := (lw_frames w p)(t := fs))) q s)" for q s
    using lease_world_okD(2) [OF w, of q s] c(2,3) by (cases "q = p"; cases "s = t") auto
  moreover have "al_holders A g = (\<lambda>(q, s). held (((lw_frames w)(p := (lw_frames w p)(t := fs))) q s))"
    unfolding locks(1) using lease_world_okD(3) [OF w] by (auto simp: fun_eq_iff)
  ultimately show ?thesis
    using lease_world_okD(1) [OF w] c(1) locks(2) by (simp add: lease_world_ok_def upd_task_def)
qed

lemma upd_task_same_locks:
  assumes w: "lease_world_ok A w" and c: "coordinator_ok c" "stack_ok (lease_of c t) fs"
    "\<And>s. s \<noteq> t \<Longrightarrow> lease_of c s = lease_of (lw_coordinator w p) s" and h: "held fs = held (lw_frames w p t)"
    and g: "al_holders A g = al_holders A (lw_locks w)"
  shows "lease_world_ok A ((upd_task p t c fs w)\<lparr>lw_locks := g\<rparr>)"
proof (rule upd_task_ok [OF w c])
  show "al_holders A g = (al_holders A (lw_locks w))((p, t) := held fs)"
    unfolding g h using lease_world_okD(3) [OF w, of p t] by (simp add: fun_eq_iff)
  show "compatible (al_holders A g)" unfolding g by (rule lease_world_okD(4) [OF w])
qed

lemma upd_task_locks: "lw_locks (upd_task p t c fs w) = lw_locks w"
  by (simp add: upd_task_def)

lemma lease_world_surj: "w\<lparr>lw_locks := lw_locks w\<rparr> = w"
  by simp

lemma pop_ok:
  assumes w: "lease_world_ok A w" and fs: "lw_frames w p t \<noteq> []" and h: "held (tl (lw_frames w p t)) = held (lw_frames w p t)"
    and g: "al_holders A g = al_holders A (lw_locks w)"
  shows "lease_world_ok A (pop p t (w\<lparr>lw_locks := g\<rparr>))"
proof -
  have "pop p t (w\<lparr>lw_locks := g\<rparr>) =
      (upd_task p t (snd (release_local t (lw_coordinator w p))) (tl (lw_frames w p t)) w)\<lparr>lw_locks := g\<rparr>"
    by (simp add: pop_def upd_task_def)
  also have "lease_world_ok A \<dots>"
    by (rule upd_task_same_locks [OF w release_local_ok [OF lease_world_okD(1) [OF w]]
          release_leases(1) [OF lease_world_okD(2) [OF w] fs] _ h g])
       (rule release_leases(2) [OF lease_world_okD(2) [OF w] fs])
  finally show ?thesis .
qed

text \<open>A frame that is not inside is alone, and an inner one has the outermost below it.\<close>

lemma stack_top:
  assumes "stack_ok l (f # fs)"
  shows "fr_phase f \<noteq> Inside \<Longrightarrow> fs = [] \<and> held (f # fs) = None" and "\<not> fr_outermost f \<Longrightarrow> fs \<noteq> []"
    and "fr_outermost f \<Longrightarrow> fs = []"
  using assms by (auto simp: stack_ok_def held_def split: option.splits if_splits)

lemma set_phase_ok:
  assumes w: "lease_world_ok A w" and fs: "lw_frames w p t = [f]" "fr_outermost f"
    and locks: "al_holders A g = (al_holders A (lw_locks w))((p, t) := held [f\<lparr>fr_phase := ph\<rparr>])" "compatible (al_holders A g)"
  shows "lease_world_ok A (set_phase p t ph g w)"
proof -
  have "stack_ok (lease_of (lw_coordinator w p) t) [f\<lparr>fr_phase := ph\<rparr>]"
    using lease_world_okD(2) [OF w, of p t] fs by (auto simp: stack_ok_def split: option.splits)
  from upd_task_ok [OF w lease_world_okD(1) [OF w] this _ locks] fs show ?thesis
    by (simp add: set_phase_def Let_def)
qed

lemma advisory_okD:
  assumes "advisory_ok A"
  shows "al_try A shared s g = (Inr True, g') \<Longrightarrow> al_holders A g' = (al_holders A g)(s \<mapsto> mode_of shared)"
    and "al_try A shared s g = (Inr True, g') \<Longrightarrow> s' \<noteq> s \<Longrightarrow> al_holders A g s' = Some m \<Longrightarrow> shared \<and> m = SHARED_LEASE"
    and "al_try A shared s g = (r, g') \<Longrightarrow> r \<noteq> Inr True \<Longrightarrow> al_holders A g' = al_holders A g"
    and "al_unlock A shared s g = (Inr True, g') \<Longrightarrow> al_holders A g' = (al_holders A g)(s := None)"
    and "al_unlock A shared s g = (r, g') \<Longrightarrow> s' \<noteq> s \<Longrightarrow> al_holders A g' s' = al_holders A g s'"
    and "al_holders A (al_invalidate A s g) = (al_holders A g)(s := None)"
proof -
  have t: "try_law A shared s g" and u: "unlock_law A shared s g"
    and i: "al_holders A (al_invalidate A s g) = (al_holders A g)(s := None)"
    using assms unfolding advisory_ok_def by blast+
  show "al_try A shared s g = (Inr True, g') \<Longrightarrow> al_holders A g' = (al_holders A g)(s \<mapsto> mode_of shared)"
    using t by (simp add: try_law_def)
  show "al_try A shared s g = (Inr True, g') \<Longrightarrow> s' \<noteq> s \<Longrightarrow> al_holders A g s' = Some m \<Longrightarrow> shared \<and> m = SHARED_LEASE"
    using t unfolding try_law_def by (cases s') simp
  show "al_try A shared s g = (r, g') \<Longrightarrow> r \<noteq> Inr True \<Longrightarrow> al_holders A g' = al_holders A g"
    using t unfolding try_law_def by (simp split: sum.splits bool.splits)
  show "al_unlock A shared s g = (Inr True, g') \<Longrightarrow> al_holders A g' = (al_holders A g)(s := None)"
    using u by (simp add: unlock_law_def)
  show "al_holders A g' s' = al_holders A g s'" if "al_unlock A shared s g = (r, g')" "s' \<noteq> s"
  proof (cases "r = Inr True")
    case False
    with that u show ?thesis unfolding unlock_law_def by (simp split: sum.splits bool.splits) (metis surj_pair)+
  qed (use that u in \<open>simp add: unlock_law_def\<close>)
  show "al_holders A (al_invalidate A s g) = (al_holders A g)(s := None)" by (rule i)
qed

lemma lock_attempt_effect:
  assumes "advisory_ok A" "lock_attempt A wt shared s g = (r, g')"
  shows "r = LockEntered \<Longrightarrow> al_holders A g' = (al_holders A g)(s \<mapsto> mode_of shared)"
    and "r = LockEntered \<Longrightarrow> compatible (al_holders A g) \<Longrightarrow> compatible (al_holders A g')"
    and "r \<noteq> LockEntered \<Longrightarrow> al_holders A g' = al_holders A g"
proof -
  obtain x where x: "al_try A shared s g = (x, g')" "r = LockEntered \<longleftrightarrow> x = Inr True"
    using assms(2) by (auto simp: lock_attempt_def split: prod.splits sum.splits bool.splits if_splits)
  show "r = LockEntered \<Longrightarrow> al_holders A g' = (al_holders A g)(s \<mapsto> mode_of shared)"
    using x advisory_okD(1) [OF assms(1)] by blast
  show "r \<noteq> LockEntered \<Longrightarrow> al_holders A g' = al_holders A g"
    using x advisory_okD(3) [OF assms(1)] by blast
  assume "r = LockEntered" and c: "compatible (al_holders A g)"
  with x have t: "al_try A shared s g = (Inr True, g')" by simp
  show "compatible (al_holders A g')"
    unfolding compatible_def
  proof (intro allI impI)
    fix a b m m' assume ab: "a \<noteq> b" "al_holders A g' a = Some m" "al_holders A g' b = Some m'"
    note h = advisory_okD(1) [OF assms(1) t] and others = advisory_okD(2) [OF assms(1) t]
    consider "a = s" | "b = s" | "a \<noteq> s" "b \<noteq> s" by blast
    then show "m = SHARED_LEASE"
    proof cases
      case 1
      with ab others [of b m'] show ?thesis by (simp add: h mode_of_def)
    next
      case 2
      with ab others [of a m] show ?thesis by (simp add: h)
    next
      case 3
      with ab have "al_holders A g a = Some m" "al_holders A g b = Some m'" by (simp_all add: h)
      with c ab(1) show ?thesis unfolding compatible_def by blast
    qed
  qed
qed

lemma release_effect:
  assumes "advisory_ok A" "release_or_invalidate A shared s g = (r, g')"
  shows "al_holders A g' = (al_holders A g)(s := None)"
proof -
  obtain x g1 where u: "al_unlock A shared s g = (x, g1)" by (rule prod.exhaust)
  have "(al_holders A g1)(s := None) = (al_holders A g)(s := None)"
    using advisory_okD(5) [OF assms(1) u] by (auto simp: fun_eq_iff)
  moreover have "x = Inr True \<and> g' = g1 \<or> g' = al_invalidate A s g1"
    using u assms(2) by (auto simp: release_or_invalidate_def split: sum.splits bool.splits)
  ultimately show ?thesis
    using advisory_okD(4) [OF assms(1)] advisory_okD(6) [OF assms(1), of s g1] u by metis
qed

lemma lease_step_ok:
  assumes A: "advisory_ok A" and step: "lease_step A w w'" and ok: "lease_world_ok A w"
  shows "lease_world_ok A w'"
  using step
proof cases
  case (request p t name wait mode a c)
  note l = acquire_local_leases [OF request(4) lease_world_okD(2) [OF ok] request(2)]
  have c: "coordinator_ok c" using acquire_local_ok [OF lease_world_okD(1) [OF ok] request(3)] request(4) by (metis snd_conv)
  from upd_task_same_locks [OF ok c l(1) l(2) l(3) refl] show ?thesis
    unfolding request(1) by (simp add: upd_task_def)
next
  case (wake u p a c)
  let ?t = "wa_task u"
  note cp = lease_world_okD(1) [OF ok, of p]
  have "?t \<notin> leased (lw_coordinator w p)" by (rule removed_ok(3) [OF cp wake(2)])
  then have none: "lease_of (lw_coordinator w p) ?t = None" by (simp add: map_of_eq_None_iff)
  then have fs: "lw_frames w p ?t = []" using lease_world_okD(2) [OF ok, of p ?t] by (simp add: stack_ok_def)
  note l = resume_leases [OF wake(4) none]
  have c: "coordinator_ok c" using resume_ok [OF cp wake(2)] wake(4) by (metis snd_conv)
  have "lease_world_ok A ((upd_task p ?t c (pushed (wa_name u) True a []) w)\<lparr>lw_locks := lw_locks w\<rparr>)"
    by (rule upd_task_same_locks [OF ok c l(1) l(2)]) (simp_all add: l(3) fs held_Nil)
  then show ?thesis unfolding wake(1) fs by (simp add: upd_task_def)
next
  case (cancelled u p)
  have "lease_world_ok A ((upd_task p (wa_task u) (cancel u (lw_coordinator w p)) (lw_frames w p (wa_task u)) w)\<lparr>lw_locks := lw_locks w\<rparr>)"
    by (rule upd_task_same_locks [OF ok cancel_ok [OF lease_world_okD(1) [OF ok] cancelled(2)]])
       (simp_all add: cancel_leases lease_world_okD(2) [OF ok])
  then show ?thesis unfolding cancelled(1) by (simp add: upd_task_def)
next
  case (entered p t f fs g)
  have st: "stack_ok (lease_of (lw_coordinator w p) t) (f # fs)" using lease_world_okD(2) [OF ok, of p t] entered(2) by simp
  from stack_top(1) [OF this] entered(3) have fs: "fs = []" by simp
  with st have out: "fr_outermost f" by (auto simp: stack_ok_def split: option.splits)
  note e = lock_attempt_effect [OF A entered(4)]
  have "mode_of (fr_mode f = SHARED_LEASE) = fr_mode f" by (cases "fr_mode f") (simp_all add: mode_of_def)
  with e(1) have "al_holders A g = (al_holders A (lw_locks w))((p, t) := held [f\<lparr>fr_phase := Inside\<rparr>])"
    by (simp add: held_def)
  then show ?thesis
    unfolding entered(1) using entered(2) fs out e(2) lease_world_okD(4) [OF ok] by (intro set_phase_ok [OF ok]) simp_all
next
  case (polled p t f fs g)
  have "al_holders A g = al_holders A (lw_locks w)" using lock_attempt_effect(3) [OF A polled(4)] by simp
  from upd_task_same_locks [OF ok lease_world_okD(1) [OF ok] lease_world_okD(2) [OF ok, of p t] refl refl this]
  show ?thesis unfolding polled(1) by (simp add: upd_task_def)
next
  case (refused p t f fs r g e)
  have "stack_ok (lease_of (lw_coordinator w p) t) (f # fs)" using lease_world_okD(2) [OF ok, of p t] refused(2) by simp
  from stack_top(1) [OF this] refused(3) have "fs = []" "held [f] = None" by auto
  with refused lock_attempt_effect(3) [OF A refused(4)] show ?thesis
    unfolding refused(1) by (intro pop_ok [OF ok]) (auto simp: held_def)
next
  case (aborted p t f fs)
  have "stack_ok (lease_of (lw_coordinator w p) t) (f # fs)" using lease_world_okD(2) [OF ok, of p t] aborted(2) by simp
  from stack_top(1) [OF this] aborted(3) have "fs = []" "held [f] = None" by auto
  with aborted pop_ok [OF ok, of p t "lw_locks w"] show ?thesis by (auto simp: held_def)
next
  case (left p t f fs r g)
  have "stack_ok (lease_of (lw_coordinator w p) t) (f # fs)" using lease_world_okD(2) [OF ok, of p t] left(2) by simp
  from stack_top(3) [OF this left(4)] have fs: "fs = []" .
  have g: "al_holders A g = (al_holders A (lw_locks w))((p, t) := held [f\<lparr>fr_phase := Closing\<rparr>])"
    using release_effect [OF A left(5)] by (simp add: held_def)
  moreover have "compatible (al_holders A g)"
    unfolding g using lease_world_okD(4) [OF ok] by (auto simp: compatible_def held_def)
  ultimately show ?thesis unfolding left(1) using left fs by (intro set_phase_ok [OF ok]) simp_all
next
  case (left_inner p t f fs)
  have "stack_ok (lease_of (lw_coordinator w p) t) (f # fs)" using lease_world_okD(2) [OF ok, of p t] left_inner(2) by simp
  from stack_top(2) [OF this left_inner(4)] have "held fs = held (f # fs)" by (simp add: held_def)
  with left_inner pop_ok [OF ok, of p t "lw_locks w"] show ?thesis by auto
next
  case (closed p t f fs)
  have "stack_ok (lease_of (lw_coordinator w p) t) (f # fs)" using lease_world_okD(2) [OF ok, of p t] closed(2) by simp
  from stack_top(1) [OF this] closed(3) have "fs = []" "held [f] = None" by auto
  with closed pop_ok [OF ok, of p t "lw_locks w"] show ?thesis by (auto simp: held_def)
qed

lemma lease_reachable_ok:
  assumes "advisory_ok A" "lease_reachable A w"
  shows "lease_world_ok A w"
  using assms(2)
proof induction
  case (lease_init w)
  then show ?case
    using new_coordinator_ok
    by (auto simp: fresh_world_def lease_world_ok_def stack_ok_def held_def compatible_def fun_eq_iff new_coordinator_def)
qed (use lease_step_ok [OF assms(1)] in blast)

section \<open>Properties\<close>

lemma inside_is_held:
  assumes "lease_world_ok A w" "f \<in> set (lw_frames w p t)" "fr_phase f = Inside"
  shows "al_holders A (lw_locks w) (p, t) = Some (fr_mode f)"
proof -
  let ?fs = "lw_frames w p t"
  obtain l where l: "stack_ok (Some l) ?fs"
    using lease_world_okD(2) [OF assms(1), of p t] assms(2) by (auto simp: stack_ok_def split: option.splits)
  have "?fs \<noteq> []" using assms(2) by auto
  then have "set ?fs = insert (last ?fs) (set (butlast ?fs))"
    by (metis append_butlast_last_id list.set(1) list.simps(15) set_append Un_commute insert_is_Un)
  with assms(2,3) l have "fr_phase (last ?fs) = Inside"
    by (auto simp: stack_ok_def)
  moreover have "fr_mode (last ?fs) = fr_mode f" using l assms(2) \<open>?fs \<noteq> []\<close> by (auto simp: stack_ok_def)
  ultimately show ?thesis
    using lease_world_okD(3) [OF assms(1), of p t] \<open>?fs \<noteq> []\<close> by (simp add: held_def)
qed

text \<open>
  C36: Exclusive maintenance is alone. Along every interleaving of requests, wake-ups,
  cancellations, lock attempts and exits of all tasks of all processes, while a task is inside an
  exclusive lease no other task, of this or another process, is inside any lease; within its
  process it holds the only lease.
\<close>

theorem exclusive_lease_excludes_every_other:
  assumes "advisory_ok A" and "lease_reachable A w"
    and "f \<in> set (lw_frames w p t)" "fr_phase f = Inside" "fr_mode f = EXCLUSIVE_LEASE"
  shows "{(p', t'). \<exists>f'\<in>set (lw_frames w p' t'). fr_phase f' = Inside} = {(p, t)} \<and>
    leased (lw_coordinator w p) = {t}"
proof -
  have ok: "lease_world_ok A w" by (rule lease_reachable_ok [OF assms(1,2)])
  note h = inside_is_held [OF ok assms(3,4)]
  have alone: "(p', t') = (p, t)" if "f' \<in> set (lw_frames w p' t')" "fr_phase f' = Inside" for p' t' f'
    using lease_world_okD(4) [OF ok] h inside_is_held [OF ok that] assms(5)
    unfolding compatible_def by (metis IndexLeaseMode.distinct(1))
  have "{(p', t'). \<exists>f'\<in>set (lw_frames w p' t'). fr_phase f' = Inside} = {(p, t)}"
  proof (intro equalityI subsetI)
    fix x assume "x \<in> {(p', t'). \<exists>f'\<in>set (lw_frames w p' t'). fr_phase f' = Inside}"
    then obtain p' t' f' where "x = (p', t')" "f' \<in> set (lw_frames w p' t')" "fr_phase f' = Inside" by blast
    with alone [of f' p' t'] show "x \<in> {(p, t)}" by simp
  qed (use assms(3,4) in auto)
  moreover have "leased (lw_coordinator w p) = {t}"
  proof -
    obtain l where l: "lease_of (lw_coordinator w p) t = Some l" "tl_mode l = EXCLUSIVE_LEASE"
      using lease_world_okD(2) [OF ok, of p t] assms(3,5) by (force simp: stack_ok_def split: option.splits)
    then have "(t, l) \<in> set (ic_task_leases (lw_coordinator w p))" by (simp add: map_of_SomeD)
    with l(2) lease_world_okD(1) [OF ok, of p] show ?thesis
      by (auto simp: coordinator_ok_def lanes_ok_def split: option.splits)
  qed
  ultimately show ?thesis by (rule conjI)
qed

text \<open>
  C37: No wake-up is lost. In every reachable world, when a process holds no lease but tasks wait,
  one of the waiting tasks has been notified and gets its lease when it runs, although a
  notified waiter may have been cancelled or may have gone back to sleep behind a waiting
  maintenance operation.
\<close>

theorem no_wake_up_is_lost:
  assumes "advisory_ok A" and "lease_reachable A w"
    and "ic_task_leases (lw_coordinator w p) = []" and "ic_waiters (lw_coordinator w p) \<noteq> []"
  shows "\<exists>u\<in>set (ic_waiters (lw_coordinator w p)). wa_notified u \<and>
    (\<exists>m. fst (resume u (lw_coordinator w p)) = Acquired True m)"
proof -
  let ?c = "lw_coordinator w p"
  have ok: "coordinator_ok ?c" by (rule lease_world_okD(1) [OF lease_reachable_ok [OF assms(1,2)]])
  have idle: "ic_exclusive_owner ?c = None" "ic_active_shared ?c = 0" "exclusive_available ?c"
    using ok assms(3) by (auto simp: coordinator_ok_def lanes_ok_def exclusive_available_def split: option.splits)
  show ?thesis
  proof (cases "\<exists>u\<in>set (ic_waiters ?c). is_exclusive u")
    case True
    then obtain u where u: "u \<in> set (ic_waiters ?c)" "is_exclusive u" by blast
    with ok idle(3) have "wa_notified u" by (auto simp: coordinator_ok_def wake_ok_def)
    with u idle show ?thesis
      by (intro bexI [of _ u]) (auto simp: resume_def Let_def exclusive_available_def)
  next
    case False
    then have "ic_waiting_exclusive ?c = 0"
      using ok by (auto simp: coordinator_ok_def waiters_ok_def filter_empty_conv)
    moreover obtain u where "u \<in> set (ic_waiters ?c)" "wa_notified u"
      using ok idle(3) assms(4) by (auto simp: coordinator_ok_def wake_ok_def)
    moreover from this(1) False have "wa_mode u = SHARED_LEASE" by (cases "wa_mode u") auto
    ultimately show ?thesis
      using idle by (intro bexI [of _ u]) (auto simp: resume_def Let_def acquire_shared_def shared_blocked_def)
  qed
qed

text \<open>
  C38: A steady stream of writers cannot starve maintenance: while an exclusive request waits, no
  task that holds no lease gets a shared one, neither a new request nor a waiting one that is
  woken.
\<close>

theorem waiting_maintenance_stops_new_writers:
  assumes "advisory_ok A" and "lease_reachable A w"
    and "u \<in> set (ic_waiters (lw_coordinator w p))" "is_exclusive u"
  shows "(t \<notin> leased (lw_coordinator w p) \<longrightarrow>
      fst (acquire_local t name wait SHARED_LEASE (lw_coordinator w p)) = Blocked) \<and>
    (\<forall>v\<in>set (ic_waiters (lw_coordinator w p)). wa_mode v = SHARED_LEASE \<longrightarrow>
      fst (resume v (lw_coordinator w p)) = Blocked)"
proof -
  let ?c = "lw_coordinator w p"
  have ok: "coordinator_ok ?c" by (rule lease_world_okD(1) [OF lease_reachable_ok [OF assms(1,2)]])
  have "filter is_exclusive (ic_waiters ?c) \<noteq> []" using assms(3,4) by (auto simp: filter_empty_conv)
  then have "0 < ic_waiting_exclusive ?c" using ok by (auto simp: coordinator_ok_def waiters_ok_def)
  moreover have "t \<notin> leased ?c \<Longrightarrow> lease_of ?c t = None" by (simp add: map_of_eq_None_iff)
  ultimately show ?thesis
    by (auto simp: acquire_local_def acquire_shared_def shared_blocked_def resume_def Let_def)
qed

lemma bytes_value_bound: "\<forall>b\<in>set bs. b < 256 \<Longrightarrow> bytes_value bs < 256 ^ length bs"
proof (induction bs rule: rev_induct)
  case (snoc b bs)
  then have "bytes_value bs < 256 ^ length bs" "b < 256" by auto
  then have "256 * bytes_value bs + b < 256 * 256 ^ length bs" by linarith
  then show ?case by (simp add: bytes_value_def)
qed (simp add: bytes_value_def)

text \<open>
  The lock key of every namespace is a signed 64-bit integer, whatever the digest.
\<close>

theorem advisory_lock_key_is_int64:
  assumes "\<And>s. \<forall>b\<in>set (sha256 s). b < 256"
  shows "int64 (postgres_advisory_lock_key sha256 namespace)"
proof -
  let ?n = "bytes_value (take 8 (sha256 namespace))"
  have "\<forall>b\<in>set (take 8 (sha256 namespace)). b < 256" using assms by (meson in_set_takeD)
  from bytes_value_bound [OF this] have "?n < 256 ^ length (take 8 (sha256 namespace))" .
  also have "\<dots> \<le> 256 ^ 8" by (rule power_increasing) simp_all
  finally have "int ?n < 2 ^ 64" by simp
  then show ?thesis by (simp add: postgres_advisory_lock_key_def Let_def int64_def)
qed

section \<open>A lock table\<close>

definition table_locks :: "(session \<times> IndexLeaseMode) list advisory" where
  "table_locks = \<lparr> al_holders = map_of,
     al_try = (\<lambda>shared s g. if \<forall>(s', m)\<in>set g. s' = s \<or> shared \<and> m = SHARED_LEASE
        then (Inr True, (s, mode_of shared) # filter (\<lambda>(s', _). s' \<noteq> s) g) else (Inr False, g)),
     al_unlock = (\<lambda>shared s g. (Inr (map_of g s \<noteq> None), filter (\<lambda>(s', _). s' \<noteq> s) g)),
     al_invalidate = (\<lambda>s g. filter (\<lambda>(s', _). s' \<noteq> s) g) \<rparr>"

lemma table_locks_ok: "advisory_ok table_locks"
proof -
  have f: "map_of (filter (\<lambda>(s', _). s' \<noteq> s) g) = (map_of g)(s := None)" for s and g :: "(session \<times> IndexLeaseMode) list"
    by (rule ext) (simp add: map_of_filter_key)
  have "try_law table_locks shared s g" for shared s g
    by (auto simp: try_law_def table_locks_def f dest!: map_of_SomeD)
  moreover have "unlock_law table_locks shared s g" for shared s g
    by (auto simp: unlock_law_def table_locks_def f split: bool.splits option.splits)
  ultimately show ?thesis by (simp add: advisory_ok_def) (simp add: table_locks_def f)
qed

definition idle_world :: "(session \<times> IndexLeaseMode) list lease_world" where
  "idle_world = \<lparr> lw_coordinator = \<lambda>_. new_coordinator, lw_frames = \<lambda>_ _. [], lw_locks = [] \<rparr>"

lemma idle_world_reachable: "lease_reachable table_locks idle_world"
  by (rule lease_init) (simp add: fresh_world_def idle_world_def table_locks_def)

text \<open>Task 1 of process 0 holds the exclusive lane and is about to enter the advisory lock.\<close>

definition maintaining :: "(session \<times> IndexLeaseMode) list lease_world" where
  "maintaining = upd_task 0 1 (grant_exclusive 1 ''rebuild'' new_coordinator)
     [\<lparr> fr_name = ''rebuild'', fr_wait = True, fr_outermost = True, fr_mode = EXCLUSIVE_LEASE, fr_phase = Opening \<rparr>] idle_world"

lemma maintaining_reachable: "lease_reachable table_locks maintaining"
proof -
  have "lease_step table_locks idle_world (upd_task 0 1 (grant_exclusive 1 ''rebuild'' new_coordinator)
      (pushed ''rebuild'' True (Acquired True EXCLUSIVE_LEASE) (lw_frames idle_world 0 1)) idle_world)"
    by (rule request [where mode = EXCLUSIVE_LEASE])
       (simp_all add: idle_world_def running_body_def new_coordinator_def acquire_local_def acquire_exclusive_def
         exclusive_available_def)
  then show ?thesis
    using lease_more [OF idle_world_reachable] by (simp add: maintaining_def idle_world_def)
qed

theorem exclusive_lease_excludes_every_other_witness:
  "\<exists>w. lease_reachable table_locks w \<and> lw_locks w = [((0, 1), EXCLUSIVE_LEASE)] \<and>
     {(p', t'). \<exists>f'\<in>set (lw_frames w p' t'). fr_phase f' = Inside} = {(0, 1)}"
proof -
  let ?w = "set_phase 0 1 Inside [((0, 1), EXCLUSIVE_LEASE)] maintaining"
  have "lease_step table_locks maintaining ?w"
    by (rule entered [where fs = "[]" and f = "\<lparr> fr_name = ''rebuild'', fr_wait = True, fr_outermost = True,
          fr_mode = EXCLUSIVE_LEASE, fr_phase = Opening \<rparr>"]) (simp_all add: maintaining_def upd_task_def idle_world_def lock_attempt_def table_locks_def mode_of_def)
  then have r: "lease_reachable table_locks ?w" by (rule lease_more [OF maintaining_reachable])
  moreover have "lw_locks ?w = [((0, 1), EXCLUSIVE_LEASE)]" by (simp add: set_phase_def Let_def)
  moreover have "{(p', t'). \<exists>f'\<in>set (lw_frames ?w p' t'). fr_phase f' = Inside} = {(0, 1)}"
    using exclusive_lease_excludes_every_other [OF table_locks_ok r, of _ 0 1]
    by (simp add: set_phase_def Let_def upd_task_def maintaining_def)
  ultimately show ?thesis by blast
qed

text \<open>Task 2 waits for the lane: with a shared request, with an exclusive one.\<close>

definition queued :: "IndexLeaseMode \<Rightarrow> (session \<times> IndexLeaseMode) list lease_world" where
  "queued m = upd_task 0 2 (snd (acquire_local 2 ''save'' True m (lw_coordinator maintaining 0))) [] maintaining"

lemma queued_reachable: "lease_reachable table_locks (queued m)"
proof -
  have "lease_step table_locks maintaining (upd_task 0 2 (snd (acquire_local 2 ''save'' True m (lw_coordinator maintaining 0)))
      (pushed ''save'' True Blocked (lw_frames maintaining 0 2)) maintaining)"
    by (rule request [where mode = m])
       (simp_all add: maintaining_def upd_task_def idle_world_def running_body_def grant_exclusive_def new_coordinator_def
         acquire_local_def acquire_shared_def acquire_exclusive_def shared_blocked_def exclusive_available_def)
  then show ?thesis
    using lease_more [OF maintaining_reachable] by (simp add: queued_def maintaining_def upd_task_def idle_world_def)
qed

theorem no_wake_up_is_lost_witness:
  "\<exists>u\<in>set (ic_waiters (lw_coordinator (pop 0 1 (queued SHARED_LEASE)) 0)). wa_notified u \<and>
     (\<exists>m. fst (resume u (lw_coordinator (pop 0 1 (queued SHARED_LEASE)) 0)) = Acquired True m)"
proof -
  have "lease_step table_locks (queued SHARED_LEASE) (pop 0 1 (queued SHARED_LEASE))"
    by (rule aborted [where fs = "[]" and f = "\<lparr> fr_name = ''rebuild'', fr_wait = True, fr_outermost = True,
          fr_mode = EXCLUSIVE_LEASE, fr_phase = Opening \<rparr>"]) (simp_all add: queued_def maintaining_def upd_task_def)
  then have r: "lease_reachable table_locks (pop 0 1 (queued SHARED_LEASE))" by (rule lease_more [OF queued_reachable])
  show ?thesis
    by (rule no_wake_up_is_lost [OF table_locks_ok r])
       (simp_all add: pop_def queued_def maintaining_def upd_task_def grant_exclusive_def new_coordinator_def
         acquire_local_def acquire_shared_def shared_blocked_def wait_on_def release_local_def notify_all_def)
qed

theorem waiting_maintenance_stops_new_writers_witness:
  "fst (acquire_local 3 ''save'' True SHARED_LEASE (lw_coordinator (queued EXCLUSIVE_LEASE) 0)) = Blocked"
proof -
  have "\<exists>u\<in>set (ic_waiters (lw_coordinator (queued EXCLUSIVE_LEASE) 0)). is_exclusive u" "3 \<notin> leased (lw_coordinator (queued EXCLUSIVE_LEASE) 0)"
    by (simp_all add: queued_def maintaining_def upd_task_def grant_exclusive_def new_coordinator_def
        acquire_local_def acquire_exclusive_def exclusive_available_def wait_on_def)
  then show ?thesis
    using waiting_maintenance_stops_new_writers [OF table_locks_ok queued_reachable, of _ EXCLUSIVE_LEASE 0 3 "''save''" True] by blast
qed

theorem advisory_lock_key_is_int64_witness:
  "int64 (postgres_advisory_lock_key (\<lambda>s. replicate 32 255) ''heterarchy-alexandria:index-maintenance'')"
  by (rule advisory_lock_key_is_int64) simp

end
