(* ===== verification/Readiness_Model.thy ===== *)
theory Readiness_Model
  imports Recovery_Plan Context_Model Py_Float
begin

text \<open>
  The read models of operational readiness (\<open>operations/domain/entities\<close>): what the readiness
  service observes of the database, the vault, retrieval, reconciliation, the running build, the
  graph projection and the last knowledge compile, and the snapshot it assembles from them. The
  snapshot extends the record that recovery planning reads; \<open>or_effective_strategy\<close> there is the
  value of the retrieval snapshot's strategy.
\<close>

section \<open>Exceptions\<close>

text \<open>The exception classes that the \<open>except\<close> clauses distinguish.\<close>

datatype port_exn =
  PX_SQLAlchemyError | PX_MemoryContextDomainError | PX_ObsidianDomainError | PX_OSError
| PX_ValueError | PX_RuntimeError | PX_AttributeError | PX_TypeError | PX_Other

text \<open>\<open>try: call except classes: fallback\<close>.\<close>

definition except_in :: "port_exn set \<Rightarrow> (port_exn + 'a) \<Rightarrow> 'a \<Rightarrow> port_exn + 'a" where
  "except_in classes call fallback = (case call of
       Inr v \<Rightarrow> Inr v
     | Inl e \<Rightarrow> if e \<in> classes then Inr fallback else Inl e)"

lemma except_in_Inr [simp]: "except_in C (Inr v) d = Inr v"
  by (simp add: except_in_def)

lemma except_in_caught: "e \<in> C \<Longrightarrow> except_in C (Inl e) d = Inr d"
  by (simp add: except_in_def)

text \<open>A call raises only exceptions of the given classes.\<close>

definition raises_only :: "port_exn set \<Rightarrow> (port_exn + 'a) \<Rightarrow> bool" where
  "raises_only C call \<longleftrightarrow> (case call of Inr _ \<Rightarrow> True | Inl e \<Rightarrow> e \<in> C)"

lemma raises_only_except_in: "raises_only C call \<Longrightarrow> \<exists>v. except_in C call d = Inr v"
  by (auto simp: raises_only_def except_in_def split: sum.splits)

section \<open>Observations\<close>

datatype ObsidianIndexErrorCode =
  INVALID_SCOPE | MISSING_AGENT_ID | MISSING_SESSION_ID | MISSING_PROJECT | MISSING_USER_ID
| INVALID_STATUS | INVALID_PROVENANCE | INVALID_MEMORY_FUNCTION | INVALID_SCOPE_IDENTITY
| INVALID_SUPERSEDE | INVALID_CONTENT_HASH | INVALID_CONTENT_INTEGRITY | DUPLICATE_CONTEXT_ID
| DUPLICATE_CONTEXT_CONTENT | FRONTMATTER_SECRET_DETECTED | FRONTMATTER_PARSE_ERROR
| PATH_SECURITY_VIOLATION | SOURCE_READ_FAILED | INDEX_WRITE_FAILED

record ObsidianIndexError =
  ie_note_path :: str
  ie_context_id :: "str option"
  ie_error_code :: ObsidianIndexErrorCode
  ie_error_message :: str
  ie_detected_at :: instant

record ObsidianVaultStatus =
  ov_vault_path :: str
  ov_alexandria_root :: str
  ov_vault_exists :: bool
  ov_alexandria_root_exists :: bool
  ov_indexed_notes :: int
  ov_stale_notes :: int
  ov_error_notes :: int
  ov_index_errors :: "ObsidianIndexError list"

record ObsidianVaultLocation =
  vl_vault_path :: str
  vl_alexandria_root :: str

text \<open>The graph status report; of its errors the policy only asks whether there are any.\<close>

record ObsidianGraphProjectionStatusReport =
  gr_status :: str
  gr_enabled :: bool
  gr_node_count :: int
  gr_edge_count :: int
  gr_run_id :: "str option"
  gr_projection_version :: "int option"
  gr_last_run_issue_total :: int
  gr_errors :: "str list"

record MemoryReconciliationStoreDiagnostics =
  sd_reachable :: bool
  sd_total_plans :: int
  sd_pending_review_plans :: int
  sd_total_results :: int
  sd_partial_apply_results :: int
  sd_failed_results :: int
  sd_open_conflicts :: int
  sd_reviewing_conflicts :: int
  sd_temporal_state_count :: int
  sd_hard_delete_results :: int
  sd_latest_failure_code :: "str option"
  sd_latest_failure_at :: "instant option"

record MemoryReconciliationDiagnostics =
  md_reachable :: bool
  md_total_contexts :: int
  md_temporal_state_count :: int
  md_missing_temporal_states :: int
  md_total_plans :: int
  md_pending_review_plans :: int
  md_total_results :: int
  md_partial_apply_results :: int
  md_failed_results :: int
  md_open_conflicts :: int
  md_reviewing_conflicts :: int
  md_hard_delete_results :: int
  md_latest_failure_code :: "str option"
  md_latest_failure_at :: "instant option"

section \<open>Parts of the snapshot\<close>

record OperationalGraphSnapshot =
  gs_status :: str
  gs_enabled :: bool
  gs_node_count :: "int option"
  gs_edge_count :: "int option"
  gs_run_id :: "str option"
  gs_projection_revision :: "str option"
  gs_warnings :: "str list"
  gs_recommended_operation :: "str option"
  gs_last_run_issue_total :: int

record OperationalRagSnapshot =
  rag_fts :: RagHealthState
  rag_vector :: RagHealthState
  rag_embedding :: RagHealthState
  rag_effective_strategy :: RagStrategy
  rag_model_name :: str
  rag_dimensions :: int
  rag_fingerprint :: "json_object option"
  rag_source_statuses :: "ContextEmbeddingSourceStatus list"
  rag_warnings :: "str list"

record OperationalReconciliationSnapshot =
  rc_configured :: bool
  rc_reachable :: bool
  rc_total_contexts :: int
  rc_temporal_state_count :: int
  rc_missing_temporal_states :: int
  rc_backfill_complete :: bool
  rc_total_plans :: int
  rc_pending_review_plans :: int
  rc_total_results :: int
  rc_partial_apply_results :: int
  rc_failed_results :: int
  rc_open_conflicts :: int
  rc_reviewing_conflicts :: int
  rc_hard_delete_results :: int
  rc_latest_failure_code :: "str option"
  rc_latest_failure_at :: "instant option"

record OperationalRuntimeProvenanceSnapshot =
  rt_checked :: bool
  rt_environment :: str
  rt_runtime_revision :: "str option"
  rt_expected_revision :: "str option"
  rt_build_timestamp :: "str option"
  rt_native_revision :: "str option"
  rt_native_package_version :: "str option"
  rt_native_build_profile :: "str option"
  rt_native_contract_version :: "int option"
  rt_feature_authority_schema_version :: "int option"
  rt_verified :: bool
  rt_drift_detected :: bool
  rt_native_aligned :: bool
  rt_warnings :: "str list"

definition unchecked_runtime_provenance_snapshot :: OperationalRuntimeProvenanceSnapshot where
  "unchecked_runtime_provenance_snapshot =
     \<lparr> rt_checked = False, rt_environment = ''local'', rt_runtime_revision = None,
       rt_expected_revision = None, rt_build_timestamp = None, rt_native_revision = None,
       rt_native_package_version = None, rt_native_build_profile = None,
       rt_native_contract_version = None, rt_feature_authority_schema_version = None,
       rt_verified = False, rt_drift_detected = False, rt_native_aligned = False, rt_warnings = [] \<rparr>"

record OperationalRetrievalCanaryResult =
  ca_strategy :: RagStrategy
  ca_ok :: bool
  ca_effective_strategy :: "RagStrategy option"
  ca_match_count :: int
  ca_context_pack_built :: bool
  ca_failure_code :: "str option"
  ca_warnings :: "str list"

record OperationalRetrievalCanarySnapshot =
  cn_checked :: bool
  cn_query :: str
  cn_limit :: int
  cn_fts :: OperationalRetrievalCanaryResult
  cn_vector :: OperationalRetrievalCanaryResult
  cn_hybrid :: OperationalRetrievalCanaryResult

definition canary_healthy :: "OperationalRetrievalCanarySnapshot \<Rightarrow> bool" where
  "canary_healthy c \<longleftrightarrow> ca_ok (cn_fts c) \<and> ca_ok (cn_vector c) \<and> ca_ok (cn_hybrid c)"

definition unchecked_result :: "RagStrategy \<Rightarrow> OperationalRetrievalCanaryResult" where
  "unchecked_result strategy =
     \<lparr> ca_strategy = strategy, ca_ok = False, ca_effective_strategy = None, ca_match_count = 0,
       ca_context_pack_built = False, ca_failure_code = Some ''not_checked'', ca_warnings = [] \<rparr>"

definition unchecked_retrieval_canary_snapshot :: OperationalRetrievalCanarySnapshot where
  "unchecked_retrieval_canary_snapshot =
     \<lparr> cn_checked = False, cn_query = [], cn_limit = 3, cn_fts = unchecked_result RAG_FTS_ONLY,
       cn_vector = unchecked_result RAG_VECTOR_ONLY, cn_hybrid = unchecked_result RAG_HYBRID \<rparr>"

record ContextProjectionIntegrityFailure =
  pf_code :: str
  pf_count :: int

record ContextProjectionIntegritySnapshot =
  pi_checked :: bool
  pi_available :: bool
  pi_source_revision :: "str option"
  pi_current_source_revision :: "str option"
  pi_scanned_count :: int
  pi_valid_count :: int
  pi_invalid_count :: int
  pi_failures :: "ContextProjectionIntegrityFailure list"
  pi_checked_at :: "instant option"
  pi_stale :: bool

definition projection_healthy :: "ContextProjectionIntegritySnapshot \<Rightarrow> bool" where
  "projection_healthy p \<longleftrightarrow> pi_checked p \<and> pi_available p \<and> \<not> pi_stale p \<and>
     pi_invalid_count p = 0 \<and> pi_source_revision p = pi_current_source_revision p"

definition unchecked_context_projection_integrity_snapshot :: ContextProjectionIntegritySnapshot where
  "unchecked_context_projection_integrity_snapshot =
     \<lparr> pi_checked = False, pi_available = False, pi_source_revision = None,
       pi_current_source_revision = None, pi_scanned_count = 0, pi_valid_count = 0,
       pi_invalid_count = 0, pi_failures = [], pi_checked_at = None, pi_stale = False \<rparr>"

datatype OperationalDataIntegrityStatus = DI_NOT_CHECKED | DI_HEALTHY | DI_DEGRADED

datatype OperationalDataIntegrityWarningCode =
  LEGACY_TUPLE_COLLECTION | EMPTY_COLLECTION_SCALAR | INVALID_COLLECTION_TYPE | STRING_BOOLEAN
| INVALID_BOOLEAN_VALUE | UNRECOVERABLE_REDACTED_URL | EXISTING_INDEX_ERRORS | INVENTORY_SCAN_ERROR

record OperationalDataIntegrityWarning =
  iw_code :: OperationalDataIntegrityWarningCode
  iw_count :: int
  iw_note_paths :: "str list"
  iw_fields :: "str list"

record OperationalDataIntegritySnapshot =
  di_status :: OperationalDataIntegrityStatus
  di_scanned_notes :: int
  di_warnings :: "OperationalDataIntegrityWarning list"

definition unchecked_data_integrity_snapshot :: OperationalDataIntegritySnapshot where
  "unchecked_data_integrity_snapshot =
     \<lparr> di_status = DI_NOT_CHECKED, di_scanned_notes = 0, di_warnings = [] \<rparr>"

record OperationalCompileReceiptSnapshot =
  rec_available :: bool
  rec_applied_at :: "instant option"
  rec_plan_fingerprint :: "str option"
  rec_policy_version :: "str option"
  rec_changed_documents :: "int option"
  rec_removed_documents :: "int option"
  rec_embedding_invalidated_documents :: "int option"
  rec_diagnostic_count :: "int option"
  rec_warnings :: "str list"

section \<open>Snapshot and capabilities\<close>

record readiness_snapshot = OperationalReadinessSnapshot +
  or_checked_at :: instant
  or_duration_ms :: int
  or_rag :: OperationalRagSnapshot
  or_reconciliation :: OperationalReconciliationSnapshot
  or_active_recovery_run_id :: "str option"
  or_last_successful_recovery_run_id :: "str option"
  or_next_actions :: "str list"
  or_data_integrity :: OperationalDataIntegritySnapshot
  or_runtime :: OperationalRuntimeProvenanceSnapshot
  or_retrieval_canary :: OperationalRetrievalCanarySnapshot
  or_projection_integrity :: ContextProjectionIntegritySnapshot
  or_graph :: OperationalGraphSnapshot
  or_compile_receipt :: OperationalCompileReceiptSnapshot

datatype OperationalOverallStatus =
  OVERALL_READY | OVERALL_READY_WITH_WARNINGS | OVERALL_DEGRADED | OVERALL_NOT_READY | OVERALL_RECOVERING

datatype OperationalCapabilityState =
  CAP_READY | CAP_DEGRADED | CAP_BLOCKED | CAP_OPTIONAL | CAP_UNKNOWN

datatype OperationalCapabilityFreshness = FRESH_CURRENT | FRESH_STALE | FRESH_UNKNOWN

record OperationalCapability =
  oc_state :: OperationalCapabilityState
  oc_ready :: bool
  oc_blockers :: "str list"
  oc_warnings :: "str list"
  oc_source_revision :: "str option"
  oc_projection_revision :: "str option"
  oc_freshness :: OperationalCapabilityFreshness

record OperationalCapabilitySnapshot =
  os_checked_at :: instant
  os_core_memory :: OperationalCapability
  os_semantic_retrieval :: OperationalCapability
  os_source :: OperationalCapability
  os_metadata_index :: OperationalCapability
  os_fts :: OperationalCapability
  os_vector :: OperationalCapability
  os_embedding :: OperationalCapability
  os_graph :: OperationalCapability
  os_reconciliation :: OperationalCapability

fun rag_strategy_value :: "RagStrategy \<Rightarrow> str" where
  "rag_strategy_value RAG_AUTO = ''AUTO''"
| "rag_strategy_value RAG_FTS_ONLY = ''FTS_ONLY''"
| "rag_strategy_value RAG_VECTOR_ONLY = ''VECTOR_ONLY''"
| "rag_strategy_value RAG_HYBRID = ''HYBRID''"

end
