(* ===== verification/Readiness_Policy.thy ===== *)
theory Readiness_Policy
  imports Readiness_Model
begin

text \<open>
  The pure readiness policy: mapping observations to snapshot parts, collecting warnings,
  selecting blockers, classifying the status and naming the next actions
  (\<open>operational_readiness_policy.py\<close>), the synthesis of one overall status
  (\<open>operational_overall_readiness.py\<close>) and the independent classification of capabilities
  (\<open>operational_capability_policy.py\<close>).
\<close>

section \<open>Snapshot mapping\<close>

definition vault_snapshot :: "ObsidianVaultStatus \<Rightarrow> OperationalVaultSnapshot" where
  "vault_snapshot status =
     \<lparr> vs_exists = ov_vault_exists status,
       vs_readable = (ov_vault_exists status \<and> ov_alexandria_root_exists status),
       vs_vault_path = ov_vault_path status, vs_alexandria_root = ov_alexandria_root status,
       vs_alexandria_root_exists = ov_alexandria_root_exists status,
       vs_indexed_notes = Some (ov_indexed_notes status), vs_stale_notes = Some (ov_stale_notes status),
       vs_error_notes = Some (ov_error_notes status) \<rparr>"

definition graph_snapshot_from_status ::
  "ObsidianGraphProjectionStatusReport option \<Rightarrow> OperationalGraphSnapshot" where
  "graph_snapshot_from_status report = (case report of
       None \<Rightarrow> \<lparr> gs_status = ''unknown'', gs_enabled = False, gs_node_count = None,
         gs_edge_count = None, gs_run_id = None, gs_projection_revision = None,
         gs_warnings = [''graph_projection_unchecked''], gs_recommended_operation = None,
         gs_last_run_issue_total = 0 \<rparr>
     | Some status \<Rightarrow> \<lparr> gs_status = gr_status status, gs_enabled = gr_enabled status,
         gs_node_count = Some (gr_node_count status), gs_edge_count = Some (gr_edge_count status),
         gs_run_id = gr_run_id status,
         gs_projection_revision = map_option int_text (gr_projection_version status),
         gs_warnings = (if gr_errors status \<noteq> [] then [''graph_projection_status_error''] else []),
         gs_recommended_operation =
           (if gr_last_run_issue_total status > 0 then Some ''alexandria_graph_list_issues'' else None),
         gs_last_run_issue_total = gr_last_run_issue_total status \<rparr>)"

definition rag_snapshot :: "RagDependencyHealth \<Rightarrow> OperationalRagSnapshot" where
  "rag_snapshot health =
     \<lparr> rag_fts = rh_fts health, rag_vector = rh_vector health, rag_embedding = rh_embedding health,
       rag_effective_strategy = rh_default_strategy health, rag_model_name = rh_model_name health,
       rag_dimensions = rh_dimensions health, rag_fingerprint = rh_fingerprint health,
       rag_source_statuses = rh_source_statuses health, rag_warnings = rh_warnings health \<rparr>"

definition reconciliation_snapshot ::
  "MemoryReconciliationDiagnostics option \<Rightarrow> bool \<Rightarrow> bool \<Rightarrow> OperationalReconciliationSnapshot" where
  "reconciliation_snapshot diagnostics configured reachable = (case diagnostics of
       None \<Rightarrow> \<lparr> rc_configured = configured, rc_reachable = reachable, rc_total_contexts = 0,
         rc_temporal_state_count = 0, rc_missing_temporal_states = 0, rc_backfill_complete = False,
         rc_total_plans = 0, rc_pending_review_plans = 0, rc_total_results = 0,
         rc_partial_apply_results = 0, rc_failed_results = 0, rc_open_conflicts = 0,
         rc_reviewing_conflicts = 0, rc_hard_delete_results = 0, rc_latest_failure_code = None,
         rc_latest_failure_at = None \<rparr>
     | Some d \<Rightarrow> \<lparr> rc_configured = True, rc_reachable = md_reachable d,
         rc_total_contexts = md_total_contexts d, rc_temporal_state_count = md_temporal_state_count d,
         rc_missing_temporal_states = md_missing_temporal_states d,
         rc_backfill_complete = (md_missing_temporal_states d = 0), rc_total_plans = md_total_plans d,
         rc_pending_review_plans = md_pending_review_plans d, rc_total_results = md_total_results d,
         rc_partial_apply_results = md_partial_apply_results d, rc_failed_results = md_failed_results d,
         rc_open_conflicts = md_open_conflicts d, rc_reviewing_conflicts = md_reviewing_conflicts d,
         rc_hard_delete_results = md_hard_delete_results d,
         rc_latest_failure_code = md_latest_failure_code d, rc_latest_failure_at = md_latest_failure_at d \<rparr>)"

section \<open>Warnings\<close>

definition warn_if :: "bool \<Rightarrow> str \<Rightarrow> str list" where
  "warn_if condition code = (if condition then [code] else [])"

lemma warn_if_eq_Nil [simp]: "warn_if b c = [] \<longleftrightarrow> \<not> b"
  by (simp add: warn_if_def)

lemma in_set_warn_if [simp]: "x \<in> set (warn_if b c) \<longleftrightarrow> b \<and> x = c"
  by (auto simp: warn_if_def)

definition database_warnings :: "OperationalDatabaseSnapshot \<Rightarrow> str list" where
  "database_warnings database =
     (if \<not> ds_reachable database then [''database_unreachable'']
      else warn_if (ds_integrity database \<noteq> ''HEALTHY'') ''database_integrity_not_healthy'')"

definition positive :: "int option \<Rightarrow> bool" where
  "positive n \<longleftrightarrow> (case n of None \<Rightarrow> False | Some k \<Rightarrow> k > 0)"

definition vault_warnings :: "OperationalVaultSnapshot \<Rightarrow> str list" where
  "vault_warnings vault =
     warn_if (\<not> vs_exists vault) ''vault_not_found'' @
     warn_if (\<not> vs_alexandria_root_exists vault) ''alexandria_root_not_found'' @
     warn_if (positive (vs_stale_notes vault)) ''obsidian_stale_notes_present'' @
     warn_if (positive (vs_error_notes vault)) ''obsidian_error_notes_present''"

definition rag_all_healthy :: "OperationalRagSnapshot \<Rightarrow> bool" where
  "rag_all_healthy rag \<longleftrightarrow> rag_fts rag = RAG_HEALTHY \<and> rag_vector rag = RAG_HEALTHY \<and>
     rag_embedding rag = RAG_HEALTHY"

definition rag_health_warnings :: "OperationalRagSnapshot \<Rightarrow> str list" where
  "rag_health_warnings rag =
     warn_if (rag_fts rag \<noteq> RAG_HEALTHY) ''rag_fts_not_healthy'' @
     warn_if (rag_vector rag \<noteq> RAG_HEALTHY) ''rag_vector_not_healthy'' @
     (if rag_embedding rag = RAG_REINDEX_REQUIRED then [''rag_embedding_reindex_required'']
      else warn_if (rag_embedding rag \<noteq> RAG_HEALTHY) ''rag_embedding_not_healthy'') @
     warn_if (rag_all_healthy rag \<and> rag_effective_strategy rag \<noteq> RAG_HYBRID) ''rag_default_strategy_not_hybrid'' @
     warn_if (rag_all_healthy rag \<and> rag_warnings rag \<noteq> []) ''rag_status_warnings_present''"

definition reconciliation_warnings :: "OperationalReconciliationSnapshot \<Rightarrow> str list" where
  "reconciliation_warnings r =
     warn_if (rc_configured r \<and> \<not> rc_reachable r) ''memory_reconciliation_repository_unreachable'' @
     warn_if (rc_missing_temporal_states r > 0) ''memory_reconciliation_temporal_backfill_required'' @
     warn_if (rc_pending_review_plans r > 0) ''memory_reconciliation_review_required'' @
     warn_if (rc_open_conflicts r > 0) ''memory_reconciliation_open_conflicts'' @
     warn_if (rc_reviewing_conflicts r > 0) ''memory_reconciliation_reviews_in_progress'' @
     warn_if (rc_partial_apply_results r > 0) ''memory_reconciliation_partial_apply_present'' @
     warn_if (rc_failed_results r > 0) ''memory_reconciliation_failed_results_present'' @
     warn_if (rc_hard_delete_results r > 0) ''memory_reconciliation_hard_delete_detected''"

definition local_provenance_codes :: "str list" where
  "local_provenance_codes =
     [''runtime_provenance_unverified'', ''runtime_revision_unverified'', ''native_revision_unverified'']"

definition runtime_warnings :: "OperationalRuntimeProvenanceSnapshot \<Rightarrow> str list" where
  "runtime_warnings runtime =
     (if rt_checked runtime
      then filter (\<lambda>w. w \<notin> set local_provenance_codes) (rt_warnings runtime) else [])"

definition canary_warnings :: "OperationalRetrievalCanarySnapshot \<Rightarrow> str list" where
  "canary_warnings canary =
     (if cn_checked canary
      then warn_if (\<not> ca_ok (cn_fts canary)) ''retrieval_canary_fts_only_failed'' @
           warn_if (\<not> ca_ok (cn_vector canary)) ''retrieval_canary_vector_only_failed'' @
           warn_if (\<not> ca_ok (cn_hybrid canary)) ''retrieval_canary_hybrid_failed''
      else [])"

definition projection_warnings :: "ContextProjectionIntegritySnapshot \<Rightarrow> str list" where
  "projection_warnings p =
     (if pi_checked p
      then (if \<not> pi_available p then [''projection_integrity_snapshot_missing'']
            else warn_if (pi_invalid_count p > 0) ''projection_integrity_invalid_notes'') @
           (if pi_available p \<and> pi_source_revision p \<noteq> pi_current_source_revision p
            then [''projection_integrity_source_revision_mismatch'']
            else warn_if (pi_available p \<and> pi_stale p) ''projection_integrity_snapshot_stale'')
      else [])"

definition readiness_warnings ::
  "OperationalDatabaseSnapshot \<Rightarrow> OperationalVaultSnapshot \<Rightarrow> OperationalRagSnapshot \<Rightarrow>
   OperationalRuntimeProvenanceSnapshot \<Rightarrow> OperationalRetrievalCanarySnapshot \<Rightarrow>
   ContextProjectionIntegritySnapshot \<Rightarrow> OperationalReconciliationSnapshot \<Rightarrow> str list" where
  "readiness_warnings database vault rag runtime canary projection reconciliation =
     database_warnings database @ vault_warnings vault @ rag_health_warnings rag @
     reconciliation_warnings reconciliation @ runtime_warnings runtime @ canary_warnings canary @
     projection_warnings projection"

section \<open>Blockers and status\<close>

definition runtime_drift_codes :: "str list" where
  "runtime_drift_codes =
     [''runtime_expected_revision_missing'', ''runtime_revision_missing'', ''runtime_revision_mismatch'',
      ''native_provenance_unavailable'', ''native_revision_missing'', ''native_revision_mismatch'',
      ''native_feature_authority_schema_mismatch'']"

definition canary_codes :: "str list" where
  "canary_codes =
     [''retrieval_canary_fts_only_failed'', ''retrieval_canary_vector_only_failed'',
      ''retrieval_canary_hybrid_failed'']"

definition projection_codes :: "str list" where
  "projection_codes =
     [''projection_integrity_snapshot_missing'', ''projection_integrity_snapshot_stale'',
      ''projection_integrity_source_revision_mismatch'', ''projection_integrity_invalid_notes'']"

definition blocking_codes :: "str list" where
  "blocking_codes =
     [''database_unreachable'', ''database_integrity_not_healthy'', ''vault_not_found'',
      ''alexandria_root_not_found'', ''obsidian_stale_notes_present'', ''obsidian_error_notes_present'',
      ''rag_fts_not_healthy'', ''rag_default_strategy_not_hybrid'', ''rag_status_warnings_present'',
      ''recovery_in_progress'', ''memory_reconciliation_repository_unreachable'',
      ''memory_reconciliation_partial_apply_present'', ''memory_reconciliation_failed_results_present'',
      ''memory_reconciliation_hard_delete_detected''] @
     runtime_drift_codes @ canary_codes @ projection_codes"

definition readiness_blockers :: "str list \<Rightarrow> str list" where
  "readiness_blockers warnings = filter (\<lambda>w. w \<in> set blocking_codes) warnings"

definition any_of :: "str list \<Rightarrow> str list \<Rightarrow> bool" where
  "any_of codes warnings \<longleftrightarrow> list_ex (\<lambda>w. w \<in> set codes) warnings"

lemma any_of_iff: "any_of codes warnings \<longleftrightarrow> set codes \<inter> set warnings \<noteq> {}"
  by (auto simp: any_of_def list_ex_iff)

definition readiness_status ::
  "OperationalRagSnapshot \<Rightarrow> str list \<Rightarrow> str option \<Rightarrow> OperationalReadinessStatus" where
  "readiness_status rag warnings active_recovery_run_id =
     (if active_recovery_run_id \<noteq> None then RS_RECOVERING
      else if any_of runtime_drift_codes warnings then RS_DEGRADED_RUNTIME_DRIFT
      else if any_of canary_codes warnings then RS_DEGRADED_RETRIEVAL_CANARY
      else if any_of projection_codes warnings then RS_DEGRADED_PROJECTION_INTEGRITY
      else if readiness_blockers warnings \<noteq> [] then RS_BLOCKED
      else if rag_fts rag = RAG_HEALTHY \<and> rag_effective_strategy rag = RAG_FTS_ONLY \<and>
              (rag_vector rag \<noteq> RAG_HEALTHY \<or> rag_embedding rag \<noteq> RAG_HEALTHY)
      then RS_DEGRADED_FTS_ONLY
      else if warnings \<noteq> [] then RS_UNKNOWN
      else RS_READY)"

definition index_error_actions :: "ObsidianIndexError list \<Rightarrow> str list" where
  "index_error_actions index_errors =
     (if index_errors = [] then [''inspect_obsidian_index_errors'']
      else let codes = set (map ie_error_code index_errors);
               actions =
                 warn_if (FRONTMATTER_SECRET_DETECTED \<in> codes) ''review_obsidian_frontmatter_security_errors'' @
                 warn_if (codes \<inter> {DUPLICATE_CONTEXT_ID, DUPLICATE_CONTEXT_CONTENT} \<noteq> {})
                   ''resolve_duplicate_context_identity'' @
                 warn_if (PATH_SECURITY_VIOLATION \<in> codes) ''inspect_obsidian_path_security'' @
                 warn_if (SOURCE_READ_FAILED \<in> codes) ''inspect_obsidian_source_storage'' @
                 warn_if (INDEX_WRITE_FAILED \<in> codes) ''inspect_obsidian_index_storage'' @
                 warn_if (codes - {FRONTMATTER_SECRET_DETECTED, DUPLICATE_CONTEXT_ID,
                                DUPLICATE_CONTEXT_CONTENT, PATH_SECURITY_VIOLATION,
                                SOURCE_READ_FAILED, INDEX_WRITE_FAILED} \<noteq> {})
                   ''plan_index_error_repairs''
           in if actions = [] then [''inspect_obsidian_index_errors''] else actions)"

definition readiness_next_actions :: "str list \<Rightarrow> ObsidianIndexError list \<Rightarrow> str list" where
  "readiness_next_actions warnings index_errors =
     warn_if (any_of [''vault_not_found'', ''alexandria_root_not_found''] warnings) ''inspect_vault_configuration'' @
     warn_if (''obsidian_stale_notes_present'' \<in> set warnings) ''reindex_vault'' @
     (if ''obsidian_error_notes_present'' \<in> set warnings then index_error_actions index_errors else []) @
     warn_if (any_of [''rag_vector_not_healthy'', ''rag_embedding_reindex_required'',
                   ''rag_embedding_not_healthy'', ''rag_default_strategy_not_hybrid'',
                   ''rag_status_warnings_present''] warnings) ''reindex_embeddings'' @
     warn_if (''database_unreachable'' \<in> set warnings) ''inspect_database'' @
     warn_if (''recovery_in_progress'' \<in> set warnings) ''inspect_recovery_run'' @
     warn_if (''memory_reconciliation_repository_unreachable'' \<in> set warnings)
       ''inspect_memory_reconciliation_repository'' @
     warn_if (''memory_reconciliation_temporal_backfill_required'' \<in> set warnings)
       ''preview_existing_memory_reconciliation'' @
     warn_if (any_of [''memory_reconciliation_review_required'', ''memory_reconciliation_open_conflicts'',
                   ''memory_reconciliation_reviews_in_progress''] warnings) ''review_memory_reconciliation'' @
     warn_if (any_of [''memory_reconciliation_partial_apply_present'',
                   ''memory_reconciliation_failed_results_present''] warnings)
       ''inspect_memory_reconciliation_failures'' @
     warn_if (''memory_reconciliation_hard_delete_detected'' \<in> set warnings)
       ''audit_memory_reconciliation_integrity'' @
     warn_if (any_of runtime_drift_codes warnings) ''rebuild_and_redeploy_runtime'' @
     warn_if (any_of canary_codes warnings) ''inspect_retrieval_canary'' @
     warn_if (any_of projection_codes warnings) ''refresh_projection_integrity''"

definition overall_readiness_status :: "readiness_snapshot \<Rightarrow> OperationalOverallStatus" where
  "overall_readiness_status snapshot =
     (if or_status snapshot = RS_RECOVERING then OVERALL_RECOVERING
      else if or_ready snapshot
      then (if or_warnings snapshot \<noteq> [] \<or> di_status (or_data_integrity snapshot) \<noteq> DI_HEALTHY
            then OVERALL_READY_WITH_WARNINGS else OVERALL_READY)
      else if or_status snapshot \<in> {RS_DEGRADED_FTS_ONLY, RS_UNKNOWN, RS_VERIFYING}
      then OVERALL_DEGRADED else OVERALL_NOT_READY)"

section \<open>Capabilities\<close>

definition capability :: "OperationalCapabilityState \<Rightarrow> bool \<Rightarrow> str list \<Rightarrow> str list \<Rightarrow> OperationalCapability" where
  "capability state ready blockers warnings =
     \<lparr> oc_state = state, oc_ready = ready, oc_blockers = blockers, oc_warnings = warnings,
       oc_source_revision = None, oc_projection_revision = None, oc_freshness = FRESH_UNKNOWN \<rparr>"

definition truthy :: "int option \<Rightarrow> bool" where
  "truthy n \<longleftrightarrow> (case n of None \<Rightarrow> False | Some k \<Rightarrow> k \<noteq> 0)"

definition core_blockers :: "readiness_snapshot \<Rightarrow> str list" where
  "core_blockers r =
     database_warnings (or_database r) @
     (if \<not> vs_exists (or_vault r) then [''vault_not_found'']
      else warn_if (\<not> vs_alexandria_root_exists (or_vault r)) ''alexandria_root_not_found'') @
     warn_if (truthy (vs_stale_notes (or_vault r))) ''obsidian_stale_notes_present'' @
     warn_if (truthy (vs_error_notes (or_vault r))) ''obsidian_error_notes_present'' @
     warn_if (rag_fts (or_rag r) \<noteq> RAG_HEALTHY) ''rag_fts_not_healthy''"

definition index_unknown :: "OperationalVaultSnapshot \<Rightarrow> bool" where
  "index_unknown vault \<longleftrightarrow> vs_indexed_notes vault = None \<or> vs_stale_notes vault = None \<or> vs_error_notes vault = None"

definition core_warnings :: "readiness_snapshot \<Rightarrow> str list" where
  "core_warnings r = (let c = or_reconciliation r in
     warn_if (index_unknown (or_vault r)) ''metadata_index_unknown'' @
     warn_if (rc_configured c \<and> \<not> rc_reachable c) ''memory_reconciliation_repository_unreachable'' @
     warn_if (rc_missing_temporal_states c \<noteq> 0) ''memory_reconciliation_temporal_backfill_required'' @
     warn_if (rc_open_conflicts c \<noteq> 0 \<or> rc_reviewing_conflicts c \<noteq> 0) ''memory_reconciliation_review_required'')"

definition semantic_blockers :: "readiness_snapshot \<Rightarrow> str list" where
  "semantic_blockers r = (let rag = or_rag r in
     warn_if (rag_vector rag \<noteq> RAG_HEALTHY) ''rag_vector_not_healthy'' @
     warn_if (rag_embedding rag \<noteq> RAG_HEALTHY) ''rag_embedding_not_healthy'' @
     warn_if (rag_effective_strategy rag \<noteq> RAG_HYBRID) ''rag_default_strategy_not_hybrid'' @
     warn_if (rag_warnings rag \<noteq> []) ''rag_status_warnings_present'')"

definition projection_freshness :: "readiness_snapshot \<Rightarrow> OperationalCapabilityFreshness" where
  "projection_freshness r = (let p = or_projection_integrity r in
     if \<not> pi_checked p \<or> \<not> pi_available p then FRESH_UNKNOWN
     else if pi_stale p \<or> pi_source_revision p \<noteq> pi_current_source_revision p then FRESH_STALE
     else FRESH_CURRENT)"

definition rag_freshness :: "RagHealthState \<Rightarrow> str list \<Rightarrow> OperationalCapabilityFreshness" where
  "rag_freshness state warnings =
     (if warnings \<noteq> [] \<and> state \<noteq> RAG_HEALTHY then FRESH_STALE
      else if state = RAG_HEALTHY then FRESH_CURRENT else FRESH_UNKNOWN)"

definition source_capability :: "readiness_snapshot \<Rightarrow> OperationalCapability" where
  "source_capability r =
     (if \<not> vs_exists (or_vault r) \<or> \<not> vs_alexandria_root_exists (or_vault r)
      then capability CAP_BLOCKED False [''source_unavailable''] []
      else if \<not> vs_readable (or_vault r) then capability CAP_BLOCKED False [''source_unreadable''] []
      else capability CAP_READY True [] [])"

definition with_revisions ::
  "readiness_snapshot \<Rightarrow> OperationalCapabilityFreshness \<Rightarrow> OperationalCapability \<Rightarrow> OperationalCapability" where
  "with_revisions r freshness c =
     c\<lparr>oc_source_revision := pi_current_source_revision (or_projection_integrity r),
       oc_projection_revision := pi_source_revision (or_projection_integrity r), oc_freshness := freshness\<rparr>"

definition metadata_index_capability :: "readiness_snapshot \<Rightarrow> OperationalCapability" where
  "metadata_index_capability r = with_revisions r (projection_freshness r)
     (if index_unknown (or_vault r) then capability CAP_UNKNOWN False [] [''metadata_index_unknown'']
      else let blockers = warn_if (positive (vs_error_notes (or_vault r))) ''metadata_index_errors_present'';
               warnings = warn_if (positive (vs_stale_notes (or_vault r))) ''metadata_index_stale''
           in capability (if blockers \<noteq> [] then CAP_BLOCKED else if warnings \<noteq> [] then CAP_DEGRADED else CAP_READY)
                (blockers = [] \<and> warnings = []) blockers warnings)"

definition rag_capability :: "RagHealthState \<Rightarrow> str \<Rightarrow> readiness_snapshot \<Rightarrow> OperationalCapability" where
  "rag_capability state name r = (case state of
       RAG_HEALTHY \<Rightarrow> with_revisions r FRESH_CURRENT (capability CAP_READY True [] [])
     | RAG_DISABLED \<Rightarrow> with_revisions r FRESH_UNKNOWN (capability CAP_UNKNOWN False [] [name @ ''_disabled''])
     | RAG_REINDEX_REQUIRED \<Rightarrow> with_revisions r FRESH_STALE (capability CAP_DEGRADED False [] [name @ ''_stale''])
     | RAG_DEGRADED \<Rightarrow> with_revisions r FRESH_UNKNOWN (capability CAP_DEGRADED False [] [name @ ''_degraded'']))"

definition graph_capability :: "readiness_snapshot \<Rightarrow> OperationalCapability" where
  "graph_capability r = (let graph = or_graph r in
     (if gs_status graph = ''ready'' then capability CAP_READY True [] [''graph_projection_freshness_unknown'']
      else if gs_status graph = ''unavailable''
      then capability CAP_BLOCKED False [''graph_projection_unavailable''] (gs_warnings graph)
      else capability CAP_UNKNOWN False []
             (if gs_warnings graph \<noteq> [] then gs_warnings graph else [''graph_projection_unchecked'']))
     \<lparr>oc_projection_revision := gs_projection_revision graph\<rparr>)"

definition reconciliation_capability :: "readiness_snapshot \<Rightarrow> OperationalCapability" where
  "reconciliation_capability r = (let c = or_reconciliation r in
     if \<not> rc_configured c then capability CAP_OPTIONAL False [] [''reconciliation_unconfigured'']
     else if \<not> rc_reachable c then capability CAP_BLOCKED False [''reconciliation_unreachable''] []
     else let warnings =
            warn_if (rc_open_conflicts c \<noteq> 0 \<or> rc_reviewing_conflicts c \<noteq> 0) ''reconciliation_review_required'' @
            warn_if (rc_failed_results c \<noteq> 0) ''reconciliation_failures_present''
          in capability (if warnings \<noteq> [] then CAP_DEGRADED else CAP_READY) (warnings = []) [] warnings)"

definition core_capability :: "readiness_snapshot \<Rightarrow> OperationalCapability" where
  "core_capability r =
     capability (if core_blockers r = [] \<and> core_warnings r = [] then CAP_READY
                 else if core_blockers r = [] then CAP_DEGRADED else CAP_BLOCKED)
       (core_blockers r = []) (core_blockers r) (core_warnings r)"

definition semantic_capability :: "readiness_snapshot \<Rightarrow> OperationalCapability" where
  "semantic_capability r =
     (capability (if semantic_blockers r = [] then CAP_READY else CAP_DEGRADED) (semantic_blockers r = [])
        (semantic_blockers r) (rag_warnings (or_rag r)))
     \<lparr>oc_freshness := rag_freshness (rag_vector (or_rag r)) (rag_warnings (or_rag r))\<rparr>"

definition capability_snapshot :: "readiness_snapshot \<Rightarrow> OperationalCapabilitySnapshot" where
  "capability_snapshot r =
     \<lparr> os_checked_at = or_checked_at r, os_core_memory = core_capability r,
       os_semantic_retrieval = semantic_capability r, os_source = source_capability r,
       os_metadata_index = metadata_index_capability r, os_fts = rag_capability (rag_fts (or_rag r)) ''fts'' r,
       os_vector = rag_capability (rag_vector (or_rag r)) ''vector'' r,
       os_embedding = rag_capability (rag_embedding (or_rag r)) ''embedding'' r,
       os_graph = graph_capability r, os_reconciliation = reconciliation_capability r \<rparr>"

end
