(* ===== verification/Readiness_Service.thy ===== *)
theory Readiness_Service
  imports Readiness_Policy "HOL-Library.Product_Lexorder"
begin

text \<open>
  Building readiness snapshots: the database probe, the source probe, the retrieval canary, the
  runtime provenance, the reconciliation diagnostics, the recovery history and
  \<open>OperationalReadinessService\<close> itself with its cache. A service the code only calls through a
  port is an argument that holds the outcome of the call (the exception or the value); calls that
  the code skips are not looked at. Times are microseconds.
\<close>

section \<open>Database probe\<close>

record database_port =
  db_select_1 :: "port_exn + unit"
  db_to_regclass :: "port_exn + str option"
  db_version_num :: "port_exn + str option"

definition schema_version :: "database_port \<Rightarrow> port_exn + str option" where
  "schema_version D = and_then (db_to_regclass D) (\<lambda>table_exists.
     if table_exists = None then Inr (Some ''unknown'') else db_version_num D)"

definition database_snapshot :: "database_port \<Rightarrow> port_exn + OperationalDatabaseSnapshot" where
  "database_snapshot D = except_in {PX_SQLAlchemyError, PX_OSError}
     (and_then (db_select_1 D) (\<lambda>_. and_then (schema_version D) (\<lambda>version.
        Inr \<lparr> ds_reachable = True, ds_integrity = ''HEALTHY'', ds_schema_version = version,
              ds_corruption_detected = False \<rparr>)))
     \<lparr> ds_reachable = False, ds_integrity = ''UNAVAILABLE'', ds_schema_version = None,
       ds_corruption_detected = False \<rparr>"

section \<open>Source probe\<close>

text \<open>What the file system answers for one location: path resolution, the two existence checks, the directory scan.\<close>

record source_files =
  sf_resolve :: "port_exn + unit"
  sf_vault_exists :: "port_exn + bool"
  sf_root_exists :: "port_exn + bool"
  sf_scandir :: "port_exn + unit"

record SourceProbe =
  pr_exists :: bool
  pr_root_exists :: bool
  pr_readable :: bool
  pr_warning :: "str option"

definition source_probe :: "bool \<Rightarrow> bool \<Rightarrow> bool \<Rightarrow> str option \<Rightarrow> SourceProbe" where
  "source_probe e r rd w = \<lparr> pr_exists = e, pr_root_exists = r, pr_readable = rd, pr_warning = w \<rparr>"

definition probe_source_location_sync :: "source_files \<Rightarrow> port_exn + SourceProbe" where
  "probe_source_location_sync F =
     (case sf_resolve F of
        Inl e \<Rightarrow> if e \<in> {PX_ObsidianDomainError, PX_OSError, PX_ValueError}
                 then Inr (source_probe False False False (Some ''source_path_invalid'')) else Inl e
      | Inr _ \<Rightarrow> and_then (sf_vault_exists F) (\<lambda>vault_exists.
          if \<not> vault_exists then Inr (source_probe False False False (Some ''source_unavailable''))
          else and_then (sf_root_exists F) (\<lambda>root_exists.
            if \<not> root_exists then Inr (source_probe True False False (Some ''source_root_unavailable''))
            else except_in {PX_OSError}
                   (and_then (sf_scandir F) (\<lambda>_. Inr (source_probe True True True None)))
                   (source_probe True True False (Some ''source_unreadable'')))))"

definition vault_snapshot_from_probe :: "ObsidianVaultLocation \<Rightarrow> SourceProbe \<Rightarrow> OperationalVaultSnapshot" where
  "vault_snapshot_from_probe location probe =
     \<lparr> vs_exists = pr_exists probe, vs_readable = pr_readable probe,
       vs_vault_path = vl_vault_path location, vs_alexandria_root = vl_alexandria_root location,
       vs_alexandria_root_exists = pr_root_exists probe, vs_indexed_notes = None,
       vs_stale_notes = None, vs_error_notes = None \<rparr>"

section \<open>Retrieval canary\<close>

record canary_service =
  cy_query :: str
  cy_limit :: int
  cy_readiness_canary :: "str \<Rightarrow> RagStrategy \<Rightarrow> int \<Rightarrow> port_exn + ContextPack"

definition new_canary_service ::
  "(str \<Rightarrow> RagStrategy \<Rightarrow> int \<Rightarrow> port_exn + ContextPack) \<Rightarrow> str \<Rightarrow> int \<Rightarrow> port_exn + canary_service" where
  "new_canary_service call q limit =
     (if limit < 3 then Inl PX_ValueError
      else Inr \<lparr> cy_query = q, cy_limit = limit, cy_readiness_canary = call \<rparr>)"

definition canary_probe :: "canary_service \<Rightarrow> RagStrategy \<Rightarrow> port_exn + OperationalRetrievalCanaryResult" where
  "canary_probe C strategy = except_in
     {PX_MemoryContextDomainError, PX_SQLAlchemyError, PX_OSError, PX_RuntimeError, PX_ValueError}
     (and_then (cy_readiness_canary C (cy_query C) strategy (cy_limit C)) (\<lambda>pack.
        let built = strip (cp_context_pack pack) \<noteq> [];
            failure = (if cp_effective_strategy pack \<noteq> strategy
                       then Some (lower (rag_strategy_value strategy) @ ''_strategy_fallback'')
                       else if \<not> built then Some ''context_pack_not_built'' else None)
        in Inr \<lparr> ca_strategy = strategy, ca_ok = (failure = None),
                 ca_effective_strategy = Some (cp_effective_strategy pack),
                 ca_match_count = int (length (cp_matches pack)), ca_context_pack_built = built,
                 ca_failure_code = failure, ca_warnings = cp_warnings pack \<rparr>))
     \<lparr> ca_strategy = strategy, ca_ok = False, ca_effective_strategy = None, ca_match_count = 0,
       ca_context_pack_built = False,
       ca_failure_code = Some (lower (rag_strategy_value strategy) @ ''_search_failed''), ca_warnings = [] \<rparr>"

definition canary_snapshot :: "canary_service \<Rightarrow> port_exn + OperationalRetrievalCanarySnapshot" where
  "canary_snapshot C =
     and_then (canary_probe C RAG_FTS_ONLY) (\<lambda>fts.
     and_then (canary_probe C RAG_VECTOR_ONLY) (\<lambda>vector.
     and_then (canary_probe C RAG_HYBRID) (\<lambda>hybrid.
     Inr \<lparr> cn_checked = True, cn_query = cy_query C, cn_limit = cy_limit C, cn_fts = fts,
           cn_vector = vector, cn_hybrid = hybrid \<rparr>)))"

section \<open>Runtime provenance\<close>

record runtime_config =
  cf_app_env :: str
  cf_runtime_revision :: "str option"
  cf_runtime_expected_revision :: "str option"
  cf_runtime_build_timestamp :: "str option"

text \<open>The native extension: loading it, then one call per value.\<close>

record native_module =
  nm_load :: "port_exn + unit"
  nm_git_revision :: "port_exn + str"
  nm_package_version :: "port_exn + str"
  nm_build_profile :: "port_exn + str"
  nm_contract_version :: "port_exn + int"
  nm_schema_version :: "port_exn + int"

record native_values =
  nv_revision :: "str option"
  nv_package_version :: "str option"
  nv_build_profile :: "str option"
  nv_contract_version :: "int option"
  nv_schema_version :: "int option"

definition provenance_text :: "str option \<Rightarrow> str option" where
  "provenance_text value = (case value of
       None \<Rightarrow> None
     | Some v \<Rightarrow> if strip v = [] then None else Some (strip v))"

definition unknown_revision_values :: "str list" where
  "unknown_revision_values = [''unknown'', ''unset'', ''none'']"

definition revision :: "str option \<Rightarrow> str option" where
  "revision value = (case provenance_text value of
       None \<Rightarrow> None
     | Some normalized \<Rightarrow> if casefold normalized \<in> set unknown_revision_values then None else Some normalized)"

definition native_aligned :: "str option \<Rightarrow> str option \<Rightarrow> bool" where
  "native_aligned runtime_revision native_revision =
     (if runtime_revision = None then native_revision = None else native_revision = runtime_revision)"

text \<open>Assignments of one \<open>try\<close> block: those before the raising call remain.\<close>

definition assign ::
  "(port_exn + 'a) \<Rightarrow> ('a \<Rightarrow> native_values \<Rightarrow> native_values) \<Rightarrow> (port_exn option \<times> native_values) \<Rightarrow>
   (port_exn option \<times> native_values)" where
  "assign call upd st = (case st of
       (Some e, nv) \<Rightarrow> (Some e, nv)
     | (None, nv) \<Rightarrow> (case call of Inl e \<Rightarrow> (Some e, nv) | Inr v \<Rightarrow> (None, upd v nv)))"

definition read_native :: "native_module \<Rightarrow> port_exn option \<times> native_values" where
  "read_native N =
     assign (nm_schema_version N) (\<lambda>v nv. nv\<lparr>nv_schema_version := Some v\<rparr>)
     (assign (nm_contract_version N) (\<lambda>v nv. nv\<lparr>nv_contract_version := Some v\<rparr>)
     (assign (nm_build_profile N) (\<lambda>v nv. nv\<lparr>nv_build_profile := Some v\<rparr>)
     (assign (nm_package_version N) (\<lambda>v nv. nv\<lparr>nv_package_version := Some v\<rparr>)
     (assign (nm_git_revision N) (\<lambda>v nv. nv\<lparr>nv_revision := revision (Some v)\<rparr>)
     (assign (nm_load N) (\<lambda>_ nv. nv)
       (None, \<lparr> nv_revision = None, nv_package_version = None, nv_build_profile = None,
                nv_contract_version = None, nv_schema_version = None \<rparr>))))))"

definition revision_warnings :: "str \<Rightarrow> str option \<Rightarrow> str option \<Rightarrow> str list" where
  "revision_warnings app_env runtime_revision expected_revision =
     (if expected_revision = None
      then [if app_env = ''local'' then ''runtime_provenance_unverified'' else ''runtime_expected_revision_missing'']
      else []) @
     (if runtime_revision = None
      then [if app_env = ''local'' then ''runtime_revision_unverified'' else ''runtime_revision_missing'']
      else []) @
     warn_if (runtime_revision \<noteq> None \<and> expected_revision \<noteq> None \<and> runtime_revision \<noteq> expected_revision)
       ''runtime_revision_mismatch''"

definition native_warnings :: "str \<Rightarrow> str option \<Rightarrow> native_values \<Rightarrow> str list" where
  "native_warnings app_env runtime_revision nv =
     (if runtime_revision \<noteq> None \<and> nv_revision nv = None
      then [if app_env = ''local'' then ''native_revision_unverified'' else ''native_revision_missing'']
      else warn_if (\<not> native_aligned runtime_revision (nv_revision nv)) ''native_revision_mismatch'') @
     warn_if (nv_schema_version nv \<noteq> Some 1) ''native_feature_authority_schema_mismatch''"

definition runtime_provenance_snapshot ::
  "runtime_config \<Rightarrow> native_module \<Rightarrow> port_exn + OperationalRuntimeProvenanceSnapshot" where
  "runtime_provenance_snapshot cfg N =
     (let env = cf_app_env cfg; rev = revision (cf_runtime_revision cfg);
          expected = revision (cf_runtime_expected_revision cfg);
          (err, nv) = read_native N;
          aligned = (err = None \<and> native_aligned rev (nv_revision nv) \<and> nv_schema_version nv = Some 1);
          warnings = revision_warnings env rev expected @
            (if err = None then native_warnings env rev nv else [''native_provenance_unavailable''])
      in if err \<noteq> None \<and> err \<noteq> Some PX_RuntimeError then Inl (the err)
         else Inr \<lparr> rt_checked = True, rt_environment = env, rt_runtime_revision = rev,
           rt_expected_revision = expected,
           rt_build_timestamp = provenance_text (cf_runtime_build_timestamp cfg),
           rt_native_revision = nv_revision nv,
           rt_native_package_version = provenance_text (nv_package_version nv),
           rt_native_build_profile = provenance_text (nv_build_profile nv),
           rt_native_contract_version = nv_contract_version nv,
           rt_feature_authority_schema_version = nv_schema_version nv,
           rt_verified = (rev \<noteq> None \<and> expected \<noteq> None \<and> rev = expected \<and> aligned),
           rt_drift_detected = (rev \<noteq> None \<and> expected \<noteq> None \<and> rev \<noteq> expected),
           rt_native_aligned = aligned, rt_warnings = fromkeys warnings \<rparr>)"

section \<open>Reconciliation diagnostics\<close>

record reconciliation_port =
  rr_store :: "port_exn + MemoryReconciliationStoreDiagnostics"
  rr_total_contexts :: "port_exn + int"

definition reconciliation_diagnostics :: "reconciliation_port \<Rightarrow> port_exn + MemoryReconciliationDiagnostics" where
  "reconciliation_diagnostics R =
     and_then (rr_store R) (\<lambda>store. and_then (rr_total_contexts R) (\<lambda>total.
     Inr \<lparr> md_reachable = sd_reachable store, md_total_contexts = total,
           md_temporal_state_count = sd_temporal_state_count store,
           md_missing_temporal_states = max (total - sd_temporal_state_count store) 0,
           md_total_plans = sd_total_plans store, md_pending_review_plans = sd_pending_review_plans store,
           md_total_results = sd_total_results store,
           md_partial_apply_results = sd_partial_apply_results store,
           md_failed_results = sd_failed_results store, md_open_conflicts = sd_open_conflicts store,
           md_reviewing_conflicts = sd_reviewing_conflicts store,
           md_hard_delete_results = sd_hard_delete_results store,
           md_latest_failure_code = sd_latest_failure_code store,
           md_latest_failure_at = sd_latest_failure_at store \<rparr>))"

section \<open>Compile receipt\<close>

definition receipt_str :: "json_object \<Rightarrow> str \<Rightarrow> str option" where
  "receipt_str record key = (case json_get key record of JStr (c # s) \<Rightarrow> Some (c # s) | _ \<Rightarrow> None)"

definition receipt_int :: "json_object \<Rightarrow> str \<Rightarrow> int option" where
  "receipt_int record key = (case json_get key record of JInt i \<Rightarrow> Some i | _ \<Rightarrow> None)"

definition receipt_applied_at :: "(str \<Rightarrow> instant option) \<Rightarrow> json \<Rightarrow> instant option" where
  "receipt_applied_at fromisoformat value = (case value of JStr (c # s) \<Rightarrow> fromisoformat (c # s) | _ \<Rightarrow> None)"

definition unavailable_receipt :: OperationalCompileReceiptSnapshot where
  "unavailable_receipt =
     \<lparr> rec_available = False, rec_applied_at = None, rec_plan_fingerprint = None,
       rec_policy_version = None, rec_changed_documents = None, rec_removed_documents = None,
       rec_embedding_invalidated_documents = None, rec_diagnostic_count = None,
       rec_warnings = [''compile_receipt_unavailable''] \<rparr>"

definition compile_receipt ::
  "(str \<Rightarrow> instant option) \<Rightarrow> port_exn + json \<Rightarrow> port_exn + OperationalCompileReceiptSnapshot" where
  "compile_receipt fromisoformat raw =
     except_in {PX_AttributeError, PX_OSError, PX_TypeError, PX_ValueError}
       (and_then raw (\<lambda>value. case value of
          JObj record \<Rightarrow> Inr \<lparr> rec_available = True,
            rec_applied_at = receipt_applied_at fromisoformat (json_get ''applied_at'' record),
            rec_plan_fingerprint = receipt_str record ''plan_fingerprint'',
            rec_policy_version = receipt_str record ''policy_version'',
            rec_changed_documents = receipt_int record ''changed_documents'',
            rec_removed_documents = receipt_int record ''removed_documents'',
            rec_embedding_invalidated_documents = receipt_int record ''embedding_invalidated_documents'',
            rec_diagnostic_count = receipt_int record ''diagnostic_count'', rec_warnings = [] \<rparr>
        | _ \<Rightarrow> Inl PX_ValueError))
       unavailable_receipt"

section \<open>Recovery history\<close>

text \<open>
  The recovery directory: what its files hold, which manifests the glob finds, how contents decode
  (\<open>loads_json\<close> of an object, None when decoding raises or gives no object), and \<open>str\<close> of a
  decoded value that is no string.
\<close>

record 'b recovery_files =
  hf_codec :: "'b codec"
  hf_files :: "'b fs"
  hf_manifests :: "str list"
  hf_load :: "'b \<Rightarrow> json_object option"
  hf_str :: "json \<Rightarrow> str"

definition json_str :: "'b recovery_files \<Rightarrow> json \<Rightarrow> str" where
  "json_str H value = (case value of JStr s \<Rightarrow> s | _ \<Rightarrow> hf_str H value)"

definition load_recovery_json :: "'b recovery_files \<Rightarrow> str \<Rightarrow> json_object option" where
  "load_recovery_json H path = (case hf_files H path of None \<Rightarrow> None | Some c \<Rightarrow> hf_load H c)"

definition active_recovery_run_id :: "'b recovery_files \<Rightarrow> str option" where
  "active_recovery_run_id H =
     (let path = active_lock_path (hf_codec H) in
      if hf_files H path = None then None
      else case load_recovery_json H path of
             None \<Rightarrow> Some UNREADABLE_ACTIVE_RECOVERY_RUN_ID
           | Some payload \<Rightarrow>
               (case json_get ''run_id'' payload of
                  JNull \<Rightarrow> Some UNREADABLE_ACTIVE_RECOVERY_RUN_ID
                | v \<Rightarrow> Some (json_str H v)))"

definition json_truthy :: "json \<Rightarrow> bool" where
  "json_truthy v = (case v of JNull \<Rightarrow> False | JBool b \<Rightarrow> b | JInt i \<Rightarrow> i \<noteq> 0 | JFloat f \<Rightarrow> f \<noteq> 0
     | JStr s \<Rightarrow> s \<noteq> [] | JTime _ \<Rightarrow> True | JList l \<Rightarrow> l \<noteq> [] | JObj d \<Rightarrow> d \<noteq> [])"

definition json_or :: "json \<Rightarrow> json \<Rightarrow> json" where
  "json_or a b = (if json_truthy a then a else b)"

definition completed_entry :: "'b recovery_files \<Rightarrow> str \<Rightarrow> (str \<times> str) list" where
  "completed_entry H path = (case load_recovery_json H path of
       None \<Rightarrow> []
     | Some payload \<Rightarrow>
         if json_get ''status'' payload \<noteq> JStr ''COMPLETED'' \<or> json_get ''id'' payload = JNull then []
         else [(json_str H (json_or (json_get ''finished_at'' payload)
                  (json_or (json_get ''updated_at'' payload)
                  (json_or (json_get ''started_at'' payload) (JStr [])))),
                json_str H (json_get ''id'' payload))])"

definition last_successful_recovery_run_id :: "'b recovery_files \<Rightarrow> str option" where
  "last_successful_recovery_run_id H =
     map_option snd (max_by (\<lambda>p. p) (concat (map (completed_entry H) (hf_manifests H))))"

section \<open>The snapshot\<close>

record 'b readiness_ports =
  rp_database :: database_port
  rp_status :: "port_exn + ObsidianVaultStatus"
  rp_vault_location :: "port_exn + ObsidianVaultLocation"
  rp_source :: "ObsidianVaultLocation \<Rightarrow> source_files"
  rp_data_integrity :: "(ObsidianVaultStatus \<Rightarrow> port_exn + OperationalDataIntegritySnapshot) option"
  rp_rag_health :: "port_exn + RagDependencyHealth"
  rp_runtime :: "(runtime_config \<times> native_module) option"
  rp_canary :: "canary_service option"
  rp_projection :: "(port_exn + ContextProjectionIntegritySnapshot) option"
  rp_graph :: "port_exn + ObsidianGraphProjectionStatusReport"
  rp_reconciliation :: "reconciliation_port option"
  rp_receipt :: "port_exn + json"
  rp_fromisoformat :: "str \<Rightarrow> instant option"
  rp_recovery :: "'b recovery_files"
  rp_started :: instant
  rp_finished :: instant

definition unknown_rag_health :: RagDependencyHealth where
  "unknown_rag_health =
     \<lparr> rh_fts = RAG_DEGRADED, rh_vector = RAG_DEGRADED, rh_embedding = RAG_DEGRADED,
       rh_default_strategy = RAG_FTS_ONLY, rh_model_name = ''unknown'', rh_dimensions = 0,
       rh_fingerprint = None, rh_warnings = [''rag_health_unavailable''], rh_source_statuses = [] \<rparr>"

text \<open>
  The shape of the five guarded probes: without a database the call is skipped; a handled exception
  gives the fallback. The warning tells the two cases apart.
\<close>

definition guarded ::
  "bool \<Rightarrow> port_exn set \<Rightarrow> (port_exn + 'a) \<Rightarrow> 'a \<Rightarrow> str \<Rightarrow> port_exn + ('a \<times> str option)" where
  "guarded reachable classes call fallback name =
     except_in classes
       (and_then (if reachable then call else Inl PX_SQLAlchemyError) (\<lambda>v. Inr (v, None)))
       (fallback, Some (name @ (if reachable then ''_unavailable'' else ''_skipped_database_unavailable'')))"

abbreviation storage_exns :: "port_exn set" where
  "storage_exns \<equiv> {PX_SQLAlchemyError, PX_MemoryContextDomainError, PX_OSError, PX_ValueError}"

definition vault_status_of ::
  "'b readiness_ports \<Rightarrow> bool \<Rightarrow> port_exn + (ObsidianVaultStatus option \<times> str option)" where
  "vault_status_of P reachable =
     guarded reachable {PX_SQLAlchemyError, PX_ObsidianDomainError, PX_OSError, PX_ValueError}
       (and_then (rp_status P) (\<lambda>s. Inr (Some s))) None ''metadata_index''"

definition source_of ::
  "'b readiness_ports \<Rightarrow> ObsidianVaultStatus option \<Rightarrow> port_exn + (ObsidianVaultLocation \<times> SourceProbe)" where
  "source_of P vault_status = (case vault_status of
       Some s \<Rightarrow>
         (let location = \<lparr> vl_vault_path = ov_vault_path s, vl_alexandria_root = ov_alexandria_root s \<rparr>
          in and_then (probe_source_location_sync (rp_source P location)) (\<lambda>probe. Inr (location, probe)))
     | None \<Rightarrow>
         (case rp_vault_location P of
            Inl e \<Rightarrow> if e \<in> {PX_ObsidianDomainError, PX_OSError, PX_ValueError}
                     then Inr (\<lparr> vl_vault_path = [], vl_alexandria_root = ''.'' \<rparr>,
                               source_probe False False False (Some ''source_probe_unavailable''))
                     else Inl e
          | Inr location \<Rightarrow>
              and_then (probe_source_location_sync (rp_source P location)) (\<lambda>probe. Inr (location, probe))))"

definition data_integrity_of ::
  "'b readiness_ports \<Rightarrow> ObsidianVaultStatus option \<Rightarrow> port_exn + OperationalDataIntegritySnapshot" where
  "data_integrity_of P vault_status = (case (vault_status, rp_data_integrity P) of
       (Some s, Some integrity) \<Rightarrow> integrity s
     | _ \<Rightarrow> Inr unchecked_data_integrity_snapshot)"

definition vault_of ::
  "ObsidianVaultStatus option \<Rightarrow> ObsidianVaultLocation \<Rightarrow> SourceProbe \<Rightarrow> OperationalVaultSnapshot" where
  "vault_of vault_status location probe = (case vault_status of
       None \<Rightarrow> vault_snapshot_from_probe location probe
     | Some s \<Rightarrow> (vault_snapshot s)\<lparr>vs_exists := pr_exists probe, vs_readable := pr_readable probe,
                                   vs_alexandria_root_exists := pr_root_exists probe\<rparr>)"

definition runtime_of :: "'b readiness_ports \<Rightarrow> port_exn + (OperationalRuntimeProvenanceSnapshot \<times> str option)" where
  "runtime_of P = except_in {PX_OSError, PX_ValueError, PX_ObsidianDomainError}
     (case rp_runtime P of
        None \<Rightarrow> Inr (unchecked_runtime_provenance_snapshot, None)
      | Some (cfg, N) \<Rightarrow> and_then (runtime_provenance_snapshot cfg N) (\<lambda>r. Inr (r, None)))
     (unchecked_runtime_provenance_snapshot, Some ''runtime_provenance_unavailable'')"

definition reconciliation_of :: "'b readiness_ports \<Rightarrow> bool \<Rightarrow> port_exn + OperationalReconciliationSnapshot" where
  "reconciliation_of P reachable = (case rp_reconciliation P of
       None \<Rightarrow> Inr (reconciliation_snapshot None False True)
     | Some R \<Rightarrow>
         if \<not> reachable then Inr (reconciliation_snapshot None True False)
         else except_in {PX_MemoryContextDomainError, PX_OSError, PX_SQLAlchemyError}
                (and_then (reconciliation_diagnostics R) (\<lambda>d. Inr (reconciliation_snapshot (Some d) True True)))
                (reconciliation_snapshot None True False))"

definition duration_ms :: "instant \<Rightarrow> instant \<Rightarrow> int" where
  "duration_ms started finished =
     (let ms = fmul (fdiv (of_int (finished - started)) 1000000) 1000
      in max (if 0 \<le> ms then \<lfloor>ms\<rfloor> else \<lceil>ms\<rceil>) 0)"

definition build_snapshot :: "'b readiness_ports \<Rightarrow> str option \<Rightarrow> port_exn + readiness_snapshot" where
  "build_snapshot P active_run =
     and_then (database_snapshot (rp_database P)) (\<lambda>database. let up = ds_reachable database in
     and_then (vault_status_of P up) (\<lambda>(vault_status, metadata_warning).
     and_then (source_of P vault_status) (\<lambda>(location, probe).
     and_then (data_integrity_of P vault_status) (\<lambda>data_integrity.
     and_then (guarded up storage_exns (rp_rag_health P) unknown_rag_health ''rag_health'') (\<lambda>(health, rag_warning).
     and_then (runtime_of P) (\<lambda>(runtime, runtime_warning).
     and_then (guarded up storage_exns
        (case rp_canary P of None \<Rightarrow> Inr unchecked_retrieval_canary_snapshot | Some C \<Rightarrow> canary_snapshot C)
        unchecked_retrieval_canary_snapshot ''retrieval_canary'') (\<lambda>(canary, canary_warning).
     and_then (guarded up storage_exns
        (case rp_projection P of None \<Rightarrow> Inr unchecked_context_projection_integrity_snapshot | Some p \<Rightarrow> p)
        unchecked_context_projection_integrity_snapshot ''projection_integrity'') (\<lambda>(projection, projection_warning).
     and_then (guarded up {PX_SQLAlchemyError, PX_OSError, PX_ValueError, PX_ObsidianDomainError}
        (and_then (rp_graph P) (\<lambda>g. Inr (graph_snapshot_from_status (Some g))))
        (graph_snapshot_from_status None) ''graph_projection'') (\<lambda>(graph, graph_warning).
     and_then (reconciliation_of P up) (\<lambda>reconciliation.
     and_then (compile_receipt (rp_fromisoformat P) (rp_receipt P)) (\<lambda>receipt.
     let vault = vault_of vault_status location probe;
         rag = rag_snapshot health;
         warnings = readiness_warnings database vault rag runtime canary projection reconciliation @
           concat (map (\<lambda>w. case w of None \<Rightarrow> [] | Some c \<Rightarrow> [c])
             [metadata_warning, pr_warning probe, rag_warning, runtime_warning, canary_warning,
              projection_warning, graph_warning]) @
           warn_if (active_run \<noteq> None) ''recovery_in_progress'';
         status = readiness_status rag warnings active_run
     in Inr \<lparr> or_status = status, or_ready = (status = RS_READY), or_vault = vault,
          or_database = database,
          or_effective_strategy = rag_strategy_value (rag_effective_strategy rag),
          or_warnings = warnings, or_blockers = readiness_blockers warnings,
          or_checked_at = rp_finished P, or_duration_ms = duration_ms (rp_started P) (rp_finished P),
          or_rag = rag, or_reconciliation = reconciliation, or_active_recovery_run_id = active_run,
          or_last_successful_recovery_run_id = last_successful_recovery_run_id (rp_recovery P),
          or_next_actions = readiness_next_actions warnings
            (case vault_status of None \<Rightarrow> [] | Some s \<Rightarrow> ov_index_errors s),
          or_data_integrity = data_integrity, or_runtime = runtime, or_retrieval_canary = canary,
          or_projection_integrity = projection, or_graph = graph,
          or_compile_receipt = receipt \<rparr>)))))))))))"

section \<open>Snapshot cache\<close>

text \<open>
  The Redis adapter: one key with an expiry. The client may raise on any call; contents are
  written and validated by the serializer, which may refuse them; a stored payload \<open>None\<close> stands
  for one of a type other than bytes or text. The clock is read at the lookup and at the store.
\<close>

record 'p readiness_cache =
  rk_ttl_seconds :: int
  rk_dump :: "readiness_snapshot \<Rightarrow> 'p option"
  rk_validate :: "'p \<Rightarrow> readiness_snapshot option"

type_synonym 'p cache_entry = "('p option \<times> instant) option"

record 'p cache_client =
  kc_get_raises :: bool
  kc_set_raises :: bool
  kc_now :: instant
  kc_set_now :: instant
  kc_entry :: "'p cache_entry"

definition new_readiness_cache ::
  "(readiness_snapshot \<Rightarrow> 'p option) \<Rightarrow> ('p \<Rightarrow> readiness_snapshot option) \<Rightarrow> int \<Rightarrow> str \<Rightarrow> port_exn + 'p readiness_cache" where
  "new_readiness_cache dump validate ttl_seconds key =
     (if ttl_seconds \<le> 0 then Inl PX_ValueError else if key = [] then Inl PX_ValueError
      else Inr \<lparr> rk_ttl_seconds = ttl_seconds, rk_dump = dump, rk_validate = validate \<rparr>)"

definition live_payload :: "'p cache_client \<Rightarrow> 'p option option" where
  "live_payload k = (case kc_entry k of
       None \<Rightarrow> None | Some (payload, expires) \<Rightarrow> if kc_now k < expires then Some payload else None)"

definition cache_get :: "'p readiness_cache \<Rightarrow> 'p cache_client \<Rightarrow> readiness_snapshot option" where
  "cache_get R k =
     (if kc_get_raises k then None
      else case live_payload k of None \<Rightarrow> None | Some None \<Rightarrow> None | Some (Some p) \<Rightarrow> rk_validate R p)"

definition cache_set :: "'p readiness_cache \<Rightarrow> readiness_snapshot \<Rightarrow> 'p cache_client \<Rightarrow> 'p cache_client" where
  "cache_set R snapshot k = (case rk_dump R snapshot of
       None \<Rightarrow> k
     | Some p \<Rightarrow> if kc_set_raises k then k
                 else k\<lparr>kc_entry := Some (Some p, kc_set_now k + rk_ttl_seconds R * 1000000)\<rparr>)"

definition effective_active_run :: "'b readiness_ports \<Rightarrow> str option \<Rightarrow> str option" where
  "effective_active_run P ignored =
     (let active = active_recovery_run_id (rp_recovery P) in if active = ignored then None else active)"

definition readiness_of ::
  "'b readiness_ports \<Rightarrow> str option \<Rightarrow> 'p readiness_cache option \<Rightarrow> 'p cache_client \<Rightarrow>
   (port_exn + readiness_snapshot) \<times> 'p cache_client" where
  "readiness_of P ignored readiness_cache k =
     (let active = effective_active_run P ignored;
          cache = (if ignored = None \<and> active = None then readiness_cache else None)
      in case cache of
           None \<Rightarrow> (build_snapshot P active, k)
         | Some R \<Rightarrow>
             (case cache_get R k of
                Some cached \<Rightarrow> (Inr cached, k)
              | None \<Rightarrow>
                  (case build_snapshot P active of
                     Inl e \<Rightarrow> (Inl e, k)
                   | Inr snapshot \<Rightarrow> (Inr snapshot, cache_set R snapshot k))))"

end
