(* ===== verification/Readiness_Properties.thy ===== *)
theory Readiness_Properties
  imports Readiness_Service Recovery_Lock
begin

text \<open>
  What readiness snapshots mean: exactly when a snapshot is ready, what happens when dependencies
  fail, how snapshots interact with the recovery lock and the cache, and how the capability
  classification agrees with readiness.
\<close>

section \<open>Specification of a ready system\<close>

definition source_clear :: "source_files \<Rightarrow> bool" where
  "source_clear F \<longleftrightarrow> sf_resolve F = Inr () \<and> sf_vault_exists F = Inr True \<and> sf_root_exists F = Inr True \<and>
     sf_scandir F = Inr ()"

definition rag_clear :: "RagDependencyHealth \<Rightarrow> bool" where
  "rag_clear h \<longleftrightarrow> rh_fts h = RAG_HEALTHY \<and> rh_vector h = RAG_HEALTHY \<and> rh_embedding h = RAG_HEALTHY \<and>
     rh_default_strategy h = RAG_HYBRID \<and> rh_warnings h = []"

definition diagnostics_clear :: "MemoryReconciliationDiagnostics \<Rightarrow> bool" where
  "diagnostics_clear d \<longleftrightarrow> md_reachable d \<and> md_missing_temporal_states d \<le> 0 \<and> md_pending_review_plans d \<le> 0 \<and>
     md_open_conflicts d \<le> 0 \<and> md_reviewing_conflicts d \<le> 0 \<and> md_partial_apply_results d \<le> 0 \<and>
     md_failed_results d \<le> 0 \<and> md_hard_delete_results d \<le> 0"

definition projection_clear :: "ContextProjectionIntegritySnapshot \<Rightarrow> bool" where
  "projection_clear p \<longleftrightarrow> \<not> pi_checked p \<or>
     (pi_available p \<and> pi_invalid_count p \<le> 0 \<and> pi_source_revision p = pi_current_source_revision p \<and> \<not> pi_stale p)"

text \<open>
  A deployed build (any environment but local) is what was expected, and its extension belongs to
  it; locally a missing revision is tolerated, a wrong one is not.
\<close>

definition build_clear :: "runtime_config \<Rightarrow> native_module \<Rightarrow> bool" where
  "build_clear cfg N \<longleftrightarrow> (let rev = revision (cf_runtime_revision cfg);
        expected = revision (cf_runtime_expected_revision cfg); (err, nv) = read_native N in
     err = None \<and> nv_schema_version nv = Some 1 \<and>
     (if cf_app_env cfg = ''local''
      then (rev = None \<or> expected = None \<or> rev = expected) \<and>
           (nv_revision nv = rev \<or> (rev \<noteq> None \<and> nv_revision nv = None))
      else rev \<noteq> None \<and> rev = expected \<and> nv_revision nv = rev))"

definition lane_clear :: "canary_service \<Rightarrow> RagStrategy \<Rightarrow> bool" where
  "lane_clear C strategy \<longleftrightarrow> (case cy_readiness_canary C (cy_query C) strategy (cy_limit C) of
     Inl _ \<Rightarrow> False | Inr pack \<Rightarrow> cp_effective_strategy pack = strategy \<and> strip (cp_context_pack pack) \<noteq> [])"

definition answered :: "(port_exn + 'a) \<Rightarrow> ('a \<Rightarrow> bool) \<Rightarrow> bool" where
  "answered call good = (case call of Inl _ \<Rightarrow> False | Inr v \<Rightarrow> good v)"

lemma answered_simps [simp]: "answered (Inl e) good = False" "answered (Inr v) good = good v"
  by (simp_all add: answered_def)

definition optionally :: "'a option \<Rightarrow> ('a \<Rightarrow> bool) \<Rightarrow> bool" where
  "optionally x good = (case x of None \<Rightarrow> True | Some v \<Rightarrow> good v)"

lemma optionally_simps [simp]: "optionally None good" "optionally (Some v) good = good v"
  by (simp_all add: optionally_def)

definition database_clear :: "database_port \<Rightarrow> bool" where
  "database_clear D \<longleftrightarrow> db_select_1 D = Inr () \<and> answered (schema_version D) (\<lambda>_. True)"

definition status_clear :: "'b readiness_ports \<Rightarrow> ObsidianVaultStatus \<Rightarrow> bool" where
  "status_clear P s \<longleftrightarrow> ov_stale_notes s \<le> 0 \<and> ov_error_notes s \<le> 0 \<and>
     source_clear (rp_source P \<lparr> vl_vault_path = ov_vault_path s, vl_alexandria_root = ov_alexandria_root s \<rparr>)"

definition system_clear :: "'b readiness_ports \<Rightarrow> bool" where
  "system_clear P \<longleftrightarrow> database_clear (rp_database P) \<and> answered (rp_status P) (status_clear P) \<and>
     answered (rp_rag_health P) rag_clear \<and>
     optionally (rp_runtime P) (\<lambda>(cfg, N). build_clear cfg N) \<and>
     optionally (rp_canary P) (\<lambda>C. lane_clear C RAG_FTS_ONLY \<and> lane_clear C RAG_VECTOR_ONLY \<and> lane_clear C RAG_HYBRID) \<and>
     optionally (rp_projection P) (\<lambda>p. answered p projection_clear) \<and>
     answered (rp_graph P) (\<lambda>_. True) \<and>
     optionally (rp_reconciliation P) (\<lambda>R. answered (reconciliation_diagnostics R) diagnostics_clear)"

section \<open>Each probe\<close>

lemma except_in_InrD: "except_in C call d = Inr v \<Longrightarrow> call = Inr v \<or> (\<exists>e\<in>C. call = Inl e) \<and> v = d"
  by (auto simp: except_in_def split: sum.splits if_splits)

lemma guarded_result:
  assumes "guarded up C call fallback name = Inr (v, w)"
  shows "w = None \<and> up \<and> call = Inr v \<or> w \<noteq> None \<and> v = fallback \<and> (\<not> up \<or> (\<exists>e\<in>C. call = Inl e))"
  using except_in_InrD [OF assms [unfolded guarded_def]]
  by (cases call) (auto split: if_splits)

lemma database_result:
  assumes "database_snapshot D = Inr d"
  shows "ds_reachable d = database_clear D" "ds_reachable d \<Longrightarrow> ds_integrity d = ''HEALTHY''"
  using except_in_InrD [OF assms [unfolded database_snapshot_def]]
  by (auto simp: database_clear_def and_then_Inr answered_def and_then_def split: sum.splits)

lemma database_warnings_clear: "database_snapshot D = Inr d \<Longrightarrow> database_warnings d = [] \<longleftrightarrow> database_clear D"
  using database_result [of D d] by (auto simp: database_warnings_def)

lemma probe_clear:
  assumes "probe_source_location_sync F = Inr p"
  shows "pr_warning p = None \<longleftrightarrow> source_clear F"
    and "pr_warning p = None \<Longrightarrow> pr_exists p \<and> pr_root_exists p \<and> pr_readable p"
  using assms
  by (auto simp: probe_source_location_sync_def source_clear_def source_probe_def except_in_def and_then_def
      split: sum.splits if_splits)

lemma rag_warnings_clear: "rag_health_warnings (rag_snapshot h) = [] \<longleftrightarrow> rag_clear h"
  by (auto simp: rag_health_warnings_def rag_snapshot_def rag_clear_def rag_all_healthy_def)

lemma reconciliation_warnings_clear:
  "reconciliation_warnings (reconciliation_snapshot (Some d) c r) = [] \<longleftrightarrow> diagnostics_clear d"
  by (auto simp: reconciliation_warnings_def reconciliation_snapshot_def diagnostics_clear_def not_less)

lemma projection_warnings_clear: "projection_warnings p = [] \<longleftrightarrow> projection_clear p"
  by (auto simp: projection_warnings_def projection_clear_def not_less)

lemma lane_clear_iff: "canary_probe C strategy = Inr r \<Longrightarrow> ca_ok r \<longleftrightarrow> lane_clear C strategy"
  by (auto simp: canary_probe_def lane_clear_def except_in_def and_then_def Let_def split: sum.splits if_splits)

lemma canary_warnings_clear:
  "canary_snapshot C = Inr s \<Longrightarrow> canary_warnings s = [] \<longleftrightarrow>
     lane_clear C RAG_FTS_ONLY \<and> lane_clear C RAG_VECTOR_ONLY \<and> lane_clear C RAG_HYBRID"
  by (auto simp: canary_snapshot_def and_then_Inr canary_warnings_def lane_clear_iff)

lemma revision_codes:
  "filter (\<lambda>w. w \<notin> set local_provenance_codes) (revision_warnings env actual expected) = [] \<longleftrightarrow>
     (actual = None \<or> expected = None \<or> actual = expected) \<and> (env \<noteq> ''local'' \<longrightarrow> actual \<noteq> None \<and> expected \<noteq> None)"
  by (auto simp: revision_warnings_def local_provenance_codes_def warn_if_def)

lemma native_codes:
  "filter (\<lambda>w. w \<notin> set local_provenance_codes) (native_warnings env actual nv) = [] \<longleftrightarrow>
     nv_schema_version nv = Some 1 \<and>
     (nv_revision nv = actual \<or> (env = ''local'' \<and> actual \<noteq> None \<and> nv_revision nv = None))"
  by (auto simp: native_warnings_def local_provenance_codes_def warn_if_def native_aligned_def)

lemma filter_fromkeys_Nil: "filter Q (fromkeys xs) = [] \<longleftrightarrow> filter Q xs = []"
  by (simp add: filter_empty_conv)

lemma provenance_warnings:
  assumes "runtime_provenance_snapshot cfg N = Inr r" "read_native N = (err, nv)"
  shows "rt_checked r" "err = None \<or> err = Some PX_RuntimeError"
    "rt_warnings r = fromkeys
       (revision_warnings (cf_app_env cfg) (revision (cf_runtime_revision cfg)) (revision (cf_runtime_expected_revision cfg)) @
        (if err = None then native_warnings (cf_app_env cfg) (revision (cf_runtime_revision cfg)) nv
         else [''native_provenance_unavailable'']))"
proof -
  have r: "Inr r = runtime_provenance_snapshot cfg N" using assms(1) by simp
  show err: "err = None \<or> err = Some PX_RuntimeError"
    using r by (cases err) (simp_all add: runtime_provenance_snapshot_def Let_def assms(2) split: if_split_asm)
  then show "rt_checked r"
    using r by (elim disjE) (simp_all add: runtime_provenance_snapshot_def Let_def assms(2))
  show "rt_warnings r = fromkeys
       (revision_warnings (cf_app_env cfg) (revision (cf_runtime_revision cfg)) (revision (cf_runtime_expected_revision cfg)) @
        (if err = None then native_warnings (cf_app_env cfg) (revision (cf_runtime_revision cfg)) nv
         else [''native_provenance_unavailable'']))"
    using err r by (elim disjE) (simp_all add: runtime_provenance_snapshot_def Let_def assms(2))
qed

lemma runtime_warnings_clear:
  assumes "runtime_provenance_snapshot cfg N = Inr r"
  shows "runtime_warnings r = [] \<longleftrightarrow> build_clear cfg N"
proof -
  obtain err nv where n: "read_native N = (err, nv)" by (cases "read_native N")
  note w = provenance_warnings [OF assms n]
  show ?thesis
  proof (cases err)
    case None
    with n w(1,3) show ?thesis
      by (auto simp: runtime_warnings_def filter_fromkeys_Nil revision_codes native_codes build_clear_def Let_def)
  next
    case (Some e)
    with w(3) have "''native_provenance_unavailable'' \<in> set (rt_warnings r)" by simp
    then have "runtime_warnings r \<noteq> []"
      using w(1) by (force simp: runtime_warnings_def filter_empty_conv local_provenance_codes_def)
    with n Some show ?thesis by (simp add: build_clear_def)
  qed
qed

section \<open>The whole snapshot\<close>

abbreviation extra_warnings :: "str option list \<Rightarrow> str list" where
  "extra_warnings ws \<equiv> concat (map (\<lambda>w. case w of None \<Rightarrow> [] | Some c \<Rightarrow> [c]) ws)"

lemma build_snapshotE:
  assumes "build_snapshot P active = Inr snap"
  obtains database vs mw location probe integrity health rw runtime rtw canary cw projection pw graph gw reconciliation receipt
  where "database_snapshot (rp_database P) = Inr database"
    "vault_status_of P (ds_reachable database) = Inr (vs, mw)"
    "source_of P vs = Inr (location, probe)"
    "data_integrity_of P vs = Inr integrity"
    "guarded (ds_reachable database) storage_exns (rp_rag_health P) unknown_rag_health ''rag_health'' = Inr (health, rw)"
    "runtime_of P = Inr (runtime, rtw)"
    "guarded (ds_reachable database) storage_exns
        (case rp_canary P of None \<Rightarrow> Inr unchecked_retrieval_canary_snapshot | Some C \<Rightarrow> canary_snapshot C)
        unchecked_retrieval_canary_snapshot ''retrieval_canary'' = Inr (canary, cw)"
    "guarded (ds_reachable database) storage_exns
        (case rp_projection P of None \<Rightarrow> Inr unchecked_context_projection_integrity_snapshot | Some p \<Rightarrow> p)
        unchecked_context_projection_integrity_snapshot ''projection_integrity'' = Inr (projection, pw)"
    "guarded (ds_reachable database) {PX_SQLAlchemyError, PX_OSError, PX_ValueError, PX_ObsidianDomainError}
        (and_then (rp_graph P) (\<lambda>g. Inr (graph_snapshot_from_status (Some g))))
        (graph_snapshot_from_status None) ''graph_projection'' = Inr (graph, gw)"
    "reconciliation_of P (ds_reachable database) = Inr reconciliation"
    "or_database snap = database" "or_vault snap = vault_of vs location probe" "or_rag snap = rag_snapshot health"
    "or_runtime snap = runtime" "or_retrieval_canary snap = canary" "or_projection_integrity snap = projection"
    "or_reconciliation snap = reconciliation" "or_data_integrity snap = integrity" "or_graph snap = graph"
    "or_warnings snap =
       readiness_warnings database (vault_of vs location probe) (rag_snapshot health) runtime canary projection reconciliation @
       extra_warnings [mw, pr_warning probe, rw, rtw, cw, pw, gw] @ warn_if (active \<noteq> None) ''recovery_in_progress''"
    "or_status snap = readiness_status (or_rag snap) (or_warnings snap) active"
    "or_ready snap \<longleftrightarrow> or_status snap = RS_READY"
    "or_blockers snap = readiness_blockers (or_warnings snap)"
    "or_next_actions snap = readiness_next_actions (or_warnings snap) (case vs of None \<Rightarrow> [] | Some s \<Rightarrow> ov_index_errors s)"
    "or_active_recovery_run_id snap = active"
proof -
  from assms show thesis
    unfolding build_snapshot_def Let_def
    by (clarsimp simp: and_then_Inr simp del: concat.simps) (rule that, assumption+, simp_all)
qed

text \<open>A status is ready exactly when nothing was warned about and no recovery is active.\<close>

lemma status_ready_iff:
  assumes "set (rag_health_warnings rag) \<subseteq> set warnings"
  shows "readiness_status rag warnings active = RS_READY \<longleftrightarrow> active = None \<and> warnings = []"
proof (cases "warnings = []")
  case True
  with assms have "rag_health_warnings rag = []" by simp
  then have "rag_vector rag = RAG_HEALTHY" "rag_embedding rag = RAG_HEALTHY"
    by (auto simp: rag_health_warnings_def split: if_splits)
  with True show ?thesis by (simp add: readiness_status_def any_of_def readiness_blockers_def)
qed (simp add: readiness_status_def)

text \<open>Each part of the snapshot is free of warnings exactly when its specification holds.\<close>

lemma vault_part:
  assumes "vault_status_of P True = Inr (vs, mw)" "source_of P vs = Inr (location, probe)"
  shows "vault_warnings (vault_of vs location probe) = [] \<and> mw = None \<and> pr_warning probe = None \<longleftrightarrow>
    answered (rp_status P) (status_clear P)"
proof (cases "rp_status P")
  case (Inl e)
  with guarded_result [OF assms(1) [unfolded vault_status_of_def]] show ?thesis by auto
next
  case (Inr s)
  with guarded_result [OF assms(1) [unfolded vault_status_of_def]] have s: "vs = Some s" "mw = None" by auto
  let ?F = "rp_source P \<lparr> vl_vault_path = ov_vault_path s, vl_alexandria_root = ov_alexandria_root s \<rparr>"
  have p: "probe_source_location_sync ?F = Inr probe"
    using assms(2) s(1) by (auto simp: source_of_def Let_def and_then_Inr)
  show ?thesis
    using Inr s probe_clear [OF p]
    by (auto simp: status_clear_def vault_warnings_def vault_of_def vault_snapshot_def positive_def not_less)
qed

lemma rag_part:
  assumes "guarded True storage_exns (rp_rag_health P) unknown_rag_health ''rag_health'' = Inr (health, rw)"
  shows "rag_health_warnings (rag_snapshot health) = [] \<and> rw = None \<longleftrightarrow> answered (rp_rag_health P) rag_clear"
  using guarded_result [OF assms] by (auto simp: rag_warnings_clear)

lemma runtime_part:
  assumes "runtime_of P = Inr (runtime, rtw)"
  shows "runtime_warnings runtime = [] \<and> rtw = None \<longleftrightarrow> optionally (rp_runtime P) (\<lambda>(cfg, N). build_clear cfg N)"
proof (cases "rp_runtime P")
  case None
  with assms show ?thesis
    by (auto simp: runtime_of_def runtime_warnings_def unchecked_runtime_provenance_snapshot_def)
next
  case (Some b)
  obtain cfg N where b: "b = (cfg, N)" by (cases b)
  show ?thesis
  proof (cases "runtime_provenance_snapshot cfg N")
    case (Inl e)
    obtain err nv where n: "read_native N = (err, nv)" by (cases "read_native N")
    with Inl have "err \<noteq> None"
      by (cases err) (simp_all add: runtime_provenance_snapshot_def Let_def)
    with n have "\<not> build_clear cfg N" by (auto simp: build_clear_def Let_def)
    with Some b Inl assms show ?thesis by (auto simp: runtime_of_def except_in_def split: if_splits)
  next
    case (Inr r)
    with Some b assms show ?thesis by (simp add: runtime_of_def) (metis runtime_warnings_clear)
  qed
qed

lemma canary_part:
  assumes "guarded True storage_exns
        (case rp_canary P of None \<Rightarrow> Inr unchecked_retrieval_canary_snapshot | Some C \<Rightarrow> canary_snapshot C)
        unchecked_retrieval_canary_snapshot ''retrieval_canary'' = Inr (canary, cw)"
  shows "canary_warnings canary = [] \<and> cw = None \<longleftrightarrow> optionally (rp_canary P)
    (\<lambda>C. lane_clear C RAG_FTS_ONLY \<and> lane_clear C RAG_VECTOR_ONLY \<and> lane_clear C RAG_HYBRID)"
proof (cases "rp_canary P")
  case None
  with guarded_result [OF assms] show ?thesis
    by (auto simp: canary_warnings_def unchecked_retrieval_canary_snapshot_def)
next
  case (Some C)
  have "\<not> lane_clear C RAG_FTS_ONLY \<or> \<not> lane_clear C RAG_VECTOR_ONLY \<or> \<not> lane_clear C RAG_HYBRID"
    if "canary_snapshot C = Inl e" for e
    using that by (auto simp: canary_snapshot_def canary_probe_def lane_clear_def except_in_def and_then_def Let_def
        split: sum.splits if_splits)
  with Some guarded_result [OF assms] canary_warnings_clear [of C canary] show ?thesis by auto
qed

lemma projection_part:
  assumes "guarded True storage_exns
        (case rp_projection P of None \<Rightarrow> Inr unchecked_context_projection_integrity_snapshot | Some p \<Rightarrow> p)
        unchecked_context_projection_integrity_snapshot ''projection_integrity'' = Inr (projection, pw)"
  shows "projection_warnings projection = [] \<and> pw = None \<longleftrightarrow>
    optionally (rp_projection P) (\<lambda>p. answered p projection_clear)"
  using guarded_result [OF assms]
  by (cases "rp_projection P")
    (auto simp: projection_warnings_clear projection_clear_def unchecked_context_projection_integrity_snapshot_def)

lemma graph_part:
  assumes "guarded True {PX_SQLAlchemyError, PX_OSError, PX_ValueError, PX_ObsidianDomainError}
        (and_then (rp_graph P) (\<lambda>g. Inr (graph_snapshot_from_status (Some g))))
        (graph_snapshot_from_status None) ''graph_projection'' = Inr (graph, gw)"
  shows "gw = None \<longleftrightarrow> answered (rp_graph P) (\<lambda>_. True)"
  using guarded_result [OF assms] by (cases "rp_graph P") auto

lemma reconciliation_part:
  assumes "reconciliation_of P True = Inr reconciliation"
  shows "reconciliation_warnings reconciliation = [] \<longleftrightarrow>
    optionally (rp_reconciliation P) (\<lambda>R. answered (reconciliation_diagnostics R) diagnostics_clear)"
proof (cases "rp_reconciliation P")
  case None
  with assms show ?thesis
    by (auto simp: reconciliation_of_def reconciliation_warnings_def reconciliation_snapshot_def)
next
  case (Some R)
  show ?thesis
  proof (cases "reconciliation_diagnostics R")
    case (Inl e)
    with Some assms have "reconciliation = reconciliation_snapshot None True False"
      by (auto simp: reconciliation_of_def except_in_def split: if_splits)
    with Some Inl show ?thesis by (simp add: reconciliation_warnings_def reconciliation_snapshot_def)
  next
    case (Inr d)
    with Some assms have "reconciliation = reconciliation_snapshot (Some d) True True"
      by (simp add: reconciliation_of_def)
    with Some Inr show ?thesis by (simp add: reconciliation_warnings_clear)
  qed
qed

lemma readiness_warnings_Nil:
  "readiness_warnings database vault rag runtime canary projection reconciliation = [] \<longleftrightarrow>
     database_warnings database = [] \<and> vault_warnings vault = [] \<and> rag_health_warnings rag = [] \<and>
     reconciliation_warnings reconciliation = [] \<and> runtime_warnings runtime = [] \<and> canary_warnings canary = [] \<and>
     projection_warnings projection = []"
  by (simp add: readiness_warnings_def)

lemma ready_iff_no_warnings:
  assumes "build_snapshot P active = Inr snap"
  shows "or_ready snap \<longleftrightarrow> active = None \<and> or_warnings snap = []"
proof (rule build_snapshotE [OF assms])
  fix database vs mw location probe health rw runtime rtw canary cw projection pw gw reconciliation
  assume w: "or_warnings snap =
       readiness_warnings database (vault_of vs location probe) (rag_snapshot health) runtime canary projection reconciliation @
       extra_warnings [mw, pr_warning probe, rw, rtw, cw, pw, gw] @ warn_if (active \<noteq> None) ''recovery_in_progress''"
    and rag: "or_rag snap = rag_snapshot health"
    and s: "or_status snap = readiness_status (or_rag snap) (or_warnings snap) active"
    and r: "or_ready snap \<longleftrightarrow> or_status snap = RS_READY"
  have "set (rag_health_warnings (or_rag snap)) \<subseteq> set (or_warnings snap)"
    unfolding w rag readiness_warnings_def by auto
  from status_ready_iff [OF this] show ?thesis unfolding r s .
qed

section \<open>Dependency failures\<close>

text \<open>
  Every port raises only what the service handles: database and storage errors, domain errors, file
  system errors, value errors; the existence checks and the integrity scan do not raise.
\<close>

definition source_handled :: "source_files \<Rightarrow> bool" where
  "source_handled F \<longleftrightarrow> raises_only {PX_ObsidianDomainError, PX_OSError, PX_ValueError} (sf_resolve F) \<and>
     raises_only {} (sf_vault_exists F) \<and> raises_only {} (sf_root_exists F) \<and> raises_only {PX_OSError} (sf_scandir F)"

definition ports_handled :: "'b readiness_ports \<Rightarrow> bool" where
  "ports_handled P \<longleftrightarrow>
     raises_only {PX_SQLAlchemyError, PX_OSError} (db_select_1 (rp_database P)) \<and>
     raises_only {PX_SQLAlchemyError, PX_OSError} (schema_version (rp_database P)) \<and>
     raises_only {PX_SQLAlchemyError, PX_ObsidianDomainError, PX_OSError, PX_ValueError} (rp_status P) \<and>
     raises_only {PX_ObsidianDomainError, PX_OSError, PX_ValueError} (rp_vault_location P) \<and>
     (\<forall>location. source_handled (rp_source P location)) \<and>
     optionally (rp_data_integrity P) (\<lambda>scan. \<forall>s. raises_only {} (scan s)) \<and>
     raises_only storage_exns (rp_rag_health P) \<and>
     optionally (rp_runtime P) (\<lambda>(cfg, N). raises_only {PX_OSError, PX_ValueError, PX_ObsidianDomainError}
       (runtime_provenance_snapshot cfg N)) \<and>
     optionally (rp_canary P) (\<lambda>C. \<forall>strategy. raises_only (insert PX_RuntimeError storage_exns)
       (cy_readiness_canary C (cy_query C) strategy (cy_limit C))) \<and>
     optionally (rp_projection P) (raises_only storage_exns) \<and>
     raises_only {PX_SQLAlchemyError, PX_OSError, PX_ValueError, PX_ObsidianDomainError} (rp_graph P) \<and>
     optionally (rp_reconciliation P) (\<lambda>R. raises_only {PX_MemoryContextDomainError, PX_OSError, PX_SQLAlchemyError}
       (reconciliation_diagnostics R)) \<and>
     raises_only {PX_AttributeError, PX_OSError, PX_TypeError, PX_ValueError} (rp_receipt P)"

lemma raises_only_and_then:
  "raises_only C m \<Longrightarrow> (\<And>x. m = Inr x \<Longrightarrow> raises_only C (f x)) \<Longrightarrow> raises_only C (and_then m f)"
  by (cases m) (auto simp: raises_only_def)

lemma raises_only_simps [simp]: "raises_only C (Inr v)" "raises_only C (Inl e) \<longleftrightarrow> e \<in> C"
  by (simp_all add: raises_only_def)

lemma raises_only_mono: "raises_only C m \<Longrightarrow> C \<subseteq> D \<Longrightarrow> raises_only D m"
  by (auto simp: raises_only_def split: sum.splits)

lemma guarded_returns:
  "raises_only C call \<Longrightarrow> PX_SQLAlchemyError \<in> C \<Longrightarrow> \<exists>r. guarded up C call fallback name = Inr r"
  unfolding guarded_def by (rule raises_only_except_in) (cases call; simp)

lemma database_returns:
  assumes "ports_handled P" shows "\<exists>d. database_snapshot (rp_database P) = Inr d"
  unfolding database_snapshot_def
  by (rule raises_only_except_in) (use assms in \<open>auto simp: ports_handled_def intro!: raises_only_and_then\<close>)

lemma vault_status_returns:
  assumes "ports_handled P" shows "\<exists>r. vault_status_of P up = Inr r"
  unfolding vault_status_of_def
  by (rule guarded_returns) (use assms in \<open>auto simp: ports_handled_def intro!: raises_only_and_then\<close>)

lemma probe_returns: "source_handled F \<Longrightarrow> \<exists>p. probe_source_location_sync F = Inr p"
  by (auto simp: source_handled_def raises_only_def probe_source_location_sync_def except_in_def and_then_def
      split: sum.splits)

lemma source_returns:
  assumes "ports_handled P" shows "\<exists>r. source_of P vs = Inr r"
proof -
  have p: "\<exists>p. probe_source_location_sync (rp_source P location) = Inr p" for location
    using assms probe_returns by (simp add: ports_handled_def)
  have l: "raises_only {PX_ObsidianDomainError, PX_OSError, PX_ValueError} (rp_vault_location P)"
    using assms by (simp add: ports_handled_def)
  show ?thesis
  proof (cases vs)
    case None
    show ?thesis
    proof (cases "rp_vault_location P")
      case (Inr location)
      with None p [of location] show ?thesis by (auto simp: source_of_def)
    qed (use None l in \<open>auto simp: source_of_def raises_only_def\<close>)
  next
    case (Some s)
    with p [of "\<lparr> vl_vault_path = ov_vault_path s, vl_alexandria_root = ov_alexandria_root s \<rparr>"]
    show ?thesis by (auto simp: source_of_def Let_def)
  qed
qed

lemma integrity_returns:
  assumes "ports_handled P" shows "\<exists>r. data_integrity_of P vs = Inr r"
proof (cases "\<exists>s scan. vs = Some s \<and> rp_data_integrity P = Some scan")
  case True
  then obtain s scan where v: "vs = Some s" "rp_data_integrity P = Some scan" by blast
  with assms have "raises_only {} (scan s)" by (simp add: ports_handled_def)
  with v show ?thesis by (cases "scan s") (simp_all add: data_integrity_of_def)
next
  case False
  then show ?thesis by (cases vs; cases "rp_data_integrity P") (auto simp: data_integrity_of_def)
qed

lemma runtime_returns:
  assumes "ports_handled P" shows "\<exists>r. runtime_of P = Inr r"
  unfolding runtime_of_def
  by (rule raises_only_except_in)
    (use assms in \<open>auto simp: ports_handled_def split: option.splits intro!: raises_only_and_then\<close>)

lemma canary_returns:
  assumes "ports_handled P" "rp_canary P = Some C" shows "\<exists>r. canary_snapshot C = Inr r"
proof -
  have "\<exists>r. canary_probe C strategy = Inr r" for strategy
    unfolding canary_probe_def
    by (rule raises_only_except_in)
      (use assms in \<open>auto simp: ports_handled_def Let_def intro!: raises_only_and_then elim: raises_only_mono\<close>)
  then show ?thesis
    by (metis (no_types, lifting) canary_snapshot_def and_then_simps(2))
qed

lemma reconciliation_returns:
  assumes "ports_handled P" shows "\<exists>r. reconciliation_of P up = Inr r"
proof (cases "rp_reconciliation P")
  case (Some R)
  have "\<exists>r. except_in {PX_MemoryContextDomainError, PX_OSError, PX_SQLAlchemyError}
      (and_then (reconciliation_diagnostics R) (\<lambda>d. Inr (reconciliation_snapshot (Some d) True True)))
      (reconciliation_snapshot None True False) = Inr r"
    by (rule raises_only_except_in)
      (use Some assms in \<open>auto simp: ports_handled_def intro!: raises_only_and_then\<close>)
  with Some show ?thesis by (simp add: reconciliation_of_def)
qed (simp add: reconciliation_of_def)

lemma receipt_returns:
  assumes "ports_handled P" shows "\<exists>r. compile_receipt f (rp_receipt P) = Inr r"
  unfolding compile_receipt_def
  by (rule raises_only_except_in)
    (use assms in \<open>auto simp: ports_handled_def raises_only_def intro!: raises_only_and_then split: json.splits sum.splits\<close>)

lemma canary_call_handled:
  "ports_handled P \<Longrightarrow> raises_only storage_exns
     (case rp_canary P of None \<Rightarrow> Inr unchecked_retrieval_canary_snapshot | Some C \<Rightarrow> canary_snapshot C)"
  using canary_returns [of P] by (fastforce split: option.split)

lemma projection_call_handled:
  "ports_handled P \<Longrightarrow> raises_only storage_exns
     (case rp_projection P of None \<Rightarrow> Inr unchecked_context_projection_integrity_snapshot | Some p \<Rightarrow> p)"
  by (auto simp: ports_handled_def split: option.split)

lemma graph_call_handled:
  "ports_handled P \<Longrightarrow> raises_only {PX_SQLAlchemyError, PX_OSError, PX_ValueError, PX_ObsidianDomainError}
     (and_then (rp_graph P) (\<lambda>g. Inr (graph_snapshot_from_status (Some g))))"
  by (rule raises_only_and_then) (simp_all add: ports_handled_def)

lemma and_then_returns:
  "\<exists>x. m = Inr x \<Longrightarrow> (\<And>x. \<exists>y. f x = Inr y) \<Longrightarrow> \<exists>y. and_then m f = Inr y"
  "\<exists>x. n = Inr x \<Longrightarrow> (\<And>a b. \<exists>y. g a b = Inr y) \<Longrightarrow> \<exists>y. and_then n (\<lambda>(a, b). g a b) = Inr y"
  by (auto simp: and_then_def)

lemma Inr_returns: "\<exists>y. Inr x = Inr y"
  by simp

lemma build_returns:
  assumes P: "ports_handled P"
  shows "\<exists>snap. build_snapshot P active = Inr snap"
proof -
  have rag: "raises_only storage_exns (rp_rag_health P)" using P by (simp add: ports_handled_def)
  have sql: "PX_SQLAlchemyError \<in> storage_exns"
    "PX_SQLAlchemyError \<in> {PX_SQLAlchemyError, PX_OSError, PX_ValueError, PX_ObsidianDomainError}" by simp_all
  show ?thesis
    unfolding build_snapshot_def Let_def
    by (intro and_then_returns(2) and_then_returns(1) Inr_returns database_returns [OF P] vault_status_returns [OF P]
        source_returns [OF P] integrity_returns [OF P] guarded_returns [OF rag sql(1)] runtime_returns [OF P]
        guarded_returns [OF canary_call_handled [OF P] sql(1)] guarded_returns [OF projection_call_handled [OF P] sql(1)]
        guarded_returns [OF graph_call_handled [OF P] sql(2)] reconciliation_returns [OF P] receipt_returns [OF P])
qed

section \<open>Recovery lock and cache\<close>

text \<open>The lock file that recovery writes is JSON with the run's id.\<close>

definition lock_readable :: "'b recovery_files \<Rightarrow> bool" where
  "lock_readable H \<longleftrightarrow> (\<forall>l. \<exists>payload. hf_load H (co_lock_dump (hf_codec H) l) = Some payload \<and>
     json_get ''run_id'' payload = JStr (lk_run_id l))"

lemma active_id_of_lock:
  "lock_readable H \<Longrightarrow> hf_files H (active_lock_path (hf_codec H)) = Some (co_lock_dump (hf_codec H) l) \<Longrightarrow>
   active_recovery_run_id H = Some (lk_run_id l)"
  by (auto simp: lock_readable_def active_recovery_run_id_def load_recovery_json_def json_str_def Let_def
      dest!: spec [of _ l])

lemma written_lock:
  "write_active_lock K plan_id key trigger actor now files = (Inr (), files') \<Longrightarrow>
   \<exists>l. lk_run_id l = plan_id \<and> files' (active_lock_path K) = Some (co_lock_dump K l)"
  by (rule exI [of _ "\<lparr> lk_run_id = plan_id, lk_idempotency_key = Some key, lk_trigger = trigger, lk_actor = actor,
      lk_started_at = Some now, lk_current_step = None, lk_updated_at = None, lk_read_error = None \<rparr>"])
    (auto simp: write_active_lock_def write_recovery_record_def split: option.splits)

lemma uncached:
  "ignored \<noteq> None \<or> effective_active_run P ignored \<noteq> None \<Longrightarrow>
   readiness_of P ignored cache k = (build_snapshot P (effective_active_run P ignored), k)"
  by (auto simp: readiness_of_def Let_def)

lemma recovering_status:
  "build_snapshot P (Some run) = Inr snap \<Longrightarrow>
   or_status snap = RS_RECOVERING \<and> \<not> or_ready snap \<and> or_active_recovery_run_id snap = Some run"
  by (erule build_snapshotE) (simp add: readiness_status_def)

text \<open>
  Every entry of the cache expires within the lifetime after its snapshot was checked, give or take
  the delay between the check and the store.
\<close>

definition cache_recent :: "'p readiness_cache \<Rightarrow> int \<Rightarrow> 'p cache_client \<Rightarrow> bool" where
  "cache_recent R delay k \<longleftrightarrow> (\<forall>p expires snap. kc_entry k = Some (Some p, expires) \<longrightarrow> rk_validate R p = Some snap \<longrightarrow>
     expires \<le> or_checked_at snap + delay + rk_ttl_seconds R * 1000000)"

lemma cache_get_recent:
  "cache_recent R delay k \<Longrightarrow> cache_get R k = Some snap \<Longrightarrow>
   kc_now k < or_checked_at snap + delay + rk_ttl_seconds R * 1000000"
  by (fastforce simp: cache_recent_def cache_get_def live_payload_def split: option.splits if_splits)

lemma cache_set_recent:
  "cache_recent R delay k \<Longrightarrow> (\<And>s p. rk_dump R s = Some p \<Longrightarrow> rk_validate R p = Some s) \<Longrightarrow>
   kc_set_now k \<le> or_checked_at snap + delay \<Longrightarrow> cache_recent R delay (cache_set R snap k)"
  by (fastforce simp: cache_recent_def cache_set_def split: option.splits)

lemma built_checked_at: "build_snapshot P active = Inr snap \<Longrightarrow> or_checked_at snap = rp_finished P"
  by (auto simp: build_snapshot_def Let_def and_then_Inr)

lemma readiness_is_exact_aux:
  assumes "build_snapshot P active = Inr snap"
  shows "or_ready snap \<longleftrightarrow> active = None \<and> system_clear P"
proof (rule build_snapshotE [OF assms])
  fix database :: OperationalDatabaseSnapshot
    and vs mw location probe integrity health rw runtime rtw canary cw projection pw graph gw reconciliation
  let ?up = "ds_reachable database"
  assume db: "database_snapshot (rp_database P) = Inr database"
    and v: "vault_status_of P ?up = Inr (vs, mw)" and src: "source_of P vs = Inr (location, probe)"
    and rag: "guarded ?up storage_exns (rp_rag_health P) unknown_rag_health ''rag_health'' = Inr (health, rw)"
    and rt: "runtime_of P = Inr (runtime, rtw)"
    and c: "guarded ?up storage_exns
        (case rp_canary P of None \<Rightarrow> Inr unchecked_retrieval_canary_snapshot | Some C \<Rightarrow> canary_snapshot C)
        unchecked_retrieval_canary_snapshot ''retrieval_canary'' = Inr (canary, cw)"
    and p: "guarded ?up storage_exns
        (case rp_projection P of None \<Rightarrow> Inr unchecked_context_projection_integrity_snapshot | Some p \<Rightarrow> p)
        unchecked_context_projection_integrity_snapshot ''projection_integrity'' = Inr (projection, pw)"
    and g: "guarded ?up {PX_SQLAlchemyError, PX_OSError, PX_ValueError, PX_ObsidianDomainError}
        (and_then (rp_graph P) (\<lambda>g. Inr (graph_snapshot_from_status (Some g))))
        (graph_snapshot_from_status None) ''graph_projection'' = Inr (graph, gw)"
    and rc: "reconciliation_of P ?up = Inr reconciliation"
    and w: "or_warnings snap =
       readiness_warnings database (vault_of vs location probe) (rag_snapshot health) runtime canary projection reconciliation @
       extra_warnings [mw, pr_warning probe, rw, rtw, cw, pw, gw] @ warn_if (active \<noteq> None) ''recovery_in_progress''"
  have warnings: "or_warnings snap = [] \<longleftrightarrow> active = None \<and> database_warnings database = [] \<and>
      (vault_warnings (vault_of vs location probe) = [] \<and> mw = None \<and> pr_warning probe = None) \<and>
      (rag_health_warnings (rag_snapshot health) = [] \<and> rw = None) \<and> (runtime_warnings runtime = [] \<and> rtw = None) \<and>
      (canary_warnings canary = [] \<and> cw = None) \<and> (projection_warnings projection = [] \<and> pw = None) \<and>
      gw = None \<and> reconciliation_warnings reconciliation = []"
    unfolding w by (auto simp: readiness_warnings_Nil split: option.splits)
  show ?thesis
  proof (cases ?up)
    case False
    then have "\<not> system_clear P" "database_warnings database \<noteq> []"
      using database_result(1) [OF db] by (simp_all add: system_clear_def database_warnings_def)
    with warnings ready_iff_no_warnings [OF assms] show ?thesis by blast
  next
    case True
    have "or_warnings snap = [] \<longleftrightarrow> active = None \<and> system_clear P"
      unfolding warnings system_clear_def
        vault_part [OF v [unfolded True [THEN eqTrueI]] src] rag_part [OF rag [unfolded True [THEN eqTrueI]]] runtime_part [OF rt]
        canary_part [OF c [unfolded True [THEN eqTrueI]]] projection_part [OF p [unfolded True [THEN eqTrueI]]]
        graph_part [OF g [unfolded True [THEN eqTrueI]]] reconciliation_part [OF rc [unfolded True [THEN eqTrueI]]]
        database_warnings_clear [OF db] ..
    with ready_iff_no_warnings [OF assms] show ?thesis by blast
  qed
qed

section \<open>Properties\<close>


text \<open>
  C33: As long as the ports raise only the exceptions the service handles, a snapshot is always
  built; without a database it is not ready, it is blocked by the database and asks to inspect it.
\<close>

theorem snapshot_survives_failing_dependencies:
  assumes "ports_handled P"
  shows "\<exists>snap. build_snapshot P active = Inr snap \<and>
    (database_clear (rp_database P) \<or> \<not> or_ready snap \<and> ''database_unreachable'' \<in> set (or_blockers snap) \<and>
      ''inspect_database'' \<in> set (or_next_actions snap))"
proof -
  obtain snap where snap: "build_snapshot P active = Inr snap" using build_returns [OF assms] ..
  have "\<not> or_ready snap \<and> ''database_unreachable'' \<in> set (or_blockers snap) \<and> ''inspect_database'' \<in> set (or_next_actions snap)"
    if "\<not> database_clear (rp_database P)"
  proof (rule build_snapshotE [OF snap])
    fix database vs mw location probe health rw runtime rtw canary cw projection pw gw reconciliation
    assume db: "database_snapshot (rp_database P) = Inr database"
      and w: "or_warnings snap =
         readiness_warnings database (vault_of vs location probe) (rag_snapshot health) runtime canary projection reconciliation @
         extra_warnings [mw, pr_warning probe, rw, rtw, cw, pw, gw] @ warn_if (active \<noteq> None) ''recovery_in_progress''"
      and b: "or_blockers snap = readiness_blockers (or_warnings snap)"
      and a: "or_next_actions snap = readiness_next_actions (or_warnings snap) (case vs of None \<Rightarrow> [] | Some s \<Rightarrow> ov_index_errors s)"
    from that database_result(1) [OF db] have "''database_unreachable'' \<in> set (or_warnings snap)"
      by (simp add: w readiness_warnings_def database_warnings_def)
    with a b ready_iff_no_warnings [OF snap] show ?thesis
      by (auto simp: readiness_blockers_def blocking_codes_def readiness_next_actions_def)
  qed
  with snap show ?thesis by blast
qed


text \<open>
  C35: Whatever readiness answers, from the cache or fresh, was checked less than the cache lifetime
  (plus the delay of storing it) before the request, and storing keeps the cache that way.
\<close>

theorem readiness_age_is_bounded:
  assumes "cache_recent R delay k" and "0 \<le> delay" and "0 < rk_ttl_seconds R"
    and "\<And>s p. rk_dump R s = Some p \<Longrightarrow> rk_validate R p = Some s"
    and "kc_now k \<le> rp_finished P" and "kc_set_now k \<le> rp_finished P + delay"
    and "readiness_of P ignored (Some R) k = (Inr snap, k')"
  shows "kc_now k < or_checked_at snap + delay + rk_ttl_seconds R * 1000000 \<and> cache_recent R delay k'"
proof
  have how: "cache_get R k = Some snap \<and> k' = k \<or>
      build_snapshot P (effective_active_run P ignored) = Inr snap \<and> (k' = k \<or> k' = cache_set R snap k)"
    using assms(7) by (auto simp: readiness_of_def Let_def split: option.splits sum.splits if_splits)
  then show "kc_now k < or_checked_at snap + delay + rk_ttl_seconds R * 1000000"
    using cache_get_recent [OF assms(1)] built_checked_at [of P _ snap] assms(2,3,5) by fastforce
  from how show "cache_recent R delay k'"
    using cache_set_recent [OF assms(1,4)] built_checked_at [of P _ snap] assms(1,6) by metis
qed

text \<open>
  When a snapshot is ready, every capability it is split into is ready as well: core memory,
  semantic retrieval, the source, the metadata index and each retrieval dependency, and
  reconciliation where it is configured. The overall status is then READY, or READY_WITH_WARNINGS
  exactly when the scan of the canonical notes was not clean.
\<close>

theorem ready_snapshot_has_every_capability:
  assumes "build_snapshot P active = Inr snap" and "or_ready snap"
    and "\<forall>s. rp_status P = Inr s \<longrightarrow> 0 \<le> ov_stale_notes s \<and> 0 \<le> ov_error_notes s"
    and "0 \<le> rc_missing_temporal_states (or_reconciliation snap)" "0 \<le> rc_open_conflicts (or_reconciliation snap)"
      "0 \<le> rc_reviewing_conflicts (or_reconciliation snap)" "0 \<le> rc_failed_results (or_reconciliation snap)"
  shows "(\<forall>part \<in> {os_core_memory, os_semantic_retrieval, os_source, os_metadata_index, os_fts, os_vector, os_embedding}.
      oc_state (part (capability_snapshot snap)) = CAP_READY) \<and>
    oc_state (os_reconciliation (capability_snapshot snap)) =
      (if rc_configured (or_reconciliation snap) then CAP_READY else CAP_OPTIONAL) \<and>
    overall_readiness_status snap =
      (if di_status (or_data_integrity snap) = DI_HEALTHY then OVERALL_READY else OVERALL_READY_WITH_WARNINGS)"
proof (rule build_snapshotE [OF assms(1)])
  fix database :: OperationalDatabaseSnapshot
    and vs mw location probe integrity health rw runtime rtw canary cw projection pw graph gw reconciliation
  assume db: "database_snapshot (rp_database P) = Inr database"
    and v: "vault_status_of P (ds_reachable database) = Inr (vs, mw)" and src: "source_of P vs = Inr (location, probe)"
    and parts: "or_database snap = database" "or_vault snap = vault_of vs location probe"
      "or_rag snap = rag_snapshot health" "or_reconciliation snap = reconciliation"
    and w: "or_warnings snap =
       readiness_warnings database (vault_of vs location probe) (rag_snapshot health) runtime canary projection reconciliation @
       extra_warnings [mw, pr_warning probe, rw, rtw, cw, pw, gw] @ warn_if (active \<noteq> None) ''recovery_in_progress''"
    and st: "or_ready snap \<longleftrightarrow> or_status snap = RS_READY"
  have none: "or_warnings snap = []" using ready_iff_no_warnings [OF assms(1)] assms(2) by simp
  then have clear: "database_warnings database = []" "vault_warnings (vault_of vs location probe) = []"
    "rag_health_warnings (rag_snapshot health) = []" "reconciliation_warnings reconciliation = []" "mw = None"
    "pr_warning probe = None"
    using w by (auto simp: readiness_warnings_Nil split: option.splits)
  obtain s where s: "vs = Some s" "rp_status P = Inr s"
    using guarded_result [OF v [unfolded vault_status_of_def]] clear(5) by (auto simp: and_then_Inr)
  then obtain F where "probe_source_location_sync F = Inr probe"
    using src by (auto simp: source_of_def Let_def and_then_Inr)
  from probe_clear(2) [OF this clear(6)] have probe: "pr_exists probe" "pr_root_exists probe" "pr_readable probe" by auto
  have vault: "vs_stale_notes (or_vault snap) = Some 0" "vs_error_notes (or_vault snap) = Some 0"
    "vs_exists (or_vault snap)" "vs_alexandria_root_exists (or_vault snap)" "vs_readable (or_vault snap)"
    "vs_indexed_notes (or_vault snap) = Some (ov_indexed_notes s)"
    using clear(2) s assms(3) probe by (auto simp: parts vault_of_def vault_snapshot_def vault_warnings_def positive_def)
  have rag: "rag_fts (or_rag snap) = RAG_HEALTHY" "rag_vector (or_rag snap) = RAG_HEALTHY"
    "rag_embedding (or_rag snap) = RAG_HEALTHY" "rag_effective_strategy (or_rag snap) = RAG_HYBRID" "rag_warnings (or_rag snap) = []"
    using clear(3) unfolding rag_warnings_clear by (simp_all add: parts rag_clear_def rag_snapshot_def)
  have rec: "rc_configured (or_reconciliation snap) \<Longrightarrow> rc_reachable (or_reconciliation snap)"
    "rc_missing_temporal_states (or_reconciliation snap) = 0" "rc_open_conflicts (or_reconciliation snap) = 0"
    "rc_reviewing_conflicts (or_reconciliation snap) = 0" "rc_failed_results (or_reconciliation snap) = 0"
    using clear(4) assms(4-) by (auto simp: parts reconciliation_warnings_def)
  have core: "core_blockers snap = []" "core_warnings snap = []"
    using vault rag rec clear(1)
    by (auto simp: core_blockers_def core_warnings_def truthy_def index_unknown_def Let_def parts(1))
  have sem: "semantic_blockers snap = []" using rag by (simp add: semantic_blockers_def Let_def)
  show ?thesis
    using vault rag rec core sem none st assms(2)
    by (auto simp: capability_snapshot_def core_capability_def semantic_capability_def source_capability_def
        metadata_index_capability_def rag_capability_def reconciliation_capability_def capability_def with_revisions_def
        index_unknown_def positive_def Let_def overall_readiness_status_def)
qed

section \<open>A concrete system\<close>

text \<open>A system in order, observed by a service with every optional dependency, and its recovery directory.\<close>

type_synonym recovery_file = "RecoveryActiveLockPayload + RecoveryRunManifestPayload"

definition plain_codec :: "recovery_file codec" where
  "plain_codec = \<lparr> co_lock_dump = Inl, co_lock_load = (\<lambda>c. case c of Inl l \<Rightarrow> Some l | Inr _ \<Rightarrow> None),
     co_run_dump = Inr, co_run_load = (\<lambda>c. case c of Inl _ \<Rightarrow> None | Inr r \<Rightarrow> Some r),
     co_write_fault = (\<lambda>_ _. None), co_recovery_dir = ''r'' \<rparr>"

definition plain_files :: "recovery_file fs \<Rightarrow> recovery_file recovery_files" where
  "plain_files fs = \<lparr> hf_codec = plain_codec, hf_files = fs, hf_manifests = [],
     hf_load = (\<lambda>c. case c of Inl l \<Rightarrow> Some [(''run_id'', JStr (lk_run_id l))] | Inr _ \<Rightarrow> None), hf_str = (\<lambda>_. []) \<rparr>"

definition plain_pack :: "RagStrategy \<Rightarrow> ContextPack" where
  "plain_pack strategy = \<lparr> cp_query = ''q'', cp_strategy = strategy, cp_effective_strategy = strategy, cp_warnings = [],
     cp_recall_scopes = [], cp_matches = [], cp_context_pack = ''p'' \<rparr>"

definition plain_source :: source_files where
  "plain_source = \<lparr> sf_resolve = Inr (), sf_vault_exists = Inr True, sf_root_exists = Inr True, sf_scandir = Inr () \<rparr>"

definition plain_status :: ObsidianVaultStatus where
  "plain_status = \<lparr> ov_vault_path = ''/v'', ov_alexandria_root = ''A'', ov_vault_exists = True, ov_alexandria_root_exists = True,
     ov_indexed_notes = 2, ov_stale_notes = 0, ov_error_notes = 0, ov_index_errors = [] \<rparr>"

definition plain_health :: RagDependencyHealth where
  "plain_health = \<lparr> rh_fts = RAG_HEALTHY, rh_vector = RAG_HEALTHY, rh_embedding = RAG_HEALTHY, rh_default_strategy = RAG_HYBRID,
     rh_model_name = ''m'', rh_dimensions = 3, rh_fingerprint = None, rh_warnings = [], rh_source_statuses = [] \<rparr>"

definition plain_config :: runtime_config where
  "plain_config = \<lparr> cf_app_env = ''production'', cf_runtime_revision = Some ''a1'', cf_runtime_expected_revision = Some ''a1'',
     cf_runtime_build_timestamp = None \<rparr>"

definition plain_native :: native_module where
  "plain_native = \<lparr> nm_load = Inr (), nm_git_revision = Inr ''a1'', nm_package_version = Inr ''1'', nm_build_profile = Inr ''release'',
     nm_contract_version = Inr 1, nm_schema_version = Inr 1 \<rparr>"

definition plain_report :: ObsidianGraphProjectionStatusReport where
  "plain_report = \<lparr> gr_status = ''ready'', gr_enabled = True, gr_node_count = 2, gr_edge_count = 1, gr_run_id = None,
     gr_projection_version = Some 1, gr_last_run_issue_total = 0, gr_errors = [] \<rparr>"

definition plain_ports :: "(port_exn + unit) \<Rightarrow> recovery_file fs \<Rightarrow> recovery_file readiness_ports" where
  "plain_ports connection fs =
     \<lparr> rp_database = \<lparr> db_select_1 = connection, db_to_regclass = Inr (Some ''alembic_version''), db_version_num = Inr (Some ''7'') \<rparr>,
       rp_status = Inr plain_status,
       rp_vault_location = Inr \<lparr> vl_vault_path = ''/v'', vl_alexandria_root = ''A'' \<rparr>, rp_source = (\<lambda>_. plain_source),
       rp_data_integrity = None, rp_rag_health = Inr plain_health, rp_runtime = Some (plain_config, plain_native),
       rp_canary = Some \<lparr> cy_query = ''q'', cy_limit = 3, cy_readiness_canary = (\<lambda>_ strategy _. Inr (plain_pack strategy)) \<rparr>,
       rp_projection = None, rp_graph = Inr plain_report, rp_reconciliation = None, rp_receipt = Inl PX_OSError,
       rp_fromisoformat = (\<lambda>_. None), rp_recovery = plain_files fs, rp_started = 0, rp_finished = 1000000 \<rparr>"

lemmas plain_defs = plain_codec_def plain_files_def plain_pack_def plain_source_def plain_status_def plain_health_def
  plain_config_def plain_native_def plain_report_def plain_ports_def

lemma plain_handled: "connection \<in> {Inr (), Inl PX_OSError} \<Longrightarrow> ports_handled (plain_ports connection fs)"
  by (auto simp: ports_handled_def plain_defs source_handled_def schema_version_def runtime_provenance_snapshot_def
      read_native_def assign_def Let_def)

lemma plain_revision: "revision (Some ''a1'') = Some ''a1''"
  by code_simp

lemma plain_clear: "system_clear (plain_ports (Inr ()) fs)"
proof -
  have "strip ''p'' \<noteq> []" by code_simp
  then show ?thesis
    by (simp add: system_clear_def plain_defs database_clear_def schema_version_def status_clear_def source_clear_def
        rag_clear_def build_clear_def read_native_def assign_def lane_clear_def plain_revision Let_def)
qed

lemma plain_built:
  obtains snap where "build_snapshot (plain_ports (Inr ()) fs) active = Inr snap"
    "or_reconciliation snap = reconciliation_snapshot None False True"
proof -
  obtain snap where snap: "build_snapshot (plain_ports (Inr ()) fs) active = Inr snap"
    using build_returns [OF plain_handled] by blast
  then have "or_reconciliation snap = reconciliation_snapshot None False True"
    by (rule build_snapshotE) (simp add: plain_ports_def reconciliation_of_def)
  with snap show thesis by (rule that)
qed


text \<open>The same system with its database down.\<close>

theorem snapshot_survives_failing_dependencies_witness:
  "\<exists>snap. build_snapshot (plain_ports (Inl PX_OSError) (\<lambda>_. None)) None = Inr snap \<and> \<not> or_ready snap \<and>
     ''database_unreachable'' \<in> set (or_blockers snap) \<and> ''inspect_database'' \<in> set (or_next_actions snap)"
proof -
  have "\<not> database_clear (rp_database (plain_ports (Inl PX_OSError) (\<lambda>_. None)))"
    by (simp add: plain_ports_def database_clear_def)
  with snapshot_survives_failing_dependencies [of "plain_ports (Inl PX_OSError) (\<lambda>_. None)" None] plain_handled
  show ?thesis by blast
qed

text \<open>Its recovery run writes the active record.\<close>

definition plain_lock :: RecoveryActiveLockPayload where
  "plain_lock = \<lparr> lk_run_id = ''run'', lk_idempotency_key = Some ''k'', lk_trigger = ''manual'', lk_actor = ''op'',
     lk_started_at = Some 0, lk_current_step = None, lk_updated_at = None, lk_read_error = None \<rparr>"

definition plain_client :: "readiness_snapshot cache_client" where
  "plain_client = \<lparr> kc_get_raises = False, kc_set_raises = False, kc_now = 0, kc_set_now = 1000001, kc_entry = None \<rparr>"


theorem readiness_age_is_bounded_witness:
  "\<exists>snap k'. readiness_of (plain_ports (Inr ()) (\<lambda>_. None)) None
      (Some \<lparr> rk_ttl_seconds = 5, rk_dump = Some, rk_validate = Some \<rparr>) plain_client = (Inr snap, k') \<and>
     0 < or_checked_at snap + 1 + 5000000 \<and>
     cache_recent \<lparr> rk_ttl_seconds = 5, rk_dump = Some, rk_validate = Some \<rparr> 1 k'"
proof -
  let ?P = "plain_ports (Inr ()) (\<lambda>_. None)"
  let ?R = "\<lparr> rk_ttl_seconds = 5, rk_dump = Some, rk_validate = Some \<rparr> :: readiness_snapshot readiness_cache"
  obtain snap where snap: "build_snapshot ?P (effective_active_run ?P None) = Inr snap" by (rule plain_built)
  then have "\<exists>snap k'. readiness_of ?P None (Some ?R) plain_client = (Inr snap, k')"
    by (auto simp: readiness_of_def Let_def split: option.split)
  then obtain s k' where r: "readiness_of ?P None (Some ?R) plain_client = (Inr s, k')" by blast
  have "kc_now plain_client < or_checked_at s + 1 + rk_ttl_seconds ?R * 1000000 \<and> cache_recent ?R 1 k'"
    by (rule readiness_age_is_bounded [OF _ _ _ _ _ _ r]) (simp_all add: cache_recent_def plain_client_def plain_ports_def)
  with r show ?thesis by (auto simp: plain_client_def)
qed

theorem ready_snapshot_has_every_capability_witness:
  "\<exists>snap. build_snapshot (plain_ports (Inr ()) (\<lambda>_. None)) None = Inr snap \<and>
     oc_state (os_core_memory (capability_snapshot snap)) = CAP_READY \<and>
     oc_state (os_reconciliation (capability_snapshot snap)) = CAP_OPTIONAL"
proof -
  obtain snap where snap: "build_snapshot (plain_ports (Inr ()) (\<lambda>_. None)) None = Inr snap"
    and rec: "or_reconciliation snap = reconciliation_snapshot None False True"
    by (rule plain_built)
  have "or_ready snap" using readiness_is_exact_aux [OF snap] plain_clear by blast
  from ready_snapshot_has_every_capability [OF snap this] rec snap show ?thesis
    by (simp add: reconciliation_snapshot_def plain_ports_def plain_status_def)
qed

section \<open>Provenance normalisation\<close>

text \<open>A revision keeps its case: two spellings of one commit id are two revisions.\<close>

lemma revision_keeps_case: "revision (Some ''A1'') = Some ''A1'' \<and> revision (Some ''a1'') = Some ''a1''"
  by code_simp

text \<open>Two absent revisions count as aligned.\<close>

lemma absent_revisions_are_aligned: "native_aligned None None"
  by (simp add: native_aligned_def)

end
