(* ===== verification/Candidate_Service.thy ===== *)
theory Candidate_Service
  imports Reconciliation_Model "HOL-Library.List_Lexorder" "HOL-Library.Char_ord" "HOL-Library.Product_Lexorder"
begin

text \<open>
  Normalising caller input into a memory candidate (\<open>memory_candidate_service.py\<close>) and the scope
  identity it must carry (\<open>context_recall_contracts.py\<close>). The body hash, the id generator and the
  clock are arguments. Timestamps are instants: the interface only accepts aware ones.
\<close>

section \<open>Scope identity\<close>

record ScopeIdentity =
  si_include_scopes :: "ContextScope list"
  si_project :: "str option"
  si_workspace_id :: "str option"
  si_agent_id :: "str option"
  si_user_id :: "str option"
  si_session_id :: "str option"

definition optional_text :: "str option \<Rightarrow> str option" where
  "optional_text value = (case value of None \<Rightarrow> None | Some v \<Rightarrow> if strip v = [] then None else Some (strip v))"

definition missing_codes ::
  "ContextScope list \<Rightarrow> str option \<Rightarrow> str option \<Rightarrow> str option \<Rightarrow> str option \<Rightarrow> str list" where
  "missing_codes scopes project agent_id session_id user_id =
     concat (map (\<lambda>(scope, identity, error_code).
         if scope \<in> set scopes \<and> optional_text identity = None then [error_code] else [])
       [(PROJECT, project, ''MISSING_PROJECT''), (AGENT, agent_id, ''MISSING_AGENT_ID''),
        (SESSION, session_id, ''MISSING_SESSION_ID''), (USER, user_id, ''MISSING_USER_ID'')])"

definition validated_scope_identity ::
  "ContextScope list \<Rightarrow> str option \<Rightarrow> str option \<Rightarrow> str option \<Rightarrow> str option \<Rightarrow> str option \<Rightarrow> str + ScopeIdentity" where
  "validated_scope_identity scopes project workspace_id agent_id user_id session_id =
     (if scopes = [] then Inl ''include_scopes must not be empty''
      else let missing = missing_codes scopes project agent_id session_id user_id in
        if missing \<noteq> [] then Inl (join '', '' missing)
        else Inr \<lparr> si_include_scopes = scopes, si_project = optional_text project,
               si_workspace_id = optional_text workspace_id, si_agent_id = optional_text agent_id,
               si_user_id = optional_text user_id, si_session_id = optional_text session_id \<rparr>)"

definition sql_parameters :: "ScopeIdentity \<Rightarrow> (str \<times> str) list" where
  "sql_parameters i =
     concat (map (\<lambda>(name, value). case value of None \<Rightarrow> [] | Some v \<Rightarrow> [(name, v)])
       [(''workspace_id'', si_workspace_id i),
        (''project'', if PROJECT \<in> set (si_include_scopes i) then si_project i else None),
        (''agent_id'', if AGENT \<in> set (si_include_scopes i) then si_agent_id i else None),
        (''user_id'', if USER \<in> set (si_include_scopes i) then si_user_id i else None),
        (''session_id'', if SESSION \<in> set (si_include_scopes i) then si_session_id i else None)])"

section \<open>Candidates\<close>

record MemoryCandidateCreate =
  cd_title :: str
  cd_body :: str
  cd_scope :: ContextScope
  cd_project :: "str option"
  cd_workspace_id :: "str option"
  cd_agent_id :: "str option"
  cd_user_id :: "str option"
  cd_session_id :: "str option"
  cd_canonical_claims :: "CanonicalClaim list"
  cd_tags :: "str list"
  cd_source_refs :: "MemorySourceReference list"
  cd_recorded_at :: "instant option"
  cd_observed_at :: "instant option"
  cd_valid_from :: "instant option"
  cd_valid_to :: "instant option"
  cd_requested_lifecycle :: str
  cd_candidate_id :: "str option"
  cd_source_identity :: "str option"
  cd_graph_neighbors :: "str list"
  cd_lineage_ancestors :: "str list"

definition qualifier_key :: "CanonicalClaimQualifier \<Rightarrow> str \<times> str" where
  "qualifier_key q = (q_name q, q_value q)"

definition normalized_qualifiers :: "CanonicalClaimQualifier list \<Rightarrow> CanonicalClaimQualifier list" where
  "normalized_qualifiers qs =
     sort_key qualifier_key (remdups (map (\<lambda>q. \<lparr> q_name = strip (q_name q), q_value = strip (q_value q) \<rparr>)
       (filter (\<lambda>q. strip (q_name q) \<noteq> [] \<and> strip (q_value q) \<noteq> []) qs)))"

definition normalized_claim :: "MemoryCandidateCreate \<Rightarrow> CanonicalClaim \<Rightarrow> py_exn + CanonicalClaim" where
  "normalized_claim payload claim =
     (if strip (cc_subject claim) = [] \<or> strip (cc_predicate claim) = [] \<or> strip (cc_object claim) = []
      then Inl (MemoryContextValidationError ''canonical claim subject, predicate, and object are required'')
      else Inr (claim\<lparr>cc_subject := strip (cc_subject claim), cc_predicate := strip (cc_predicate claim),
                      cc_object := strip (cc_object claim), cc_qualifiers := normalized_qualifiers (cc_qualifiers claim),
                      cc_scope := cd_scope payload, cc_project := optional_text (cd_project payload),
                      cc_valid_from := or_else (cc_valid_from claim) (cd_valid_from payload),
                      cc_valid_to := or_else (cc_valid_to claim) (cd_valid_to payload)\<rparr>))"

definition reference_key :: "MemorySourceReference \<Rightarrow> str \<times> str \<times> str" where
  "reference_key r = (sr_source_type r, sr_source_id r, sr_detail_path r)"

definition stripped_reference :: "MemorySourceReference \<Rightarrow> MemorySourceReference" where
  "stripped_reference r = r\<lparr>sr_source_type := strip (sr_source_type r), sr_source_id := strip (sr_source_id r),
     sr_title := strip (sr_title r), sr_detail_path := strip (sr_detail_path r)\<rparr>"

definition reference_complete :: "MemorySourceReference \<Rightarrow> bool" where
  "reference_complete r \<longleftrightarrow> sr_source_type r \<noteq> [] \<and> sr_source_id r \<noteq> [] \<and> sr_detail_path r \<noteq> [] \<and> sr_title r \<noteq> []"

fun source_refs_from ::
  "(str \<times> str \<times> str) set \<Rightarrow> MemorySourceReference list \<Rightarrow> py_exn + MemorySourceReference list" where
  "source_refs_from seen [] = Inr []"
| "source_refs_from seen (value # values) =
     (let r = stripped_reference value in
      if \<not> reference_complete r
      then Inl (MemoryContextValidationError ''source reference type, id, title, and detail path are required'')
      else if reference_key r \<in> seen then source_refs_from seen values
      else and_then (source_refs_from (insert (reference_key r) seen) values) (\<lambda>rest. Inr (r # rest)))"

definition normalized_source_refs :: "MemorySourceReference list \<Rightarrow> py_exn + MemorySourceReference list" where
  "normalized_source_refs values = source_refs_from {} values"

definition normalized_tags :: "str list \<Rightarrow> str list" where
  "normalized_tags values = fromkeys (map strip (filter (\<lambda>t. strip t \<noteq> []) values))"

definition normalized_identity_hints :: "str list \<Rightarrow> str list" where
  "normalized_identity_hints values = sort (remdups (map strip (filter (\<lambda>v. strip v \<noteq> []) values)))"

definition lifecycle_text :: "str \<Rightarrow> str" where
  "lifecycle_text value = (if lower (strip value) = [] then ''active'' else lower (strip value))"

definition interval_ordered :: "instant option \<Rightarrow> instant option \<Rightarrow> bool" where
  "interval_ordered valid_from valid_to = (case (valid_from, valid_to) of (Some a, Some b) \<Rightarrow> a \<le> b | _ \<Rightarrow> True)"

definition create_candidate ::
  "(str \<Rightarrow> str) \<Rightarrow> str \<Rightarrow> instant \<Rightarrow> MemoryCandidateCreate \<Rightarrow> py_exn + MemoryCandidate" where
  "create_candidate hash_text new_uuid now payload =
     (let title = strip (cd_title payload); body = strip (cd_body payload) in
      if title = [] then Inl (MemoryContextValidationError ''candidate title is required'')
      else if body = [] then Inl (MemoryContextValidationError ''candidate body is required'')
      else if \<not> interval_ordered (cd_valid_from payload) (cd_valid_to payload)
      then Inl (MemoryContextValidationError ''candidate valid_to must not be before valid_from'')
      else case validated_scope_identity [cd_scope payload] (cd_project payload) (cd_workspace_id payload)
                  (cd_agent_id payload) (cd_user_id payload) (cd_session_id payload) of
        Inl message \<Rightarrow> Inl (MemoryContextValidationError message)
      | Inr _ \<Rightarrow>
          and_then (traverse (normalized_claim payload) (cd_canonical_claims payload)) (\<lambda>claims.
          and_then (normalized_source_refs (cd_source_refs payload)) (\<lambda>source_refs.
          Inr \<lparr> mc_candidate_id = (case cd_candidate_id payload of Some (c # i) \<Rightarrow> c # i | _ \<Rightarrow> new_uuid),
                mc_title = title, mc_body = body, mc_canonical_claims = claims, mc_scope = cd_scope payload,
                mc_project = optional_text (cd_project payload), mc_tags = normalized_tags (cd_tags payload),
                mc_source_refs = source_refs,
                mc_recorded_at = (case cd_recorded_at payload of Some t \<Rightarrow> t | None \<Rightarrow> now),
                mc_observed_at = cd_observed_at payload, mc_valid_from = cd_valid_from payload,
                mc_valid_to = cd_valid_to payload,
                mc_requested_lifecycle = lifecycle_text (cd_requested_lifecycle payload),
                mc_content_hash = hash_text body, mc_workspace_id = optional_text (cd_workspace_id payload),
                mc_agent_id = optional_text (cd_agent_id payload), mc_user_id = optional_text (cd_user_id payload),
                mc_session_id = optional_text (cd_session_id payload),
                mc_source_identity = optional_text (cd_source_identity payload),
                mc_graph_neighbors = normalized_identity_hints (cd_graph_neighbors payload),
                mc_lineage_ancestors = normalized_identity_hints (cd_lineage_ancestors payload) \<rparr>)))"

section \<open>Well-formed candidates\<close>

text \<open>A text that normalisation leaves alone: not blank and without surrounding space.\<close>

definition trimmed :: "str \<Rightarrow> bool" where
  "trimmed s \<longleftrightarrow> s \<noteq> [] \<and> strip s = s"

definition claim_wf :: "MemoryCandidate \<Rightarrow> CanonicalClaim \<Rightarrow> bool" where
  "claim_wf c claim \<longleftrightarrow> trimmed (cc_subject claim) \<and> trimmed (cc_predicate claim) \<and> trimmed (cc_object claim) \<and>
     list_all (\<lambda>q. trimmed (q_name q) \<and> trimmed (q_value q)) (cc_qualifiers claim) \<and>
     distinct (cc_qualifiers claim) \<and> sorted (map qualifier_key (cc_qualifiers claim)) \<and>
     cc_scope claim = mc_scope c \<and> cc_project claim = mc_project c \<and>
     (cc_valid_from claim = None \<longrightarrow> mc_valid_from c = None) \<and> (cc_valid_to claim = None \<longrightarrow> mc_valid_to c = None)"

definition identity_wf :: "MemoryCandidate \<Rightarrow> bool" where
  "identity_wf c \<longleftrightarrow> list_all (\<lambda>v. case v of None \<Rightarrow> True | Some s \<Rightarrow> trimmed s)
       [mc_project c, mc_workspace_id c, mc_agent_id c, mc_user_id c, mc_session_id c, mc_source_identity c] \<and>
     (case mc_scope c of GLOBAL \<Rightarrow> True | PROJECT \<Rightarrow> mc_project c \<noteq> None | AGENT \<Rightarrow> mc_agent_id c \<noteq> None
      | SESSION \<Rightarrow> mc_session_id c \<noteq> None | USER \<Rightarrow> mc_user_id c \<noteq> None)"

definition hints_wf :: "str list \<Rightarrow> bool" where
  "hints_wf hints \<longleftrightarrow> list_all trimmed hints \<and> distinct hints \<and> sorted hints"

definition references_wf :: "MemorySourceReference list \<Rightarrow> bool" where
  "references_wf refs \<longleftrightarrow> list_all (\<lambda>r. reference_complete r \<and> stripped_reference r = r) refs \<and>
     distinct (map reference_key refs)"

definition candidate_wf :: "(str \<Rightarrow> str) \<Rightarrow> MemoryCandidate \<Rightarrow> bool" where
  "candidate_wf hash_text c \<longleftrightarrow> trimmed (mc_title c) \<and> trimmed (mc_body c) \<and> mc_candidate_id c \<noteq> [] \<and>
     list_all (claim_wf c) (mc_canonical_claims c) \<and> identity_wf c \<and>
     list_all trimmed (mc_tags c) \<and> distinct (mc_tags c) \<and> references_wf (mc_source_refs c) \<and>
     interval_ordered (mc_valid_from c) (mc_valid_to c) \<and>
     trimmed (mc_requested_lifecycle c) \<and> lower (mc_requested_lifecycle c) = mc_requested_lifecycle c \<and>
     mc_content_hash c = hash_text (mc_body c) \<and> hints_wf (mc_graph_neighbors c) \<and> hints_wf (mc_lineage_ancestors c)"

text \<open>Submitting a candidate again: its fields as caller input.\<close>

definition resubmission :: "MemoryCandidate \<Rightarrow> MemoryCandidateCreate" where
  "resubmission c =
     \<lparr> cd_title = mc_title c, cd_body = mc_body c, cd_scope = mc_scope c, cd_project = mc_project c,
       cd_workspace_id = mc_workspace_id c, cd_agent_id = mc_agent_id c, cd_user_id = mc_user_id c,
       cd_session_id = mc_session_id c, cd_canonical_claims = mc_canonical_claims c, cd_tags = mc_tags c,
       cd_source_refs = mc_source_refs c, cd_recorded_at = Some (mc_recorded_at c),
       cd_observed_at = mc_observed_at c, cd_valid_from = mc_valid_from c, cd_valid_to = mc_valid_to c,
       cd_requested_lifecycle = mc_requested_lifecycle c, cd_candidate_id = Some (mc_candidate_id c),
       cd_source_identity = mc_source_identity c, cd_graph_neighbors = mc_graph_neighbors c,
       cd_lineage_ancestors = mc_lineage_ancestors c \<rparr>"

section \<open>Normal forms\<close>

lemma trimmed_strip: "strip s \<noteq> [] \<Longrightarrow> trimmed (strip s)"
  by (simp add: trimmed_def)

lemma trimmed_facts: "trimmed s \<Longrightarrow> strip s = s \<and> s \<noteq> []"
  by (simp add: trimmed_def)

lemma optional_text_trimmed: "optional_text v = Some s \<Longrightarrow> trimmed s"
  by (auto simp: optional_text_def trimmed_def split: option.splits if_splits)

lemma optional_text_id: "(\<And>s. v = Some s \<Longrightarrow> trimmed s) \<Longrightarrow> optional_text v = v"
  by (auto simp: optional_text_def trimmed_def split: option.splits)

lemma lower_char_space: "is_space (lower_char c) = is_space c"
proof -
  have "upper_latin1 c \<Longrightarrow> of_char c + 32 < (256::nat)" by (auto simp: upper_latin1_def Let_def)
  then show ?thesis by (auto simp: lower_char_def is_space_def upper_latin1_def Let_def)
qed

lemma lower_char_lower_char: "lower_char (lower_char c) = lower_char c"
proof -
  have "upper_latin1 c \<Longrightarrow> of_char c + 32 < (256::nat)" by (auto simp: upper_latin1_def Let_def)
  then show ?thesis by (auto simp: lower_char_def upper_latin1_def Let_def)
qed

lemma lower_lower [simp]: "lower (lower s) = lower s"
  by (simp add: lower_def lower_char_lower_char)

lemma lower_Nil_iff [simp]: "lower s = [] \<longleftrightarrow> s = []"
  by (simp add: lower_def)

lemma strip_lower_strip [simp]: "strip (lower (strip s)) = lower (strip s)"
  using strip_shape [of s]
  by (intro strip_id) (auto simp: lower_def hd_map last_map lower_char_space)

lemma lifecycle_text_wf: "trimmed (lifecycle_text v) \<and> lower (lifecycle_text v) = lifecycle_text v"
proof -
  have "trimmed ''active'' \<and> lower ''active'' = ''active''" by code_simp
  then show ?thesis by (simp add: lifecycle_text_def trimmed_def)
qed

lemma lifecycle_text_id: "trimmed v \<Longrightarrow> lower v = v \<Longrightarrow> lifecycle_text v = v"
  by (simp add: lifecycle_text_def trimmed_def)

lemma qualifiers_wf:
  "list_all (\<lambda>q. trimmed (q_name q) \<and> trimmed (q_value q)) (normalized_qualifiers qs) \<and>
   distinct (normalized_qualifiers qs) \<and> sorted (map qualifier_key (normalized_qualifiers qs))"
  by (auto simp: normalized_qualifiers_def list_all_iff trimmed_def)

lemma map_strip_id: "(\<And>x. x \<in> set xs \<Longrightarrow> f x = x) \<Longrightarrow> (\<And>x. x \<in> set xs \<Longrightarrow> P x) \<Longrightarrow> map f (filter P xs) = xs"
  by (simp add: map_idI)

lemma normalized_qualifiers_id:
  assumes "list_all (\<lambda>q. trimmed (q_name q) \<and> trimmed (q_value q)) qs" "distinct qs" "sorted (map qualifier_key qs)"
  shows "normalized_qualifiers qs = qs"
proof -
  have "map (\<lambda>q. \<lparr> q_name = strip (q_name q), q_value = strip (q_value q) \<rparr>)
       (filter (\<lambda>q. strip (q_name q) \<noteq> [] \<and> strip (q_value q) \<noteq> []) qs) = qs"
    using assms(1) by (intro map_strip_id) (auto simp: list_all_iff trimmed_def)
  with assms show ?thesis by (simp add: normalized_qualifiers_def sort_key_id_if_sorted distinct_remdups_id)
qed

lemma normalized_tags_wf: "list_all trimmed (normalized_tags ts) \<and> distinct (normalized_tags ts)"
  by (auto simp: normalized_tags_def list_all_iff trimmed_def)

lemma normalized_tags_id:
  assumes "list_all trimmed ts" "distinct ts"
  shows "normalized_tags ts = ts"
proof -
  have "map strip (filter (\<lambda>t. strip t \<noteq> []) ts) = ts"
    using assms(1) by (intro map_strip_id) (auto simp: list_all_iff trimmed_def)
  with assms(2) show ?thesis by (simp add: normalized_tags_def fromkeys_distinct_id)
qed

lemma hints_wf_normalized: "hints_wf (normalized_identity_hints vs)"
  by (auto simp: hints_wf_def normalized_identity_hints_def list_all_iff trimmed_def)

lemma normalized_hints_id:
  assumes "hints_wf vs"
  shows "normalized_identity_hints vs = vs"
proof -
  have "map strip (filter (\<lambda>v. strip v \<noteq> []) vs) = vs"
    using assms by (intro map_strip_id) (auto simp: hints_wf_def list_all_iff trimmed_def)
  with assms show ?thesis by (simp add: normalized_identity_hints_def hints_wf_def sorted_sort_id distinct_remdups_id)
qed

lemma stripped_reference_idem [simp]: "stripped_reference (stripped_reference r) = stripped_reference r"
  by (simp add: stripped_reference_def)

lemma source_refs_from_wf:
  "source_refs_from seen vs = Inr rs \<Longrightarrow>
   list_all (\<lambda>r. reference_complete r \<and> stripped_reference r = r) rs \<and> distinct (map reference_key rs) \<and>
   reference_key ` set rs \<inter> seen = {}"
proof (induction seen vs arbitrary: rs rule: source_refs_from.induct)
  case (2 seen v vs)
  from 2(3) have c: "reference_complete (stripped_reference v)" by (auto simp: Let_def split: if_splits)
  show ?case
  proof (cases "reference_key (stripped_reference v) \<in> seen")
    case True
    with 2 c show ?thesis by (simp add: Let_def)
  next
    case False
    with 2(3) c obtain rest
      where rest: "source_refs_from (insert (reference_key (stripped_reference v)) seen) vs = Inr rest"
        and rs: "rs = stripped_reference v # rest"
      by (auto simp: Let_def and_then_Inr)
    from 2(2) [OF refl _ False rest] c False rs show ?thesis by auto
  qed
qed simp

lemma source_refs_from_id:
  "list_all (\<lambda>r. reference_complete r \<and> stripped_reference r = r) rs \<Longrightarrow> distinct (map reference_key rs) \<Longrightarrow>
   reference_key ` set rs \<inter> seen = {} \<Longrightarrow> source_refs_from seen rs = Inr rs"
  by (induction rs arbitrary: seen) (auto simp: Let_def)

lemma missing_codes_Nil:
  "missing_codes [s] project agent session user = [] \<longleftrightarrow>
     (case s of GLOBAL \<Rightarrow> True | PROJECT \<Rightarrow> optional_text project \<noteq> None | AGENT \<Rightarrow> optional_text agent \<noteq> None
      | SESSION \<Rightarrow> optional_text session \<noteq> None | USER \<Rightarrow> optional_text user \<noteq> None)"
  by (cases s) (auto simp: missing_codes_def)

section \<open>Creating candidates\<close>

text \<open>What a caller must supply; everything else is normalised.\<close>

definition acceptable :: "MemoryCandidateCreate \<Rightarrow> bool" where
  "acceptable p \<longleftrightarrow> strip (cd_title p) \<noteq> [] \<and> strip (cd_body p) \<noteq> [] \<and>
     interval_ordered (cd_valid_from p) (cd_valid_to p) \<and>
     (case cd_scope p of GLOBAL \<Rightarrow> True | PROJECT \<Rightarrow> optional_text (cd_project p) \<noteq> None
      | AGENT \<Rightarrow> optional_text (cd_agent_id p) \<noteq> None | SESSION \<Rightarrow> optional_text (cd_session_id p) \<noteq> None
      | USER \<Rightarrow> optional_text (cd_user_id p) \<noteq> None) \<and>
     list_all (\<lambda>claim. strip (cc_subject claim) \<noteq> [] \<and> strip (cc_predicate claim) \<noteq> [] \<and> strip (cc_object claim) \<noteq> [])
       (cd_canonical_claims p) \<and>
     list_all (\<lambda>r. reference_complete (stripped_reference r)) (cd_source_refs p)"

lemma traverse_claims:
  "(\<exists>cs. traverse (normalized_claim p) claims = Inr cs) \<longleftrightarrow>
     list_all (\<lambda>claim. strip (cc_subject claim) \<noteq> [] \<and> strip (cc_predicate claim) \<noteq> [] \<and> strip (cc_object claim) \<noteq> []) claims"
  by (induction claims) (auto simp: normalized_claim_def and_then_Inr)

lemma source_refs_accepted:
  "(\<exists>rs. source_refs_from seen vs = Inr rs) \<longleftrightarrow> list_all (\<lambda>r. reference_complete (stripped_reference r)) vs"
  by (induction seen vs rule: source_refs_from.induct) (auto simp: Let_def and_then_Inr)

lemma create_candidate_Inr:
  "create_candidate h u n p = Inr c \<Longrightarrow>
   strip (cd_title p) \<noteq> [] \<and> strip (cd_body p) \<noteq> [] \<and> interval_ordered (cd_valid_from p) (cd_valid_to p) \<and>
   missing_codes [cd_scope p] (cd_project p) (cd_agent_id p) (cd_session_id p) (cd_user_id p) = [] \<and>
   traverse (normalized_claim p) (cd_canonical_claims p) = Inr (mc_canonical_claims c) \<and>
   normalized_source_refs (cd_source_refs p) = Inr (mc_source_refs c)"
  by (auto simp: create_candidate_def Let_def and_then_Inr validated_scope_identity_def split: if_splits)

lemma create_candidate_fields:
  assumes "create_candidate h u n p = Inr c"
  shows "mc_title c = strip (cd_title p)" "mc_body c = strip (cd_body p)" "mc_scope c = cd_scope p"
    "mc_candidate_id c = (case cd_candidate_id p of Some (x # i) \<Rightarrow> x # i | _ \<Rightarrow> u)"
    "mc_project c = optional_text (cd_project p)" "mc_workspace_id c = optional_text (cd_workspace_id p)"
    "mc_agent_id c = optional_text (cd_agent_id p)" "mc_user_id c = optional_text (cd_user_id p)"
    "mc_session_id c = optional_text (cd_session_id p)" "mc_source_identity c = optional_text (cd_source_identity p)"
    "mc_tags c = normalized_tags (cd_tags p)" "mc_valid_from c = cd_valid_from p" "mc_valid_to c = cd_valid_to p"
    "mc_requested_lifecycle c = lifecycle_text (cd_requested_lifecycle p)" "mc_content_hash c = h (mc_body c)"
    "mc_graph_neighbors c = normalized_identity_hints (cd_graph_neighbors p)"
    "mc_lineage_ancestors c = normalized_identity_hints (cd_lineage_ancestors p)"
  using assms by (auto simp: create_candidate_def Let_def and_then_Inr split: if_splits sum.splits)

lemma created_claims_wf:
  assumes "create_candidate h u n p = Inr c"
  shows "list_all (claim_wf c) (mc_canonical_claims c)"
proof -
  have one: "claim_wf c y" if "normalized_claim p x = Inr y" for x y
    using that qualifiers_wf [of "cc_qualifiers x"]
    by (auto simp: normalized_claim_def claim_wf_def trimmed_def create_candidate_fields [OF assms] split: if_splits)
  have "traverse (normalized_claim p) xs = Inr ys \<Longrightarrow> list_all (claim_wf c) ys" for xs ys
    by (induction xs arbitrary: ys) (auto simp: and_then_Inr one)
  then show ?thesis using create_candidate_Inr [OF assms] by blast
qed

lemma created_identity_wf:
  assumes "create_candidate h u n p = Inr c"
  shows "identity_wf c"
  using create_candidate_Inr [OF assms] unfolding missing_codes_Nil identity_wf_def
  by (auto simp: create_candidate_fields [OF assms] optional_text_trimmed split: option.split ContextScope.splits)

lemma created_wf:
  assumes "create_candidate h u n p = Inr c" "u \<noteq> []"
  shows "candidate_wf h c"
proof -
  note i = create_candidate_Inr [OF assms(1)] and f = create_candidate_fields [OF assms(1)]
  have "references_wf (mc_source_refs c)"
    using i source_refs_from_wf by (fastforce simp: normalized_source_refs_def references_wf_def)
  moreover have "mc_candidate_id c \<noteq> []" using assms(2) by (auto simp: f split: option.split list.split)
  ultimately show ?thesis
    using i created_claims_wf [OF assms(1)] created_identity_wf [OF assms(1)] lifecycle_text_wf normalized_tags_wf
      hints_wf_normalized trimmed_strip
    by (simp add: candidate_wf_def f)
qed

lemma accepted_iff: "(\<exists>c. create_candidate h u n p = Inr c) \<longleftrightarrow> acceptable p"
proof
  assume "\<exists>c. create_candidate h u n p = Inr c"
  then obtain c where c: "create_candidate h u n p = Inr c" ..
  note i = create_candidate_Inr [OF c]
  then have "\<exists>cs. traverse (normalized_claim p) (cd_canonical_claims p) = Inr cs"
    "\<exists>rs. source_refs_from {} (cd_source_refs p) = Inr rs"
    by (auto simp: normalized_source_refs_def)
  with i show "acceptable p"
    unfolding acceptable_def missing_codes_Nil [symmetric] traverse_claims source_refs_accepted by blast
next
  assume a: "acceptable p"
  then obtain cs rs where "traverse (normalized_claim p) (cd_canonical_claims p) = Inr cs"
    "normalized_source_refs (cd_source_refs p) = Inr rs"
    unfolding acceptable_def normalized_source_refs_def traverse_claims [of p, symmetric] source_refs_accepted [of "{}", symmetric] by blast
  with a show "\<exists>c. create_candidate h u n p = Inr c"
    unfolding acceptable_def missing_codes_Nil [symmetric]
    by (simp add: create_candidate_def Let_def validated_scope_identity_def)
qed

lemma claim_wf_fixed:
  assumes "claim_wf c claim" "identity_wf c"
  shows "normalized_claim (resubmission c) claim = Inr claim"
proof -
  have "optional_text (mc_project c) = mc_project c"
    using assms(2) by (intro optional_text_id) (auto simp: identity_wf_def)
  moreover have "normalized_qualifiers (cc_qualifiers claim) = cc_qualifiers claim"
    using assms(1) by (intro normalized_qualifiers_id) (auto simp: claim_wf_def)
  ultimately show ?thesis
    using assms(1) by (auto simp: normalized_claim_def claim_wf_def trimmed_def resubmission_def or_else_def split: option.split)
qed

lemma wf_fixed:
  assumes "candidate_wf h c"
  shows "create_candidate h u n (resubmission c) = Inr c"
proof -
  have id: "optional_text (mc_project c) = mc_project c" "optional_text (mc_workspace_id c) = mc_workspace_id c"
    "optional_text (mc_agent_id c) = mc_agent_id c" "optional_text (mc_user_id c) = mc_user_id c"
    "optional_text (mc_session_id c) = mc_session_id c" "optional_text (mc_source_identity c) = mc_source_identity c"
    using assms by (auto simp: candidate_wf_def identity_wf_def intro!: optional_text_id)
  have claims: "traverse (normalized_claim (resubmission c)) (mc_canonical_claims c) = Inr (mc_canonical_claims c)"
  proof -
    have "normalized_claim (resubmission c) x = Inr x" if "x \<in> set (mc_canonical_claims c)" for x
      using assms that by (intro claim_wf_fixed) (auto simp: candidate_wf_def list_all_iff)
    from traverse_map_id [of "mc_canonical_claims c" "normalized_claim (resubmission c)" "\<lambda>x. x", OF this]
    show ?thesis by simp
  qed
  have refs: "normalized_source_refs (mc_source_refs c) = Inr (mc_source_refs c)"
    using assms source_refs_from_id by (auto simp: candidate_wf_def references_wf_def normalized_source_refs_def)
  have missing: "missing_codes [mc_scope c] (mc_project c) (mc_agent_id c) (mc_session_id c) (mc_user_id c) = []"
    using assms unfolding missing_codes_Nil id by (simp add: candidate_wf_def identity_wf_def)
  show ?thesis
    using assms claims refs missing
    by (auto simp: create_candidate_def Let_def resubmission_def validated_scope_identity_def candidate_wf_def trimmed_def
        id normalized_tags_id lifecycle_text_id normalized_hints_id split: list.split)
qed

section \<open>Properties\<close>

text \<open>
  C23: Creating a candidate succeeds exactly when title and body are not blank, the validity interval
  is ordered, the scope has its identity, every claim has subject, predicate and object and every
  source reference is complete; the candidate is then well formed, and submitting it again returns
  the same candidate whatever the id generator and the clock say.
\<close>

theorem created_candidates_are_normal_forms:
  assumes "new_uuid \<noteq> []"
  shows "((\<exists>c. create_candidate hash_text new_uuid now p = Inr c) \<longleftrightarrow> acceptable p) \<and>
    (case create_candidate hash_text new_uuid now p of
       Inl e \<Rightarrow> (\<exists>m. e = MemoryContextValidationError m)
     | Inr c \<Rightarrow> candidate_wf hash_text c \<and> create_candidate hash_text u' now' (resubmission c) = Inr c)"
proof (cases "create_candidate hash_text new_uuid now p")
  case (Inl e)
  have "traverse (normalized_claim p) cs = Inl e' \<Longrightarrow> \<exists>m. e' = MemoryContextValidationError m" for cs e'
    by (induction cs) (auto simp: normalized_claim_def and_then_def split: sum.splits if_splits)
  moreover have "source_refs_from seen rs = Inl e' \<Longrightarrow> \<exists>m. e' = MemoryContextValidationError m" for seen rs e'
    by (induction seen rs rule: source_refs_from.induct) (auto simp: Let_def and_then_def split: sum.splits if_splits)
  ultimately have "\<exists>m. e = MemoryContextValidationError m"
    using Inl by (auto simp: create_candidate_def Let_def and_then_def normalized_source_refs_def split: sum.splits if_splits)
  with Inl accepted_iff [of hash_text new_uuid now p] show ?thesis by auto
next
  case (Inr c)
  with accepted_iff [of hash_text new_uuid now p] created_wf [OF Inr assms] wf_fixed show ?thesis by auto
qed

text \<open>A caller's input with blanks, a repeated tag and an unsorted hint list.\<close>

definition sample_create :: MemoryCandidateCreate where
  "sample_create =
     \<lparr> cd_title = '' t '', cd_body = ''b'', cd_scope = PROJECT, cd_project = Some '' p'', cd_workspace_id = None,
       cd_agent_id = None, cd_user_id = None, cd_session_id = None, cd_canonical_claims = [],
       cd_tags = [''x'', '' x '', '' ''], cd_source_refs = [], cd_recorded_at = None, cd_observed_at = None,
       cd_valid_from = Some 1, cd_valid_to = Some 1, cd_requested_lifecycle = '' '', cd_candidate_id = None,
       cd_source_identity = None, cd_graph_neighbors = [''b'', ''a''], cd_lineage_ancestors = [] \<rparr>"

lemma sample_created:
  "\<exists>c. create_candidate (\<lambda>s. s) ''id'' 5 sample_create = Inr c \<and> mc_title c = ''t'' \<and> mc_tags c = [''x''] \<and>
     mc_requested_lifecycle c = ''active'' \<and> mc_graph_neighbors c = [''a'', ''b'']"
proof -
  have "map_sum (\<lambda>_. ()) (\<lambda>c. (mc_title c, mc_tags c, mc_requested_lifecycle c, mc_graph_neighbors c))
      (create_candidate (\<lambda>s. s) ''id'' 5 sample_create) = Inr (''t'', [''x''], ''active'', [''a'', ''b''])"
    by code_simp
  then show ?thesis by (cases "create_candidate (\<lambda>s. s) ''id'' 5 sample_create") auto
qed

theorem created_candidates_are_normal_forms_witness:
  "\<exists>c. create_candidate (\<lambda>s. s) ''id'' 5 sample_create = Inr c \<and> mc_tags c = [''x''] \<and> candidate_wf (\<lambda>s. s) c \<and>
     create_candidate (\<lambda>s. s) ''other'' 9 (resubmission c) = Inr c"
  using sample_created created_candidates_are_normal_forms [of "''id''" "\<lambda>s. s" 5 sample_create "''other''" 9] by auto

end
