(* ===== verification/Preview_Service.thy ===== *)
theory Preview_Service
  imports Candidate_Service Temporal_Recall Relation_Classifier Reconciliation_Plan
begin

text \<open>
  Previewing a reconciliation: recalling the existing memories a candidate is compared with
  (\<open>memory_candidate_recall_service.py\<close>, \<open>context_memory_candidate_recall_source.py\<close>), the
  deterministic pair evidence (\<open>memory_evolution_candidate_evidence_service.py\<close>) and
  \<open>MemoryReconciliationPreviewService.preview\<close>, which classifies every recalled memory, builds the
  plan and stores it. The Context search, JSON decoding and claim validation, the embedding provider
  and the native pair computation are arguments. Logging is left out.
\<close>

section \<open>Recall of existing memories\<close>

fun source_type_value :: "ContextSourceType \<Rightarrow> str" where
  "source_type_value SOURCE_AGENT = ''AGENT''"
| "source_type_value SOURCE_USER = ''USER''"
| "source_type_value SOURCE_SYSTEM = ''SYSTEM''"
| "source_type_value SOURCE_IMPORTED = ''IMPORTED''"

definition metadata_text :: "json_object \<Rightarrow> str \<Rightarrow> str option" where
  "metadata_text metadata key = (case json_get key metadata of
       JStr v \<Rightarrow> if strip v = [] then None else Some (strip v) | _ \<Rightarrow> None)"

definition candidate_query :: "MemoryCandidate \<Rightarrow> str" where
  "candidate_query c =
     (if mc_canonical_claims c \<noteq> []
      then join '' '' (map (\<lambda>claim. cc_subject claim @ '' '' @ cc_predicate claim @ '' '' @ cc_object claim)
             (mc_canonical_claims c))
      else mc_title c @ '' '' @ take 1000 (mc_body c))"

definition identity_matches :: "str option \<Rightarrow> str option \<Rightarrow> bool" where
  "identity_matches expected actual \<longleftrightarrow> expected = None \<or> actual = expected"

definition matches_candidate_identity :: "ContextRecord \<Rightarrow> MemoryCandidate \<Rightarrow> bool" where
  "matches_candidate_identity context c \<longleftrightarrow> cr_scope context = mc_scope c \<and>
     list_all (\<lambda>(expected, actual). identity_matches expected actual)
       [(mc_project c, cr_project context), (mc_workspace_id c, cr_workspace_id context),
        (mc_agent_id c, cr_agent_id context), (mc_user_id c, cr_user_id context),
        (mc_session_id c, cr_session_id context)]"

definition graph_neighbors :: "str \<Rightarrow> ContextGraphEvidence list \<Rightarrow> str list" where
  "graph_neighbors context_id evidence =
     sort (remdups (filter (\<lambda>n. n \<noteq> context_id) (concat (map (\<lambda>item.
       if ge_source_context_id item = context_id then [ge_target_context_id item]
       else if ge_target_context_id item = context_id then [ge_source_context_id item]
       else []) evidence))))"

record 'j preview_env =
  pe_hash_text :: "str \<Rightarrow> str"
  pe_loads_json :: "str \<Rightarrow> json option"
  pe_validate_claims :: "json list \<Rightarrow> CanonicalClaim list option"
  pe_search :: "search_args \<Rightarrow> ('j db, py_exn, ContextPack) prog"
  pe_embedding_provider :: "(int \<times> (str list \<Rightarrow> py_exn + pyfloat list list)) option"
  pe_authority :: str
  pe_discover :: "(str \<times> str \<times> pyfloat list option \<times> instant option \<times> instant option \<times> str list \<times> str list \<times> str list) list \<Rightarrow>
     nat \<Rightarrow> nat \<Rightarrow> py_exn + (ReconciliationCandidateEvidence list \<times> ReconciliationCandidateComputeMetrics)"
  pe_proposals :: "proposal_provider option"
  pe_new_uuid :: str
  pe_plan_id :: str
  pe_now :: instant
  pe_decided_at :: "str \<Rightarrow> instant"

definition canonical_claims_of :: "'j preview_env \<Rightarrow> json_object \<Rightarrow> CanonicalClaim list" where
  "canonical_claims_of E metadata =
     (let value = (case json_get ''canonical_claims'' metadata of JStr s \<Rightarrow> pe_loads_json E s | v \<Rightarrow> Some v) in
      case value of
        Some (JList items) \<Rightarrow> (case pe_validate_claims E items of None \<Rightarrow> [] | Some claims \<Rightarrow> claims)
      | _ \<Rightarrow> [])"

definition recall_candidate_from_match ::
  "'j preview_env \<Rightarrow> ContextSearchMatch \<Rightarrow> MemoryTemporalState option \<Rightarrow> str \<Rightarrow> MemoryRecallCandidate" where
  "recall_candidate_from_match E m temporal candidate_hash =
     (let context = sm_context m; metadata = cr_context_metadata context;
          content_hash = (case metadata_text metadata ''content_hash'' of
             Some h \<Rightarrow> h | None \<Rightarrow> pe_hash_text E (cr_content context));
          claims = canonical_claims_of E metadata;
          reasons = [sm_why_retrieved m] @
            (if content_hash = candidate_hash then [''exact_content_hash''] else []) @
            (if claims = [] then [''canonical_claims_unavailable''] else []);
          detail_path = (case metadata_text metadata ''relative_path'' of
             Some p \<Rightarrow> p | None \<Rightarrow> ''context:'' @ cr_id context);
          observed = (case temporal of None \<Rightarrow> None | Some t \<Rightarrow> ts_observed_at t)
      in \<lparr> rc_context_id = cr_id context, rc_title = cr_title context, rc_body = cr_content context,
           rc_canonical_claims = claims, rc_scope = cr_scope context, rc_project = cr_project context,
           rc_source_identity = metadata_text metadata ''source'', rc_content_hash = content_hash,
           rc_recorded_at = (case temporal of None \<Rightarrow> cr_created_at context | Some t \<Rightarrow> ts_recorded_at t),
           rc_observed_at = observed,
           rc_valid_from = (case temporal of None \<Rightarrow> None | Some t \<Rightarrow> ts_valid_from t),
           rc_valid_to = (case temporal of None \<Rightarrow> None | Some t \<Rightarrow> ts_valid_to t),
           rc_workspace_id = cr_workspace_id context, rc_agent_id = cr_agent_id context,
           rc_user_id = cr_user_id context, rc_session_id = cr_session_id context,
           rc_source_refs = [\<lparr> sr_source_type = source_type_value (cr_source_type context),
              sr_source_id = cr_id context, sr_title = cr_title context, sr_detail_path = detail_path,
              sr_source_hash = Some content_hash, sr_observed_at = observed \<rparr>],
           rc_recall_reasons = reasons,
           rc_graph_neighbors = graph_neighbors (cr_id context) (sm_graph_evidence m),
           rc_lineage_ancestors =
             (case temporal of None \<Rightarrow> [] | Some t \<Rightarrow> sort (remdups (ts_supersedes t))) \<rparr>)"

definition recall_source_args :: "MemoryCandidate \<Rightarrow> str \<Rightarrow> int \<Rightarrow> search_args" where
  "recall_source_args c q limit =
     \<lparr> sa_query = q, sa_strategy = RAG_HYBRID, sa_limit = limit, sa_project = mc_project c, sa_kind = None,
       sa_include_scopes = Some [mc_scope c], sa_workspace_id = mc_workspace_id c,
       sa_agent_id = mc_agent_id c, sa_user_id = mc_user_id c, sa_session_id = mc_session_id c,
       sa_include_lifecycle_statuses = None \<rparr>"

fun recall_loop ::
  "'j sql \<Rightarrow> 'j preview_env \<Rightarrow> MemoryCandidate \<Rightarrow> str set \<Rightarrow> ContextSearchMatch list \<Rightarrow>
   ('j db, py_exn, MemoryRecallCandidate list) prog" where
  "recall_loop S E c seen [] = ret []"
| "recall_loop S E c seen (m # ms) =
     (if \<not> matches_candidate_identity (sm_context m) c \<or> cr_id (sm_context m) \<in> seen
      then recall_loop S E c seen ms
      else bind (get_temporal_state S (cr_id (sm_context m))) (\<lambda>temporal.
           bind (recall_loop S E c (insert (cr_id (sm_context m)) seen) ms) (\<lambda>rest.
           ret (recall_candidate_from_match E m temporal (mc_content_hash c) # rest))))"

definition recall_candidates ::
  "'j sql \<Rightarrow> 'j preview_env \<Rightarrow> MemoryCandidate \<Rightarrow> int \<Rightarrow> ('j db, py_exn, MemoryRecallCandidate list) prog" where
  "recall_candidates S E c limit =
     bind (pe_search E (recall_source_args c (candidate_query c) limit)) (\<lambda>pack.
     recall_loop S E c {} (cp_matches pack))"

section \<open>Pair evidence\<close>

definition normalized_optional_text :: "str option \<Rightarrow> str option" where
  "normalized_optional_text value = (case value of
       None \<Rightarrow> None
     | Some v \<Rightarrow> (let n = join '' '' (split_words v) in if n = [] then None else Some n))"

definition build_embedding_document_text :: "str \<Rightarrow> str option \<Rightarrow> str option \<Rightarrow> str" where
  "build_embedding_document_text content title heading =
     (let t = normalized_optional_text title; h = normalized_optional_text heading;
          metadata = (case t of None \<Rightarrow> [] | Some x \<Rightarrow> [''Title: '' @ x]) @
            (case h of None \<Rightarrow> [] | Some x \<Rightarrow> if h = t then [] else [''Heading: '' @ x])
      in if metadata = [] then strip content
         else join [CHR 0x0A] (metadata @ [[], strip content]))"

definition transient_embeddings ::
  "'j preview_env \<Rightarrow> MemoryCandidate \<Rightarrow> MemoryRecallCandidate list \<Rightarrow> py_exn + pyfloat list option list" where
  "transient_embeddings E c recalled =
     (case pe_embedding_provider E of
        None \<Rightarrow> Inr (replicate (Suc (length recalled)) None)
      | Some (dimensions, embed_documents) \<Rightarrow>
          if recalled = [] then Inr (replicate (Suc (length recalled)) None)
          else and_then (embed_documents (build_embedding_document_text (mc_body c) (Some (mc_title c)) None #
                  map (\<lambda>r. build_embedding_document_text (rc_body r) (Some (rc_title r)) None) recalled)) (\<lambda>vectors.
            if length vectors \<noteq> Suc (length recalled)
            then Inl (MemoryContextValidationError
                   ''memory evolution embedding provider returned an unexpected item count'')
            else if list_ex (\<lambda>v. int (length v) \<noteq> dimensions) vectors
            then Inl (MemoryContextValidationError
                   ''memory evolution embedding provider returned an unexpected dimension'')
            else Inr (map Some vectors)))"

definition pair_key :: "nat \<Rightarrow> str" where
  "pair_key i = ''source-pair:'' @ int_text (int i)"

definition discover ::
  "'j preview_env \<Rightarrow> MemoryCandidate \<Rightarrow> MemoryRecallCandidate list \<Rightarrow> py_exn + MemoryEvolutionCandidateEvidence" where
  "discover E c recalled =
     (let ordered = sort_key rc_context_id recalled; pair_keys = map pair_key [0..<length ordered] in
      and_then (transient_embeddings E c ordered) (\<lambda>embeddings.
      and_then (pe_discover E
          ((mc_candidate_id c, mc_content_hash c, hd embeddings, mc_valid_from c, mc_valid_to c, pair_keys,
            mc_graph_neighbors c, mc_lineage_ancestors c) #
           map (\<lambda>(existing, embedding, key). (rc_context_id existing, rc_content_hash existing, embedding,
              rc_valid_from existing, rc_valid_to existing, [key], rc_graph_neighbors existing,
              rc_lineage_ancestors existing)) (zip ordered (zip (tl embeddings) pair_keys)))
          2 (max 1 (length ordered))) (\<lambda>(pairs, metrics).
      Inr \<lparr> ev_compute_authority = pe_authority E, ev_candidate_item_id = mc_candidate_id c,
            ev_compared_context_ids = map rc_context_id ordered,
            ev_candidate_pairs =
              filter (\<lambda>p. mc_candidate_id c \<in> {ce_left_id p, ce_right_id p}) pairs,
            ev_metrics = metrics \<rparr>)))"

section \<open>Preview\<close>

record MemoryReconciliationPreviewRequest =
  pq_candidate :: MemoryCandidateCreate
  pq_idempotency_key :: "str option"
  pq_recall_limit :: int

definition lift :: "(py_exn + 'a) \<Rightarrow> ('s, py_exn, 'a) prog" where
  "lift r s = (r, s)"

definition explicit_key :: "MemoryReconciliationPreviewRequest \<Rightarrow> str option" where
  "explicit_key request = optional_text (pq_idempotency_key request)"

definition fresh_preview ::
  "'j sql \<Rightarrow> 'j preview_env \<Rightarrow> MemoryReconciliationPreviewRequest \<Rightarrow> ('j db, py_exn, MemoryReconciliationPlan) prog" where
  "fresh_preview S E request =
     bind (lift (create_candidate (pe_hash_text E) (pe_new_uuid E) (pe_now E) (pq_candidate request))) (\<lambda>c.
     bind (recall_candidates S E c (pq_recall_limit request)) (\<lambda>recalled.
     bind (lift (discover E c recalled)) (\<lambda>evidence.
     bind (lift (traverse (\<lambda>r. classify_with_model (pe_proposals E) (pe_decided_at E (rc_context_id r)) c r) recalled)) (\<lambda>decisions.
     save_plan S (build_plan (pe_hash_text E) (pe_plan_id E) (pe_now E) c decisions
       (pq_idempotency_key request) (Some evidence))))))"

definition preview ::
  "'j sql \<Rightarrow> 'j preview_env \<Rightarrow> MemoryReconciliationPreviewRequest \<Rightarrow> ('j db, py_exn, MemoryReconciliationPlan) prog" where
  "preview S E request = (case explicit_key request of
       None \<Rightarrow> fresh_preview S E request
     | Some key \<Rightarrow> bind (get_plan_by_idempotency_key S key) (\<lambda>existing.
         case existing of Some plan \<Rightarrow> ret plan | None \<Rightarrow> fresh_preview S E request))"

section \<open>Facts\<close>

text \<open>The first match of every memory inside the candidate's identity, in retrieval order.\<close>

fun first_matches :: "MemoryCandidate \<Rightarrow> str set \<Rightarrow> ContextSearchMatch list \<Rightarrow> ContextSearchMatch list" where
  "first_matches c seen [] = []"
| "first_matches c seen (m # ms) =
     (if \<not> matches_candidate_identity (sm_context m) c \<or> cr_id (sm_context m) \<in> seen then first_matches c seen ms
      else m # first_matches c (insert (cr_id (sm_context m)) seen) ms)"

lemma first_matches_subset: "set (first_matches c seen ms) \<subseteq> set ms"
  by (induction c seen ms rule: first_matches.induct) auto

lemma first_matches_inside:
  "m \<in> set (first_matches c seen ms) \<Longrightarrow> matches_candidate_identity (sm_context m) c \<and> cr_id (sm_context m) \<notin> seen"
  by (induction c seen ms rule: first_matches.induct) (auto split: if_splits)

lemma first_matches_distinct: "distinct (map (\<lambda>m. cr_id (sm_context m)) (first_matches c seen ms))"
  by (induction c seen ms rule: first_matches.induct) (auto dest: first_matches_inside)

lemma first_matches_cover:
  "m \<in> set ms \<Longrightarrow> matches_candidate_identity (sm_context m) c \<Longrightarrow> cr_id (sm_context m) \<notin> seen \<Longrightarrow>
   cr_id (sm_context m) \<in> (\<lambda>m. cr_id (sm_context m)) ` set (first_matches c seen ms)"
  by (induction c seen ms rule: first_matches.induct) auto

lemma recalled_context [simp]: "rc_context_id (recall_candidate_from_match E m t h) = cr_id (sm_context m)"
  by (simp add: recall_candidate_from_match_def Let_def)

lemma recall_loop_result:
  "recall_loop S E c seen ms d = (Inr rs, d') \<Longrightarrow> d' = d \<and>
   (\<exists>ts. length ts = length (first_matches c seen ms) \<and>
     rs = map (\<lambda>(m, t). recall_candidate_from_match E m t (mc_content_hash c)) (zip (first_matches c seen ms) ts) \<and>
     list_all (\<lambda>(m, t). get_temporal_state S (cr_id (sm_context m)) d = (Inr t, d)) (zip (first_matches c seen ms) ts))"
proof (induction S E c seen ms arbitrary: rs d d' rule: recall_loop.induct)
  case (2 S E c seen m ms)
  show ?case
  proof (cases "matches_candidate_identity (sm_context m) c \<and> cr_id (sm_context m) \<notin> seen")
    case False
    with 2 show ?thesis by auto
  next
    case True
    with 2(3) obtain t rest d1 where t: "get_temporal_state S (cr_id (sm_context m)) d = (Inr t, d1)"
      and rest: "recall_loop S E c (insert (cr_id (sm_context m)) seen) ms d1 = (Inr rest, d')"
      and rs: "rs = recall_candidate_from_match E m t (mc_content_hash c) # rest"
      by (auto simp: returns_simps)
    from t have d1: "d1 = d" using reads_keep_db(9) [of S "cr_id (sm_context m)" d] by simp
    from 2(2) [OF _ rest] True d1 obtain ts where d': "d' = d"
      and ts: "length ts = length (first_matches c (insert (cr_id (sm_context m)) seen) ms)"
        "rest = map (\<lambda>(m, t). recall_candidate_from_match E m t (mc_content_hash c))
           (zip (first_matches c (insert (cr_id (sm_context m)) seen) ms) ts)"
        "list_all (\<lambda>(m, t). get_temporal_state S (cr_id (sm_context m)) d = (Inr t, d))
           (zip (first_matches c (insert (cr_id (sm_context m)) seen) ms) ts)"
      by auto
    show ?thesis
      using True t d1 d' ts rs by (intro conjI exI [of _ "t # ts"]) simp_all
  qed
qed (simp add: ret_def)

lemma recall_loop_state [simp]: "snd (recall_loop S E c seen ms d) = d"
proof (induction S E c seen ms arbitrary: d rule: recall_loop.induct)
  case (2 S E c seen m ms)
  show ?case
  proof (cases "matches_candidate_identity (sm_context m) c \<and> cr_id (sm_context m) \<notin> seen")
    case True
    then have IH: "snd (recall_loop S E c (insert (cr_id (sm_context m)) seen) ms d') = d'" for d'
      using 2(2) by blast
    from True show ?thesis
      by (simp, intro snd_bind_const) (simp_all add: IH ret_def)
  qed (use 2 in auto)
qed (simp add: ret_def)

lemma decision_context:
  "classify_with_model provider now c r = Inr d \<Longrightarrow> rd_existing_context_id d = rc_context_id r"
  by (auto simp: classify_with_model_def Let_def model_proposal_decision_def split: option.splits if_splits sum.splits)

lemma traverse_decisions:
  "traverse (\<lambda>r. classify_with_model provider (clock (rc_context_id r)) c r) rs = Inr ds \<Longrightarrow>
   map rd_existing_context_id ds = map rc_context_id rs"
  by (induction rs arbitrary: ds) (auto simp: and_then_Inr dest: decision_context)

text \<open>The Context search reads the reconciliation tables at most.\<close>

definition search_reads_only :: "'j preview_env \<Rightarrow> bool" where
  "search_reads_only E \<longleftrightarrow> (\<forall>args d. snd (pe_search E args d) = d)"

lemma recall_candidates_state: "search_reads_only E \<Longrightarrow> snd (recall_candidates S E c limit d) = d"
  unfolding recall_candidates_def by (rule snd_bind_const) (simp_all add: search_reads_only_def)

lemma bind_Inl_cases:
  "bind m f s = (Inl e, s') \<Longrightarrow> m s = (Inl e, s') \<or> (\<exists>x s1. m s = (Inr x, s1) \<and> f x s1 = (Inl e, s'))"
  by (auto simp: bind_def split: prod.splits sum.splits)

text \<open>Everything before the plan is saved leaves the tables alone.\<close>

lemma fresh_previewE:
  assumes "search_reads_only E" "fresh_preview S E request d = (r, d')"
  obtains e where "r = Inl e" "d' = d"
  | c pack recalled decisions evidence where
      "create_candidate (pe_hash_text E) (pe_new_uuid E) (pe_now E) (pq_candidate request) = Inr c"
      "pe_search E (recall_source_args c (candidate_query c) (pq_recall_limit request)) d = (Inr pack, d)"
      "recall_loop S E c {} (cp_matches pack) d = (Inr recalled, d)"
      "traverse (\<lambda>r. classify_with_model (pe_proposals E) (pe_decided_at E (rc_context_id r)) c r) recalled = Inr decisions"
      "discover E c recalled = Inr evidence"
      "save_plan S (build_plan (pe_hash_text E) (pe_plan_id E) (pe_now E) c decisions
         (pq_idempotency_key request) (Some evidence)) d = (r, d')"
proof -
  let ?c = "create_candidate (pe_hash_text E) (pe_new_uuid E) (pe_now E) (pq_candidate request)"
  show thesis
  proof (cases ?c)
    case (Inl e)
    with assms(2) have "r = Inl e" "d' = d" by (auto simp: fresh_preview_def lift_def bind_def)
    then show thesis by (rule that(1))
  next
    case (Inr c)
    let ?args = "recall_source_args c (candidate_query c) (pq_recall_limit request)"
    obtain sr where search: "pe_search E ?args d = (sr, d)"
      using assms(1) unfolding search_reads_only_def by (metis prod.collapse)
    show thesis
    proof (cases sr)
      case (Inl e)
      with search assms(2) \<open>?c = Inr c\<close> have "r = Inl e" "d' = d"
        by (auto simp: fresh_preview_def lift_def bind_def recall_candidates_def)
      then show thesis by (rule that(1))
    next
      case (Inr pack)
      obtain rr where loop: "recall_loop S E c {} (cp_matches pack) d = (rr, d)"
        by (metis prod.collapse recall_loop_state)
      show thesis
      proof (cases "\<exists>recalled decisions evidence. rr = Inr recalled \<and> discover E c recalled = Inr evidence \<and>
          traverse (\<lambda>r. classify_with_model (pe_proposals E) (pe_decided_at E (rc_context_id r)) c r) recalled = Inr decisions")
        case True
        then obtain recalled decisions evidence where x: "rr = Inr recalled" "discover E c recalled = Inr evidence"
          "traverse (\<lambda>r. classify_with_model (pe_proposals E) (pe_decided_at E (rc_context_id r)) c r) recalled = Inr decisions"
          by blast
        then have "save_plan S (build_plan (pe_hash_text E) (pe_plan_id E) (pe_now E) c decisions
            (pq_idempotency_key request) (Some evidence)) d = (r, d')"
          using assms(2) search loop Inr \<open>?c = Inr c\<close>
          by (simp add: fresh_preview_def lift_def bind_def recall_candidates_def)
        from that(2) [OF \<open>?c = Inr c\<close> _ _ x(3,2) this] search loop Inr x(1) show thesis by simp
      next
        case False
        then have "(\<exists>e. r = Inl e) \<and> d' = d"
          using assms(2) search loop Inr \<open>?c = Inr c\<close>
          by (auto simp: fresh_preview_def lift_def bind_def recall_candidates_def split: sum.splits)
        then show thesis using that(1) by blast
      qed
    qed
  qed
qed

lemma previewE:
  assumes "preview S E request d = (r, d')"
  obtains plan key row where "r = Inr plan" "d' = d" "explicit_key request = Some key" "\<not> db_needs_rollback d"
      "find (\<lambda>row. pl_idempotency_key row = key) (db_plans d) = Some row" "sql_plan_load S (pl_payload row) = Inr plan"
  | e where "r = Inl e" "d' = d"
  | "fresh_preview S E request d = (r, d')"
      "\<And>key. explicit_key request = Some key \<Longrightarrow> \<not> db_needs_rollback d \<and>
         find (\<lambda>row. pl_idempotency_key row = key) (db_plans d) = None"
proof (cases "explicit_key request")
  case None
  with assms that(3) show thesis by (simp add: preview_def)
next
  case (Some key)
  obtain g where g: "get_plan_by_idempotency_key S key d = (g, d)"
    by (metis prod.collapse reads_keep_db(2))
  consider e where "g = Inl e" | "g = Inr None" | plan where "g = Inr (Some plan)" by (cases g) auto
  then show thesis
  proof cases
    case (1 e)
    with assms Some g have "r = Inl e" "d' = d" by (auto simp: preview_def bind_def)
    then show thesis by (rule that(2))
  next
    case 2
    with g have "\<not> db_needs_rollback d \<and> find (\<lambda>row. pl_idempotency_key row = key) (db_plans d) = None"
      by (auto simp: get_plan_by_idempotency_key_def query_def from_optional_row_def from_payload_def bind_def ret_def
          split: if_splits option.splits sum.splits)
    with that(3) assms Some g 2 show thesis by (simp add: preview_def bind_def)
  next
    case (3 plan)
    then obtain row where "\<not> db_needs_rollback d" "find (\<lambda>row. pl_idempotency_key row = key) (db_plans d) = Some row"
      "sql_plan_load S (pl_payload row) = Inr plan"
      using g by (auto simp: get_plan_by_idempotency_key_def query_def from_optional_row_def from_payload_def bind_def ret_def
          split: if_splits option.splits sum.splits)
    with that(1) [of plan key row] assms Some g 3 show thesis by (simp add: preview_def bind_def ret_def)
  qed
qed

section \<open>Properties\<close>

lemma recalled_contexts:
  "recall_loop S E c {} ms d = (Inr recalled, d) \<Longrightarrow>
   map rc_context_id recalled = map (\<lambda>m. cr_id (sm_context m)) (first_matches c {} ms)"
proof -
  assume "recall_loop S E c {} ms d = (Inr recalled, d)"
  from recall_loop_result [OF this] obtain ts where ts: "length ts = length (first_matches c {} ms)"
    "recalled = map (\<lambda>(m, t). recall_candidate_from_match E m t (mc_content_hash c)) (zip (first_matches c {} ms) ts)"
    by blast
  then have "map rc_context_id recalled = map (\<lambda>m. cr_id (sm_context m)) (map fst (zip (first_matches c {} ms) ts))"
    unfolding ts(2) map_map by (intro map_cong) auto
  with ts(1) show ?thesis by simp
qed

lemma find_append_row: "find P (xs @ ys) = (case find P xs of None \<Rightarrow> find P ys | Some x \<Rightarrow> Some x)"
  by (induction xs) auto

text \<open>
  C24: A preview that stores a new plan compares the candidate with every memory the search returned
  inside the candidate's scope and identity, each exactly once and in retrieval order, and with no
  other memory.
\<close>

theorem previews_compare_own_memories_once:
  assumes "search_reads_only E" and "sql_round_trip S"
    and "preview S E request d = (Inr plan, d')" and "db_plans d' \<noteq> db_plans d"
  shows "\<exists>pack. create_candidate (pe_hash_text E) (pe_new_uuid E) (pe_now E) (pq_candidate request) = Inr (rp_candidate plan) \<and>
    pe_search E (recall_source_args (rp_candidate plan) (candidate_query (rp_candidate plan)) (pq_recall_limit request)) d = (Inr pack, d) \<and>
    map rd_existing_context_id (rp_decisions plan) =
      map (\<lambda>m. cr_id (sm_context m)) (first_matches (rp_candidate plan) {} (cp_matches pack)) \<and>
    distinct (map rd_existing_context_id (rp_decisions plan)) \<and>
    rd_existing_context_id ` set (rp_decisions plan) =
      {cr_id (sm_context m) | m. m \<in> set (cp_matches pack) \<and> matches_candidate_identity (sm_context m) (rp_candidate plan)}"
  using assms(3)
proof (cases rule: previewE)
  case 3
  from assms(1) 3(1) show ?thesis
  proof (cases rule: fresh_previewE)
    case (2 c pack recalled decisions evidence)
    let ?p = "build_plan (pe_hash_text E) (pe_plan_id E) (pe_now E) c decisions (pq_idempotency_key request) (Some evidence)"
    have plan: "plan = ?p"
      using save_plan_outcome [OF assms(2), where p = ?p and d = d] 2(6) assms(4) by (auto split: option.splits)
    have ids: "map rd_existing_context_id decisions = map (\<lambda>m. cr_id (sm_context m)) (first_matches c {} (cp_matches pack))"
      using traverse_decisions [OF 2(4)] recalled_contexts [OF 2(3)] by simp
    then have "rd_existing_context_id ` set decisions = (\<lambda>m. cr_id (sm_context m)) ` set (first_matches c {} (cp_matches pack))"
      by (metis list.set_map)
    also have "\<dots> = {cr_id (sm_context m) | m. m \<in> set (cp_matches pack) \<and> matches_candidate_identity (sm_context m) c}"
      using first_matches_cover [of _ "cp_matches pack" c "{}"] first_matches_inside [of _ c "{}" "cp_matches pack"]
        first_matches_subset [of c "{}" "cp_matches pack"] by fastforce
    finally show ?thesis
      using 2(1,2) ids first_matches_distinct [of c "{}" "cp_matches pack"] unfolding plan by auto
  qed simp
qed (use assms(4) in simp_all)

text \<open>
  C25: Whatever fails, a preview changes nothing but the plan table: it either leaves every table as
  it was or appends exactly the plan it returns.
\<close>

theorem previews_only_append_their_plan:
  assumes "search_reads_only E" and "sql_round_trip S" and "preview S E request d = (r, d')"
  shows "tables_kept d d' \<or> (\<exists>plan. r = Inr plan \<and> d' = d\<lparr>db_plans := db_plans d @ [plan_row S plan]\<rparr> \<and>
    rp_idempotency_key plan \<notin> pl_idempotency_key ` set (db_plans d))"
  using assms(3)
proof (cases rule: previewE)
  case 3
  from assms(1) 3(1) show ?thesis
  proof (cases rule: fresh_previewE)
    case (2 c pack recalled decisions evidence)
    with save_plan_outcome [OF assms(2), where p = "build_plan (pe_hash_text E) (pe_plan_id E) (pe_now E) c decisions
        (pq_idempotency_key request) (Some evidence)" and d = d]
    show ?thesis by (auto simp: find_None_iff split: sum.splits option.splits)
  qed simp
qed simp_all

text \<open>
  A preview with an idempotency key that returned a plan returns the same plan, and changes
  nothing, whenever the key is used again, whatever the new request and the services say.
\<close>

theorem repeated_previews_return_the_stored_plan:
  assumes "search_reads_only E" and "sql_round_trip S" and "sql_fault_free S"
    and "explicit_key request = Some key" and "explicit_key request' = Some key"
    and "preview S E request d = (Inr plan, d')"
  shows "preview S E' request' d' = (Inr plan, d')"
proof -
  have stored: "\<exists>row. find (\<lambda>row. pl_idempotency_key row = key) (db_plans d') = Some row \<and>
      sql_plan_load S (pl_payload row) = Inr plan \<and> \<not> db_needs_rollback d'"
    using assms(6)
  proof (cases rule: previewE)
    case 3
    from assms(1) 3(1) show ?thesis
    proof (cases rule: fresh_previewE)
      case (2 c pack recalled decisions evidence)
      let ?p = "build_plan (pe_hash_text E) (pe_plan_id E) (pe_now E) c decisions (pq_idempotency_key request) (Some evidence)"
      have key: "rp_idempotency_key ?p = key"
        using assms(4) by (auto simp: build_plan_def Let_def explicit_key_def optional_text_def split: option.splits if_splits)
      with 3(2) [OF assms(4)] save_plan_outcome [OF assms(2), where p = ?p and d = d] 2(6)
      have d': "d' = d\<lparr>db_plans := db_plans d @ [plan_row S ?p]\<rparr>" "plan = ?p" by auto
      moreover have "find (\<lambda>row. pl_idempotency_key row = key) (db_plans d @ [plan_row S ?p]) = Some (plan_row S ?p)"
        using 3(2) [OF assms(4)] key by (simp add: find_append_row plan_row_def)
      ultimately show ?thesis using 3(2) [OF assms(4)] sql_round_trip_simps(1) [OF assms(2)] by (simp add: plan_row_def)
    qed simp
  qed (use assms(4) in auto)
  then show ?thesis
    using assms(3,5)
    by (auto simp: preview_def get_plan_by_idempotency_key_def query_def sql_fault_free_def from_optional_row_def
        from_payload_def bind_def ret_def)
qed

text \<open>
  A preview of a global memory. The search returns one memory twice (two chunks) and one of a
  project, which is not the candidate's.
\<close>

definition sample_preview_matches :: "ContextSearchMatch list" where
  "sample_preview_matches = [sample_match (sample_context ''m1'' []), sample_match ((sample_context ''m2'' [])\<lparr>cr_scope := PROJECT\<rparr>),
     sample_match (sample_context ''m1'' [])]"

definition sample_preview_env :: "entity preview_env" where
  "sample_preview_env =
     \<lparr> pe_hash_text = (\<lambda>s. s), pe_loads_json = (\<lambda>_. None), pe_validate_claims = (\<lambda>_. None),
       pe_search = (\<lambda>_ d. (Inr (sample_pack sample_preview_matches), d)), pe_embedding_provider = None,
       pe_authority = ''rust'', pe_discover = (\<lambda>_ _ _. Inr ([], \<lparr> cm_input_items = 2, cm_comparison_pairs = 1,
         cm_qualifying_pairs = 0, cm_retained_pairs = 0, cm_exact_duplicate_groups = 0 \<rparr>)),
       pe_proposals = None, pe_new_uuid = ''c1'', pe_plan_id = ''p1'', pe_now = 7, pe_decided_at = (\<lambda>_. 7) \<rparr>"

definition sample_preview_request :: MemoryReconciliationPreviewRequest where
  "sample_preview_request =
     \<lparr> pq_candidate = sample_create\<lparr>cd_scope := GLOBAL, cd_project := None\<rparr>, pq_idempotency_key = Some ''k'', pq_recall_limit = 20 \<rparr>"

lemma sample_search_reads_only: "search_reads_only sample_preview_env"
  by (simp add: search_reads_only_def sample_preview_env_def)

lemma sample_explicit_key: "explicit_key sample_preview_request = Some ''k''"
  by code_simp

lemma sample_acceptable: "acceptable (pq_candidate sample_preview_request)"
  by code_simp

lemma sample_previewed:
  "\<exists>plan d'. preview sample_sql sample_preview_env sample_preview_request empty_db = (Inr plan, d') \<and> db_plans d' \<noteq> []"
proof -
  obtain c where c: "create_candidate (\<lambda>s. s) ''c1'' 7 (pq_candidate sample_preview_request) = Inr c"
    using sample_acceptable accepted_iff by blast
  have temporal: "get_temporal_state sample_sql i empty_db = (Inr None, empty_db)" for i
    by (simp add: get_temporal_state_def query_def sample_sql_def empty_db_def from_optional_row_def bind_def ret_def)
  have loop: "\<exists>rs. recall_loop sample_sql E c seen ms empty_db = (Inr rs, empty_db)" for E seen ms
    by (induction sample_sql E c seen ms rule: recall_loop.induct) (auto simp: temporal bind_def ret_def)
  have classify: "\<exists>ds. traverse (\<lambda>r. classify_with_model None (f r) c r) rs = Inr ds" for f rs
    by (induction rs) (auto simp: classify_with_model_def and_then_Inr)
  obtain rs where rs: "recall_loop sample_sql sample_preview_env c {} sample_preview_matches empty_db = (Inr rs, empty_db)"
    using loop by blast
  obtain ds where ds: "traverse (\<lambda>r. classify_with_model None 7 c r) rs = Inr ds" using classify [of "\<lambda>_. 7" rs] by auto
  have fresh: "\<exists>plan d'. fresh_preview sample_sql sample_preview_env sample_preview_request empty_db = (Inr plan, d') \<and> db_plans d' \<noteq> []"
    using c rs ds
    by (simp add: fresh_preview_def lift_def bind_def recall_candidates_def discover_def transient_embeddings_def Let_def
        save_plan_def get_plan_by_idempotency_key_def query_def flush_def seq_def ret_def from_optional_row_def from_payload_def
        plan_row_def sample_sql_def empty_db_def sample_pack_def
        arg_cong [OF sample_preview_env_def, of pe_search] arg_cong [OF sample_preview_env_def, of pe_hash_text]
        arg_cong [OF sample_preview_env_def, of pe_new_uuid] arg_cong [OF sample_preview_env_def, of pe_now]
        arg_cong [OF sample_preview_env_def, of pe_embedding_provider] arg_cong [OF sample_preview_env_def, of pe_discover]
        arg_cong [OF sample_preview_env_def, of pe_proposals] arg_cong [OF sample_preview_env_def, of pe_decided_at])
  then show ?thesis
    by (simp add: preview_def sample_explicit_key get_plan_by_idempotency_key_def query_def bind_def ret_def
        from_optional_row_def sample_sql_def empty_db_def)
qed

theorem previews_compare_own_memories_once_witness:
  "\<exists>plan d'. preview sample_sql sample_preview_env sample_preview_request empty_db = (Inr plan, d') \<and>
     map rd_existing_context_id (rp_decisions plan) = [''m1'']"
proof -
  obtain plan d' where p: "preview sample_sql sample_preview_env sample_preview_request empty_db = (Inr plan, d')" "db_plans d' \<noteq> []"
    using sample_previewed by blast
  have "db_plans d' \<noteq> db_plans empty_db" using p(2) by (simp add: empty_db_def)
  from previews_compare_own_memories_once [OF sample_search_reads_only sample_sql_round_trip p(1) this]
  obtain pack where c: "create_candidate (pe_hash_text sample_preview_env) (pe_new_uuid sample_preview_env) (pe_now sample_preview_env)
       (pq_candidate sample_preview_request) = Inr (rp_candidate plan)"
    and pack: "pe_search sample_preview_env (recall_source_args (rp_candidate plan) (candidate_query (rp_candidate plan))
       (pq_recall_limit sample_preview_request)) empty_db = (Inr pack, empty_db)"
    and ids: "map rd_existing_context_id (rp_decisions plan) =
       map (\<lambda>m. cr_id (sm_context m)) (first_matches (rp_candidate plan) {} (cp_matches pack))"
    by blast
  have "cp_matches pack = sample_preview_matches" using pack by (auto simp: sample_preview_env_def sample_pack_def)
  then have "map (\<lambda>m. cr_id (sm_context m)) (first_matches (rp_candidate plan) {} (cp_matches pack)) = [''m1'']"
    by (simp add: sample_preview_matches_def sample_match_def sample_context_def matches_candidate_identity_def
        identity_matches_def create_candidate_fields [OF c] sample_preview_request_def sample_create_def optional_text_def)
  with p(1) ids show ?thesis by metis
qed

theorem previews_only_append_their_plan_witness:
  "\<exists>plan d'. preview sample_sql sample_preview_env sample_preview_request empty_db = (Inr plan, d') \<and>
     d' = empty_db\<lparr>db_plans := [plan_row sample_sql plan]\<rparr>"
proof -
  obtain plan d' where p: "preview sample_sql sample_preview_env sample_preview_request empty_db = (Inr plan, d')" "db_plans d' \<noteq> []"
    using sample_previewed by blast
  then have "\<not> tables_kept empty_db d'" by (auto simp: tables_kept_def empty_db_def)
  with previews_only_append_their_plan [OF sample_search_reads_only sample_sql_round_trip p(1)] p(1)
  show ?thesis by (auto simp: empty_db_def)
qed

theorem repeated_previews_return_the_stored_plan_witness:
  "\<exists>plan d'. preview sample_sql sample_preview_env sample_preview_request empty_db = (Inr plan, d') \<and>
     preview sample_sql (sample_preview_env\<lparr>pe_plan_id := ''p2''\<rparr>) sample_preview_request d' = (Inr plan, d')"
proof -
  obtain plan d' where p: "preview sample_sql sample_preview_env sample_preview_request empty_db = (Inr plan, d')"
    using sample_previewed by blast
  from repeated_previews_return_the_stored_plan [OF sample_search_reads_only sample_sql_round_trip sample_sql_fault_free
      sample_explicit_key sample_explicit_key p] p
  show ?thesis by blast
qed

end
