(* ===== verification/Compact_Reconciliation.thy ===== *)
theory Compact_Reconciliation
  imports Temporal_Recall "HOL-Library.Multiset"
begin

text \<open>
  Preparing a Memory Compact: recalled memories are sorted into fact buckets by their temporal
  state, the buckets are reviewed for defects and rendered
  (\<open>memory_compact_reconciliation_policy.py\<close>, \<open>memory_compact_reconciliation_service.py\<close>).
  \<open>datetime.isoformat\<close> is an argument of the rendering.
\<close>

section \<open>Facts and buckets\<close>

record MemoryCompactFact =
  fa_context_id :: str
  fa_title :: str
  fa_content :: str
  fa_category :: MemoryCompactFactCategory
  fa_valid_from :: "instant option"
  fa_valid_to :: "instant option"
  fa_evidence_refs :: "str list"
  fa_conflict_set_ids :: "str list"
  fa_relation_summary :: "str list"

record MemoryCompactFactBuckets =
  fb_current_facts :: "MemoryCompactFact list"
  fb_historical_facts :: "MemoryCompactFact list"
  fb_open_conflicts :: "MemoryCompactFact list"
  fb_uncertain_claims :: "MemoryCompactFact list"
  fb_superseded_facts :: "MemoryCompactFact list"

record MemoryCompactSafetyReview =
  sv_buckets :: MemoryCompactFactBuckets
  sv_issues :: "MemoryCompactSafetyIssue list"
  sv_safe_to_publish :: bool
  sv_warnings :: "str list"
  sv_rendered_markdown :: str

definition fact_category :: "MemoryTemporalRecallMatch \<Rightarrow> MemoryCompactFactCategory" where
  "fact_category item =
     (if tm_conflict_set_ids item \<noteq> [] then OPEN_CONFLICT
      else case tm_temporal_state item of
        None \<Rightarrow> UNCERTAIN
      | Some state \<Rightarrow>
          if tm_superseded_by item \<noteq> [] then SUPERSEDED
          else if tm_is_current item then CURRENT
          else if ts_valid_to state \<noteq> None then HISTORICAL
          else UNCERTAIN)"

definition evidence_refs :: "json_object \<Rightarrow> str list" where
  "evidence_refs metadata = (case json_get ''evidence_refs'' metadata of
       JList items \<Rightarrow> fromkeys (concat (map (\<lambda>item. case item of
         JStr s \<Rightarrow> if strip s = [] then [] else [strip s] | _ \<Rightarrow> []) items))
     | _ \<Rightarrow> [])"

definition compact_fact :: "MemoryTemporalRecallMatch \<Rightarrow> MemoryCompactFactCategory \<Rightarrow> MemoryCompactFact" where
  "compact_fact item category = (let context = sm_context (tm_match item) in
     \<lparr> fa_context_id = cr_id context, fa_title = cr_title context, fa_content = cr_content context,
       fa_category = category,
       fa_valid_from = (case tm_temporal_state item of None \<Rightarrow> None | Some s \<Rightarrow> ts_valid_from s),
       fa_valid_to = (case tm_temporal_state item of None \<Rightarrow> None | Some s \<Rightarrow> ts_valid_to s),
       fa_evidence_refs = evidence_refs (cr_context_metadata context),
       fa_conflict_set_ids = tm_conflict_set_ids item, fa_relation_summary = tm_relation_summary item \<rparr>)"

definition facts_of :: "MemoryTemporalRecallMatch list \<Rightarrow> MemoryCompactFact list" where
  "facts_of items = map (\<lambda>item. compact_fact item (fact_category item)) items"

definition of_category :: "MemoryCompactFactCategory \<Rightarrow> MemoryCompactFact list \<Rightarrow> MemoryCompactFact list" where
  "of_category category facts = filter (\<lambda>f. fa_category f = category) facts"

definition fact_buckets :: "MemoryTemporalRecallPack \<Rightarrow> MemoryCompactFactBuckets" where
  "fact_buckets pack = (let facts = facts_of (tk_matches pack) in
     \<lparr> fb_current_facts = of_category CURRENT facts, fb_historical_facts = of_category HISTORICAL facts,
       fb_open_conflicts = of_category OPEN_CONFLICT facts, fb_uncertain_claims = of_category UNCERTAIN facts,
       fb_superseded_facts = of_category SUPERSEDED facts \<rparr>)"

definition all_facts :: "MemoryCompactFactBuckets \<Rightarrow> MemoryCompactFact list" where
  "all_facts b = fb_current_facts b @ fb_historical_facts b @ fb_open_conflicts b @ fb_uncertain_claims b @
     fb_superseded_facts b"

section \<open>Review\<close>

definition current_temporal_facts :: "MemoryCompactFactBuckets \<Rightarrow> MemoryCompactFact list" where
  "current_temporal_facts b =
     filter (\<lambda>f. list_ex (\<lambda>item. starts_with item ''superseded_by:'') (fa_relation_summary f)) (fb_current_facts b)"

text \<open>
  \<open>mapping.setdefault(key, set()).add(value)\<close> over all facts, and whether some key collected more
  than one value.
\<close>

definition collect :: "('f \<Rightarrow> 'k) \<Rightarrow> ('f \<Rightarrow> 'v) \<Rightarrow> 'f list \<Rightarrow> ('k \<times> 'v list) list" where
  "collect key val facts =
     fold (\<lambda>f d. let seen = (case map_of d (key f) of None \<Rightarrow> [] | Some vs \<Rightarrow> vs)
                 in dict_set (key f) (if val f \<in> set seen then seen else seen @ [val f]) d) facts []"

definition ambiguous :: "('f \<Rightarrow> 'k) \<Rightarrow> ('f \<Rightarrow> 'v) \<Rightarrow> 'f list \<Rightarrow> bool" where
  "ambiguous key val facts = list_ex (\<lambda>(_, vs). length vs > 1) (collect key val facts)"

definition normalized_content :: "MemoryCompactFact \<Rightarrow> str" where
  "normalized_content f = join '' '' (split_words (casefold (fa_content f)))"

definition safety_issues :: "MemoryCompactFactBuckets \<Rightarrow> MemoryCompactSafetyIssue list" where
  "safety_issues b = fromkeys (
     (if ambiguous fa_context_id fa_category (all_facts b) then [TEMPORAL_STATE_COLLAPSE] else []) @
     (if ambiguous normalized_content fa_context_id (all_facts b) then [DUPLICATE_CLAIM_INFLATION] else []) @
     (if list_ex (\<lambda>f. fa_evidence_refs f = []) (fb_current_facts b) then [UNSUPPORTED_MERGE] else []) @
     (if current_temporal_facts b \<noteq> [] then [SUPERSEDED_FACT_PRESENTED_AS_CURRENT] else []) @
     (if list_ex (\<lambda>f. fa_conflict_set_ids f \<noteq> []) (fb_current_facts b) then [UNRESOLVED_CONTRADICTION_LEAKAGE] else []))"

definition safety_warnings :: "MemoryCompactFactBuckets \<Rightarrow> str list" where
  "safety_warnings b =
     (if fb_open_conflicts b \<noteq> [] then [''Open conflicts are isolated and must remain explicitly labeled in the compact.''] else []) @
     (if fb_uncertain_claims b \<noteq> [] then [''Uncertain claims are isolated and must not be rewritten as confirmed facts.''] else []) @
     (if fb_superseded_facts b \<noteq> [] then [''Superseded facts are historical context and must not appear as current state.''] else [])"

text \<open>
  Rendering. The dash and the arrow are outside Latin-1 and stand as their UTF-8 bytes.
\<close>

definition em_dash :: str where "em_dash = [CHR 0xE2, CHR 0x80, CHR 0x94]"
definition right_arrow :: str where "right_arrow = [CHR 0xE2, CHR 0x86, CHR 0x92]"

definition datetime_text :: "(instant \<Rightarrow> str) \<Rightarrow> instant option \<Rightarrow> str" where
  "datetime_text isoformat value = (case value of None \<Rightarrow> ''open'' | Some t \<Rightarrow> isoformat t)"

definition render_fact :: "(instant \<Rightarrow> str) \<Rightarrow> MemoryCompactFact \<Rightarrow> str list" where
  "render_fact isofmt f =
     [''- **'' @ fa_title f @ ''** '' @ em_dash @ '' '' @ strip (fa_content f)] @
     (if fa_valid_from f \<noteq> None \<or> fa_valid_to f \<noteq> None
      then [''  - Validity: '' @ datetime_text isofmt (fa_valid_from f) @ '' '' @ right_arrow @ '' '' @ datetime_text isofmt (fa_valid_to f)]
      else []) @
     (if fa_conflict_set_ids f \<noteq> [] then [''  - Conflict sets: '' @ join '', '' (fa_conflict_set_ids f)] else []) @
     (if fa_relation_summary f \<noteq> [] then [''  - Relations: '' @ join '', '' (fa_relation_summary f)] else [])"

definition render_section :: "(instant \<Rightarrow> str) \<Rightarrow> str \<times> MemoryCompactFact list \<Rightarrow> str list" where
  "render_section isofmt section_facts = (case section_facts of (heading, facts) \<Rightarrow>
     [''## '' @ heading] @
     (if facts = [] then [''- None'', []] else concat (map (render_fact isofmt) facts) @ [[]]))"

definition rstrip :: "str \<Rightarrow> str" where
  "rstrip s = rev (dropWhile is_space (rev s))"

definition render_fact_buckets :: "(instant \<Rightarrow> str) \<Rightarrow> MemoryCompactFactBuckets \<Rightarrow> str" where
  "render_fact_buckets isofmt b =
     rstrip (join [CHR 0x0A] (concat (map (render_section isofmt)
       [(''Current Facts'', fb_current_facts b), (''Historical Facts'', fb_historical_facts b),
        (''Open Conflicts'', fb_open_conflicts b), (''Uncertain Claims'', fb_uncertain_claims b),
        (''Superseded Facts'', fb_superseded_facts b)]))) @ [CHR 0x0A]"

definition review :: "(instant \<Rightarrow> str) \<Rightarrow> MemoryCompactFactBuckets \<Rightarrow> MemoryCompactSafetyReview" where
  "review isofmt b =
     \<lparr> sv_buckets = b, sv_issues = safety_issues b, sv_safe_to_publish = (safety_issues b = []),
       sv_warnings = safety_warnings b, sv_rendered_markdown = render_fact_buckets isofmt b \<rparr>"

definition prepare_pack :: "(instant \<Rightarrow> str) \<Rightarrow> MemoryTemporalRecallPack \<Rightarrow> MemoryCompactSafetyReview" where
  "prepare_pack isofmt pack = review isofmt (fact_buckets pack)"

definition prepare ::
  "'j sql \<Rightarrow> (json \<Rightarrow> instant option) \<Rightarrow> (str \<Rightarrow> ContextSearchMatch list \<Rightarrow> str)
   \<Rightarrow> (search_args \<Rightarrow> ('j db, py_exn, ContextPack) prog) \<Rightarrow> instant \<Rightarrow> (instant \<Rightarrow> str)
   \<Rightarrow> MemoryTemporalRecallRequest \<Rightarrow> ('j db, py_exn, MemoryCompactSafetyReview) prog" where
  "prepare S aware render search now isofmt request =
     bind (recall S aware render search now (request\<lparr>tq_mode := ALL_MODE\<rparr>)) (\<lambda>pack. ret (prepare_pack isofmt pack))"

section \<open>Facts\<close>

lemma of_category_partition:
  "mset (of_category CURRENT fs) + mset (of_category HISTORICAL fs) + mset (of_category OPEN_CONFLICT fs) +
   mset (of_category UNCERTAIN fs) + mset (of_category SUPERSEDED fs) = mset fs"
proof (induction fs)
  case (Cons f fs)
  then show ?case by (cases "fa_category f") (simp_all add: of_category_def ac_simps)
qed (simp add: of_category_def)

lemma all_facts_of_pack: "mset (all_facts (fact_buckets pack)) = mset (facts_of (tk_matches pack))"
  using of_category_partition [of "facts_of (tk_matches pack)"] by (simp add: all_facts_def fact_buckets_def Let_def ac_simps)

lemma compact_fact_simps [simp]:
  "fa_context_id (compact_fact item k) = cr_id (sm_context (tm_match item))" "fa_category (compact_fact item k) = k"
  "fa_conflict_set_ids (compact_fact item k) = tm_conflict_set_ids item"
  "fa_relation_summary (compact_fact item k) = tm_relation_summary item"
  by (simp_all add: compact_fact_def Let_def)

text \<open>The collected values of a key are the values of the facts with that key, without repetition.\<close>

definition collected :: "('f \<Rightarrow> 'k) \<Rightarrow> ('f \<Rightarrow> 'v) \<Rightarrow> 'f set \<Rightarrow> ('k \<times> 'v list) list \<Rightarrow> bool" where
  "collected key val F d \<longleftrightarrow> distinct (map fst d) \<and> fst ` set d = key ` F \<and>
     (\<forall>(k, vs)\<in>set d. distinct vs \<and> set vs = val ` {f\<in>F. key f = k})"

lemma set_dict_set:
  "distinct (map fst d) \<Longrightarrow> set (dict_set k v d) = insert (k, v) {(k', v')\<in>set d. k' \<noteq> k}"
  by (induction k v d rule: dict_set.induct) force+

lemma collected_step:
  assumes "collected key val F d"
  shows "collected key val (insert f F)
    (let seen = (case map_of d (key f) of None \<Rightarrow> [] | Some vs \<Rightarrow> vs)
     in dict_set (key f) (if val f \<in> set seen then seen else seen @ [val f]) d)"
proof -
  define seen where "seen = (case map_of d (key f) of None \<Rightarrow> [] | Some vs \<Rightarrow> vs)"
  have d: "distinct (map fst d)" "fst ` set d = key ` F"
    and vs: "\<And>k vs. (k, vs) \<in> set d \<Longrightarrow> distinct vs \<and> set vs = val ` {g\<in>F. key g = k}"
    using assms by (auto simp: collected_def)
  have seen: "distinct seen \<and> set seen = val ` {g\<in>F. key g = key f}"
  proof (cases "map_of d (key f)")
    case None
    then have "key f \<notin> key ` F" using d(2) by (simp add: map_of_eq_None_iff)
    then have "{g\<in>F. key g = key f} = {}" by (auto simp: image_iff)
    with None show ?thesis by (simp add: seen_def)
  next
    case (Some ws)
    with vs [OF map_of_SomeD [OF Some]] show ?thesis by (simp add: seen_def)
  qed
  let ?new = "if val f \<in> set seen then seen else seen @ [val f]"
  have new: "distinct ?new \<and> set ?new = val ` {g\<in>insert f F. key g = key f}" using seen by auto
  have "collected key val (insert f F) (dict_set (key f) ?new d)"
    unfolding collected_def
  proof (intro conjI ballI)
    show "distinct (map fst (dict_set (key f) ?new d))" using d(1) by (rule distinct_dict_set)
    show "fst ` set (dict_set (key f) ?new d) = key ` insert f F"
      using keys_dict_set [of "key f" ?new d] d(2) by simp
    fix kv assume "kv \<in> set (dict_set (key f) ?new d)"
    then have "kv = (key f, ?new) \<or> kv \<in> set d \<and> fst kv \<noteq> key f" using set_dict_set [OF d(1)] by auto
    then show "case kv of (k, vs) \<Rightarrow> distinct vs \<and> set vs = val ` {g\<in>insert f F. key g = k}"
    proof
      assume "kv \<in> set d \<and> fst kv \<noteq> key f"
      moreover from this have "{g\<in>insert f F. key g = fst kv} = {g\<in>F. key g = fst kv}" by auto
      ultimately show ?thesis using vs [of "fst kv" "snd kv"] by (auto split: prod.split)
    qed (use new in simp)
  qed
  then show ?thesis unfolding seen_def Let_def .
qed

lemma collect_collected: "collected key val (set fs) (collect key val fs)"
proof -
  have "collected key val F d \<Longrightarrow> collected key val (F \<union> set fs)
      (fold (\<lambda>f d. let seen = (case map_of d (key f) of None \<Rightarrow> [] | Some vs \<Rightarrow> vs)
        in dict_set (key f) (if val f \<in> set seen then seen else seen @ [val f]) d) fs d)" for F d
  proof (induction fs arbitrary: F d)
    case (Cons f fs)
    from Cons.IH [OF collected_step [OF Cons.prems]] show ?case by simp
  qed simp
  from this [of "{}" "[]"] show ?thesis by (simp add: collect_def collected_def)
qed

lemma distinct_two: "distinct vs \<Longrightarrow> length vs > 1 \<longleftrightarrow> (\<exists>x\<in>set vs. \<exists>y\<in>set vs. x \<noteq> y)"
  by (cases vs rule: remdups_adj.cases) auto

lemma ambiguous_iff:
  "ambiguous key val fs \<longleftrightarrow> (\<exists>f\<in>set fs. \<exists>g\<in>set fs. key f = key g \<and> val f \<noteq> val g)"
proof -
  have c: "\<And>k vs. (k, vs) \<in> set (collect key val fs) \<Longrightarrow> distinct vs \<and> set vs = val ` {f\<in>set fs. key f = k}"
    and ks: "fst ` set (collect key val fs) = key ` set fs"
    using collect_collected [of key val fs] by (auto simp: collected_def)
  show ?thesis
  proof
    assume "ambiguous key val fs"
    then obtain k vs where "(k, vs) \<in> set (collect key val fs)" "length vs > 1" by (auto simp: ambiguous_def list_ex_iff)
    with c [of k vs] distinct_two [of vs] obtain x y where "x \<in> set vs" "y \<in> set vs" "x \<noteq> y"
      "set vs = val ` {f\<in>set fs. key f = k}" by blast
    then show "\<exists>f\<in>set fs. \<exists>g\<in>set fs. key f = key g \<and> val f \<noteq> val g" by force
  next
    assume "\<exists>f\<in>set fs. \<exists>g\<in>set fs. key f = key g \<and> val f \<noteq> val g"
    then obtain f g where fg: "f \<in> set fs" "g \<in> set fs" "key f = key g" "val f \<noteq> val g" by blast
    then obtain vs where v: "(key f, vs) \<in> set (collect key val fs)" using ks by force
    with fg c [OF v] have "length vs > 1" using distinct_two [of vs] by auto
    with v show "ambiguous key val fs" by (auto simp: ambiguous_def list_ex_iff)
  qed
qed

section \<open>Properties\<close>

lemma issues_Nil:
  "safety_issues b = [] \<longleftrightarrow>
     \<not> ambiguous fa_context_id fa_category (all_facts b) \<and> \<not> ambiguous normalized_content fa_context_id (all_facts b) \<and>
     list_all (\<lambda>f. fa_evidence_refs f \<noteq> [] \<and> fa_conflict_set_ids f = [] \<and>
       \<not> list_ex (\<lambda>item. starts_with item ''superseded_by:'') (fa_relation_summary f)) (fb_current_facts b)"
  by (auto simp: safety_issues_def current_temporal_facts_def list_ex_iff list_all_iff filter_empty_conv)

text \<open>
  C26: A review declares facts safe to publish exactly when no memory appears in two categories, no
  two memories make the same claim, and every current fact has evidence, is in no conflict set and
  is not marked as superseded.
\<close>

theorem safe_reviews_are_exact:
  "sv_safe_to_publish (review isofmt b) \<longleftrightarrow>
     (\<forall>f\<in>set (all_facts b). \<forall>g\<in>set (all_facts b).
        (fa_context_id f = fa_context_id g \<longrightarrow> fa_category f = fa_category g) \<and>
        (normalized_content f = normalized_content g \<longrightarrow> fa_context_id f = fa_context_id g)) \<and>
     (\<forall>f\<in>set (fb_current_facts b). fa_evidence_refs f \<noteq> [] \<and> fa_conflict_set_ids f = [] \<and>
        \<not> (\<exists>item\<in>set (fa_relation_summary f). starts_with item ''superseded_by:''))"
  unfolding review_def by (simp add: issues_Nil ambiguous_iff list_all_iff list_ex_iff) blast

text \<open>
  Preparing a recalled pack loses and invents nothing: the buckets together hold exactly one
  fact per recalled match, each bucket in recall order, and a fact is presented as current only if
  its memory is current now, in no recorded conflict and superseded by nothing.
\<close>

theorem compact_buckets_partition_the_recall:
  "mset (all_facts (sv_buckets (prepare_pack isofmt pack))) =
     mset (map (\<lambda>item. compact_fact item (fact_category item)) (tk_matches pack)) \<and>
   map fa_context_id (fb_current_facts (sv_buckets (prepare_pack isofmt pack))) =
     map (\<lambda>item. cr_id (sm_context (tm_match item)))
       (filter (\<lambda>item. tm_temporal_state item \<noteq> None \<and> tm_is_current item \<and> tm_conflict_set_ids item = [] \<and>
          tm_superseded_by item = []) (tk_matches pack)) \<and>
   UNRESOLVED_CONTRADICTION_LEAKAGE \<notin> set (sv_issues (prepare_pack isofmt pack))"
proof (intro conjI)
  show "mset (all_facts (sv_buckets (prepare_pack isofmt pack))) =
      mset (map (\<lambda>item. compact_fact item (fact_category item)) (tk_matches pack))"
    using all_facts_of_pack [of pack] by (simp add: prepare_pack_def review_def facts_of_def)
  have current: "fact_category item = CURRENT \<longleftrightarrow> tm_temporal_state item \<noteq> None \<and> tm_is_current item \<and>
      tm_conflict_set_ids item = [] \<and> tm_superseded_by item = []" for item
    by (auto simp: fact_category_def split: option.splits)
  have bucket: "fb_current_facts (sv_buckets (prepare_pack isofmt pack)) =
      map (\<lambda>item. compact_fact item CURRENT) (filter (\<lambda>item. fact_category item = CURRENT) (tk_matches pack))"
    by (induction "tk_matches pack" arbitrary: pack)
      (auto simp: prepare_pack_def review_def fact_buckets_def Let_def of_category_def facts_of_def filter_map comp_def
        intro!: map_cong)
  show "map fa_context_id (fb_current_facts (sv_buckets (prepare_pack isofmt pack))) =
     map (\<lambda>item. cr_id (sm_context (tm_match item)))
       (filter (\<lambda>item. tm_temporal_state item \<noteq> None \<and> tm_is_current item \<and> tm_conflict_set_ids item = [] \<and>
          tm_superseded_by item = []) (tk_matches pack))"
    unfolding bucket by (simp add: comp_def current)
  have "\<forall>f\<in>set (fb_current_facts (fact_buckets pack)). fa_conflict_set_ids f = []"
    using bucket by (auto simp: prepare_pack_def review_def current)
  then show "UNRESOLVED_CONTRADICTION_LEAKAGE \<notin> set (sv_issues (prepare_pack isofmt pack))"
    by (auto simp: prepare_pack_def review_def safety_issues_def list_ex_iff)
qed

text \<open>A current fact with evidence and the one it replaced.\<close>

definition sample_fact :: "str \<Rightarrow> str \<Rightarrow> MemoryCompactFactCategory \<Rightarrow> MemoryCompactFact" where
  "sample_fact i content category = \<lparr> fa_context_id = i, fa_title = ''t'', fa_content = content, fa_category = category,
     fa_valid_from = None, fa_valid_to = None, fa_evidence_refs = [''e''], fa_conflict_set_ids = [], fa_relation_summary = [] \<rparr>"

definition sample_buckets :: MemoryCompactFactBuckets where
  "sample_buckets = \<lparr> fb_current_facts = [sample_fact ''a'' ''new'' CURRENT], fb_historical_facts = [], fb_open_conflicts = [],
     fb_uncertain_claims = [], fb_superseded_facts = [sample_fact ''b'' ''old'' SUPERSEDED] \<rparr>"

theorem safe_reviews_are_exact_witness: "sv_safe_to_publish (review (\<lambda>_. []) sample_buckets)"
proof -
  have "normalized_content (sample_fact ''a'' ''new'' CURRENT) = ''new''"
    "normalized_content (sample_fact ''b'' ''old'' SUPERSEDED) = ''old''" by code_simp+
  then show ?thesis
    using safe_reviews_are_exact [of "\<lambda>_. []" sample_buckets] by (simp add: sample_buckets_def all_facts_def sample_fact_def)
qed

end
