(* ===== verification/Existing_Memory.thy ===== *)
theory Existing_Memory
  imports Preview_Service Temporal_Recall
begin

text \<open>
  Reconciling memory that already exists (\<open>memory_existing_reconciliation_service.py\<close>): a bounded
  scan over pages of Contexts which turns each into a candidate, compares it with the other
  memories and, unless it is a dry run, fills in missing temporal overlays and stores the plans.

  The Context listing is a parameter, like the Context search. The scan loop goes on for as long as
  the listing returns pages: it is a partial function whose result is \<open>None\<close> if it never ends.
  What the services answer may differ from one Context to the next, so the environment is indexed
  by the number of Contexts assessed so far.
\<close>

section \<open>Requests and reports\<close>

record ExistingMemoryReconciliationRequest =
  xq_project :: "str option"
  xq_scope :: "ContextScope option"
  xq_workspace_id :: "str option"
  xq_include_archived :: bool
  xq_max_contexts :: int
  xq_batch_size :: int
  xq_recall_limit :: int
  xq_created_after :: "timestamp option"
  xq_created_before :: "timestamp option"

record ExistingMemoryAssessment =
  xa_context_id :: str
  xa_temporal_overlay_present :: bool
  xa_temporal_backfill_required :: bool
  xa_canonical_claim_count :: int
  xa_primary_relation :: "MemoryRelationType option"
  xa_related_context_ids :: "str list"
  xa_plan_id :: "str option"
  xa_plan_persisted :: bool
  xa_requires_review :: bool
  xa_warnings :: "str list"

record ExistingMemoryReconciliationReport =
  xr_dry_run :: bool
  xr_scanned :: int
  xr_total_available :: int
  xr_temporal_backfill_candidates :: int
  xr_temporal_states_written :: int
  xr_plans_generated :: int
  xr_plans_persisted :: int
  xr_contexts_missing_claims :: int
  xr_review_required :: int
  xr_assessments :: "ExistingMemoryAssessment list"
  xr_warnings :: "str list"
  xr_hard_delete_performed :: bool

record ExistingMemoryPlanPreview =
  xp_context :: ContextRecord
  xp_content_hash :: str
  xp_canonical_path :: str
  xp_temporal :: MemoryTemporalState
  xp_temporal_overlay_present :: bool
  xp_plan :: "MemoryReconciliationPlan option"
  xp_warnings :: "str list"
  xp_compared_contexts :: "MemoryRecallCandidate list"

record ExistingMemoryPlanPreviewReport =
  xv_scanned :: int
  xv_total_available :: int
  xv_window_start :: "timestamp option"
  xv_window_end :: "timestamp option"
  xv_previews :: "ExistingMemoryPlanPreview list"
  xv_warnings :: "str list"

record AssessmentCounters =
  ac_temporal_backfill_candidates :: int
  ac_temporal_states_written :: int
  ac_plans_generated :: int
  ac_plans_persisted :: int
  ac_contexts_missing_claims :: int
  ac_review_required :: int

record PreparedContext =
  pc_candidate :: MemoryCandidate
  pc_canonical_path :: str
  pc_temporal :: MemoryTemporalState
  pc_temporal_overlay_present :: bool
  pc_plan :: "MemoryReconciliationPlan option"
  pc_warnings :: "str list"
  pc_recalled :: "MemoryRecallCandidate list"

text \<open>The arguments of \<open>list_contexts\<close>; those the code leaves out have their default \<open>None\<close>.\<close>

record list_args =
  la_limit :: int
  la_offset :: int
  la_project :: "str option"
  la_scope :: "ContextScope option"
  la_workspace_id :: "str option"
  la_include_archived :: bool
  la_created_after :: "timestamp option"
  la_created_before :: "timestamp option"

record 'j existing_env =
  xe_list :: "list_args \<Rightarrow> ('j db, py_exn, ContextRecord list \<times> int) prog"
  xe_services :: "nat \<Rightarrow> 'j preview_env"
  xe_aware :: "json \<Rightarrow> instant option"
  xe_updated_at :: "nat \<Rightarrow> instant"

section \<open>One Context\<close>

definition validate_existing_request :: "ExistingMemoryReconciliationRequest \<Rightarrow> ('j db, py_exn, unit) prog" where
  "validate_existing_request r =
     (if xq_max_contexts r < 1 \<or> xq_max_contexts r > 10000
      then raise (MemoryContextValidationError ''existing-memory max_contexts must be between 1 and 10000'')
      else if xq_batch_size r < 1 \<or> xq_batch_size r > 500
      then raise (MemoryContextValidationError ''existing-memory batch_size must be between 1 and 500'')
      else if xq_recall_limit r < 1 \<or> xq_recall_limit r > 100
      then raise (MemoryContextValidationError ''existing-memory recall_limit must be between 1 and 100'')
      else (case xq_created_after r of
         Some (Naive _) \<Rightarrow> raise (MemoryContextValidationError ''existing-memory created_after must be timezone-aware'')
       | after \<Rightarrow> (case xq_created_before r of
           Some (Naive _) \<Rightarrow> raise (MemoryContextValidationError ''existing-memory created_before must be timezone-aware'')
         | Some (Aware b) \<Rightarrow> (case after of
             Some (Aware a) \<Rightarrow> if b < a
               then raise (MemoryContextValidationError ''existing-memory created_before must not be before created_after'')
               else ret ()
           | _ \<Rightarrow> ret ())
         | None \<Rightarrow> ret ())))"

definition default_temporal :: "ContextRecord \<Rightarrow> MemoryTemporalState" where
  "default_temporal context =
     \<lparr> ts_context_id = cr_id context, ts_recorded_at = cr_created_at context, ts_observed_at = None,
       ts_valid_from = None, ts_valid_to = None, ts_is_current = (\<not> cr_is_archived context),
       ts_conflict_set_ids = [], ts_superseded_by = [], ts_supersedes = [], ts_relation_summary = [] \<rparr>"

definition canonical_path :: "ContextRecord \<Rightarrow> str" where
  "canonical_path context = (case metadata_text (cr_context_metadata context) ''relative_path'' of
       Some p \<Rightarrow> p | None \<Rightarrow> ''context:'' @ cr_id context)"

definition candidate_payload ::
  "(str \<Rightarrow> str) \<Rightarrow> ContextRecord \<Rightarrow> MemoryTemporalState \<Rightarrow> CanonicalClaim list \<Rightarrow> MemoryCandidateCreate" where
  "candidate_payload hash_text context temporal claims =
     (let metadata = cr_context_metadata context;
          content_hash = (case metadata_text metadata ''content_hash'' of
             Some h \<Rightarrow> h | None \<Rightarrow> hash_text (cr_content context));
          source_ref = \<lparr> sr_source_type = source_type_value (cr_source_type context), sr_source_id = cr_id context,
             sr_title = cr_title context, sr_detail_path = canonical_path context,
             sr_source_hash = Some content_hash, sr_observed_at = ts_observed_at temporal \<rparr>
      in \<lparr> cd_title = cr_title context, cd_body = cr_content context, cd_scope = cr_scope context,
           cd_project = cr_project context, cd_workspace_id = cr_workspace_id context,
           cd_agent_id = cr_agent_id context, cd_user_id = cr_user_id context,
           cd_session_id = cr_session_id context, cd_canonical_claims = claims, cd_tags = cr_tags context,
           cd_source_refs = [source_ref], cd_recorded_at = Some (ts_recorded_at temporal),
           cd_observed_at = ts_observed_at temporal, cd_valid_from = ts_valid_from temporal,
           cd_valid_to = ts_valid_to temporal,
           cd_requested_lifecycle = (if cr_is_archived context then ''archived'' else ''active''),
           cd_candidate_id = Some (''existing:'' @ cr_id context),
           cd_source_identity = metadata_text metadata ''source'', cd_graph_neighbors = [],
           cd_lineage_ancestors = sort (remdups (ts_supersedes temporal)) \<rparr>)"

definition existing_plan_key :: "str \<Rightarrow> str \<Rightarrow> str" where
  "existing_plan_key context_id content_hash = ''existing-memory:'' @ context_id @ '':'' @ content_hash"

definition prepare_context ::
  "'j sql \<Rightarrow> 'j existing_env \<Rightarrow> ExistingMemoryReconciliationRequest \<Rightarrow> nat \<Rightarrow> ContextRecord
   \<Rightarrow> ('j db, py_exn, PreparedContext) prog" where
  "prepare_context S X request n context =
     (let E = xe_services X n in
      bind (get_temporal_state S (cr_id context)) (\<lambda>persisted.
      let canonical = temporal_state_from_context_metadata (xe_aware X) context;
          temporal = (case persisted of Some t \<Rightarrow> t
            | None \<Rightarrow> (case canonical of Some t \<Rightarrow> t | None \<Rightarrow> default_temporal context));
          claims = canonical_claims_of E (cr_context_metadata context);
          warnings = (if claims = [] then [''canonical_claims_unavailable''] else []) @
            (if persisted = None \<and> canonical = None then [''temporal_metadata_unavailable_recorded_at_only''] else [])
      in
      bind (lift (create_candidate (pe_hash_text E) (pe_new_uuid E) (pe_now E)
              (candidate_payload (pe_hash_text E) context temporal claims))) (\<lambda>candidate.
      bind (recall_candidates S E candidate (xq_recall_limit request)) (\<lambda>recalled.
      bind (lift (traverse (\<lambda>r. classify_with_model (pe_proposals E) (pe_decided_at E (rc_context_id r)) candidate r)
              (filter (\<lambda>r. rc_context_id r \<noteq> cr_id context) recalled))) (\<lambda>decisions.
      let meaningful = filter (\<lambda>d. rd_relation d \<noteq> UNRELATED) decisions in
      ret \<lparr> pc_candidate = candidate, pc_canonical_path = canonical_path context, pc_temporal = temporal,
            pc_temporal_overlay_present = (persisted \<noteq> None),
            pc_plan = (if meaningful = [] then None
              else Some (build_plan (pe_hash_text E) (pe_plan_id E) (pe_now E) candidate meaningful
                (Some (existing_plan_key (cr_id context) (mc_content_hash candidate))) None)),
            pc_warnings = warnings, pc_recalled = recalled \<rparr>)))))"


text \<open>The counters a scan adds up, together with the assessments, are its accumulator.\<close>

record scan_totals =
  st_assessments :: "ExistingMemoryAssessment list"
  st_counters :: AssessmentCounters

definition no_totals :: scan_totals where
  "no_totals = \<lparr> st_assessments = [], st_counters = \<lparr> ac_temporal_backfill_candidates = 0,
     ac_temporal_states_written = 0, ac_plans_generated = 0, ac_plans_persisted = 0,
     ac_contexts_missing_claims = 0, ac_review_required = 0 \<rparr> \<rparr>"

definition add_counters :: "AssessmentCounters \<Rightarrow> AssessmentCounters \<Rightarrow> AssessmentCounters" where
  "add_counters a b =
     \<lparr> ac_temporal_backfill_candidates = ac_temporal_backfill_candidates a + ac_temporal_backfill_candidates b,
       ac_temporal_states_written = ac_temporal_states_written a + ac_temporal_states_written b,
       ac_plans_generated = ac_plans_generated a + ac_plans_generated b,
       ac_plans_persisted = ac_plans_persisted a + ac_plans_persisted b,
       ac_contexts_missing_claims = ac_contexts_missing_claims a + ac_contexts_missing_claims b,
       ac_review_required = ac_review_required a + ac_review_required b \<rparr>"

definition backfill ::
  "'j sql \<Rightarrow> 'j existing_env \<Rightarrow> nat \<Rightarrow> bool \<Rightarrow> PreparedContext \<Rightarrow> ('j db, py_exn, int) prog" where
  "backfill S X n dry_run prepared =
     (if \<not> pc_temporal_overlay_present prepared \<and> \<not> dry_run
      then seq (upsert_temporal_state S (xe_updated_at X n) (pc_temporal prepared)) (ret 1)
      else ret 0)"

text \<open>The identifier of the plan and whether it was stored.\<close>

definition persist_plan ::
  "'j sql \<Rightarrow> bool \<Rightarrow> PreparedContext \<Rightarrow> ('j db, py_exn, str option \<times> bool) prog" where
  "persist_plan S dry_run prepared = (case pc_plan prepared of
       None \<Rightarrow> ret (None, False)
     | Some plan \<Rightarrow>
         if dry_run then ret (Some (rp_plan_id plan), False)
         else bind (get_plan_by_idempotency_key S (rp_idempotency_key plan)) (\<lambda>existing.
           case existing of
             Some p \<Rightarrow> ret (Some (rp_plan_id p), False)
           | None \<Rightarrow> bind (save_plan S plan) (\<lambda>p. ret (Some (rp_plan_id p), True))))"

definition assess_context ::
  "'j sql \<Rightarrow> 'j existing_env \<Rightarrow> ExistingMemoryReconciliationRequest \<Rightarrow> bool \<Rightarrow> nat \<Rightarrow> ContextRecord
   \<Rightarrow> ('j db, py_exn, ExistingMemoryAssessment \<times> AssessmentCounters) prog" where
  "assess_context S X request dry_run n context =
     bind (prepare_context S X request n context) (\<lambda>prepared.
     bind (backfill S X n dry_run prepared) (\<lambda>written.
     bind (persist_plan S dry_run prepared) (\<lambda>(plan_id, plan_persisted).
     let required = \<not> pc_temporal_overlay_present prepared;
         requires_review = (case pc_plan prepared of None \<Rightarrow> False | Some plan \<Rightarrow> rp_requires_review plan);
         claims = mc_canonical_claims (pc_candidate prepared)
     in ret
       (\<lparr> xa_context_id = cr_id context, xa_temporal_overlay_present = pc_temporal_overlay_present prepared,
          xa_temporal_backfill_required = required, xa_canonical_claim_count = int (length claims),
          xa_primary_relation = map_option rp_primary_decision (pc_plan prepared),
          xa_related_context_ids = (case pc_plan prepared of None \<Rightarrow> []
            | Some plan \<Rightarrow> fromkeys (map rd_existing_context_id (rp_decisions plan))),
          xa_plan_id = plan_id, xa_plan_persisted = plan_persisted, xa_requires_review = requires_review,
          xa_warnings = pc_warnings prepared \<rparr>,
        \<lparr> ac_temporal_backfill_candidates = of_bool required, ac_temporal_states_written = written,
          ac_plans_generated = of_bool (pc_plan prepared \<noteq> None), ac_plans_persisted = of_bool plan_persisted,
          ac_contexts_missing_claims = of_bool (claims = []), ac_review_required = of_bool requires_review \<rparr>))))"

section \<open>The scan\<close>

definition list_contexts_page ::
  "'j existing_env \<Rightarrow> ExistingMemoryReconciliationRequest \<Rightarrow> int \<Rightarrow> int
   \<Rightarrow> ('j db, py_exn, ContextRecord list \<times> int) prog" where
  "list_contexts_page X request limit offset =
     (if xq_workspace_id request = None \<and> xq_created_after request = None \<and> xq_created_before request = None
      then xe_list X \<lparr> la_limit = limit, la_offset = offset, la_project = xq_project request,
             la_scope = xq_scope request, la_workspace_id = None,
             la_include_archived = xq_include_archived request, la_created_after = None, la_created_before = None \<rparr>
      else xe_list X \<lparr> la_limit = limit, la_offset = offset, la_project = xq_project request,
             la_scope = xq_scope request, la_workspace_id = xq_workspace_id request,
             la_include_archived = xq_include_archived request, la_created_after = xq_created_after request,
             la_created_before = xq_created_before request \<rparr>)"

fun for_contexts ::
  "('a \<Rightarrow> ContextRecord \<Rightarrow> ('j db, py_exn, 'a) prog) \<Rightarrow> ContextRecord list \<Rightarrow> 'a \<Rightarrow> ('j db, py_exn, 'a) prog" where
  "for_contexts body [] acc = ret acc"
| "for_contexts body (c # cs) acc = bind (body acc c) (for_contexts body cs)"

text \<open>
  The \<open>while\<close> loop that \<open>_run\<close> and \<open>preview_plans\<close> share, over the body of its \<open>for\<close> loop. Its
  result holds the number of scanned Contexts, the last reported total and the accumulator.
\<close>

partial_function (option) scan_loop ::
  "(int \<Rightarrow> int \<Rightarrow> ('j db, py_exn, ContextRecord list \<times> int) prog)
   \<Rightarrow> ('a \<Rightarrow> ContextRecord \<Rightarrow> ('j db, py_exn, 'a) prog) \<Rightarrow> int \<Rightarrow> int
   \<Rightarrow> int \<Rightarrow> int \<Rightarrow> int \<Rightarrow> 'a \<Rightarrow> 'j db \<Rightarrow> ((py_exn + int \<times> int \<times> 'a) \<times> 'j db) option" where
  "scan_loop page body batch_size max_contexts scanned total_available offset acc d =
     (if scanned < max_contexts then
        (case page (min batch_size (max_contexts - scanned)) offset d of
           (Inl e, d1) \<Rightarrow> Some (Inl e, d1)
         | (Inr (contexts, listed), d1) \<Rightarrow>
             if contexts = [] then Some (Inr (scanned, listed, acc), d1)
             else (case for_contexts body contexts acc d1 of
                 (Inl e, d2) \<Rightarrow> Some (Inl e, d2)
               | (Inr acc', d2) \<Rightarrow>
                   if offset + int (length contexts) \<ge> listed
                   then Some (Inr (scanned + int (length contexts), listed, acc'), d2)
                   else scan_loop page body batch_size max_contexts (scanned + int (length contexts)) listed
                          (offset + int (length contexts)) acc' d2))
      else Some (Inr (scanned, total_available, acc), d))"

definition remaining_warning :: "ExistingMemoryReconciliationRequest \<Rightarrow> int \<Rightarrow> int \<Rightarrow> str list" where
  "remaining_warning request scanned listed =
     (if listed > scanned
      then [''Scan stopped at max_contexts='' @ int_text (xq_max_contexts request) @ ''; '' @
            int_text (listed - scanned) @ '' matching Contexts remain.'']
      else [])"

definition run_body ::
  "'j sql \<Rightarrow> 'j existing_env \<Rightarrow> ExistingMemoryReconciliationRequest \<Rightarrow> bool \<Rightarrow> scan_totals \<Rightarrow> ContextRecord
   \<Rightarrow> ('j db, py_exn, scan_totals) prog" where
  "run_body S X request dry_run t context =
     bind (assess_context S X request dry_run (length (st_assessments t)) context) (\<lambda>(assessment, counters).
     ret \<lparr> st_assessments = st_assessments t @ [assessment], st_counters = add_counters (st_counters t) counters \<rparr>)"

definition run_report ::
  "ExistingMemoryReconciliationRequest \<Rightarrow> bool \<Rightarrow> int \<times> int \<times> scan_totals \<Rightarrow> ExistingMemoryReconciliationReport" where
  "run_report request dry_run r = (case r of (scanned, listed, t) \<Rightarrow>
     \<lparr> xr_dry_run = dry_run, xr_scanned = scanned, xr_total_available = listed,
       xr_temporal_backfill_candidates = ac_temporal_backfill_candidates (st_counters t),
       xr_temporal_states_written = ac_temporal_states_written (st_counters t),
       xr_plans_generated = ac_plans_generated (st_counters t),
       xr_plans_persisted = ac_plans_persisted (st_counters t),
       xr_contexts_missing_claims = ac_contexts_missing_claims (st_counters t),
       xr_review_required = ac_review_required (st_counters t), xr_assessments = st_assessments t,
       xr_warnings = remaining_warning request scanned listed @
         (if dry_run then [''Dry-run completed without persisting plans or temporal overlays.''] else []),
       xr_hard_delete_performed = False \<rparr>)"

definition existing_run ::
  "'j sql \<Rightarrow> 'j existing_env \<Rightarrow> ExistingMemoryReconciliationRequest \<Rightarrow> bool \<Rightarrow> 'j db
   \<Rightarrow> ((py_exn + ExistingMemoryReconciliationReport) \<times> 'j db) option" where
  "existing_run S X request dry_run d = (case validate_existing_request request d of
       (Inl e, d1) \<Rightarrow> Some (Inl e, d1)
     | (Inr _, d1) \<Rightarrow> map_option (map_prod (map_sum id (run_report request dry_run)) id)
         (scan_loop (list_contexts_page X request) (run_body S X request dry_run)
            (xq_batch_size request) (xq_max_contexts request) 0 0 0 no_totals d1))"

definition existing_preview ::
  "'j sql \<Rightarrow> 'j existing_env \<Rightarrow> ExistingMemoryReconciliationRequest \<Rightarrow> 'j db
   \<Rightarrow> ((py_exn + ExistingMemoryReconciliationReport) \<times> 'j db) option" where
  "existing_preview S X request = existing_run S X request True"

definition existing_apply ::
  "'j sql \<Rightarrow> 'j existing_env \<Rightarrow> ExistingMemoryReconciliationRequest \<Rightarrow> 'j db
   \<Rightarrow> ((py_exn + ExistingMemoryReconciliationReport) \<times> 'j db) option" where
  "existing_apply S X request = existing_run S X request False"

definition preview_body ::
  "'j sql \<Rightarrow> 'j existing_env \<Rightarrow> ExistingMemoryReconciliationRequest \<Rightarrow> ExistingMemoryPlanPreview list
   \<Rightarrow> ContextRecord \<Rightarrow> ('j db, py_exn, ExistingMemoryPlanPreview list) prog" where
  "preview_body S X request previews context =
     bind (prepare_context S X request (length previews) context) (\<lambda>prepared.
     ret (previews @ [\<lparr> xp_context = context, xp_content_hash = mc_content_hash (pc_candidate prepared),
       xp_canonical_path = pc_canonical_path prepared, xp_temporal = pc_temporal prepared,
       xp_temporal_overlay_present = pc_temporal_overlay_present prepared, xp_plan = pc_plan prepared,
       xp_warnings = pc_warnings prepared, xp_compared_contexts = pc_recalled prepared \<rparr>]))"

definition preview_report ::
  "ExistingMemoryReconciliationRequest \<Rightarrow> int \<times> int \<times> ExistingMemoryPlanPreview list \<Rightarrow> ExistingMemoryPlanPreviewReport" where
  "preview_report request r = (case r of (scanned, listed, previews) \<Rightarrow>
     \<lparr> xv_scanned = scanned, xv_total_available = listed, xv_window_start = xq_created_after request,
       xv_window_end = xq_created_before request, xv_previews = previews,
       xv_warnings = remaining_warning request scanned listed @
         [''Dry-run child-plan preview completed without persisting plans or temporal overlays.''] \<rparr>)"

definition preview_plans ::
  "'j sql \<Rightarrow> 'j existing_env \<Rightarrow> ExistingMemoryReconciliationRequest \<Rightarrow> 'j db
   \<Rightarrow> ((py_exn + ExistingMemoryPlanPreviewReport) \<times> 'j db) option" where
  "preview_plans S X request d = (case validate_existing_request request d of
       (Inl e, d1) \<Rightarrow> Some (Inl e, d1)
     | (Inr _, d1) \<Rightarrow> map_option (map_prod (map_sum id (preview_report request)) id)
         (scan_loop (list_contexts_page X request) (preview_body S X request)
            (xq_batch_size request) (xq_max_contexts request) 0 0 0 [] d1))"


section \<open>The loop\<close>

text \<open>
  Total correctness of the scan loop: with an invariant that every round keeps, the loop ends and
  its result meets the postcondition. Every round that goes on has scanned at least one Context.
\<close>

definition scan_round ::
  "(int \<Rightarrow> int \<Rightarrow> ('j db, py_exn, ContextRecord list \<times> int) prog)
   \<Rightarrow> ('a \<Rightarrow> ContextRecord \<Rightarrow> ('j db, py_exn, 'a) prog) \<Rightarrow> int \<Rightarrow> int
   \<Rightarrow> (int \<Rightarrow> int \<Rightarrow> 'a \<Rightarrow> 'j db \<Rightarrow> bool) \<Rightarrow> (py_exn + int \<times> int \<times> 'a \<Rightarrow> 'j db \<Rightarrow> bool)
   \<Rightarrow> int \<Rightarrow> int \<Rightarrow> 'a \<Rightarrow> 'j db \<Rightarrow> bool" where
  "scan_round page body b m I Q s off acc d \<longleftrightarrow>
     (case page (min b (m - s)) off d of
        (Inl e, d1) \<Rightarrow> Q (Inl e) d1
      | (Inr (cs, t), d1) \<Rightarrow>
          if cs = [] then Q (Inr (s, t, acc)) d1
          else (case for_contexts body cs acc d1 of
              (Inl e, d2) \<Rightarrow> Q (Inl e) d2
            | (Inr acc', d2) \<Rightarrow> let n = int (length cs) in
                if off + n \<ge> t then Q (Inr (s + n, t, acc')) d2 else I (s + n) (off + n) acc' d2))"

lemma scan_loop_total:
  assumes "I s off acc d"
    and round: "\<And>s off acc d. I s off acc d \<Longrightarrow> s < m \<Longrightarrow> scan_round page body b m I Q s off acc d"
    and stop: "\<And>s off acc d t. I s off acc d \<Longrightarrow> \<not> s < m \<Longrightarrow> Q (Inr (s, t, acc)) d"
  shows "\<exists>r d'. scan_loop page body b m s t off acc d = Some (r, d') \<and> Q r d'"
  using assms(1)
proof (induction "nat (m - s)" arbitrary: s t off acc d rule: less_induct)
  case less
  show ?case
  proof (cases "s < m")
    case True
    note round [OF less.prems True, unfolded scan_round_def]
    moreover have "nat (m - (s + int (length cs))) < nat (m - s)" if "cs \<noteq> []" for cs :: "ContextRecord list"
      using True that by (cases cs) auto
    ultimately show ?thesis
      using True less.hyps by (subst scan_loop.simps) (auto simp: Let_def split: prod.splits sum.splits if_splits)
  next
    case False
    with stop [OF less.prems] show ?thesis by (subst scan_loop.simps) simp
  qed
qed

lemma for_contexts_rule:
  assumes "J [] acc d"
    and "\<And>seen c acc d. c \<in> set cs \<Longrightarrow> J seen acc d \<Longrightarrow> case body acc c d of (Inl e, d1) \<Rightarrow> Q e d1 | (Inr acc', d1) \<Rightarrow> J (seen @ [c]) acc' d1"
  shows "case for_contexts body cs acc d of (Inl e, d1) \<Rightarrow> Q e d1 | (Inr acc', d1) \<Rightarrow> J cs acc' d1"
proof -
  have "J seen acc d \<Longrightarrow> set cs' \<subseteq> set cs \<Longrightarrow>
     case for_contexts body cs' acc d of (Inl e, d1) \<Rightarrow> Q e d1 | (Inr acc', d1) \<Rightarrow> J (seen @ cs') acc' d1" for seen cs' acc d
  proof (induction cs' arbitrary: seen acc d)
    case (Cons c cs')
    then have "case body acc c d of (Inl e, d1) \<Rightarrow> Q e d1 | (Inr acc', d1) \<Rightarrow> J (seen @ [c]) acc' d1"
      using assms(2) by auto
    moreover have "case for_contexts body cs' acc' d1 of (Inl e, d2) \<Rightarrow> Q e d2 | (Inr acc'', d2) \<Rightarrow> J (seen @ c # cs') acc'' d2"
      if "J (seen @ [c]) acc' d1" for acc' d1
      using Cons.IH [OF that] Cons.prems(2) by (simp split: prod.splits sum.splits)
    ultimately show ?case by (cases "body acc c d"; cases "fst (body acc c d)") (auto simp: bind_def)
  qed (simp add: ret_def)
  from this [of "[]" acc d cs, OF assms(1) order.refl] show ?thesis by (simp only: append_Nil)
qed

text \<open>Over a listing that does not change, paging is invisible: the loop is one pass over a prefix.\<close>

definition stable_listing :: "(int \<Rightarrow> int \<Rightarrow> ('j db, py_exn, ContextRecord list \<times> int) prog) \<Rightarrow> ContextRecord list \<Rightarrow> bool" where
  "stable_listing page L \<longleftrightarrow>
     (\<forall>limit offset d. page limit offset d = (Inr (take (nat limit) (drop (nat offset) L), int (length L)), d))"

lemma for_contexts_append:
  "for_contexts body (xs @ ys) acc = bind (for_contexts body xs acc) (for_contexts body ys)"
  by (induction xs arbitrary: acc) (auto simp: bind_def ret_def fun_eq_iff split: prod.split sum.split)

lemma scan_loop_stable:
  assumes "stable_listing page L" and "1 \<le> b" and "0 \<le> s" and "s \<le> int (length L)" and "t = int (length L) \<or> s < m"
  shows "scan_loop page body b m s t s acc d =
    Some (map_prod (map_sum id (\<lambda>acc'. (max s (min m (int (length L))), int (length L), acc'))) id
      (for_contexts body (take (nat (m - s)) (drop (nat s) L)) acc d))"
  using assms(3-5)
proof (induction "nat (m - s)" arbitrary: s t acc d rule: less_induct)
  case less
  show ?case
  proof (cases "s < m")
    case True
    let ?rest = "take (nat (m - s)) (drop (nat s) L)"
    define cs where "cs = take (nat (min b (m - s))) (drop (nat s) L)"
    define n where "n = int (length cs)"
    have page: "page (min b (m - s)) s d = (Inr (cs, int (length L)), d)"
      using assms(1) by (simp add: stable_listing_def cs_def)
    have n: "n = min (min b (m - s)) (int (length L) - s)"
      using less.prems True assms(2) by (auto simp: n_def cs_def)
    have split: "?rest = cs @ take (nat (m - (s + n))) (drop (nat (s + n)) L)"
    proof -
      let ?j = "nat (min b (m - s))"
      have "?rest = take (?j + (nat (m - s) - ?j)) (drop (nat s) L)" using True by simp
      also have "\<dots> = cs @ take (nat (m - s) - ?j) (drop ?j (drop (nat s) L))" unfolding cs_def by (rule take_add)
      also have "take (nat (m - s) - ?j) (drop ?j (drop (nat s) L)) = take (nat (m - (s + n))) (drop (nat (s + n)) L)"
      proof (cases "n = int ?j")
        case True
        then have "nat (s + n) = ?j + nat s" "nat (m - (s + n)) = nat (m - s) - ?j"
          using less.prems(1) by linarith+
        then show ?thesis by (simp only: drop_drop add.commute)
      next
        case False
        then have "length L \<le> nat s + ?j" "length L \<le> nat (s + n)" using n less.prems \<open>s < m\<close> assms(2) by linarith+
        then have "drop ?j (drop (nat s) L) = []" "drop (nat (s + n)) L = []" by (auto simp only: drop_drop drop_eq_Nil add.commute)
        then show ?thesis by (simp only: take_Nil)
      qed
      finally show ?thesis .
    qed
    show ?thesis
    proof (cases "cs = []")
      case empty: True
      then have "s = int (length L)" using n n_def True assms(2) less.prems by simp
      with True page empty split show ?thesis by (subst scan_loop.simps) (simp add: ret_def)
    next
      case False
      then have pos: "0 < n" by (simp add: n_def)
      obtain r d2 where fc: "for_contexts body cs acc d = (r, d2)" by (cases "for_contexts body cs acc d")
      consider e where "r = Inl e" | acc' where "r = Inr acc'" "s + n \<ge> int (length L)" | acc' where "r = Inr acc'" "s + n < int (length L)"
        by (cases r) force+
      then show ?thesis
      proof cases
        case 1
        with fc show ?thesis unfolding split
          by (subst scan_loop.simps) (simp add: True page False for_contexts_append bind_def)
      next
        case 2
        then have fin: "s + n = max s (min m (int (length L)))" "drop (nat (s + n)) L = []"
          using n True less.prems by auto
        from 2 fc show ?thesis unfolding split fin(2)
          by (subst scan_loop.simps)
            (simp add: True page False for_contexts_append bind_def ret_def n_def [symmetric] fin(1) del: max.bounded_iff)
      next
        case 3
        have "scan_loop page body b m (s + n) (int (length L)) (s + n) acc' d2 =
          Some (map_prod (map_sum id (\<lambda>a. (max (s + n) (min m (int (length L))), int (length L), a))) id
            (for_contexts body (take (nat (m - (s + n))) (drop (nat (s + n)) L)) acc' d2))"
          using less.hyps [of "s + n" "int (length L)" acc' d2] pos True 3(2) less.prems(1) by simp
        moreover have "max (s + n) (min m (int (length L))) = max s (min m (int (length L)))"
          using n 3(2) pos True by auto
        ultimately show ?thesis
          using fc 3 unfolding split
          by (subst scan_loop.simps) (simp add: True page False for_contexts_append bind_def n_def [symmetric])
      qed
    qed
  next
    case False
    with less.prems show ?thesis by (subst scan_loop.simps) (simp add: ret_def)
  qed
qed


section \<open>One Context, its effects\<close>

text \<open>Neither the Context search nor the Context listing writes the reconciliation tables.\<close>

definition services_read_only :: "'j existing_env \<Rightarrow> bool" where
  "services_read_only X \<longleftrightarrow> (\<forall>n. search_reads_only (xe_services X n)) \<and> (\<forall>args d. snd (xe_list X args d) = d)"

lemma list_contexts_page_state: "services_read_only X \<Longrightarrow> snd (list_contexts_page X request limit offset d) = d"
  by (simp add: services_read_only_def list_contexts_page_def)

lemma lift_state [simp]: "snd (lift r d) = d"
  by (simp add: lift_def)

lemma prepare_context_state:
  assumes "services_read_only X"
  shows "snd (prepare_context S X request n context d) = d"
proof -
  have "snd (recall_candidates S (xe_services X n) c l d') = d'" for c l d'
    using assms by (intro recall_candidates_state) (simp add: services_read_only_def)
  then show ?thesis
    unfolding prepare_context_def Let_def
    by (intro snd_bind_const) (simp_all add: ret_def)
qed

lemma metadata_state_id: "temporal_state_from_context_metadata aware context = Some t \<Longrightarrow> ts_context_id t = cr_id context"
  by (auto simp: temporal_state_from_context_metadata_def Let_def split: if_splits)

lemma get_temporal_state_present:
  "get_temporal_state S i d = (Inr t, d') \<Longrightarrow> t \<noteq> None \<longleftrightarrow> i \<in> tp_context_id ` set (db_temporal d)"
  by (auto simp: get_temporal_state_def query_def from_optional_row_def from_payload_def bind_def ret_def find_None_iff
      find_Some_iff image_iff split: option.splits if_splits sum.splits prod.splits)

lemma prepare_contextD:
  assumes "prepare_context S X request n context d = (Inr prepared, d')"
  shows "pc_temporal_overlay_present prepared \<longleftrightarrow> cr_id context \<in> tp_context_id ` set (db_temporal d)"
    and "\<not> pc_temporal_overlay_present prepared \<Longrightarrow> ts_context_id (pc_temporal prepared) = cr_id context"
proof -
  obtain r where r: "get_temporal_state S (cr_id context) d = (r, d)" using reads_keep_db(9) by (metis prod.collapse)
  with assms obtain t where t: "r = Inr t"
    and p: "pc_temporal_overlay_present prepared \<longleftrightarrow> t \<noteq> None"
      "t = None \<Longrightarrow> pc_temporal prepared =
         (case temporal_state_from_context_metadata (xe_aware X) context of Some t \<Rightarrow> t | None \<Rightarrow> default_temporal context)"
    by (auto simp: prepare_context_def Let_def returns_simps)
  show "pc_temporal_overlay_present prepared \<longleftrightarrow> cr_id context \<in> tp_context_id ` set (db_temporal d)"
    using get_temporal_state_present r p(1) unfolding t by fastforce
  show "\<not> pc_temporal_overlay_present prepared \<Longrightarrow> ts_context_id (pc_temporal prepared) = cr_id context"
    using p by (auto simp: default_temporal_def dest: metadata_state_id split: option.splits)
qed

text \<open>
  What a scan may do to the tables: append \<open>w\<close> overlays of Contexts that had none and \<open>p\<close> plans
  under new keys.
\<close>

definition backfilled :: "'j db \<Rightarrow> 'j db \<Rightarrow> int \<Rightarrow> int \<Rightarrow> bool" where
  "backfilled d d' w p \<longleftrightarrow> (\<exists>overlays plans.
     db_temporal d' = db_temporal d @ overlays \<and> int (length overlays) = w \<and>
     distinct (map tp_context_id overlays) \<and>
     tp_context_id ` set overlays \<inter> tp_context_id ` set (db_temporal d) = {} \<and>
     db_plans d' = db_plans d @ plans \<and> int (length plans) = p \<and>
     distinct (map pl_idempotency_key plans) \<and>
     pl_idempotency_key ` set plans \<inter> pl_idempotency_key ` set (db_plans d) = {} \<and>
     db_results d' = db_results d \<and> db_relations d' = db_relations d \<and> db_conflicts d' = db_conflicts d)"

lemma backfilled_refl: "tables_kept d d' \<Longrightarrow> backfilled d d' 0 0"
  by (simp add: backfilled_def tables_keptD)

lemma backfilled_trans:
  assumes "backfilled d d1 w p" and "backfilled d1 d2 w' p'"
  shows "backfilled d d2 (w + w') (p + p')"
proof -
  obtain o1 p1 o2 p2 where
    "db_temporal d1 = db_temporal d @ o1" "int (length o1) = w" "distinct (map tp_context_id o1)"
    "tp_context_id ` set o1 \<inter> tp_context_id ` set (db_temporal d) = {}"
    "db_plans d1 = db_plans d @ p1" "int (length p1) = p" "distinct (map pl_idempotency_key p1)"
    "pl_idempotency_key ` set p1 \<inter> pl_idempotency_key ` set (db_plans d) = {}"
    "db_results d1 = db_results d" "db_relations d1 = db_relations d" "db_conflicts d1 = db_conflicts d"
    "db_temporal d2 = db_temporal d1 @ o2" "int (length o2) = w'" "distinct (map tp_context_id o2)"
    "tp_context_id ` set o2 \<inter> tp_context_id ` set (db_temporal d1) = {}"
    "db_plans d2 = db_plans d1 @ p2" "int (length p2) = p'" "distinct (map pl_idempotency_key p2)"
    "pl_idempotency_key ` set p2 \<inter> pl_idempotency_key ` set (db_plans d1) = {}"
    "db_results d2 = db_results d1" "db_relations d2 = db_relations d1" "db_conflicts d2 = db_conflicts d1"
    using assms unfolding backfilled_def by blast
  then show ?thesis
    unfolding backfilled_def by (intro exI [of _ "o1 @ o2"] exI [of _ "p1 @ p2"]) (auto simp: image_Un)
qed

lemma upsert_row_new: "\<forall>r\<in>set rows. \<not> P r \<Longrightarrow> upsert_row P upd new rows = rows @ [new]"
  by (induction rows) auto

lemma backfill_outcome:
  assumes "sql_round_trip S" and "prepare_context S X request n context d = (Inr prepared, d)"
  shows "case backfill S X n dry_run prepared d of
      (Inl e, d1) \<Rightarrow> tables_kept d d1
    | (Inr w, d1) \<Rightarrow> backfilled d d1 w 0 \<and> (dry_run \<longrightarrow> d1 = d) \<and>
        (\<not> dry_run \<longrightarrow> cr_id context \<in> tp_context_id ` set (db_temporal d1)) \<and>
        (cr_id context \<in> tp_context_id ` set (db_temporal d) \<longrightarrow> w = 0 \<and> d1 = d)"
proof (cases "pc_temporal_overlay_present prepared \<or> dry_run")
  case True
  then show ?thesis
    using prepare_contextD(1) [OF assms(2)] by (auto simp: backfill_def ret_def backfilled_refl)
next
  case False
  then have new: "cr_id context \<notin> tp_context_id ` set (db_temporal d)" "ts_context_id (pc_temporal prepared) = cr_id context"
    using prepare_contextD [OF assms(2)] by auto
  then have fresh: "\<forall>r\<in>set (db_temporal d). tp_context_id r \<noteq> ts_context_id (pc_temporal prepared)" by force
  obtain row where row: "put_temporal S (xe_updated_at X n) (pc_temporal prepared) (db_temporal d) = db_temporal d @ [row]"
    "tp_context_id row = cr_id context"
    unfolding put_temporal_def upsert_row_new [OF fresh] using new(2) by auto
  have "backfilled d (d\<lparr>db_temporal := db_temporal d @ [row]\<rparr>) 1 0"
    unfolding backfilled_def by (intro exI [of _ "[row]"] exI [of _ "[]"]) (use new row(2) in auto)
  then show ?thesis
    using False row new upsert_temporal_state_outcome [OF assms(1), where now = "xe_updated_at X n" and st = "pc_temporal prepared" and d = d]
    by (auto simp: backfill_def seq_def bind_def ret_def split: prod.splits sum.splits)
qed

lemma persist_plan_outcome:
  assumes "sql_round_trip S"
  shows "case persist_plan S dry_run prepared d of
      (Inl e, d1) \<Rightarrow> tables_kept d d1
    | (Inr (i, stored), d1) \<Rightarrow> backfilled d d1 0 (of_bool stored) \<and> db_temporal d1 = db_temporal d \<and> (dry_run \<longrightarrow> d1 = d)"
proof (cases "pc_plan prepared")
  case (Some plan)
  show ?thesis
  proof (cases dry_run)
    case False
    obtain r where r: "get_plan_by_idempotency_key S (rp_idempotency_key plan) d = (r, d)"
      using reads_keep_db(2) by (metis prod.collapse)
    show ?thesis
    proof (cases "r = Inr None")
      case True
      then have new: "rp_idempotency_key plan \<notin> pl_idempotency_key ` set (db_plans d)"
        using r by (auto simp: get_plan_by_idempotency_key_def query_def from_optional_row_def from_payload_def bind_def
            ret_def find_None_iff split: option.splits if_splits sum.splits prod.splits)
      then have none: "find (\<lambda>r. pl_idempotency_key r = rp_idempotency_key plan) (db_plans d) = None"
        by (force simp: find_None_iff)
      have "backfilled d (d\<lparr>db_plans := db_plans d @ [plan_row S plan]\<rparr>) 0 1"
        unfolding backfilled_def
        by (intro exI [of _ "[]"] exI [of _ "[plan_row S plan]"]) (use new in \<open>auto simp: plan_row_def\<close>)
      then show ?thesis
        using Some False r True save_plan_outcome [OF assms, where p = plan and d = d] none
        by (auto simp: persist_plan_def bind_def ret_def split: prod.splits sum.splits)
    next
      case f: False
      with Some False r show ?thesis
        by (auto simp: persist_plan_def bind_def ret_def backfilled_refl split: sum.splits option.splits)
    qed
  qed (use Some in \<open>simp add: persist_plan_def ret_def backfilled_refl\<close>)
qed (simp add: persist_plan_def ret_def backfilled_refl)


lemma assess_context_outcome:
  assumes "sql_round_trip S" and "services_read_only X"
  shows "case assess_context S X request dry_run n cx d of
      (Inl e, d1) \<Rightarrow> (\<exists>w p. backfilled d d1 w p) \<and> (dry_run \<longrightarrow> d1 = d)
    | (Inr (a, c), d1) \<Rightarrow> backfilled d d1 (ac_temporal_states_written c) (ac_plans_persisted c) \<and> (dry_run \<longrightarrow> d1 = d) \<and>
        xa_context_id a = cr_id cx \<and> (\<not> dry_run \<longrightarrow> cr_id cx \<in> tp_context_id ` set (db_temporal d1)) \<and>
        (cr_id cx \<in> tp_context_id ` set (db_temporal d) \<longrightarrow> ac_temporal_states_written c = 0 \<and> db_temporal d1 = db_temporal d)"
proof -
  obtain r where prep: "prepare_context S X request n cx d = (r, d)"
    using prepare_context_state [OF assms(2)] by (metis prod.collapse)
  show ?thesis
  proof (cases r)
    case (Inl e)
    with prep backfilled_refl [of d d] show ?thesis by (auto simp: assess_context_def bind_def)
  next
    case (Inr prepared)
    note prep = prep [unfolded Inr]
    obtain rw d1 where bf: "backfill S X n dry_run prepared d = (rw, d1)" by (cases "backfill S X n dry_run prepared d")
    note bo = backfill_outcome [OF assms(1) prep, where dry_run = dry_run, unfolded bf]
    show ?thesis
    proof (cases rw)
      case (Inl e)
      have "dry_run \<Longrightarrow> d1 = d" using bf by (auto simp: backfill_def ret_def)
      with Inl bo prep bf show ?thesis by (auto simp: assess_context_def bind_def dest: backfilled_refl)
    next
      case (Inr w)
      obtain rp d2 where pp: "persist_plan S dry_run prepared d1 = (rp, d2)" by (cases "persist_plan S dry_run prepared d1")
      note po = persist_plan_outcome [OF assms(1), where dry_run = dry_run and prepared = prepared and d = d1, unfolded pp]
      show ?thesis
      proof (cases rp)
        case (Inl e)
        have "dry_run \<Longrightarrow> d2 = d1" using pp by (auto simp: persist_plan_def ret_def split: option.splits)
        moreover have "backfilled d d2 (w + 0) (0 + 0)"
          using backfilled_trans [OF _ backfilled_refl, of d d1 w 0 d2] po bo Inl Inr by simp
        ultimately show ?thesis using Inl bo Inr prep bf pp by (auto simp: assess_context_def bind_def)
      next
        case rp: (Inr ip)
        obtain i stored where i: "ip = (i, stored)" by (cases ip)
        have "backfilled d d2 w (of_bool stored)" using backfilled_trans [of d d1 w 0 d2 0 "of_bool stored"] po bo rp Inr i by simp
        with po bo rp i Inr prep bf pp show ?thesis by (auto simp: assess_context_def bind_def ret_def Let_def)
      qed
    qed
  qed
qed


section \<open>The scan, its effects\<close>

abbreviation written :: "scan_totals \<Rightarrow> int" where
  "written t \<equiv> ac_temporal_states_written (st_counters t)"

abbreviation persisted :: "scan_totals \<Rightarrow> int" where
  "persisted t \<equiv> ac_plans_persisted (st_counters t)"

lemma validate_existing_request_result:
  "validate_existing_request request d = (r, d') \<Longrightarrow>
   d' = d \<and> (r = Inr () \<longrightarrow> 1 \<le> xq_max_contexts request \<and> 1 \<le> xq_batch_size request)"
  by (auto simp: validate_existing_request_def raise_def ret_def split: if_splits option.splits timestamp.splits)

text \<open>The effect of assessing one more Context, as an invariant of the totals.\<close>

definition scan_inv :: "bool \<Rightarrow> 'j db \<Rightarrow> scan_totals \<Rightarrow> 'j db \<Rightarrow> bool" where
  "scan_inv dry_run old t d \<longleftrightarrow> backfilled old d (written t) (persisted t) \<and> (dry_run \<longrightarrow> d = old)"

definition failed_scan :: "bool \<Rightarrow> 'j db \<Rightarrow> 'j db \<Rightarrow> bool" where
  "failed_scan dry_run old d \<longleftrightarrow> (\<exists>w p. backfilled old d w p) \<and> (dry_run \<longrightarrow> d = old)"

lemma run_body_outcome:
  assumes "sql_round_trip S" and "services_read_only X" and "scan_inv dry_run old t d"
  shows "case run_body S X request dry_run t cx d of
      (Inl e, d1) \<Rightarrow> failed_scan dry_run old d1
    | (Inr t', d1) \<Rightarrow> scan_inv dry_run old t' d1 \<and> length (st_assessments t') = Suc (length (st_assessments t)) \<and>
        map xa_context_id (st_assessments t') = map xa_context_id (st_assessments t) @ [cr_id cx] \<and>
        (\<not> dry_run \<longrightarrow> cr_id cx \<in> tp_context_id ` set (db_temporal d1)) \<and>
        (cr_id cx \<in> tp_context_id ` set (db_temporal d) \<longrightarrow> written t' = written t \<and> db_temporal d1 = db_temporal d)"
proof -
  obtain r d1 where run: "assess_context S X request dry_run (length (st_assessments t)) cx d = (r, d1)"
    by (cases "assess_context S X request dry_run (length (st_assessments t)) cx d")
  note ao = assess_context_outcome [OF assms(1,2), where request = request and dry_run = dry_run
      and n = "length (st_assessments t)" and cx = cx and d = d, unfolded run]
  have inv: "backfilled old d (written t) (persisted t)" "dry_run \<Longrightarrow> d = old" using assms(3) by (auto simp: scan_inv_def)
  show ?thesis
  proof (cases r)
    case (Inl e)
    with ao obtain w p where "backfilled d d1 w p" "dry_run \<longrightarrow> d1 = d" by auto
    with backfilled_trans [OF inv(1) this(1)] inv(2) have "failed_scan dry_run old d1" by (auto simp: failed_scan_def)
    with Inl run show ?thesis by (simp add: run_body_def bind_def)
  next
    case (Inr ac)
    obtain a c where ac: "ac = (a, c)" by (cases ac)
    with ao Inr backfilled_trans [OF inv(1)] inv(2)
    have "scan_inv dry_run old \<lparr>st_assessments = st_assessments t @ [a], st_counters = add_counters (st_counters t) c\<rparr> d1"
      by (auto simp: scan_inv_def add_counters_def)
    with ao Inr ac run show ?thesis by (auto simp: run_body_def bind_def ret_def add_counters_def)
  qed
qed

lemma for_run_body_outcome:
  assumes "sql_round_trip S" and "services_read_only X" and "scan_inv dry_run old t d"
  shows "case for_contexts (run_body S X request dry_run) cs t d of
      (Inl e, d1) \<Rightarrow> failed_scan dry_run old d1
    | (Inr t', d1) \<Rightarrow> scan_inv dry_run old t' d1 \<and>
        length (st_assessments t') = length (st_assessments t) + length cs"
proof (rule for_contexts_rule [where Q = "\<lambda>e. failed_scan dry_run old"
      and J = "\<lambda>seen t' d1. scan_inv dry_run old t' d1 \<and> length (st_assessments t') = length (st_assessments t) + length seen"])
  fix seen :: "ContextRecord list" and c t' d'
  assume "scan_inv dry_run old t' d' \<and> length (st_assessments t') = length (st_assessments t) + length seen"
  with run_body_outcome [OF assms(1,2), where dry_run = dry_run and old = old and t = t' and d = d' and request = request and cx = c]
  show "case run_body S X request dry_run t' c d' of
      (Inl e, d1) \<Rightarrow> failed_scan dry_run old d1
    | (Inr t'', d1) \<Rightarrow> scan_inv dry_run old t'' d1 \<and> length (st_assessments t'') = length (st_assessments t) + length (seen @ [c])"
    by (auto split: prod.splits sum.splits)
qed (use assms(3) in simp)

lemma scan_inv_start: "scan_inv dry_run d no_totals d"
  by (simp add: scan_inv_def no_totals_def backfilled_refl)

lemma run_loop_outcome:
  assumes "sql_round_trip S" and "services_read_only X"
  shows "\<exists>r d'. scan_loop (list_contexts_page X request) (run_body S X request dry_run) b m 0 0 0 no_totals d = Some (r, d') \<and>
    (case r of Inl e \<Rightarrow> failed_scan dry_run d d' | Inr (s, u, t) \<Rightarrow> scan_inv dry_run d t d')"
proof (rule scan_loop_total [where I = "\<lambda>s off t. scan_inv dry_run d t"
      and Q = "\<lambda>r d'. case r of Inl e \<Rightarrow> failed_scan dry_run d d' | Inr (s, u, t) \<Rightarrow> scan_inv dry_run d t d'"])
  fix s off t d1
  assume inv: "scan_inv dry_run d t d1"
  obtain r where page: "list_contexts_page X request (min b (m - s)) off d1 = (r, d1)"
    using list_contexts_page_state [OF assms(2)] by (metis prod.collapse)
  have failed: "failed_scan dry_run d d1" using inv by (auto simp: scan_inv_def failed_scan_def)
  show "scan_round (list_contexts_page X request) (run_body S X request dry_run) b m (\<lambda>s off t. scan_inv dry_run d t)
      (\<lambda>r d'. case r of Inl e \<Rightarrow> failed_scan dry_run d d' | Inr (s, u, t) \<Rightarrow> scan_inv dry_run d t d') s off t d1"
  proof (cases r)
    case (Inr cu)
    then show ?thesis
      using page inv for_run_body_outcome [OF assms inv, where cs = "fst cu" and request = request]
      by (auto simp: scan_round_def Let_def split: prod.splits sum.splits)
  qed (use page failed in \<open>simp add: scan_round_def\<close>)
qed (simp_all add: scan_inv_start)


section \<open>Properties\<close>

text \<open>A page never holds more Contexts than it was asked for.\<close>

definition pages_bounded :: "'j existing_env \<Rightarrow> bool" where
  "pages_bounded X \<longleftrightarrow>
     (\<forall>args d cs u d'. 0 \<le> la_limit args \<longrightarrow> xe_list X args d = (Inr (cs, u), d') \<longrightarrow> int (length cs) \<le> la_limit args)"

lemma list_contexts_page_args: "\<exists>args. la_limit args = limit \<and> list_contexts_page X request limit off = xe_list X args"
  unfolding list_contexts_page_def by (metis list_args.select_convs(1))

lemma list_contexts_page_bounded:
  assumes "pages_bounded X" and "0 \<le> limit" and "list_contexts_page X request limit off d = (Inr (cs, u), d')"
  shows "int (length cs) \<le> limit"
proof -
  obtain args where "la_limit args = limit" "list_contexts_page X request limit off = xe_list X args"
    using list_contexts_page_args by blast
  with assms show ?thesis unfolding pages_bounded_def by metis
qed

lemma for_contexts_length:
  assumes "\<And>acc c d acc' d'. body acc c d = (Inr acc', d') \<Longrightarrow> count acc' = Suc (count acc)"
    and "for_contexts body cs acc d = (Inr acc', d')"
  shows "count acc' = count acc + length cs"
  using assms(2) by (induction cs arbitrary: acc d) (auto simp: returns_simps dest: assms(1))

lemma scan_loop_bounded:
  assumes "\<And>acc c d acc' d'. body acc c d = (Inr acc', d') \<Longrightarrow> count acc' = Suc (count acc)"
    and "count acc = 0"
  shows "\<exists>r d'. scan_loop page body b m 0 u 0 acc d = Some (r, d') \<and>
    (case r of Inl e \<Rightarrow> True
     | Inr (s, v, acc') \<Rightarrow> int (count acc') = s \<and>
         (0 \<le> m \<and> 0 \<le> b \<and> (\<forall>limit off d cs v d'. 0 \<le> limit \<longrightarrow> page limit off d = (Inr (cs, v), d') \<longrightarrow> int (length cs) \<le> limit) \<longrightarrow> s \<le> m))"
    (is "\<exists>r d'. _ \<and> ?Q r d'")
proof -
  let ?ok = "0 \<le> m \<and> 0 \<le> b \<and> (\<forall>limit off d cs v d'. 0 \<le> limit \<longrightarrow> page limit off d = (Inr (cs, v), d') \<longrightarrow> int (length cs) \<le> limit)"
  show ?thesis
  proof (rule scan_loop_total [where I = "\<lambda>s off acc d. int (count acc) = s \<and> (?ok \<longrightarrow> s \<le> m)" and Q = "?Q"])
    fix s off acc d
    assume inv: "int (count acc) = s \<and> (?ok \<longrightarrow> s \<le> m)" and "s < m"
    then have "int (count acc') = s + int (length cs)" if "for_contexts body cs acc d1 = (Inr acc', d2)" for cs d1 acc' d2
      using for_contexts_length [of body count, OF assms(1) that] by simp
    moreover have "?ok \<Longrightarrow> s + int (length cs) \<le> m" if "page (min b (m - s)) off d = (Inr (cs, v), d1)" for cs v d1
    proof -
      assume ok: ?ok
      with \<open>s < m\<close> have "0 \<le> min b (m - s)" by simp
      with ok that have "int (length cs) \<le> min b (m - s)" by blast
      then show ?thesis by simp
    qed
    ultimately show "scan_round page body b m (\<lambda>s off acc d. int (count acc) = s \<and> (?ok \<longrightarrow> s \<le> m)) ?Q s off acc d"
      using inv by (auto simp: scan_round_def Let_def split: prod.splits sum.splits)
  qed (use assms(2) in auto)
qed

text \<open>
  C20: Every scan ends: whatever the Context listing, the search, the model and the database answer,
  a dry run, an apply and a plan preview return or raise. One that returns has assessed as many
  Contexts as it reports, and at most the requested number when pages respect their limit.
\<close>

theorem existing_memory_scans_end:
  "(\<exists>r d'. existing_run S X request dry_run d = Some (r, d') \<and>
      (\<forall>report. r = Inr report \<longrightarrow> int (length (xr_assessments report)) = xr_scanned report \<and>
         (pages_bounded X \<longrightarrow> xr_scanned report \<le> xq_max_contexts request))) \<and>
   (\<exists>r d'. preview_plans S X request d = Some (r, d') \<and>
      (\<forall>report. r = Inr report \<longrightarrow> int (length (xv_previews report)) = xv_scanned report \<and>
         (pages_bounded X \<longrightarrow> xv_scanned report \<le> xq_max_contexts request)))"
proof -
  obtain v where v: "validate_existing_request request d = (v, d)" using validate_existing_request_result by (metis prod.exhaust)
  show ?thesis
  proof (cases v)
    case (Inr w)
    with v have bounds: "0 \<le> xq_max_contexts request" "0 \<le> xq_batch_size request"
      using validate_existing_request_result [OF v] by (cases w, simp)+
    have page: "pages_bounded X \<Longrightarrow> (\<forall>limit off d cs v d'. 0 \<le> limit \<longrightarrow> list_contexts_page X request limit off d = (Inr (cs, v), d') \<longrightarrow> int (length cs) \<le> limit)"
      using list_contexts_page_bounded by blast
    let ?bounded = "\<lambda>s. pages_bounded X \<longrightarrow> s \<le> xq_max_contexts request"
    have "\<exists>r d'. scan_loop (list_contexts_page X request) (run_body S X request dry_run) (xq_batch_size request)
        (xq_max_contexts request) 0 0 0 no_totals d = Some (r, d') \<and>
      (case r of Inl e \<Rightarrow> True | Inr (s, v, t) \<Rightarrow> int (length (st_assessments t)) = s \<and> ?bounded s)"
      using scan_loop_bounded [where count = "\<lambda>t. length (st_assessments t)" and body = "run_body S X request dry_run"
          and page = "list_contexts_page X request" and b = "xq_batch_size request" and m = "xq_max_contexts request"
          and u = 0 and acc = no_totals and d = d] bounds page
      by (fastforce simp: run_body_def returns_simps no_totals_def split: prod.splits sum.splits)
    then obtain r d' where run: "scan_loop (list_contexts_page X request) (run_body S X request dry_run)
        (xq_batch_size request) (xq_max_contexts request) 0 0 0 no_totals d = Some (r, d')"
      "case r of Inl e \<Rightarrow> True | Inr (s, v, t) \<Rightarrow> int (length (st_assessments t)) = s \<and> ?bounded s" by blast
    have "\<exists>r' d''. scan_loop (list_contexts_page X request) (preview_body S X request) (xq_batch_size request)
        (xq_max_contexts request) 0 0 0 [] d = Some (r', d'') \<and>
      (case r' of Inl e \<Rightarrow> True | Inr (s, v, ps) \<Rightarrow> int (length ps) = s \<and> ?bounded s)"
      using scan_loop_bounded [where count = length and body = "preview_body S X request"
          and page = "list_contexts_page X request" and b = "xq_batch_size request" and m = "xq_max_contexts request"
          and u = 0 and acc = "[]" and d = d] bounds page
      by (fastforce simp: preview_body_def returns_simps split: prod.splits sum.splits)
    then obtain r' d'' where prev: "scan_loop (list_contexts_page X request) (preview_body S X request)
        (xq_batch_size request) (xq_max_contexts request) 0 0 0 [] d = Some (r', d'')"
      "case r' of Inl e \<Rightarrow> True | Inr (s, v, ps) \<Rightarrow> int (length ps) = s \<and> ?bounded s" by blast
    have "\<exists>q d'. existing_run S X request dry_run d = Some (q, d') \<and> (\<forall>report. q = Inr report \<longrightarrow>
        int (length (xr_assessments report)) = xr_scanned report \<and> ?bounded (xr_scanned report))"
      using v Inr run by (cases r) (auto simp: existing_run_def run_report_def)
    moreover have "\<exists>q d'. preview_plans S X request d = Some (q, d') \<and> (\<forall>report. q = Inr report \<longrightarrow>
        int (length (xv_previews report)) = xv_scanned report \<and> ?bounded (xv_scanned report))"
      using v Inr prev by (cases r') (auto simp: preview_plans_def preview_report_def)
    ultimately show ?thesis by blast
  qed (use v in \<open>simp add: existing_run_def preview_plans_def\<close>)
qed


lemma paged_scan:
  assumes "stable_listing (list_contexts_page X request) L"
    and "fst (validate_existing_request request d) = Inr ()"
  shows "existing_run S X request dry_run d =
    Some (map_prod (map_sum id (\<lambda>t. run_report request dry_run
        (min (xq_max_contexts request) (int (length L)), int (length L), t))) id
      (for_contexts (run_body S X request dry_run) (take (nat (xq_max_contexts request)) L) no_totals d))"
proof -
  obtain v where v: "validate_existing_request request d = (Inr v, d)"
    using assms(2) validate_existing_request_result by (metis prod.collapse)
  then have "1 \<le> xq_max_contexts request" "1 \<le> xq_batch_size request"
    using validate_existing_request_result [OF v] by simp_all
  with v scan_loop_stable [OF assms(1), where s = 0 and t = 0 and b = "xq_batch_size request"
      and m = "xq_max_contexts request" and body = "run_body S X request dry_run" and acc = no_totals and d = d]
  show ?thesis
    by (simp add: existing_run_def prod.map_comp sum.map_comp comp_def id_def)
qed

text \<open>
  C0: Over a listing that does not change during the scan, the paged scan is the plain loop over the
  first \<open>max_contexts\<close> Contexts in listing order, whatever the batch size; it reports the size of
  the whole listing.
\<close>

theorem paged_scan_is_one_pass:
  assumes "stable_listing (list_contexts_page X request) L"
    and "fst (validate_existing_request request d) = Inr ()"
  shows "existing_run S X request dry_run d =
    Some (map_prod (map_sum id (\<lambda>t. run_report request dry_run
        (min (xq_max_contexts request) (int (length L)), int (length L), t))) id
      (for_contexts (run_body S X request dry_run) (take (nat (xq_max_contexts request)) L) no_totals d))"
  using assms by (rule paged_scan)

text \<open>
  C21: A scan only fills gaps. A dry run leaves the database exactly as it was. An apply appends
  overlays, one each, for Contexts that had none, and plans under keys that were free, and changes
  nothing else, also when it fails halfway; when it returns, the reported counts are the numbers of
  appended rows.
\<close>

theorem existing_memory_scans_only_fill_gaps:
  assumes "sql_round_trip S" and "services_read_only X" and "existing_run S X request dry_run d = Some (r, d')"
  shows "(dry_run \<longrightarrow> d' = d) \<and>
    (case r of Inl e \<Rightarrow> (\<exists>w p. backfilled d d' w p)
     | Inr report \<Rightarrow> backfilled d d' (xr_temporal_states_written report) (xr_plans_persisted report))"
proof -
  obtain v where v: "validate_existing_request request d = (v, d)" using validate_existing_request_result by (metis prod.exhaust)
  show ?thesis
  proof (cases v)
    case (Inl e)
    with v assms(3) have "r = Inl e" "d' = d" by (auto simp: existing_run_def)
    with backfilled_refl [of d d] show ?thesis by auto
  next
    case (Inr w)
    obtain r1 d1 where "scan_loop (list_contexts_page X request) (run_body S X request dry_run)
        (xq_batch_size request) (xq_max_contexts request) 0 0 0 no_totals d = Some (r1, d1)"
      "case r1 of Inl e \<Rightarrow> failed_scan dry_run d d1 | Inr (s, u, t) \<Rightarrow> scan_inv dry_run d t d1"
      using run_loop_outcome [OF assms(1,2)] by blast
    with v Inr assms(3) show ?thesis
      by (cases r1) (auto simp: existing_run_def failed_scan_def scan_inv_def run_report_def, blast+)
  qed
qed

text \<open>Overlays once written stay, so a second pass over the same Contexts finds every one.\<close>

lemma for_run_body_covers:
  assumes "sql_round_trip S" and "services_read_only X"
    and "for_contexts (run_body S X request False) cs t d = (Inr t', d')" and "scan_inv False old t d"
  shows "cr_id ` set cs \<subseteq> tp_context_id ` set (db_temporal d')"
proof -
  have "case for_contexts (run_body S X request False) cs t d of (Inl e, d1) \<Rightarrow> True
    | (Inr t', d1) \<Rightarrow> scan_inv False old t' d1 \<and> cr_id ` set cs \<subseteq> tp_context_id ` set (db_temporal d1)"
  proof (rule for_contexts_rule [where Q = "\<lambda>e d. True"
      and J = "\<lambda>seen t' d1. scan_inv False old t' d1 \<and> cr_id ` set seen \<subseteq> tp_context_id ` set (db_temporal d1)"])
    fix seen :: "ContextRecord list" and c t1 d1
    assume J: "scan_inv False old t1 d1 \<and> cr_id ` set seen \<subseteq> tp_context_id ` set (db_temporal d1)"
    obtain r d2 where run: "run_body S X request False t1 c d1 = (r, d2)" by (cases "run_body S X request False t1 c d1")
    show "case run_body S X request False t1 c d1 of (Inl e, d2) \<Rightarrow> True
      | (Inr t2, d2) \<Rightarrow> scan_inv False old t2 d2 \<and> cr_id ` set (seen @ [c]) \<subseteq> tp_context_id ` set (db_temporal d2)"
      using J run_body_outcome [OF assms(1,2), where dry_run = False and old = old and t = t1 and d = d1 and request = request and cx = c] run
        assess_context_outcome [OF assms(1,2), where request = request and dry_run = False
          and n = "length (st_assessments t1)" and cx = c and d = d1]
      by (auto simp: run_body_def bind_def ret_def backfilled_def split: prod.splits sum.splits)
  qed (use assms(4) in simp)
  with assms(3) show ?thesis by simp
qed

lemma for_run_body_again:
  assumes "sql_round_trip S" and "services_read_only X" and "scan_inv False old t d"
    and "cr_id ` set cs \<subseteq> tp_context_id ` set (db_temporal d)"
  shows "case for_contexts (run_body S X request False) cs t d of (Inl e, d1) \<Rightarrow> True
    | (Inr t', d1) \<Rightarrow> written t' = written t \<and> db_temporal d1 = db_temporal d"
proof -
  have "case for_contexts (run_body S X request False) cs t d of (Inl e, d1) \<Rightarrow> True
    | (Inr t', d1) \<Rightarrow> scan_inv False old t' d1 \<and> written t' = written t \<and> db_temporal d1 = db_temporal d"
  proof (rule for_contexts_rule [where Q = "\<lambda>e d. True"
      and J = "\<lambda>seen t' d1. scan_inv False old t' d1 \<and> written t' = written t \<and> db_temporal d1 = db_temporal d"])
    fix seen c t1 d1
    assume c: "c \<in> set cs" and J: "scan_inv False old t1 d1 \<and> written t1 = written t \<and> db_temporal d1 = db_temporal d"
    then have "cr_id c \<in> tp_context_id ` set (db_temporal d1)" using assms(4) by auto
    with J run_body_outcome [OF assms(1,2), where dry_run = False and old = old and t = t1 and d = d1 and request = request and cx = c]
    show "case run_body S X request False t1 c d1 of (Inl e, d2) \<Rightarrow> True
      | (Inr t2, d2) \<Rightarrow> scan_inv False old t2 d2 \<and> written t2 = written t \<and> db_temporal d2 = db_temporal d"
      by (auto split: prod.splits sum.splits)
  qed (use assms(3) in simp)
  then show ?thesis by (auto split: prod.splits sum.splits)
qed

text \<open>
  Backfilling is idempotent. After an apply has returned, every Context it scanned has an
  overlay, and a later apply over the same listing, with whatever services, writes no overlay and
  leaves the table of overlays as it is.
\<close>

theorem repeated_backfill_writes_no_overlay:
  assumes "sql_round_trip S" and "services_read_only X" and "services_read_only X'"
    and "stable_listing (list_contexts_page X request) L" and "stable_listing (list_contexts_page X' request) L"
    and "existing_apply S X request d = Some (Inr report, d')"
    and "existing_apply S X' request d' = Some (Inr report', d'')"
  shows "cr_id ` set (take (nat (xq_max_contexts request)) L) \<subseteq> tp_context_id ` set (db_temporal d') \<and>
    xr_temporal_states_written report' = 0 \<and> db_temporal d'' = db_temporal d'"
proof -
  have valid: "fst (validate_existing_request request e) = Inr ()" for e
  proof -
    have "fst (validate_existing_request request d) = Inr ()"
      using assms(6) by (auto simp: existing_apply_def existing_run_def split: prod.splits sum.splits)
    moreover have "fst (validate_existing_request request e) = fst (validate_existing_request request d)"
      by (auto simp: validate_existing_request_def raise_def ret_def split: option.split timestamp.split)
    ultimately show ?thesis by simp
  qed
  let ?cs = "take (nat (xq_max_contexts request)) L"
  obtain t where first: "for_contexts (run_body S X request False) ?cs no_totals d = (Inr t, d')"
    using assms(6) unfolding existing_apply_def paged_scan [OF assms(4) valid]
    by (cases "for_contexts (run_body S X request False) ?cs no_totals d"; cases "fst (for_contexts (run_body S X request False) ?cs no_totals d)") auto
  obtain t' where second: "for_contexts (run_body S X' request False) ?cs no_totals d' = (Inr t', d'')" "written t' = xr_temporal_states_written report'"
    using assms(7) unfolding existing_apply_def paged_scan [OF assms(5) valid]
    by (cases "for_contexts (run_body S X' request False) ?cs no_totals d'"; cases "fst (for_contexts (run_body S X' request False) ?cs no_totals d')")
      (auto simp: run_report_def)
  have covered: "cr_id ` set ?cs \<subseteq> tp_context_id ` set (db_temporal d')"
    by (rule for_run_body_covers [OF assms(1,2) first scan_inv_start])
  with for_run_body_again [OF assms(1,3) scan_inv_start covered, of request] second show ?thesis
    by (simp add: no_totals_def)
qed


text \<open>A vault with two memories of which the search finds nothing related.\<close>

definition sample_listing :: "ContextRecord list" where
  "sample_listing = [sample_context ''m1'' [], sample_context ''m2'' []]"

definition sample_existing_env :: "entity existing_env" where
  "sample_existing_env =
     \<lparr> xe_list = (\<lambda>args d. (Inr (take (nat (la_limit args)) (drop (nat (la_offset args)) sample_listing), 2), d)),
       xe_services = (\<lambda>_. sample_preview_env\<lparr>pe_search := \<lambda>_ d. (Inr (sample_pack []), d)\<rparr>),
       xe_aware = (\<lambda>_. None), xe_updated_at = (\<lambda>_. 9) \<rparr>"

definition sample_existing_request :: ExistingMemoryReconciliationRequest where
  "sample_existing_request =
     \<lparr> xq_project = None, xq_scope = None, xq_workspace_id = None, xq_include_archived = False, xq_max_contexts = 5,
       xq_batch_size = 1, xq_recall_limit = 20, xq_created_after = None, xq_created_before = None \<rparr>"

lemma sample_existing_services: "services_read_only sample_existing_env" "pages_bounded sample_existing_env"
  "stable_listing (list_contexts_page sample_existing_env sample_existing_request) sample_listing"
  by (auto simp: services_read_only_def search_reads_only_def sample_existing_env_def pages_bounded_def
      stable_listing_def list_contexts_page_def sample_listing_def sample_existing_request_def)

lemma sample_existing_valid: "fst (validate_existing_request sample_existing_request empty_db) = Inr ()"
  by (simp add: validate_existing_request_def sample_existing_request_def ret_def)

lemma sample_applied:
  "case existing_apply sample_sql sample_existing_env sample_existing_request empty_db of
     Some (Inr report, d') \<Rightarrow> xr_scanned report = 2 \<and> xr_temporal_states_written report = 2 | _ \<Rightarrow> False"
  unfolding existing_apply_def paged_scan [OF sample_existing_services(3) sample_existing_valid]
  by code_simp


lemma sample_applied_obtains:
  obtains report d' where "existing_apply sample_sql sample_existing_env sample_existing_request empty_db = Some (Inr report, d')"
    "xr_scanned report = 2" "xr_temporal_states_written report = 2"
  using sample_applied by (auto split: option.splits sum.splits)

theorem existing_memory_scans_end_witness:
  "\<exists>report d'. existing_run sample_sql sample_existing_env sample_existing_request False empty_db = Some (Inr report, d') \<and>
     int (length (xr_assessments report)) = xr_scanned report \<and> xr_scanned report \<le> 5"
proof (rule sample_applied_obtains)
  fix report d'
  assume "existing_apply sample_sql sample_existing_env sample_existing_request empty_db = Some (Inr report, d')"
  with existing_memory_scans_end [where S = sample_sql and X = sample_existing_env and request = sample_existing_request
      and dry_run = False and d = empty_db] sample_existing_services(2)
  show ?thesis by (auto simp: existing_apply_def arg_cong [OF sample_existing_request_def, of xq_max_contexts])
qed

theorem paged_scan_is_one_pass_witness:
  "case existing_run sample_sql sample_existing_env sample_existing_request True empty_db of
     Some (Inr report, d') \<Rightarrow> map xa_context_id (xr_assessments report) = [''m1'', ''m2''] \<and> xr_temporal_states_written report = 0
   | _ \<Rightarrow> False"
  unfolding paged_scan_is_one_pass [OF sample_existing_services(3) sample_existing_valid] by code_simp

theorem existing_memory_scans_only_fill_gaps_witness:
  "\<exists>report d'. existing_run sample_sql sample_existing_env sample_existing_request False empty_db = Some (Inr report, d') \<and>
     length (db_temporal d') = 2 \<and> backfilled empty_db d' 2 (xr_plans_persisted report)"
proof (rule sample_applied_obtains)
  fix report d'
  assume "existing_apply sample_sql sample_existing_env sample_existing_request empty_db = Some (Inr report, d')"
    and "xr_temporal_states_written report = 2"
  with existing_memory_scans_only_fill_gaps [OF sample_sql_round_trip sample_existing_services(1), of sample_existing_request False empty_db "Inr report" d']
  show ?thesis by (auto simp: existing_apply_def backfilled_def empty_db_def)
qed

theorem repeated_backfill_writes_no_overlay_witness:
  "\<exists>report d' r d''. existing_apply sample_sql sample_existing_env sample_existing_request empty_db = Some (Inr report, d') \<and>
     existing_apply sample_sql sample_existing_env sample_existing_request d' = Some (Inr r, d'') \<and>
     xr_temporal_states_written report = 2 \<and> xr_temporal_states_written r = 0 \<and> db_temporal d'' = db_temporal d'"
proof (rule sample_applied_obtains)
  fix report d'
  assume first: "existing_apply sample_sql sample_existing_env sample_existing_request empty_db = Some (Inr report, d')"
    and two: "xr_temporal_states_written report = 2"
  have "case existing_apply sample_sql sample_existing_env sample_existing_request empty_db of
      Some (Inr report, d') \<Rightarrow> (case for_contexts (run_body sample_sql sample_existing_env sample_existing_request False)
          (take 5 sample_listing) no_totals d' of (Inr t, d'') \<Rightarrow> True | _ \<Rightarrow> False)
    | _ \<Rightarrow> False"
    unfolding existing_apply_def paged_scan [OF sample_existing_services(3) sample_existing_valid] by code_simp
  with first obtain t d'' where second: "for_contexts (run_body sample_sql sample_existing_env sample_existing_request False)
      (take 5 sample_listing) no_totals d' = (Inr t, d'')" by (auto split: prod.splits sum.splits)
  have "fst (validate_existing_request sample_existing_request d') = Inr ()"
    by (simp add: validate_existing_request_def sample_existing_request_def ret_def)
  from paged_scan [OF sample_existing_services(3) this, where S = sample_sql and dry_run = False] second
  obtain r where again: "existing_apply sample_sql sample_existing_env sample_existing_request d' = Some (Inr r, d'')"
    by (auto simp: existing_apply_def arg_cong [OF sample_existing_request_def, of xq_max_contexts])
  from repeated_backfill_writes_no_overlay [OF sample_sql_round_trip sample_existing_services(1,1,3,3) first again] first again two
  show ?thesis by blast
qed

end
