(* ===== verification/Compact_Model.thy ===== *)
theory Compact_Model
  imports Reconciliation_Model
begin

text \<open>
  Memory Compacts: the entity and its source references (\<open>memory_compact.py\<close>), lifecycle states and
  review verdicts (\<open>memory_compact_enums.py\<close>) and the creation contract
  (\<open>memory_compact_repository_contracts.py\<close>), together with the text operations of the standard
  library that the Compact modules use: lines, replacement, search and regular-expression words.
\<close>

section \<open>Entities\<close>

datatype MemoryCompactStatus = COMPACT_DRAFT | COMPACT_CURRENT | COMPACT_SUPERSEDED | COMPACT_ARCHIVED

fun compact_status_value :: "MemoryCompactStatus \<Rightarrow> str" where
  "compact_status_value COMPACT_DRAFT = ''DRAFT''"
| "compact_status_value COMPACT_CURRENT = ''CURRENT''"
| "compact_status_value COMPACT_SUPERSEDED = ''SUPERSEDED''"
| "compact_status_value COMPACT_ARCHIVED = ''ARCHIVED''"

datatype MemoryCompactReviewVerdict = VERDICT_PASS | VERDICT_NEEDS_REVISION | VERDICT_BLOCKED

fun verdict_value :: "MemoryCompactReviewVerdict \<Rightarrow> str" where
  "verdict_value VERDICT_PASS = ''pass''"
| "verdict_value VERDICT_NEEDS_REVISION = ''needs_revision''"
| "verdict_value VERDICT_BLOCKED = ''blocked''"

record MemoryCompactSourceRef =
  csr_id :: str
  csr_compact_id :: str
  csr_source_type :: str
  csr_source_id :: str
  csr_title :: str
  csr_detail_path :: str
  csr_source_hash :: "str option"

record MemoryCompact =
  mp_id :: str
  mp_project :: "str option"
  mp_covered_from :: instant
  mp_covered_to :: instant
  mp_markdown_body :: str
  mp_status :: MemoryCompactStatus
  mp_source_refs :: "MemoryCompactSourceRef list"
  mp_created_at :: instant
  mp_updated_at :: instant
  mp_archived_at :: "instant option"
  mp_review_verdict :: "MemoryCompactReviewVerdict option"
  mp_review_score :: "int option"
  mp_review_max_score :: "int option"
  mp_reviewed_at :: "instant option"
  mp_metadata_warnings :: "str list"
  mp_deduplicated :: bool
  mp_source_set_hash :: "str option"
  mp_compaction_policy_version :: "str option"
  mp_generation_revision :: "int option"
  mp_generated_at :: "instant option"

definition source_count :: "MemoryCompact \<Rightarrow> nat" where
  "source_count c = length (mp_source_refs c)"

definition expansion_refs :: "MemoryCompact \<Rightarrow> str list" where
  "expansion_refs c =
     fromkeys (filter (\<lambda>p. p \<noteq> []) (map (\<lambda>r. strip (csr_detail_path r)) (mp_source_refs c)))"

definition provenance_complete :: "MemoryCompact \<Rightarrow> bool" where
  "provenance_complete c \<longleftrightarrow>
     (case mp_source_set_hash c of None \<Rightarrow> False | Some h \<Rightarrow> h \<noteq> []) \<and>
     (case mp_compaction_policy_version c of None \<Rightarrow> False | Some v \<Rightarrow> v \<noteq> []) \<and>
     mp_generation_revision c \<noteq> None \<and> mp_generated_at c \<noteq> None"

record MemoryCompactSourceRefCreate =
  crc_source_type :: str
  crc_source_id :: str
  crc_title :: str
  crc_detail_path :: str
  crc_source_hash :: "str option"

record MemoryCompactCreate =
  mcc_project :: "str option"
  mcc_covered_from :: instant
  mcc_covered_to :: instant
  mcc_markdown_body :: str
  mcc_status :: MemoryCompactStatus
  mcc_source_refs :: "MemoryCompactSourceRefCreate list"
  mcc_review_verdict :: "MemoryCompactReviewVerdict option"
  mcc_review_score :: "int option"
  mcc_review_max_score :: "int option"
  mcc_reviewed_at :: "instant option"

text \<open>
  The exceptions of the Compact modules: the domain errors with their messages, the \<open>ValueError\<close> of an
  identifier that is no file name, and a failing file operation.
\<close>

datatype compact_error = MemoryCompactNotFoundError str | MemoryCompactValidationError str | CompactIdError | CompactOSError

section \<open>Text\<close>

abbreviation newline :: str where "newline \<equiv> [CHR 0x0A]"
abbreviation quote :: char where "quote \<equiv> CHR 0x27"
abbreviation dquote :: char where "dquote \<equiv> CHR 0x22"

text \<open>The line boundaries of \<open>str.splitlines\<close> in the Latin-1 range; CR LF counts as one.\<close>

definition is_linebreak :: "char \<Rightarrow> bool" where
  "is_linebreak c = (let n = (of_char c :: nat) in (10 \<le> n \<and> n \<le> 13) \<or> (28 \<le> n \<and> n \<le> 30) \<or> n = 133)"

fun splitlines_acc :: "str \<Rightarrow> str \<Rightarrow> str list" where
  "splitlines_acc cur [] = (if cur = [] then [] else [rev cur])"
| "splitlines_acc cur (c # cs) =
     (if is_linebreak c
      then rev cur # splitlines_acc [] (if c = CHR 0x0D \<and> cs \<noteq> [] \<and> hd cs = CHR 0x0A then tl cs else cs)
      else splitlines_acc (c # cur) cs)"

definition splitlines :: "str \<Rightarrow> str list" where
  "splitlines s = splitlines_acc [] s"

text \<open>\<open>s.split(c)\<close> for a separator of one character.\<close>

fun split_char :: "char \<Rightarrow> str \<Rightarrow> str list" where
  "split_char sep [] = [[]]"
| "split_char sep (c # cs) =
     (if c = sep then [] # split_char sep cs
      else case split_char sep cs of [] \<Rightarrow> [[c]] | w # ws \<Rightarrow> (c # w) # ws)"

text \<open>\<open>s.replace(old, new)\<close> for a non-empty \<open>old\<close>, and \<open>sub in s\<close>.\<close>

fun replace_all :: "str \<Rightarrow> str \<Rightarrow> str \<Rightarrow> str" where
  "replace_all old new [] = []"
| "replace_all old new (c # cs) =
     (if old \<noteq> [] \<and> starts_with (c # cs) old then new @ replace_all old new (drop (length old - 1) cs)
      else c # replace_all old new cs)"

fun contains :: "str \<Rightarrow> str \<Rightarrow> bool" where
  "contains [] sub = (sub = [])"
| "contains (c # cs) sub = (starts_with (c # cs) sub \<or> contains cs sub)"

definition lstrip :: "str \<Rightarrow> str" where
  "lstrip s = dropWhile is_space s"

definition rstrip_newlines :: "str \<Rightarrow> str" where
  "rstrip_newlines s = rev (dropWhile (\<lambda>c. c = CHR 0x0A) (rev s))"

text \<open>
  \<open>\w\<close> in the Latin-1 range: letters, digits, other numeric characters and the underscore; and the
  maximal runs of such characters.
\<close>

definition is_word_char :: "char \<Rightarrow> bool" where
  "is_word_char c = (let n = (of_char c :: nat) in
     (48 \<le> n \<and> n \<le> 57) \<or> (65 \<le> n \<and> n \<le> 90) \<or> n = 95 \<or> (97 \<le> n \<and> n \<le> 122) \<or>
     n \<in> {170, 178, 179, 181, 185, 186, 188, 189, 190} \<or> (192 \<le> n \<and> n \<noteq> 215 \<and> n \<noteq> 247))"

fun runs_acc :: "(char \<Rightarrow> bool) \<Rightarrow> str \<Rightarrow> str \<Rightarrow> str list" where
  "runs_acc P cur [] = (if cur = [] then [] else [rev cur])"
| "runs_acc P cur (c # cs) =
     (if P c then runs_acc P (c # cur) cs
      else (if cur = [] then [] else [rev cur]) @ runs_acc P [] cs)"

definition words :: "str \<Rightarrow> str list" where
  "words s = runs_acc is_word_char [] s"

text \<open>\<open>re.sub(r"[^a-z0-9]+", " ", value.lower()).strip()\<close>.\<close>

definition is_slug_char :: "char \<Rightarrow> bool" where
  "is_slug_char c = (let n = (of_char c :: nat) in (48 \<le> n \<and> n \<le> 57) \<or> (97 \<le> n \<and> n \<le> 122))"

definition slug_words :: "str \<Rightarrow> str" where
  "slug_words s = join '' '' (runs_acc is_slug_char [] (lower s))"

section \<open>Character classes bit by bit\<close>

text \<open>Code equations for the character classes, so that evaluation does not go through numbers.\<close>

lemma is_space_code [code]:
  "is_space (Char b0 b1 b2 b3 b4 b5 b6 b7) \<longleftrightarrow>
     (\<not> b7 \<and> \<not> b6 \<and> \<not> b5 \<and> (if b4 then b3 \<and> b2 else b3 \<and> (b0 \<or> b1 \<or> b2) \<and> \<not> (b1 \<and> b2))) \<or>
     (\<not> b6 \<and> \<not> b4 \<and> \<not> b3 \<and> (if b5 then \<not> b2 \<and> \<not> b1 \<and> \<not> b0 else b7 \<and> b2 \<and> \<not> b1 \<and> b0))"
  unfolding is_space_def Let_def of_char_Char
  by (cases b0; cases b1; cases b2; cases b3; cases b4; cases b5; cases b6; cases b7) simp_all

lemma is_linebreak_code [code]:
  "is_linebreak (Char b0 b1 b2 b3 b4 b5 b6 b7) \<longleftrightarrow>
     (\<not> b7 \<and> \<not> b6 \<and> \<not> b5 \<and> b3 \<and> (if b4 then b2 \<and> \<not> (b1 \<and> b0) else b1 \<noteq> b2)) \<or>
     (b7 \<and> \<not> b6 \<and> \<not> b5 \<and> \<not> b4 \<and> \<not> b3 \<and> b2 \<and> \<not> b1 \<and> b0)"
  unfolding is_linebreak_def Let_def of_char_Char
  by (cases b0; cases b1; cases b2; cases b3; cases b4; cases b5; cases b6; cases b7) simp_all

lemma upper_latin1_code [code]:
  "upper_latin1 (Char b0 b1 b2 b3 b4 b5 b6 b7) \<longleftrightarrow> b6 \<and> \<not> b5 \<and>
     (if b7 then \<not> (b4 \<and> b3 \<and> b2 \<and> b1 \<and> b0) \<and> \<not> (b4 \<and> \<not> b3 \<and> b2 \<and> b1 \<and> b0)
      else (b0 \<or> b1 \<or> b2 \<or> b3 \<or> b4) \<and> \<not> (b4 \<and> b3 \<and> (b2 \<or> (b1 \<and> b0))))"
  unfolding upper_latin1_def Let_def of_char_Char
  by (cases b0; cases b1; cases b2; cases b3; cases b4; cases b5; cases b6; cases b7) simp_all

lemma lower_char_code [code]:
  "lower_char (Char b0 b1 b2 b3 b4 b5 b6 b7) =
     (if upper_latin1 (Char b0 b1 b2 b3 b4 b5 b6 b7) then Char b0 b1 b2 b3 b4 True b6 b7 else Char b0 b1 b2 b3 b4 b5 b6 b7)"
proof -
  have "(of_char (Char b0 b1 b2 b3 b4 False b6 b7) :: nat) + 32 = of_char (Char b0 b1 b2 b3 b4 True b6 b7)"
    unfolding of_char_Char by (cases b0; cases b1; cases b2; cases b3; cases b4; cases b6; cases b7) simp_all
  then have plus: "char_of (of_char (Char b0 b1 b2 b3 b4 False b6 b7) + 32 :: nat) = Char b0 b1 b2 b3 b4 True b6 b7"
    by (metis char_of_char)
  show ?thesis
  proof (cases "upper_latin1 (Char b0 b1 b2 b3 b4 b5 b6 b7)")
    case True
    then have "b5 = False" by (simp add: upper_latin1_code)
    with True show ?thesis by (simp only: lower_char_def plus if_True)
  qed (simp only: lower_char_def if_False)
qed

lemma is_word_char_code [code]:
  "is_word_char (Char b0 b1 b2 b3 b4 b5 b6 b7) \<longleftrightarrow>
     (if b7 then (if b6 then \<not> (b4 \<and> \<not> b3 \<and> b2 \<and> b1 \<and> b0)
        else b5 \<and> (if b4 then (if b3 then (if b2 then \<not> (b1 \<and> b0) else b1 \<noteq> b0) else (if b2 then \<not> b1 \<and> b0 else b1))
          else b3 \<and> \<not> b2 \<and> b1 \<and> \<not> b0))
      else if b6 then (b0 \<or> b1 \<or> b2 \<or> b3 \<or> b4) \<and> \<not> (b4 \<and> b3 \<and> (b2 \<or> (b1 \<and> b0))) \<or> (\<not> b5 \<and> b4 \<and> b3 \<and> b2 \<and> b1 \<and> b0)
      else b5 \<and> b4 \<and> \<not> (b3 \<and> (b2 \<or> b1)))"
  unfolding is_word_char_def Let_def of_char_Char
  by (cases b0; cases b1; cases b2; cases b3; cases b4; cases b5; cases b6; cases b7) simp_all

lemma is_slug_char_code [code]:
  "is_slug_char (Char b0 b1 b2 b3 b4 b5 b6 b7) \<longleftrightarrow> \<not> b7 \<and> b5 \<and>
     (if b6 then (b0 \<or> b1 \<or> b2 \<or> b3 \<or> b4) \<and> \<not> (b4 \<and> b3 \<and> (b2 \<or> (b1 \<and> b0))) else b4 \<and> \<not> (b3 \<and> (b2 \<or> b1)))"
  unfolding is_slug_char_def Let_def of_char_Char
  by (cases b0; cases b1; cases b2; cases b3; cases b4; cases b5; cases b6; cases b7) simp_all

section \<open>Facts about lines\<close>

definition one_line :: "str \<Rightarrow> bool" where
  "one_line s \<longleftrightarrow> (\<forall>c\<in>set s. \<not> is_linebreak c)"

lemma one_line_simps [simp]:
  "one_line []" "one_line (c # s) \<longleftrightarrow> \<not> is_linebreak c \<and> one_line s" "one_line (s @ t) \<longleftrightarrow> one_line s \<and> one_line t"
  by (auto simp: one_line_def)

lemma splitlines_acc_line:
  "one_line s \<Longrightarrow> splitlines_acc cur (s @ CHR 0x0A # rest) = (rev cur @ s) # splitlines_acc [] rest"
  by (induction s arbitrary: cur) (auto simp: is_linebreak_def)

text \<open>Lines that end with a newline each are read back one by one.\<close>

lemma splitlines_lines:
  "\<forall>l\<in>set ls. one_line l \<Longrightarrow> splitlines (concat (map (\<lambda>l. l @ newline) ls) @ rest) = ls @ splitlines rest"
  unfolding splitlines_def
  by (induction ls) (auto simp: splitlines_acc_line [of _ "[]", simplified])

lemma join_newline: "ls \<noteq> [] \<Longrightarrow> join newline ls @ newline = concat (map (\<lambda>l. l @ newline) ls)"
  by (induction newline ls rule: join.induct) auto

lemma split_char_nonempty [simp]: "split_char sep s \<noteq> []"
  by (induction s) (auto split: list.split)

lemma join_split_char: "join [sep] (split_char sep s) = s"
proof (induction s)
  case (Cons c cs)
  obtain w ws where "split_char sep cs = w # ws" by (cases "split_char sep cs") simp_all
  with Cons show ?case by (cases ws) auto
qed simp

lemma split_char_parts: "w \<in> set (split_char sep s) \<Longrightarrow> set w \<subseteq> set s - {sep}"
proof (induction s arbitrary: w)
  case (Cons c cs)
  then show ?case by (fastforce split: if_splits list.splits)
qed simp

text \<open>Doubling every quote and undoing it.\<close>

lemma replace_all_no_match: "old \<noteq> [] \<Longrightarrow> hd old \<notin> set s \<Longrightarrow> replace_all old new s = s"
  by (induction s) (auto simp: starts_with_iff neq_Nil_conv)

lemma unquote_quote: "replace_all [quote, quote] [quote] (replace_all [quote] [quote, quote] s) = s"
  by (induction s) (auto simp: starts_with_iff)

lemma quote_set: "set (replace_all [quote] [quote, quote] s) = set s"
  by (induction s) (auto simp: starts_with_iff)

lemma rstrip_newlines_idem [simp]: "rstrip_newlines (rstrip_newlines s) = rstrip_newlines s"
  by (simp add: rstrip_newlines_def dropWhile_idem)

end
