(* ===== verification/Compact_Markdown.thy ===== *)
theory Compact_Markdown
  imports Compact_Model
begin

text \<open>
  Memory Compacts as Markdown notes: the serializer (\<open>obsidian_markdown_serializer.py\<close>) and the
  hand-written frontmatter parser (\<open>obsidian_markdown_parser.py\<close>).

  Parameters are the JSON codec (orjson), the ISO text of datetimes and the text Python prints for a
  JSON value. Their documented behaviour is the hypothesis \<open>note_codec_ok\<close>.
\<close>

section \<open>Values\<close>

datatype CompactFrontmatterValue = FmNone | FmBool bool | FmStr str | FmList "str list"

type_synonym compact_frontmatter = "(str \<times> CompactFrontmatterValue) list"

record note_codec =
  nc_dumps :: "json \<Rightarrow> str"
  nc_loads :: "str \<Rightarrow> json option"
  nc_str :: "json \<Rightarrow> str"
  nc_isoformat :: "instant \<Rightarrow> str"
  nc_fromisoformat :: "str \<Rightarrow> instant option"

definition FRONTMATTER_DELIMITER :: str where "FRONTMATTER_DELIMITER = ''---''"
definition ALEXANDRIA_MEMORY_COMPACT_TYPE :: str where "ALEXANDRIA_MEMORY_COMPACT_TYPE = ''memory_compact''"
definition DEFAULT_MEMORY_COMPACT_TAGS :: "str list" where
  "DEFAULT_MEMORY_COMPACT_TAGS = [''alexandria'', ''memory-compact'']"
definition DEFAULT_MEMORY_COMPACT_SOURCE :: str where "DEFAULT_MEMORY_COMPACT_SOURCE = ''heterarchy-alexandria''"
definition UPDATED_AT_KEYS :: "str list" where "UPDATED_AT_KEYS = [''updated_at'', ''updated'', ''modified'']"

section \<open>Serializer\<close>

definition note_isoformat :: "note_codec \<Rightarrow> instant \<Rightarrow> str" where
  "note_isoformat C t = replace_all ''+00:00'' ''Z'' (nc_isoformat C t)"

definition quoted_yaml_string :: "str \<Rightarrow> str" where
  "quoted_yaml_string s = [quote] @ replace_all [quote] [quote, quote] s @ [quote]"

definition bracketed :: "str \<Rightarrow> bool" where
  "bracketed s \<longleftrightarrow> starts_with s ''['' \<and> ends_with s '']''"

text \<open>\<open>_yaml_scalar\<close>, which the code never calls with a list.\<close>

fun yaml_scalar :: "CompactFrontmatterValue \<Rightarrow> str" where
  "yaml_scalar FmNone = ''null''"
| "yaml_scalar (FmBool b) = (if b then ''true'' else ''false'')"
| "yaml_scalar (FmStr s) = (if bracketed s then s else quoted_yaml_string s)"
| "yaml_scalar (FmList xs) = []"

fun yaml_property_lines :: "str \<times> CompactFrontmatterValue \<Rightarrow> str list" where
  "yaml_property_lines (key, FmList xs) =
     (if xs = [] then [key @ '': []''] else (key @ '':'') # map (\<lambda>item. ''  - '' @ quoted_yaml_string item) xs)"
| "yaml_property_lines (key, v) = [key @ '': '' @ yaml_scalar v]"

definition obsidian_source_link :: "str \<Rightarrow> str option" where
  "obsidian_source_link detail_path =
     (let normalized = dropWhile (\<lambda>c. c = CHR ''/'') (strip detail_path) in
      if \<not> ends_with (lower normalized) ''.md'' \<or> contains normalized ''://'' then None
      else Some (''[['' @ take (length normalized - 3) normalized @ '']]''))"

definition source_ref_json :: "MemoryCompactSourceRef \<Rightarrow> json" where
  "source_ref_json r = JObj
     [(''id'', JStr (csr_id r)), (''compact_id'', JStr (csr_compact_id r)), (''source_type'', JStr (csr_source_type r)),
      (''source_id'', JStr (csr_source_id r)), (''title'', JStr (csr_title r)), (''detail_path'', JStr (csr_detail_path r)),
      (''source_hash'', case csr_source_hash r of None \<Rightarrow> JNull | Some h \<Rightarrow> JStr h)]"

definition optional_property :: "('a \<Rightarrow> str) \<Rightarrow> 'a option \<Rightarrow> CompactFrontmatterValue" where
  "optional_property f v = (case v of None \<Rightarrow> FmNone | Some x \<Rightarrow> FmStr (f x))"

definition source_ref_links :: "MemoryCompactSourceRef list \<Rightarrow> str list" where
  "source_ref_links refs = concat (map (\<lambda>r. case obsidian_source_link (csr_detail_path r) of None \<Rightarrow> [] | Some l \<Rightarrow> [l]) refs)"

definition compact_properties :: "note_codec \<Rightarrow> MemoryCompact \<Rightarrow> compact_frontmatter" where
  "compact_properties C c =
     [(''alexandria_type'', FmStr ALEXANDRIA_MEMORY_COMPACT_TYPE),
      (''id'', FmStr (mp_id c)),
      (''tags'', FmList DEFAULT_MEMORY_COMPACT_TAGS),
      (''status'', FmStr (compact_status_value (mp_status c))),
      (''source'', FmStr DEFAULT_MEMORY_COMPACT_SOURCE),
      (''project'', optional_property id (mp_project c)),
      (''covered_from'', FmStr (note_isoformat C (mp_covered_from c))),
      (''covered_to'', FmStr (note_isoformat C (mp_covered_to c))),
      (''created_at'', FmStr (note_isoformat C (mp_created_at c))),
      (''updated_at'', FmStr (note_isoformat C (mp_updated_at c))),
      (''archived_at'', optional_property (note_isoformat C) (mp_archived_at c)),
      (''review_verdict'', optional_property verdict_value (mp_review_verdict c)),
      (''review_score'', optional_property int_text (mp_review_score c)),
      (''review_max_score'', optional_property int_text (mp_review_max_score c)),
      (''reviewed_at'', optional_property (note_isoformat C) (mp_reviewed_at c)),
      (''source_set_hash'', optional_property id (mp_source_set_hash c)),
      (''compaction_policy_version'', optional_property id (mp_compaction_policy_version c)),
      (''generation_revision'', optional_property int_text (mp_generation_revision c)),
      (''generated_at'', optional_property (note_isoformat C) (mp_generated_at c)),
      (''source_refs'', FmStr (nc_dumps C (JList (map source_ref_json (mp_source_refs c))))),
      (''source_ref_links'', FmList (source_ref_links (mp_source_refs c)))]"

definition serialize_compact :: "note_codec \<Rightarrow> MemoryCompact \<Rightarrow> str" where
  "serialize_compact C c =
     join newline ([FRONTMATTER_DELIMITER] @ concat (map yaml_property_lines (compact_properties C c)) @ [FRONTMATTER_DELIMITER]) @
     newline @ rstrip_newlines (mp_markdown_body c) @ newline"

section \<open>Parser\<close>

definition parse_yaml_scalar :: "str \<Rightarrow> CompactFrontmatterValue" where
  "parse_yaml_scalar s =
     (if s \<in> {[], ''null'', ''Null'', ''NULL'', ''~''} then FmNone
      else if s \<in> {''true'', ''True'', ''TRUE''} then FmBool True
      else if s \<in> {''false'', ''False'', ''FALSE''} then FmBool False
      else if length s \<ge> 2 \<and> hd s = quote \<and> last s = quote
      then FmStr (replace_all [quote, quote] [quote] (butlast (tl s)))
      else if length s \<ge> 2 \<and> hd s = dquote \<and> last s = dquote then FmStr (butlast (tl s))
      else FmStr s)"

definition parse_yaml_value :: "str \<Rightarrow> CompactFrontmatterValue" where
  "parse_yaml_value s =
     (if bracketed s then
        (let inner = strip (butlast (tl s)) in
         if inner = [] then FmList []
         else if \<not> starts_with inner ''{'' \<and> \<not> starts_with inner ''[''
         then FmList (concat (map (\<lambda>raw. case parse_yaml_scalar (strip raw) of
             FmStr item \<Rightarrow> if item = [] then [] else [item] | _ \<Rightarrow> []) (split_char (CHR '','') inner)))
         else parse_yaml_scalar s)
      else parse_yaml_scalar s)"

fun frontmatter_loop :: "str option \<Rightarrow> compact_frontmatter \<Rightarrow> str list \<Rightarrow> compact_frontmatter" where
  "frontmatter_loop active d [] = d"
| "frontmatter_loop active d (line # ls) =
     (let stripped = strip line in
      if stripped = [] \<or> starts_with stripped ''#'' then frontmatter_loop active d ls
      else if active \<noteq> None \<and> starts_with stripped ''-'' then
        (case map_of d (the active) of
           Some (FmList items) \<Rightarrow>
             (case parse_yaml_scalar (strip (tl stripped)) of
                FmStr item \<Rightarrow> frontmatter_loop active (dict_set (the active) (FmList (items @ [item])) d) ls
              | _ \<Rightarrow> frontmatter_loop active d ls)
         | _ \<Rightarrow> frontmatter_loop active d ls)
      else if line \<noteq> lstrip line \<or> CHR '':'' \<notin> set line then frontmatter_loop None d ls
      else
        (let key = strip (takeWhile (\<lambda>c. c \<noteq> CHR '':'') line);
             raw = strip (tl (dropWhile (\<lambda>c. c \<noteq> CHR '':'') line))
         in if key = [] then frontmatter_loop None d ls
            else if raw = [] then frontmatter_loop (Some key) (dict_set key (FmList []) d) ls
            else frontmatter_loop None (dict_set key (parse_yaml_value raw) d) ls))"

definition is_delimiter :: "str \<Rightarrow> bool" where
  "is_delimiter line \<longleftrightarrow> strip line = FRONTMATTER_DELIMITER"

definition read_frontmatter :: "str \<Rightarrow> compact_frontmatter \<times> str" where
  "read_frontmatter note =
     (case splitlines note of
        [] \<Rightarrow> ([], note)
      | first # rest \<Rightarrow>
          if \<not> is_delimiter first \<or> \<not> list_ex is_delimiter rest then ([], note)
          else (frontmatter_loop None [] (takeWhile (\<lambda>l. \<not> is_delimiter l) rest),
                join newline (tl (dropWhile (\<lambda>l. \<not> is_delimiter l) rest))))"

definition frontmatter_text :: "compact_frontmatter \<Rightarrow> str \<Rightarrow> str option" where
  "frontmatter_text d key = (case map_of d key of Some (FmStr s) \<Rightarrow> Some s | _ \<Rightarrow> None)"

text \<open>\<open>None\<close> stands for the \<open>KeyError\<close>, \<open>TypeError\<close> or \<open>ValueError\<close> that the caller turns into None.\<close>

definition required_text :: "compact_frontmatter \<Rightarrow> str \<Rightarrow> str option" where
  "required_text d key = (case map_of d key of Some (FmStr s) \<Rightarrow> if s = [] then None else Some s | _ \<Rightarrow> None)"

text \<open>
  \<open>MemoryCompactStatus(value.strip().upper())\<close>. Only ASCII letters of the Latin-1 range have an
  upper case inside the names, so upper case is taken on them alone.
\<close>

definition ascii_upper :: "char \<Rightarrow> char" where
  "ascii_upper c = (if 97 \<le> (of_char c :: nat) \<and> (of_char c :: nat) \<le> 122 then char_of (of_char c - 32 :: nat) else c)"

definition status_from_frontmatter :: "compact_frontmatter \<Rightarrow> MemoryCompactStatus option" where
  "status_from_frontmatter d =
     Option.bind (required_text d ''status'') (\<lambda>s.
       find (\<lambda>v. compact_status_value v = map ascii_upper (strip s))
         [COMPACT_DRAFT, COMPACT_CURRENT, COMPACT_SUPERSEDED, COMPACT_ARCHIVED])"

definition parse_datetime :: "note_codec \<Rightarrow> str \<Rightarrow> instant option" where
  "parse_datetime C s = nc_fromisoformat C (replace_all ''Z'' ''+00:00'' s)"

fun datetime_from_frontmatter :: "note_codec \<Rightarrow> compact_frontmatter \<Rightarrow> str list \<Rightarrow> instant option \<Rightarrow> instant option" where
  "datetime_from_frontmatter C d [] fallback = fallback"
| "datetime_from_frontmatter C d (key # ks) fallback =
     (case map_of d key of
        Some (FmStr s) \<Rightarrow> if s = [] then datetime_from_frontmatter C d ks fallback else parse_datetime C s
      | _ \<Rightarrow> datetime_from_frontmatter C d ks fallback)"

text \<open>An optional property: absent or empty is None, otherwise it has to parse.\<close>

definition optional_parsed :: "(str \<Rightarrow> 'a option) \<Rightarrow> str option \<Rightarrow> 'a option option" where
  "optional_parsed f v = (case v of None \<Rightarrow> Some None | Some s \<Rightarrow> if s = [] then Some None else map_option Some (f s))"

definition optional_note_datetime :: "note_codec \<Rightarrow> str option \<Rightarrow> instant option option" where
  "optional_note_datetime C v = optional_parsed (parse_datetime C) v"

definition optional_int :: "str option \<Rightarrow> int option option" where
  "optional_int v = optional_parsed py_int v"

definition optional_review_verdict :: "str option \<Rightarrow> MemoryCompactReviewVerdict option option" where
  "optional_review_verdict v =
     optional_parsed (\<lambda>s. find (\<lambda>w. verdict_value w = s) [VERDICT_PASS, VERDICT_NEEDS_REVISION, VERDICT_BLOCKED]) v"

definition optional_string :: "json \<Rightarrow> str option" where
  "optional_string v = (case v of JStr s \<Rightarrow> if strip s = [] then None else Some (strip s) | _ \<Rightarrow> None)"

text \<open>\<open>bool(value)\<close> of a JSON value, and \<open>str(value or default)\<close>.\<close>

fun json_true :: "json \<Rightarrow> bool" where
  "json_true JNull = False"
| "json_true (JBool b) = b"
| "json_true (JInt i) = (i \<noteq> 0)"
| "json_true (JFloat r) = (r \<noteq> 0)"
| "json_true (JStr s) = (s \<noteq> [])"
| "json_true (JTime t) = True"
| "json_true (JList xs) = (xs \<noteq> [])"
| "json_true (JObj kvs) = (kvs \<noteq> [])"

definition text_or :: "note_codec \<Rightarrow> str \<Rightarrow> json \<Rightarrow> str" where
  "text_or C dflt v = (if json_true v then (case v of JStr s \<Rightarrow> s | _ \<Rightarrow> nc_str C v) else dflt)"

definition source_ref_from_json :: "note_codec \<Rightarrow> str \<Rightarrow> str \<Rightarrow> json \<Rightarrow> MemoryCompactSourceRef list" where
  "source_ref_from_json C fresh compact_id item = (case item of
       JObj payload \<Rightarrow>
         [\<lparr> csr_id = text_or C fresh (json_get ''id'' payload),
            csr_compact_id = text_or C compact_id (json_get ''compact_id'' payload),
            csr_source_type = text_or C [] (json_get ''source_type'' payload),
            csr_source_id = text_or C [] (json_get ''source_id'' payload),
            csr_title = text_or C [] (json_get ''title'' payload),
            csr_detail_path = text_or C [] (json_get ''detail_path'' payload),
            csr_source_hash = optional_string (json_get ''source_hash'' payload) \<rparr>]
     | _ \<Rightarrow> [])"

definition source_refs_from_json :: "note_codec \<Rightarrow> (nat \<Rightarrow> str) \<Rightarrow> str \<Rightarrow> str \<Rightarrow> MemoryCompactSourceRef list" where
  "source_refs_from_json C fresh compact_id s =
     (if s = [] then [] else case nc_loads C s of
        Some (JList items) \<Rightarrow> concat (map (\<lambda>(n, item). source_ref_from_json C (fresh n) compact_id item) (enumerate 0 items))
      | _ \<Rightarrow> [])"

definition source_refs_from_frontmatter ::
  "note_codec \<Rightarrow> (nat \<Rightarrow> nat \<Rightarrow> str) \<Rightarrow> str \<Rightarrow> CompactFrontmatterValue option \<Rightarrow> MemoryCompactSourceRef list" where
  "source_refs_from_frontmatter C fresh compact_id v = (case v of
       Some (FmStr s) \<Rightarrow> source_refs_from_json C (fresh 0) compact_id s
     | Some (FmList items) \<Rightarrow> concat (map (\<lambda>(n, item). let normalized = strip item in
           if normalized = [] then []
           else source_refs_from_json C (fresh n) compact_id
             (if starts_with normalized ''['' then normalized else ''['' @ normalized @ '']'')) (enumerate 0 items))
     | _ \<Rightarrow> [])"

definition fm_truthy :: "CompactFrontmatterValue option \<Rightarrow> bool" where
  "fm_truthy v = (case v of Some (FmStr s) \<Rightarrow> s \<noteq> [] | Some (FmBool b) \<Rightarrow> b | Some (FmList xs) \<Rightarrow> xs \<noteq> [] | _ \<Rightarrow> False)"

definition compact_from_frontmatter ::
  "note_codec \<Rightarrow> (nat \<Rightarrow> nat \<Rightarrow> str) \<Rightarrow> compact_frontmatter \<Rightarrow> str \<Rightarrow> MemoryCompact option" where
  "compact_from_frontmatter C fresh d body =
     Option.bind (required_text d ''id'') (\<lambda>compact_id.
     Option.bind (status_from_frontmatter d) (\<lambda>status.
     Option.bind (datetime_from_frontmatter C d [''created_at'', ''created'', ''date''] None) (\<lambda>created_at.
     Option.bind (datetime_from_frontmatter C d UPDATED_AT_KEYS (Some created_at)) (\<lambda>updated_at.
     Option.bind (datetime_from_frontmatter C d [''covered_from''] (Some created_at)) (\<lambda>covered_from.
     Option.bind (datetime_from_frontmatter C d [''covered_to''] (Some updated_at)) (\<lambda>covered_to.
     Option.bind (optional_note_datetime C (frontmatter_text d ''archived_at'')) (\<lambda>archived_at.
     Option.bind (optional_review_verdict (frontmatter_text d ''review_verdict'')) (\<lambda>review_verdict.
     Option.bind (optional_int (frontmatter_text d ''review_score'')) (\<lambda>review_score.
     Option.bind (optional_int (frontmatter_text d ''review_max_score'')) (\<lambda>review_max_score.
     Option.bind (optional_note_datetime C (frontmatter_text d ''reviewed_at'')) (\<lambda>reviewed_at.
     Option.bind (optional_int (frontmatter_text d ''generation_revision'')) (\<lambda>generation_revision.
     Option.bind (optional_note_datetime C (frontmatter_text d ''generated_at'')) (\<lambda>generated_at.
     Some \<lparr> mp_id = compact_id, mp_project = frontmatter_text d ''project'', mp_covered_from = covered_from,
       mp_covered_to = covered_to, mp_markdown_body = rstrip_newlines body, mp_status = status,
       mp_source_refs = source_refs_from_frontmatter C fresh compact_id (map_of d ''source_refs''),
       mp_created_at = created_at, mp_updated_at = updated_at, mp_archived_at = archived_at,
       mp_review_verdict = review_verdict, mp_review_score = review_score, mp_review_max_score = review_max_score,
       mp_reviewed_at = reviewed_at,
       mp_metadata_warnings = (if list_ex (\<lambda>key. fm_truthy (map_of d key)) UPDATED_AT_KEYS then []
         else [''memory_compact_timestamp_missing'']),
       mp_deduplicated = False, mp_source_set_hash = frontmatter_text d ''source_set_hash'',
       mp_compaction_policy_version = frontmatter_text d ''compaction_policy_version'',
       mp_generation_revision = generation_revision, mp_generated_at = generated_at \<rparr>)))))))))))))"

text \<open>
  \<open>read_compact_file\<close> on the text of a readable file. The identifiers drawn for references
  without one are \<open>fresh\<close>.
\<close>

definition parse_compact :: "note_codec \<Rightarrow> (nat \<Rightarrow> nat \<Rightarrow> str) \<Rightarrow> str \<Rightarrow> MemoryCompact option" where
  "parse_compact C fresh note = (case read_frontmatter note of (d, body) \<Rightarrow>
     if map_of d ''alexandria_type'' \<noteq> Some (FmStr ALEXANDRIA_MEMORY_COMPACT_TYPE) then None
     else compact_from_frontmatter C fresh d body)"

end
