(* ===== verification/Compact_Round_Trip.thy ===== *)
theory Compact_Round_Trip
  imports Compact_Markdown
begin

text \<open>
  Reading a Compact note back: every Compact whose texts stay on one line and do not look like a
  list is read back as it was written, up to trailing newlines of its body. The condition is
  needed: two theorems show what happens without it.
\<close>

section \<open>Hypotheses on the codecs\<close>

abbreviation refs_json :: "MemoryCompactSourceRef list \<Rightarrow> json" where
  "refs_json refs \<equiv> JList (map source_ref_json refs)"

definition ref_texts :: "MemoryCompactSourceRef \<Rightarrow> str list" where
  "ref_texts r = [csr_id r, csr_compact_id r, csr_source_type r, csr_source_id r, csr_title r, csr_detail_path r] @
     (case csr_source_hash r of None \<Rightarrow> [] | Some h \<Rightarrow> [h])"

text \<open>
  JSON reads back what was written, a list of objects is printed compactly between its brackets, and
  of the line boundaries only NEL (0x85) is printed as it is. The ISO text of an aware UTC time ends
  with its offset and reads back.
\<close>

definition note_codec_ok :: "note_codec \<Rightarrow> bool" where
  "note_codec_ok C \<longleftrightarrow>
     (\<forall>refs. nc_loads C (nc_dumps C (refs_json refs)) = Some (refs_json refs)) \<and>
     (\<forall>refs. if refs = [] then nc_dumps C (refs_json refs) = ''[]''
        else \<exists>inner. nc_dumps C (refs_json refs) = ''[{'' @ inner @ ''}]'') \<and>
     (\<forall>refs. (\<forall>r\<in>set refs. \<forall>s\<in>set (ref_texts r). CHR 0x85 \<notin> set s) \<longrightarrow> one_line (nc_dumps C (refs_json refs))) \<and>
     (\<forall>t. \<exists>p. nc_isoformat C t = p @ ''+00:00'' \<and> p \<noteq> [] \<and> set p \<subseteq> set ''0123456789-:T.'' \<and>
        nc_fromisoformat C (nc_isoformat C t) = Some t)"

section \<open>Compacts that can be stored\<close>

definition plain_text :: "str \<Rightarrow> bool" where
  "plain_text s \<longleftrightarrow> one_line s \<and> \<not> bracketed s"

definition plain_option :: "str option \<Rightarrow> bool" where
  "plain_option v = (case v of None \<Rightarrow> True | Some s \<Rightarrow> plain_text s)"

definition short_option :: "int option \<Rightarrow> bool" where
  "short_option v = (case v of None \<Rightarrow> True | Some i \<Rightarrow> short_int i)"

definition storable_ref :: "MemoryCompactSourceRef \<Rightarrow> bool" where
  "storable_ref r \<longleftrightarrow> csr_id r \<noteq> [] \<and> csr_compact_id r \<noteq> [] \<and> one_line (csr_detail_path r) \<and>
     list_all (\<lambda>s. CHR 0x85 \<notin> set s) (ref_texts r) \<and>
     (case csr_source_hash r of None \<Rightarrow> True | Some h \<Rightarrow> h \<noteq> [] \<and> strip h = h)"

definition storable :: "MemoryCompact \<Rightarrow> bool" where
  "storable c \<longleftrightarrow> mp_id c \<noteq> [] \<and> plain_text (mp_id c) \<and> plain_option (mp_project c) \<and>
     plain_option (mp_source_set_hash c) \<and> plain_option (mp_compaction_policy_version c) \<and>
     short_option (mp_review_score c) \<and> short_option (mp_review_max_score c) \<and> short_option (mp_generation_revision c) \<and>
     list_all storable_ref (mp_source_refs c) \<and>
     list_all (\<lambda>x. is_linebreak x \<longrightarrow> x = CHR 0x0A) (mp_markdown_body c) \<and>
     mp_metadata_warnings c = [] \<and> \<not> mp_deduplicated c"

section \<open>One property\<close>

lemma strip_cons: "\<not> is_space c \<Longrightarrow> \<exists>r. strip (c # s) = c # r"
  by (auto simp: strip_def dropWhile_append dropWhile_eq_Nil_conv intro: exI [of _ "rev (dropWhile is_space (rev s))"])

lemma strip_space: "is_space c \<Longrightarrow> strip (c # s) = strip s"
  by (simp add: strip_def)

lemma quote_facts [simp]: "\<not> is_space quote" "\<not> is_linebreak quote"
  by (simp_all add: is_space_def is_linebreak_def)

lemma strip_quoted [simp]: "strip (quoted_yaml_string s) = quoted_yaml_string s"
  by (rule strip_id) (simp add: quoted_yaml_string_def)

lemma parse_quoted_scalar [simp]: "parse_yaml_scalar (quoted_yaml_string s) = FmStr s"
  unfolding parse_yaml_scalar_def quoted_yaml_string_def
  by (simp add: butlast_append unquote_quote) 

lemma parse_quoted_value [simp]: "parse_yaml_value (quoted_yaml_string s) = FmStr s"
proof -
  have "\<not> bracketed (quoted_yaml_string s)" by (simp add: bracketed_def quoted_yaml_string_def)
  then show ?thesis by (simp add: parse_yaml_value_def)
qed

definition simple_key :: "str \<Rightarrow> bool" where
  "simple_key key \<longleftrightarrow> key \<noteq> [] \<and> (\<forall>c\<in>set key. let n = (of_char c :: nat) in 97 \<le> n \<and> n \<le> 122 \<or> n = 95)"

lemma simple_key_char:
  assumes "simple_key key" and "c \<in> set key"
  shows "\<not> is_space c" "\<not> is_linebreak c" "c \<noteq> CHR '':''" "c \<noteq> CHR ''#''" "c \<noteq> CHR ''-''"
  using assms by (auto simp: simple_key_def Let_def is_space_def is_linebreak_def dest!: bspec)

lemma strip_key: "simple_key key \<Longrightarrow> strip key = key"
proof (rule strip_id)
  assume key: "simple_key key"
  then have "hd key \<in> set key" "last key \<in> set key" by (simp_all add: simple_key_def)
  then show "key = [] \<or> \<not> is_space (hd key) \<and> \<not> is_space (last key)" using simple_key_char(1) [OF key] by blast
qed

text \<open>A line that starts with a key is read as that property, whatever list was open.\<close>

lemma loop_key_line:
  assumes "simple_key key"
  shows "frontmatter_loop active d ((key @ CHR '':'' # s) # ls) =
    (if strip s = [] then frontmatter_loop (Some key) (dict_set key (FmList []) d) ls
     else frontmatter_loop None (dict_set key (parse_yaml_value (strip s)) d) ls)"
proof -
  obtain k ks where key: "key = k # ks" using assms by (auto simp: simple_key_def neq_Nil_conv)
  have k: "\<not> is_space k" "k \<noteq> CHR '':''" "k \<noteq> CHR ''#''" "k \<noteq> CHR ''-''"
    using simple_key_char [OF assms, of k] key by auto
  obtain r where r: "strip (key @ CHR '':'' # s) = k # r" using strip_cons [OF k(1)] by (auto simp: key)
  have line: "key @ CHR '':'' # s = lstrip (key @ CHR '':'' # s)" using k(1) by (simp add: key lstrip_def)
  have tw: "takeWhile (\<lambda>c. c \<noteq> CHR '':'') (key @ CHR '':'' # s) = key"
    "dropWhile (\<lambda>c. c \<noteq> CHR '':'') (key @ CHR '':'' # s) = CHR '':'' # s"
    using simple_key_char(3) [OF assms] by (auto simp: takeWhile_append2 dropWhile_append2)
  show ?thesis
    using k r line assms by (simp add: Let_def tw strip_key key [symmetric] del: append.simps) (simp add: key)
qed


lemma loop_item_line:
  assumes "map_of d key = Some (FmList items)"
  shows "frontmatter_loop (Some key) d ((''  - '' @ quoted_yaml_string item) # ls) =
    frontmatter_loop (Some key) (dict_set key (FmList (items @ [item])) d) ls"
proof -
  have "strip (''- '' @ quoted_yaml_string item) = ''- '' @ quoted_yaml_string item"
    by (rule strip_id) (simp add: quoted_yaml_string_def is_space_def)
  then have "strip (''  - '' @ quoted_yaml_string item) = ''- '' @ quoted_yaml_string item"
    by (simp add: strip_space is_space_def)
  moreover have "strip ('' '' @ quoted_yaml_string item) = quoted_yaml_string item"
    by (simp add: strip_space is_space_def)
  ultimately show ?thesis using assms by (simp add: Let_def)
qed

lemma dict_set_twice [simp]: "dict_set k v (dict_set k w d) = dict_set k v d"
  by (induction d) auto

lemma loop_items:
  "frontmatter_loop (Some key) (dict_set key (FmList items) d) (map (\<lambda>item. ''  - '' @ quoted_yaml_string item) xs @ ls) =
   frontmatter_loop (Some key) (dict_set key (FmList (items @ xs)) d) ls"
proof (induction xs arbitrary: items)
  case (Cons x xs)
  have "map_of (dict_set key (FmList items) d) key = Some (FmList items)" by simp
  from loop_item_line [OF this] Cons show ?case by simp
qed simp

text \<open>What a printed value is read back as, and which values survive.\<close>

fun printable :: "CompactFrontmatterValue \<Rightarrow> bool" where
  "printable (FmStr s) \<longleftrightarrow> (bracketed s \<longrightarrow> s = ''[]'' \<or> (\<exists>inner. s = ''[{'' @ inner @ ''}]''))"
| "printable (FmBool b) \<longleftrightarrow> False"
| "printable v \<longleftrightarrow> True"

fun read_back :: "CompactFrontmatterValue \<Rightarrow> CompactFrontmatterValue" where
  "read_back (FmStr s) = (if s = ''[]'' then FmList [] else FmStr s)"
| "read_back v = v"

lemma parse_bracketed_object: "parse_yaml_value (''[{'' @ inner @ ''}]'') = FmStr (''[{'' @ inner @ ''}]'')"
proof -
  have "strip (CHR ''{'' # inner @ ''}'') = CHR ''{'' # inner @ ''}''"
    by (rule strip_id) (simp add: is_space_def)
  then have "starts_with (strip (butlast (tl (''[{'' @ inner @ ''}]'')))) ''{''"
    "strip (butlast (tl (''[{'' @ inner @ ''}]''))) \<noteq> []" by (simp_all add: butlast_append)
  moreover have "bracketed (''[{'' @ inner @ ''}]'')" by (simp add: bracketed_def ends_with_def)
  ultimately show ?thesis by (simp add: parse_yaml_value_def parse_yaml_scalar_def)
qed

lemma strip_object: "strip (''[{'' @ inner @ ''}]'') = ''[{'' @ inner @ ''}]''"
  by (rule strip_id) (simp add: is_space_def)

lemma parse_null [simp]: "parse_yaml_value ''null'' = FmNone"
  by (simp add: parse_yaml_value_def parse_yaml_scalar_def bracketed_def ends_with_def)

lemma parse_empty_list [simp]: "parse_yaml_value ''[]'' = FmList []"
  by (simp add: parse_yaml_value_def bracketed_def ends_with_def)

lemma scalar_line:
  assumes "simple_key key" and "printable v" and "\<nexists>xs. v = FmList xs"
  shows "frontmatter_loop active d ((key @ '': '' @ yaml_scalar v) # ls) = frontmatter_loop None (dict_set key (read_back v) d) ls"
proof -
  have "strip ('' '' @ yaml_scalar v) \<noteq> [] \<and> parse_yaml_value (strip ('' '' @ yaml_scalar v)) = read_back v"
  proof (cases v)
    case FmNone
    have "strip ''null'' = ''null''" by (rule strip_id) (simp add: is_space_def)
    with FmNone show ?thesis by (simp add: strip_space is_space_def)
  next
    case (FmStr s)
    have e: "strip ''[]'' = ''[]''" by (rule strip_id) (simp add: is_space_def)
    show ?thesis
    proof (cases "bracketed s")
      case True
      with assms(2) FmStr consider "s = ''[]''" | inner where "s = ''[{'' @ inner @ ''}]''" by auto
      then show ?thesis
        using FmStr True e parse_bracketed_object strip_object by cases (auto simp: strip_space is_space_def)
    next
      case False
      moreover have "bracketed ''[]''" by (simp add: bracketed_def ends_with_def)
      ultimately have "s \<noteq> ''[]''" by blast
      with FmStr False show ?thesis by (simp add: strip_space is_space_def) (simp add: quoted_yaml_string_def)
    qed
  qed (use assms in auto)
  then show ?thesis using loop_key_line [OF assms(1), where s = "'' '' @ yaml_scalar v"] by simp
qed

lemma property_lines:
  assumes "simple_key key" and "printable v"
  shows "\<exists>active'. frontmatter_loop active d (yaml_property_lines (key, v) @ ls) = frontmatter_loop active' (dict_set key (read_back v) d) ls"
proof (cases v)
  case (FmList xs)
  show ?thesis
  proof (cases "xs = []")
    case True
    have "strip '' []'' = ''[]''" by (subst strip_space, simp add: is_space_def, rule strip_id) (simp add: is_space_def)
    with loop_key_line [OF assms(1), where s = "'' []''"] FmList True show ?thesis by auto
  next
    case False
    with loop_key_line [OF assms(1), where s = "[]"] loop_items [where items = "[]"] FmList show ?thesis by auto
  qed
qed (use scalar_line [OF assms] in auto)

lemma properties_loop:
  assumes "\<forall>(key, v)\<in>set ps. simple_key key \<and> printable v"
  shows "\<exists>active'. frontmatter_loop active d (concat (map yaml_property_lines ps) @ ls) =
    frontmatter_loop active' (fold (\<lambda>(key, v). dict_set key (read_back v)) ps d) ls"
  using assms
proof (induction ps arbitrary: active d)
  case (Cons p ps)
  obtain key v where p: "p = (key, v)" by (cases p)
  with Cons.prems have "simple_key key" "printable v" by auto
  from property_lines [OF this, where active = active and d = d and ls = "concat (map yaml_property_lines ps) @ ls"] p
  obtain a where a: "frontmatter_loop active d (concat (map yaml_property_lines (p # ps)) @ ls) =
    frontmatter_loop a (dict_set key (read_back v) d) (concat (map yaml_property_lines ps) @ ls)" by auto
  from Cons.IH [of a "dict_set key (read_back v) d"] Cons.prems a p show ?case by auto
qed auto


section \<open>The whole note\<close>

fun line_value :: "CompactFrontmatterValue \<Rightarrow> bool" where
  "line_value (FmStr s) \<longleftrightarrow> one_line s"
| "line_value (FmList xs) \<longleftrightarrow> list_all one_line xs"
| "line_value v \<longleftrightarrow> True"

lemma one_line_quoted [simp]: "one_line (quoted_yaml_string s) \<longleftrightarrow> one_line s"
  by (simp add: quoted_yaml_string_def one_line_def quote_set)

lemma key_line_no_delimiter: "simple_key key \<Longrightarrow> \<not> is_delimiter (key @ s)"
proof
  assume key: "simple_key key" and delimiter: "is_delimiter (key @ s)"
  obtain k ks where k: "key = k # ks" using key by (auto simp: simple_key_def neq_Nil_conv)
  have "\<exists>r. strip (key @ s) = k # r" using strip_cons simple_key_char(1) [OF key] by (simp add: k)
  with delimiter simple_key_char(5) [OF key, of k] k show False by (auto simp: is_delimiter_def FRONTMATTER_DELIMITER_def)
qed

lemma item_line_no_delimiter: "\<not> is_delimiter (''  - '' @ quoted_yaml_string item)"
proof -
  have "strip (''- '' @ quoted_yaml_string item) = ''- '' @ quoted_yaml_string item"
    by (rule strip_id) (simp add: quoted_yaml_string_def is_space_def)
  then show ?thesis by (simp add: is_delimiter_def FRONTMATTER_DELIMITER_def strip_space is_space_def)
qed

lemma printed_property_lines:
  assumes "simple_key key" and "line_value v" and "l \<in> set (yaml_property_lines (key, v))"
  shows "one_line l \<and> \<not> is_delimiter l"
proof -
  have k: "one_line key" using simple_key_char(2) [OF assms(1)] by (simp add: one_line_def)
  have "one_line ''null''" "one_line ''[]''" "one_line ''true''" "one_line ''false''" "one_line '': ''" "one_line ''  - ''"
    by (simp_all add: is_linebreak_def)
  with assms k show ?thesis
    by (cases v) (auto simp: key_line_no_delimiter item_line_no_delimiter list_all_iff is_linebreak_def simp del: append.simps split: if_splits)
qed

lemma read_printed_note:
  assumes "\<forall>l\<in>set front. one_line l \<and> \<not> is_delimiter l" and "\<forall>x\<in>set body. is_linebreak x \<longrightarrow> x = CHR 0x0A"
  shows "read_frontmatter (join newline ([FRONTMATTER_DELIMITER] @ front @ [FRONTMATTER_DELIMITER]) @ newline @ body @ newline) =
    (frontmatter_loop None [] front, body)"
proof -
  let ?body = "split_char (CHR 0x0A) body"
  let ?head = "[FRONTMATTER_DELIMITER] @ front @ [FRONTMATTER_DELIMITER]"
  have delim: "is_delimiter FRONTMATTER_DELIMITER" "one_line FRONTMATTER_DELIMITER"
    by (simp_all add: is_delimiter_def FRONTMATTER_DELIMITER_def is_linebreak_def strip_def is_space_def)
  have "one_line l" if "l \<in> set ?body" for l
    using split_char_parts [OF that] assms(2) by (fastforce simp: one_line_def)
  then have lines: "\<forall>l\<in>set (?head @ ?body). one_line l" using assms(1) delim(2) by auto
  have "body @ newline = concat (map (\<lambda>l. l @ newline) ?body)"
    using join_newline [of ?body] by (simp add: join_split_char)
  moreover have "join newline ?head @ newline = concat (map (\<lambda>l. l @ newline) ?head)" by (rule join_newline) simp
  moreover have "join newline ?head @ newline @ body @ newline = (join newline ?head @ newline) @ (body @ newline)" by simp
  ultimately have "join newline ?head @ newline @ body @ newline = concat (map (\<lambda>l. l @ newline) (?head @ ?body))"
    by (simp only: map_append concat_append)
  then have "splitlines (join newline ?head @ newline @ body @ newline) = [FRONTMATTER_DELIMITER] @ front @ [FRONTMATTER_DELIMITER] @ ?body"
    using splitlines_lines [OF lines, of "[]"] by (simp add: splitlines_def)
  moreover have "takeWhile (\<lambda>l. \<not> is_delimiter l) (front @ [FRONTMATTER_DELIMITER] @ ?body) = front"
    "dropWhile (\<lambda>l. \<not> is_delimiter l) (front @ [FRONTMATTER_DELIMITER] @ ?body) = FRONTMATTER_DELIMITER # ?body"
    using assms(1) delim(1) by (auto simp: takeWhile_append2 dropWhile_append2)
  ultimately show ?thesis using delim(1) by (simp add: read_frontmatter_def join_split_char)
qed

lemma fold_dict_set:
  "distinct (map fst (d @ ps)) \<Longrightarrow> fold (\<lambda>(key, v). dict_set key (f v)) ps d = d @ map (\<lambda>(key, v). (key, f v)) ps"
proof (induction ps arbitrary: d)
  case (Cons p ps)
  have "dict_set (fst p) w d = d @ [(fst p, w)]" if "fst p \<notin> fst ` set d" for w
    using that by (induction d) auto
  with Cons show ?case by (auto simp: case_prod_beta)
qed simp

lemma replace_all_skip: "old \<noteq> [] \<Longrightarrow> hd old \<notin> set p \<Longrightarrow> replace_all old new (p @ s) = p @ replace_all old new s"
  by (induction p) (auto simp: starts_with_iff neq_Nil_conv)

lemma iso_text:
  assumes "note_codec_ok C"
  shows "note_isoformat C t \<noteq> []" "plain_text (note_isoformat C t)" "parse_datetime C (note_isoformat C t) = Some t"
proof -
  obtain p where p: "nc_isoformat C t = p @ ''+00:00''" "p \<noteq> []" "set p \<subseteq> set ''0123456789-:T.''"
    "nc_fromisoformat C (nc_isoformat C t) = Some t" using assms unfolding note_codec_ok_def by blast
  have plus: "CHR ''+'' \<notin> set p" "CHR ''Z'' \<notin> set p" using p(3) by auto
  have z: "note_isoformat C t = p @ ''Z''"
    using replace_all_skip [of "''+00:00''" p "''Z''" "''+00:00''"] plus(1) by (simp add: note_isoformat_def p(1))
  then show "note_isoformat C t \<noteq> []" by simp
  have "hd (p @ ''Z'') \<noteq> CHR ''[''" using p(2,3) by (cases p) auto
  then have "\<not> bracketed (p @ ''Z'')" using p(2) by (cases p) (auto simp: bracketed_def)
  moreover have "one_line p" using p(3) by (auto simp: one_line_def is_linebreak_def)
  ultimately show "plain_text (note_isoformat C t)" by (simp add: z plain_text_def is_linebreak_def)
  show "parse_datetime C (note_isoformat C t) = Some t"
    using replace_all_skip [of "''Z''" p "''+00:00''" "''Z''"] plus(2) p(1,4) by (simp add: parse_datetime_def z)
qed


section \<open>The properties of a Compact\<close>

lemma bracketed_empty_list [simp]: "bracketed ''[]''"
  by (simp add: bracketed_def ends_with_def)

lemma plain_value:
  assumes "plain_text s"
  shows "read_back (FmStr s) = FmStr s" "printable (FmStr s)" "line_value (FmStr s)"
  using assms bracketed_empty_list by (auto simp: plain_text_def)

lemma plain_optional:
  assumes "\<And>x. v = Some x \<Longrightarrow> plain_text (f x)"
  shows "read_back (optional_property f v) = optional_property f v" "printable (optional_property f v)" "line_value (optional_property f v)"
  using assms plain_value by (auto simp: optional_property_def split: option.split)

lemma plain_option_value:
  assumes "plain_option v"
  shows "read_back (optional_property id v) = optional_property id v" "printable (optional_property id v)" "line_value (optional_property id v)"
  by (rule plain_optional, use assms in \<open>simp add: plain_option_def\<close>)+

lemma plain_letters: "s \<noteq> [] \<Longrightarrow> \<forall>c\<in>set s. is_word_char c \<or> c = CHR ''-'' \<Longrightarrow> plain_text s"
  by (cases s) (auto simp: plain_text_def bracketed_def one_line_def is_linebreak_def is_word_char_def Let_def)

lemma plain_int_text: "plain_text (int_text i)"
proof (rule plain_letters)
  show "\<forall>c\<in>set (int_text i). is_word_char c \<or> c = CHR ''-''"
  proof
    fix c assume "c \<in> set (int_text i)"
    then have "is_digit c \<or> c = CHR ''-''" using nat_digits_digits by (auto simp: int_text_def split: if_splits)
    then show "is_word_char c \<or> c = CHR ''-''" unfolding is_digit_def is_word_char_def Let_def by blast
  qed
qed simp

lemma plain_words:
  "plain_text (compact_status_value st)" "plain_text (verdict_value w)" "plain_text ALEXANDRIA_MEMORY_COMPACT_TYPE"
  "plain_text DEFAULT_MEMORY_COMPACT_SOURCE"
proof -
  show "plain_text (compact_status_value st)" by (cases st) (simp_all add: plain_text_def bracketed_def is_linebreak_def)
  show "plain_text (verdict_value w)" by (cases w) (simp_all add: plain_text_def bracketed_def is_linebreak_def)
qed (simp_all add: plain_text_def bracketed_def is_linebreak_def ALEXANDRIA_MEMORY_COMPACT_TYPE_def DEFAULT_MEMORY_COMPACT_SOURCE_def)

lemma link_one_line: "one_line p \<Longrightarrow> obsidian_source_link p = Some l \<Longrightarrow> one_line l"
proof -
  assume p: "one_line p" and l: "obsidian_source_link p = Some l"
  have "set (dropWhile Q (strip p)) \<subseteq> set p" for Q
    unfolding strip_def by (auto dest!: set_dropWhileD)
  with p have "one_line (take n (dropWhile Q (strip p)))" for n Q
    unfolding one_line_def by (meson in_set_takeD subsetD)
  with l show ?thesis by (auto simp: obsidian_source_link_def Let_def is_linebreak_def split: if_splits)
qed


lemma refs_text:
  assumes "note_codec_ok C" and "list_all storable_ref refs"
  shows "printable (FmStr (nc_dumps C (refs_json refs)))" "line_value (FmStr (nc_dumps C (refs_json refs)))"
    "read_back (FmStr (nc_dumps C (refs_json refs))) = (if refs = [] then FmList [] else FmStr (nc_dumps C (refs_json refs)))"
    "refs \<noteq> [] \<Longrightarrow> nc_dumps C (refs_json refs) \<noteq> []"
proof -
  have shape: "if refs = [] then nc_dumps C (refs_json refs) = ''[]'' else \<exists>inner. nc_dumps C (refs_json refs) = ''[{'' @ inner @ ''}]''"
    using assms(1) unfolding note_codec_ok_def by blast
  then show "printable (FmStr (nc_dumps C (refs_json refs)))" "refs \<noteq> [] \<Longrightarrow> nc_dumps C (refs_json refs) \<noteq> []"
    "read_back (FmStr (nc_dumps C (refs_json refs))) = (if refs = [] then FmList [] else FmStr (nc_dumps C (refs_json refs)))"
    by (auto split: if_splits)
  have "\<forall>r\<in>set refs. \<forall>s\<in>set (ref_texts r). CHR 0x85 \<notin> set s"
    using assms(2) by (auto simp: storable_ref_def list_all_iff)
  with assms(1) show "line_value (FmStr (nc_dumps C (refs_json refs)))"
    unfolding note_codec_ok_def by simp
qed

lemma source_ref_read_back: "storable_ref r \<Longrightarrow> source_ref_from_json C fresh compact_id (source_ref_json r) = [r]"
  by (auto simp: source_ref_from_json_def source_ref_json_def json_get_def text_or_def optional_string_def storable_ref_def
      split: option.splits)

lemma concat_enumerate:
  "(\<And>n x. x \<in> set xs \<Longrightarrow> f n (g x) = [x]) \<Longrightarrow> concat (map (\<lambda>(n, item). f n item) (enumerate k (map g xs))) = xs"
  by (induction xs arbitrary: k) auto

lemma source_refs_read_back:
  assumes "note_codec_ok C" and "list_all storable_ref refs"
  shows "source_refs_from_frontmatter C fresh compact_id (Some (read_back (FmStr (nc_dumps C (refs_json refs))))) = refs"
proof (cases "refs = []")
  case False
  have "nc_loads C (nc_dumps C (refs_json refs)) = Some (refs_json refs)"
    using assms(1) unfolding note_codec_ok_def by blast
  with False refs_text [OF assms] assms(2) concat_enumerate [of refs "\<lambda>n. source_ref_from_json C (fresh 0 n) compact_id" source_ref_json 0]
  show ?thesis
    by (simp add: source_refs_from_frontmatter_def source_refs_from_json_def source_ref_read_back list_all_iff)
qed (unfold refs_text(3) [OF assms], simp add: source_refs_from_frontmatter_def)


lemma simple_keys: "list_all (\<lambda>(key, v). simple_key key) (compact_properties C c)" "distinct (map fst (compact_properties C c))"
  by (simp_all add: compact_properties_def simple_key_def)

lemma storable_properties:
  assumes "note_codec_ok C" and "storable c"
  shows "list_all (\<lambda>(key, v). printable v \<and> line_value v) (compact_properties C c)"
proof -
  note iso = iso_text(2) [OF assms(1)]
  have tags: "list_all one_line DEFAULT_MEMORY_COMPACT_TAGS" by (simp add: DEFAULT_MEMORY_COMPACT_TAGS_def is_linebreak_def)
  have links: "list_all one_line (source_ref_links (mp_source_refs c))"
    using assms(2) by (fastforce simp: storable_def storable_ref_def list_all_iff source_ref_links_def intro: link_one_line split: option.splits)
  show ?thesis
    using assms(2) tags links plain_value(2,3) [OF iso] plain_value(2,3) [OF plain_words(1)] plain_value(2,3) [OF plain_words(3)]
      plain_value(2,3) [OF plain_words(4)] plain_optional(2,3) [of _ "note_isoformat C", OF iso]
      plain_optional(2,3) [of _ verdict_value, OF plain_words(2)] plain_optional(2,3) [of _ int_text, OF plain_int_text]
      plain_option_value(2,3) refs_text(1,2) [OF assms(1)]
    unfolding compact_properties_def storable_def
    by (simp add: plain_value(2,3) del: printable.simps(1) line_value.simps(1))
qed


lemma frontmatter_text_optional:
  "map_of d key = Some (optional_property f v) \<Longrightarrow> frontmatter_text d key = map_option f v"
  by (simp add: frontmatter_text_def optional_property_def split: option.split)

lemma optional_parsed_read_back:
  "(\<And>x. v = Some x \<Longrightarrow> f x \<noteq> [] \<and> g (f x) = Some x) \<Longrightarrow> optional_parsed g (map_option f v) = Some v"
  by (cases v) (auto simp: optional_parsed_def)

lemma status_read_back: "map_of d ''status'' = Some (FmStr (compact_status_value st)) \<Longrightarrow> status_from_frontmatter d = Some st"
proof -
  assume "map_of d ''status'' = Some (FmStr (compact_status_value st))"
  moreover have "strip (compact_status_value st) = compact_status_value st" by (rule strip_id) (cases st; simp add: is_space_def)
  moreover have "map ascii_upper (compact_status_value st) = compact_status_value st" by (cases st) (simp_all add: ascii_upper_def)
  ultimately show ?thesis by (cases st) (simp_all add: status_from_frontmatter_def required_text_def)
qed

lemma read_serialized:
  assumes "note_codec_ok C" and "storable c"
  shows "read_frontmatter (serialize_compact C c) =
    (map (\<lambda>(key, v). (key, read_back v)) (compact_properties C c), rstrip_newlines (mp_markdown_body c))"
proof -
  let ?ps = "compact_properties C c"
  have props: "\<forall>(key, v)\<in>set ?ps. simple_key key \<and> printable v \<and> line_value v"
    using simple_keys(1) [of C c] storable_properties [OF assms] by (auto simp: list_all_iff)
  then have "\<forall>l\<in>set (concat (map yaml_property_lines ?ps)). one_line l \<and> \<not> is_delimiter l"
    using printed_property_lines by fastforce
  moreover have "\<forall>x\<in>set (rstrip_newlines (mp_markdown_body c)). is_linebreak x \<longrightarrow> x = CHR 0x0A"
    using assms(2) set_dropWhileD by (fastforce simp: storable_def list_all_iff rstrip_newlines_def)
  ultimately have "read_frontmatter (serialize_compact C c) =
      (frontmatter_loop None [] (concat (map yaml_property_lines ?ps)), rstrip_newlines (mp_markdown_body c))"
    unfolding serialize_compact_def by (rule read_printed_note)
  moreover have "frontmatter_loop None [] (concat (map yaml_property_lines ?ps)) = map (\<lambda>(key, v). (key, read_back v)) ?ps"
    using properties_loop [of ?ps None "[]" "[]"] props fold_dict_set [of "[]" ?ps read_back] simple_keys(2) [of C c]
    by fastforce
  ultimately show ?thesis by simp
qed

text \<open>What the parser finds under each key of a written note.\<close>

abbreviation note_properties :: "note_codec \<Rightarrow> MemoryCompact \<Rightarrow> compact_frontmatter" where
  "note_properties C c \<equiv> map (\<lambda>(key, v). (key, read_back v)) (compact_properties C c)"

lemma note_value: "map_of (note_properties C c) key = map_option read_back (map_of (compact_properties C c) key)"
  by (simp add: map_of_map)

lemma note_texts:
  assumes "note_codec_ok C" and "storable c"
  defines "d \<equiv> note_properties C c"
  shows "map_of d ''archived_at'' = Some (optional_property (note_isoformat C) (mp_archived_at c))"
    "map_of d ''reviewed_at'' = Some (optional_property (note_isoformat C) (mp_reviewed_at c))"
    "map_of d ''generated_at'' = Some (optional_property (note_isoformat C) (mp_generated_at c))"
    "map_of d ''review_verdict'' = Some (optional_property verdict_value (mp_review_verdict c))"
    "map_of d ''review_score'' = Some (optional_property int_text (mp_review_score c))"
    "map_of d ''review_max_score'' = Some (optional_property int_text (mp_review_max_score c))"
    "map_of d ''generation_revision'' = Some (optional_property int_text (mp_generation_revision c))"
    "map_of d ''project'' = Some (optional_property id (mp_project c))"
    "map_of d ''source_set_hash'' = Some (optional_property id (mp_source_set_hash c))"
    "map_of d ''compaction_policy_version'' = Some (optional_property id (mp_compaction_policy_version c))"
    "map_of d ''source_refs'' = Some (read_back (FmStr (nc_dumps C (refs_json (mp_source_refs c)))))"
    "map_of d ''alexandria_type'' = Some (FmStr ALEXANDRIA_MEMORY_COMPACT_TYPE)"
    "map_of d ''updated_at'' = Some (FmStr (note_isoformat C (mp_updated_at c)))"
    "map_of d ''status'' = Some (FmStr (compact_status_value (mp_status c)))"
    "map_of d ''id'' = Some (FmStr (mp_id c))"
proof -
  note plain = plain_value(1) [OF plain_words(1)] plain_value(1) [OF plain_words(3)] plain_value(1) [OF iso_text(2) [OF assms(1)]]
    plain_optional(1) [of _ "note_isoformat C", OF iso_text(2) [OF assms(1)]]
    plain_optional(1) [of _ verdict_value, OF plain_words(2)] plain_optional(1) [of _ int_text, OF plain_int_text] plain_option_value(1)
  have po: "plain_option (mp_project c)" "plain_option (mp_source_set_hash c)" "plain_option (mp_compaction_policy_version c)"
    using assms(2) by (simp_all add: storable_def)
  have m: "map_of d key = map_option read_back (map_of (compact_properties C c) key)" for key
    unfolding d_def by (rule note_value)
  show "map_of d ''id'' = Some (FmStr (mp_id c))"
    using assms(2) plain_value(1) [of "mp_id c"] by (simp add: m compact_properties_def storable_def)
  show "map_of d ''archived_at'' = Some (optional_property (note_isoformat C) (mp_archived_at c))"
    "map_of d ''reviewed_at'' = Some (optional_property (note_isoformat C) (mp_reviewed_at c))"
    "map_of d ''generated_at'' = Some (optional_property (note_isoformat C) (mp_generated_at c))"
    "map_of d ''review_verdict'' = Some (optional_property verdict_value (mp_review_verdict c))"
    "map_of d ''review_score'' = Some (optional_property int_text (mp_review_score c))"
    "map_of d ''review_max_score'' = Some (optional_property int_text (mp_review_max_score c))"
    "map_of d ''generation_revision'' = Some (optional_property int_text (mp_generation_revision c))"
    "map_of d ''project'' = Some (optional_property id (mp_project c))"
    "map_of d ''source_set_hash'' = Some (optional_property id (mp_source_set_hash c))"
    "map_of d ''compaction_policy_version'' = Some (optional_property id (mp_compaction_policy_version c))"
    "map_of d ''source_refs'' = Some (read_back (FmStr (nc_dumps C (refs_json (mp_source_refs c)))))"
    "map_of d ''alexandria_type'' = Some (FmStr ALEXANDRIA_MEMORY_COMPACT_TYPE)"
    "map_of d ''updated_at'' = Some (FmStr (note_isoformat C (mp_updated_at c)))"
    "map_of d ''status'' = Some (FmStr (compact_status_value (mp_status c)))"
    using po by (simp_all add: m compact_properties_def plain del: read_back.simps)
qed

lemma note_time:
  assumes "note_codec_ok C" and "map_of (compact_properties C c) key = Some (FmStr (note_isoformat C t))"
  shows "datetime_from_frontmatter C (note_properties C c) (key # ks) g = Some t"
  using assms(2) iso_text [OF assms(1)] plain_value(1) [OF iso_text(2) [OF assms(1)]]
  unfolding datetime_from_frontmatter.simps note_value by (simp del: read_back.simps)

lemma note_times:
  assumes "note_codec_ok C"
  shows "datetime_from_frontmatter C (note_properties C c) (''created_at'' # ks) g = Some (mp_created_at c)"
    "datetime_from_frontmatter C (note_properties C c) (''updated_at'' # ks) g = Some (mp_updated_at c)"
    "datetime_from_frontmatter C (note_properties C c) (''covered_from'' # ks) g = Some (mp_covered_from c)"
    "datetime_from_frontmatter C (note_properties C c) (''covered_to'' # ks) g = Some (mp_covered_to c)"
  by (rule note_time [OF assms], simp add: compact_properties_def)+

lemma optional_texts_read_back:
  assumes "note_codec_ok C"
  shows "map_of d key = Some (optional_property (note_isoformat C) v) \<Longrightarrow> optional_note_datetime C (frontmatter_text d key) = Some v"
    and "map_of d key = Some (optional_property int_text i) \<Longrightarrow> short_option i \<Longrightarrow> optional_int (frontmatter_text d key) = Some i"
    and "map_of d key = Some (optional_property verdict_value w) \<Longrightarrow> optional_review_verdict (frontmatter_text d key) = Some w"
proof -
  show "optional_note_datetime C (frontmatter_text d key) = Some v"
    if "map_of d key = Some (optional_property (note_isoformat C) v)"
    unfolding optional_note_datetime_def frontmatter_text_optional [OF that]
    by (rule optional_parsed_read_back) (simp add: iso_text [OF assms])
  show "optional_int (frontmatter_text d key) = Some i"
    if "map_of d key = Some (optional_property int_text i)" "short_option i"
    unfolding optional_int_def frontmatter_text_optional [OF that(1)]
    by (rule optional_parsed_read_back) (use that(2) in \<open>simp add: short_option_def py_int_int_text\<close>)
  show "optional_review_verdict (frontmatter_text d key) = Some w"
    if "map_of d key = Some (optional_property verdict_value w)"
    unfolding optional_review_verdict_def frontmatter_text_optional [OF that]
    by (rule optional_parsed_read_back) (case_tac x; simp)
qed

lemma parse_serialized:
  assumes "note_codec_ok C" and "storable c"
  shows "parse_compact C fresh (serialize_compact C c) = Some (c\<lparr>mp_markdown_body := rstrip_newlines (mp_markdown_body c)\<rparr>)"
proof -
  define d where "d = note_properties C c"
  have read: "read_frontmatter (serialize_compact C c) = (d, rstrip_newlines (mp_markdown_body c))"
    unfolding d_def by (rule read_serialized [OF assms])
  note texts = note_texts [OF assms, folded d_def] and times = note_times [OF assms(1), of c, folded d_def]
  note optionals = optional_texts_read_back [OF assms(1)]
  have id: "required_text d ''id'' = Some (mp_id c)" and status: "status_from_frontmatter d = Some (mp_status c)"
    using assms(2) status_read_back [OF texts(14)] by (simp_all add: required_text_def texts storable_def)
  have short: "short_option (mp_review_score c)" "short_option (mp_review_max_score c)" "short_option (mp_generation_revision c)"
    using assms(2) by (simp_all add: storable_def)
  have refs: "source_refs_from_frontmatter C fresh (mp_id c) (map_of d ''source_refs'') = mp_source_refs c"
    using source_refs_read_back [OF assms(1)] assms(2) unfolding texts by (simp add: storable_def)
  show ?thesis
    using assms(2) unfolding parse_compact_def read
    by (simp add: texts(12,13) compact_from_frontmatter_def id status times UPDATED_AT_KEYS_def
        optionals(1) [OF texts(1)] optionals(1) [OF texts(2)] optionals(1) [OF texts(3)] optionals(3) [OF texts(4)]
        optionals(2) [OF texts(5) short(1)] optionals(2) [OF texts(6) short(2)] optionals(2) [OF texts(7) short(3)] refs
        frontmatter_text_optional [OF texts(8)] frontmatter_text_optional [OF texts(9)] frontmatter_text_optional [OF texts(10)]
        fm_truthy_def iso_text(1) [OF assms(1)] option.map_id storable_def del: datetime_from_frontmatter.simps)
qed

text \<open>
  C27: Every Compact whose identifier, project and hashes stay on one line and are not enclosed in
  brackets, whose source paths stay on one line and whose body has no line boundary but the
  newline is read back from its note as it was written, up to trailing newlines of the body.
\<close>

theorem compact_notes_read_back:
  assumes "note_codec_ok C" and "storable c"
  shows "parse_compact C fresh (serialize_compact C c) = Some (c\<lparr>mp_markdown_body := rstrip_newlines (mp_markdown_body c)\<rparr>)"
  using assms by (rule parse_serialized)


section \<open>A codec, and what the condition excludes\<close>

text \<open>
  A codec that meets the hypotheses: times are printed as numbers, and the texts of the references
  letter by letter.
\<close>

definition letters_of_char :: "char \<Rightarrow> str" where
  "letters_of_char c = [char_of (97 + of_char c div 16 :: nat), char_of (97 + of_char c mod 16 :: nat)]"

fun chars_of_letters :: "str \<Rightarrow> str" where
  "chars_of_letters (a # b # s) = char_of (16 * (of_char a - 97) + (of_char b - 97) :: nat) # chars_of_letters s"
| "chars_of_letters s = []"

definition spell :: "str \<Rightarrow> str" where
  "spell s = concat (map letters_of_char s)"

definition spell_ref :: "MemoryCompactSourceRef \<Rightarrow> str" where
  "spell_ref r = join '','' (map spell [csr_id r, csr_compact_id r, csr_source_type r, csr_source_id r, csr_title r, csr_detail_path r] @
     [case csr_source_hash r of None \<Rightarrow> ''.'' | Some h \<Rightarrow> spell h])"

fun json_text :: "json \<Rightarrow> str" where
  "json_text (JStr s) = s"
| "json_text _ = []"

fun json_ref :: "json \<Rightarrow> MemoryCompactSourceRef" where
  "json_ref (JObj kvs) =
     \<lparr> csr_id = json_text (json_get ''id'' kvs), csr_compact_id = json_text (json_get ''compact_id'' kvs),
       csr_source_type = json_text (json_get ''source_type'' kvs), csr_source_id = json_text (json_get ''source_id'' kvs),
       csr_title = json_text (json_get ''title'' kvs), csr_detail_path = json_text (json_get ''detail_path'' kvs),
       csr_source_hash = (case json_get ''source_hash'' kvs of JStr h \<Rightarrow> Some h | _ \<Rightarrow> None) \<rparr>"
| "json_ref _ = \<lparr> csr_id = [], csr_compact_id = [], csr_source_type = [], csr_source_id = [], csr_title = [], csr_detail_path = [],
     csr_source_hash = None \<rparr>"

definition read_ref :: "str \<Rightarrow> json" where
  "read_ref s = (let ws = split_char (CHR '','') s; txt = (\<lambda>i. JStr (chars_of_letters (ws ! i))) in
     JObj [(''id'', txt 0), (''compact_id'', txt 1), (''source_type'', txt 2), (''source_id'', txt 3), (''title'', txt 4),
       (''detail_path'', txt 5), (''source_hash'', if ws ! 6 = ''.'' then JNull else txt 6)])"

definition sample_note_codec :: note_codec where
  "sample_note_codec =
     \<lparr> nc_dumps = (\<lambda>v. case v of JList (r # rs) \<Rightarrow> ''[{'' @ join '';'' (map (\<lambda>v. spell_ref (json_ref v)) (r # rs)) @ ''}]'' | _ \<Rightarrow> ''[]''),
       nc_loads = (\<lambda>s. Some (JList (if s = ''[]'' then []
         else map read_ref (split_char (CHR '';'') (take (length s - 4) (drop 2 s)))))),
       nc_str = (\<lambda>_. []),
       nc_isoformat = (\<lambda>t. int_text t @ ''+00:00''),
       nc_fromisoformat = (\<lambda>s. case take (length s - 6) s of
            [] \<Rightarrow> None
          | c # cs \<Rightarrow> if c = CHR ''-'' then map_option (\<lambda>n. - int n) (digits_value 0 cs)
                      else map_option int (digits_value 0 (c # cs))) \<rparr>"

lemma div_16: "(of_char x :: nat) div 16 < 16" for x :: char
  using nat_of_char_less_256 [of x] by (simp add: less_mult_imp_div_less)

lemma letters_range: "c \<in> set (spell s) \<Longrightarrow> 97 \<le> (of_char c :: nat) \<and> (of_char c :: nat) \<le> 112"
proof -
  assume "c \<in> set (spell s)"
  then obtain x :: char where "c = char_of (97 + of_char x div 16 :: nat) \<or> c = char_of (97 + of_char x mod 16 :: nat)"
    by (auto simp: spell_def letters_of_char_def)
  then show ?thesis using div_16 [of x] mod_less_divisor [of 16 "of_char x :: nat"] by auto
qed

lemma chars_of_spell [simp]: "chars_of_letters (spell s) = s"
proof (induction s)
  case (Cons c s)
  have "16 * ((of_char c :: nat) div 16) + of_char c mod 16 = of_char c" by (rule mult_div_mod_eq)
  with Cons div_16 [of c] mod_less_divisor [of 16 "of_char c :: nat"] show ?case
    by (simp add: spell_def letters_of_char_def)
qed (simp add: spell_def)

lemma spell_plain:
  assumes "c \<in> set (spell s)"
  shows "c \<noteq> CHR '',''" "c \<noteq> CHR '';''" "c \<noteq> CHR ''.''" "\<not> is_linebreak c"
  using letters_range [OF assms] by (auto simp: is_linebreak_def)

lemma split_char_join:
  "ws \<noteq> [] \<Longrightarrow> \<forall>w\<in>set ws. sep \<notin> set w \<Longrightarrow> split_char sep (join [sep] ws) = ws"
proof (induction "[sep]" ws rule: join.induct)
  case (2 w)
  then show ?case by (induction w) auto
next
  case (3 w v ws)
  have "sep \<notin> set w \<Longrightarrow> split_char sep (w @ sep # s) = w # split_char sep s" for w s
    by (induction w) auto
  with 3 show ?case by simp
qed simp

lemma set_join: "set (join sep ws) \<subseteq> set sep \<union> \<Union> (set ` set ws)"
  by (induction sep ws rule: join.induct) auto

lemma json_ref_source_ref [simp]: "json_ref (source_ref_json r) = r"
  by (cases r) (simp add: source_ref_json_def json_get_def split: option.split)

lemma spell_ref_chars: "c \<in> set (spell_ref r) \<Longrightarrow> c \<noteq> CHR '';'' \<and> \<not> is_linebreak c"
  using set_join [of "'',''"] unfolding spell_ref_def
  by (fastforce dest: spell_plain simp: is_linebreak_def split: option.splits)

lemma read_ref_spell: "read_ref (spell_ref r) = source_ref_json r"
proof -
  let ?ws = "map spell [csr_id r, csr_compact_id r, csr_source_type r, csr_source_id r, csr_title r, csr_detail_path r] @
     [case csr_source_hash r of None \<Rightarrow> ''.'' | Some h \<Rightarrow> spell h]"
  have "split_char (CHR '','') (spell_ref r) = ?ws"
    unfolding spell_ref_def by (rule split_char_join) (auto dest: spell_plain split: option.splits)
  moreover have "spell h \<noteq> ''.''" for h using spell_plain(3) [of "CHR ''.''" h] by auto
  ultimately show ?thesis by (simp add: read_ref_def source_ref_json_def Let_def split: option.split)
qed

lemma sample_note_codec_ok: "note_codec_ok sample_note_codec"
  unfolding note_codec_ok_def
proof (intro conjI allI impI)
  fix refs :: "MemoryCompactSourceRef list" and t
  have dumps: "nc_dumps sample_note_codec (refs_json refs) =
      (if refs = [] then ''[]'' else ''[{'' @ join '';'' (map spell_ref refs) @ ''}]'')"
    by (cases refs) (simp_all add: sample_note_codec_def comp_def)
  then show "if refs = [] then nc_dumps sample_note_codec (refs_json refs) = ''[]''
      else \<exists>inner. nc_dumps sample_note_codec (refs_json refs) = ''[{'' @ inner @ ''}]''" by auto
  have "split_char (CHR '';'') (join '';'' (map spell_ref refs)) = map spell_ref refs" if "refs \<noteq> []"
    by (rule split_char_join) (use that spell_ref_chars in auto)
  then show "nc_loads sample_note_codec (nc_dumps sample_note_codec (refs_json refs)) = Some (refs_json refs)"
    unfolding dumps by (simp add: sample_note_codec_def read_ref_spell)
  show "one_line (nc_dumps sample_note_codec (refs_json refs))"
    using set_join [of "'';''" "map spell_ref refs"] spell_ref_chars unfolding dumps
    by (fastforce simp: one_line_def is_linebreak_def)
  have "set (int_text t) \<subseteq> set ''0123456789-:T.''"
  proof
    fix c assume "c \<in> set (int_text t)"
    then have "is_digit c \<or> c = CHR ''-''" using nat_digits_digits by (auto simp: int_text_def split: if_splits)
    moreover have "c \<in> set ''0123456789''" if "is_digit c"
    proof -
      have "of_char c \<in> {48..57::nat}" using that by (simp add: is_digit_def)
      then have "char_of (of_char c :: nat) \<in> char_of ` {48..57::nat}" by (rule imageI)
      also have "char_of ` {48..57::nat} = set ''0123456789''" by code_simp
      finally show ?thesis by simp
    qed
    ultimately show "c \<in> set ''0123456789-:T.''" by auto
  qed
  moreover have "nc_fromisoformat sample_note_codec (int_text t @ ''+00:00'') = Some t"
  proof (cases "t < 0")
    case False
    then obtain c cs where "int_text t = c # cs" "is_digit c" "digits_value 0 (c # cs) = Some (nat t)"
      using digits_value_nat_digits [of "nat t"] nat_digits_digits [of _ "nat t"]
      by (cases "nat_digits (nat t)") (auto simp: int_text_def)
    with False digit_not_space show ?thesis by (simp add: sample_note_codec_def)
  qed (simp add: sample_note_codec_def int_text_def digits_value_nat_digits)
  ultimately show "\<exists>p. nc_isoformat sample_note_codec t = p @ ''+00:00'' \<and> p \<noteq> [] \<and> set p \<subseteq> set ''0123456789-:T.'' \<and>
      nc_fromisoformat sample_note_codec (nc_isoformat sample_note_codec t) = Some t"
    by (intro exI [of _ "int_text t"]) (simp add: sample_note_codec_def)
qed


definition sample_ref :: "str \<Rightarrow> MemoryCompactSourceRef" where
  "sample_ref path = \<lparr> csr_id = ''r1'', csr_compact_id = ''k1'', csr_source_type = ''note'', csr_source_id = ''n1'',
     csr_title = ''it's'', csr_detail_path = path, csr_source_hash = Some ''h'' \<rparr>"

definition sample_compact :: "str option \<Rightarrow> str \<Rightarrow> MemoryCompact" where
  "sample_compact project path =
     \<lparr> mp_id = ''k1'', mp_project = project, mp_covered_from = 1, mp_covered_to = 2,
       mp_markdown_body = ''# A'' @ newline @ ''---'' @ newline, mp_status = COMPACT_DRAFT, mp_source_refs = [sample_ref path],
       mp_created_at = 3, mp_updated_at = 4, mp_archived_at = None, mp_review_verdict = Some VERDICT_PASS,
       mp_review_score = Some 20, mp_review_max_score = Some 20, mp_reviewed_at = None, mp_metadata_warnings = [],
       mp_deduplicated = False, mp_source_set_hash = Some ''s'', mp_compaction_policy_version = Some ''v2'',
       mp_generation_revision = Some 1, mp_generated_at = Some (- 5) \<rparr>"

lemma sample_storable: "storable (sample_compact (Some ''p'') ''a/b.md'')"
  unfolding storable_def sample_compact_def
  by (simp add: plain_text_def plain_option_def short_option_def bracketed_def is_linebreak_def sample_ref_def storable_ref_def
      ref_texts_def int64_short int64_def strip_def is_space_def)

theorem compact_notes_read_back_witness:
  "\<exists>c'. parse_compact sample_note_codec (\<lambda>_ _. ''u'') (serialize_compact sample_note_codec (sample_compact (Some ''p'') ''a/b.md'')) = Some c' \<and>
     mp_markdown_body c' = ''# A'' @ newline @ ''---'' \<and> mp_source_refs c' = [sample_ref ''a/b.md'']"
  unfolding compact_notes_read_back [OF sample_note_codec_ok sample_storable]
  by (simp add: sample_compact_def rstrip_newlines_def)

text \<open>
  The links to the sources are printed without escaping line boundaries. A source path with line
  breaks can thus bring its own properties into the frontmatter, and a draft reads back as the
  current Compact, unreviewed.
\<close>

theorem source_path_can_promote_a_draft:
  "map_option mp_status (parse_compact sample_note_codec (\<lambda>_ _. ''u'')
     (serialize_compact sample_note_codec (sample_compact (Some ''p'') (''a'' @ newline @ ''status: CURRENT'' @ newline @ ''b.md'')))) =
   Some COMPACT_CURRENT"
  by code_simp

text \<open>
  A project name in brackets is printed like a JSON list and not quoted; it reads back as no
  project at all, the default project.
\<close>

theorem bracketed_project_is_lost:
  "map_option mp_project (parse_compact sample_note_codec (\<lambda>_ _. ''u'')
     (serialize_compact sample_note_codec (sample_compact (Some ''[x]'') ''a/b.md''))) = Some None"
  by code_simp

end
