(* ===== verification/Compact_Store.thy ===== *)
theory Compact_Store
  imports Compact_Round_Trip "HOL-Library.List_Lexorder" "HOL-Library.Char_ord"
begin

text \<open>
  The folder of Compact notes: the path policy (\<open>obsidian_markdown_path_policy.py\<close>), the note store
  (\<open>note_store.py\<close>) and the repository over it (\<open>memory_compact_repository.py\<close>).

  The folder is a list of files, each a path below the base directory with its text. Every change of a
  file may fail: \<open>ce_fails\<close> says which of the changes, counted from the start, do. A note is
  written through a temporary file that no operation reads, so a failed write leaves the files as
  they were. Times are UTC.
\<close>

section \<open>State\<close>

type_synonym note_path = "str list"

record compact_vault =
  cv_files :: "(note_path \<times> str) list"
  cv_ops :: nat

text \<open>
  What the modules call: the codecs of notes, the canonical JSON text and the digest of the
  provenance seal, and the file system.
\<close>

record compact_env =
  ce_codec :: note_codec
  ce_canonical_json :: "json \<Rightarrow> str"
  ce_sha256 :: "str \<Rightarrow> str"
  ce_fails :: "nat \<Rightarrow> bool"

type_synonym 'a compact_prog = "(compact_vault, compact_error, 'a) prog"

text \<open>The identifiers drawn for references without one while the file at a path is read.\<close>

type_synonym draws = "note_path \<Rightarrow> nat \<Rightarrow> nat \<Rightarrow> str"

section \<open>Paths\<close>

definition NOTE_SUFFIX :: str where "NOTE_SUFFIX = ''.md''"

definition path_parts :: "str \<Rightarrow> str list" where
  "path_parts s = filter (\<lambda>p. p \<noteq> [] \<and> p \<noteq> ''.'') (split_char (CHR ''/'') s)"

definition is_safe_note_id :: "str \<Rightarrow> bool" where
  "is_safe_note_id i \<longleftrightarrow> i \<notin> {[], ''.'', ''..''} \<and> CHR ''/'' \<notin> set i \<and> CHR 0x5C \<notin> set i \<and> ''..'' \<notin> set (path_parts i)"

text \<open>Year and month of a datetime, by the Gregorian calendar; a year starts in March here.\<close>

definition civil_date :: "instant \<Rightarrow> int \<times> int" where
  "civil_date t =
     (let z = t div 86400000000 + 719468; era = z div 146097; doe = z mod 146097;
          yoe = (doe - doe div 1460 + doe div 36524 - doe div 146096) div 365;
          doy = doe - (365 * yoe + yoe div 4 - yoe div 100); m = (5 * doy + 2) div 153;
          month = (if m < 10 then m + 3 else m - 9)
      in (yoe + era * 400 + (if month \<le> 2 then 1 else 0), month))"

definition zero_padded :: "nat \<Rightarrow> int \<Rightarrow> str" where
  "zero_padded n i = (let s = int_text i in replicate (n - length s) (CHR ''0'') @ s)"

definition compact_path :: "str \<Rightarrow> instant option \<Rightarrow> note_path option" where
  "compact_path i created_at =
     (if \<not> is_safe_note_id i then None
      else Some ((case created_at of None \<Rightarrow> [] | Some t \<Rightarrow>
        [zero_padded 4 (fst (civil_date t)), zero_padded 2 (snd (civil_date t))]) @ [i @ NOTE_SUFFIX]))"

text \<open>\<open>Path.stem\<close> of a note.\<close>

definition stem :: "note_path \<Rightarrow> str" where
  "stem p = (let name = last p in if name = NOTE_SUFFIX then name else take (length name - length NOTE_SUFFIX) name)"

section \<open>Reading\<close>

text \<open>\<open>Path.read_text\<close> turns every line end into a newline.\<close>

definition read_text :: "str \<Rightarrow> str" where
  "read_text s = replace_all [CHR 0x0D] newline (replace_all [CHR 0x0D, CHR 0x0A] newline s)"

definition read_compact_file :: "note_codec \<Rightarrow> draws \<Rightarrow> (note_path \<times> str) list \<Rightarrow> note_path \<Rightarrow> MemoryCompact option" where
  "read_compact_file C D files p = Option.bind (map_of files p) (\<lambda>s. parse_compact C (D p) (read_text s))"

definition note_paths :: "(note_path \<times> str) list \<Rightarrow> note_path list" where
  "note_paths files = sort (filter (\<lambda>p. p \<noteq> [] \<and> ends_with (last p) NOTE_SUFFIX) (map fst files))"

definition compact_sort_key :: "MemoryCompact \<Rightarrow> instant \<times> instant" where
  "compact_sort_key c = (mp_updated_at c, mp_created_at c)"

definition newest_of :: "MemoryCompact option \<Rightarrow> (str \<times> MemoryCompact) list \<Rightarrow> (str \<times> MemoryCompact) list" where
  "newest_of v d = (case v of None \<Rightarrow> d | Some c \<Rightarrow>
     (case map_of d (mp_id c) of
        None \<Rightarrow> dict_set (mp_id c) c d
      | Some existing \<Rightarrow> if compact_sort_key c > compact_sort_key existing then dict_set (mp_id c) c d else d))"

definition read_all :: "note_codec \<Rightarrow> draws \<Rightarrow> (note_path \<times> str) list \<Rightarrow> MemoryCompact list" where
  "read_all C D files = map snd (fold (\<lambda>p. newest_of (read_compact_file C D files p)) (note_paths files) [])"

definition store_get :: "note_codec \<Rightarrow> draws \<Rightarrow> (note_path \<times> str) list \<Rightarrow> str \<Rightarrow> MemoryCompact option" where
  "store_get C D files i = find (\<lambda>c. mp_id c = i) (read_all C D files)"

definition paths_for_compact_id :: "note_codec \<Rightarrow> draws \<Rightarrow> (note_path \<times> str) list \<Rightarrow> str \<Rightarrow> note_path list" where
  "paths_for_compact_id C D files i =
     (if \<not> is_safe_note_id i then []
      else filter (\<lambda>p. stem p = i \<or> (case read_compact_file C D files p of None \<Rightarrow> False | Some c \<Rightarrow> mp_id c = i)) (note_paths files))"

section \<open>Writing\<close>

definition file_change :: "compact_env \<Rightarrow> ((note_path \<times> str) list \<Rightarrow> (note_path \<times> str) list) \<Rightarrow> unit compact_prog" where
  "file_change E f s =
     (if ce_fails E (cv_ops s) then (Inl CompactOSError, s\<lparr>cv_ops := Suc (cv_ops s)\<rparr>)
      else (Inr (), s\<lparr>cv_files := f (cv_files s), cv_ops := Suc (cv_ops s)\<rparr>))"

definition put_note :: "compact_env \<Rightarrow> note_path \<Rightarrow> str \<Rightarrow> unit compact_prog" where
  "put_note E p s = file_change E (dict_set p s)"

definition unlink :: "compact_env \<Rightarrow> note_path \<Rightarrow> unit compact_prog" where
  "unlink E p = file_change E (filter (\<lambda>f. fst f \<noteq> p))"

fun for_each :: "('a \<Rightarrow> ('s, 'e, unit) prog) \<Rightarrow> 'a list \<Rightarrow> ('s, 'e, unit) prog" where
  "for_each f [] = ret ()"
| "for_each f (x # xs) = seq (f x) (for_each f xs)"

definition unlink_existing :: "compact_env \<Rightarrow> note_path \<Rightarrow> unit compact_prog" where
  "unlink_existing E p = bind (gets (\<lambda>s. p \<in> fst ` set (cv_files s))) (\<lambda>present. whenE present (unlink E p))"

definition write_compact :: "compact_env \<Rightarrow> draws \<Rightarrow> MemoryCompact \<Rightarrow> unit compact_prog" where
  "write_compact E D c =
     bind (gets (\<lambda>s. paths_for_compact_id (ce_codec E) D (cv_files s) (mp_id c))) (\<lambda>existing.
       case compact_path (mp_id c) (Some (mp_created_at c)) of
         None \<Rightarrow> raise CompactIdError
       | Some path \<Rightarrow> seq (put_note E path (serialize_compact (ce_codec E) c))
           (for_each (unlink_existing E) (filter (\<lambda>p. p \<noteq> path) existing)))"

definition store_delete :: "compact_env \<Rightarrow> draws \<Rightarrow> str \<Rightarrow> unit compact_prog" where
  "store_delete E D i =
     bind (gets (\<lambda>s. paths_for_compact_id (ce_codec E) D (cv_files s) i)) (for_each (unlink_existing E))"

section \<open>Repository\<close>

definition MEMORY_COMPACT_POLICY_VERSION :: str where "MEMORY_COMPACT_POLICY_VERSION = ''memory-compact-v2''"
definition MEMORY_COMPACT_GENERATION_REVISION :: int where "MEMORY_COMPACT_GENERATION_REVISION = 1"

definition source_sort_key :: "MemoryCompactSourceRef \<Rightarrow> str \<times> str \<times> str \<times> str" where
  "source_sort_key r = (csr_source_type r, csr_source_id r, csr_detail_path r,
     case csr_source_hash r of None \<Rightarrow> [] | Some h \<Rightarrow> h)"

definition memory_compact_source_set_hash :: "compact_env \<Rightarrow> MemoryCompactSourceRef list \<Rightarrow> str" where
  "memory_compact_source_set_hash E refs =
     ce_sha256 E (ce_canonical_json E (JList (map (\<lambda>r. JObj
       [(''source_type'', JStr (csr_source_type r)), (''source_id'', JStr (csr_source_id r)),
        (''detail_path'', JStr (csr_detail_path r)),
        (''source_hash'', case csr_source_hash r of None \<Rightarrow> JNull | Some h \<Rightarrow> JStr h)]) (sort_key source_sort_key refs))))"

definition created_refs :: "(nat \<Rightarrow> str) \<Rightarrow> str \<Rightarrow> MemoryCompactCreate \<Rightarrow> MemoryCompactSourceRef list" where
  "created_refs new_uuid compact_id payload =
     map (\<lambda>(n, r). \<lparr> csr_id = new_uuid n, csr_compact_id = compact_id, csr_source_type = crc_source_type r,
       csr_source_id = crc_source_id r, csr_title = crc_title r, csr_detail_path = crc_detail_path r,
       csr_source_hash = crc_source_hash r \<rparr>) (enumerate 0 (mcc_source_refs payload))"

definition created_compact :: "compact_env \<Rightarrow> (nat \<Rightarrow> str) \<Rightarrow> str \<Rightarrow> instant \<Rightarrow> MemoryCompactCreate \<Rightarrow> MemoryCompact" where
  "created_compact E new_uuid compact_id now payload =
     (let refs = created_refs new_uuid compact_id payload in
      \<lparr> mp_id = compact_id, mp_project = mcc_project payload, mp_covered_from = mcc_covered_from payload,
        mp_covered_to = mcc_covered_to payload, mp_markdown_body = mcc_markdown_body payload, mp_status = mcc_status payload,
        mp_source_refs = refs, mp_created_at = now, mp_updated_at = now, mp_archived_at = None,
        mp_review_verdict = mcc_review_verdict payload, mp_review_score = mcc_review_score payload,
        mp_review_max_score = mcc_review_max_score payload, mp_reviewed_at = mcc_reviewed_at payload,
        mp_metadata_warnings = [], mp_deduplicated = False,
        mp_source_set_hash = Some (memory_compact_source_set_hash E refs),
        mp_compaction_policy_version = Some MEMORY_COMPACT_POLICY_VERSION,
        mp_generation_revision = Some MEMORY_COMPACT_GENERATION_REVISION, mp_generated_at = Some now \<rparr>)"

text \<open>
  The arguments of an operation that the code takes from its surroundings: the clock readings, the
  identifiers drawn for a created Compact and its references, and those drawn by each read.
\<close>

record compact_call =
  cc_now :: instant
  cc_supersede_now :: instant
  cc_review_now :: instant
  cc_compact_id :: str
  cc_new_uuid :: "nat \<Rightarrow> str"
  cc_get_draws :: draws
  cc_read_draws :: draws
  cc_write_draws :: draws
  cc_query_draws :: draws
  cc_page_draws :: "nat \<Rightarrow> draws"

definition supersede_current_project :: "compact_env \<Rightarrow> compact_call \<Rightarrow> str option \<Rightarrow> str option \<Rightarrow> unit compact_prog" where
  "supersede_current_project E k project excluded_id =
     bind (gets (\<lambda>s. read_all (ce_codec E) (cc_read_draws k) (cv_files s))) (\<lambda>compacts.
       for_each (\<lambda>c. write_compact E (cc_write_draws k)
           (c\<lparr>mp_status := COMPACT_SUPERSEDED, mp_updated_at := cc_supersede_now k\<rparr>))
         (filter (\<lambda>c. mp_status c = COMPACT_CURRENT \<and> mp_project c = project \<and> Some (mp_id c) \<noteq> excluded_id) compacts))"

definition persist_created_compact :: "compact_env \<Rightarrow> compact_call \<Rightarrow> MemoryCompact \<Rightarrow> unit compact_prog" where
  "persist_created_compact E k c =
     seq (whenE (mp_status c = COMPACT_CURRENT) (supersede_current_project E k (mp_project c) None))
         (write_compact E (cc_write_draws k) c)"

definition repository_create :: "compact_env \<Rightarrow> compact_call \<Rightarrow> MemoryCompactCreate \<Rightarrow> MemoryCompact compact_prog" where
  "repository_create E k payload =
     (let c = created_compact E (cc_new_uuid k) (cc_compact_id k) (cc_now k) payload in
      bind (persist_created_compact E k c) (\<lambda>_. ret c))"

definition require_compact :: "compact_env \<Rightarrow> compact_call \<Rightarrow> str \<Rightarrow> MemoryCompact compact_prog" where
  "require_compact E k i =
     bind (gets (\<lambda>s. store_get (ce_codec E) (cc_get_draws k) (cv_files s) i)) (\<lambda>v.
       case v of None \<Rightarrow> raise (MemoryCompactNotFoundError (''Memory compact not found: '' @ i)) | Some c \<Rightarrow> ret c)"

definition promoted ::
  "instant \<Rightarrow> MemoryCompactReviewVerdict option \<Rightarrow> int option \<Rightarrow> int option \<Rightarrow> instant option \<Rightarrow> MemoryCompact \<Rightarrow> MemoryCompact" where
  "promoted now verdict score max_score reviewed_at c =
     c\<lparr>mp_status := COMPACT_CURRENT, mp_updated_at := now, mp_archived_at := None, mp_review_verdict := verdict,
       mp_review_score := score, mp_review_max_score := max_score, mp_reviewed_at := reviewed_at\<rparr>"

definition repository_mark_current ::
  "compact_env \<Rightarrow> compact_call \<Rightarrow> str \<Rightarrow> MemoryCompactReviewVerdict option \<Rightarrow> int option \<Rightarrow> int option \<Rightarrow> instant option \<Rightarrow>
   MemoryCompact compact_prog" where
  "repository_mark_current E k i verdict score max_score reviewed_at =
     bind (require_compact E k i) (\<lambda>c.
       seq (supersede_current_project E k (mp_project c) (Some (mp_id c)))
         (let updated = promoted (cc_now k) verdict score max_score reviewed_at c in
          seq (write_compact E (cc_write_draws k) updated) (ret updated)))"

definition archived :: "instant \<Rightarrow> MemoryCompact \<Rightarrow> MemoryCompact" where
  "archived now c = c\<lparr>mp_status := COMPACT_ARCHIVED, mp_updated_at := now, mp_archived_at := Some now\<rparr>"

definition repository_archive :: "compact_env \<Rightarrow> compact_call \<Rightarrow> str \<Rightarrow> MemoryCompact compact_prog" where
  "repository_archive E k i =
     bind (require_compact E k i) (\<lambda>c.
       seq (write_compact E (cc_write_draws k) (archived (cc_now k) c)) (ret (archived (cc_now k) c)))"

definition repository_delete :: "compact_env \<Rightarrow> compact_call \<Rightarrow> str \<Rightarrow> unit compact_prog" where
  "repository_delete E k i = bind (require_compact E k i) (\<lambda>_. store_delete E (cc_write_draws k) i)"

definition filter_compacts ::
  "MemoryCompact list \<Rightarrow> str option \<Rightarrow> MemoryCompactStatus option \<Rightarrow> instant option \<Rightarrow> instant option \<Rightarrow> MemoryCompact list" where
  "filter_compacts compacts project status covered_after covered_before =
     filter (\<lambda>c. (project = None \<or> mp_project c = project) \<and>
       (case status of None \<Rightarrow> True | Some v \<Rightarrow> mp_status c = v) \<and>
       (case covered_after of None \<Rightarrow> True | Some t \<Rightarrow> mp_covered_to c \<ge> t) \<and>
       (case covered_before of None \<Rightarrow> True | Some t \<Rightarrow> mp_covered_from c \<le> t)) compacts"

text \<open>A stable sort in descending order.\<close>

definition descending :: "('a \<Rightarrow> int) \<Rightarrow> 'a list \<Rightarrow> 'a list" where
  "descending f xs = sort_key (\<lambda>x. - f x) xs"

definition list_compacts ::
  "compact_env \<Rightarrow> draws \<Rightarrow> compact_vault \<Rightarrow> str option \<Rightarrow> MemoryCompactStatus option \<Rightarrow> instant option \<Rightarrow> instant option \<Rightarrow>
   nat \<Rightarrow> nat \<Rightarrow> MemoryCompact list \<times> nat" where
  "list_compacts E D s project status covered_after covered_before limit offset =
     (let compacts = descending mp_covered_to (filter_compacts (read_all (ce_codec E) D (cv_files s)) project status covered_after covered_before)
      in (take limit (drop offset compacts), length compacts))"

definition repository_current :: "compact_env \<Rightarrow> draws \<Rightarrow> compact_vault \<Rightarrow> str option \<Rightarrow> MemoryCompact option" where
  "repository_current E D s project =
     (case descending mp_updated_at (filter (\<lambda>c. mp_status c = COMPACT_CURRENT \<and> mp_project c = project)
         (read_all (ce_codec E) D (cv_files s))) of [] \<Rightarrow> None | c # _ \<Rightarrow> Some c)"

end
