(* ===== verification/Compact_Vault.thy ===== *)
theory Compact_Vault
  imports Compact_Store
begin

text \<open>
  The contract of the note store. A vault in order holds every Compact in one file, at the path of
  its identifier and creation date, and reads it back whatever identifiers are drawn; \<open>catalog\<close> is
  its content by identifier. A write replaces one entry of the catalog or, when it fails, none
  (locale \<open>note_store\<close>); the repository operations are followed on the catalog alone.
\<close>

section \<open>Vaults in order\<close>

definition note_file :: "MemoryCompact \<Rightarrow> note_path" where
  "note_file c = the (compact_path (mp_id c) (Some (mp_created_at c)))"

definition well_kept :: "MemoryCompact \<Rightarrow> bool" where
  "well_kept c \<longleftrightarrow> storable c \<and> is_safe_note_id (mp_id c) \<and> rstrip_newlines (mp_markdown_body c) = mp_markdown_body c"

definition readable :: "note_codec \<Rightarrow> (note_path \<times> str) list \<Rightarrow> note_path \<Rightarrow> MemoryCompact \<Rightarrow> bool" where
  "readable C files p c \<longleftrightarrow> p \<in> set (note_paths files) \<and> (\<forall>D. read_compact_file C D files p = Some c)"

definition vault_ok :: "note_codec \<Rightarrow> (note_path \<times> str) list \<Rightarrow> bool" where
  "vault_ok C files \<longleftrightarrow> distinct (map fst files) \<and>
     (\<forall>p\<in>set (note_paths files). (\<forall>D. read_compact_file C D files p = None) \<or>
        (\<exists>c. readable C files p c \<and> well_kept c \<and> p = note_file c)) \<and>
     (\<forall>p q c c'. readable C files p c \<and> readable C files q c' \<and> mp_id c = mp_id c' \<longrightarrow> p = q)"

definition catalog :: "note_codec \<Rightarrow> (note_path \<times> str) list \<Rightarrow> str \<rightharpoonup> MemoryCompact" where
  "catalog C files i = store_get C (\<lambda>_ _ _. []) files i"

section \<open>Files and paths\<close>

lemma set_note_paths: "set (note_paths files) = {p \<in> fst ` set files. p \<noteq> [] \<and> ends_with (last p) NOTE_SUFFIX}"
  by (auto simp: note_paths_def)

lemma distinct_note_paths: "distinct (map fst files) \<Longrightarrow> distinct (note_paths files)"
  by (simp add: note_paths_def)

lemma ends_with_suffix [simp]: "ends_with (s @ t) t"
  by (simp add: ends_with_def)

lemma note_file_eq: "is_safe_note_id (mp_id c) \<Longrightarrow> compact_path (mp_id c) (Some (mp_created_at c)) = Some (note_file c)"
  by (simp add: note_file_def compact_path_def)

lemma note_file_last: "is_safe_note_id (mp_id c) \<Longrightarrow> last (note_file c) = mp_id c @ NOTE_SUFFIX \<and> note_file c \<noteq> []"
  by (simp add: note_file_def compact_path_def)

lemma note_file_id: "is_safe_note_id (mp_id c) \<Longrightarrow> is_safe_note_id (mp_id c') \<Longrightarrow> note_file c = note_file c' \<Longrightarrow> mp_id c = mp_id c'"
  by (metis note_file_last append_same_eq)

lemma stem_note_file: "is_safe_note_id (mp_id c) \<Longrightarrow> stem (note_file c) = mp_id c"
  by (simp add: stem_def note_file_last Let_def) (simp add: is_safe_note_id_def)

lemma note_file_is_note:
  "is_safe_note_id (mp_id c) \<Longrightarrow> note_file c \<in> set (note_paths files) \<longleftrightarrow> note_file c \<in> fst ` set files"
  by (simp add: set_note_paths note_file_last)

lemma map_of_removed: "map_of (filter (\<lambda>f. fst f \<noteq> p) files) q = (if q = p then None else map_of files q)"
  by (induction files) auto

lemma read_put [simp]:
  "read_compact_file C D (dict_set p s files) q = (if q = p then parse_compact C (D p) (read_text s) else read_compact_file C D files q)"
  by (simp add: read_compact_file_def)

lemma read_removed [simp]:
  "read_compact_file C D (filter (\<lambda>f. fst f \<noteq> p) files) q = (if q = p then None else read_compact_file C D files q)"
  by (simp add: read_compact_file_def map_of_removed)

lemma note_paths_put: "set (note_paths (dict_set p s files)) =
  (if p \<noteq> [] \<and> ends_with (last p) NOTE_SUFFIX then insert p (set (note_paths files)) else set (note_paths files))"
  using keys_dict_set [of p s files] by (auto simp: set_note_paths simp del: keys_dict_set)

lemma note_paths_removed: "set (note_paths (filter (\<lambda>f. fst f \<noteq> p) files)) = set (note_paths files) - {p}"
  by (auto simp: set_note_paths)

text \<open>A written note is read back.\<close>

lemma one_line_no_return: "one_line s \<Longrightarrow> CHR 0x0D \<notin> set s"
  by (auto simp: one_line_def is_linebreak_def)

lemma set_join_newline: "set (join sep ls) \<subseteq> set sep \<union> \<Union> (set ` set ls)"
  by (induction sep ls rule: join.induct) auto

lemma serialize_no_return:
  assumes "note_codec_ok C" and "storable c"
  shows "CHR 0x0D \<notin> set (serialize_compact C c)"
proof -
  let ?ps = "compact_properties C c"
  let ?lines = "[FRONTMATTER_DELIMITER] @ concat (map yaml_property_lines ?ps) @ [FRONTMATTER_DELIMITER]"
  have "\<forall>(key, v)\<in>set ?ps. simple_key key \<and> line_value v"
    using simple_keys(1) [of C c] storable_properties [OF assms] by (auto simp: list_all_iff)
  then have "\<forall>l\<in>set (concat (map yaml_property_lines ?ps)). one_line l"
    using printed_property_lines by fastforce
  then have "\<forall>l\<in>set ?lines. CHR 0x0D \<notin> set l" using one_line_no_return by (auto simp: FRONTMATTER_DELIMITER_def)
  then have "CHR 0x0D \<notin> set (join newline ?lines)" using set_join_newline [of newline ?lines] by auto
  moreover have "CHR 0x0D \<notin> set (rstrip_newlines (mp_markdown_body c))"
    using assms(2) set_dropWhileD by (fastforce simp: storable_def list_all_iff rstrip_newlines_def is_linebreak_def)
  ultimately show ?thesis unfolding serialize_compact_def by simp
qed

definition normal :: "MemoryCompact \<Rightarrow> MemoryCompact" where
  "normal c = c\<lparr>mp_markdown_body := rstrip_newlines (mp_markdown_body c)\<rparr>"

lemma read_written:
  assumes "note_codec_ok C" and "storable c"
  shows "parse_compact C fresh (read_text (serialize_compact C c)) = Some (normal c)"
  using serialize_no_return [OF assms] parse_serialized [OF assms]
  by (simp add: read_text_def replace_all_no_match normal_def)

lemma normal_simps [simp]:
  "mp_id (normal c) = mp_id c" "mp_created_at (normal c) = mp_created_at c" "note_file (normal c) = note_file c"
  "mp_status (normal c) = mp_status c" "mp_project (normal c) = mp_project c"
  by (simp_all add: normal_def note_file_def)

lemma set_rstrip_newlines: "set (rstrip_newlines s) \<subseteq> set s"
  unfolding rstrip_newlines_def by (auto dest: set_dropWhileD)

lemma well_kept_normal: "storable c \<Longrightarrow> is_safe_note_id (mp_id c) \<Longrightarrow> well_kept (normal c)"
  using set_rstrip_newlines [of "mp_markdown_body c"] by (auto simp: well_kept_def storable_def normal_def list_all_iff)

lemma well_kept_normal_id: "well_kept c \<Longrightarrow> normal c = c"
  by (simp add: well_kept_def normal_def)

section \<open>The catalog\<close>

lemma dict_set_new: "k \<notin> fst ` set d \<Longrightarrow> dict_set k v d = d @ [(k, v)]"
  by (induction d) auto

lemma fold_newest_of:
  assumes "distinct (map mp_id (List.map_filter f xs))" and "fst ` set d \<inter> mp_id ` set (List.map_filter f xs) = {}"
  shows "fold (\<lambda>x. newest_of (f x)) xs d = d @ map (\<lambda>c. (mp_id c, c)) (List.map_filter f xs)"
  using assms
proof (induction xs arbitrary: d)
  case (Cons x xs)
  show ?case
  proof (cases "f x")
    case (Some c)
    with Cons.prems have new: "mp_id c \<notin> fst ` set d" by (simp add: map_filter_simps)
    then have "newest_of (f x) d = d @ [(mp_id c, c)]"
      by (simp add: newest_of_def Some dict_set_new map_of_eq_None_iff [THEN iffD2])
    with Cons.IH [of "d @ [(mp_id c, c)]"] Cons.prems Some show ?thesis by (auto simp: map_filter_simps)
  qed (use Cons in \<open>auto simp: newest_of_def map_filter_simps\<close>)
qed (simp add: map_filter_simps)

definition found :: "note_codec \<Rightarrow> draws \<Rightarrow> (note_path \<times> str) list \<Rightarrow> MemoryCompact list" where
  "found C D files = List.map_filter (read_compact_file C D files) (note_paths files)"

lemma vault_okD:
  assumes "vault_ok C files"
  shows "read_compact_file C D files p = Some c \<Longrightarrow> p \<in> set (note_paths files) \<Longrightarrow> readable C files p c"
    and "readable C files p c \<Longrightarrow> well_kept c \<and> p = note_file c"
    and "readable C files p c \<Longrightarrow> readable C files q c' \<Longrightarrow> mp_id c = mp_id c' \<Longrightarrow> p = q \<and> c = c'"
proof -
  have *: "(\<forall>D. read_compact_file C D files p = None) \<or> (\<exists>c. readable C files p c \<and> well_kept c \<and> p = note_file c)"
    if "p \<in> set (note_paths files)" for p using assms that unfolding vault_ok_def by blast
  show "readable C files p c" if "read_compact_file C D files p = Some c" "p \<in> set (note_paths files)"
    using * [OF that(2)] that(1) unfolding readable_def by (metis option.distinct(1) option.inject)
  show "well_kept c \<and> p = note_file c" if "readable C files p c"
    using * [of p] that unfolding readable_def by (metis option.distinct(1) option.inject)
  show "p = q \<and> c = c'" if "readable C files p c" "readable C files q c'" "mp_id c = mp_id c'"
  proof -
    have "p = q" using assms that unfolding vault_ok_def by blast
    with that show ?thesis unfolding readable_def by (metis option.inject)
  qed
qed

lemma set_found:
  assumes "vault_ok C files"
  shows "set (found C D files) = {c. \<exists>p. readable C files p c}"
proof -
  have "set (found C D files) = {c. \<exists>p\<in>set (note_paths files). read_compact_file C D files p = Some c}"
    by (force simp: found_def List.map_filter_def)
  then show ?thesis using vault_okD(1) [OF assms, of D] unfolding readable_def by blast
qed

lemma found_ids:
  assumes "vault_ok C files"
  shows "distinct (map mp_id (found C D files))"
proof -
  have "distinct (note_paths files)" using assms distinct_note_paths unfolding vault_ok_def by blast
  moreover have "inj_on (\<lambda>p. mp_id (the (read_compact_file C D files p))) {p \<in> set (note_paths files). read_compact_file C D files p \<noteq> None}"
  proof (rule inj_onI)
    fix p q
    assume "p \<in> {p \<in> set (note_paths files). read_compact_file C D files p \<noteq> None}"
      "q \<in> {p \<in> set (note_paths files). read_compact_file C D files p \<noteq> None}"
      and ids: "mp_id (the (read_compact_file C D files p)) = mp_id (the (read_compact_file C D files q))"
    then obtain c c' where "readable C files p c" "readable C files q c'" "read_compact_file C D files p = Some c"
      "read_compact_file C D files q = Some c'" using vault_okD(1) [OF assms, of D] by blast
    with ids vault_okD(3) [OF assms] show "p = q" by simp
  qed
  ultimately show ?thesis by (simp add: found_def List.map_filter_def distinct_map o_def inj_on_def)
qed

lemma read_all_found:
  assumes "vault_ok C files"
  shows "read_all C D files = found C D files"
  using fold_newest_of [of "read_compact_file C D files" "note_paths files" "[]"] found_ids [OF assms, of D]
  by (simp add: read_all_def found_def o_def)

lemma find_id: "distinct (map mp_id cs) \<Longrightarrow> find (\<lambda>c. mp_id c = i) cs = Some c \<longleftrightarrow> c \<in> set cs \<and> mp_id c = i"
  by (induction cs) auto

lemma store_get_iff:
  assumes "vault_ok C files"
  shows "store_get C D files i = Some c \<longleftrightarrow> (\<exists>p. readable C files p c) \<and> mp_id c = i"
  unfolding store_get_def read_all_found [OF assms] find_id [OF found_ids [OF assms]] set_found [OF assms] by simp

lemma store_get_catalog:
  assumes "vault_ok C files"
  shows "store_get C D files i = catalog C files i"
  unfolding catalog_def by (rule option.expand) (use store_get_iff [OF assms] in \<open>metis option.collapse option.distinct(1)\<close>)+

lemma catalog_iff:
  assumes "vault_ok C files"
  shows "catalog C files i = Some c \<longleftrightarrow> readable C files (note_file c) c \<and> mp_id c = i"
  unfolding catalog_def store_get_iff [OF assms] using vault_okD(2) [OF assms] by blast

section \<open>Changing one file\<close>

definition writable :: "(str \<rightharpoonup> MemoryCompact) \<Rightarrow> MemoryCompact \<Rightarrow> bool" where
  "writable m c \<longleftrightarrow> storable c \<and> is_safe_note_id (mp_id c) \<and>
     (case m (mp_id c) of None \<Rightarrow> True | Some old \<Rightarrow> mp_created_at old = mp_created_at c)"

lemma catalog_kept:
  assumes "vault_ok C files" and "catalog C files i = Some c"
  shows "mp_id c = i" "well_kept c"
  using catalog_iff [OF assms(1)] vault_okD(2) [OF assms(1)] assms(2) by blast+

lemma option_ext: "(\<And>d. x = Some d \<longleftrightarrow> y = Some d) \<Longrightarrow> x = y"
  by (cases x; cases y) auto

lemma put_ok:
  assumes codec: "note_codec_ok C" and ok: "vault_ok C files" and w: "writable (catalog C files) c"
  defines "files' \<equiv> dict_set (note_file c) (serialize_compact C c) files"
  shows "vault_ok C files'" and "catalog C files' = (catalog C files)(mp_id c \<mapsto> normal c)"
proof -
  have c: "storable c" "is_safe_note_id (mp_id c)" using w by (simp_all add: writable_def)
  note paths = note_paths_put [of "note_file c" "serialize_compact C c" files]
  have new: "readable C files' q d \<longleftrightarrow> (if q = note_file c then d = normal c else readable C files q d)" for q d
    using note_file_last [OF c(2)] unfolding readable_def files'_def by (auto simp: read_written [OF codec c(1)] note_paths_put)
  have other: "mp_id d \<noteq> mp_id c" if "q \<noteq> note_file c" "readable C files q d" for q d
  proof
    assume same: "mp_id d = mp_id c"
    have "q = note_file d" using vault_okD(2) [OF ok that(2)] by simp
    with that same have "catalog C files (mp_id c) = Some d" by (simp add: catalog_iff [OF ok])
    with w same have "note_file d = note_file c" by (simp add: writable_def note_file_def)
    with that \<open>q = note_file d\<close> show False by simp
  qed
  show ok': "vault_ok C files'"
    unfolding vault_ok_def
  proof (intro conjI ballI allI impI)
    have "distinct (map fst files)" using ok by (simp add: vault_ok_def)
    then show "distinct (map fst files')" unfolding files'_def by (rule distinct_dict_set)
    show "(\<forall>D. read_compact_file C D files' q = None) \<or> (\<exists>d. readable C files' q d \<and> well_kept d \<and> q = note_file d)"
      if q: "q \<in> set (note_paths files')" for q
    proof (cases "q = note_file c")
      case True
      then show ?thesis using well_kept_normal [OF c] by (auto simp: new)
    next
      case False
      then have "q \<in> set (note_paths files)"
        using q [unfolded files'_def, unfolded paths] by (simp split: if_splits)
      then have "(\<forall>D. read_compact_file C D files q = None) \<or> (\<exists>d. readable C files q d \<and> well_kept d \<and> q = note_file d)"
        using ok unfolding vault_ok_def by blast
      moreover have "read_compact_file C D files' q = read_compact_file C D files q" for D
        using False by (simp add: files'_def)
      moreover have "readable C files' q d \<longleftrightarrow> readable C files q d" for d using False new by simp
      ultimately show ?thesis by simp
    qed
    show "q = q'" if "readable C files' q d \<and> readable C files' q' d' \<and> mp_id d = mp_id d'" for q q' d d'
      using that other vault_okD(3) [OF ok] unfolding new by (auto split: if_splits) metis+
  qed
  show "catalog C files' = (catalog C files)(mp_id c \<mapsto> normal c)"
  proof
    fix i
    have "catalog C files' i = Some d \<longleftrightarrow> ((catalog C files)(mp_id c \<mapsto> normal c)) i = Some d" for d
    proof (cases "note_file d = note_file c")
      case True
      have "catalog C files i = Some d \<Longrightarrow> mp_id c = i"
        using catalog_kept [OF ok, of i d] note_file_id [OF _ c(2) True] by (auto simp: well_kept_def)
      then show ?thesis unfolding catalog_iff [OF ok'] new by (auto simp: True)
    next
      case False
      then have "d \<noteq> normal c" by auto
      with False show ?thesis unfolding catalog_iff [OF ok'] new using other [OF False] catalog_iff [OF ok, of i d] by auto
    qed
    then show "catalog C files' i = ((catalog C files)(mp_id c \<mapsto> normal c)) i"
      by (rule option_ext)
  qed
qed

lemma remove_ok:
  fixes p :: note_path
  assumes ok: "vault_ok C files"
  defines "files' \<equiv> filter (\<lambda>f. fst f \<noteq> p) files"
  shows "vault_ok C files'"
    and "catalog C files' = (\<lambda>i. case catalog C files i of None \<Rightarrow> None | Some c \<Rightarrow> if note_file c = p then None else Some c)"
proof -
  have new: "readable C files' q d \<longleftrightarrow> q \<noteq> p \<and> readable C files q d" for q d
    unfolding readable_def files'_def by (auto simp: note_paths_removed)
  show ok': "vault_ok C files'"
    unfolding vault_ok_def
  proof (intro conjI ballI allI impI)
    show "distinct (map fst files')" using ok unfolding files'_def vault_ok_def by (simp add: distinct_map_filter)
    show "(\<forall>D. read_compact_file C D files' q = None) \<or> (\<exists>d. readable C files' q d \<and> well_kept d \<and> q = note_file d)"
      if "q \<in> set (note_paths files')" for q
    proof -
      have "q \<in> set (note_paths files)" "q \<noteq> p" using that by (auto simp: files'_def note_paths_removed)
      moreover have "read_compact_file C D files' q = read_compact_file C D files q" for D
        using \<open>q \<noteq> p\<close> by (simp add: files'_def)
      moreover have "readable C files' q d \<longleftrightarrow> readable C files q d" for d using \<open>q \<noteq> p\<close> new by simp
      ultimately show ?thesis using ok unfolding vault_ok_def by simp
    qed
    show "q = q'" if "readable C files' q d \<and> readable C files' q' d' \<and> mp_id d = mp_id d'" for q q' d d'
      using that vault_okD(3) [OF ok] unfolding new by blast
  qed
  show "catalog C files' = (\<lambda>i. case catalog C files i of None \<Rightarrow> None | Some c \<Rightarrow> if note_file c = p then None else Some c)"
  proof
    fix i
    have "catalog C files' i = Some d \<longleftrightarrow>
        (case catalog C files i of None \<Rightarrow> None | Some c \<Rightarrow> if note_file c = p then None else Some c) = Some d" for d
      unfolding catalog_iff [OF ok'] new using catalog_iff [OF ok, of i d] by (auto split: option.split)
    then show "catalog C files' i = (case catalog C files i of None \<Rightarrow> None | Some c \<Rightarrow> if note_file c = p then None else Some c)"
      by (rule option_ext)
  qed
qed

section \<open>The contract of a write\<close>

text \<open>
  What the repository relies on: the catalog holds Compacts that can be written again, the listing is
  the catalog, and a write changes one entry or, when it raises, possibly none. When nothing fails,
  \<open>calm\<close>, it returns.
\<close>

locale note_store =
  fixes ok :: "'s \<Rightarrow> bool" and cat :: "'s \<Rightarrow> str \<rightharpoonup> MemoryCompact" and listing :: "'s \<Rightarrow> MemoryCompact list"
    and wr :: "MemoryCompact \<Rightarrow> ('s, compact_error, unit) prog" and calm :: bool
  assumes cat_kept: "ok s \<Longrightarrow> cat s i = Some c \<Longrightarrow> mp_id c = i \<and> well_kept c"
    and listing_cat: "ok s \<Longrightarrow> c \<in> set (listing s) \<longleftrightarrow> cat s (mp_id c) = Some c"
    and listing_ids: "ok s \<Longrightarrow> distinct (map mp_id (listing s))"
    and write_law: "ok s \<Longrightarrow> writable (cat s) c \<Longrightarrow> wr c s = (r, s') \<Longrightarrow>
      ok s' \<and> (cat s' = (cat s)(mp_id c \<mapsto> normal c) \<or> (cat s' = cat s \<and> r \<noteq> Inr ())) \<and> (calm \<longrightarrow> r = Inr ())"
begin

text \<open>Writing back catalogued Compacts with another state: some of them are changed, all when it returns.\<close>

lemma rewrite_entries:
  assumes "ok s" and "distinct (map mp_id cs)" and "\<And>c. c \<in> set cs \<Longrightarrow> cat s (mp_id c) = Some c"
    and f: "\<And>c. well_kept c \<Longrightarrow> well_kept (f c)" "\<And>c. mp_id (f c) = mp_id c" "\<And>c. mp_created_at (f c) = mp_created_at c"
    and "for_each (\<lambda>c. wr (f c)) cs s = (r, s')"
  shows "ok s' \<and> (calm \<longrightarrow> r = Inr ()) \<and> (\<exists>X. X \<subseteq> mp_id ` set cs \<and> (r = Inr () \<longrightarrow> X = mp_id ` set cs) \<and>
    cat s' = (\<lambda>i. if i \<in> X then map_option f (cat s i) else cat s i))"
  using assms(1-3,7)
proof (induction cs arbitrary: s)
  case Nil
  then show ?case by (auto simp: ret_def)
next
  case (Cons c cs)
  obtain r1 s1 where first: "wr (f c) s = (r1, s1)" by (cases "wr (f c) s") auto
  have c: "cat s (mp_id c) = Some c" "well_kept c"
    using Cons.prems(3) [of c] cat_kept [OF Cons.prems(1), of "mp_id c" c] by simp_all
  then have "writable (cat s) (f c)" using f(1) [of c] by (auto simp: writable_def well_kept_def f(2,3))
  from write_law [OF Cons.prems(1) this first]
  have law: "ok s1" "calm \<longrightarrow> r1 = Inr ()" "cat s1 = (cat s)(mp_id c \<mapsto> f c) \<or> cat s1 = cat s \<and> r1 \<noteq> Inr ()"
    using well_kept_normal_id [OF f(1) [OF c(2)]] by (auto simp: f(2))
  show ?case
  proof (cases r1)
    case (Inl e)
    with first Cons.prems(4) have "r = Inl e" "s' = s1" by (auto simp: seq_def bind_def)
    have "\<exists>X. X \<subseteq> mp_id ` set (c # cs) \<and> cat s1 = (\<lambda>i. if i \<in> X then map_option f (cat s i) else cat s i)"
      using law(3)
    proof
      assume "cat s1 = (cat s)(mp_id c \<mapsto> f c)"
      then show ?thesis using c(1) by (intro exI [of _ "{mp_id c}"]) auto
    next
      assume "cat s1 = cat s \<and> r1 \<noteq> Inr ()"
      then show ?thesis by (intro exI [of _ "{}"]) auto
    qed
    with \<open>r = Inl e\<close> \<open>s' = s1\<close> law Inl show ?thesis by auto
  next
    case (Inr u)
    with law have s1: "cat s1 = (cat s)(mp_id c \<mapsto> f c)" by auto
    have rest: "for_each (\<lambda>c. wr (f c)) cs s1 = (r, s')" using first Cons.prems(4) Inr by (auto simp: seq_def bind_def)
    have kept: "cat s1 (mp_id d) = Some d" if "d \<in> set cs" for d
    proof -
      have "mp_id d \<noteq> mp_id c" using that Cons.prems(2) by (force simp: image_iff)
      with Cons.prems(3) [of d] that show ?thesis by (simp add: s1)
    qed
    from Cons.IH [OF law(1) _ kept rest] Cons.prems(2) obtain X where X: "ok s'" "calm \<longrightarrow> r = Inr ()" "X \<subseteq> mp_id ` set cs"
      "r = Inr () \<longrightarrow> X = mp_id ` set cs" "cat s' = (\<lambda>i. if i \<in> X then map_option f (cat s1 i) else cat s1 i)" by auto
    have "mp_id c \<notin> X" using X(3) Cons.prems(2) by auto
    then have "cat s' = (\<lambda>i. if i \<in> insert (mp_id c) X then map_option f (cat s i) else cat s i)"
      unfolding X(5) s1 using c(1) by auto
    with X show ?thesis by (intro conjI exI [of _ "insert (mp_id c) X"]) auto
  qed
qed

end

section \<open>The store meets the contract\<close>

lemma keeps_for_each [keeps_rules]: "(\<And>x. x \<in> set xs \<Longrightarrow> keeps I (f x)) \<Longrightarrow> keeps I (for_each f xs)"
  by (induction xs) (auto intro: keeps_rules)

lemma for_each_calm:
  "(\<And>x s. x \<in> set xs \<Longrightarrow> fst (f x s) = Inr ()) \<Longrightarrow> fst (for_each f xs s) = Inr ()"
proof (induction xs arbitrary: s)
  case (Cons x xs)
  obtain s1 where "f x s = (Inr (), s1)" using Cons.prems [of x s] by (cases "f x s") auto
  with Cons.IH [of s1] Cons.prems show ?case by (simp add: seq_def bind_def)
qed (simp add: ret_def)

lemma unlink_existing_outcome:
  "fst (unlink_existing E p s) = Inr () \<Longrightarrow> cv_files (snd (unlink_existing E p s)) = filter (\<lambda>f. fst f \<noteq> p) (cv_files s)"
  "fst (unlink_existing E p s) \<noteq> Inr () \<Longrightarrow> cv_files (snd (unlink_existing E p s)) = cv_files s"
  "\<forall>n. \<not> ce_fails E n \<Longrightarrow> fst (unlink_existing E p s) = Inr ()"
proof -
  have run: "unlink_existing E p s = (if p \<in> fst ` set (cv_files s) then file_change E (filter (\<lambda>f. fst f \<noteq> p)) s else (Inr (), s))"
    by (simp add: unlink_existing_def bind_def gets_def whenE_def unlink_def ret_def)
  have absent: "filter (\<lambda>f. fst f \<noteq> p) (cv_files s) = cv_files s" if "p \<notin> fst ` set (cv_files s)"
    using that by (intro filter_True) force
  show "fst (unlink_existing E p s) = Inr () \<Longrightarrow> cv_files (snd (unlink_existing E p s)) = filter (\<lambda>f. fst f \<noteq> p) (cv_files s)"
    "fst (unlink_existing E p s) \<noteq> Inr () \<Longrightarrow> cv_files (snd (unlink_existing E p s)) = cv_files s"
    "\<forall>n. \<not> ce_fails E n \<Longrightarrow> fst (unlink_existing E p s) = Inr ()"
    using absent by (simp_all add: run file_change_def split: if_splits)
qed

lemma existing_stems:
  assumes "vault_ok C files" and "p \<in> set (paths_for_compact_id C D files i)"
  shows "stem p = i"
proof -
  have p: "p \<in> set (note_paths files)" "stem p = i \<or> (\<exists>c. read_compact_file C D files p = Some c \<and> mp_id c = i)"
    using assms(2) by (auto simp: paths_for_compact_id_def split: if_splits option.splits)
  from p(2) show ?thesis
  proof (elim disjE exE conjE)
    fix c assume c: "read_compact_file C D files p = Some c" "mp_id c = i"
    then have "well_kept c \<and> p = note_file c" using vault_okD(1,2) [OF assms(1)] p(1) by blast
    with c(2) stem_note_file [of c] show ?thesis by (simp add: well_kept_def)
  qed
qed

lemma remove_same_stem:
  assumes "vault_ok C files" and "catalog C files i = Some c" and "stem p = i" and "p \<noteq> note_file c"
  shows "vault_ok C (filter (\<lambda>f. fst f \<noteq> p) files)" "catalog C (filter (\<lambda>f. fst f \<noteq> p) files) = catalog C files"
proof -
  have "note_file d \<noteq> p" if "catalog C files j = Some d" for j d
  proof
    assume d: "note_file d = p"
    have "mp_id d = j" "is_safe_note_id (mp_id d)" using catalog_kept [OF assms(1) that] by (simp_all add: well_kept_def)
    with d assms(3) stem_note_file [of d] have "j = i" by simp
    with that assms(2,4) d show False by simp
  qed
  then show "catalog C (filter (\<lambda>f. fst f \<noteq> p) files) = catalog C files"
    unfolding remove_ok(2) [OF assms(1)] by (auto split: option.splits)
qed (rule remove_ok(1) [OF assms(1)])

lemma write_compact_law:
  assumes "note_codec_ok (ce_codec E)" and "vault_ok (ce_codec E) (cv_files s)" and "writable (catalog (ce_codec E) (cv_files s)) c"
    and "write_compact E D c s = (r, s')"
  shows "vault_ok (ce_codec E) (cv_files s') \<and>
    (catalog (ce_codec E) (cv_files s') = (catalog (ce_codec E) (cv_files s))(mp_id c \<mapsto> normal c) \<or>
     (catalog (ce_codec E) (cv_files s') = catalog (ce_codec E) (cv_files s) \<and> r \<noteq> Inr ())) \<and>
    ((\<forall>n. \<not> ce_fails E n) \<longrightarrow> r = Inr ())"
proof -
  let ?C = "ce_codec E" and ?m = "catalog (ce_codec E) (cv_files s)"
  have safe: "is_safe_note_id (mp_id c)" using assms(3) by (simp add: writable_def)
  define others where "others = filter (\<lambda>p. p \<noteq> note_file c) (paths_for_compact_id ?C D (cv_files s) (mp_id c))"
  let ?put = "put_note E (note_file c) (serialize_compact ?C c)"
  have run: "seq ?put (for_each (unlink_existing E) others) s = (r, s')"
    using assms(4) by (simp add: write_compact_def bind_def gets_def note_file_eq [OF safe] others_def)
  show ?thesis
  proof (cases "ce_fails E (cv_ops s)")
    case True
    with run assms(2) show ?thesis by (auto simp: seq_def bind_def put_note_def file_change_def)
  next
    case False
    define s1 where "s1 = s\<lparr>cv_files := dict_set (note_file c) (serialize_compact ?C c) (cv_files s), cv_ops := Suc (cv_ops s)\<rparr>"
    have rest: "for_each (unlink_existing E) others s1 = (r, s')"
      using run False by (simp add: seq_def bind_def put_note_def file_change_def s1_def)
    define I where "I = (\<lambda>v :: compact_vault. vault_ok ?C (cv_files v) \<and> catalog ?C (cv_files v) = ?m(mp_id c \<mapsto> normal c))"
    have "I s1" using put_ok [OF assms(1-3)] by (simp add: I_def s1_def)
    moreover have "keeps I (for_each (unlink_existing E) others)"
    proof (rule keeps_for_each)
      fix p assume "p \<in> set others"
      then have p: "stem p = mp_id c" "p \<noteq> note_file c" using existing_stems [OF assms(2)] by (auto simp: others_def)
      show "keeps I (unlink_existing E p)"
        unfolding keeps_def
      proof (intro allI impI)
        fix v assume v: "I v"
        then have "catalog ?C (cv_files v) (mp_id c) = Some (normal c)" by (simp add: I_def)
        with v p remove_same_stem [of ?C "cv_files v" "mp_id c" "normal c" p]
        have "I (v\<lparr>cv_files := filter (\<lambda>f. fst f \<noteq> p) (cv_files v)\<rparr>)" by (simp add: I_def)
        with v unlink_existing_outcome(1,2) [of E p v] show "I (snd (unlink_existing E p v))"
          by (cases "fst (unlink_existing E p v) = Inr ()") (simp_all add: I_def)
      qed
    qed
    ultimately have "I s'" using rest by (metis keepsD)
    moreover have "r = Inr ()" if "\<forall>n. \<not> ce_fails E n"
      using for_each_calm [of others "unlink_existing E" s1] unlink_existing_outcome(3) [OF that] rest by simp
    ultimately show ?thesis by (simp add: I_def)
  qed
qed

lemma listing_catalog:
  assumes "vault_ok C files"
  shows "c \<in> set (read_all C D files) \<longleftrightarrow> catalog C files (mp_id c) = Some c"
  unfolding read_all_found [OF assms] set_found [OF assms] catalog_iff [OF assms] using vault_okD(2) [OF assms] by blast

definition env_ok :: "compact_env \<Rightarrow> compact_vault \<Rightarrow> bool" where
  "env_ok E s \<longleftrightarrow> note_codec_ok (ce_codec E) \<and> vault_ok (ce_codec E) (cv_files s)"

abbreviation cat_of :: "compact_env \<Rightarrow> compact_vault \<Rightarrow> str \<rightharpoonup> MemoryCompact" where
  "cat_of E s \<equiv> catalog (ce_codec E) (cv_files s)"

interpretation vault: note_store "env_ok E" "cat_of E" "\<lambda>s. read_all (ce_codec E) D (cv_files s)" "write_compact E D'" "\<forall>n. \<not> ce_fails E n"
  for E D D'
proof unfold_locales
  fix s i c r s'
  show "mp_id c = i \<and> well_kept c" if "env_ok E s" "cat_of E s i = Some c"
    using catalog_kept that unfolding env_ok_def by blast
  show "c \<in> set (read_all (ce_codec E) D (cv_files s)) \<longleftrightarrow> cat_of E s (mp_id c) = Some c" if "env_ok E s"
    using listing_catalog that unfolding env_ok_def by blast
  show "distinct (map mp_id (read_all (ce_codec E) D (cv_files s)))" if "env_ok E s"
    using that unfolding env_ok_def by (simp add: read_all_found found_ids)
  show "env_ok E s' \<and> (cat_of E s' = (cat_of E s)(mp_id c \<mapsto> normal c) \<or> cat_of E s' = cat_of E s \<and> r \<noteq> Inr ()) \<and>
      ((\<forall>n. \<not> ce_fails E n) \<longrightarrow> r = Inr ())"
    if "env_ok E s" "writable (cat_of E s) c" "write_compact E D' c s = (r, s')"
    using write_compact_law [OF _ _ that(2,3)] that(1) unfolding env_ok_def by blast
qed

section \<open>Repository operations on the catalog\<close>

definition superseded :: "instant \<Rightarrow> MemoryCompact \<Rightarrow> MemoryCompact" where
  "superseded now c = c\<lparr>mp_status := COMPACT_SUPERSEDED, mp_updated_at := now\<rparr>"

text \<open>The catalog with the Compacts under \<open>X\<close> superseded.\<close>

definition retire :: "instant \<Rightarrow> str set \<Rightarrow> (str \<rightharpoonup> MemoryCompact) \<Rightarrow> str \<rightharpoonup> MemoryCompact" where
  "retire now X m = (\<lambda>i. if i \<in> X then map_option (superseded now) (m i) else m i)"

definition rivals :: "(str \<rightharpoonup> MemoryCompact) \<Rightarrow> str option \<Rightarrow> str option \<Rightarrow> str set" where
  "rivals m project excluded_id =
     {i. \<exists>c. m i = Some c \<and> mp_status c = COMPACT_CURRENT \<and> mp_project c = project \<and> Some i \<noteq> excluded_id}"

lemma well_kept_superseded: "well_kept c \<Longrightarrow> well_kept (superseded now c)"
  by (simp add: well_kept_def storable_def superseded_def)

lemma superseded_simps [simp]:
  "mp_id (superseded now c) = mp_id c" "mp_created_at (superseded now c) = mp_created_at c"
  "mp_project (superseded now c) = mp_project c" "mp_status (superseded now c) = COMPACT_SUPERSEDED"
  by (simp_all add: superseded_def)

lemma supersede_outcome:
  assumes "env_ok E s" and "supersede_current_project E k project excluded_id s = (r, s')"
  shows "env_ok E s' \<and> ((\<forall>n. \<not> ce_fails E n) \<longrightarrow> r = Inr ()) \<and>
    (\<exists>X \<subseteq> rivals (cat_of E s) project excluded_id. cat_of E s' = retire (cc_supersede_now k) X (cat_of E s) \<and>
      (r = Inr () \<longrightarrow> X = rivals (cat_of E s) project excluded_id))"
proof -
  let ?all = "read_all (ce_codec E) (cc_read_draws k) (cv_files s)"
  define cs where "cs = filter (\<lambda>c. mp_status c = COMPACT_CURRENT \<and> mp_project c = project \<and> Some (mp_id c) \<noteq> excluded_id) ?all"
  have run: "for_each (\<lambda>c. write_compact E (cc_write_draws k) (superseded (cc_supersede_now k) c)) cs s = (r, s')"
    using assms(2) by (simp add: supersede_current_project_def bind_def gets_def superseded_def cs_def)
  have ids: "distinct (map mp_id cs)" unfolding cs_def
    using vault.listing_ids [OF assms(1)] by (rule distinct_map_filter)
  have in_cat: "cat_of E s (mp_id c) = Some c" if "c \<in> set cs" for c
    using that vault.listing_cat [OF assms(1)] by (simp add: cs_def)
  have "i \<in> mp_id ` set cs \<longleftrightarrow> i \<in> rivals (cat_of E s) project excluded_id" for i
  proof
    assume "i \<in> mp_id ` set cs"
    then show "i \<in> rivals (cat_of E s) project excluded_id" using in_cat by (auto simp: rivals_def cs_def)
  next
    assume "i \<in> rivals (cat_of E s) project excluded_id"
    then obtain c where c: "cat_of E s i = Some c" "mp_status c = COMPACT_CURRENT \<and> mp_project c = project \<and> Some i \<noteq> excluded_id"
      by (auto simp: rivals_def)
    have "mp_id c = i" using vault.cat_kept [OF assms(1) c(1)] by simp
    with c vault.listing_cat [OF assms(1)] show "i \<in> mp_id ` set cs" unfolding cs_def by (intro image_eqI [of _ _ c]) simp_all
  qed
  then have "mp_id ` set cs = rivals (cat_of E s) project excluded_id" by blast
  with vault.rewrite_entries [OF assms(1) ids in_cat _ _ _ run] well_kept_superseded show ?thesis
    by (auto simp: retire_def)
qed

end
