(* ===== verification/Compact_Repository.thy ===== *)
theory Compact_Repository
  imports Compact_Vault
begin

text \<open>
  The repository operations followed on the catalog: what each does to it when it returns, and what
  it may leave behind when a file operation fails.
\<close>

section \<open>Lookups\<close>

lemma require_outcome:
  assumes "env_ok E s"
  shows "require_compact E k i s = (case cat_of E s i of
    None \<Rightarrow> (Inl (MemoryCompactNotFoundError (''Memory compact not found: '' @ i)), s) | Some c \<Rightarrow> (Inr c, s))"
  using assms by (simp add: require_compact_def bind_def gets_def store_get_catalog env_ok_def raise_def ret_def split: option.split)

section \<open>Promotion\<close>

lemma well_kept_promoted:
  "well_kept c \<Longrightarrow> short_option score \<Longrightarrow> short_option max_score \<Longrightarrow> well_kept (promoted now verdict score max_score t c)"
  by (simp add: well_kept_def storable_def promoted_def)

lemma promoted_simps [simp]:
  "mp_id (promoted now verdict score max_score t c) = mp_id c"
  "mp_created_at (promoted now verdict score max_score t c) = mp_created_at c"
  "mp_project (promoted now verdict score max_score t c) = mp_project c"
  "mp_status (promoted now verdict score max_score t c) = COMPACT_CURRENT"
  "mp_markdown_body (promoted now verdict score max_score t c) = mp_markdown_body c"
  "mp_source_refs (promoted now verdict score max_score t c) = mp_source_refs c"
  by (simp_all add: promoted_def)

text \<open>A write after the rivals were superseded: all or part of the first, then all of the second.\<close>

lemma superseding_write:
  assumes "env_ok E s" and "is_safe_note_id (mp_id u)" "storable u"
    and "\<And>X. writable (retire (cc_supersede_now k) X (cat_of E s)) u"
    and "seq (supersede_current_project E k project excluded_id) (write_compact E D u) s = (r, s')"
  defines "R \<equiv> rivals (cat_of E s) project excluded_id"
  shows "env_ok E s' \<and> ((\<forall>n. \<not> ce_fails E n) \<longrightarrow> r = Inr ()) \<and>
    (cat_of E s' = (retire (cc_supersede_now k) R (cat_of E s))(mp_id u \<mapsto> normal u) \<or>
     (r \<noteq> Inr () \<and> (\<exists>X\<subseteq>R. cat_of E s' = retire (cc_supersede_now k) X (cat_of E s))))"
proof -
  obtain r1 s1 where first: "supersede_current_project E k project excluded_id s = (r1, s1)"
    by (cases "supersede_current_project E k project excluded_id s") auto
  from supersede_outcome [OF assms(1) this] obtain X where X: "env_ok E s1" "(\<forall>n. \<not> ce_fails E n) \<longrightarrow> r1 = Inr ()"
    "X \<subseteq> R" "cat_of E s1 = retire (cc_supersede_now k) X (cat_of E s)" "r1 = Inr () \<longrightarrow> X = R"
    unfolding R_def by blast
  show ?thesis
  proof (cases r1)
    case (Inl e)
    with first assms(5) have "r = Inl e" "s' = s1" by (auto simp: seq_def bind_def)
    with X Inl show ?thesis by auto
  next
    case (Inr u')
    with first assms(5) have "write_compact E D u s1 = (r, s')" by (auto simp: seq_def bind_def)
    from vault.write_law [OF X(1) _ this] assms(4) [of X]
    have w: "env_ok E s'" "(\<forall>n. \<not> ce_fails E n) \<longrightarrow> r = Inr ()"
      "cat_of E s' = (cat_of E s1)(mp_id u \<mapsto> normal u) \<or> cat_of E s' = cat_of E s1 \<and> r \<noteq> Inr ()"
      unfolding X(4) by auto
    have "X = R" using X(5) Inr by simp
    with w X(4) show ?thesis by auto
  qed
qed

lemma mark_current_outcome:
  assumes "env_ok E s" and "cat_of E s i = Some c" and "short_option score" "short_option max_score"
    and "repository_mark_current E k i verdict score max_score t s = (r, s')"
  defines "R \<equiv> rivals (cat_of E s) (mp_project c) (Some i)" and "u \<equiv> promoted (cc_now k) verdict score max_score t c"
  shows "env_ok E s' \<and> ((\<forall>n. \<not> ce_fails E n) \<longrightarrow> r = Inr u) \<and> (\<forall>v. r = Inr v \<longrightarrow> v = u) \<and>
    (cat_of E s' = (retire (cc_supersede_now k) R (cat_of E s))(i \<mapsto> u) \<or>
     ((\<exists>e. r = Inl e) \<and> (\<exists>X\<subseteq>R. cat_of E s' = retire (cc_supersede_now k) X (cat_of E s))))"
proof -
  have c: "mp_id c = i" "well_kept c" using vault.cat_kept [OF assms(1,2)] by simp_all
  let ?two = "seq (supersede_current_project E k (mp_project c) (Some i)) (write_compact E (cc_write_draws k) u)"
  obtain r1 s1 where two: "?two s = (r1, s1)" by (cases "?two s") auto
  have u: "well_kept u" unfolding u_def by (rule well_kept_promoted [OF c(2) assms(3,4)])
  have "writable (retire n X (cat_of E s)) u" for n X
    using u assms(2) c by (auto simp: writable_def well_kept_def retire_def u_def)
  from superseding_write [OF assms(1) _ _ this two] u
  have out: "env_ok E s1" "(\<forall>n. \<not> ce_fails E n) \<longrightarrow> r1 = Inr ()"
    "cat_of E s1 = (retire (cc_supersede_now k) R (cat_of E s))(i \<mapsto> u) \<or>
     (r1 \<noteq> Inr () \<and> (\<exists>X\<subseteq>R. cat_of E s1 = retire (cc_supersede_now k) X (cat_of E s)))"
    using well_kept_normal_id [OF u] by (auto simp: well_kept_def R_def u_def c)
  have "r = (case r1 of Inl e \<Rightarrow> Inl e | Inr _ \<Rightarrow> Inr u)" "s' = s1"
    using assms(5) two unfolding repository_mark_current_def bind_def require_outcome [OF assms(1)] assms(2) c(1)
    by (auto simp: seq_def bind_def ret_def Let_def c u_def [symmetric] split: sum.splits prod.splits)
  with out show ?thesis by (auto split: sum.splits)
qed

section \<open>Creation\<close>

lemma create_outcome:
  fixes E :: compact_env and k :: compact_call and payload :: MemoryCompactCreate
  assumes "env_ok E s"
  defines "c \<equiv> created_compact E (cc_new_uuid k) (cc_compact_id k) (cc_now k) payload"
  assumes "storable c" "is_safe_note_id (mp_id c)" "cat_of E s (mp_id c) = None"
    and "repository_create E k payload s = (r, s')"
  defines "R \<equiv> (if mp_status c = COMPACT_CURRENT then rivals (cat_of E s) (mp_project c) None else {})"
  shows "env_ok E s' \<and> ((\<forall>n. \<not> ce_fails E n) \<longrightarrow> r = Inr c) \<and> (\<forall>v. r = Inr v \<longrightarrow> v = c) \<and>
    (cat_of E s' = (retire (cc_supersede_now k) R (cat_of E s))(mp_id c \<mapsto> normal c) \<or>
     ((\<exists>e. r = Inl e) \<and> (\<exists>X\<subseteq>R. cat_of E s' = retire (cc_supersede_now k) X (cat_of E s))))"
proof -
  obtain r1 s1 where run: "persist_created_compact E k c s = (r1, s1)" by (cases "persist_created_compact E k c s") auto
  have r: "r = (case r1 of Inl e \<Rightarrow> Inl e | Inr _ \<Rightarrow> Inr c)" "s' = s1"
    using assms(6) run unfolding repository_create_def c_def [symmetric] Let_def by (auto simp: bind_def ret_def split: sum.splits)
  have w: "writable (retire n X (cat_of E s)) c" for n X
    using assms(3-5) by (simp add: writable_def retire_def)
  have "env_ok E s1 \<and> ((\<forall>n. \<not> ce_fails E n) \<longrightarrow> r1 = Inr ()) \<and>
    (cat_of E s1 = (retire (cc_supersede_now k) R (cat_of E s))(mp_id c \<mapsto> normal c) \<or>
     (r1 \<noteq> Inr () \<and> (\<exists>X\<subseteq>R. cat_of E s1 = retire (cc_supersede_now k) X (cat_of E s))))"
  proof (cases "mp_status c = COMPACT_CURRENT")
    case True
    with run superseding_write [OF assms(1,4,3) w] show ?thesis
      unfolding persist_created_compact_def R_def by (simp add: whenE_def)
  next
    case False
    then have "write_compact E (cc_write_draws k) c s = (r1, s1)"
      using run by (simp add: persist_created_compact_def whenE_def seq_def bind_def ret_def)
    from vault.write_law [OF assms(1) _ this] w [of 0 "{}"] False show ?thesis
      by (auto simp: R_def retire_def)
  qed
  with r show ?thesis by (auto split: sum.splits)
qed

section \<open>Archiving and deletion\<close>

lemma archive_outcome:
  assumes "env_ok E s" and "cat_of E s i = Some c" and "repository_archive E k i s = (r, s')"
  shows "env_ok E s' \<and> ((\<forall>n. \<not> ce_fails E n) \<longrightarrow> r = Inr (archived (cc_now k) c)) \<and>
    (cat_of E s' = (cat_of E s)(i \<mapsto> archived (cc_now k) c) \<or> ((\<exists>e. r = Inl e) \<and> cat_of E s' = cat_of E s))"
proof -
  have c: "mp_id c = i" "well_kept c" using vault.cat_kept [OF assms(1,2)] by simp_all
  let ?u = "archived (cc_now k) c"
  have u: "well_kept ?u" "mp_id ?u = i" "mp_created_at ?u = mp_created_at c"
    using c by (simp_all add: well_kept_def storable_def archived_def)
  obtain r1 s1 where run: "write_compact E (cc_write_draws k) ?u s = (r1, s1)"
    by (cases "write_compact E (cc_write_draws k) ?u s") auto
  have "writable (cat_of E s) ?u" using u assms(2) by (simp add: writable_def well_kept_def)
  from vault.write_law [OF assms(1) this run] well_kept_normal_id [OF u(1)] u(2)
  have out: "env_ok E s1 \<and> (cat_of E s1 = (cat_of E s)(i \<mapsto> ?u) \<or> cat_of E s1 = cat_of E s \<and> r1 \<noteq> Inr ()) \<and>
    ((\<forall>n. \<not> ce_fails E n) \<longrightarrow> r1 = Inr ())" by simp
  have "r = (case r1 of Inl e \<Rightarrow> Inl e | Inr _ \<Rightarrow> Inr ?u)" "s' = s1"
    using assms(3) run unfolding repository_archive_def bind_def require_outcome [OF assms(1)] assms(2)
    by (auto simp: seq_def bind_def ret_def split: sum.splits)
  with out show ?thesis by (auto split: sum.splits)
qed

abbreviation removed :: "note_path list \<Rightarrow> (note_path \<times> str) list \<Rightarrow> (note_path \<times> str) list" where
  "removed ps files \<equiv> fold (\<lambda>p. filter (\<lambda>f. fst f \<noteq> p)) ps files"

lemma removed_notes_ok:
  assumes "vault_ok C files"
  shows "vault_ok C (removed ps files) \<and> catalog C (removed ps files) =
    (\<lambda>i. case catalog C files i of None \<Rightarrow> None | Some c \<Rightarrow> if note_file c \<in> set ps then None else Some c)"
  using assms
proof (induction ps arbitrary: files)
  case Nil
  then show ?case by (auto split: option.split)
next
  case (Cons p ps)
  from Cons.IH [OF remove_ok(1) [OF Cons.prems]] show ?case
    unfolding remove_ok(2) [OF Cons.prems] by (auto split: option.split)
qed

lemma unlinks_outcome:
  assumes "for_each (unlink_existing E) ps s = (r, s')"
  shows "\<exists>n. cv_files s' = removed (take n ps) (cv_files s) \<and> (r = Inr () \<longrightarrow> length ps \<le> n)"
  using assms
proof (induction ps arbitrary: s)
  case Nil
  then show ?case by (auto simp: ret_def)
next
  case (Cons p ps)
  obtain r1 s1 where first: "unlink_existing E p s = (r1, s1)" by (cases "unlink_existing E p s") auto
  show ?case
  proof (cases r1)
    case (Inl e)
    with first Cons.prems have "r = Inl e" "s' = s1" by (auto simp: seq_def bind_def)
    moreover have "cv_files s1 = cv_files s" using unlink_existing_outcome(2) [of E p s] first Inl by simp
    ultimately show ?thesis by (intro exI [of _ 0]) simp
  next
    case (Inr u)
    with first Cons.prems have "for_each (unlink_existing E) ps s1 = (r, s')" by (auto simp: seq_def bind_def)
    then obtain n where n: "cv_files s' = removed (take n ps) (cv_files s1)" "r = Inr () \<longrightarrow> length ps \<le> n"
      using Cons.IH by blast
    have "cv_files s1 = filter (\<lambda>f. fst f \<noteq> p) (cv_files s)" using unlink_existing_outcome(1) [of E p s] first Inr by simp
    with n show ?thesis by (intro exI [of _ "Suc n"]) auto
  qed
qed

lemma delete_outcome:
  assumes "env_ok E s" and "cat_of E s i = Some c" and "repository_delete E k i s = (r, s')"
  shows "env_ok E s' \<and> ((\<forall>n. \<not> ce_fails E n) \<longrightarrow> r = Inr ()) \<and>
    (cat_of E s' = (cat_of E s)(i := None) \<or> (r \<noteq> Inr () \<and> cat_of E s' = cat_of E s))"
proof -
  have c: "mp_id c = i" "well_kept c" using vault.cat_kept [OF assms(1,2)] by simp_all
  have ok: "vault_ok (ce_codec E) (cv_files s)" using assms(1) by (simp add: env_ok_def)
  let ?ps = "paths_for_compact_id (ce_codec E) (cc_write_draws k) (cv_files s) i"
  have run: "for_each (unlink_existing E) ?ps s = (r, s')"
    using assms(3) unfolding repository_delete_def bind_def require_outcome [OF assms(1)] assms(2)
    by (simp add: store_delete_def bind_def gets_def)
  then obtain n where n: "cv_files s' = removed (take n ?ps) (cv_files s)" "r = Inr () \<longrightarrow> length ?ps \<le> n"
    using unlinks_outcome by blast
  have mine: "note_file d \<in> set (take n ?ps) \<Longrightarrow> j = i" if "cat_of E s j = Some d" for j d
    using existing_stems [OF ok] in_set_takeD [of "note_file d" n ?ps] vault.cat_kept [OF assms(1) that] stem_note_file [of d]
    by (fastforce simp: well_kept_def)
  have "note_file c \<in> set ?ps"
    using assms(2) c unfolding catalog_iff [OF ok] readable_def
    by (auto simp: paths_for_compact_id_def well_kept_def stem_note_file)
  have "cat_of E s' j = (if j = i \<and> note_file c \<in> set (take n ?ps) then None else cat_of E s j)" for j
    unfolding n(1) conjunct2 [OF removed_notes_ok [OF ok]] using mine [of j] assms(2) by (auto split: option.split)
  then have "cat_of E s' = (if note_file c \<in> set (take n ?ps) then (cat_of E s)(i := None) else cat_of E s)" by auto
  with n(2) \<open>note_file c \<in> set ?ps\<close> have "cat_of E s' = (cat_of E s)(i := None) \<or> (r \<noteq> Inr () \<and> cat_of E s' = cat_of E s)"
    by (auto split: if_splits)
  moreover have "r = Inr ()" if "\<forall>n. \<not> ce_fails E n"
    using for_each_calm [of ?ps "unlink_existing E" s] unlink_existing_outcome(3) [OF that] run by simp
  ultimately show ?thesis using removed_notes_ok [OF ok] assms(1) n(1) by (simp add: env_ok_def)
qed

end
