(* ===== verification/Compact_Review.thy ===== *)
theory Compact_Review
  imports Compact_Model
begin

text \<open>
  The quality rubric of Memory Compacts: what a review observes
  (\<open>memory_compact_review_evidence.py\<close>), how it scores the Markdown sections
  (\<open>memory_compact_review_scoring.py\<close>), the verdict (\<open>memory_compact_review.py\<close>) and the policy that
  guards the CURRENT state (\<open>memory_compact_policy.py\<close>).

  Texts are in the Latin-1 range, so the two Korean contradiction patterns cannot occur in them and
  are left out.
\<close>

section \<open>Contracts\<close>

record MemoryCompactSourceObservation =
  mo_source_id :: str
  mo_detail_path :: "str option"
  mo_current_source_hash :: "str option"

record MemoryCompactRubricScore =
  rs_code :: str
  rs_label :: str
  rs_score :: int
  rs_required :: bool
  rs_reasons :: "str list"

record MemoryCompactReviewResult =
  mr_compact_id :: str
  mr_verdict :: MemoryCompactReviewVerdict
  mr_total_score :: int
  mr_max_score :: int
  mr_scores :: "MemoryCompactRubricScore list"
  mr_missing_refs :: "str list"
  mr_contradictions :: "str list"
  mr_stale_reasons :: "str list"
  mr_recommended_actions :: "str list"

section \<open>Evidence\<close>

definition BLOCKING_CONTRADICTION_PATTERNS :: "str list" where
  "BLOCKING_CONTRADICTION_PATTERNS =
     [''unresolved contradiction'', ''blocking contradiction'', ''contradiction unresolved'']"

definition ref_blank :: "MemoryCompactSourceRef \<Rightarrow> bool" where
  "ref_blank r \<longleftrightarrow> strip (csr_source_type r) = [] \<or> strip (csr_source_id r) = [] \<or> strip (csr_title r) = [] \<or>
     strip (csr_detail_path r) = []"

definition ref_broken :: "MemoryCompactSourceRef \<Rightarrow> bool" where
  "ref_broken r \<longleftrightarrow> (let p = lower (strip (csr_detail_path r)) in starts_with p ''missing:'' \<or> starts_with p ''broken:'')"

definition missing_ref_reasons :: "MemoryCompactSourceRef list \<Rightarrow> str list" where
  "missing_ref_reasons refs =
     (if refs = [] then [''source_refs_missing'']
      else concat (map (\<lambda>r.
        (if ref_blank r then [''source_ref_incomplete:'' @ (if csr_source_id r = [] then ''unknown'' else csr_source_id r)] else []) @
        (if ref_broken r then [''source_ref_broken:'' @ csr_source_id r] else [])) refs))"

definition ref_markers :: "MemoryCompactSourceRef \<Rightarrow> str list" where
  "ref_markers r = [lower (strip (csr_source_id r)), lower (strip (csr_detail_path r)), lower (strip (csr_title r))]"

definition ref_linked :: "str \<Rightarrow> MemoryCompactSourceRef \<Rightarrow> bool" where
  "ref_linked summary r = list_ex (\<lambda>marker. marker \<noteq> [] \<and> contains (lower summary) marker) (ref_markers r)"

definition unlinked_source_refs :: "str \<Rightarrow> MemoryCompactSourceRef list \<Rightarrow> str list" where
  "unlinked_source_refs summary refs =
     map (\<lambda>r. ''source_ref_unlinked:'' @ csr_source_id r) (filter (\<lambda>r. \<not> ref_linked summary r) refs)"

definition source_ref_key :: "MemoryCompactSourceRef \<Rightarrow> str \<times> str option" where
  "source_ref_key r = (csr_source_id r, Some (csr_detail_path r))"

definition observation_key :: "MemoryCompactSourceObservation \<Rightarrow> str \<times> str option" where
  "observation_key x = (mo_source_id x, mo_detail_path x)"

text \<open>The dictionary of the observations that have a hash; of two under one key the last is kept.\<close>

definition observations_by_key :: "MemoryCompactSourceObservation list \<Rightarrow> (str \<times> str option) \<rightharpoonup> MemoryCompactSourceObservation" where
  "observations_by_key obs =
     map_of (rev (map (\<lambda>x. (observation_key x, x)) (filter (\<lambda>x. mo_current_source_hash x \<noteq> None) obs)))"

definition observation_for :: "MemoryCompactSourceObservation list \<Rightarrow> MemoryCompactSourceRef \<Rightarrow> MemoryCompactSourceObservation option" where
  "observation_for obs r =
     or_else (observations_by_key obs (source_ref_key r)) (observations_by_key obs (csr_source_id r, None))"

definition ref_stale :: "MemoryCompactSourceObservation list \<Rightarrow> MemoryCompactSourceRef \<Rightarrow> bool" where
  "ref_stale obs r = (case observation_for obs r of
       None \<Rightarrow> False
     | Some x \<Rightarrow> csr_source_hash r \<noteq> None \<and> mo_current_source_hash x \<noteq> csr_source_hash r)"

definition stale_reasons :: "MemoryCompactSourceRef list \<Rightarrow> MemoryCompactSourceObservation list \<Rightarrow> str list" where
  "stale_reasons refs obs = map (\<lambda>r. ''source_hash_mismatch:'' @ csr_source_id r) (filter (ref_stale obs) refs)"

definition contradictions :: "str \<Rightarrow> str list" where
  "contradictions body = map (replace_all '' '' ''_'') (filter (contains (lower body)) BLOCKING_CONTRADICTION_PATTERNS)"

text \<open>\<open>next\<close> over the scores raises when there is none; every caller passes the whole rubric.\<close>

definition recommended_actions ::
  "MemoryCompactReviewVerdict \<Rightarrow> MemoryCompactRubricScore list \<Rightarrow> str list \<Rightarrow> str list \<Rightarrow> str list \<Rightarrow> str list" where
  "recommended_actions verdict scores missing stale contra =
     (let evidence_low = (case find (\<lambda>s. rs_code s = ''evidence_completeness'') scores of None \<Rightarrow> False | Some s \<Rightarrow> rs_score s < 2);
          low = map rs_code (filter (\<lambda>s. rs_required s \<and> rs_score s = 0 \<and>
            rs_code s \<notin> {''evidence_completeness'', ''freshness'', ''contradiction_handling''}) scores);
          actions =
            (if missing \<noteq> [] then [''repair_source_refs''] else []) @
            (if stale \<noteq> [] then [''refresh_source_evidence''] else []) @
            (if contra \<noteq> [] then [''resolve_contradictions''] else []) @
            (if evidence_low \<and> missing = [] then [''improve_evidence_completeness''] else []) @
            (if low \<noteq> [] then [''revise_required_sections:'' @ join '','' low] else [])
      in if verdict = VERDICT_PASS then actions @ [''promote_or_keep_current'']
         else if actions = [] then [''revise_memory_compact''] else actions)"

section \<open>Sections\<close>

text \<open>
  \<open>re.match(r"^#{1,6}\s+(.+?)\s*$", line)\<close> on a line: one to six hashes and white space, then the
  stripped text; a line of white space alone matches from its second character on, and the lazy group
  is then its last character.
\<close>

definition hashes :: "str \<Rightarrow> nat" where
  "hashes line = length (takeWhile (\<lambda>c. c = CHR ''#'') line)"

definition heading_of :: "str \<Rightarrow> str option" where
  "heading_of line =
     (let r = drop (hashes line) line in
      if hashes line < 1 \<or> hashes line > 6 \<or> r = [] \<or> \<not> is_space (hd r) then None
      else if strip r \<noteq> [] then Some (strip r)
      else if length r \<ge> 2 then Some [last r] else None)"

definition section_key :: "str \<Rightarrow> str" where
  "section_key heading =
     (let normalized = slug_words heading in
      if normalized = ''durable decisions'' then ''durable_decisions''
      else if normalized = ''current state'' then ''current_state''
      else if normalized \<in> {''risks and blockers'', ''risks blockers''} then ''risks_blockers''
      else if normalized = ''next actions'' then ''next_actions''
      else if normalized = ''evidence summary'' then ''evidence_summary''
      else replace_all '' '' ''_'' normalized)"

fun sections_loop :: "str option \<Rightarrow> (str \<times> str list) list \<Rightarrow> str list \<Rightarrow> (str \<times> str list) list" where
  "sections_loop current d [] = d"
| "sections_loop current d (line # ls) = (case heading_of line of
     Some h \<Rightarrow> sections_loop (Some (section_key h))
       (if map_of d (section_key h) = None then d @ [(section_key h, [])] else d) ls
   | None \<Rightarrow> (case current of
       None \<Rightarrow> sections_loop current d ls
     | Some key \<Rightarrow> sections_loop current (dict_set key (the (map_of d key) @ [line]) d) ls))"

definition markdown_sections :: "str \<Rightarrow> (str \<times> str) list" where
  "markdown_sections body = map (\<lambda>(key, ls). (key, strip (join newline ls))) (sections_loop None [] (splitlines body))"

definition section_text :: "(str \<times> str) list \<Rightarrow> str \<Rightarrow> str" where
  "section_text sections key = (case map_of sections key of None \<Rightarrow> [] | Some s \<Rightarrow> s)"

section \<open>Scores\<close>

record RubricSpec =
  sp_code :: str
  sp_label :: str
  sp_required :: bool

definition RUBRIC :: "RubricSpec list" where
  "RUBRIC =
     [\<lparr> sp_code = ''durable_decisions'', sp_label = ''Durable Decisions'', sp_required = True \<rparr>,
      \<lparr> sp_code = ''current_state'', sp_label = ''Current State'', sp_required = True \<rparr>,
      \<lparr> sp_code = ''risks_blockers'', sp_label = ''Risks and Blockers'', sp_required = True \<rparr>,
      \<lparr> sp_code = ''next_actions'', sp_label = ''Next Actions'', sp_required = True \<rparr>,
      \<lparr> sp_code = ''evidence_completeness'', sp_label = ''Evidence Completeness'', sp_required = True \<rparr>,
      \<lparr> sp_code = ''project_isolation'', sp_label = ''Project Isolation'', sp_required = True \<rparr>,
      \<lparr> sp_code = ''freshness'', sp_label = ''Freshness'', sp_required = True \<rparr>,
      \<lparr> sp_code = ''concision'', sp_label = ''Concision'', sp_required = False \<rparr>,
      \<lparr> sp_code = ''contradiction_handling'', sp_label = ''Contradiction Handling'', sp_required = True \<rparr>,
      \<lparr> sp_code = ''actionability'', sp_label = ''Actionability'', sp_required = False \<rparr>]"

definition REQUIRED_TWO_SCORE_CODES :: "str list" where
  "REQUIRED_TWO_SCORE_CODES = [''evidence_completeness'', ''current_state'', ''project_isolation'']"

definition score_required_section :: "str \<Rightarrow> (str \<times> str) list \<Rightarrow> int \<times> str list" where
  "score_required_section code sections =
     (let s = strip (section_text sections code) in
      if s = [] then (0, [code @ ''_missing''])
      else if length (words s) < 3 then (1, [code @ ''_too_thin'']) else (2, []))"

definition is_project_line :: "str \<Rightarrow> bool" where
  "is_project_line line \<longleftrightarrow> starts_with (strip line) ''- project:'' \<or> starts_with (strip line) ''project:''"

definition score_project_isolation :: "MemoryCompact \<Rightarrow> (str \<times> str) list \<Rightarrow> int \<times> str list" where
  "score_project_isolation c sections = (case mp_project c of
       None \<Rightarrow> (2, [])
     | Some p \<Rightarrow>
         let body = lower (join newline (map snd sections)); project = lower p;
             project_lines = map (\<lambda>line. lower (strip line)) (filter is_project_line (splitlines body))
         in if list_ex (\<lambda>line. \<not> contains line project) project_lines then (0, [''project_scope_mismatch''])
            else if contains body project then (2, []) else (1, [''project_scope_not_explicit'']))"

definition score_concision :: "str \<Rightarrow> int \<times> str list" where
  "score_concision body =
     (if length body > 12000 then (0, [''compact_too_long''])
      else if length body > 8000 then (1, [''compact_verbose'']) else (2, []))"

definition score_actionability :: "(str \<times> str) list \<Rightarrow> int \<times> str list" where
  "score_actionability sections =
     (let s = section_text sections ''next_actions'' in
      if strip s = [] then (0, [''next_actions_missing''])
      else if length (words s) < 3 then (1, [''next_actions_too_thin'']) else (2, []))"

definition score_evidence_completeness ::
  "(str \<times> str) list \<Rightarrow> MemoryCompactSourceRef list \<Rightarrow> str list \<Rightarrow> int \<times> str list" where
  "score_evidence_completeness sections refs missing =
     (let unlinked = unlinked_source_refs (section_text sections ''evidence_summary'') refs in
      if missing \<noteq> [] then (0, missing) else if unlinked \<noteq> [] then (1, unlinked) else (2, []))"

definition item_score ::
  "str \<Rightarrow> MemoryCompact \<Rightarrow> (str \<times> str) list \<Rightarrow> str list \<Rightarrow> str list \<Rightarrow> str list \<Rightarrow> int \<times> str list" where
  "item_score code c sections missing stale contra =
     (if code = ''evidence_completeness'' then score_evidence_completeness sections (mp_source_refs c) missing
      else if code = ''project_isolation'' then score_project_isolation c sections
      else if code = ''freshness'' then (if stale \<noteq> [] then 0 else 2, stale)
      else if code = ''concision'' then score_concision (mp_markdown_body c)
      else if code = ''contradiction_handling'' then (if contra \<noteq> [] then 0 else 2, contra)
      else if code = ''actionability'' then score_actionability sections
      else score_required_section code sections)"

definition score_rubric_item ::
  "RubricSpec \<Rightarrow> MemoryCompact \<Rightarrow> (str \<times> str) list \<Rightarrow> str list \<Rightarrow> str list \<Rightarrow> str list \<Rightarrow> MemoryCompactRubricScore" where
  "score_rubric_item spec c sections missing stale contra =
     (case item_score (sp_code spec) c sections missing stale contra of (score, reasons) \<Rightarrow>
        \<lparr> rs_code = sp_code spec, rs_label = sp_label spec, rs_score = score, rs_required = sp_required spec, rs_reasons = reasons \<rparr>)"

section \<open>Verdict\<close>

definition review_scores :: "MemoryCompact \<Rightarrow> MemoryCompactSourceObservation list \<Rightarrow> MemoryCompactRubricScore list" where
  "review_scores c obs =
     map (\<lambda>spec. score_rubric_item spec c (markdown_sections (mp_markdown_body c)) (missing_ref_reasons (mp_source_refs c))
       (stale_reasons (mp_source_refs c) obs) (contradictions (mp_markdown_body c))) RUBRIC"

definition verdict_of :: "bool \<Rightarrow> MemoryCompactRubricScore list \<Rightarrow> MemoryCompactReviewVerdict" where
  "verdict_of blocking scores =
     (let score_by_code = (\<lambda>code. map_of (map (\<lambda>s. (rs_code s, rs_score s)) scores) code) in
      if blocking then VERDICT_BLOCKED
      else if list_ex (\<lambda>s. rs_required s \<and> rs_score s = 0) scores \<or>
              list_ex (\<lambda>code. the (score_by_code code) < 2) REQUIRED_TWO_SCORE_CODES \<or>
              sum_list (map rs_score scores) < 17
      then VERDICT_NEEDS_REVISION else VERDICT_PASS)"

definition review_memory_compact :: "MemoryCompact \<Rightarrow> MemoryCompactSourceObservation list \<Rightarrow> MemoryCompactReviewResult" where
  "review_memory_compact c obs =
     (let missing = missing_ref_reasons (mp_source_refs c); stale = stale_reasons (mp_source_refs c) obs;
          contra = contradictions (mp_markdown_body c); scores = review_scores c obs;
          verdict = verdict_of (missing \<noteq> [] \<or> stale \<noteq> [] \<or> contra \<noteq> []) scores
      in \<lparr> mr_compact_id = mp_id c, mr_verdict = verdict, mr_total_score = sum_list (map rs_score scores),
           mr_max_score = int (length RUBRIC) * 2, mr_scores = scores, mr_missing_refs = missing,
           mr_contradictions = contra, mr_stale_reasons = stale,
           mr_recommended_actions = recommended_actions verdict scores missing stale contra \<rparr>)"

section \<open>Policy of the CURRENT state\<close>

definition CURRENT_REQUIRED_SECTIONS :: "(str \<times> str) list" where
  "CURRENT_REQUIRED_SECTIONS =
     [(''durable decisions'', ''Durable Decisions''), (''current state'', ''Current State''),
      (''risks and blockers'', ''Risks and Blockers''), (''next actions'', ''Next Actions''),
      (''coverage'', ''Coverage''), (''evidence summary'', ''Evidence Summary'')]"

text \<open>
  \<open>re.finditer\<close> of the same expression over the whole body, where \<open>^\<close> and \<open>$\<close> are the boundaries of
  newline-separated lines and \<open>\s+\<close> runs over newlines: a line of hashes alone takes the next
  line that is not blank as its text. (Headings of white space alone normalise to the empty text and
  are left out.)
\<close>

fun body_headings :: "bool \<Rightarrow> str list \<Rightarrow> str list" where
  "body_headings pending [] = []"
| "body_headings pending (line # ls) =
     (let r = drop (hashes line) line in
      if pending then (if strip line = [] then body_headings True ls else strip line # body_headings False ls)
      else if hashes line < 1 \<or> hashes line > 6 \<or> (r \<noteq> [] \<and> \<not> is_space (hd r)) then body_headings False ls
      else if strip r \<noteq> [] then strip r # body_headings False ls
      else body_headings True ls)"

text \<open>\<open>_normalize_section_heading\<close> is \<open>slug_words\<close>.\<close>

definition missing_current_sections :: "str \<Rightarrow> str list" where
  "missing_current_sections body =
     (let headings = map slug_words (body_headings False (split_char (CHR 0x0A) body)) in
      map snd (filter (\<lambda>(normalized, display). normalized \<notin> set headings) CURRENT_REQUIRED_SECTIONS))"

definition review_failure_text :: "MemoryCompactReviewResult \<Rightarrow> str" where
  "review_failure_text v =
     (let reasons = mr_missing_refs v @ mr_contradictions v @ mr_stale_reasons v;
          reasons = (if reasons = [] then mr_recommended_actions v else reasons)
      in ''Current memory compact review failed: '' @ verdict_value (mr_verdict v) @ '': '' @
         (if reasons = [] then ''rubric_not_passed'' else join '','' reasons))"

definition ensure_review_passes :: "MemoryCompactReviewResult \<Rightarrow> compact_error + unit" where
  "ensure_review_passes v =
     (if mr_verdict v = VERDICT_PASS then Inr () else Inl (MemoryCompactValidationError (review_failure_text v)))"

section \<open>When a review passes\<close>

definition compact_section :: "MemoryCompact \<Rightarrow> str \<Rightarrow> str" where
  "compact_section c key = section_text (markdown_sections (mp_markdown_body c)) key"

definition thin :: "MemoryCompact \<Rightarrow> str \<Rightarrow> int" where
  "thin c key = of_bool (length (words (compact_section c key)) < 3)"

text \<open>Points a Compact loses on items that need not be perfect: a thin list of next actions counts twice.\<close>

definition deductions :: "MemoryCompact \<Rightarrow> int" where
  "deductions c = thin c ''durable_decisions'' + thin c ''risks_blockers'' + 2 * thin c ''next_actions'' +
     of_bool (length (mp_markdown_body c) > 8000) + of_bool (length (mp_markdown_body c) > 12000)"

definition sound_ref :: "MemoryCompact \<Rightarrow> MemoryCompactSourceObservation list \<Rightarrow> MemoryCompactSourceRef \<Rightarrow> bool" where
  "sound_ref c obs r \<longleftrightarrow> \<not> ref_blank r \<and> \<not> ref_broken r \<and> \<not> ref_stale obs r \<and>
     ref_linked (compact_section c ''evidence_summary'') r"

definition in_scope :: "MemoryCompact \<Rightarrow> bool" where
  "in_scope c \<longleftrightarrow> (case mp_project c of None \<Rightarrow> True | Some p \<Rightarrow>
     let body = lower (join newline (map snd (markdown_sections (mp_markdown_body c)))) in
     contains body (lower p) \<and>
     list_all (\<lambda>line. is_project_line line \<longrightarrow> contains (lower (strip line)) (lower p)) (splitlines body))"

lemma strip_section [simp]: "strip (section_text (markdown_sections body) key) = section_text (markdown_sections body) key"
  by (auto simp: section_text_def markdown_sections_def map_of_map split: option.splits)

lemma missing_refs_Nil: "missing_ref_reasons refs = [] \<longleftrightarrow> refs \<noteq> [] \<and> list_all (\<lambda>r. \<not> ref_blank r \<and> \<not> ref_broken r) refs"
  by (auto simp: missing_ref_reasons_def list_all_iff)

lemma stale_Nil: "stale_reasons refs obs = [] \<longleftrightarrow> list_all (\<lambda>r. \<not> ref_stale obs r) refs"
  by (auto simp: stale_reasons_def list_all_iff filter_empty_conv)

lemma unlinked_Nil: "unlinked_source_refs summary refs = [] \<longleftrightarrow> list_all (ref_linked summary) refs"
  by (auto simp: unlinked_source_refs_def list_all_iff filter_empty_conv)

lemma contradictions_Nil: "contradictions body = [] \<longleftrightarrow> list_all (\<lambda>p. \<not> contains (lower body) p) BLOCKING_CONTRADICTION_PATTERNS"
  by (auto simp: contradictions_def list_all_iff filter_empty_conv)

lemma isolation_two: "fst (score_project_isolation c (markdown_sections (mp_markdown_body c))) = 2 \<longleftrightarrow> in_scope c"
  by (auto simp: score_project_isolation_def in_scope_def Let_def list_all_iff list_ex_iff split: option.splits)

lemma isolation_le: "fst (score_project_isolation c sections) \<le> 2"
  by (auto simp: score_project_isolation_def Let_def split: option.splits)

text \<open>The scores of single items.\<close>

lemma section_score:
  "fst (score_required_section key (markdown_sections (mp_markdown_body c))) =
     (if compact_section c key = [] then 0 else 2 - thin c key)"
  "fst (score_actionability (markdown_sections (mp_markdown_body c))) =
     (if compact_section c ''next_actions'' = [] then 0 else 2 - thin c ''next_actions'')"
  by (simp_all add: score_required_section_def score_actionability_def compact_section_def thin_def Let_def)

lemma concision_score: "fst (score_concision body) = 2 - of_bool (length body > 8000) - of_bool (length body > 12000)"
  by (simp add: score_concision_def)

lemma evidence_score:
  "fst (score_evidence_completeness (markdown_sections (mp_markdown_body c)) refs missing) =
     (if missing \<noteq> [] then 0 else if list_all (ref_linked (compact_section c ''evidence_summary'')) refs then 2 else 1)"
  by (simp add: score_evidence_completeness_def compact_section_def unlinked_Nil Let_def)

lemma thin_range: "0 \<le> thin c key" "thin c key \<le> 1"
  by (simp_all add: thin_def)

lemma words_Nil [simp]: "words [] = []"
  by (simp add: words_def)

lemma thick_section: "thin c key < 1 \<Longrightarrow> compact_section c key \<noteq> []"
  by (auto simp: thin_def)

text \<open>The verdict in terms of the scores.\<close>

lemma review_score_values:
  "map rs_score (review_scores c obs) =
     (let S = markdown_sections (mp_markdown_body c);
          required = (\<lambda>key. fst (score_required_section key S))
      in [required ''durable_decisions'', required ''current_state'', required ''risks_blockers'', required ''next_actions'',
          fst (score_evidence_completeness S (mp_source_refs c) (missing_ref_reasons (mp_source_refs c))),
          fst (score_project_isolation c S), (if stale_reasons (mp_source_refs c) obs \<noteq> [] then 0 else 2),
          fst (score_concision (mp_markdown_body c)), (if contradictions (mp_markdown_body c) \<noteq> [] then 0 else 2),
          fst (score_actionability S)])"
  by (simp add: review_scores_def RUBRIC_def score_rubric_item_def item_score_def split_beta Let_def)

lemma verdict_values:
  fixes c obs
  defines "v \<equiv> (\<lambda>i. map rs_score (review_scores c obs) ! i)"
  shows "verdict_of b (review_scores c obs) = VERDICT_PASS \<longleftrightarrow> \<not> b \<and>
    v 0 \<noteq> 0 \<and> v 2 \<noteq> 0 \<and> v 3 \<noteq> 0 \<and> v 6 \<noteq> 0 \<and> v 8 \<noteq> 0 \<and> v 1 \<ge> 2 \<and> v 4 \<ge> 2 \<and> v 5 \<ge> 2 \<and>
    sum_list (map rs_score (review_scores c obs)) \<ge> 17"
  unfolding v_def
  by (auto simp: verdict_of_def review_scores_def RUBRIC_def score_rubric_item_def split_beta REQUIRED_TWO_SCORE_CODES_def Let_def not_less)

lemma review_passes_iff:
  "mr_verdict (review_memory_compact c obs) = VERDICT_PASS \<longleftrightarrow>
     mp_source_refs c \<noteq> [] \<and> list_all (sound_ref c obs) (mp_source_refs c) \<and>
     list_all (\<lambda>p. \<not> contains (lower (mp_markdown_body c)) p) BLOCKING_CONTRADICTION_PATTERNS \<and>
     in_scope c \<and> thin c ''current_state'' = 0 \<and>
     list_all (\<lambda>key. compact_section c key \<noteq> []) [''durable_decisions'', ''risks_blockers'', ''next_actions''] \<and>
     deductions c \<le> 3"
proof -
  have sound: "list_all (sound_ref c obs) refs \<longleftrightarrow> list_all (\<lambda>r. \<not> ref_blank r \<and> \<not> ref_broken r) refs \<and>
      list_all (\<lambda>r. \<not> ref_stale obs r) refs \<and> list_all (ref_linked (compact_section c ''evidence_summary'')) refs" for refs
    by (auto simp: sound_ref_def list_all_iff)
  show ?thesis
    using isolation_le [of c "markdown_sections (mp_markdown_body c)"] isolation_two [of c]
      thin_range [of c "''durable_decisions''"] thin_range [of c "''risks_blockers''"] thin_range [of c "''next_actions''"]
      thin_range [of c "''current_state''"]
    by (simp add: review_memory_compact_def verdict_values review_score_values Let_def section_score concision_score evidence_score
        missing_refs_Nil stale_Nil contradictions_Nil deductions_def sound) (use thick_section in auto)
qed

end
