(* ===== verification/Compact_Service.thy ===== *)
theory Compact_Service
  imports Compact_Repository Compact_Review
begin

text \<open>
  The Memory Compact use cases over the repository: candidate normalisation
  (\<open>memory_compact_candidate.py\<close>), duplicate signatures (\<open>memory_compact_signature.py\<close>), idempotent creation
  (\<open>memory_compact_creation_service.py\<close>), reads (\<open>memory_compact_query_service.py\<close>) and the reviewed
  lifecycle (\<open>memory_compact_lifecycle_service.py\<close>).

  Operations run one after the other: the lock that keeps two creations apart is not modelled.
\<close>

section \<open>Candidates\<close>

fun deduplicate_from :: "(str \<times> str \<times> str) list \<Rightarrow> MemoryCompactSourceRefCreate list \<Rightarrow> MemoryCompactSourceRefCreate list" where
  "deduplicate_from seen [] = []"
| "deduplicate_from seen (r # rs) =
     (let key = (crc_source_type r, crc_source_id r, crc_detail_path r) in
      if key \<in> set seen then deduplicate_from seen rs else r # deduplicate_from (key # seen) rs)"

definition deduplicate_source_refs :: "MemoryCompactSourceRefCreate list \<Rightarrow> MemoryCompactSourceRefCreate list" where
  "deduplicate_source_refs refs = deduplicate_from [] refs"

definition created_ref_blank :: "MemoryCompactSourceRefCreate \<Rightarrow> bool" where
  "created_ref_blank r \<longleftrightarrow> strip (crc_source_type r) = [] \<or> strip (crc_source_id r) = [] \<or> strip (crc_title r) = [] \<or>
     strip (crc_detail_path r) = []"

definition missing_sections_error :: "str list \<Rightarrow> compact_error" where
  "missing_sections_error missing =
     MemoryCompactValidationError (''Current memory compact missing required sections: '' @ join '', '' missing)"

definition validate_create :: "MemoryCompactCreate \<Rightarrow> compact_error + unit" where
  "validate_create p =
     (if mcc_covered_to p < mcc_covered_from p then Inl (MemoryCompactValidationError ''covered_to must be after covered_from'')
      else if strip (mcc_markdown_body p) = [] then Inl (MemoryCompactValidationError ''markdown_body is required'')
      else if mcc_status p = COMPACT_CURRENT \<and> mcc_source_refs p = []
      then Inl (MemoryCompactValidationError ''Current memory compact requires source refs'')
      else if mcc_status p = COMPACT_CURRENT \<and> missing_current_sections (mcc_markdown_body p) \<noteq> []
      then Inl (missing_sections_error (missing_current_sections (mcc_markdown_body p)))
      else if list_ex created_ref_blank (mcc_source_refs p)
      then Inl (MemoryCompactValidationError ''Memory compact source ref fields are required'')
      else Inr ())"

definition candidate_ref_id :: "nat \<Rightarrow> str" where
  "candidate_ref_id n = ''__candidate_source_'' @ int_text (int n) @ ''__''"

definition candidate_compact :: "MemoryCompactCreate \<Rightarrow> MemoryCompact" where
  "candidate_compact p =
     \<lparr> mp_id = ''__candidate__'', mp_project = mcc_project p, mp_covered_from = mcc_covered_from p,
       mp_covered_to = mcc_covered_to p, mp_markdown_body = mcc_markdown_body p, mp_status = mcc_status p,
       mp_source_refs = created_refs candidate_ref_id ''__candidate__'' p, mp_created_at = mcc_covered_to p,
       mp_updated_at = mcc_covered_to p, mp_archived_at = None, mp_review_verdict = mcc_review_verdict p,
       mp_review_score = mcc_review_score p, mp_review_max_score = mcc_review_max_score p, mp_reviewed_at = mcc_reviewed_at p,
       mp_metadata_warnings = [], mp_deduplicated = False, mp_source_set_hash = None, mp_compaction_policy_version = None,
       mp_generation_revision = None, mp_generated_at = None \<rparr>"

definition with_review_metadata :: "instant \<Rightarrow> MemoryCompactReviewResult \<Rightarrow> MemoryCompactCreate \<Rightarrow> MemoryCompactCreate" where
  "with_review_metadata now v p =
     p\<lparr>mcc_review_verdict := Some (mr_verdict v), mcc_review_score := Some (mr_total_score v),
       mcc_review_max_score := Some (mr_max_score v), mcc_reviewed_at := Some now\<rparr>"

definition normalized_create :: "instant \<Rightarrow> MemoryCompactCreate \<Rightarrow> compact_error + MemoryCompactCreate" where
  "normalized_create now payload =
     (let p = payload\<lparr>mcc_source_refs := deduplicate_source_refs (mcc_source_refs payload)\<rparr>;
          v = review_memory_compact (candidate_compact p) []
      in and_then (validate_create p) (\<lambda>_.
           if mcc_status p \<noteq> COMPACT_CURRENT then Inr p
           else and_then (ensure_review_passes v) (\<lambda>_. Inr (with_review_metadata now v p))))"

section \<open>Signatures\<close>

record SourceRefSignature =
  ss_source_type :: str
  ss_source_id :: str
  ss_detail_path :: str
  ss_source_hash :: "str option"

record MemoryCompactSignature =
  sg_project :: "str option"
  sg_covered_from :: instant
  sg_covered_to :: instant
  sg_source_refs :: "SourceRefSignature list"
  sg_body_hash :: str

definition source_ref_sort_key :: "SourceRefSignature \<Rightarrow> str \<times> str \<times> str \<times> str" where
  "source_ref_sort_key r = (ss_source_type r, ss_source_id r, ss_detail_path r, case ss_source_hash r of None \<Rightarrow> [] | Some h \<Rightarrow> h)"

definition body_hash :: "compact_env \<Rightarrow> str \<Rightarrow> str" where
  "body_hash E body = ce_sha256 E (strip body)"

definition create_signature :: "compact_env \<Rightarrow> MemoryCompactCreate \<Rightarrow> MemoryCompactSignature" where
  "create_signature E p =
     \<lparr> sg_project = mcc_project p, sg_covered_from = mcc_covered_from p, sg_covered_to = mcc_covered_to p,
       sg_source_refs = sort_key source_ref_sort_key (map (\<lambda>r. \<lparr> ss_source_type = crc_source_type r, ss_source_id = crc_source_id r,
         ss_detail_path = crc_detail_path r, ss_source_hash = crc_source_hash r \<rparr>) (mcc_source_refs p)),
       sg_body_hash = body_hash E (mcc_markdown_body p) \<rparr>"

definition compact_signature :: "compact_env \<Rightarrow> MemoryCompact \<Rightarrow> MemoryCompactSignature" where
  "compact_signature E c =
     \<lparr> sg_project = mp_project c, sg_covered_from = mp_covered_from c, sg_covered_to = mp_covered_to c,
       sg_source_refs = sort_key source_ref_sort_key (map (\<lambda>r. \<lparr> ss_source_type = csr_source_type r, ss_source_id = csr_source_id r,
         ss_detail_path = csr_detail_path r, ss_source_hash = csr_source_hash r \<rparr>) (mp_source_refs c)),
       sg_body_hash = body_hash E (mp_markdown_body c) \<rparr>"

section \<open>Creation\<close>

lemma length_dict_set: "length (dict_set k v d) \<le> Suc (length d)"
  by (induction d) auto

lemma length_newest_of: "length (newest_of v d) \<le> Suc (length d)"
  using length_dict_set by (auto simp: newest_of_def le_SucI split: option.split)

lemma length_read_all: "length (read_all C D files) \<le> length files"
proof -
  have "length (fold (\<lambda>p. newest_of (f p)) ps d) \<le> length d + length ps" for f and ps :: "note_path list" and d
  proof (induction ps arbitrary: d)
    case (Cons p ps)
    have "length (fold (\<lambda>p. newest_of (f p)) ps (newest_of (f p) d)) \<le> length (newest_of (f p) d) + length ps" by (rule Cons)
    with length_newest_of [of "f p" d] show ?case by simp
  qed simp
  from this [of "read_compact_file C D files" "note_paths files" "[]"]
  have "length (read_all C D files) \<le> length (note_paths files)" by (simp add: read_all_def)
  also have "\<dots> \<le> length files" unfolding note_paths_def by (simp add: length_filter_le [THEN order_trans])
  finally show ?thesis .
qed

lemma list_compacts_bound: "snd (list_compacts E D s project status after before limit offset) \<le> length (cv_files s)"
  using length_read_all [of "ce_codec E" D "cv_files s"]
  by (simp add: list_compacts_def descending_def filter_compacts_def Let_def length_filter_le [THEN order_trans])

text \<open>The search for a stored Compact with a signature, page by page.\<close>

function find_from :: "compact_env \<Rightarrow> (nat \<Rightarrow> draws) \<Rightarrow> compact_vault \<Rightarrow> str option \<Rightarrow> MemoryCompactSignature \<Rightarrow> nat \<Rightarrow> MemoryCompact option" where
  "find_from E D s project signature offset =
     (let page = list_compacts E (D offset) s project None None None 200 offset in
      case find (\<lambda>c. compact_signature E c = signature) (fst page) of
        Some c \<Rightarrow> Some c
      | None \<Rightarrow> if fst page = [] \<or> snd page \<le> offset + length (fst page) then None
          else find_from E D s project signature (offset + length (fst page)))"
  by pat_completeness auto
termination
proof (relation "measure (\<lambda>(E, D, s, project, signature, offset). length (cv_files s) - offset)")
  fix E D s project signature offset page
  assume "page = list_compacts E (D offset) s project None None None 200 offset"
    and "\<not> (fst page = [] \<or> snd page \<le> offset + length (fst page))"
  with list_compacts_bound [of E "D offset" s project None None None 200 offset]
  show "((E, D, s, project, signature, offset + length (fst page)), (E, D, s, project, signature, offset)) \<in>
      measure (\<lambda>(E, D, s, project, signature, offset). length (cv_files s) - offset)"
    by (cases "fst page") auto
qed simp

declare find_from.simps [simp del]

definition find_existing_by_signature :: "compact_env \<Rightarrow> compact_call \<Rightarrow> compact_vault \<Rightarrow> MemoryCompactCreate \<Rightarrow> MemoryCompact option" where
  "find_existing_by_signature E k s p = find_from E (cc_page_draws k) s (mcc_project p) (create_signature E p) 0"

definition compact_create :: "compact_env \<Rightarrow> compact_call \<Rightarrow> MemoryCompactCreate \<Rightarrow> MemoryCompact compact_prog" where
  "compact_create E k payload = (case normalized_create (cc_review_now k) payload of
       Inl e \<Rightarrow> raise e
     | Inr p \<Rightarrow> bind (gets (\<lambda>s. find_existing_by_signature E k s p)) (\<lambda>existing.
         case existing of Some c \<Rightarrow> ret (c\<lparr>mp_deduplicated := True\<rparr>) | None \<Rightarrow> repository_create E k p))"

section \<open>Reads\<close>

definition query_get :: "compact_env \<Rightarrow> compact_call \<Rightarrow> str \<Rightarrow> MemoryCompact compact_prog" where
  "query_get E k i =
     bind (gets (\<lambda>s. store_get (ce_codec E) (cc_query_draws k) (cv_files s) i)) (\<lambda>v.
       case v of None \<Rightarrow> raise (MemoryCompactNotFoundError (''Memory compact not found: '' @ i)) | Some c \<Rightarrow> ret c)"

definition query_list ::
  "compact_env \<Rightarrow> draws \<Rightarrow> compact_vault \<Rightarrow> str option \<Rightarrow> MemoryCompactStatus option \<Rightarrow> instant option \<Rightarrow> instant option \<Rightarrow>
   int \<Rightarrow> int \<Rightarrow> MemoryCompact list \<times> nat" where
  "query_list E D s project status covered_after covered_before limit offset =
     list_compacts E D s project status covered_after covered_before (nat (min (max limit 1) 200)) (nat (max offset 0))"

definition query_current :: "compact_env \<Rightarrow> compact_call \<Rightarrow> str option \<Rightarrow> MemoryCompact compact_prog" where
  "query_current E k project =
     bind (gets (\<lambda>s. repository_current E (cc_query_draws k) s project)) (\<lambda>v. case v of
       None \<Rightarrow> raise (MemoryCompactNotFoundError (''Current memory compact not found: '' @
         (case project of None \<Rightarrow> ''default project'' | Some p \<Rightarrow> p)))
     | Some c \<Rightarrow> ret c)"

section \<open>Lifecycle\<close>

definition compact_mark_current :: "compact_env \<Rightarrow> compact_call \<Rightarrow> str \<Rightarrow> MemoryCompact compact_prog" where
  "compact_mark_current E k i =
     bind (query_get E k i) (\<lambda>c.
       let missing = missing_current_sections (mp_markdown_body c); v = review_memory_compact c [] in
       if mp_source_refs c = [] then raise (MemoryCompactValidationError ''Current memory compact requires source refs'')
       else if missing \<noteq> [] then raise (missing_sections_error missing)
       else case ensure_review_passes v of
         Inl e \<Rightarrow> raise e
       | Inr _ \<Rightarrow> repository_mark_current E k i (Some (mr_verdict v)) (Some (mr_total_score v)) (Some (mr_max_score v))
           (Some (cc_review_now k)))"

definition compact_archive :: "compact_env \<Rightarrow> compact_call \<Rightarrow> str \<Rightarrow> MemoryCompact compact_prog" where
  "compact_archive E k i = repository_archive E k i"

definition compact_delete :: "compact_env \<Rightarrow> compact_call \<Rightarrow> str \<Rightarrow> bool \<Rightarrow> unit compact_prog" where
  "compact_delete E k i confirm =
     (if \<not> confirm then raise (MemoryCompactValidationError ''hard delete requires explicit confirmation'')
      else repository_delete E k i)"

definition compact_review :: "compact_env \<Rightarrow> compact_call \<Rightarrow> str \<Rightarrow> MemoryCompactSourceObservation list \<Rightarrow> MemoryCompactReviewResult compact_prog" where
  "compact_review E k i obs = bind (query_get E k i) (\<lambda>c. ret (review_memory_compact c obs))"

end
