(* ===== verification/Compact_Lifecycle.thy ===== *)
theory Compact_Lifecycle
  imports Compact_Service
begin

text \<open>
  What the Compact services guarantee: every CURRENT Compact of the folder has passed the rubric as it
  is stored and is the only one of its project, along every history of calls and whatever file
  operations fail; a promotion replaces the current Compact; creation is idempotent.
\<close>

section \<open>Reviews of stored bodies\<close>

text \<open>A body whose only line boundary is the newline, and what trailing newlines change: nothing.\<close>

definition newlines_only :: "str \<Rightarrow> bool" where
  "newlines_only s \<longleftrightarrow> list_all (\<lambda>x. is_linebreak x \<longrightarrow> x = CHR 0x0A) s"

lemma newlines_only_simps [simp]:
  "newlines_only (s @ t) \<longleftrightarrow> newlines_only s \<and> newlines_only t" "newlines_only newline" "newlines_only []"
  by (simp_all add: newlines_only_def)

lemma rstrip_decompose: "\<exists>n. s = rstrip_newlines s @ replicate n (CHR 0x0A)"
proof -
  have "takeWhile (\<lambda>c. c = CHR 0x0A) (rev s) = replicate (length (takeWhile (\<lambda>c. c = CHR 0x0A) (rev s))) (CHR 0x0A)"
    by (rule replicate_length_same [symmetric]) (auto dest: set_takeWhileD)
  then have "rev s = replicate (length (takeWhile (\<lambda>c. c = CHR 0x0A) (rev s))) (CHR 0x0A) @ dropWhile (\<lambda>c. c = CHR 0x0A) (rev s)"
    by (metis takeWhile_dropWhile_id)
  then have "rev (rev s) = rev (replicate (length (takeWhile (\<lambda>c. c = CHR 0x0A) (rev s))) (CHR 0x0A) @ dropWhile (\<lambda>c. c = CHR 0x0A) (rev s))"
    by presburger
  then show ?thesis unfolding rstrip_newlines_def by (metis rev_append rev_replicate rev_rev_ident)
qed

lemma newlines_invariant:
  assumes "\<And>t. newlines_only t \<Longrightarrow> P (t @ newline) = P t" and "newlines_only s"
  shows "P (rstrip_newlines s) = P s"
proof -
  obtain n where n: "s = rstrip_newlines s @ replicate n (CHR 0x0A)" using rstrip_decompose by blast
  define t where "t = rstrip_newlines s"
  have t: "newlines_only t" using assms(2) n t_def by (metis newlines_only_simps(1))
  have only: "newlines_only (t @ replicate m (CHR 0x0A))" for m using t by (auto simp: newlines_only_def list_all_iff)
  have "P (t @ replicate m (CHR 0x0A)) = P t" for m
  proof (induction m)
    case (Suc m)
    have "t @ replicate (Suc m) (CHR 0x0A) = (t @ replicate m (CHR 0x0A)) @ newline" by (simp add: replicate_append_same)
    with Suc assms(1) [OF only] show ?case by simp
  qed simp
  with n t_def show ?thesis by metis
qed

lemma splitlines_newline:
  "newlines_only s \<Longrightarrow> splitlines_acc cur (s @ newline) =
     splitlines_acc cur s @ (if (s = [] \<and> cur = []) \<or> (s \<noteq> [] \<and> last s = CHR 0x0A) then [[]] else [])"
proof (induction s arbitrary: cur)
  case (Cons c cs)
  have c: "is_linebreak c \<Longrightarrow> c = CHR 0x0A" and cs: "newlines_only cs" using Cons.prems by (auto simp: newlines_only_def)
  show ?case
  proof (cases "is_linebreak c")
    case True
    with c Cons.IH [OF cs, of "[]"] show ?thesis by auto
  next
    case False
    then have "c \<noteq> CHR 0x0A" by (auto simp: is_linebreak_def)
    with False Cons.IH [OF cs, of "c # cur"] show ?thesis by auto
  qed
qed (simp add: is_linebreak_def)

lemma join_blank: "join newline (ls @ [[]]) = (if ls = [] then [] else join newline ls @ newline)"
proof (induction ls)
  case (Cons l ls)
  then show ?case by (cases ls) auto
qed simp

lemma strip_newline [simp]: "strip (s @ newline) = strip s"
proof (cases "\<forall>c\<in>set s. is_space c")
  case True
  then have "dropWhile is_space s = []" "dropWhile is_space (s @ newline) = []" by (simp_all add: is_space_def)
  then show ?thesis by (simp only: strip_def)
next
  case False
  then have "dropWhile is_space (s @ newline) = dropWhile is_space s @ newline" by (auto simp: dropWhile_append1)
  then show ?thesis by (simp add: strip_def is_space_def)
qed

lemma heading_blank [simp]: "heading_of [] = None"
  by (simp add: heading_of_def hashes_def)

abbreviation stripped_sections :: "(str \<times> str list) list \<Rightarrow> (str \<times> str) list" where
  "stripped_sections d \<equiv> map (\<lambda>(key, ls). (key, strip (join newline ls))) d"

lemma stripped_dict_set:
  "map_of d key = Some ls \<Longrightarrow> stripped_sections (dict_set key (ls @ [[]]) d) = stripped_sections d"
  by (induction d) (auto simp: join_blank)

lemma sections_blank:
  "(\<And>key. current = Some key \<Longrightarrow> map_of d key \<noteq> None) \<Longrightarrow>
   stripped_sections (sections_loop current d (ls @ [[]])) = stripped_sections (sections_loop current d ls)"
proof (induction ls arbitrary: current d)
  case Nil
  then show ?case by (cases current) (auto simp: stripped_dict_set)
next
  case (Cons line ls)
  show ?case
  proof (cases "heading_of line")
    case None
    show ?thesis
    proof (cases current)
      case (Some key)
      have "stripped_sections (sections_loop current (dict_set key (the (map_of d key) @ [line]) d) (ls @ [[]])) =
          stripped_sections (sections_loop current (dict_set key (the (map_of d key) @ [line]) d) ls)"
        by (rule Cons.IH) (use Some in auto)
      then show ?thesis using None Some by simp
    qed (use None Cons.IH [of None d] in simp)
  next
    case (Some h)
    have "stripped_sections (sections_loop (Some (section_key h)) d' (ls @ [[]])) =
        stripped_sections (sections_loop (Some (section_key h)) d' ls)"
      if "d' = (if map_of d (section_key h) = None then d @ [(section_key h, [])] else d)" for d'
      by (rule Cons.IH) (use that in \<open>auto simp: map_add_def split: if_splits option.splits\<close>)
    then show ?thesis using Some by simp
  qed
qed

lemma markdown_sections_newline: "newlines_only s \<Longrightarrow> markdown_sections (s @ newline) = markdown_sections s"
  unfolding markdown_sections_def splitlines_def splitlines_newline
  by (auto intro: sections_blank)

lemma markdown_sections_stored: "newlines_only s \<Longrightarrow> markdown_sections (rstrip_newlines s) = markdown_sections s"
  using newlines_invariant [of markdown_sections s] markdown_sections_newline by blast

lemma starts_with_newline: "CHR 0x0A \<notin> set p \<Longrightarrow> starts_with (s @ newline) p = starts_with s p"
  by (induction s p rule: starts_with.induct) (auto simp: neq_Nil_conv split: list.split)

lemma contains_newline: "p \<noteq> [] \<Longrightarrow> CHR 0x0A \<notin> set p \<Longrightarrow> contains (s @ newline) p = contains s p"
proof (induction s)
  case Nil
  then show ?case by (cases p) auto
next
  case (Cons c s)
  with starts_with_newline [of p "c # s"] show ?case by simp
qed

lemma lower_newline: "lower (s @ newline) = lower s @ newline"
  by (simp add: lower_def lower_char_def upper_latin1_def)

lemma contradictions_newline: "contradictions (s @ newline) = contradictions s"
  by (simp add: contradictions_def lower_newline contains_newline BLOCKING_CONTRADICTION_PATTERNS_def)

lemma contradictions_stored: "newlines_only s \<Longrightarrow> contradictions (rstrip_newlines s) = contradictions s"
  using newlines_invariant [of contradictions s] contradictions_newline by blast

lemma split_char_last: "split_char sep (s @ [sep]) = split_char sep s @ [[]]"
  by (induction s) (auto split: list.split)

lemma body_headings_blank: "body_headings pending (ls @ [[]]) = body_headings pending ls"
  by (induction pending ls rule: body_headings.induct) (auto simp: hashes_def Let_def)

lemma missing_sections_stored: "newlines_only s \<Longrightarrow> missing_current_sections (rstrip_newlines s) = missing_current_sections s"
  using newlines_invariant [of missing_current_sections s]
  by (simp add: missing_current_sections_def split_char_last body_headings_blank)

text \<open>What a CURRENT Compact has to be: it has sources, the required sections and a passing review.\<close>

definition fit :: "MemoryCompact \<Rightarrow> bool" where
  "fit c \<longleftrightarrow> mp_source_refs c \<noteq> [] \<and> missing_current_sections (mp_markdown_body c) = [] \<and>
     mr_verdict (review_memory_compact c []) = VERDICT_PASS"

definition ref_view :: "MemoryCompactSourceRef \<Rightarrow> str \<times> str \<times> str \<times> str" where
  "ref_view r = (csr_source_type r, csr_source_id r, csr_title r, csr_detail_path r)"

lemma never_stale [simp]: "\<not> ref_stale [] r"
  by (simp add: ref_stale_def observation_for_def observations_by_key_def)

lemma sound_refs_view:
  assumes "map ref_view refs = map ref_view refs'"
  shows "list_all (sound_ref c []) refs = list_all (sound_ref c []) refs'"
proof -
  define Q where "Q = (\<lambda>(t, i, n, p). sound_ref c [] \<lparr> csr_id = [], csr_compact_id = [], csr_source_type = t, csr_source_id = i,
    csr_title = n, csr_detail_path = p, csr_source_hash = None \<rparr>)"
  have "sound_ref c [] r = Q (ref_view r)" for r
    by (simp add: Q_def ref_view_def sound_ref_def ref_blank_def ref_broken_def ref_linked_def ref_markers_def)
  then have "list_all (sound_ref c []) rs = list_all Q (map ref_view rs)" for rs by (simp add: list_all_iff)
  with assms show ?thesis by simp
qed

lemma stored_length: "length (rstrip_newlines s) \<le> length s"
  using rstrip_decompose [of s] by (metis le_add1 length_append)

lemma fit_stored:
  assumes "fit c" and "newlines_only (mp_markdown_body c)" and "mp_project d = mp_project c"
    and "mp_markdown_body d = rstrip_newlines (mp_markdown_body c)" and "map ref_view (mp_source_refs d) = map ref_view (mp_source_refs c)"
  shows "fit d"
proof -
  note same = markdown_sections_stored [OF assms(2)]
  have sec: "compact_section d = compact_section c" "thin d = thin c" "in_scope d = in_scope c" "sound_ref d [] = sound_ref c []"
    by (simp_all add: fun_eq_iff compact_section_def thin_def in_scope_def sound_ref_def assms(3,4) same cong: option.case_cong)
  have "deductions d \<le> deductions c"
    using stored_length [of "mp_markdown_body c"] by (simp add: deductions_def sec assms(4))
  moreover have "list_all (\<lambda>p. \<not> contains (lower (mp_markdown_body d)) p) BLOCKING_CONTRADICTION_PATTERNS =
      list_all (\<lambda>p. \<not> contains (lower (mp_markdown_body c)) p) BLOCKING_CONTRADICTION_PATTERNS"
    unfolding contradictions_Nil [symmetric] assms(4) contradictions_stored [OF assms(2)] ..
  moreover have "mp_source_refs d \<noteq> []" using assms(1,5) by (auto simp: fit_def)
  ultimately show ?thesis
    using assms(1) sound_refs_view [OF assms(5), of c] missing_sections_stored [OF assms(2)]
    unfolding fit_def review_passes_iff sec by (simp add: assms(4))
qed

lemma fit_cong:
  assumes "mp_project d = mp_project c" and "mp_markdown_body d = mp_markdown_body c" and "mp_source_refs d = mp_source_refs c"
  shows "fit d = fit c"
proof -
  have "compact_section d = compact_section c" "thin d = thin c" "in_scope d = in_scope c" "sound_ref d [] = sound_ref c []" "deductions d = deductions c"
    by (simp_all add: fun_eq_iff compact_section_def thin_def in_scope_def sound_ref_def deductions_def assms cong: option.case_cong)
  then show ?thesis unfolding fit_def review_passes_iff by (simp add: assms)
qed

text \<open>Scores stay between 0 and 20.\<close>

lemma review_total_range: "0 \<le> mr_total_score (review_memory_compact c obs)" "mr_total_score (review_memory_compact c obs) \<le> 20"
proof -
  have item: "0 \<le> fst (item_score code c sections missing stale contra) \<and> fst (item_score code c sections missing stale contra) \<le> 2" for code sections missing stale contra
    by (auto simp: item_score_def score_evidence_completeness_def score_project_isolation_def score_concision_def score_actionability_def
        score_required_section_def Let_def split: option.splits)
  then have "0 \<le> rs_score (score_rubric_item spec c sections missing stale contra) \<and> rs_score (score_rubric_item spec c sections missing stale contra) \<le> 2"
    for spec sections missing stale contra by (simp add: score_rubric_item_def split_beta)
  then have all: "\<forall>x\<in>set (map rs_score (review_scores c obs)). 0 \<le> x \<and> x \<le> 2" by (simp add: review_scores_def)
  have "0 \<le> sum_list xs \<and> sum_list xs \<le> 2 * int (length xs)" if "\<forall>x\<in>set xs. 0 \<le> x \<and> x \<le> 2" for xs :: "int list"
    using that by (induction xs) auto
  from this [OF all] show "0 \<le> mr_total_score (review_memory_compact c obs)" "mr_total_score (review_memory_compact c obs) \<le> 20"
    by (simp_all add: review_memory_compact_def Let_def review_scores_def RUBRIC_def)
qed

lemma review_short:
  "short_option (Some (mr_total_score (review_memory_compact c obs)))" "short_option (Some (mr_max_score (review_memory_compact c obs)))"
  using review_total_range [of c obs]
  by (auto simp: short_option_def review_memory_compact_def Let_def RUBRIC_def int64_def intro!: int64_short)

section \<open>Calls\<close>

text \<open>The digest is printed in hexadecimal.\<close>

definition digest_ok :: "compact_env \<Rightarrow> bool" where
  "digest_ok E \<longleftrightarrow> (\<forall>s. plain_text (ce_sha256 E s))"

definition storable_source :: "MemoryCompactSourceRefCreate \<Rightarrow> bool" where
  "storable_source r \<longleftrightarrow> one_line (crc_detail_path r) \<and>
     list_all (\<lambda>s. CHR 0x85 \<notin> set s) [crc_source_type r, crc_source_id r, crc_title r, crc_detail_path r] \<and>
     (case crc_source_hash r of None \<Rightarrow> True | Some h \<Rightarrow> h \<noteq> [] \<and> strip h = h \<and> CHR 0x85 \<notin> set h)"

definition storable_payload :: "MemoryCompactCreate \<Rightarrow> bool" where
  "storable_payload p \<longleftrightarrow> plain_option (mcc_project p) \<and> short_option (mcc_review_score p) \<and> short_option (mcc_review_max_score p) \<and>
     list_all storable_source (mcc_source_refs p) \<and> newlines_only (mcc_markdown_body p)"

text \<open>A creation draws an unused identifier that is a file name; drawn identifiers are plain texts.\<close>

definition fresh_ids :: "compact_env \<Rightarrow> compact_vault \<Rightarrow> compact_call \<Rightarrow> bool" where
  "fresh_ids E s k \<longleftrightarrow> is_safe_note_id (cc_compact_id k) \<and> plain_text (cc_compact_id k) \<and> cat_of E s (cc_compact_id k) = None \<and>
     (\<forall>n. cc_new_uuid k n \<noteq> [] \<and> CHR 0x85 \<notin> set (cc_new_uuid k n))"

lemma set_deduplicate: "set (deduplicate_from seen refs) \<subseteq> set refs"
  by (induction seen refs rule: deduplicate_from.induct) (auto simp: Let_def)

lemma map_enumerate: "(\<And>n x. g (h n x) = g' x) \<Longrightarrow> map g (map (\<lambda>(n, x). h n x) (enumerate m xs)) = map g' xs"
  by (induction xs arbitrary: m) auto

lemma list_all_enumerate: "(\<And>n x. x \<in> set xs \<Longrightarrow> P (h n x)) \<Longrightarrow> list_all P (map (\<lambda>(n, x). h n x) (enumerate m xs))"
  by (induction xs arbitrary: m) auto

lemma created_refs_view:
  "map ref_view (created_refs f i p) = map (\<lambda>r. (crc_source_type r, crc_source_id r, crc_title r, crc_detail_path r)) (mcc_source_refs p)"
  unfolding created_refs_def by (rule map_enumerate) (simp add: ref_view_def)

lemma created_refs_Nil: "created_refs f i p = [] \<longleftrightarrow> mcc_source_refs p = []"
  by (simp add: created_refs_def enumerate_eq_zip)

lemma storable_created_refs:
  assumes "list_all storable_source (mcc_source_refs p)" and "i \<noteq> []" "CHR 0x85 \<notin> set i"
    and "\<And>n. f n \<noteq> [] \<and> CHR 0x85 \<notin> set (f n)"
  shows "list_all storable_ref (created_refs f i p)"
  unfolding created_refs_def
proof (rule list_all_enumerate)
  fix n r assume "r \<in> set (mcc_source_refs p)"
  with assms(1) have "storable_source r" by (simp add: list_all_iff)
  with assms(2-4) show "storable_ref \<lparr>csr_id = f n, csr_compact_id = i, csr_source_type = crc_source_type r, csr_source_id = crc_source_id r,
      csr_title = crc_title r, csr_detail_path = crc_detail_path r, csr_source_hash = crc_source_hash r\<rparr>"
    by (simp add: storable_ref_def storable_source_def ref_texts_def split: option.splits)
qed

text \<open>What an accepted payload is normalised to.\<close>

lemma normalized_createE:
  assumes "normalized_create now payload = Inr p"
  obtains q where "q = payload\<lparr>mcc_source_refs := deduplicate_source_refs (mcc_source_refs payload)\<rparr>" "validate_create q = Inr ()"
    "if mcc_status payload = COMPACT_CURRENT
     then mr_verdict (review_memory_compact (candidate_compact q) []) = VERDICT_PASS \<and>
       p = with_review_metadata now (review_memory_compact (candidate_compact q) []) q
     else p = q"
  using assms that
  by (auto simp: normalized_create_def Let_def and_then_Inr ensure_review_passes_def split: if_splits)

lemma storable_created:
  assumes "digest_ok E" "storable_payload payload" "fresh_ids E s k" "normalized_create now payload = Inr p"
  shows "storable (created_compact E (cc_new_uuid k) (cc_compact_id k) t p)" "newlines_only (mcc_markdown_body p)"
proof -
  obtain q where q: "q = payload\<lparr>mcc_source_refs := deduplicate_source_refs (mcc_source_refs payload)\<rparr>"
    "if mcc_status payload = COMPACT_CURRENT then p = with_review_metadata now (review_memory_compact (candidate_compact q) []) q else p = q"
    using normalized_createE [OF assms(4)] by metis
  have refs: "list_all storable_source (mcc_source_refs p)"
    using assms(2) set_deduplicate [of "[]" "mcc_source_refs payload"] q
    by (auto simp: storable_payload_def list_all_iff deduplicate_source_refs_def with_review_metadata_def split: if_splits)
  have same: "mcc_project p = mcc_project payload" "mcc_markdown_body p = mcc_markdown_body payload"
    using q by (auto simp: with_review_metadata_def split: if_splits)
  have scores: "short_option (mcc_review_score p)" "short_option (mcc_review_max_score p)"
    using q assms(2) review_short by (auto simp: with_review_metadata_def storable_payload_def split: if_splits)
  have policy: "plain_text MEMORY_COMPACT_POLICY_VERSION" "short_int MEMORY_COMPACT_GENERATION_REVISION"
    by (simp_all add: plain_text_def bracketed_def is_linebreak_def MEMORY_COMPACT_POLICY_VERSION_def
        MEMORY_COMPACT_GENERATION_REVISION_def int64_def int64_short)
  have id: "cc_compact_id k \<noteq> []" "CHR 0x85 \<notin> set (cc_compact_id k)"
    using assms(3) by (auto simp: fresh_ids_def is_safe_note_id_def plain_text_def one_line_def is_linebreak_def)
  show "newlines_only (mcc_markdown_body p)" using assms(2) same by (simp add: storable_payload_def)
  then show "storable (created_compact E (cc_new_uuid k) (cc_compact_id k) t p)"
    using assms(1-3) refs same scores policy id storable_created_refs [OF refs id]
    by (simp add: storable_def created_compact_def Let_def plain_option_def short_option_def digest_ok_def fresh_ids_def storable_payload_def
        newlines_only_def memory_compact_source_set_hash_def)
qed

text \<open>An accepted CURRENT payload is fit once stored.\<close>

lemma fit_created:
  assumes "digest_ok E" "storable_payload payload" "fresh_ids E s k" "normalized_create now payload = Inr p" "mcc_status p = COMPACT_CURRENT"
  shows "fit (normal (created_compact E (cc_new_uuid k) (cc_compact_id k) t p))" "mcc_review_verdict p = Some VERDICT_PASS"
proof -
  obtain q where q: "q = payload\<lparr>mcc_source_refs := deduplicate_source_refs (mcc_source_refs payload)\<rparr>" "validate_create q = Inr ()"
    "if mcc_status payload = COMPACT_CURRENT
     then mr_verdict (review_memory_compact (candidate_compact q) []) = VERDICT_PASS \<and>
       p = with_review_metadata now (review_memory_compact (candidate_compact q) []) q
     else p = q"
    using normalized_createE [OF assms(4)] by metis
  then have current: "mcc_status q = COMPACT_CURRENT"
    and v: "mr_verdict (review_memory_compact (candidate_compact q) []) = VERDICT_PASS"
    and p: "p = with_review_metadata now (review_memory_compact (candidate_compact q) []) q"
    using assms(5) by (auto simp: with_review_metadata_def split: if_splits)
  show "mcc_review_verdict p = Some VERDICT_PASS" using p v by (simp add: with_review_metadata_def)
  have valid: "mcc_source_refs q \<noteq> []" "missing_current_sections (mcc_markdown_body q) = []"
    using q(2) current by (auto simp: validate_create_def split: if_splits)
  have "mp_source_refs (candidate_compact q) \<noteq> []"
    using valid(1) by (simp add: candidate_compact_def created_refs_Nil)
  then have "fit (candidate_compact q)" using v valid by (simp add: fit_def candidate_compact_def)
  moreover have "newlines_only (mp_markdown_body (candidate_compact q))"
    using storable_created(2) [OF assms(1-4)] p by (simp add: candidate_compact_def with_review_metadata_def)
  ultimately show "fit (normal (created_compact E (cc_new_uuid k) (cc_compact_id k) t p))"
    by (rule fit_stored) (simp_all add: p candidate_compact_def normal_def created_compact_def with_review_metadata_def Let_def created_refs_view)
qed

end
