(* ===== verification/Compact_Properties.thy ===== *)
theory Compact_Properties
  imports Compact_Lifecycle
begin

text \<open>
  Histories of Compact calls and what holds along them, the effect of one promotion, the idempotence
  of creation, and the exact conditions of a passing review.
\<close>

section \<open>Catalogs with reviewed, unique current Compacts\<close>

definition sound_catalog :: "(str \<rightharpoonup> MemoryCompact) \<Rightarrow> bool" where
  "sound_catalog m \<longleftrightarrow>
     (\<forall>i j c d. m i = Some c \<and> m j = Some d \<and> mp_status c = COMPACT_CURRENT \<and> mp_status d = COMPACT_CURRENT \<and>
        mp_project c = mp_project d \<longrightarrow> i = j) \<and>
     (\<forall>i c. m i = Some c \<and> mp_status c = COMPACT_CURRENT \<longrightarrow> fit c \<and> mp_review_verdict c = Some VERDICT_PASS)"

lemma retire_current: "retire now X m i = Some c \<Longrightarrow> mp_status c = COMPACT_CURRENT \<Longrightarrow> m i = Some c \<and> i \<notin> X"
  by (auto simp: retire_def split: if_splits)

lemma sound_retire: "sound_catalog m \<Longrightarrow> sound_catalog (retire now X m)"
  unfolding sound_catalog_def by (meson retire_current)

lemma sound_other: "sound_catalog m \<Longrightarrow> mp_status u \<noteq> COMPACT_CURRENT \<Longrightarrow> sound_catalog (m(i \<mapsto> u))"
  unfolding sound_catalog_def by (simp split: if_splits) blast

lemma sound_removed: "sound_catalog m \<Longrightarrow> sound_catalog (m(i := None))"
  unfolding sound_catalog_def by (simp split: if_splits) blast

lemma sound_promoted:
  assumes "sound_catalog m" and "rivals m (mp_project u) (Some i) \<subseteq> X" and "fit u" "mp_review_verdict u = Some VERDICT_PASS"
  shows "sound_catalog ((retire now X m)(i \<mapsto> u))"
proof -
  have none: "mp_project c \<noteq> mp_project u" if "retire now X m j = Some c" "mp_status c = COMPACT_CURRENT" "j \<noteq> i" for j c
    using retire_current [OF that(1,2)] that assms(2) by (auto simp: rivals_def)
  have old: "sound_catalog (retire now X m)" using assms(1) by (rule sound_retire)
  show ?thesis
    unfolding sound_catalog_def
  proof (intro conjI allI impI)
    fix j j' c d
    assume "((retire now X m)(i \<mapsto> u)) j = Some c \<and> ((retire now X m)(i \<mapsto> u)) j' = Some d \<and> mp_status c = COMPACT_CURRENT \<and>
      mp_status d = COMPACT_CURRENT \<and> mp_project c = mp_project d"
    with old none show "j = j'" unfolding sound_catalog_def by (metis fun_upd_apply option.inject)
  next
    fix j c
    assume "((retire now X m)(i \<mapsto> u)) j = Some c \<and> mp_status c = COMPACT_CURRENT"
    with old assms(3,4) show "fit c" "mp_review_verdict c = Some VERDICT_PASS" unfolding sound_catalog_def by (metis fun_upd_apply option.inject)+
  qed
qed

section \<open>Histories\<close>

text \<open>
  One call of the services, whatever it returns; a creation gets a storable payload and draws a
  fresh identifier.
\<close>

inductive compact_step :: "compact_env \<Rightarrow> compact_vault \<Rightarrow> compact_vault \<Rightarrow> bool" for E where
  step_create: "storable_payload payload \<Longrightarrow> fresh_ids E s k \<Longrightarrow> compact_create E k payload s = (r, s') \<Longrightarrow> compact_step E s s'"
| step_promote: "compact_mark_current E k i s = (r, s') \<Longrightarrow> compact_step E s s'"
| step_archive: "compact_archive E k i s = (r, s') \<Longrightarrow> compact_step E s s'"
| step_delete: "compact_delete E k i confirm s = (r, s') \<Longrightarrow> compact_step E s s'"

lemma query_get_outcome:
  assumes "env_ok E s"
  shows "query_get E k i s = (case cat_of E s i of
    None \<Rightarrow> (Inl (MemoryCompactNotFoundError (''Memory compact not found: '' @ i)), s) | Some c \<Rightarrow> (Inr c, s))"
  using assms by (simp add: query_get_def bind_def gets_def store_get_catalog env_ok_def raise_def ret_def split: option.split)

text \<open>A promotion either refuses a Compact that is missing or not fit, or runs the repository's.\<close>

lemma compact_mark_current_cases:
  assumes "env_ok E s" and "compact_mark_current E k i s = (r, s')"
  obtains (refused) e where "r = Inl e" "s' = s" "cat_of E s i = None \<or> \<not> fit (the (cat_of E s i))"
  | (promoted) c where "cat_of E s i = Some c" "fit c"
      "repository_mark_current E k i (Some VERDICT_PASS) (Some (mr_total_score (review_memory_compact c [])))
        (Some (mr_max_score (review_memory_compact c []))) (Some (cc_review_now k)) s = (r, s')"
proof (cases "cat_of E s i")
  case None
  with assms refused show ?thesis unfolding compact_mark_current_def bind_def query_get_outcome [OF assms(1)] by auto
next
  case (Some c)
  show ?thesis
  proof (cases "fit c")
    case True
    with assms(2) Some show ?thesis
      unfolding compact_mark_current_def bind_def query_get_outcome [OF assms(1)]
      by (intro promoted [of c]) (auto simp: fit_def ensure_review_passes_def Let_def)
  next
    case False
    with assms(2) Some refused show ?thesis
      unfolding compact_mark_current_def bind_def query_get_outcome [OF assms(1)]
      by (auto simp: fit_def ensure_review_passes_def Let_def raise_def split: if_splits)
  qed
qed

lemma promoted_fit: "fit (promoted now verdict score max_score t c) = fit c"
  by (rule fit_cong) simp_all

lemma promoted_verdict [simp]: "mp_review_verdict (promoted now verdict score max_score t c) = verdict"
  by (simp add: promoted_def)

definition compacts_ok :: "compact_env \<Rightarrow> compact_vault \<Rightarrow> bool" where
  "compacts_ok E s \<longleftrightarrow> env_ok E s \<and> sound_catalog (cat_of E s)"

lemma promote_keeps:
  assumes "compacts_ok E s" and "compact_mark_current E k i s = (r, s')"
  shows "compacts_ok E s'"
proof -
  have ok: "env_ok E s" "sound_catalog (cat_of E s)" using assms(1) by (simp_all add: compacts_ok_def)
  from ok(1) assms(2) show ?thesis
  proof (cases rule: compact_mark_current_cases)
    case (promoted c)
    from mark_current_outcome [OF ok(1) promoted(1) review_short promoted(3)] show ?thesis
      using sound_promoted [OF ok(2)] sound_retire [OF ok(2)] promoted(2) by (auto simp: compacts_ok_def promoted_fit)
  qed (use assms(1) in simp)
qed

lemma create_keeps:
  assumes "compacts_ok E s" and "digest_ok E" and "storable_payload payload" and "fresh_ids E s k" and "compact_create E k payload s = (r, s')"
  shows "compacts_ok E s'"
proof (cases "normalized_create (cc_review_now k) payload")
  case (Inl e)
  then show ?thesis using assms(1,5) by (simp add: compact_create_def raise_def)
next
  case (Inr p)
  have ok: "env_ok E s" "sound_catalog (cat_of E s)" using assms(1) by (simp_all add: compacts_ok_def)
  let ?c = "created_compact E (cc_new_uuid k) (cc_compact_id k) (cc_now k) p"
  have c: "storable ?c" "is_safe_note_id (mp_id ?c)" "cat_of E s (mp_id ?c) = None"
    using storable_created(1) [OF assms(2-4) Inr] assms(4) by (simp_all add: created_compact_def Let_def fresh_ids_def)
  show ?thesis
  proof (cases "find_existing_by_signature E k s p")
    case None
    then have "repository_create E k p s = (r, s')" using assms(5) Inr by (simp add: compact_create_def bind_def gets_def)
    from create_outcome [OF ok(1) c this]
    consider "env_ok E s'" "cat_of E s' = (retire (cc_supersede_now k) (if mp_status ?c = COMPACT_CURRENT then rivals (cat_of E s) (mp_project ?c) None else {}) (cat_of E s))(mp_id ?c \<mapsto> normal ?c)"
      | X where "env_ok E s'" "cat_of E s' = retire (cc_supersede_now k) X (cat_of E s)" by blast
    then show ?thesis
    proof cases
      case 1
      show ?thesis
      proof (cases "mp_status ?c = COMPACT_CURRENT")
        case True
        then have "mcc_status p = COMPACT_CURRENT" by (simp add: created_compact_def Let_def)
        note fit = fit_created [OF assms(2-4) Inr this]
        have "rivals (cat_of E s) (mp_project (normal ?c)) (Some (mp_id ?c)) \<subseteq> rivals (cat_of E s) (mp_project ?c) None"
          by (auto simp: rivals_def)
        from sound_promoted [OF ok(2) this fit(1)] 1 True fit(2) show ?thesis
          by (simp add: compacts_ok_def normal_def created_compact_def Let_def)
      next
        case False
        with 1 sound_other [OF sound_retire [OF ok(2)]] show ?thesis by (simp add: compacts_ok_def)
      qed
    qed (use sound_retire [OF ok(2)] in \<open>simp add: compacts_ok_def\<close>)
  next
    case (Some d)
    then have "s' = s" using assms(5) Inr by (simp add: compact_create_def bind_def gets_def ret_def)
    with assms(1) show ?thesis by simp
  qed
qed

lemma archive_delete_keep:
  assumes "compacts_ok E s"
  shows "repository_archive E k i s = (r, s') \<Longrightarrow> compacts_ok E s'" and "repository_delete E k i s = (q, s') \<Longrightarrow> compacts_ok E s'"
proof -
  have ok: "env_ok E s" "sound_catalog (cat_of E s)" using assms by (simp_all add: compacts_ok_def)
  have archived: "mp_status (archived now c) \<noteq> COMPACT_CURRENT" for now c by (simp add: archived_def)
  show "compacts_ok E s'" if "repository_archive E k i s = (r, s')"
  proof (cases "cat_of E s i")
    case None
    with that assms show ?thesis unfolding repository_archive_def bind_def require_outcome [OF ok(1)] by simp
  next
    case (Some c)
    from archive_outcome [OF ok(1) Some that] show ?thesis
      using ok(2) sound_other [OF ok(2) archived] by (auto simp: compacts_ok_def)
  qed
  show "compacts_ok E s'" if "repository_delete E k i s = (q, s')"
  proof (cases "cat_of E s i")
    case None
    with that assms show ?thesis unfolding repository_delete_def bind_def require_outcome [OF ok(1)] by simp
  next
    case (Some c)
    from delete_outcome [OF ok(1) Some that] show ?thesis using ok(2) sound_removed [OF ok(2)] by (auto simp: compacts_ok_def)
  qed
qed

lemma compact_step_keeps: "compact_step E s s' \<Longrightarrow> digest_ok E \<Longrightarrow> compacts_ok E s \<Longrightarrow> compacts_ok E s'"
proof (induction rule: compact_step.induct)
  case (step_delete k i confirm s r s')
  then show ?case using archive_delete_keep(2) by (cases confirm) (auto simp: compact_delete_def raise_def)
qed (auto simp: compact_archive_def intro: create_keeps promote_keeps archive_delete_keep)

lemma compact_history_keeps: "(compact_step E)\<^sup>*\<^sup>* s s' \<Longrightarrow> digest_ok E \<Longrightarrow> compacts_ok E s \<Longrightarrow> compacts_ok E s'"
  by (induction rule: rtranclp_induct) (auto intro: compact_step_keeps)

lemma empty_vault_ok: "note_codec_ok (ce_codec E) \<Longrightarrow> compacts_ok E \<lparr>cv_files = [], cv_ops = n\<rparr>"
  by (simp add: compacts_ok_def env_ok_def vault_ok_def readable_def note_paths_def sound_catalog_def catalog_def store_get_def read_all_def)

section \<open>Properties\<close>

lemma singleton_list: "distinct xs \<Longrightarrow> c \<in> set xs \<Longrightarrow> (\<And>d. d \<in> set xs \<Longrightarrow> d = c) \<Longrightarrow> xs = [c]"
proof (cases xs)
  case (Cons x ys)
  assume "distinct xs" "\<And>d. d \<in> set xs \<Longrightarrow> d = c"
  with Cons show ?thesis by (cases ys) (metis distinct_length_2_or_more list.set_intros)+
qed simp

lemma listed: "env_ok E s \<Longrightarrow> c \<in> set (read_all (ce_codec E) D (cv_files s)) \<longleftrightarrow> cat_of E s (mp_id c) = Some c"
  by (rule vault.listing_cat)


definition promotion_of :: "compact_call \<Rightarrow> MemoryCompact \<Rightarrow> MemoryCompact" where
  "promotion_of k c = (let v = review_memory_compact c [] in
     promoted (cc_now k) (Some VERDICT_PASS) (Some (mr_total_score v)) (Some (mr_max_score v)) (Some (cc_review_now k)) c)"

definition retired_by :: "compact_call \<Rightarrow> MemoryCompact \<Rightarrow> MemoryCompact \<Rightarrow> MemoryCompact" where
  "retired_by k c d =
     (if mp_status d = COMPACT_CURRENT \<and> mp_project d = mp_project c then superseded (cc_supersede_now k) d else d)"

text \<open>
  C29: A promotion on a folder in order. When it returns, the Compact existed and was fit; it is now
  CURRENT with the passing review attached, every other CURRENT Compact of its project is superseded,
  and every other Compact is unchanged. When it raises, no Compact is lost and each is unchanged,
  superseded or the promoted one. Without failing file operations it returns exactly for the Compacts
  that exist and are fit.
\<close>

theorem promotion_replaces_the_current_compact:
  assumes "note_codec_ok (ce_codec E)" and "vault_ok (ce_codec E) (cv_files s)" and "compact_mark_current E k i s = (r, s')"
  shows "vault_ok (ce_codec E) (cv_files s') \<and>
    (case r of
       Inr u \<Rightarrow> \<exists>c. store_get (ce_codec E) D (cv_files s) i = Some c \<and> fit c \<and> u = promotion_of k c \<and>
         (\<forall>j. store_get (ce_codec E) D (cv_files s') j =
            (if j = i then Some u else map_option (retired_by k c) (store_get (ce_codec E) D (cv_files s) j)))
     | Inl e \<Rightarrow> \<forall>j. store_get (ce_codec E) D (cv_files s') j \<in>
         {store_get (ce_codec E) D (cv_files s) j,
          map_option (superseded (cc_supersede_now k)) (store_get (ce_codec E) D (cv_files s) j)} \<union>
         (if j = i then {map_option (promotion_of k) (store_get (ce_codec E) D (cv_files s) i)} else {})) \<and>
    ((\<forall>n. \<not> ce_fails E n) \<longrightarrow> (\<exists>u. r = Inr u) = (\<exists>c. store_get (ce_codec E) D (cv_files s) i = Some c \<and> fit c))"
proof -
  have ok: "env_ok E s" using assms(1,2) by (simp add: env_ok_def)
  have get: "store_get (ce_codec E) D (cv_files v) = cat_of E v" if "env_ok E v" for v
    using that store_get_catalog unfolding env_ok_def by blast
  from ok assms(3) show ?thesis
  proof (cases rule: compact_mark_current_cases)
    case (refused e)
    then show ?thesis using assms(2) by (auto simp: get [OF ok])
  next
    case (promoted c)
    note out = mark_current_outcome [OF ok promoted(1) review_short promoted(3)]
    let ?R = "rivals (cat_of E s) (mp_project c) (Some i)"
    have ok': "env_ok E s'" using out by simp
    have all: "retire (cc_supersede_now k) ?R (cat_of E s) j = map_option (retired_by k c) (cat_of E s j)" if "j \<noteq> i" for j
      using that by (cases "cat_of E s j") (auto simp: retire_def rivals_def retired_by_def)
    show ?thesis
    proof (cases r)
      case (Inl e)
      with out promoted(1) have part: "cat_of E s' j \<in> {cat_of E s j, map_option (superseded (cc_supersede_now k)) (cat_of E s j)} \<union>
          (if j = i then {map_option (promotion_of k) (cat_of E s i)} else {})" for j
        by (auto simp: retire_def promotion_of_def Let_def)
      have fails: "\<not> (\<forall>n. \<not> ce_fails E n)" using out Inl by auto
      show ?thesis
        unfolding Inl sum.case get [OF ok] get [OF ok']
      proof (intro conjI allI impI)
        show "vault_ok (ce_codec E) (cv_files s')" using ok' by (simp add: env_ok_def)
      qed (use part fails in \<open>blast+\<close>)
    next
      case (Inr u)
      with out have "u = promotion_of k c" "cat_of E s' = (retire (cc_supersede_now k) ?R (cat_of E s))(i \<mapsto> u)"
        by (auto simp: promotion_of_def Let_def)
      with Inr ok' promoted all show ?thesis by (simp add: env_ok_def get [OF ok] get [OF ok'])
    qed
  qed
qed

text \<open>
  C31: A review passes exactly when the Compact has sources, each of them complete, not marked as
  missing or broken, unchanged since it was recorded and named in the evidence summary; no blocking
  contradiction is mentioned; the project is named and no other project is claimed; the current state
  has three words or more; decisions, risks and next actions are present; and at most three points
  are lost on thin sections and length.
\<close>

theorem passing_reviews_are_exact:
  "mr_verdict (review_memory_compact c obs) = VERDICT_PASS \<longleftrightarrow>
     mp_source_refs c \<noteq> [] \<and> list_all (sound_ref c obs) (mp_source_refs c) \<and>
     list_all (\<lambda>p. \<not> contains (lower (mp_markdown_body c)) p) BLOCKING_CONTRADICTION_PATTERNS \<and>
     in_scope c \<and> thin c ''current_state'' = 0 \<and>
     list_all (\<lambda>key. compact_section c key \<noteq> []) [''durable_decisions'', ''risks_blockers'', ''next_actions''] \<and>
     deductions c \<le> 3"
  by (rule review_passes_iff)

section \<open>Idempotent creation\<close>

lemma read_all_draws:
  assumes "vault_ok C files"
  shows "read_all C D files = read_all C D' files"
proof -
  have "read_compact_file C D files p = read_compact_file C D' files p" if "p \<in> set (note_paths files)" for p
    using assms that unfolding vault_ok_def readable_def by metis
  then show ?thesis unfolding read_all_found [OF assms] found_def List.map_filter_def
    by (simp cong: map_cong filter_cong)
qed

text \<open>The paged search is a plain search.\<close>

definition candidates :: "compact_env \<Rightarrow> draws \<Rightarrow> compact_vault \<Rightarrow> str option \<Rightarrow> MemoryCompact list" where
  "candidates E D s project = descending mp_covered_to (filter_compacts (read_all (ce_codec E) D (cv_files s)) project None None None)"

lemma find_exists: "\<exists>d\<in>set xs. P d \<Longrightarrow> \<exists>d. find P xs = Some d \<and> P d \<and> d \<in> set xs"
  by (induction xs) auto

lemma find_append: "find P (xs @ ys) = (case find P xs of None \<Rightarrow> find P ys | Some x \<Rightarrow> Some x)"
  by (induction xs) auto

lemma find_from_plain:
  assumes "vault_ok (ce_codec E) (cv_files s)"
  shows "find_from E D s project signature offset = find (\<lambda>c. compact_signature E c = signature) (drop offset (candidates E D' s project))"
  using assms
proof (induction E D s project signature offset rule: find_from.induct)
  case (1 E D s project signature offset)
  let ?L = "candidates E D' s project" and ?match = "\<lambda>c. compact_signature E c = signature"
  let ?page = "take 200 (drop offset ?L)"
  have page: "list_compacts E (D offset) s project None None None 200 offset = (?page, length ?L)"
    using read_all_draws [OF 1(2), of "D offset" D'] by (simp add: list_compacts_def candidates_def Let_def)
  have split: "find ?match (drop offset ?L) =
      (case find ?match ?page of None \<Rightarrow> find ?match (drop (offset + length ?page) ?L) | Some c \<Rightarrow> Some c)"
  proof -
    have "drop (offset + length ?page) ?L = drop 200 (drop offset ?L)"
      by (cases "200 \<le> length (drop offset ?L)") (simp_all add: min_def add.commute)
    then have "drop offset ?L = ?page @ drop (offset + length ?page) ?L" by (metis append_take_drop_id)
    then show ?thesis by (metis find_append)
  qed
  show ?case
  proof (cases "find ?match ?page = None \<and> \<not> (?page = [] \<or> length ?L \<le> offset + length ?page)")
    case True
    have "find_from E D s project signature (offset + length ?page) = find ?match (drop (offset + length ?page) ?L)"
      using 1(1) [OF refl _ _ 1(2)] True unfolding page by simp
    with True show ?thesis unfolding split by (subst find_from.simps) (simp add: page Let_def)
  next
    case False
    moreover have "drop (offset + length ?page) ?L = []" if "?page = [] \<or> length ?L \<le> offset + length ?page" using that by auto
    ultimately show ?thesis unfolding split by (subst find_from.simps) (auto simp: page Let_def split: option.splits)
  qed
qed

lemma strip_stored: "strip (rstrip_newlines s) = strip s"
proof -
  obtain n where n: "s = rstrip_newlines s @ replicate n (CHR 0x0A)" using rstrip_decompose by blast
  have "strip (t @ replicate m (CHR 0x0A)) = strip t" for t m
  proof (induction m)
    case (Suc m)
    have "t @ replicate (Suc m) (CHR 0x0A) = (t @ replicate m (CHR 0x0A)) @ newline" by (simp add: replicate_append_same)
    with Suc show ?case by (metis strip_newline)
  qed simp
  with n show ?thesis by metis
qed

lemma signatures:
  "compact_signature E (created_compact E f i t p) = create_signature E p"
  "compact_signature E (normal c) = compact_signature E c"
  "compact_signature E (c\<lparr>mp_deduplicated := b\<rparr>) = compact_signature E c"
proof -
  have "map (\<lambda>r. \<lparr>ss_source_type = csr_source_type r, ss_source_id = csr_source_id r, ss_detail_path = csr_detail_path r,
      ss_source_hash = csr_source_hash r\<rparr>) (created_refs f i p) =
    map (\<lambda>r. \<lparr>ss_source_type = crc_source_type r, ss_source_id = crc_source_id r, ss_detail_path = crc_detail_path r,
      ss_source_hash = crc_source_hash r\<rparr>) (mcc_source_refs p)"
    unfolding created_refs_def by (rule map_enumerate) simp
  then show "compact_signature E (created_compact E f i t p) = create_signature E p"
    by (simp add: compact_signature_def create_signature_def created_compact_def Let_def)
qed (simp_all add: compact_signature_def normal_def body_hash_def strip_stored)

lemma normalized_again:
  assumes "normalized_create now payload = Inr p"
  obtains p' where "normalized_create now' payload = Inr p'" "create_signature E p' = create_signature E p" "mcc_project p' = mcc_project p"
  using assms that
  by (auto simp: normalized_create_def Let_def and_then_Inr create_signature_def with_review_metadata_def split: if_splits)

lemma created_entry:
  fixes E :: compact_env and k :: compact_call and p :: MemoryCompactCreate
  assumes "env_ok E s"
  defines "c \<equiv> created_compact E (cc_new_uuid k) (cc_compact_id k) (cc_now k) p"
  assumes "storable c" "is_safe_note_id (mp_id c)" "cat_of E s (mp_id c) = None" and "repository_create E k p s = (Inr v, s')"
  shows "env_ok E s'" "v = c" "cat_of E s' (mp_id c) = Some (normal c)"
  using create_outcome [OF assms(1) assms(3-6) [unfolded c_def]] unfolding c_def by auto


section \<open>An example\<close>

definition sample_compact_env :: compact_env where
  "sample_compact_env = \<lparr> ce_codec = sample_note_codec, ce_canonical_json = (\<lambda>_. []), ce_sha256 = (\<lambda>_. ''ab''), ce_fails = (\<lambda>_. False) \<rparr>"

definition sample_body :: str where
  "sample_body = join newline
     [''# Durable Decisions'', ''a b c'', ''# Current State'', ''a b c'', ''# Risks and Blockers'', ''a'',
      ''# Next Actions'', ''a b c'', ''# Coverage'', ''# Evidence Summary'', ''n1''] @ newline"

definition sample_payload :: MemoryCompactCreate where
  "sample_payload = \<lparr> mcc_project = None, mcc_covered_from = 0, mcc_covered_to = 1, mcc_markdown_body = sample_body,
     mcc_status = COMPACT_CURRENT,
     mcc_source_refs = [\<lparr> crc_source_type = ''note'', crc_source_id = ''n1'', crc_title = ''A'', crc_detail_path = ''a.md'', crc_source_hash = None \<rparr>],
     mcc_review_verdict = None, mcc_review_score = None, mcc_review_max_score = None, mcc_reviewed_at = None \<rparr>"

definition sample_compact_call :: compact_call where
  "sample_compact_call = \<lparr> cc_now = 5, cc_supersede_now = 5, cc_review_now = 4, cc_compact_id = ''c1'', cc_new_uuid = (\<lambda>_. ''r''),
     cc_get_draws = (\<lambda>_ _ _. ''x''), cc_read_draws = (\<lambda>_ _ _. ''x''), cc_write_draws = (\<lambda>_ _ _. ''x''),
     cc_query_draws = (\<lambda>_ _ _. ''x''), cc_page_draws = (\<lambda>_ _ _ _. ''x'') \<rparr>"

abbreviation empty_folder :: compact_vault where
  "empty_folder \<equiv> \<lparr>cv_files = [], cv_ops = 0\<rparr>"

lemma sample_compact_hyps:
  "note_codec_ok (ce_codec sample_compact_env)" "digest_ok sample_compact_env" "vault_ok (ce_codec sample_compact_env) []"
  "storable_payload sample_payload" "fresh_ids sample_compact_env empty_folder sample_compact_call" "\<forall>n. \<not> ce_fails sample_compact_env n"
  subgoal by (simp add: sample_compact_env_def sample_note_codec_ok)
  subgoal by (simp add: sample_compact_env_def digest_ok_def plain_text_def bracketed_def is_linebreak_def)
  subgoal by (simp add: vault_ok_def readable_def note_paths_def)
  subgoal by code_simp
  subgoal
    by (simp add: fresh_ids_def sample_compact_call_def is_safe_note_id_def path_parts_def plain_text_def bracketed_def is_linebreak_def
        catalog_def store_get_def read_all_def note_paths_def)
  subgoal by (simp add: sample_compact_env_def)
  done

lemma sample_normalized:
  "case normalized_create (cc_review_now sample_compact_call) sample_payload of Inl _ \<Rightarrow> False | Inr p \<Rightarrow> mcc_status p = COMPACT_CURRENT"
  by code_simp

lemma sample_run:
  obtains c s where "compact_create sample_compact_env sample_compact_call sample_payload empty_folder = (Inr c, s)"
    "env_ok sample_compact_env s" "mp_id c = ''c1''" "mp_status c = COMPACT_CURRENT" "cat_of sample_compact_env s ''c1'' = Some (normal c)" "fit (normal c)"
proof -
  let ?E = sample_compact_env and ?k = sample_compact_call
  note hyps = sample_compact_hyps
  obtain p where p: "normalized_create (cc_review_now ?k) sample_payload = Inr p" "mcc_status p = COMPACT_CURRENT"
    using sample_normalized by (auto split: sum.splits)
  have ok: "env_ok ?E empty_folder" using hyps by (simp add: env_ok_def)
  let ?c = "created_compact ?E (cc_new_uuid ?k) (cc_compact_id ?k) (cc_now ?k) p"
  obtain r s where run: "repository_create ?E ?k p empty_folder = (r, s)" by (cases "repository_create ?E ?k p empty_folder") auto
  have c: "mp_id ?c = ''c1''" "mp_status ?c = COMPACT_CURRENT" using p(2) by (simp_all add: created_compact_def Let_def sample_compact_call_def)
  have "storable ?c" "is_safe_note_id (mp_id ?c)" "cat_of ?E empty_folder (mp_id ?c) = None"
    using storable_created(1) [OF hyps(2,4,5) p(1)] hyps(5) by (simp_all add: created_compact_def Let_def fresh_ids_def)
  note entry = this
  have r: "r = Inr ?c" using create_outcome [OF ok entry run] hyps(6) by blast
  note out = created_entry [OF ok entry run [unfolded r]]
  have "find_existing_by_signature ?E ?k empty_folder p = None"
    unfolding find_existing_by_signature_def
    by (subst find_from.simps) (simp add: list_compacts_def read_all_def note_paths_def filter_compacts_def descending_def Let_def)
  with run r p(1) have "compact_create ?E ?k sample_payload empty_folder = (Inr ?c, s)"
    by (simp add: compact_create_def bind_def gets_def)
  with out(1,3) c fit_created(1) [OF hyps(2,4,5) p] show thesis by (intro that [of ?c s]) simp_all
qed


theorem promotion_replaces_the_current_compact_witness:
  "\<exists>s u s'. compact_mark_current sample_compact_env sample_compact_call ''c1'' s = (Inr u, s') \<and>
     store_get (ce_codec sample_compact_env) (\<lambda>_ _ _. []) (cv_files s') ''c1'' = Some u"
proof -
  let ?E = sample_compact_env and ?k = sample_compact_call
  obtain c s where run: "env_ok ?E s" "cat_of ?E s ''c1'' = Some (normal c)" "fit (normal c)" using sample_run by metis
  obtain r s' where promote: "compact_mark_current ?E ?k ''c1'' s = (r, s')" by (cases "compact_mark_current ?E ?k ''c1'' s") auto
  note outcome = promotion_replaces_the_current_compact [OF sample_compact_hyps(1) _ promote, of "\<lambda>_ _ _. []"]
  have "store_get (ce_codec ?E) (\<lambda>_ _ _. []) (cv_files s) ''c1'' = Some (normal c)" using run by (simp add: catalog_def)
  then obtain u where u: "r = Inr u" using outcome run(1,3) sample_compact_hyps(6) by (auto simp: env_ok_def)
  then have "store_get (ce_codec ?E) (\<lambda>_ _ _. []) (cv_files s') ''c1'' = Some u"
    using outcome run(1) by (auto simp: env_ok_def)
  with promote u show ?thesis by blast
qed


end
