(* ===== verification/Spec2Isabelle.thy ===== *)
theory Spec2Isabelle
  imports Memory_Lifecycle Conflict_Service Recovery_Properties Worker_Properties Rate_Limiter Index_Lease
    Readiness_Properties Preview_Service Compact_Reconciliation Existing_Memory Compact_Properties
begin

text \<open>
  Heterarchy Alexandria: the memory service, its operations and their correctness.

  The backend (\<open>src/backend/app\<close>) keeps memories as notes of an Obsidian vault, mirrors them as
  Context records in PostgreSQL for search, and reconciles what it is told with what it knows: a
  new memory is normalised into a candidate, compared with existing memories, and a plan is stored,
  reviewed and applied, which writes notes, relations, conflict sets and temporal overlays. Memory
  Compacts, reviewed summaries of a project, are notes of their own with one current per project. Around
  it stand the operations: recovery runs that rebuild the index from the vault, a maintenance
  queue on Redis with its workers, leases that keep index writers apart, and the readiness report.

  \<^bold>\<open>How the code is modelled.\<close>
  Classes with data are records, enumerations are datatypes, both with the names of the source.
  A method is a definition with its guards, early returns and effects in the order of the code. A
  computation with effects is a function from a state to a result and a new state; its result is
  \<open>Inl\<close> of the exception raised or \<open>Inr\<close> of the value returned (\<open>Prelude\<close>: \<open>bind\<close>, \<open>seq\<close>,
  \<open>raise\<close>, \<open>catch\<close>), so an exception keeps the writes made before it. Python integers are
  unbounded integers, floats are rationals with binary64 rounding made explicit, datetimes are
  integers of microseconds. A loop over a list is a total function; the paged scan of existing
  memory, whose length the listing decides, is a \<open>partial_function\<close> that is proved to end, and the paged
  search for a duplicate Compact has its own termination proof; where the code can wait or be interleaved with other tasks it is a step relation.

  \<^bold>\<open>What is a parameter.\<close>
  Code that is not in the repository is an argument of the definitions that call it, and what the
  repository relies on is a named hypothesis about it: the Redis server (\<open>redis_ok\<close>, per
  command, with lost requests, lost answers, error replies and expiry), the JSON codecs
  (\<open>codecs_ok\<close>, \<open>codec_ok\<close>, \<open>note_codec_ok\<close>), the file operations of the Compact folder, any of which
  may fail, the SQLAlchemy session with its faults (\<open>sql_round_trip\<close>,
  \<open>sql_fault_free\<close> only where progress is claimed), the PostgreSQL advisory lock (\<open>advisory_ok\<close>),
  hashing, uuid, clock, the model and embedding providers, and Context search
  (\<open>search_reads_only\<close>). Each hypothesis is met by a concrete instance in the witnesses; Redis
  by the in-memory server of \<open>Redis_Memory\<close>.

  \<^bold>\<open>Foundations.\<close>
  \<open>Prelude\<close> (text, ordered dictionaries, stateful computations), \<open>Py_Float\<close> (binary64), \<open>Difflib\<close>
  (\<open>SequenceMatcher.ratio\<close> with its autojunk heuristic).

  \<^bold>\<open>Reconciliation\<close> (\<open>memory/application/reconciliation\<close> and its repositories).
  \<^item> \<open>Reconciliation_Model\<close>, \<open>Context_Model\<close>: entities and enumerations.
  \<^item> \<open>Temporal_Policy\<close>, \<open>Temporal_Recall\<close>: validity intervals and recall as current, as of a time or
    over all states; the views return exactly the first matching memories.
  \<^item> \<open>Candidate_Service\<close>: normalisation of a candidate; what is created is a normal form of its type.
  \<^item> \<open>Relation_Classifier\<close>, \<open>Reconciliation_Plan\<close>: classification, gate for model proposals, plan;
    destructive relations rest on scope, time and claims.
  \<^item> \<open>Preview_Service\<close>: recall of the memories to compare with, embedding evidence, the stored plan;
    a preview only appends its plan and repeats it under its key.
  \<^item> \<open>Reconciliation_Store\<close>: the five tables. The locale \<open>keyed_table\<close> is the contract of an upsert
    (last write wins, keys stay unique), interpreted for results, overlays and conflict sets.
  \<^item> \<open>Reconciliation_Apply\<close>, \<open>Apply_Phases\<close>, \<open>Apply_Properties\<close>: the apply service, phase by phase;
    a recorded outcome matches what was written, review gate, idempotence, progress.
  \<^item> \<open>Conflict_Service\<close>, \<open>Compact_Reconciliation\<close>: conflict review; the fact buckets and safety review
    of a compact.
  \<^item> \<open>Existing_Memory\<close>: the paged scan over existing Contexts; it ends, fills gaps only, and a dry run
    writes nothing.
  \<^item> \<open>Memory_Lifecycle\<close>: applying and recalling together; tables stay well formed under any faults.

  \<^bold>\<open>Memory Compacts\<close> (\<open>memory/application/memory_compacts\<close>, \<open>memory_compact_repository.py\<close> and its modules).
  \<^item> \<open>Compact_Model\<close>, \<open>Compact_Markdown\<close>, \<open>Compact_Round_Trip\<close>: the entity, the Markdown serializer and
    the frontmatter parser; a storable Compact is read back, and two examples show what the condition
    excludes.
  \<^item> \<open>Compact_Review\<close>: the rubric, and exactly when a review passes.
  \<^item> \<open>Compact_Store\<close>, \<open>Compact_Vault\<close>, \<open>Compact_Repository\<close>: the folder of notes and the repository. The
    locale \<open>note_store\<close> is the contract of a write on the catalog of Compacts, also when it fails; it is
    interpreted on the store, and the repository operations are followed on the catalog.
  \<^item> \<open>Compact_Service\<close>, \<open>Compact_Lifecycle\<close>, \<open>Compact_Properties\<close>: creation, promotion, archiving and
    deletion; every current Compact is reviewed and unique along every history, creation is idempotent.

  \<^bold>\<open>Recovery\<close> (\<open>operations/application/recovery\<close>).
  \<^item> \<open>Recovery_Model\<close>, \<open>Recovery_Plan\<close>, \<open>Recovery_Run\<close>: manifests and the active record as files,
    planning, execution of steps, retry.
  \<^item> \<open>Recovery_Lock\<close>: the locale \<open>exclusive_record\<close> states mutual exclusion through an owned record and
    is interpreted on the active record. \<open>Recovery_Properties\<close>: what a recorded run has done.

  \<^bold>\<open>Maintenance queue\<close> (\<open>operations/infrastructure\<close>, workers).
  \<^item> \<open>Maintenance_Model\<close>, \<open>Redis_Codec\<close>, \<open>Redis_Server\<close>, \<open>Maintenance_Queue\<close>, \<open>Maintenance_Consumer\<close>,
    \<open>Maintenance_Worker\<close>, \<open>Batch_Notes\<close>, \<open>Rate_Limiter\<close>: jobs, codec, scripts, submitter, consumer,
    worker turn, batch writes, fixed-window limiter.
  \<^item> \<open>Job_Status\<close>, \<open>Queue_Properties\<close>, \<open>Queue_Refinement\<close>, \<open>Queue_Safety\<close>, \<open>Queue_Invariant\<close>,
    \<open>Maintenance_Properties\<close>, \<open>Worker_Properties\<close>: the abstract lifecycle of a job and that the code
    implements it (locale \<open>simulation\<close>), no job is acknowledged before its end is recorded, the data
    invariant along every history.

  \<^bold>\<open>Index leases\<close> (\<open>shared/application/index_maintenance_coordinator.py\<close>).
  \<open>Index_Coordinator\<close> models the condition variable and the counters of one process, \<open>Index_Lease\<close>
  several processes and the advisory lock: exclusion, no lost wake-up, writers wait for maintenance.

  \<^bold>\<open>Readiness\<close> (\<open>operations/application/readiness\<close>).
  \<open>Readiness_Model\<close>, \<open>Readiness_Policy\<close>, \<open>Readiness_Service\<close>, \<open>Readiness_Properties\<close>: exactly when a
  snapshot is ready, what it reports when dependencies fail, recovery, cache age, capabilities.

  \<^bold>\<open>Bounds.\<close>
  No definition uses fuel. Text holds the characters 0 to 255; characters beyond that range occur
  in the source only in fixed literals, which stand as their UTF-8 bytes.

  \<^bold>\<open>Not modelled.\<close>
  The HTTP, MCP and command line interfaces are thin adapters over the services above. Context
  search, embeddings and the Context repositories are dominated by SQL text and provider calls and
  appear as parameters; so do the vault and note services, which are file and Markdown I/O. The lock
  around Compact creation is not modelled: Compact calls follow one another. Memory cycles, resume
  packages, the managed specifications and the data integrity scan are left for extensions.
\<close>

end
